(* ===== verification/Inferx_Prelude.thy ===== *)
theory Inferx_Prelude
  imports Main "HOL-Library.Char_ord" "HOL-Library.List_Lexorder" "HOL-Library.Sublist"
begin

text \<open>
  What every component shares: the outcome of a Rust function, arithmetic of a build with overflow
  checks, string formatting and splitting, and the collections of simplification rules.

  A Rust function that returns \<open>Result\<close> and may panic yields \<open>Ok v\<close>, \<open>Err e\<close> or \<open>Panic\<close>. The
  service binary is the one of \<open>target/debug\<close> (\<open>src/Makefile\<close>, target \<open>svcdeploy\<close>), which is
  compiled with overflow checks: an addition, subtraction or multiplication that leaves the range of
  its type panics. Unsigned integers are \<open>nat\<close>, signed ones \<open>int\<close>; the range of a type is
  checked by the operation that could leave it, and the casts written \<open>as\<close> wrap.
\<close>

named_theorems res_simps \<open>unfolding of outcomes\<close>
named_theorems arith_defs \<open>definitions of the checked integer operations\<close>
named_theorems inv_intros \<open>an operation keeps the invariant of its component\<close>

section \<open>Outcomes\<close>

datatype ('a, 'e) res = Ok 'a | Err 'e | Panic

fun and_then :: "('a, 'e) res \<Rightarrow> ('a \<Rightarrow> ('b, 'e) res) \<Rightarrow> ('b, 'e) res" where
  "and_then (Ok x) f = f x"
| "and_then (Err e) f = Err e"
| "and_then Panic f = Panic"

fun is_ok :: "('a, 'e) res \<Rightarrow> bool" where
  "is_ok (Ok x) = True"
| "is_ok (Err e) = False"
| "is_ok Panic = False"

definition rassert :: "bool \<Rightarrow> (unit, 'e) res" where
  "rassert b = (if b then Ok () else Panic)"

definition opt_or_panic :: "'a option \<Rightarrow> ('a, 'e) res" where
  "opt_or_panic x = (case x of None \<Rightarrow> Panic | Some v \<Rightarrow> Ok v)"

lemma and_then_eq_Ok [res_simps]:
  "and_then r f = Ok y \<longleftrightarrow> (\<exists>x. r = Ok x \<and> f x = Ok y)"
  by (cases r) auto

lemma and_then_eq_Err [res_simps]:
  "and_then r f = Err e \<longleftrightarrow> r = Err e \<or> (\<exists>x. r = Ok x \<and> f x = Err e)"
  by (cases r) auto

lemma and_then_eq_Panic [res_simps]:
  "and_then r f = Panic \<longleftrightarrow> r = Panic \<or> (\<exists>x. r = Ok x \<and> f x = Panic)"
  by (cases r) auto

lemma and_then_cong [fundef_cong]:
  "r = r' \<Longrightarrow> (\<And>x. r' = Ok x \<Longrightarrow> f x = f' x) \<Longrightarrow> and_then r f = and_then r' f'"
  by (cases r') auto

lemma and_then_assoc: "and_then (and_then r f) g = and_then r (\<lambda>x. and_then (f x) g)"
  by (cases r) auto

lemma is_ok_iff: "is_ok r \<longleftrightarrow> (\<exists>x. r = Ok x)"
  by (cases r) auto

lemma rassert_eq_Ok [simp]: "rassert b = Ok u \<longleftrightarrow> b"
  by (simp add: rassert_def)

lemma rassert_eq_Err [simp]: "rassert b = Err e \<longleftrightarrow> False"
  by (simp add: rassert_def)

lemma rassert_eq_Panic [simp]: "rassert b = Panic \<longleftrightarrow> \<not> b"
  by (simp add: rassert_def)

lemma rassert_True [simp]: "rassert True = Ok ()"
  by (simp add: rassert_def)

lemma rassert_False [simp]: "rassert False = Panic"
  by (simp add: rassert_def)

lemma opt_or_panic_Some [simp]: "opt_or_panic (Some v) = Ok v"
  by (simp add: opt_or_panic_def)

lemma opt_or_panic_None [simp]: "opt_or_panic None = Panic"
  by (simp add: opt_or_panic_def)

lemma opt_or_panic_eq_Ok [simp]: "opt_or_panic x = Ok v \<longleftrightarrow> x = Some v"
  by (cases x) auto

lemma opt_or_panic_eq_Err [simp]: "opt_or_panic x = Err e \<longleftrightarrow> False"
  by (cases x) auto

text \<open>An outcome that is not a panic and whose value, if there is one, satisfies \<open>P\<close>.\<close>

definition safe :: "('a \<Rightarrow> bool) \<Rightarrow> ('a, 'e) res \<Rightarrow> bool" where
  "safe P r = (case r of Ok x \<Rightarrow> P x | Err _ \<Rightarrow> True | Panic \<Rightarrow> False)"

lemma safe_simps [simp]: "safe P (Ok x) = P x" "safe P (Err e)" "\<not> safe P Panic"
  by (simp_all add: safe_def)

lemma safe_and_then: "safe P r \<Longrightarrow> (\<And>x. r = Ok x \<Longrightarrow> P x \<Longrightarrow> safe Q (f x)) \<Longrightarrow> safe Q (and_then r f)"
  by (cases r) auto

lemma safe_weaken: "safe P r \<Longrightarrow> (\<And>x. P x \<Longrightarrow> Q x) \<Longrightarrow> safe Q r"
  by (cases r) auto

lemma safe_not_Panic: "safe P r \<Longrightarrow> r \<noteq> Panic"
  by auto

text \<open>A loop whose body may fail: the accumulator is threaded, the first failure ends it.\<close>

fun rfold :: "('a \<Rightarrow> 's \<Rightarrow> ('s, 'e) res) \<Rightarrow> 'a list \<Rightarrow> 's \<Rightarrow> ('s, 'e) res" where
  "rfold f [] s = Ok s"
| "rfold f (x # xs) s = and_then (f x s) (rfold f xs)"

lemma rfold_append: "rfold f (xs @ ys) s = and_then (rfold f xs s) (rfold f ys)"
proof (induction xs arbitrary: s)
  case (Cons x xs)
  then show ?case by (cases "f x s") simp_all
qed simp

lemma rfold_Cons_Ok:
  "rfold f (x # xs) s = Ok s' \<longleftrightarrow> (\<exists>t. f x s = Ok t \<and> rfold f xs t = Ok s')"
  by (simp add: and_then_eq_Ok)

lemma rfold_invariant:
  assumes "rfold f xs s = Ok s'" and "P s"
    and step: "\<And>x a b. x \<in> set xs \<Longrightarrow> P a \<Longrightarrow> f x a = Ok b \<Longrightarrow> P b"
  shows "P s'"
  using assms
proof (induction xs arbitrary: s)
  case Nil
  then show ?case by simp
next
  case (Cons x xs)
  from Cons.prems(1) obtain t where t: "f x s = Ok t" "rfold f xs t = Ok s'"
    unfolding rfold_Cons_Ok by blast
  have "P t" using Cons.prems(2,3) t(1) by (meson list.set_intros(1))
  moreover have "\<And>y a b. y \<in> set xs \<Longrightarrow> P a \<Longrightarrow> f y a = Ok b \<Longrightarrow> P b"
    using Cons.prems(3) by (meson list.set_intros(2))
  ultimately show ?case using Cons.IH[OF t(2)] by blast
qed

section \<open>Integers of a build with overflow checks\<close>

definition u64_add :: "nat \<Rightarrow> nat \<Rightarrow> (nat, 'e) res" where
  [arith_defs]: "u64_add a b = (if a + b < 2 ^ 64 then Ok (a + b) else Panic)"

definition u64_sub :: "nat \<Rightarrow> nat \<Rightarrow> (nat, 'e) res" where
  [arith_defs]: "u64_sub a b = (if b \<le> a then Ok (a - b) else Panic)"

definition u64_mul :: "nat \<Rightarrow> nat \<Rightarrow> (nat, 'e) res" where
  [arith_defs]: "u64_mul a b = (if a * b < 2 ^ 64 then Ok (a * b) else Panic)"

definition u64_div :: "nat \<Rightarrow> nat \<Rightarrow> (nat, 'e) res" where
  [arith_defs]: "u64_div a b = (if b = 0 then Panic else Ok (a div b))"

definition u64_saturating_add :: "nat \<Rightarrow> nat \<Rightarrow> nat" where
  [arith_defs]: "u64_saturating_add a b = min (a + b) (2 ^ 64 - 1)"

definition in_i64 :: "int \<Rightarrow> bool" where
  [arith_defs]: "in_i64 x \<longleftrightarrow> - (2 ^ 63) \<le> x \<and> x < 2 ^ 63"

definition i64_add :: "int \<Rightarrow> int \<Rightarrow> (int, 'e) res" where
  [arith_defs]: "i64_add a b = (if in_i64 (a + b) then Ok (a + b) else Panic)"

definition i64_sub :: "int \<Rightarrow> int \<Rightarrow> (int, 'e) res" where
  [arith_defs]: "i64_sub a b = (if in_i64 (a - b) then Ok (a - b) else Panic)"

definition i64_mul :: "int \<Rightarrow> int \<Rightarrow> (int, 'e) res" where
  [arith_defs]: "i64_mul a b = (if in_i64 (a * b) then Ok (a * b) else Panic)"

text \<open>Casts written \<open>as\<close> in the source: they never fail, they take the low bits.\<close>

definition u64_as_i64 :: "nat \<Rightarrow> int" where
  [arith_defs]: "u64_as_i64 n = (int n + 2 ^ 63) mod 2 ^ 64 - 2 ^ 63"

definition i64_as_u64 :: "int \<Rightarrow> nat" where
  [arith_defs]: "i64_as_u64 x = nat (x mod 2 ^ 64)"

definition u64_as_u32 :: "nat \<Rightarrow> nat" where
  [arith_defs]: "u64_as_u32 n = n mod 2 ^ 32"

definition i64_as_u32 :: "int \<Rightarrow> nat" where
  [arith_defs]: "i64_as_u32 x = nat (x mod 2 ^ 32)"

lemma u64_as_i64_small [simp]: "n < 2 ^ 63 \<Longrightarrow> u64_as_i64 n = int n"
  by (simp add: u64_as_i64_def)

lemma u64_as_u32_small [simp]: "n < 2 ^ 32 \<Longrightarrow> u64_as_u32 n = n"
  by (simp add: u64_as_u32_def)

lemma u64_as_i64_range: "in_i64 (u64_as_i64 n)"
  unfolding in_i64_def u64_as_i64_def
  using pos_mod_bound[of "2 ^ 64" "int n + 2 ^ 63"] pos_mod_sign[of "2 ^ 64" "int n + 2 ^ 63"]
  by simp

lemma i64_add_eq_Ok: "i64_add a b = Ok c \<longleftrightarrow> c = a + b \<and> in_i64 (a + b)"
  by (auto simp: i64_add_def)

lemma i64_sub_eq_Ok: "i64_sub a b = Ok c \<longleftrightarrow> c = a - b \<and> in_i64 (a - b)"
  by (auto simp: i64_sub_def)

lemma i64_sub_add_cancel: "i64_sub a b = Ok c \<Longrightarrow> in_i64 a \<Longrightarrow> i64_add c b = Ok a"
  by (auto simp: i64_sub_def i64_add_def split: if_splits)

lemma i64_add_not_Err [simp]: "i64_add a b \<noteq> Err e"
  by (simp add: i64_add_def)

lemma i64_sub_not_Err [simp]: "i64_sub a b \<noteq> Err e"
  by (simp add: i64_sub_def)

lemma u64_add_not_Err [simp]: "u64_add a b \<noteq> Err e"
  by (simp add: u64_add_def)

lemma u64_mul_not_Err [simp]: "u64_mul a b \<noteq> Err e"
  by (simp add: u64_mul_def)

section \<open>Strings\<close>

text \<open>
  A \<open>String\<close> is its list of bytes, so \<open>len()\<close> is \<open>length\<close> and the order of \<open>String\<close> is the
  lexicographic order of \<open>List_Lexorder\<close>. The decimal rendering is the one of \<open>format!("{}", n)\<close>.
\<close>

fun show_nat :: "nat \<Rightarrow> string" where
  "show_nat n = (if n < 10 then [char_of (48 + n)]
     else show_nat (n div 10) @ [char_of (48 + n mod 10)])"

declare show_nat.simps [simp del]

definition show_int :: "int \<Rightarrow> string" where
  "show_int i = (if i < 0 then CHR ''-'' # show_nat (nat (- i)) else show_nat (nat i))"

definition is_digit :: "char \<Rightarrow> bool" where
  "is_digit c \<longleftrightarrow> CHR ''0'' \<le> c \<and> c \<le> CHR ''9''"

lemma of_char_digit: "n < 10 \<Longrightarrow> (of_char (char_of (48 + n :: nat)) :: nat) = 48 + n"
  by simp

lemma digit_char [simp]: "n < 10 \<Longrightarrow> is_digit (char_of (48 + n :: nat))"
  by (simp add: is_digit_def less_eq_char_def of_char_digit)

lemma show_nat_digits: "c \<in> set (show_nat n) \<Longrightarrow> is_digit c"
proof (induction n rule: show_nat.induct)
  case (1 n)
  show ?case
  proof (cases "n < 10")
    case True
    then show ?thesis using "1.prems" by (subst (asm) show_nat.simps) simp
  next
    case False
    then have "c \<in> set (show_nat (n div 10)) \<or> c = char_of (48 + n mod 10)"
      using "1.prems" by (subst (asm) show_nat.simps) auto
    then show ?thesis using "1.IH" False by auto
  qed
qed

lemma show_nat_not_Nil [simp]: "show_nat n \<noteq> []"
  by (subst show_nat.simps) simp

lemma show_nat_inj: "show_nat m = show_nat n \<Longrightarrow> m = n"
proof (induction m arbitrary: n rule: show_nat.induct)
  case (1 m)
  have last_digit: "\<And>k. last (show_nat k) = char_of (48 + k mod 10)"
    by (subst show_nat.simps) simp
  have init: "\<And>k. butlast (show_nat k) = (if k < 10 then [] else show_nat (k div 10))"
    by (subst show_nat.simps) simp
  have "(of_char (char_of (48 + m mod 10)) :: nat) = of_char (char_of (48 + n mod 10))"
    using "1.prems" last_digit by metis
  then have "48 + m mod 10 = 48 + n mod 10"
    using of_char_digit[of "m mod 10"] of_char_digit[of "n mod 10"] by simp
  then have md: "m mod 10 = n mod 10" by simp
  have bl: "(if m < 10 then [] else show_nat (m div 10)) = (if n < 10 then [] else show_nat (n div 10))"
    using "1.prems" init by metis
  show ?case
  proof (cases "m < 10")
    case True
    with bl have "n < 10" by (metis show_nat_not_Nil)
    with True md show ?thesis by simp
  next
    case False
    with bl have n: "\<not> n < 10" and "show_nat (m div 10) = show_nat (n div 10)"
      by (auto split: if_splits)
    then have "m div 10 = n div 10" using "1.IH" False by blast
    with md show ?thesis by (metis div_mult_mod_eq)
  qed
qed

lemma show_nat_no_dash: "show_nat n \<noteq> CHR ''-'' # xs"
proof
  assume "show_nat n = CHR ''-'' # xs"
  then have "CHR ''-'' \<in> set (show_nat n)" by simp
  then have "is_digit CHR ''-''" by (rule show_nat_digits)
  then show False by (simp add: is_digit_def less_eq_char_def)
qed

lemma show_int_inj:
  assumes "show_int i = show_int j"
  shows "i = j"
proof (cases "i < 0")
  case True
  then have neg: "j < 0" and "show_nat (nat (- i)) = show_nat (nat (- j))"
    using assms show_nat_no_dash[symmetric] by (auto simp: show_int_def split: if_splits)
  then have "nat (- i) = nat (- j)" using show_nat_inj by blast
  then show ?thesis using True neg by simp
next
  case False
  then have pos: "\<not> j < 0" and "show_nat (nat i) = show_nat (nat j)"
    using assms show_nat_no_dash by (auto simp: show_int_def split: if_splits)
  then have "nat i = nat j" using show_nat_inj by blast
  then show ?thesis using False pos by simp
qed

lemma show_int_chars: "c \<in> set (show_int i) \<Longrightarrow> c = CHR ''-'' \<or> is_digit c"
  by (auto simp: show_int_def dest: show_nat_digits split: if_splits)

lemma show_int_no_slash [simp]: "CHR ''/'' \<notin> set (show_int i)"
  by (auto dest!: show_int_chars simp: is_digit_def less_eq_char_def)

text \<open>\<open>split\<close> on a one-character pattern: one more piece than separators.\<close>

fun split_on :: "char \<Rightarrow> string \<Rightarrow> string list" where
  "split_on c [] = [[]]"
| "split_on c (x # xs) =
     (if x = c then [] # split_on c xs
      else (case split_on c xs of [] \<Rightarrow> [[x]] | p # ps \<Rightarrow> (x # p) # ps))"

fun join_with :: "string \<Rightarrow> string list \<Rightarrow> string" where
  "join_with sep [] = []"
| "join_with sep [p] = p"
| "join_with sep (p # q # ps) = p @ sep @ join_with sep (q # ps)"

lemma split_on_not_Nil [simp]: "split_on c s \<noteq> []"
  by (induction s) (auto split: list.splits)

lemma join_split_on: "join_with [c] (split_on c s) = s"
proof (induction s)
  case (Cons x xs)
  obtain p ps where p: "split_on c xs = p # ps" by (cases "split_on c xs") auto
  then show ?case using Cons by (cases ps) auto
qed simp

lemma split_on_no_sep: "c \<notin> set p \<Longrightarrow> split_on c p = [p]"
  by (induction p) auto

lemma split_on_append_sep:
  "c \<notin> set p \<Longrightarrow> split_on c (p @ c # s) = p # split_on c s"
  by (induction p) auto

lemma split_on_pieces: "p \<in> set (split_on c s) \<Longrightarrow> c \<notin> set p"
  by (induction s arbitrary: p) (auto split: if_splits list.splits)

lemma split_on_join:
  "ps \<noteq> [] \<Longrightarrow> (\<forall>p \<in> set ps. c \<notin> set p) \<Longrightarrow> split_on c (join_with [c] ps) = ps"
  by (induction "[c]" ps rule: join_with.induct) (auto simp: split_on_no_sep split_on_append_sep)

definition is_ws :: "char \<Rightarrow> bool" where
  "is_ws c \<longleftrightarrow> c \<in> {CHR '' '', CHR 0x09, CHR 0x0A, CHR 0x0B, CHR 0x0C, CHR 0x0D}"

definition trim :: "string \<Rightarrow> string" where
  "trim s = rev (dropWhile is_ws (rev (dropWhile is_ws s)))"

definition slash3 :: "string \<Rightarrow> string \<Rightarrow> string \<Rightarrow> string" where
  "slash3 a b c = a @ ''/'' @ b @ ''/'' @ c"

definition slash4 :: "string \<Rightarrow> string \<Rightarrow> string \<Rightarrow> string \<Rightarrow> string" where
  "slash4 a b c d = a @ ''/'' @ b @ ''/'' @ c @ ''/'' @ d"

definition slash5 :: "string \<Rightarrow> string \<Rightarrow> string \<Rightarrow> string \<Rightarrow> string \<Rightarrow> string" where
  "slash5 a b c d e = a @ ''/'' @ b @ ''/'' @ c @ ''/'' @ d @ ''/'' @ e"

abbreviation no_slash :: "string \<Rightarrow> bool" where
  "no_slash s \<equiv> CHR ''/'' \<notin> set s"

lemma split_once_inj:
  "c \<notin> set a \<Longrightarrow> c \<notin> set a' \<Longrightarrow> a @ c # s = a' @ c # s' \<longleftrightarrow> a = a' \<and> s = s'"
proof
  assume h: "c \<notin> set a" "c \<notin> set a'" "a @ c # s = a' @ c # s'"
  then have "takeWhile (\<lambda>x. x \<noteq> c) (a @ c # s) = takeWhile (\<lambda>x. x \<noteq> c) (a' @ c # s')" by simp
  moreover have "takeWhile (\<lambda>x. x \<noteq> c) (a @ c # s) = a" "takeWhile (\<lambda>x. x \<noteq> c) (a' @ c # s') = a'"
    using h(1,2) by (induction a, auto) (induction a', auto)
  ultimately show "a = a' \<and> s = s'" using h(3) by simp
qed simp

lemma slash3_inj:
  "no_slash a \<Longrightarrow> no_slash a' \<Longrightarrow> no_slash b \<Longrightarrow> no_slash b' \<Longrightarrow>
   slash3 a b c = slash3 a' b' c' \<longleftrightarrow> a = a' \<and> b = b' \<and> c = c'"
  by (auto simp: slash3_def split_once_inj)

lemma slash4_inj:
  "no_slash a \<Longrightarrow> no_slash a' \<Longrightarrow> no_slash b \<Longrightarrow> no_slash b' \<Longrightarrow> no_slash c \<Longrightarrow> no_slash c' \<Longrightarrow>
   slash4 a b c d = slash4 a' b' c' d' \<longleftrightarrow> a = a' \<and> b = b' \<and> c = c' \<and> d = d'"
  by (auto simp: slash4_def split_once_inj)

lemma slash5_inj:
  "no_slash a \<Longrightarrow> no_slash a' \<Longrightarrow> no_slash b \<Longrightarrow> no_slash b' \<Longrightarrow> no_slash c \<Longrightarrow> no_slash c' \<Longrightarrow>
   no_slash d \<Longrightarrow> no_slash d' \<Longrightarrow>
   slash5 a b c d e = slash5 a' b' c' d' e' \<longleftrightarrow> a = a' \<and> b = b' \<and> c = c' \<and> d = d' \<and> e = e'"
  by (auto simp: slash5_def split_once_inj)

end
