(* ===== verification/BTree_Map.thy ===== *)
theory BTree_Map
  imports Inferx_Prelude
begin

text \<open>
  The ordered containers of the Rust standard library. A \<open>BTreeMap\<close> is the list of its entries in
  key order, a \<open>BTreeSet\<close> a map to \<open>unit\<close>; iteration is the list itself, \<open>range\<close> the entries from
  a key on. The locale \<open>keyed_store\<close> is the contract the components rely on: what a lookup returns
  after an insertion or a removal. It is interpreted on the map operations here and on the object
  manager in \<open>Data_Obj\<close>.
\<close>

named_theorems bt_simps \<open>lookup and key equations of ordered maps\<close>

type_synonym ('k, 'v) btmap = "('k \<times> 'v) list"
type_synonym 'k btset = "('k, unit) btmap"

section \<open>Operations\<close>

definition bt_get :: "'k \<Rightarrow> ('k, 'v) btmap \<Rightarrow> 'v option" where
  "bt_get k m = map_of m k"

fun bt_insert :: "'k::linorder \<Rightarrow> 'v \<Rightarrow> ('k, 'v) btmap \<Rightarrow> ('k, 'v) btmap" where
  "bt_insert k v [] = [(k, v)]"
| "bt_insert k v ((k', v') # m) =
     (if k < k' then (k, v) # (k', v') # m
      else if k = k' then (k, v) # m
      else (k', v') # bt_insert k v m)"

definition bt_remove :: "'k \<Rightarrow> ('k, 'v) btmap \<Rightarrow> ('k, 'v) btmap" where
  "bt_remove k m = filter (\<lambda>e. fst e \<noteq> k) m"

definition bt_contains :: "'k \<Rightarrow> ('k, 'v) btmap \<Rightarrow> bool" where
  "bt_contains k m \<longleftrightarrow> bt_get k m \<noteq> None"

definition bt_keys :: "('k, 'v) btmap \<Rightarrow> 'k list" where
  "bt_keys m = map fst m"

definition bt_values :: "('k, 'v) btmap \<Rightarrow> 'v list" where
  "bt_values m = map snd m"

definition bt_first :: "('k, 'v) btmap \<Rightarrow> ('k \<times> 'v) option" where
  "bt_first m = (case m of [] \<Rightarrow> None | e # _ \<Rightarrow> Some e)"

definition bt_range_from :: "'k::linorder \<Rightarrow> ('k, 'v) btmap \<Rightarrow> ('k, 'v) btmap" where
  "bt_range_from k m = dropWhile (\<lambda>e. fst e < k) m"

definition bt_of_list :: "('k::linorder \<times> 'v) list \<Rightarrow> ('k, 'v) btmap" where
  "bt_of_list es = fold (\<lambda>(k, v). bt_insert k v) es []"

definition bs_insert :: "'k::linorder \<Rightarrow> 'k btset \<Rightarrow> 'k btset" where
  "bs_insert k s = bt_insert k () s"

definition bs_of_list :: "'k::linorder list \<Rightarrow> 'k btset" where
  "bs_of_list ks = fold bs_insert ks []"

text \<open>Keys in strictly increasing order: what iteration relies on.\<close>

definition bt_ok :: "('k::linorder, 'v) btmap \<Rightarrow> bool" where
  "bt_ok m \<longleftrightarrow> sorted_wrt (<) (map fst m)"

section \<open>Lookup\<close>

lemma bt_get_Nil [simp, bt_simps]: "bt_get k [] = None"
  by (simp add: bt_get_def)

lemma bt_get_Cons [bt_simps]: "bt_get k (e # m) = (if fst e = k then Some (snd e) else bt_get k m)"
  by (simp add: bt_get_def)

lemma bt_get_insert [simp, bt_simps]:
  "bt_get k (bt_insert k' v m) = (if k = k' then Some v else bt_get k m)"
  by (induction m) (auto simp: bt_get_Cons)

lemma bt_get_remove [simp, bt_simps]:
  "bt_get k (bt_remove k' m) = (if k = k' then None else bt_get k m)"
  by (induction m) (auto simp: bt_get_Cons bt_remove_def)

lemma bt_get_filter_keys: "bt_get k (filter (\<lambda>e. P (fst e)) m) = (if P k then bt_get k m else None)"
  by (induction m) (auto simp: bt_get_Cons)

lemma bt_contains_iff: "bt_contains k m \<longleftrightarrow> k \<in> set (bt_keys m)"
  by (induction m) (auto simp: bt_contains_def bt_get_Cons bt_keys_def)

lemma bt_get_Some_mem: "bt_get k m = Some v \<Longrightarrow> (k, v) \<in> set m"
  by (simp add: bt_get_def map_of_SomeD)

lemma bt_get_Some_value: "bt_get k m = Some v \<Longrightarrow> v \<in> set (bt_values m)"
  by (force simp: bt_values_def dest: bt_get_Some_mem)

lemma bt_get_None_iff: "bt_get k m = None \<longleftrightarrow> k \<notin> set (bt_keys m)"
  using bt_contains_iff[of k m] by (cases "bt_get k m") (simp_all add: bt_contains_def)

lemma bt_keys_Nil [simp]: "bt_keys [] = []"
  by (simp add: bt_keys_def)

lemma bt_keys_Cons [simp]: "bt_keys (e # m) = fst e # bt_keys m"
  by (simp add: bt_keys_def)

lemma bt_keys_insert [simp]: "set (bt_keys (bt_insert k v m)) = insert k (set (bt_keys m))"
  by (induction k v m rule: bt_insert.induct) auto

lemma bt_keys_remove [simp]: "set (bt_keys (bt_remove k m)) = set (bt_keys m) - {k}"
  by (auto simp: bt_keys_def bt_remove_def)

lemma bt_insert_not_Nil [simp]: "bt_insert k v m \<noteq> []"
  by (cases "(k, v, m)" rule: bt_insert.cases) auto

lemma bt_remove_absent: "k \<notin> set (bt_keys m) \<Longrightarrow> bt_remove k m = m"
  by (auto simp: bt_remove_def bt_keys_def filter_id_conv)

lemma bs_contains_insert [simp]: "bt_contains k (bs_insert k' s) \<longleftrightarrow> k = k' \<or> bt_contains k s"
  by (simp add: bt_contains_def bs_insert_def)

lemma bt_contains_remove [simp]: "bt_contains k (bt_remove k' s) \<longleftrightarrow> k \<noteq> k' \<and> bt_contains k s"
  by (simp add: bt_contains_def)

lemma bt_contains_insert [simp]: "bt_contains k (bt_insert k' v s) \<longleftrightarrow> k = k' \<or> bt_contains k s"
  by (simp add: bt_contains_def)

lemma bt_contains_Nil [simp]: "\<not> bt_contains k []"
  by (simp add: bt_contains_def)

section \<open>Order\<close>

lemma bt_ok_Nil [simp]: "bt_ok []"
  by (simp add: bt_ok_def)

lemma bt_ok_Cons: "bt_ok ((k, v) # m) \<longleftrightarrow> (\<forall>k' \<in> set (bt_keys m). k < k') \<and> bt_ok m"
  by (auto simp: bt_ok_def bt_keys_def)

lemma bt_ok_insert [simp, inv_intros]: "bt_ok m \<Longrightarrow> bt_ok (bt_insert k v m)"
proof (induction m)
  case (Cons e m)
  obtain k' v' where e: "e = (k', v')" by force
  then show ?case using Cons by (auto simp: bt_ok_Cons)
qed (simp add: bt_ok_def)

lemma bt_ok_filter: "bt_ok m \<Longrightarrow> bt_ok (filter P m)"
  by (induction m) (auto simp: bt_ok_def)

lemma bt_ok_remove [simp, inv_intros]: "bt_ok m \<Longrightarrow> bt_ok (bt_remove k m)"
  by (simp add: bt_remove_def bt_ok_filter)

lemma bt_ok_distinct: "bt_ok m \<Longrightarrow> distinct (bt_keys m)"
  by (auto simp: bt_ok_def bt_keys_def strict_sorted_iff)

lemma bt_get_mem_iff: "bt_ok m \<Longrightarrow> (k, v) \<in> set m \<longleftrightarrow> bt_get k m = Some v"
  using bt_ok_distinct[of m] by (auto simp: bt_get_def bt_keys_def)

lemma bt_ok_map_values: "bt_ok (map (\<lambda>(k, v). (k, f k v)) m) \<longleftrightarrow> bt_ok m"
  by (simp add: bt_ok_def comp_def case_prod_unfold)

lemma bt_get_map_values:
  "bt_get k (map (\<lambda>(k, v). (k, f k v)) m) = map_option (f k) (bt_get k m)"
  by (induction m) (auto simp: bt_get_Cons)

lemma bt_ok_eqI:
  assumes "bt_ok m" "bt_ok n" "\<And>k. bt_get k m = bt_get k n"
  shows "m = n"
proof -
  have "set m = set n"
    using assms by (auto simp: bt_get_mem_iff[OF assms(1)] bt_get_mem_iff[OF assms(2)])
  then have "set (map fst m) = set (map fst n)" by simp
  then have ks: "map fst m = map fst n"
    using assms(1,2) by (intro strict_sorted_equal) (auto simp: bt_ok_def)
  have "map snd m = map snd n"
  proof (rule nth_equalityI)
    show "length (map snd m) = length (map snd n)" using ks by (metis length_map)
    fix i assume i: "i < length (map snd m)"
    then have im: "i < length m" and "i < length n" using ks by (auto dest: map_eq_imp_length_eq)
    then have "bt_get (fst (m ! i)) m = Some (snd (m ! i))" "bt_get (fst (n ! i)) n = Some (snd (n ! i))"
      by (metis assms(1,2) bt_get_mem_iff nth_mem prod.collapse)+
    moreover have "fst (m ! i) = fst (n ! i)" using ks im \<open>i < length n\<close> by (metis nth_map)
    ultimately show "map snd m ! i = map snd n ! i"
      using assms(3) im \<open>i < length n\<close> by auto
  qed
  then show ?thesis using ks by (metis zip_map_fst_snd)
qed

lemma bt_insert_get_same: "bt_ok m \<Longrightarrow> bt_get k m = Some v \<Longrightarrow> bt_insert k v m = m"
  by (rule bt_ok_eqI) auto

lemma bt_remove_insert_absent:
  "bt_ok m \<Longrightarrow> bt_get k m = None \<Longrightarrow> bt_remove k (bt_insert k v m) = m"
  by (rule bt_ok_eqI) auto

lemma bt_insert_insert: "bt_ok m \<Longrightarrow> bt_insert k v (bt_insert k w m) = bt_insert k v m"
  by (rule bt_ok_eqI) auto

lemma bt_first_get: "bt_ok m \<Longrightarrow> bt_first m = Some (k, v) \<Longrightarrow> bt_get k m = Some v"
  by (cases m) (auto simp: bt_first_def bt_get_Cons)

lemma bt_range_from_filter: "bt_ok m \<Longrightarrow> bt_range_from k m = filter (\<lambda>e. k \<le> fst e) m"
proof (induction m)
  case (Cons e m)
  have "bt_ok m" and "\<forall>k' \<in> set (bt_keys m). fst e < k'"
    using Cons.prems by (cases e; simp add: bt_ok_Cons)+
  then have "k \<le> fst e \<Longrightarrow> filter (\<lambda>e. k \<le> fst e) m = m"
    by (auto simp: filter_id_conv bt_keys_def)
  then show ?case using Cons.IH \<open>bt_ok m\<close> by (auto simp: bt_range_from_def)
qed (simp add: bt_range_from_def)

lemma fold_bs_insert_keys: "set (bt_keys (fold bs_insert ks s)) = set ks \<union> set (bt_keys s)"
  by (induction ks arbitrary: s) (auto simp: bs_insert_def)

lemma bs_of_list_keys [simp]: "set (bt_keys (bs_of_list ks)) = set ks"
  by (simp add: bs_of_list_def fold_bs_insert_keys)

lemma bs_contains_of_list [simp]: "bt_contains k (bs_of_list ks) \<longleftrightarrow> k \<in> set ks"
  by (simp add: bt_contains_iff)

lemma bt_ok_bs_insert [simp]: "bt_ok s \<Longrightarrow> bt_ok (bs_insert k s)"
  by (simp add: bs_insert_def)

lemma bt_ok_fold_bs_insert: "bt_ok s \<Longrightarrow> bt_ok (fold bs_insert ks s)"
  by (induction ks arbitrary: s) auto

lemma bt_ok_bs_of_list [simp]: "bt_ok (bs_of_list ks)"
  by (simp add: bs_of_list_def bt_ok_fold_bs_insert)

lemma bt_ok_fold_insert: "bt_ok m \<Longrightarrow> bt_ok (fold (\<lambda>(k, v). bt_insert k v) es m)"
  by (induction es arbitrary: m) auto

lemma bt_ok_of_list [simp]: "bt_ok (bt_of_list es)"
  by (simp add: bt_of_list_def bt_ok_fold_insert)

lemma bt_get_fold_insert:
  "bt_get k (fold (\<lambda>(k, v). bt_insert k v) es m)
   = (case map_of (rev es) k of None \<Rightarrow> bt_get k m | Some v \<Rightarrow> Some v)"
  by (induction es arbitrary: m) (auto simp: map_add_def split: option.splits)

lemma bt_get_of_list: "bt_get k (bt_of_list es) = map_of (rev es) k"
  by (simp add: bt_of_list_def bt_get_fold_insert split: option.splits)

lemma map_of_rev_bt: "bt_ok m \<Longrightarrow> map_of (rev m) k = bt_get k m"
proof -
  assume "bt_ok m"
  then have "distinct (map fst m)" using bt_ok_distinct by (auto simp: bt_keys_def)
  then have "map_of (rev m) = map_of m" by (simp add: map_of_inject_set rev_map[symmetric])
  then show ?thesis by (simp add: bt_get_def)
qed

lemma bt_of_list_id: "bt_ok m \<Longrightarrow> bt_of_list m = m"
  by (rule bt_ok_eqI) (simp_all add: bt_get_of_list map_of_rev_bt)

section \<open>Loops that rewrite entries\<close>

text \<open>
  A loop over entries with distinct keys that replaces the entry of each key by a value computed from
  the old one: it succeeds when each computation does, and then changes these keys only.
\<close>

definition entry_step ::
  "('r \<Rightarrow> 'v option \<Rightarrow> ('v, 'e) res) \<Rightarrow> 'k::linorder \<times> 'r \<Rightarrow> ('k, 'v) btmap \<Rightarrow> (('k, 'v) btmap, 'e) res" where
  "entry_step f e m = and_then (f (snd e) (bt_get (fst e) m)) (\<lambda>v. Ok (bt_insert (fst e) v m))"

lemma entry_step_Ok:
  "entry_step f e m = Ok m' \<longleftrightarrow> (\<exists>v. f (snd e) (bt_get (fst e) m) = Ok v \<and> m' = bt_insert (fst e) v m)"
  by (auto simp: entry_step_def res_simps)

lemma rfold_entry_step_get:
  assumes "rfold (entry_step f) es m = Ok m'" "distinct (map fst es)"
  shows "bt_get k es = None \<Longrightarrow> bt_get k m' = bt_get k m"
    and "bt_get k es = Some r \<Longrightarrow> \<exists>v. f r (bt_get k m) = Ok v \<and> bt_get k m' = Some v"
  using assms
proof (induction es arbitrary: m)
  case (Cons e es)
  obtain g s where e: "e = (g, s)" by force
  {
    case 1
    then show ?case using Cons.IH(1)
      by (auto simp: e rfold_Cons_Ok entry_step_Ok bt_get_Cons simp del: rfold.simps split: if_splits)
  next
    case 2
    then obtain v where v: "f s (bt_get g m) = Ok v" "rfold (entry_step f) es (bt_insert g v m) = Ok m'"
      by (auto simp: e entry_step_Ok rfold_Cons_Ok simp del: rfold.simps)
    have "bt_get g es = None" using "2"(3) by (simp add: e bt_get_None_iff bt_keys_def)
    then show ?case using Cons.IH[OF _ v(2)] "2"(1,3) v(1) by (auto simp: e bt_get_Cons split: if_splits)
  }
qed simp_all

lemma rfold_entry_step_ok:
  assumes "\<And>k r. (k, r) \<in> set es \<Longrightarrow> \<exists>v. f r (bt_get k m) = Ok v" "distinct (map fst es)"
  shows "\<exists>m'. rfold (entry_step f) es m = Ok m'"
  using assms
proof (induction es arbitrary: m)
  case (Cons e es)
  obtain g r where e: "e = (g, r)" by force
  then obtain v where v: "f r (bt_get g m) = Ok v" using Cons.prems(1) by auto
  have "\<exists>w. f s (bt_get k (bt_insert g v m)) = Ok w" if "(k, s) \<in> set es" for k s
    using Cons.prems that by (force simp: e)
  then show ?case using Cons.IH Cons.prems(2) v by (simp add: e entry_step_def)
qed simp

lemma rfold_entry_step_bt_ok:
  assumes "rfold (entry_step f) es m = Ok m'" "bt_ok m"
  shows "bt_ok m'"
proof (rule rfold_invariant[where P = bt_ok, OF assms])
  show "bt_ok b" if "bt_ok a" "entry_step f x a = Ok b" for x a b
    using that by (auto simp: entry_step_Ok)
qed

lemma fold_insert_const:
  "fold (\<lambda>g. bt_insert g u) gs m = fold (\<lambda>(k, v). bt_insert k v) (map (\<lambda>g. (g, u)) gs) m"
  by (induction gs arbitrary: m) auto

lemma fold_insert_const_sorted:
  "sorted_wrt (<) gs \<Longrightarrow> fold (\<lambda>g. bt_insert g u) gs [] = map (\<lambda>g. (g, u)) gs"
  using bt_of_list_id[of "map (\<lambda>g. (g, u)) gs"]
  by (simp add: fold_insert_const bt_of_list_def bt_ok_def comp_def)

section \<open>The contract of a keyed store\<close>

locale keyed_store =
  fixes get :: "'k \<Rightarrow> 's \<Rightarrow> 'v option"
    and put :: "'k \<Rightarrow> 'v \<Rightarrow> 's \<Rightarrow> 's"
    and del :: "'k \<Rightarrow> 's \<Rightarrow> 's"
    and ok :: "'s \<Rightarrow> bool"
  assumes get_put: "ok s \<Longrightarrow> get k (put k' v s) = (if k = k' then Some v else get k s)"
    and get_del: "ok s \<Longrightarrow> get k (del k' s) = (if k = k' then None else get k s)"
    and ok_put: "ok s \<Longrightarrow> ok (put k v s)"
    and ok_del: "ok s \<Longrightarrow> ok (del k s)"
    and ok_ext: "ok s \<Longrightarrow> ok t \<Longrightarrow> (\<And>k. get k s = get k t) \<Longrightarrow> s = t"
begin

lemma put_same: "ok s \<Longrightarrow> get k s = Some v \<Longrightarrow> put k v s = s"
  by (rule ok_ext) (auto simp: get_put ok_put)

lemma del_put: "ok s \<Longrightarrow> get k s = None \<Longrightarrow> del k (put k v s) = s"
  by (rule ok_ext) (auto simp: get_put get_del ok_put ok_del)

lemma put_put: "ok s \<Longrightarrow> put k v (put k w s) = put k v s"
  by (rule ok_ext) (auto simp: get_put ok_put)

lemma put_comm: "ok s \<Longrightarrow> k \<noteq> k' \<Longrightarrow> put k v (put k' w s) = put k' w (put k v s)"
  by (rule ok_ext) (auto simp: get_put ok_put)

lemma del_comm: "ok s \<Longrightarrow> del k (del k' s) = del k' (del k s)"
  by (rule ok_ext) (auto simp: get_del ok_del)

lemma put_del: "ok s \<Longrightarrow> put k v (del k s) = put k v s"
  by (rule ok_ext) (auto simp: get_put get_del ok_put ok_del)

end

interpretation btm: keyed_store "bt_get :: 'k::linorder \<Rightarrow> ('k, 'v) btmap \<Rightarrow> 'v option"
  bt_insert bt_remove bt_ok
  by unfold_locales (auto intro: bt_ok_eqI)

lemma bt_values_insert: "set (bt_values (bt_insert k v m)) \<subseteq> insert v (set (bt_values m))"
  by (induction k v m rule: bt_insert.induct) (auto simp: bt_values_def)

lemma bt_values_remove: "set (bt_values (bt_remove k m)) \<subseteq> set (bt_values m)"
  by (auto simp: bt_values_def bt_remove_def)

end
