(* ===== verification/Common.thy ===== *)
theory Common
  imports Inferx_Prelude "HOL-Library.Word"
begin

text \<open>
  The error type of the service (\<open>src/ixshare/src/common.rs\<close>), the verdict of an allocation test,
  and the IPv4 address helper. \<open>From<InferxLibError>\<close> maps each error of \<open>inferxlib\<close> to the
  constructor of the same name, so both crates share this type here; it has the constructors that the
  modelled code makes or inspects. A payload owned by another crate
  is the string it renders to; a message built from a \<open>Debug\<close> dump keeps its literal text only, and the dump
  of an error alone is the name of its constructor.
\<close>

record AllocState =
  as_cpu :: bool
  as_memory :: bool
  as_cacheMem :: bool
  as_gpuType :: bool
  as_gpu :: bool

definition AllocState_Ok :: "AllocState \<Rightarrow> bool" where
  "AllocState_Ok s \<longleftrightarrow> as_cpu s \<and> as_memory s \<and> as_cacheMem s \<and> as_gpuType s \<and> as_gpu s"

datatype tonic_code = Unavailable | Unimplemented | OtherCode

datatype error =
    ErrNone
  | ProcessDone
  | NoPermission
  | SchedulerErr string
  | SchedulerNoEnoughResource string
  | ScheduleFail AllocState
  | SysError int
  | SocketClose
  | NotExist string
  | PeerNotExist string
  | Exist string
  | MpscSendFull string
  | CommonError string
  | StdIOErr string
  | Utf8Error
  | TokioChannFull
  | TokioChannClose
  | SerdeJsonError string
  | ReqWestErr string
  | TonicStatus tonic_code
  | TonicTransportErr string
  | Timeout nat
  | QueueFull
  | ServiceUnavailable
  | MinRevsionErr int int
  | NewKeyExistsErr string int
  | DeleteRevNotMatchErr int int
  | UpdateRevNotMatchErr int int
  | ContextCancel

text \<open>The four bytes of an address, most significant first.\<close>

definition IpAddress_AsBytes :: "32 word \<Rightarrow> 8 word list" where
  "IpAddress_AsBytes ip =
     [ucast (drop_bit 24 ip), ucast (drop_bit 16 ip), ucast (drop_bit 8 ip), ucast (drop_bit 0 ip)]"

unbundle bit_operations_syntax

fun IpAddress_New :: "8 word list \<Rightarrow> (32 word, error) res" where
  "IpAddress_New [b0, b1, b2, b3] =
     Ok (push_bit 24 (ucast b0) OR push_bit 16 (ucast b1) OR push_bit 8 (ucast b2) OR push_bit 0 (ucast b3))"
| "IpAddress_New _ = Panic"

lemma IpAddress_bytes_bit:
  "bit (push_bit 24 (ucast (ucast (drop_bit 24 ip :: 32 word) :: 8 word)) OR
        push_bit 16 (ucast (ucast (drop_bit 16 ip) :: 8 word)) OR
        push_bit 8 (ucast (ucast (drop_bit 8 ip) :: 8 word)) OR
        ucast (ucast ip :: 8 word) :: 32 word) n
   \<longleftrightarrow> bit ip n"
proof -
  have "bit ip n \<Longrightarrow> n < 32" by (drule bit_imp_le_length) simp
  then show ?thesis
    by (cases "n < 8"; cases "n < 16"; cases "n < 24")
      (auto simp: bit_or_iff bit_push_bit_iff bit_drop_bit_eq bit_ucast_iff dest: bit_imp_le_length)
qed

lemma IpAddress_roundtrip: "IpAddress_New (IpAddress_AsBytes ip) = Ok ip"
proof -
  have "push_bit 24 (ucast (ucast (drop_bit 24 ip) :: 8 word)) OR
        push_bit 16 (ucast (ucast (drop_bit 16 ip) :: 8 word)) OR
        push_bit 8 (ucast (ucast (drop_bit 8 ip) :: 8 word)) OR
        ucast (ucast ip :: 8 word) = ip"
    by (rule bit_eqI) (rule IpAddress_bytes_bit)
  then show ?thesis by (simp add: IpAddress_AsBytes_def)
qed

end
