(* ===== verification/Resource_Laws.thy ===== *)
theory Resource_Laws
  imports Resource
begin

text \<open>
  The laws of resource accounting. A node's resources are observed along axes (memory, cache memory,
  and per GPU its slots, contexts and channels); along every axis a reservation subtracts and a
  release adds. The locale \<open>ledger\<close> states that contract and derives what a history of reservations
  and releases leaves; it is interpreted on \<open>GPUResourceMap\<close> and on \<open>NodeResources\<close>.
\<close>

section \<open>Which GPUs an allocation takes\<close>

definition gpu_fits :: "GPUResource \<Rightarrow> int \<Rightarrow> int \<Rightarrow> GPUAlloc \<Rightarrow> bool" where
  "gpu_fits usage nccl req r \<longleftrightarrow>
     u64_as_i64 (contextCount usage) \<le> contextCnt r \<and> nccl \<le> ncclCnt r \<and> req \<le> slotCnt r"

definition fitting_gpus :: "GPUResource \<Rightarrow> int \<Rightarrow> int \<Rightarrow> (int, GPUAlloc) btmap \<Rightarrow> int list" where
  "fitting_gpus usage nccl req m = map fst (filter (\<lambda>e. gpu_fits usage nccl req (snd e)) m)"

lemma fitting_gpus_Cons:
  "fitting_gpus usage nccl req ((g, r) # es) =
     (if gpu_fits usage nccl req r then g # fitting_gpus usage nccl req es else fitting_gpus usage nccl req es)"
  by (simp add: fitting_gpus_def)

lemma can_alloc_loop_step:
  "can_alloc_loop usage nccl req ((g, r) # es) cnt gpus =
     (if gpu_fits usage nccl req r
      then if cnt - 1 = 0 then Some (gpus @ [g]) else can_alloc_loop usage nccl req es (cnt - 1) (gpus @ [g])
      else can_alloc_loop usage nccl req es cnt gpus)"
  by (auto simp: gpu_fits_def)

text \<open>The search stops at the first \<open>cnt\<close> GPUs that fit, in order, or finds that there are fewer.\<close>

lemma can_alloc_loop_eq:
  "0 < cnt \<Longrightarrow> can_alloc_loop usage nccl req es cnt gpus =
     (if length (fitting_gpus usage nccl req es) < cnt then None
      else Some (gpus @ take cnt (fitting_gpus usage nccl req es)))"
proof (induction es arbitrary: cnt gpus)
  case (Cons e es)
  obtain g r where e: "e = (g, r)" by force
  obtain n where n: "cnt = Suc n" using Cons.prems by (cases cnt) auto
  show ?case
    by (cases "n = 0") (auto simp add: e n fitting_gpus_Cons can_alloc_loop_step Cons.IH simp del: can_alloc_loop.simps)
qed (simp add: fitting_gpus_def)

lemma fitting_gpus_get:
  assumes "bt_ok m" "g \<in> set (fitting_gpus usage nccl req m)"
  shows "\<exists>r. bt_get g m = Some r \<and> gpu_fits usage nccl req r"
  using assms by (force simp: fitting_gpus_def bt_get_mem_iff[OF assms(1), symmetric])

lemma fitting_gpus_distinct: "bt_ok m \<Longrightarrow> distinct (fitting_gpus usage nccl req m)"
  by (drule bt_ok_distinct) (auto simp: fitting_gpus_def bt_keys_def intro: distinct_map_filter)

section \<open>Observing resources along axes\<close>

datatype axis = AxMem | AxCache | AxSlot int | AxCtx int | AxNccl int

fun slot_of :: "GPUAlloc option \<Rightarrow> int" where
  "slot_of None = 0"
| "slot_of (Some r) = slotCnt r"

fun ctx_of :: "GPUAlloc option \<Rightarrow> int" where
  "ctx_of None = 0"
| "ctx_of (Some r) = contextCnt r"

fun nccl_of :: "GPUAlloc option \<Rightarrow> int" where
  "nccl_of None = 0"
| "nccl_of (Some r) = ncclCnt r"

definition gpu_amount :: "GPUResourceMap \<Rightarrow> axis \<Rightarrow> int" where
  "gpu_amount m ax = (case ax of
       AxMem \<Rightarrow> 0
     | AxCache \<Rightarrow> 0
     | AxSlot g \<Rightarrow> slot_of (bt_get g (gmap m))
     | AxCtx g \<Rightarrow> ctx_of (bt_get g (gmap m))
     | AxNccl g \<Rightarrow> nccl_of (bt_get g (gmap m)))"

definition nr_amount :: "NodeResources \<Rightarrow> axis \<Rightarrow> int" where
  "nr_amount n ax = (case ax of
       AxMem \<Rightarrow> nr_memory n
     | AxCache \<Rightarrow> nr_cacheMemory n
     | _ \<Rightarrow> gpu_amount (nr_gpus n) ax)"

definition gpus_ok :: "GPUResourceMap \<Rightarrow> bool" where
  "gpus_ok m \<longleftrightarrow> bt_ok (gmap m)"

definition nr_ok :: "NodeResources \<Rightarrow> bool" where
  "nr_ok n \<longleftrightarrow> gpus_ok (nr_gpus n)"

definition gpus_nonneg :: "GPUResourceMap \<Rightarrow> bool" where
  "gpus_nonneg m \<longleftrightarrow> (\<forall>(g, r) \<in> set (gmap m). 0 \<le> slotCnt r \<and> 0 \<le> contextCnt r \<and> 0 \<le> ncclCnt r)"

text \<open>Counters within \<open>i64\<close> and no GPU above the node's slot total.\<close>

definition gpus_bounded :: "GPUResourceMap \<Rightarrow> bool" where
  "gpus_bounded m \<longleftrightarrow> (\<forall>(g, r) \<in> set (gmap m). in_i64 (slotCnt r) \<and> in_i64 (contextCnt r) \<and>
     in_i64 (ncclCnt r) \<and> slotCnt r \<le> int (totalSlotCnt m))"

section \<open>Releases and reservations entry by entry\<close>

definition add_value :: "nat \<Rightarrow> GPUAlloc \<Rightarrow> GPUAlloc option \<Rightarrow> (GPUAlloc, error) res" where
  "add_value cap r old =
     and_then (assert_nonneg r) (\<lambda>_.
     case old of
       None \<Rightarrow> Ok r
     | Some a \<Rightarrow>
         and_then (i64_add (slotCnt a) (slotCnt r)) (\<lambda>s.
         and_then (rassert (s \<le> int cap)) (\<lambda>_.
         and_then (i64_add (contextCnt a) (contextCnt r)) (\<lambda>c.
         and_then (i64_add (ncclCnt a) (ncclCnt r)) (\<lambda>n.
         Ok \<lparr>contextCnt = c, slotCnt = s, ncclCnt = n\<rparr>)))))"

definition sub_value :: "GPUAlloc \<Rightarrow> GPUAlloc option \<Rightarrow> (GPUAlloc, error) res" where
  "sub_value r old =
     and_then (assert_nonneg r) (\<lambda>_.
     case old of
       None \<Rightarrow> Panic
     | Some a \<Rightarrow>
         and_then (i64_sub (slotCnt a) (slotCnt r)) (\<lambda>s.
         and_then (i64_sub (contextCnt a) (contextCnt r)) (\<lambda>c.
         and_then (i64_sub (ncclCnt a) (ncclCnt r)) (\<lambda>n.
         Ok \<lparr>contextCnt = c, slotCnt = s, ncclCnt = n\<rparr>))))"

lemma gpus_add_entry_step:
  "gpus_add_entry e m =
     and_then (entry_step (add_value (totalSlotCnt m)) e (gmap m)) (\<lambda>x. Ok (m\<lparr>gmap := x\<rparr>))"
  by (simp add: gpus_add_entry_def entry_step_def add_value_def and_then_assoc Let_def split: option.splits)

lemma gpus_sub_entry_step:
  "gpus_sub_entry e m = and_then (entry_step sub_value e (gmap m)) (\<lambda>x. Ok (m\<lparr>gmap := x\<rparr>))"
  by (simp add: gpus_sub_entry_def entry_step_def sub_value_def and_then_assoc Let_def split: option.splits)

lemma rfold_gpus_add:
  "rfold gpus_add_entry es m =
     and_then (rfold (entry_step (add_value (totalSlotCnt m))) es (gmap m)) (\<lambda>x. Ok (m\<lparr>gmap := x\<rparr>))"
proof (induction es arbitrary: m)
  case (Cons e es)
  then show ?case by (cases "entry_step (add_value (totalSlotCnt m)) e (gmap m)") (simp_all add: gpus_add_entry_step)
qed simp

lemma rfold_gpus_sub:
  "rfold gpus_sub_entry es m =
     and_then (rfold (entry_step sub_value) es (gmap m)) (\<lambda>x. Ok (m\<lparr>gmap := x\<rparr>))"
proof (induction es arbitrary: m)
  case (Cons e es)
  then show ?case by (cases "entry_step sub_value e (gmap m)") (simp_all add: gpus_sub_entry_step)
qed simp

lemma add_value_Ok:
  "add_value cap r old = Ok v \<Longrightarrow>
     slotCnt v = slot_of old + slotCnt r \<and>
     contextCnt v = ctx_of old + contextCnt r \<and>
     ncclCnt v = nccl_of old + ncclCnt r"
  by (auto simp: add_value_def res_simps i64_add_eq_Ok split: option.splits)

lemma sub_value_Ok:
  "sub_value r old = Ok v \<Longrightarrow> \<exists>a. old = Some a \<and> slotCnt v = slotCnt a - slotCnt r \<and>
     contextCnt v = contextCnt a - contextCnt r \<and> ncclCnt v = ncclCnt a - ncclCnt r"
  by (auto simp: sub_value_def res_simps i64_sub_eq_Ok split: option.splits)

lemma sub_value_undo:
  assumes "sub_value r (Some a) = Ok v" "in_i64 (slotCnt a)" "in_i64 (contextCnt a)" "in_i64 (ncclCnt a)"
    "slotCnt a \<le> int cap"
  shows "add_value cap r (Some v) = Ok a"
  using assms by (auto simp: sub_value_def add_value_def res_simps i64_sub_eq_Ok i64_add_def)

section \<open>What a release and a reservation change\<close>

lemma gpus_ok_entries: "gpus_ok m \<Longrightarrow> distinct (map fst (gmap m))"
  using bt_ok_distinct by (auto simp: gpus_ok_def bt_keys_def)

lemma GPUResourceMap_Sub_amount:
  assumes "gpus_ok a" "GPUResourceMap_Sub m a = Ok m'"
  shows "gpu_amount m' ax = gpu_amount m ax - gpu_amount a ax"
proof -
  from assms(2) have run: "rfold (entry_step sub_value) (gmap a) (gmap m) = Ok (gmap m')"
    by (auto simp: GPUResourceMap_Sub_def rfold_gpus_sub res_simps)
  note step = rfold_entry_step_get[OF run gpus_ok_entries[OF assms(1)]]
  have per: "slot_of (bt_get g (gmap m')) = slot_of (bt_get g (gmap m)) - slot_of (bt_get g (gmap a)) \<and>
      ctx_of (bt_get g (gmap m')) = ctx_of (bt_get g (gmap m)) - ctx_of (bt_get g (gmap a)) \<and>
      nccl_of (bt_get g (gmap m')) = nccl_of (bt_get g (gmap m)) - nccl_of (bt_get g (gmap a))" for g
    using step[of g] by (cases "bt_get g (gmap a)") (auto dest!: sub_value_Ok)
  then show ?thesis by (cases ax) (simp_all add: gpu_amount_def)
qed

lemma GPUResourceMap_Add_amount:
  assumes "gpus_ok a" "GPUResourceMap_Add m a = Ok m'"
  shows "gpu_amount m' ax = gpu_amount m ax + gpu_amount a ax"
proof -
  from assms(2) have run: "rfold (entry_step (add_value (totalSlotCnt m))) (gmap a) (gmap m) = Ok (gmap m')"
    by (auto simp: GPUResourceMap_Add_def rfold_gpus_add res_simps split: if_splits)
  note step = rfold_entry_step_get[OF run gpus_ok_entries[OF assms(1)]]
  have per: "slot_of (bt_get g (gmap m')) = slot_of (bt_get g (gmap m)) + slot_of (bt_get g (gmap a)) \<and>
      ctx_of (bt_get g (gmap m')) = ctx_of (bt_get g (gmap m)) + ctx_of (bt_get g (gmap a)) \<and>
      nccl_of (bt_get g (gmap m')) = nccl_of (bt_get g (gmap m)) + nccl_of (bt_get g (gmap a))" for g
    using step[of g] by (cases "bt_get g (gmap a)") (auto dest!: add_value_Ok)
  then show ?thesis by (cases ax) (simp_all add: gpu_amount_def)
qed

lemma GPUResourceMap_Sub_ok [inv_intros]: "gpus_ok m \<Longrightarrow> GPUResourceMap_Sub m a = Ok m' \<Longrightarrow> gpus_ok m'"
  by (auto simp: GPUResourceMap_Sub_def rfold_gpus_sub res_simps gpus_ok_def intro: rfold_entry_step_bt_ok)

lemma GPUResourceMap_Add_ok [inv_intros]: "gpus_ok m \<Longrightarrow> GPUResourceMap_Add m a = Ok m' \<Longrightarrow> gpus_ok m'"
  by (auto simp: GPUResourceMap_Add_def rfold_gpus_add res_simps gpus_ok_def
      intro: rfold_entry_step_bt_ok split: if_splits)

section \<open>An allocation is a reservation of the GPUs it chose\<close>

definition nccl_need :: "GPUResource \<Rightarrow> bool \<Rightarrow> int" where
  "nccl_need usage createSnapshot = (if createSnapshot then 1 else if gpuCount usage < 2 then 0 else 1)"

definition gpu_share :: "GPUResource \<Rightarrow> int \<Rightarrow> nat \<Rightarrow> GPUAlloc" where
  "gpu_share usage nccl slots =
     \<lparr>contextCnt = u64_as_i64 (contextCount usage), slotCnt = int slots, ncclCnt = nccl\<rparr>"

lemma assert_nonneg_Ok: "assert_nonneg r = Ok u \<longleftrightarrow> 0 \<le> slotCnt r \<and> 0 \<le> contextCnt r \<and> 0 \<le> ncclCnt r"
  by (auto simp: assert_nonneg_def res_simps)

lemma alloc_loop_eq:
  "length gs = cnt \<Longrightarrow> gs \<noteq> [] \<Longrightarrow> assert_nonneg (gpu_share usage nccl slots) = Ok () \<Longrightarrow>
   alloc_loop usage nccl (int slots) gs cnt m mp =
     and_then (rfold (entry_step sub_value) (map (\<lambda>g. (g, gpu_share usage nccl slots)) gs) m) (\<lambda>m'.
     Ok (m', fold (\<lambda>g. bt_insert g (gpu_share usage nccl slots)) gs mp))"
proof (induction gs arbitrary: cnt m mp)
  case (Cons g gs)
  define u where "u = gpu_share usage nccl slots"
  have u: "contextCnt u = u64_as_i64 (contextCount usage)" "slotCnt u = int slots" "ncclCnt u = nccl"
    by (simp_all add: u_def gpu_share_def)
  have step: "alloc_loop usage nccl (int slots) (g # gs) cnt m mp =
      and_then (sub_value u (bt_get g m)) (\<lambda>v.
        if gs = [] then Ok (bt_insert g v m, bt_insert g u mp)
        else alloc_loop usage nccl (int slots) gs (cnt - 1) (bt_insert g v m) (bt_insert g u mp))"
    using Cons.prems u
    by (cases "bt_get g m") (auto simp: sub_value_def i64_sub_def u_def[symmetric] gpu_share_def[symmetric] Let_def)
  show ?case
  proof (cases "sub_value u (bt_get g m)")
    case (Ok v)
    then show ?thesis unfolding step using Cons
      by (cases "gs = []") (simp_all add: u_def[symmetric] entry_step_def del: alloc_loop.simps)
  qed (simp_all add: step u_def[symmetric] entry_step_def del: alloc_loop.simps)
qed simp

lemma fitting_gpus_sorted: "bt_ok m \<Longrightarrow> sorted_wrt (<) (fitting_gpus usage nccl req m)"
  by (drule bt_ok_filter) (simp add: fitting_gpus_def bt_ok_def)

lemma CanAlloc_eq:
  "gpuCount usage \<noteq> 0 \<Longrightarrow> GPUResourceMap_CanAlloc m usage cs =
     and_then (ReqSlotCnt m (vRam usage)) (\<lambda>req.
     let fit = fitting_gpus usage (nccl_need usage cs) (int req) (gmap m) in
     Ok (if length fit < gpuCount usage then None else Some (take (gpuCount usage) fit)))"
  by (cases "ReqSlotCnt m (vRam usage)")
    (simp_all add: GPUResourceMap_CanAlloc_def nccl_need_def can_alloc_loop_eq Let_def)

lemma Alloc_eq:
  fixes cs :: bool
  assumes "gpus_ok m" "gpuCount usage \<noteq> 0" "contextCount usage < 2 ^ 63"
    and req: "ReqSlotCnt m (vRam usage) = Ok slots" "0 < slots"
  defines "fit \<equiv> fitting_gpus usage (nccl_need usage cs) (int slots) (gmap m)"
    and "u \<equiv> gpu_share usage (nccl_need usage cs) slots"
  shows "GPUResourceMap_Alloc m usage cs =
     (if length fit < gpuCount usage then Err (SchedulerNoEnoughResource '''')
      else let es = map (\<lambda>g. (g, u)) (take (gpuCount usage) fit) in
        and_then (rfold (entry_step sub_value) es (gmap m)) (\<lambda>m'. Ok (m\<lparr>gmap := m'\<rparr>, m\<lparr>gmap := es\<rparr>)))"
proof (cases "length fit < gpuCount usage")
  case True
  then show ?thesis using assms by (simp add: GPUResourceMap_Alloc_def CanAlloc_eq)
next
  case False
  define gs where "gs = take (gpuCount usage) fit"
  have gs: "length gs = gpuCount usage" "gs \<noteq> []" using False assms(2) by (auto simp: gs_def)
  have "sorted_wrt (<) gs"
    using fitting_gpus_sorted assms(1) by (auto simp: gs_def fit_def gpus_ok_def sorted_wrt_take)
  then have es: "fold (\<lambda>g. bt_insert g u) gs [] = map (\<lambda>g. (g, u)) gs" by (rule fold_insert_const_sorted)
  have u: "assert_nonneg u = Ok ()"
    using assms(3) by (simp add: u_def assert_nonneg_Ok gpu_share_def nccl_need_def)
  have nccl: "(if cs then 1 else if gpuCount usage = 1 then 0 else 1) = nccl_need usage cs"
    using assms(2) by (simp add: nccl_need_def)
  have "GPUResourceMap_Alloc m usage cs =
      and_then (alloc_loop usage (nccl_need usage cs) (int slots) gs (gpuCount usage) (gmap m) []) (\<lambda>(m', mp).
      Ok (m\<lparr>gmap := m'\<rparr>, m\<lparr>gmap := mp\<rparr>))"
    using False req assms(2)
    by (simp add: GPUResourceMap_Alloc_def CanAlloc_eq fit_def[symmetric] gs_def[symmetric] nccl Let_def)
  then show ?thesis
    using False es u
    by (simp add: alloc_loop_eq[OF gs] u_def[symmetric] gs_def[symmetric] and_then_assoc Let_def)
qed

section \<open>The ledger contract\<close>

text \<open>One step of a history: a reservation (\<open>True\<close>) or a release (\<open>False\<close>) of an amount.\<close>

definition ledger_step ::
  "('s \<Rightarrow> 's \<Rightarrow> ('s, 'e) res) \<Rightarrow> ('s \<Rightarrow> 's \<Rightarrow> ('s, 'e) res) \<Rightarrow> bool \<times> 's \<Rightarrow> 's \<Rightarrow> ('s, 'e) res" where
  "ledger_step reserve release e s = (if fst e then reserve s (snd e) else release s (snd e))"

definition ledger_held :: "('s \<Rightarrow> 'x \<Rightarrow> int) \<Rightarrow> (bool \<times> 's) list \<Rightarrow> 'x \<Rightarrow> int" where
  "ledger_held amount es x = (\<Sum>(b, a) \<leftarrow> es. if b then amount a x else - amount a x)"

locale ledger =
  fixes amount :: "'s \<Rightarrow> 'x \<Rightarrow> int"
    and reserve :: "'s \<Rightarrow> 's \<Rightarrow> ('s, 'e) res"
    and release :: "'s \<Rightarrow> 's \<Rightarrow> ('s, 'e) res"
    and ok :: "'s \<Rightarrow> bool"
  assumes reserve_amount: "ok a \<Longrightarrow> reserve s a = Ok t \<Longrightarrow> amount t x = amount s x - amount a x"
    and release_amount: "ok a \<Longrightarrow> release s a = Ok t \<Longrightarrow> amount t x = amount s x + amount a x"
    and reserve_ok: "ok s \<Longrightarrow> reserve s a = Ok t \<Longrightarrow> ok t"
    and release_ok: "ok s \<Longrightarrow> release s a = Ok t \<Longrightarrow> ok t"
begin

lemma step_amount:
  "ok (snd e) \<Longrightarrow> ledger_step reserve release e s = Ok t \<Longrightarrow> amount t x = amount s x - ledger_held amount [e] x"
  by (cases e) (auto simp: ledger_step_def ledger_held_def reserve_amount release_amount split: if_splits)

lemma history_conserves:
  "rfold (ledger_step reserve release) es s = Ok t \<Longrightarrow> (\<forall>e \<in> set es. ok (snd e)) \<Longrightarrow>
   amount s x = amount t x + ledger_held amount es x"
proof (induction es arbitrary: s)
  case (Cons e es)
  from Cons.prems(1) obtain r where r: "ledger_step reserve release e s = Ok r"
      "rfold (ledger_step reserve release) es r = Ok t"
    unfolding rfold_Cons_Ok by blast
  have "amount r x = amount s x - ledger_held amount [e] x" using step_amount r(1) Cons.prems(2) by simp
  moreover have "amount r x = amount t x + ledger_held amount es x" using Cons.IH r(2) Cons.prems(2) by simp
  ultimately show ?case by (cases e) (simp add: ledger_held_def)
qed (simp add: ledger_held_def)

lemma history_ok:
  assumes "rfold (ledger_step reserve release) es s = Ok t" "ok s"
  shows "ok t"
proof (rule rfold_invariant[where P = ok, OF assms])
  show "ok c" if "ok b" "ledger_step reserve release e b = Ok c" for e b c
    using that(2) reserve_ok[OF that(1)] release_ok[OF that(1)] by (cases "fst e") (simp_all add: ledger_step_def)
qed

lemma reserve_release_amount:
  "ok a \<Longrightarrow> reserve s a = Ok t \<Longrightarrow> release t a = Ok u \<Longrightarrow> amount u x = amount s x"
  by (simp add: reserve_amount release_amount)

end

interpretation gpu_ledger: ledger gpu_amount GPUResourceMap_Sub GPUResourceMap_Add gpus_ok
  by unfold_locales
    (auto simp: GPUResourceMap_Sub_amount GPUResourceMap_Add_amount intro: inv_intros)

lemma NodeResources_Sub_Ok:
  assumes "NodeResources_Sub n a = Ok n'"
  shows "nr_memory n' = nr_memory n - nr_memory a" "nr_cacheMemory n' = nr_cacheMemory n - nr_cacheMemory a"
    "GPUResourceMap_Sub (nr_gpus n) (nr_gpus a) = Ok (nr_gpus n')"
  using assms by (auto simp: NodeResources_Sub_def res_simps i64_sub_eq_Ok)

lemma NodeResources_Add_Ok:
  assumes "NodeResources_Add n a = Ok n'"
  shows "nr_memory n' = nr_memory n + nr_memory a" "nr_cacheMemory n' = nr_cacheMemory n + nr_cacheMemory a"
    "GPUResourceMap_Add (nr_gpus n) (nr_gpus a) = Ok (nr_gpus n')"
  using assms by (auto simp: NodeResources_Add_def res_simps i64_add_eq_Ok)

interpretation node_ledger: ledger nr_amount NodeResources_Sub NodeResources_Add nr_ok
proof unfold_locales
  show "nr_amount t x = nr_amount s x - nr_amount a x" if "nr_ok a" "NodeResources_Sub s a = Ok t" for a s t x
    using that gpu_ledger.reserve_amount NodeResources_Sub_Ok[OF that(2)]
    by (cases x) (auto simp: nr_amount_def nr_ok_def)
  show "nr_amount t x = nr_amount s x + nr_amount a x" if "nr_ok a" "NodeResources_Add s a = Ok t" for a s t x
    using that gpu_ledger.release_amount NodeResources_Add_Ok[OF that(2)]
    by (cases x) (auto simp: nr_amount_def nr_ok_def)
qed (auto simp: nr_ok_def dest: NodeResources_Sub_Ok(3) NodeResources_Add_Ok(3) intro: inv_intros)

section \<open>Properties of allocation\<close>

lemma Alloc_no_gpu:
  "gpuCount usage = 0 \<Longrightarrow> GPUResourceMap_Alloc m usage cs = Ok (m, m\<lparr>gmap := []\<rparr>)"
  by (simp add: GPUResourceMap_Alloc_def GPUResourceMap_CanAlloc_def)

lemma Alloc_Ok_slots:
  assumes "GPUResourceMap_Alloc m usage cs = Ok r" "gpuCount usage \<noteq> 0"
  shows "\<exists>slots > 0. ReqSlotCnt m (vRam usage) = Ok slots"
proof -
  from assms obtain gpus where g: "GPUResourceMap_CanAlloc m usage cs = Ok (Some gpus)"
    by (auto simp: GPUResourceMap_Alloc_def res_simps split: option.splits)
  then obtain slots where "ReqSlotCnt m (vRam usage) = Ok slots"
    using assms(2) by (auto simp: CanAlloc_eq res_simps)
  then show ?thesis
    using assms g by (auto simp: GPUResourceMap_Alloc_def res_simps Let_def)
qed

text \<open>What a successful allocation returns: the chosen GPUs, and the node less their shares.\<close>

lemma Alloc_OkE:
  assumes ok: "GPUResourceMap_Alloc m usage cs = Ok (m', a)"
    and m: "gpus_ok m" "gpuCount usage \<noteq> 0" "contextCount usage < 2 ^ 63"
  obtains slots fit rest where "ReqSlotCnt m (vRam usage) = Ok slots" "0 < slots"
    "fit = fitting_gpus usage (nccl_need usage cs) (int slots) (gmap m)" "gpuCount usage \<le> length fit"
    "a = m\<lparr>gmap := map (\<lambda>g. (g, gpu_share usage (nccl_need usage cs) slots)) (take (gpuCount usage) fit)\<rparr>"
    "rfold (entry_step sub_value) (gmap a) (gmap m) = Ok rest" "m' = m\<lparr>gmap := rest\<rparr>"
proof -
  obtain slots where s: "ReqSlotCnt m (vRam usage) = Ok slots" "0 < slots"
    using Alloc_Ok_slots[OF ok m(2)] by blast
  show thesis
    using that[OF s refl] ok unfolding Alloc_eq[OF m s]
    by (auto simp: Let_def res_simps split: if_splits)
qed

lemma alloc_entries_ok:
  "gpus_ok m \<Longrightarrow> bt_ok (map (\<lambda>g. (g, u)) (take n (fitting_gpus usage nccl req (gmap m))))"
  by (simp add: bt_ok_def comp_def gpus_ok_def fitting_gpus_sorted sorted_wrt_take)

lemma Alloc_is_Sub:
  assumes "GPUResourceMap_Alloc m usage cs = Ok (m', a)" "gpus_ok m" "contextCount usage < 2 ^ 63"
  shows "GPUResourceMap_Sub m a = Ok m'" and "gpus_ok a"
proof -
  have "GPUResourceMap_Sub m a = Ok m' \<and> gpus_ok a"
  proof (cases "gpuCount usage = 0")
    case True
    then show ?thesis using assms(1) by (auto simp: Alloc_no_gpu GPUResourceMap_Sub_def gpus_ok_def)
  next
    case False
    show ?thesis
      by (rule Alloc_OkE[OF assms(1,2) False assms(3)])
        (use assms(2) in \<open>simp add: GPUResourceMap_Sub_def rfold_gpus_sub gpus_ok_def alloc_entries_ok\<close>)
  qed
  then show "GPUResourceMap_Sub m a = Ok m'" "gpus_ok a" by auto
qed

lemma alloc_entry_fits:
  assumes "gpus_ok m" "bt_get g (map (\<lambda>g. (g, u)) (take n (fitting_gpus usage nccl req (gmap m)))) = Some w"
  shows "w = u \<and> (\<exists>r. bt_get g (gmap m) = Some r \<and> gpu_fits usage nccl req r)"
proof -
  have "(g, w) \<in> set (map (\<lambda>g. (g, u)) (take n (fitting_gpus usage nccl req (gmap m))))"
    using assms(2) by (rule bt_get_Some_mem)
  then show ?thesis using fitting_gpus_get[of "gmap m"] assms(1)
    by (auto simp: gpus_ok_def dest: in_set_takeD)
qed

lemma gpus_nonneg_get:
  "gpus_ok m \<Longrightarrow> gpus_nonneg m \<longleftrightarrow>
     (\<forall>g r. bt_get g (gmap m) = Some r \<longrightarrow> 0 \<le> slotCnt r \<and> 0 \<le> contextCnt r \<and> 0 \<le> ncclCnt r)"
  by (auto simp: gpus_nonneg_def gpus_ok_def bt_get_mem_iff)

lemma Alloc_nonneg:
  assumes "GPUResourceMap_Alloc m usage cs = Ok (m', a)" "gpus_ok m" "gpus_nonneg m" "contextCount usage < 2 ^ 63"
  shows "gpus_nonneg m'"
proof (cases "gpuCount usage = 0")
  case True
  then show ?thesis using assms by (simp add: Alloc_no_gpu)
next
  case False
  have m': "gpus_ok m'"
    using Alloc_is_Sub[OF assms(1,2,4)] assms(2) by (auto intro: inv_intros)
  from Alloc_OkE[OF assms(1,2) False assms(4)] obtain slots fit where
    fit: "fit = fitting_gpus usage (nccl_need usage cs) (int slots) (gmap m)"
    and a: "a = m\<lparr>gmap := map (\<lambda>g. (g, gpu_share usage (nccl_need usage cs) slots)) (take (gpuCount usage) fit)\<rparr>"
    and run: "rfold (entry_step sub_value) (gmap a) (gmap m) = Ok (gmap m')"
    by (metis GPUResourceMap.select_convs(2) GPUResourceMap.surjective GPUResourceMap.update_convs(2))
  have aok: "gpus_ok a" using alloc_entries_ok[OF assms(2)] by (simp add: a fit gpus_ok_def)
  note get = rfold_entry_step_get[OF run gpus_ok_entries[OF aok]]
  have "0 \<le> slotCnt r \<and> 0 \<le> contextCnt r \<and> 0 \<le> ncclCnt r" if r: "bt_get g (gmap m') = Some r" for g r
  proof (cases "bt_get g (gmap a)")
    case None
    then show ?thesis using get(1) r assms(3) gpus_nonneg_get[OF assms(2)] by simp
  next
    case (Some w)
    then have "w = gpu_share usage (nccl_need usage cs) slots"
      "\<exists>r. bt_get g (gmap m) = Some r \<and> gpu_fits usage (nccl_need usage cs) (int slots) r"
      using alloc_entry_fits[OF assms(2), of g _ _ usage "nccl_need usage cs" "int slots" w] by (auto simp: a fit)
    then show ?thesis using get(2)[OF Some] r
      by (auto dest!: sub_value_Ok simp: gpu_fits_def gpu_share_def)
  qed
  then show ?thesis using gpus_nonneg_get[OF m'] by blast
qed

lemma gpus_bounded_get:
  "gpus_bounded m \<Longrightarrow> bt_get g (gmap m) = Some r \<Longrightarrow>
     in_i64 (slotCnt r) \<and> in_i64 (contextCnt r) \<and> in_i64 (ncclCnt r) \<and> slotCnt r \<le> int (totalSlotCnt m)"
  by (auto simp: gpus_bounded_def dest!: bt_get_Some_mem)

lemma sub_value_fits_ok:
  assumes "gpu_fits usage nccl (int slots) r" "in_i64 (slotCnt r)" "in_i64 (contextCnt r)" "in_i64 (ncclCnt r)"
    "contextCount usage < 2 ^ 63" "0 \<le> nccl"
  shows "\<exists>v. sub_value (gpu_share usage nccl slots) (Some r) = Ok v"
  using assms by (auto simp: sub_value_def gpu_fits_def gpu_share_def assert_nonneg_Ok i64_sub_def in_i64_def
      assert_nonneg_def)

lemma Alloc_total:
  fixes cs :: bool
  assumes m: "gpus_ok m" "gpuCount usage \<noteq> 0" "contextCount usage < 2 ^ 63" "gpus_bounded m"
    and req: "ReqSlotCnt m (vRam usage) = Ok slots" "0 < slots"
  defines "fit \<equiv> fitting_gpus usage (nccl_need usage cs) (int slots) (gmap m)"
  assumes enough: "gpuCount usage \<le> length fit"
  shows "\<exists>m'. GPUResourceMap_Alloc m usage cs = Ok (m',
           m\<lparr>gmap := map (\<lambda>g. (g, gpu_share usage (nccl_need usage cs) slots)) (take (gpuCount usage) fit)\<rparr>)"
proof -
  define u where "u = gpu_share usage (nccl_need usage cs) slots"
  define es where "es = map (\<lambda>g. (g, u)) (take (gpuCount usage) fit)"
  have es: "bt_ok es" using alloc_entries_ok[OF m(1)] by (simp add: es_def fit_def)
  have "\<exists>v. sub_value r (bt_get g (gmap m)) = Ok v" if "(g, r) \<in> set es" for g r
  proof -
    have "bt_get g es = Some r" using that bt_get_mem_iff[OF es] by blast
    then obtain a where a: "r = u" "bt_get g (gmap m) = Some a"
        "gpu_fits usage (nccl_need usage cs) (int slots) a"
      using alloc_entry_fits[OF m(1), of g u "gpuCount usage" usage "nccl_need usage cs" "int slots" r]
      by (auto simp: es_def fit_def)
    then show ?thesis using sub_value_fits_ok[OF a(3)] gpus_bounded_get[OF m(4) a(2)] m(3)
      by (simp add: u_def nccl_need_def)
  qed
  then obtain m' where "rfold (entry_step sub_value) es (gmap m) = Ok m'"
    using rfold_entry_step_ok[of es sub_value "gmap m"] bt_ok_distinct[OF es] by (auto simp: bt_keys_def)
  then show ?thesis
    using enough unfolding Alloc_eq[OF m(1-3) req] fit_def[symmetric] u_def[symmetric] es_def[symmetric] Let_def
    by simp
qed

text \<open>The example node of the witnesses: two GPUs of ten 1 MB slots, one with a context taken.\<close>

definition ex_gpus :: GPUResourceMap where
  "ex_gpus = \<lparr>totalSlotCnt = 10,
     gmap = [(0, \<lparr>contextCnt = 2, slotCnt = 10, ncclCnt = 1\<rparr>), (1, \<lparr>contextCnt = 1, slotCnt = 7, ncclCnt = 1\<rparr>)],
     slotSize = 1048576\<rparr>"

definition ex_usage :: GPUResource where
  "ex_usage = \<lparr>gr_type = ''Any'', gpuCount = 2, vRam = 4, contextCount = 1\<rparr>"

lemmas alloc_eval = ex_gpus_def ex_usage_def gpus_ok_def bt_ok_def gpus_bounded_def gpus_nonneg_def in_i64_def
  ReqSlotCnt_def u64_mul_def u64_add_def u64_sub_def u64_div_def GPUResourceMap_Alloc_def
  GPUResourceMap_CanAlloc_def bt_get_Cons i64_sub_def rassert_def



text \<open>
  C2. Allocation never over-commits: on a node without negative counters it leaves none, whatever the
  request (with a context count that fits \<open>i64\<close>).
\<close>

theorem Alloc_no_overcommit:
  assumes "GPUResourceMap_Alloc m usage cs = Ok (m', a)" "gpus_ok m" "gpus_nonneg m" "contextCount usage < 2 ^ 63"
  shows "gpus_nonneg m' \<and> gpus_ok m'"
  using Alloc_nonneg[OF assms] Alloc_is_Sub[OF assms(1,2,4)] assms(2) by (auto intro: inv_intros)

theorem Alloc_no_overcommit_witness:
  "\<exists>m' a. GPUResourceMap_Alloc ex_gpus ex_usage True = Ok (m', a) \<and> gpus_nonneg m' \<and> gpus_ok m'"
proof -
  have "is_ok (GPUResourceMap_Alloc ex_gpus ex_usage True)" by (simp add: alloc_eval)
  then obtain m' a where r: "GPUResourceMap_Alloc ex_gpus ex_usage True = Ok (m', a)" by (auto simp: is_ok_iff)
  have "gpus_ok ex_gpus" "gpus_nonneg ex_gpus" "contextCount ex_usage < 2 ^ 63"
    by (simp_all add: alloc_eval)
  then show ?thesis using Alloc_no_overcommit[OF r] r by blast
qed

lemma Sub_then_Add:
  assumes "GPUResourceMap_Sub m a = Ok m'" "gpus_ok m" "gpus_ok a" "gpus_bounded m"
    "slotSize m = 0 \<longrightarrow> slotSize a = 0"
  shows "GPUResourceMap_Add m' a = Ok m"
proof -
  define f where "f = add_value (totalSlotCnt m)"
  from assms(1) obtain rest where run: "rfold (entry_step sub_value) (gmap a) (gmap m) = Ok rest"
      and m': "m' = m\<lparr>gmap := rest\<rparr>"
    by (auto simp: GPUResourceMap_Sub_def rfold_gpus_sub res_simps)
  note dist = gpus_ok_entries[OF assms(3)]
  note sub = rfold_entry_step_get[OF run dist]
  have undone: "f r (bt_get g rest) = Ok (the (bt_get g (gmap m))) \<and> bt_get g (gmap m) \<noteq> None"
    if r: "bt_get g (gmap a) = Some r" for g r
  proof -
    obtain v where v: "sub_value r (bt_get g (gmap m)) = Ok v" "bt_get g rest = Some v" using sub(2)[OF r] by blast
    then obtain x where x: "bt_get g (gmap m) = Some x" using sub_value_Ok by blast
    then show ?thesis using sub_value_undo[of r x v "totalSlotCnt m"] gpus_bounded_get[OF assms(4) x] v
      by (simp add: f_def)
  qed
  have "\<exists>v. f r (bt_get g rest) = Ok v" if "(g, r) \<in> set (gmap a)" for g r
    using undone that bt_get_mem_iff assms(3) by (metis gpus_ok_def)
  then obtain orig where orig: "rfold (entry_step f) (gmap a) rest = Ok orig"
    using rfold_entry_step_ok[OF _ dist] by metis
  note add = rfold_entry_step_get[OF orig dist]
  have "bt_get g orig = bt_get g (gmap m)" for g
    using add[of g] sub[of g] undone[of g] by (cases "bt_get g (gmap a)") auto
  moreover have "bt_ok rest" using rfold_entry_step_bt_ok[OF run] assms(2) by (simp add: gpus_ok_def)
  then have "bt_ok orig" by (rule rfold_entry_step_bt_ok[OF orig])
  ultimately have "orig = gmap m" using assms(2) by (intro bt_ok_eqI) (auto simp: gpus_ok_def)
  moreover have "slotSize m = 0 \<longrightarrow> m\<lparr>slotSize := slotSize a\<rparr> = m" using assms(5) by simp
  ultimately show ?thesis using orig
    by (simp add: GPUResourceMap_Add_def rfold_gpus_add f_def m')
qed

lemma Alloc_slotSize:
  "GPUResourceMap_Alloc m usage cs = Ok (m', a) \<Longrightarrow> slotSize a = slotSize m"
  by (auto simp: GPUResourceMap_Alloc_def res_simps Let_def split: option.splits if_splits)

text \<open>
  C3. Returning an allocation undoes it: \<open>Add\<close> of what \<open>Alloc\<close> took gives the original node exactly,
  without tripping any of its assertions.
\<close>

theorem Alloc_Add_roundtrip:
  assumes "GPUResourceMap_Alloc m usage cs = Ok (m', a)" "gpus_ok m" "gpus_bounded m" "contextCount usage < 2 ^ 63"
  shows "GPUResourceMap_Add m' a = Ok m"
  using Sub_then_Add Alloc_is_Sub[OF assms(1,2,4)] Alloc_slotSize[OF assms(1)] assms(2,3) by simp

theorem Alloc_Add_roundtrip_witness:
  "\<exists>m' a. GPUResourceMap_Alloc ex_gpus ex_usage False = Ok (m', a) \<and> m' \<noteq> ex_gpus \<and>
     GPUResourceMap_Add m' a = Ok ex_gpus"
proof -
  have "is_ok (and_then (GPUResourceMap_Alloc ex_gpus ex_usage False) (\<lambda>r. rassert (fst r \<noteq> ex_gpus)))"
    by (simp add: alloc_eval)
  then obtain m' a where r: "GPUResourceMap_Alloc ex_gpus ex_usage False = Ok (m', a)" "m' \<noteq> ex_gpus"
    by (auto simp: is_ok_iff res_simps)
  have "gpus_ok ex_gpus" "gpus_bounded ex_gpus" "contextCount ex_usage < 2 ^ 63"
    by (simp_all add: alloc_eval)
  then show ?thesis using Alloc_Add_roundtrip[OF r(1)] r by blast
qed

text \<open>
  C4. Conservation: after any history of reservations and releases on a node that ran to its end, what
  is available plus what the history still holds is what was available, for memory, cache memory and
  for the slots, contexts and channels of every GPU.
\<close>

theorem node_history_conserves:
  assumes "rfold (ledger_step NodeResources_Sub NodeResources_Add) es n = Ok n'"
    and "\<forall>e \<in> set es. nr_ok (snd e)"
  shows "nr_amount n ax = nr_amount n' ax + ledger_held nr_amount es ax"
  using node_ledger.history_conserves assms by blast

definition ex_node :: NodeResources where
  "ex_node = NodeResources_New ''n'' 1000 4096 512 ''A4000'' ex_gpus 2"

definition ex_share :: NodeResources where
  "ex_share = \<lparr>nr_nodename = ''n'', nr_cpu = 10, nr_memory = 96, nr_cacheMemory = 12, nr_gpuType = ''A4000'',
     nr_gpus = \<lparr>totalSlotCnt = 10, gmap = [(1, \<lparr>contextCnt = 1, slotCnt = 3, ncclCnt = 0\<rparr>)], slotSize = 1048576\<rparr>,
     maxContextCnt = 2\<rparr>"

theorem node_history_conserves_witness:
  "\<exists>n'. rfold (ledger_step NodeResources_Sub NodeResources_Add) [(True, ex_share), (True, ex_share), (False, ex_share)] ex_node
          = Ok n' \<and> nr_amount n' (AxSlot 1) = 4"
proof -
  let ?es = "[(True, ex_share), (True, ex_share), (False, ex_share)]"
  have "is_ok (rfold (ledger_step NodeResources_Sub NodeResources_Add) ?es ex_node)"
    by (simp add: ledger_step_def alloc_eval ex_node_def NodeResources_New_def ex_share_def NodeResources_Sub_def
        NodeResources_Add_def GPUResourceMap_Sub_def GPUResourceMap_Add_def gpus_sub_entry_def gpus_add_entry_def
        assert_nonneg_def i64_add_def)
  then obtain n' where n': "rfold (ledger_step NodeResources_Sub NodeResources_Add) ?es ex_node = Ok n'"
    by (auto simp: is_ok_iff)
  have "\<forall>e \<in> set ?es. nr_ok (snd e)" by (simp add: nr_ok_def ex_share_def gpus_ok_def bt_ok_def)
  then have "nr_amount ex_node (AxSlot 1) = nr_amount n' (AxSlot 1) + ledger_held nr_amount ?es (AxSlot 1)"
    by (rule node_history_conserves[OF n'])
  then show ?thesis using n'
    by (simp add: ledger_held_def nr_amount_def gpu_amount_def ex_node_def NodeResources_New_def ex_share_def ex_gpus_def
        bt_get_Cons)
qed

section \<open>Slots, virtual GPUs and the wire form\<close>

text \<open>
  The slots of a request: whenever the computation does not overflow and the count fits 32 bits, it
  is the least number of slots that holds the requested memory.
\<close>

theorem ReqSlotCnt_bounds:
  assumes "ReqSlotCnt m v = Ok s" and "v * 2 ^ 20 + slotSize m \<le> 2 ^ 32 * slotSize m"
  shows "v * 2 ^ 20 \<le> s * slotSize m \<and> s * slotSize m < v * 2 ^ 20 + slotSize m"
proof -
  define z where "z = slotSize m"
  have z: "0 < z" and s: "s = ((v * 2 ^ 20 + z - 1) div z) mod 2 ^ 32"
    using assms(1) by (auto simp: ReqSlotCnt_def res_simps arith_defs z_def mult.commute split: if_splits)
  have "v * 2 ^ 20 + z - 1 < 2 ^ 32 * z" using assms(2) z unfolding z_def[symmetric] by linarith
  then have "(v * 2 ^ 20 + z - 1) div z < 2 ^ 32" using z by (simp add: less_mult_imp_div_less)
  then have s': "s = (v * 2 ^ 20 + z - 1) div z" using s by simp
  have "s * z \<le> v * 2 ^ 20 + z - 1" "v * 2 ^ 20 + z - 1 < s * z + z"
    unfolding s' using z dividend_less_div_times[OF z, of "v * 2 ^ 20 + z - 1"] by (simp_all add: ac_simps)
  then show ?thesis using z unfolding z_def[symmetric] by linarith
qed

theorem ReqSlotCnt_bounds_witness:
  "5 * 2 ^ 20 \<le> (3::nat) * (2 * 2 ^ 20) \<and> (3::nat) * (2 * 2 ^ 20) < 5 * 2 ^ 20 + 2 * 2 ^ 20 \<and>
   ReqSlotCnt (ex_gpus\<lparr>slotSize := 2 * 2 ^ 20\<rparr>) 5 = Ok 3"
proof -
  have r: "ReqSlotCnt (ex_gpus\<lparr>slotSize := 2 * 2 ^ 20\<rparr>) 5 = Ok 3" by (simp add: alloc_eval)
  have "5 * 2 ^ 20 + slotSize (ex_gpus\<lparr>slotSize := 2 * 2 ^ 20\<rparr>) \<le> 2 ^ 32 * slotSize (ex_gpus\<lparr>slotSize := 2 * 2 ^ 20\<rparr>)"
    by simp
  from ReqSlotCnt_bounds[OF r this] show ?thesis using r by simp
qed

lemma VirtToPhy_fold:
  "fst (fold (\<lambda>p (m, v). (bt_insert v p m, v + 1)) ps (m, i)) =
     fold (\<lambda>(k, v). bt_insert k v) (zip (map (\<lambda>n. i + int n) [0..<length ps]) ps) m"
proof (induction ps arbitrary: m i)
  case (Cons p ps)
  have "map (\<lambda>n. i + int n) [0..<length (p # ps)] = i # map (\<lambda>n. (i + 1) + int n) [0..<length ps]"
    by (simp add: upt_conv_Cons map_Suc_upt[symmetric] comp_def ac_simps del: upt_Suc)
  then show ?case using Cons by simp
qed simp

lemma PhyToVirt_fold:
  "fst (fold (\<lambda>p (m, v). (bt_insert p v m, v + 1)) ps (m, i)) =
     fold (\<lambda>(k, v). bt_insert k v) (zip ps (map (\<lambda>n. i + int n) [0..<length ps])) m"
proof (induction ps arbitrary: m i)
  case (Cons p ps)
  have "map (\<lambda>n. i + int n) [0..<length (p # ps)] = i # map (\<lambda>n. (i + 1) + int n) [0..<length ps]"
    by (simp add: upt_conv_Cons map_Suc_upt[symmetric] comp_def ac_simps del: upt_Suc)
  then show ?case using Cons by simp
qed simp

lemma bt_get_of_list_distinct: "distinct (map fst es) \<Longrightarrow> bt_get k (bt_of_list es) = Some v \<longleftrightarrow> (k, v) \<in> set es"
  by (simp add: bt_get_of_list map_of_eq_Some_iff rev_map[symmetric])

lemma VirtToPhy_get:
  "bt_get v (VirtToPhy m) = Some p \<longleftrightarrow> 0 \<le> v \<and> nat v < length (gmap m) \<and> bt_keys (gmap m) ! nat v = p"
proof -
  let ?ks = "bt_keys (gmap m)"
  have eq: "VirtToPhy m = bt_of_list (zip (map int [0..<length ?ks]) ?ks)"
    by (simp add: VirtToPhy_def VirtToPhy_fold bt_of_list_def)
  have "distinct (map fst (zip (map int [0..<length ?ks]) ?ks))" by (simp add: distinct_map inj_on_def)
  then show ?thesis unfolding eq
    by (auto simp: bt_get_of_list_distinct in_set_zip bt_keys_def intro: exI[of _ "nat v"])
qed

lemma PhyToVirt_get:
  assumes "gpus_ok m"
  shows "bt_get p (PhyToVirt m) = Some v \<longleftrightarrow> 0 \<le> v \<and> nat v < length (gmap m) \<and> bt_keys (gmap m) ! nat v = p"
proof -
  let ?ks = "bt_keys (gmap m)"
  have eq: "PhyToVirt m = bt_of_list (zip ?ks (map int [0..<length ?ks]))"
    by (simp add: PhyToVirt_def PhyToVirt_fold bt_of_list_def)
  have "distinct (map fst (zip ?ks (map int [0..<length ?ks])))"
    using gpus_ok_entries[OF assms] by (simp add: bt_keys_def)
  then show ?thesis unfolding eq
    by (auto simp: bt_get_of_list_distinct in_set_zip bt_keys_def intro: exI[of _ "nat v"])
qed

text \<open>
  The two GPU translations are inverse bijections between the virtual ids \<open>0 .. n-1\<close> and the
  physical GPUs of the allocation, and keep the order of the physical ids.
\<close>

theorem VirtToPhy_PhyToVirt:
  assumes "gpus_ok m"
  shows "(bt_get v (VirtToPhy m) = Some p) = (bt_get p (PhyToVirt m) = Some v) \<and>
    (\<exists>v. bt_get p (PhyToVirt m) = Some v) = (p \<in> set (Gpus m)) \<and>
    (bt_get v (VirtToPhy m) = Some p \<and> bt_get w (VirtToPhy m) = Some q \<longrightarrow> (v < w) = (p < q))"
proof (intro conjI impI)
  show "(bt_get v (VirtToPhy m) = Some p) = (bt_get p (PhyToVirt m) = Some v)"
    by (simp add: VirtToPhy_get PhyToVirt_get[OF assms])
  show "(\<exists>v. bt_get p (PhyToVirt m) = Some v) = (p \<in> set (Gpus m))"
    unfolding PhyToVirt_get[OF assms] Gpus_def in_set_conv_nth
    by (auto simp: bt_keys_def intro: exI[of _ "int i" for i])
  have "sorted_wrt (<) (bt_keys (gmap m))" using assms by (simp add: gpus_ok_def bt_ok_def bt_keys_def)
  then have lt: "a < b \<Longrightarrow> b < length (gmap m) \<Longrightarrow> bt_keys (gmap m) ! a < bt_keys (gmap m) ! b" for a b
    using sorted_wrt_nth_less by (fastforce simp: bt_keys_def)
  assume "bt_get v (VirtToPhy m) = Some p \<and> bt_get w (VirtToPhy m) = Some q"
  then show "(v < w) = (p < q)"
    using lt[of "nat v" "nat w"] lt[of "nat w" "nat v"] unfolding VirtToPhy_get
    by (cases "v < w"; cases "w < v") (auto simp: nat_less_eq_zless)
qed

theorem VirtToPhy_PhyToVirt_witness:
  "bt_get 1 (VirtToPhy (ex_gpus\<lparr>gmap := [(3, undefined), (5, undefined)]\<rparr>)) = Some 5 \<and>
   bt_get 5 (PhyToVirt (ex_gpus\<lparr>gmap := [(3, undefined), (5, undefined)]\<rparr>)) = Some 1"
proof -
  let ?m = "ex_gpus\<lparr>gmap := [(3, undefined), (5, undefined)]\<rparr>"
  have m: "gpus_ok ?m" by (simp add: gpus_ok_def bt_ok_def)
  have "bt_get 1 (VirtToPhy ?m) = Some 5" by (simp add: VirtToPhy_def bt_get_Cons)
  then show ?thesis using VirtToPhy_PhyToVirt[OF m, of 1 5] by simp
qed

end
