(* ===== verification/Pattern.thy ===== *)
theory Pattern
  imports Inferx_Prelude
begin

text \<open>
  The regular expressions that the validators hand to the \<open>regex\<close> crate. The crate is a parameter
  \<open>re pat s\<close> of the model (\<open>Regex::new(pat).unwrap().is_match(s)\<close>); what is known of it is
  that on the patterns of the source it decides the language the pattern denotes. This theory has the
  syntax of those patterns, their printed form, their language, and a matcher by derivatives that
  decides it, which serves as the concrete engine of the witnesses.
\<close>

section \<open>Syntax and language\<close>

datatype item = CC char | CR char char | CE char

datatype rx =
    Empty
  | Eps
  | Cls "item list"
  | Lit char
  | Seq rx rx
  | Alt rx rx
  | Star rx

definition Opt :: "rx \<Rightarrow> rx" where
  "Opt r = Alt Eps r"

definition Plus :: "rx \<Rightarrow> rx" where
  "Plus r = Seq r (Star r)"

fun item_has :: "char \<Rightarrow> item \<Rightarrow> bool" where
  "item_has c (CC d) \<longleftrightarrow> c = d"
| "item_has c (CE d) \<longleftrightarrow> c = d"
| "item_has c (CR a b) \<longleftrightarrow> a \<le> c \<and> c \<le> b"

definition cls_has :: "item list \<Rightarrow> char \<Rightarrow> bool" where
  "cls_has is c \<longleftrightarrow> list_ex (item_has c) is"

fun lang :: "rx \<Rightarrow> string set" where
  "lang Empty = {}"
| "lang Eps = {[]}"
| "lang (Cls is) = {[c] | c. cls_has is c}"
| "lang (Lit c) = {[c]}"
| "lang (Seq r s) = {u @ v | u v. u \<in> lang r \<and> v \<in> lang s}"
| "lang (Alt r s) = lang r \<union> lang s"
| "lang (Star r) = {concat ws | ws. set ws \<subseteq> lang r}"

section \<open>Matching by derivatives\<close>

fun nullable :: "rx \<Rightarrow> bool" where
  "nullable Empty = False"
| "nullable Eps = True"
| "nullable (Cls is) = False"
| "nullable (Lit c) = False"
| "nullable (Seq r s) = (nullable r \<and> nullable s)"
| "nullable (Alt r s) = (nullable r \<or> nullable s)"
| "nullable (Star r) = True"

fun deriv :: "char \<Rightarrow> rx \<Rightarrow> rx" where
  "deriv c Empty = Empty"
| "deriv c Eps = Empty"
| "deriv c (Cls is) = (if cls_has is c then Eps else Empty)"
| "deriv c (Lit d) = (if c = d then Eps else Empty)"
| "deriv c (Seq r s) = (if nullable r then Alt (Seq (deriv c r) s) (deriv c s) else Seq (deriv c r) s)"
| "deriv c (Alt r s) = Alt (deriv c r) (deriv c s)"
| "deriv c (Star r) = Seq (deriv c r) (Star r)"

fun rx_match :: "rx \<Rightarrow> string \<Rightarrow> bool" where
  "rx_match r [] = nullable r"
| "rx_match r (c # s) = rx_match (deriv c r) s"

lemma nullable_lang: "nullable r \<longleftrightarrow> [] \<in> lang r"
  by (induction r) (auto intro: exI[of _ "[]"])

lemma star_head:
  assumes "c # s = concat ws" "set ws \<subseteq> L"
  shows "\<exists>u v vs. c # u \<in> L \<and> s = u @ v \<and> v = concat vs \<and> set vs \<subseteq> L"
  using assms
proof (induction ws)
  case (Cons w ws)
  then show ?case by (cases w) auto
qed simp

lemma deriv_lang: "s \<in> lang (deriv c r) \<longleftrightarrow> c # s \<in> lang r"
proof (induction r arbitrary: s)
  case (Seq r1 r2)
  have "c # s \<in> lang (Seq r1 r2) \<longleftrightarrow>
      (\<exists>u v. s = u @ v \<and> c # u \<in> lang r1 \<and> v \<in> lang r2) \<or> ([] \<in> lang r1 \<and> c # s \<in> lang r2)"
    by (auto simp: Cons_eq_append_conv)
  then show ?case using Seq by (auto simp: nullable_lang)
next
  case (Star r)
  have "c # s \<in> lang (Star r) \<longleftrightarrow> (\<exists>u v. s = u @ v \<and> c # u \<in> lang r \<and> v \<in> lang (Star r))"
  proof
    assume "c # s \<in> lang (Star r)"
    then show "\<exists>u v. s = u @ v \<and> c # u \<in> lang r \<and> v \<in> lang (Star r)"
      using star_head[of c s _ "lang r"] by fastforce
  next
    assume "\<exists>u v. s = u @ v \<and> c # u \<in> lang r \<and> v \<in> lang (Star r)"
    then obtain u ws where "s = u @ concat ws" "c # u \<in> lang r" "set ws \<subseteq> lang r" by auto
    then show "c # s \<in> lang (Star r)" by (auto intro!: exI[of _ "(c # u) # ws"])
  qed
  then show ?case using Star by auto
qed auto

lemma rx_match_lang: "rx_match r s \<longleftrightarrow> s \<in> lang r"
  by (induction s arbitrary: r) (auto simp: nullable_lang deriv_lang)

section \<open>Shapes of languages\<close>

lemma lang_Opt [simp]: "s \<in> lang (Opt r) \<longleftrightarrow> s = [] \<or> s \<in> lang r"
  by (auto simp: Opt_def)

lemma lang_Star_Cls: "s \<in> lang (Star (Cls is)) \<longleftrightarrow> list_all (cls_has is) s"
proof
  assume "s \<in> lang (Star (Cls is))"
  then obtain ws where "s = concat ws" "set ws \<subseteq> {[c] | c. cls_has is c}" by auto
  then show "list_all (cls_has is) s" by (auto simp: list_all_iff)
next
  assume "list_all (cls_has is) s"
  then show "s \<in> lang (Star (Cls is))"
    by (auto simp: list_all_iff intro!: exI[of _ "map (\<lambda>c. [c]) s"])
qed

text \<open>First and last character in one class, everything between in another.\<close>

definition bracketed :: "item list \<Rightarrow> item list \<Rightarrow> item list \<Rightarrow> string \<Rightarrow> bool" where
  "bracketed hs ms ls s \<longleftrightarrow> s \<noteq> [] \<and> cls_has hs (hd s) \<and> cls_has ls (last s) \<and> list_all (cls_has ms) (tl (butlast s))"

lemma lang_Seq_Cls: "s \<in> lang (Seq (Cls is) r) \<longleftrightarrow> s \<noteq> [] \<and> cls_has is (hd s) \<and> tl s \<in> lang r"
proof -
  have "s \<in> lang (Seq (Cls is) r) \<longleftrightarrow> (\<exists>c v. s = [c] @ v \<and> cls_has is c \<and> v \<in> lang r)"
    unfolding lang.simps by blast
  then show ?thesis by (cases s) auto
qed

lemma lang_Plus_Cls: "s \<in> lang (Plus (Cls is)) \<longleftrightarrow> s \<noteq> [] \<and> list_all (cls_has is) s"
  unfolding Plus_def lang_Seq_Cls lang_Star_Cls by (cases s) auto

lemma lang_Seq_snoc:
  "s \<in> lang (Seq r (Cls is)) \<longleftrightarrow> s \<noteq> [] \<and> cls_has is (last s) \<and> butlast s \<in> lang r"
  by (cases s rule: rev_cases) auto

section \<open>Printed form\<close>

fun pr_item :: "item \<Rightarrow> string" where
  "pr_item (CC c) = [c]"
| "pr_item (CE c) = [CHR 0x5C, c]"
| "pr_item (CR a b) = [a, CHR ''-'', b]"

fun pr :: "rx \<Rightarrow> string" where
  "pr (Cls is) = ''['' @ concat (map pr_item is) @ '']''"
| "pr (Lit c) = (if c \<in> {CHR ''*'', CHR ''.''} then [CHR 0x5C, c] else [c])"
| "pr (Alt Eps r) = ''('' @ pr r @ '')?''"
| "pr (Seq r (Star s)) = (if r = s then pr r @ ''+'' else pr r @ pr (Star s))"
| "pr (Seq r s) = pr r @ pr s"
| "pr (Star (Cls is)) = pr (Cls is) @ ''*''"
| "pr (Star r) = ''('' @ pr r @ '')*''"
| "pr r = ''''"

end
