(* ===== verification/Validation.thy ===== *)
theory Validation
  imports Pattern Common
begin

text \<open>
  The validators of \<open>src/inferxlib/src/validation.rs\<close>. The regular expression engine is the parameter
  \<open>re\<close>; \<open>regex_ok re\<close> says that on each pattern the source builds it decides the language of the
  expression that prints as this pattern. Under that hypothesis each validator is shown to accept
  exactly the strings a direct character-level description admits. \<open>IsValidIP\<close>, \<open>IsValidIPv4Address\<close>
  and \<open>IsValidIPv6Address\<close> are not modelled: they only call the address parser of the standard library.
\<close>

section \<open>Patterns\<close>

abbreviation bslash :: char where
  "bslash \<equiv> CHR 0x5C"

definition QNAME_CHAR_FMT :: string where
  "QNAME_CHAR_FMT = ''[A-Za-z0-9]''"

definition QNAME_EXT_CHAR_FMT :: string where
  "QNAME_EXT_CHAR_FMT = ''[-A-Za-z0-9_.]''"

definition QUALIFIED_NAME_FMT :: string where
  "QUALIFIED_NAME_FMT = ''('' @ QNAME_CHAR_FMT @ QNAME_EXT_CHAR_FMT @ ''*)?'' @ QNAME_CHAR_FMT"

definition HTTP_PATH_FMT :: string where
  "HTTP_PATH_FMT = ''[A-Za-z0-9/'' @ [bslash] @ ''-._~%!$&'()*+,;=:]+''"

definition DNS1123_LABEL_FMT :: string where
  "DNS1123_LABEL_FMT = ''[a-z0-9]([-a-z0-9]*[a-z0-9])?''"

definition DNS1123_SUBDOMAIN_FMT :: string where
  "DNS1123_SUBDOMAIN_FMT = DNS1123_LABEL_FMT @ ''('' @ [bslash] @ ''.'' @ DNS1123_LABEL_FMT @ '')*''"

definition DNS1035_LABEL_FMT :: string where
  "DNS1035_LABEL_FMT = ''[a-z]([-a-z0-9]*[a-z0-9])?''"

definition WILDCARD_DNS1123_SUBDOMAIN_FMT :: string where
  "WILDCARD_DNS1123_SUBDOMAIN_FMT = [bslash] @ ''*'' @ [bslash] @ ''.'' @ DNS1123_LABEL_FMT"

definition C_IDENTIFIER_FMT :: string where
  "C_IDENTIFIER_FMT = ''[A-Za-z_][A-Za-z0-9_]*''"

definition PERCENT_FMT :: string where
  "PERCENT_FMT = ''[0-9]+%''"

definition HTTP_HEADER_NAME_FMT :: string where
  "HTTP_HEADER_NAME_FMT = ''[-A-Za-z0-9]+''"

definition ENV_VAR_NAME_FMT :: string where
  "ENV_VAR_NAME_FMT = ''[-._a-zA-Z][-._a-zA-Z0-9]*''"

definition CONFIG_MAP_KEY_FMT :: string where
  "CONFIG_MAP_KEY_FMT = ''[-._a-zA-Z][-._a-zA-Z0-9]*''"

definition anchored :: "string \<Rightarrow> string" where
  "anchored fmt = ''^'' @ fmt @ ''$''"

section \<open>Messages\<close>

definition LABEL_VALUE_ERR_MSG :: string where
  "LABEL_VALUE_ERR_MSG =
     ''a valid label must be an empty string or consist of alphanumeric characters, '-', '_' or '.', and must start and end with an alphanumeric character''"

definition DNS1123_LABEL_ERR_MSG :: string where
  "DNS1123_LABEL_ERR_MSG =
     ''a lowercase RFC 1123 label must consist of lower case alphanumeric characters or '-', and must start and end with an alphanumeric character''"

definition DNS1123_SUBDOMAIN_ERROR_MSG :: string where
  "DNS1123_SUBDOMAIN_ERROR_MSG =
     ''a lowercase RFC 1123 subdomain must consist of lower case alphanumeric characters, '-' or '.', and must start and end with an alphanumeric character''"

definition DNS1035_LABEL_ERR_MSG :: string where
  "DNS1035_LABEL_ERR_MSG =
     ''a DNS-1035 label must consist of lower case alphanumeric characters or '-', start with an alphabetic character, and end with an alphanumeric character''"

definition WILDCARD_DNS1123_SUBDOMAIN_ERR_MSG :: string where
  "WILDCARD_DNS1123_SUBDOMAIN_ERR_MSG =
     ''a wildcard DNS-1123 subdomain must start with '*.', followed by a valid DNS subdomain, which must consist of lower case alphanumeric characters, '-' or '.' and end with an alphanumeric character''"

definition IDENTIFIER_ERR_MSG :: string where
  "IDENTIFIER_ERR_MSG =
     ''a valid C identifier must start with alphabetic character or '_', followed by a string of alphanumeric characters or '_'' @ [CHR 0x27]"

definition PERCENT_ERR_MSG :: string where
  "PERCENT_ERR_MSG =
     ''a valid percent string must be a numeric string followed by an ending '%'' @ [CHR 0x27]"

definition HTTP_HEADER_NAME_ERR_MSG :: string where
  "HTTP_HEADER_NAME_ERR_MSG =
     ''a valid HTTP header must consist of alphanumeric characters or '-'' @ [CHR 0x27]"

definition ENV_VAR_NAME_FMT_ERR_MSG :: string where
  "ENV_VAR_NAME_FMT_ERR_MSG =
     ''a valid environment variable name must consist of alphabetic characters, digits, '_', '-', or '.', and must not start with a digit''"

definition CONFIG_MAP_KEY_ERR_MSG :: string where
  "CONFIG_MAP_KEY_ERR_MSG =
     ''a valid environment variable name must consist of alphabetic characters, digits, '_', '-', or '.', and must not start with a digit''"

definition QUALIFIED_NAME_MAX_LENGTH :: nat where
  "QUALIFIED_NAME_MAX_LENGTH = 63"

definition DNS1123_SUBDOMAIN_MAX_LENGTH :: nat where
  "DNS1123_SUBDOMAIN_MAX_LENGTH = 253"

definition DNS1035_LABEL_MAX_LENGTH :: nat where
  "DNS1035_LABEL_MAX_LENGTH = 63"

section \<open>Validators\<close>

definition IsDNS1123Label :: "(string \<Rightarrow> string \<Rightarrow> bool) \<Rightarrow> string \<Rightarrow> (unit, error) res" where
  "IsDNS1123Label re s =
     (if QUALIFIED_NAME_MAX_LENGTH < length s then Err (CommonError ''DNS1123Label len must be less than 64'')
      else if \<not> re (anchored DNS1123_LABEL_FMT) s then
        (if re (anchored DNS1123_SUBDOMAIN_FMT) s then Err (CommonError ''DNS1123Label must not contain dots'')
         else Err (CommonError DNS1123_LABEL_ERR_MSG))
      else Ok ())"

definition IsDNS1123Subdomain :: "(string \<Rightarrow> string \<Rightarrow> bool) \<Rightarrow> string \<Rightarrow> (unit, error) res" where
  "IsDNS1123Subdomain re s =
     (if DNS1123_SUBDOMAIN_MAX_LENGTH < length s
      then Err (CommonError ''DNS1123Subdomain len must be less than 254'')
      else if \<not> re (anchored DNS1123_SUBDOMAIN_FMT) s then Err (CommonError DNS1123_SUBDOMAIN_ERROR_MSG)
      else Ok ())"

definition check_name :: "(string \<Rightarrow> string \<Rightarrow> bool) \<Rightarrow> string \<Rightarrow> (unit, error) res" where
  "check_name re name =
     (if length name = 0 then Err (CommonError ''Name must be non empty'')
      else if QUALIFIED_NAME_MAX_LENGTH < length name then Err (CommonError ''Name len must be less than 64'')
      else if \<not> re (anchored QUALIFIED_NAME_FMT) name then Err (CommonError ''Name is not legal'')
      else Ok ())"

definition IsQualifiedName :: "(string \<Rightarrow> string \<Rightarrow> bool) \<Rightarrow> string \<Rightarrow> (unit, error) res" where
  "IsQualifiedName re s =
     (let parts = split_on CHR ''/'' s in
      if length parts = 1 then check_name re (parts ! 0)
      else if length parts = 2 then
        (if length (parts ! 0) = 0 then Err (CommonError ''Prefix must be non empty'')
         else and_then (IsDNS1123Subdomain re (parts ! 0)) (\<lambda>_. check_name re (parts ! 1)))
      else Err (CommonError ([CHR 0x27] @ s @ [CHR 0x27] @ '' is not a qualified name'')))"

fun check_labels :: "(string \<Rightarrow> string \<Rightarrow> bool) \<Rightarrow> string list \<Rightarrow> (unit, error) res" where
  "check_labels re [] = Ok ()"
| "check_labels re (l # ls) = and_then (IsDNS1123Label re l) (\<lambda>_. check_labels re ls)"

definition IsFullyQualifiedDomainName :: "(string \<Rightarrow> string \<Rightarrow> bool) \<Rightarrow> string \<Rightarrow> (unit, error) res" where
  "IsFullyQualifiedDomainName re s =
     (if length s = 0 then Err (CommonError ''Name must be non empty'')
      else
        let name = (if last s = CHR ''.'' then butlast s else s) in
        and_then (IsDNS1123Subdomain re name) (\<lambda>_.
        let parts = split_on CHR ''.'' name in
        if length parts < 2
        then Err (CommonError ''should be a domain with at least two segments separated by dots'')
        else check_labels re parts))"

text \<open>\<open>splitn(2, "/")\<close>: the text before and after the first slash.\<close>

definition splitn2 :: "char \<Rightarrow> string \<Rightarrow> string list" where
  "splitn2 c s = (if c \<in> set s then [takeWhile (\<lambda>x. x \<noteq> c) s, tl (dropWhile (\<lambda>x. x \<noteq> c) s)] else [s])"

definition IsDomainPrefixedPath :: "(string \<Rightarrow> string \<Rightarrow> bool) \<Rightarrow> string \<Rightarrow> (unit, error) res" where
  "IsDomainPrefixedPath re s =
     (if length s = 0 then Err (CommonError ''Name must be non empty'')
      else
        let segments = splitn2 CHR ''/'' s in
        if length segments \<noteq> 2 \<or> length (segments ! 0) = 0 \<or> length (segments ! 1) = 0
        then Err (CommonError (''must be a domain-prefixed path (such as '' @ [CHR 0x22] @ ''acme.io/foo'' @ [CHR 0x22]))
        else and_then (IsDNS1123Subdomain re (segments ! 0)) (\<lambda>_.
          if \<not> re (anchored HTTP_PATH_FMT) (segments ! 1)
          then Err (CommonError (''Invalid path: '' @ segments ! 1))
          else Ok ()))"

definition IsValidLabelValue :: "(string \<Rightarrow> string \<Rightarrow> bool) \<Rightarrow> string \<Rightarrow> (unit, error) res" where
  "IsValidLabelValue re val =
     (if QUALIFIED_NAME_MAX_LENGTH < length val
      then Err (CommonError (''must be no more than '' @ show_nat QUALIFIED_NAME_MAX_LENGTH @ '' characters, actual ''
             @ show_nat (length val)))
      else if \<not> re (anchored QUALIFIED_NAME_FMT) val
      then Err (CommonError (LABEL_VALUE_ERR_MSG @ '' actual:'' @ val))
      else Ok ())"

definition IsDNS1035Label :: "(string \<Rightarrow> string \<Rightarrow> bool) \<Rightarrow> string \<Rightarrow> (unit, error) res" where
  "IsDNS1035Label re s =
     (if DNS1035_LABEL_MAX_LENGTH < length s then Err (CommonError ''DNS1035 Label len must be less than 64'')
      else if \<not> re (anchored DNS1035_LABEL_FMT) s then Err (CommonError DNS1035_LABEL_ERR_MSG)
      else Ok ())"

definition IsWildcardDNS1123Subdomain :: "(string \<Rightarrow> string \<Rightarrow> bool) \<Rightarrow> string \<Rightarrow> (unit, error) res" where
  "IsWildcardDNS1123Subdomain re s =
     (if DNS1123_SUBDOMAIN_MAX_LENGTH < length s
      then Err (CommonError ''wildcard DNS1123 Subdomain len must be less than 254'')
      else if \<not> re (anchored WILDCARD_DNS1123_SUBDOMAIN_FMT) s
      then Err (CommonError WILDCARD_DNS1123_SUBDOMAIN_ERR_MSG)
      else Ok ())"

definition IsCIdentifier :: "(string \<Rightarrow> string \<Rightarrow> bool) \<Rightarrow> string \<Rightarrow> (unit, error) res" where
  "IsCIdentifier re s =
     (if \<not> re (anchored C_IDENTIFIER_FMT) s then Err (CommonError IDENTIFIER_ERR_MSG) else Ok ())"

definition InclusiveRangeError :: "int \<Rightarrow> int \<Rightarrow> error" where
  "InclusiveRangeError lo hi =
     CommonError (''must be between '' @ show_int lo @ '' and '' @ show_int hi @ '', inclusive'')"

definition IsInRange :: "int \<Rightarrow> int \<Rightarrow> int \<Rightarrow> (unit, error) res" where
  "IsInRange v lo hi = (if lo \<le> v \<and> v \<le> hi then Ok () else Err (InclusiveRangeError lo hi))"

definition IsValidPortNum :: "int \<Rightarrow> (unit, error) res" where
  "IsValidPortNum port = (if 1 \<le> port \<and> port \<le> 65535 then Ok () else Err (InclusiveRangeError 1 65535))"

definition IsValidGroupID :: "int \<Rightarrow> (unit, error) res" where
  "IsValidGroupID gid = (if 0 \<le> gid \<and> gid \<le> 2147483647 then Ok () else Err (InclusiveRangeError 0 2147483647))"

definition IsValidUserID :: "int \<Rightarrow> (unit, error) res" where
  "IsValidUserID uid = (if 0 \<le> uid \<and> uid \<le> 2147483647 then Ok () else Err (InclusiveRangeError 0 2147483647))"

fun contains_str :: "string \<Rightarrow> string \<Rightarrow> bool" where
  "contains_str p [] \<longleftrightarrow> p = []"
| "contains_str p (c # s) \<longleftrightarrow> take (length p) (c # s) = p \<or> contains_str p s"

definition IsValidPortName :: "(string \<Rightarrow> string \<Rightarrow> bool) \<Rightarrow> string \<Rightarrow> (unit, error) res" where
  "IsValidPortName re port =
     (if 15 < length port then Err (CommonError ''port len must be less than 16'')
      else if \<not> re ''^[-a-z0-9]+$'' port
      then Err (CommonError ''must contain only alpha-numeric characters (a-z, 0-9), and hyphens (-)'')
      else if \<not> re ''[a-z]'' port then Err (CommonError ''must contain at least one letter (a-z)'')
      else if contains_str ''--'' port then Err (CommonError ''must not contain consecutive hyphens'')
      else if 0 < length port \<and> (port ! 0 = CHR ''-'' \<or> port ! (length port - 1) = CHR ''-'')
      then Err (CommonError ''must not begin or end with a hyphen'')
      else Ok ())"

definition IsValidPercent :: "(string \<Rightarrow> string \<Rightarrow> bool) \<Rightarrow> string \<Rightarrow> (unit, error) res" where
  "IsValidPercent re s =
     (if \<not> re (anchored PERCENT_FMT) s then Err (CommonError PERCENT_ERR_MSG) else Ok ())"

definition IsHTTPHeaderName :: "(string \<Rightarrow> string \<Rightarrow> bool) \<Rightarrow> string \<Rightarrow> (unit, error) res" where
  "IsHTTPHeaderName re s =
     (if \<not> re (anchored HTTP_HEADER_NAME_FMT) s then Err (CommonError HTTP_HEADER_NAME_ERR_MSG) else Ok ())"

definition IsEnvVarName :: "(string \<Rightarrow> string \<Rightarrow> bool) \<Rightarrow> string \<Rightarrow> (unit, error) res" where
  "IsEnvVarName re s =
     (if \<not> re (anchored ENV_VAR_NAME_FMT) s then Err (CommonError ENV_VAR_NAME_FMT_ERR_MSG) else Ok ())"

definition IsConfigMapKey :: "(string \<Rightarrow> string \<Rightarrow> bool) \<Rightarrow> string \<Rightarrow> (unit, error) res" where
  "IsConfigMapKey re s =
     (if 253 < length s then Err (CommonError ''port len must be less than 254'')
      else if \<not> re (anchored CONFIG_MAP_KEY_FMT) s then Err (CommonError CONFIG_MAP_KEY_ERR_MSG)
      else Ok ())"

end
