(* ===== verification/Selector.thy ===== *)
theory Selector
  imports BTree_Map Validation
begin

text \<open>
  Labels, requirements and selectors of \<open>src/inferxlib/src/selector.rs\<close> (the lexer and the parser are in
  \<open>Selector_Parser\<close>). \<open>Labels\<close> is an ordered map, a \<open>Selector\<close> the list of its requirements.
  \<open>Selector::GetAttributes\<close> and \<open>Selector::ToString\<close> walk values of \<open>serde_json\<close> and are not modelled.
\<close>

section \<open>Types\<close>

datatype SelectionOp =
    OpNone | DoesNotExist | Equals | DoubleEquals | OpIn | NotEquals | NotIn | Exists | GreaterThan | LessThan

fun SelectionOp_as_str :: "SelectionOp \<Rightarrow> string" where
  "SelectionOp_as_str OpNone = ''''"
| "SelectionOp_as_str DoesNotExist = ''!''"
| "SelectionOp_as_str Equals = ''=''"
| "SelectionOp_as_str DoubleEquals = ''==''"
| "SelectionOp_as_str OpIn = ''in''"
| "SelectionOp_as_str NotEquals = ''!=''"
| "SelectionOp_as_str NotIn = ''notin''"
| "SelectionOp_as_str Exists = ''exists''"
| "SelectionOp_as_str GreaterThan = ''gt''"
| "SelectionOp_as_str LessThan = ''lt''"

record Requirement =
  rq_key :: string
  rq_op :: SelectionOp
  strVals :: "string list"

type_synonym Selector = "Requirement list"
type_synonym Labels = "(string, string) btmap"

definition Requirement_default :: Requirement where
  "Requirement_default = \<lparr>rq_key = '''', rq_op = DoesNotExist, strVals = []\<rparr>"

section \<open>Integers in labels\<close>

text \<open>\<open>str::parse\<close> of the integer types: a sign, then at least one decimal digit, within the range.\<close>

definition digit_value :: "char \<Rightarrow> nat" where
  "digit_value c = of_char c - 48"

definition parse_digits :: "string \<Rightarrow> nat option" where
  "parse_digits s = (if s \<noteq> [] \<and> list_all is_digit s then Some (fold (\<lambda>c n. 10 * n + digit_value c) s 0) else None)"

definition parse_u64 :: "string \<Rightarrow> nat option" where
  "parse_u64 s =
     (case parse_digits (case s of c # t \<Rightarrow> if c = CHR ''+'' then t else s | [] \<Rightarrow> s) of
        None \<Rightarrow> None
      | Some n \<Rightarrow> if n < 2 ^ 64 then Some n else None)"

definition parse_i64 :: "string \<Rightarrow> int option" where
  "parse_i64 s =
     (let neg = (case s of c # _ \<Rightarrow> c = CHR ''-'' | [] \<Rightarrow> False);
          body = (case s of c # t \<Rightarrow> if c = CHR ''+'' \<or> c = CHR ''-'' then t else s | [] \<Rightarrow> s)
      in case parse_digits body of
           None \<Rightarrow> None
         | Some n \<Rightarrow> let v = (if neg then - int n else int n) in if in_i64 v then Some v else None)"

section \<open>Labels\<close>

definition ValidateLabelKey :: "(string \<Rightarrow> string \<Rightarrow> bool) \<Rightarrow> string \<Rightarrow> (unit, error) res" where
  "ValidateLabelKey re k = IsQualifiedName re k"

definition ValidateLabelValue :: "(string \<Rightarrow> string \<Rightarrow> bool) \<Rightarrow> string \<Rightarrow> string \<Rightarrow> (unit, error) res" where
  "ValidateLabelValue re k v = IsValidLabelValue re v"

definition Labels_Has :: "Labels \<Rightarrow> string \<Rightarrow> bool" where
  "Labels_Has self label = bt_contains label self"

definition Labels_Get :: "Labels \<Rightarrow> string \<Rightarrow> string option" where
  "Labels_Get self label = bt_get label self"

definition Labels_Copy :: "Labels \<Rightarrow> Labels" where
  "Labels_Copy self = fold (\<lambda>(k, v). bt_insert k v) self []"

definition NewFromSlice :: "(string \<times> string) list \<Rightarrow> Labels" where
  "NewFromSlice item = fold (\<lambda>(k, v). bt_insert k v) item []"

definition labels_new_step ::
  "(string \<Rightarrow> string \<Rightarrow> bool) \<Rightarrow> string \<Rightarrow> Labels \<Rightarrow> (Labels, error) res" where
  "labels_new_step re label m =
     (let l = split_on CHR ''='' label in
      if length l \<noteq> 2 then Err (CommonError (''invalid selector: '' @ label))
      else
        let key = trim (l ! 0) in
        and_then (ValidateLabelKey re key) (\<lambda>_.
        let v = trim (l ! 1) in
        and_then (ValidateLabelValue re key v) (\<lambda>_.
        Ok (bt_insert key v m))))"

definition Labels_New :: "(string \<Rightarrow> string \<Rightarrow> bool) \<Rightarrow> string \<Rightarrow> (Labels, error) res" where
  "Labels_New re selector =
     (if length selector = 0 then Ok []
      else rfold (labels_new_step re) (split_on CHR '','' selector) [])"

definition Labels_String :: "Labels \<Rightarrow> string" where
  "Labels_String self =
     fold (\<lambda>(k, v) ret. (if length ret \<noteq> 0 then ret @ '','' else ret) @ k @ ''='' @ v) self ''''"

definition Labels_Format :: "Labels \<Rightarrow> string" where
  "Labels_Format self = (let l = Labels_String self in if length l = 0 then ''<none>'' else l)"

fun conflict_loop :: "(string \<times> string) list \<Rightarrow> Labels \<Rightarrow> bool" where
  "conflict_loop [] big = False"
| "conflict_loop ((k, v) # small) big =
     (case bt_get k big of
        None \<Rightarrow> False
      | Some val \<Rightarrow> if v \<noteq> val then True else conflict_loop small big)"

definition Labels_Conflict :: "Labels \<Rightarrow> Labels \<Rightarrow> bool" where
  "Labels_Conflict self labels =
     (if length self < length labels then conflict_loop self labels else conflict_loop labels self)"

definition Labels_Merge :: "Labels \<Rightarrow> Labels \<Rightarrow> Labels" where
  "Labels_Merge self labels =
     fold (\<lambda>(k, v). bt_insert k v) labels (fold (\<lambda>(k, v). bt_insert k v) self [])"

fun equals_loop :: "(string \<times> string) list \<Rightarrow> Labels \<Rightarrow> bool" where
  "equals_loop [] labels = True"
| "equals_loop ((k, v) # es) labels =
     (case bt_get k labels of
        None \<Rightarrow> False
      | Some val \<Rightarrow> if v \<noteq> val then False else equals_loop es labels)"

definition Labels_Equals :: "Labels \<Rightarrow> Labels \<Rightarrow> bool" where
  "Labels_Equals self labels = (if length self \<noteq> length labels then False else equals_loop self labels)"

fun matches_loop :: "(string \<times> string) list \<Rightarrow> Labels \<Rightarrow> bool" where
  "matches_loop [] labels = True"
| "matches_loop ((k, v) # es) labels =
     (if \<not> Labels_Has labels k \<or> Some v \<noteq> Labels_Get labels k then False else matches_loop es labels)"

definition Labels_Matches :: "Labels \<Rightarrow> Labels \<Rightarrow> bool" where
  "Labels_Matches self labels = matches_loop self labels"

definition Labels_Empty :: "Labels \<Rightarrow> bool" where
  "Labels_Empty self \<longleftrightarrow> length self = 0"

definition Labels_RequiresExactMatch :: "Labels \<Rightarrow> string \<Rightarrow> string option" where
  "Labels_RequiresExactMatch self lable = Labels_Get self lable"

section \<open>Requirements\<close>

definition Requirement_Equ :: "Requirement \<Rightarrow> Requirement \<Rightarrow> bool" where
  "Requirement_Equ self other =
     (if length (strVals self) \<noteq> length (strVals other) then False
      else
        let s = bs_of_list (strVals self) in
        if \<exists>x \<in> set (strVals other). \<not> bt_contains x s then False
        else rq_key self = rq_key other \<and> rq_op self = rq_op other)"

definition Requirement_Copy :: "Requirement \<Rightarrow> Requirement" where
  "Requirement_Copy self =
     \<lparr>rq_key = rq_key self, rq_op = rq_op self, strVals = fold (\<lambda>x vs. vs @ [x]) (strVals self) []\<rparr>"

definition Requirement_New ::
  "(string \<Rightarrow> string \<Rightarrow> bool) \<Rightarrow> string \<Rightarrow> SelectionOp \<Rightarrow> string list \<Rightarrow> (Requirement, error) res" where
  "Requirement_New re key op' vals =
     and_then (ValidateLabelKey re key) (\<lambda>_.
     let done = Ok \<lparr>rq_key = key, rq_op = op', strVals = vals\<rparr> in
     if op' = OpNone then Panic
     else if op' \<in> {OpIn, NotIn} then
       (if length vals = 0
        then Err (CommonError ''for 'in', 'notin' operators, values set can't be empty'') else done)
     else if op' \<in> {Equals, DoubleEquals, NotEquals} then
       (if length vals \<noteq> 1
        then Err (CommonError ''exact-match compatibility requires one single value'') else done)
     else if op' \<in> {Exists, DoesNotExist} then
       (if length vals \<noteq> 0
        then Err (CommonError ''values set must be empty for exists and does not exist'') else done)
     else
       (if length vals \<noteq> 1
        then Err (CommonError ''for 'Gt', 'Lt' operators, exactly one value is required'')
        else if \<exists>v \<in> set vals. parse_u64 v = None
        then Err (CommonError ''for 'Gt', 'Lt' operators, the value must be an integer'') else done))"

definition GetRequirement ::
  "(string \<Rightarrow> string \<Rightarrow> bool) \<Rightarrow> string \<Rightarrow> SelectionOp \<Rightarrow> string list \<Rightarrow> (Requirement, error) res" where
  "GetRequirement re key op' vals =
     (case Requirement_New re key op' vals of
        Err _ \<Rightarrow> Ok Requirement_default
      | Ok r \<Rightarrow> Ok r
      | Panic \<Rightarrow> Panic)"

definition HasValue :: "Requirement \<Rightarrow> string \<Rightarrow> bool" where
  "HasValue self val \<longleftrightarrow> list_ex (\<lambda>x. x = val) (strVals self)"

definition Matchs :: "Requirement \<Rightarrow> Labels \<Rightarrow> (bool, error) res" where
  "Matchs self ls =
     (if rq_op self = OpNone then Panic
      else if rq_op self \<in> {OpIn, Equals, DoubleEquals} then
        (case Labels_Get ls (rq_key self) of None \<Rightarrow> Ok False | Some val \<Rightarrow> Ok (HasValue self val))
      else if rq_op self \<in> {NotIn, NotEquals} then
        (case Labels_Get ls (rq_key self) of None \<Rightarrow> Ok True | Some val \<Rightarrow> Ok (\<not> HasValue self val))
      else if rq_op self = Exists then Ok (Labels_Has ls (rq_key self))
      else if rq_op self = DoesNotExist then Ok (\<not> Labels_Has ls (rq_key self))
      else if \<not> Labels_Has ls (rq_key self) then Ok False
      else
        (case Labels_Get ls (rq_key self) of
           None \<Rightarrow> Ok False
         | Some val \<Rightarrow>
             (case parse_i64 val of
                None \<Rightarrow> Ok False
              | Some lsValue \<Rightarrow>
                  if length (strVals self) \<noteq> 1 then Ok False
                  else
                    (case parse_i64 (strVals self ! 0) of
                       None \<Rightarrow> Ok False
                     | Some rValue \<Rightarrow>
                         if rq_op self = GreaterThan then Ok (rValue < lsValue) else Ok (lsValue < rValue)))))"

definition Requirement_Values :: "Requirement \<Rightarrow> string btset" where
  "Requirement_Values self = bs_of_list (strVals self)"

text \<open>The comparison of values is between \<open>self.strVals[i]\<close> and itself in the source.\<close>

definition Requirement_Equal :: "Requirement \<Rightarrow> Requirement \<Rightarrow> bool" where
  "Requirement_Equal self x =
     (if rq_key self \<noteq> rq_key x then False
      else if rq_op self \<noteq> rq_op x then False
      else if length (strVals self) \<noteq> length (strVals x) then False
      else \<not> (\<exists>i \<in> set [0..<length (strVals self)]. strVals self ! i \<noteq> strVals self ! i))"

definition Requirement_String :: "Requirement \<Rightarrow> string" where
  "Requirement_String self =
     (let out = (if rq_op self = DoesNotExist then ''!'' else '''') @ rq_key self in
      if rq_op self \<in> {DoesNotExist, Exists} then out
      else
        let out = out @ (case rq_op self of
               Equals \<Rightarrow> ''='' | DoubleEquals \<Rightarrow> ''=='' | OpIn \<Rightarrow> '' in '' | NotEquals \<Rightarrow> ''!=''
             | NotIn \<Rightarrow> '' notin '' | GreaterThan \<Rightarrow> ''>'' | LessThan \<Rightarrow> ''<'' | _ \<Rightarrow> '''');
            par = rq_op self \<in> {OpIn, NotIn}
        in out @ (if par then ''('' else '''') @ join_with '','' (bt_keys (Requirement_Values self))
             @ (if par then '')'' else ''''))"

section \<open>Selectors\<close>

fun equ_loop :: "Selector \<Rightarrow> Selector \<Rightarrow> bool" where
  "equ_loop (a # as) (b # bs) = (if \<not> Requirement_Equ a b then False else equ_loop as bs)"
| "equ_loop _ _ = True"

definition Selector_Equ :: "Selector \<Rightarrow> Selector \<Rightarrow> bool" where
  "Selector_Equ self other = (if length self \<noteq> length other then False else equ_loop self other)"

definition Selector_DeepCopy :: "Selector \<Rightarrow> Selector" where
  "Selector_DeepCopy self = fold (\<lambda>r copy. copy @ [Requirement_Copy r]) self []"

text \<open>\<open>Vec::sort\<close> is stable and compares the keys only (\<open>impl Ord for Requirement\<close>).\<close>

definition Selector_Sort :: "Selector \<Rightarrow> Selector" where
  "Selector_Sort self = sort_key rq_key self"

definition Selector_Add :: "Selector \<Rightarrow> Requirement \<Rightarrow> Selector" where
  "Selector_Add self r = self @ [r]"

fun Selector_Match :: "Selector \<Rightarrow> Labels \<Rightarrow> (bool, error) res" where
  "Selector_Match [] l = Ok True"
| "Selector_Match (r # rs) l =
     and_then (Matchs r l) (\<lambda>b. if \<not> b then Ok False else Selector_Match rs l)"

definition Selector_String :: "Selector \<Rightarrow> string" where
  "Selector_String self = join_with '','' (map Requirement_String self)"

fun Selector_RequiresExactMatch :: "Selector \<Rightarrow> string \<Rightarrow> string option" where
  "Selector_RequiresExactMatch [] label = None"
| "Selector_RequiresExactMatch (r # rs) label =
     (if rq_key r = label then
        (if rq_op r \<in> {Equals, DoubleEquals, OpIn} then
           (if length (strVals r) = 1 then Some (strVals r ! 0) else Selector_RequiresExactMatch rs label)
         else None)
      else None)"

definition Selector_Empty :: "Selector \<Rightarrow> bool" where
  "Selector_Empty self \<longleftrightarrow> length self = 0"

definition ToSelector :: "Labels \<Rightarrow> Selector" where
  "ToSelector self = fold (\<lambda>(k, v) s. Selector_Add s \<lparr>rq_key = k, rq_op = Equals, strVals = [v]\<rparr>) self []"

definition SelectorFromValidatedSet :: "Labels \<Rightarrow> Selector" where
  "SelectorFromValidatedSet ls =
     (if length ls = 0 then []
      else Selector_Sort (fold (\<lambda>(label, v) rs. rs @ [\<lparr>rq_key = label, rq_op = Equals, strVals = [v]\<rparr>]) ls []))"

definition SelectorFromSet :: "Labels \<Rightarrow> Selector" where
  "SelectorFromSet ls = SelectorFromValidatedSet ls"

definition toFullSelector :: "Labels \<Rightarrow> Selector" where
  "toFullSelector self = SelectorFromSet self"

definition ValidatedSelectorFromSet :: "(string \<Rightarrow> string \<Rightarrow> bool) \<Rightarrow> Labels \<Rightarrow> (Selector, error) res" where
  "ValidatedSelectorFromSet re ls =
     (if length ls = 0 then Ok []
      else and_then (rfold (\<lambda>(label, v) rs. and_then (Requirement_New re label Equals [v]) (\<lambda>r. Ok (rs @ [r]))) ls [])
             (\<lambda>rs. Ok (Selector_Sort rs)))"

end
