(* ===== verification/Data_Obj.thy ===== *)
theory Data_Obj
  imports Selector
begin

text \<open>
  Objects and the object manager of \<open>src/inferxlib/src/data_obj.rs\<close>. The payload of an object is a type
  parameter. The manager is the ordered map inside its mutex: each operation holds the lock from
  start to end, so it is one step on the map. Conversions through \<open>serde_json\<close> are not modelled.
\<close>

section \<open>Events and objects\<close>

datatype EventType = EvNone | Added | Modified | Deleted | InitDone | EvError string

fun EventType_DeepCopy :: "EventType \<Rightarrow> EventType" where
  "EventType_DeepCopy EvNone = EvNone"
| "EventType_DeepCopy Added = Added"
| "EventType_DeepCopy Modified = Modified"
| "EventType_DeepCopy Deleted = Deleted"
| "EventType_DeepCopy InitDone = InitDone"
| "EventType_DeepCopy (EvError s) = EvError s"

text \<open>The test that deserialisation applies to tenant, namespace and name.\<close>

definition is_ascii_alphanumeric :: "char \<Rightarrow> bool" where
  "is_ascii_alphanumeric b \<longleftrightarrow> is_digit b \<or> (CHR ''a'' \<le> b \<and> b \<le> CHR ''z'') \<or> (CHR ''A'' \<le> b \<and> b \<le> CHR ''Z'')"

definition validate_name :: "string \<Rightarrow> (string, error) res" where
  "validate_name s =
     (if list_all (\<lambda>b. is_ascii_alphanumeric b \<or> b = CHR ''-'' \<or> b = CHR ''_'' \<or> b = CHR ''.'') s then Ok s
      else Err (SerdeJsonError ''invalid characters: only 0-9, a-z, A-Z, '-', '_' and '.' allowed''))"

record 'a DataObject =
  objType :: string
  do_tenant :: string
  do_namespace :: string
  do_name :: string
  do_labels :: Labels
  do_annotations :: Labels
  channelRev :: int
  srcEpoch :: int
  revision :: int
  object :: 'a

record 'a DeltaEvent =
  de_type :: EventType
  inInitialList :: bool
  de_obj :: "'a DataObject"
  oldObj :: "'a DataObject option"

record 'a WatchEvent =
  we_type :: EventType
  we_obj :: "'a DataObject"

record EpochRevision =
  er_srcEpoch :: int
  er_revision :: int

definition CopyWithRev :: "'a DataObject \<Rightarrow> int \<Rightarrow> int \<Rightarrow> 'a DataObject" where
  "CopyWithRev self chRev newRev =
     self\<lparr>do_labels := Labels_Copy (do_labels self), do_annotations := Labels_Copy (do_annotations self),
       channelRev := chRev, revision := newRev\<rparr>"

definition DataObject_DeepCopy :: "'a DataObject \<Rightarrow> 'a DataObject" where
  "DataObject_DeepCopy self =
     \<lparr>objType = objType self, do_tenant = do_tenant self, do_namespace = do_namespace self, do_name = do_name self,
      do_labels = Labels_Copy (do_labels self), do_annotations = Labels_Copy (do_annotations self),
      channelRev = channelRev self, srcEpoch = srcEpoch self, revision = revision self, object = object self\<rparr>"

definition DataObject_Key :: "'a DataObject \<Rightarrow> string" where
  "DataObject_Key self = slash3 (do_tenant self) (do_namespace self) (do_name self)"

definition Objectkey :: "'a DataObject \<Rightarrow> string" where
  "Objectkey self = slash4 (do_tenant self) (do_namespace self) (do_name self) (show_int (revision self))"

definition StoreKey :: "'a DataObject \<Rightarrow> string" where
  "StoreKey self = slash4 (objType self) (do_tenant self) (do_namespace self) (do_name self)"

definition DataObject_EpochRevision :: "'a DataObject \<Rightarrow> EpochRevision" where
  "DataObject_EpochRevision self = \<lparr>er_srcEpoch = srcEpoch self, er_revision = revision self\<rparr>"

section \<open>The object manager\<close>

type_synonym 'a DataObjectMgr = "(string, 'a DataObject) btmap"

definition DataObjectMgr_Contains :: "'a DataObjectMgr \<Rightarrow> string \<Rightarrow> string \<Rightarrow> string \<Rightarrow> bool" where
  "DataObjectMgr_Contains self t ns nm = bt_contains (slash3 t ns nm) self"

definition scan_start :: "string \<Rightarrow> string \<Rightarrow> string" where
  "scan_start t ns = (if 0 < length t then (if 0 < length ns then t @ ''/'' @ ns @ ''/'' else t @ ''/'') else '''')"

definition starts_with :: "string \<Rightarrow> string \<Rightarrow> bool" where
  "starts_with p s \<longleftrightarrow> take (length p) s = p"

text \<open>The loop of the scans: from the first key not below \<open>start\<close> while keys start with it.\<close>

definition range_scan :: "string \<Rightarrow> (string, 'v) btmap \<Rightarrow> (string, 'v) btmap" where
  "range_scan start m = takeWhile (\<lambda>e. starts_with start (fst e)) (bt_range_from start m)"

definition DataObjectMgr_IsEmpty :: "'a DataObjectMgr \<Rightarrow> string \<Rightarrow> string \<Rightarrow> bool" where
  "DataObjectMgr_IsEmpty self t ns =
     (let start = scan_start t ns in
      case bt_range_from start self of [] \<Rightarrow> True | e # _ \<Rightarrow> \<not> starts_with start (fst e))"

definition GetObjectKeys :: "'a DataObjectMgr \<Rightarrow> string \<Rightarrow> string \<Rightarrow> (string list, error) res" where
  "GetObjectKeys self t ns = Ok (map fst (range_scan (scan_start t ns) self))"

definition GetObjectsByPrefix :: "'a DataObjectMgr \<Rightarrow> string \<Rightarrow> string \<Rightarrow> string \<Rightarrow> ('a DataObject list, error) res" where
  "GetObjectsByPrefix self t ns nameprefix =
     (let start = (if length t = 0 then '''' else if length ns = 0 then t @ ''/'' else slash3 t ns nameprefix)
      in Ok (map snd (range_scan start self)))"

definition GetObjects :: "'a DataObjectMgr \<Rightarrow> string \<Rightarrow> string \<Rightarrow> ('a DataObject list, error) res" where
  "GetObjects self t ns = Ok (map snd (range_scan (scan_start t ns) self))"

definition GetByObjectkey :: "'a DataObjectMgr \<Rightarrow> string \<Rightarrow> ('a DataObject, error) res" where
  "GetByObjectkey self key =
     (case bt_get key self of None \<Rightarrow> Err (NotExist (''GetByObjectkey::get '' @ key)) | Some x \<Rightarrow> Ok x)"

definition DataObjectMgr_Get :: "'a DataObjectMgr \<Rightarrow> string \<Rightarrow> string \<Rightarrow> string \<Rightarrow> ('a DataObject, error) res" where
  "DataObjectMgr_Get self t ns nm =
     (let key = slash3 t ns nm in
      case bt_get key self of None \<Rightarrow> Err (NotExist (''DataObjectMgr::get '' @ key @ '' keyes '')) | Some x \<Rightarrow> Ok x)"

definition DataObjectMgr_Add :: "'a DataObjectMgr \<Rightarrow> 'a DataObject \<Rightarrow> ('a DataObjectMgr, error) res" where
  "DataObjectMgr_Add self x =
     (let key = DataObject_Key x in
      if bt_contains key self then Err (Exist (''DataObjectMgr::Add '' @ key))
      else Ok (bt_insert key x self))"

definition DataObjectMgr_Update :: "'a DataObjectMgr \<Rightarrow> 'a DataObject \<Rightarrow> ('a DataObjectMgr, error) res" where
  "DataObjectMgr_Update self x =
     (let key = DataObject_Key x in
      if \<not> bt_contains key self then Err (NotExist (''DataObjectMgr::Update '' @ key))
      else Ok (bt_insert key x self))"

definition DataObjectMgr_Remove :: "'a DataObjectMgr \<Rightarrow> 'a DataObject \<Rightarrow> ('a DataObjectMgr, error) res" where
  "DataObjectMgr_Remove self x =
     (let key = DataObject_Key x in
      if \<not> bt_contains key self then Err (NotExist (''DataObjectMgr::Remove '' @ key @ ''/''))
      else Ok (bt_remove key self))"

record ObjLink =
  ol_objType :: string
  ol_namespace :: string
  ol_name :: string

definition ObjLink_Key :: "ObjLink \<Rightarrow> string \<Rightarrow> string" where
  "ObjLink_Key self t = slash3 t (ol_namespace self) (ol_name self)"

section \<open>Prefix scans\<close>

lemma starts_with_prefix: "starts_with p s \<longleftrightarrow> (\<exists>t. s = p @ t)"
  by (metis append_eq_conv_conj starts_with_def)

lemma prefix_interval: "(p :: string) \<le> a \<Longrightarrow> a \<le> p @ t \<Longrightarrow> \<exists>u. a = p @ u"
proof (induction p arbitrary: a)
  case (Cons c p)
  then show ?case by (cases a) (auto simp: Cons_le_Cons split: if_splits)
qed simp

lemma range_scan_filter:
  assumes "bt_ok m"
  shows "range_scan start m = filter (\<lambda>e. starts_with start (fst e)) m"
proof -
  have le: "start \<le> start @ t" for t :: string by (induction start) (auto simp: Cons_le_Cons)
  then have imp: "starts_with start k \<Longrightarrow> start \<le> k" for k by (metis starts_with_prefix)
  have "takeWhile (\<lambda>e. starts_with start (fst e)) n = filter (\<lambda>e. starts_with start (fst e)) n"
    if "bt_ok n" "\<forall>e \<in> set n. start \<le> fst e" for n :: "(string \<times> 'a) list"
    using that
  proof (induction n)
    case (Cons e n)
    have n: "bt_ok n" and lt: "\<forall>k \<in> set (bt_keys n). fst e < k" using Cons.prems(1) by (cases e; simp add: bt_ok_Cons)+
    have "\<not> starts_with start (fst f)" if "\<not> starts_with start (fst e)" "f \<in> set n" for f
    proof
      assume "starts_with start (fst f)"
      then obtain t where "fst f = start @ t" by (auto simp: starts_with_prefix)
      moreover have "fst e \<le> fst f" using lt that(2) by (force simp: bt_keys_def)
      ultimately have "\<exists>u. fst e = start @ u" using Cons.prems(2) prefix_interval[of start "fst e" t] by simp
      then show False using that(1) by (simp add: starts_with_prefix)
    qed
    then have "\<not> starts_with start (fst e) \<Longrightarrow> filter (\<lambda>e. starts_with start (fst e)) n = []"
      by (simp add: filter_empty_conv)
    then show ?case using Cons n by auto
  qed simp
  then have "takeWhile (\<lambda>e. starts_with start (fst e)) (filter (\<lambda>e. start \<le> fst e) m)
      = filter (\<lambda>e. starts_with start (fst e)) (filter (\<lambda>e. start \<le> fst e) m)"
    using bt_ok_filter[OF assms] by simp
  then have "range_scan start m = filter (\<lambda>e. starts_with start (fst e)) (filter (\<lambda>e. start \<le> fst e) m)"
    by (simp only: range_scan_def bt_range_from_filter[OF assms])
  also have "\<dots> = filter (\<lambda>e. starts_with start (fst e)) m"
    unfolding filter_filter by (intro filter_cong refl) (auto dest: imp)
  finally show ?thesis .
qed

lemma IsEmpty_scan: "DataObjectMgr_IsEmpty m t ns \<longleftrightarrow> range_scan (scan_start t ns) m = []"
  by (auto simp: DataObjectMgr_IsEmpty_def range_scan_def Let_def split: list.splits)

section \<open>Well-formed managers\<close>

text \<open>Every object is stored under its key, and its names passed \<open>validate_name\<close>.\<close>

definition valid_names :: "'a DataObject \<Rightarrow> bool" where
  "valid_names x \<longleftrightarrow> is_ok (validate_name (do_tenant x)) \<and> is_ok (validate_name (do_namespace x)) \<and> is_ok (validate_name (do_name x))"

definition mgr_ok :: "'a DataObjectMgr \<Rightarrow> bool" where
  "mgr_ok m \<longleftrightarrow> bt_ok m \<and> (\<forall>(k, x) \<in> set m. k = DataObject_Key x \<and> valid_names x)"

lemma validate_name_no_slash: "is_ok (validate_name s) \<Longrightarrow> no_slash s"
  by (auto simp: validate_name_def list_all_iff is_ascii_alphanumeric_def is_digit_def less_eq_char_def split: if_splits)

lemma mgr_ok_get: "mgr_ok m \<longleftrightarrow> bt_ok m \<and> (\<forall>k x. bt_get k m = Some x \<longrightarrow> k = DataObject_Key x \<and> valid_names x)"
  unfolding mgr_ok_def using bt_get_mem_iff by (fastforce split: prod.splits)

lemma mgr_ok_Add [inv_intros]: "mgr_ok m \<Longrightarrow> valid_names x \<Longrightarrow> DataObjectMgr_Add m x = Ok m' \<Longrightarrow> mgr_ok m'"
  by (auto simp: mgr_ok_get DataObjectMgr_Add_def Let_def split: if_splits)

lemma mgr_ok_Update [inv_intros]: "mgr_ok m \<Longrightarrow> valid_names x \<Longrightarrow> DataObjectMgr_Update m x = Ok m' \<Longrightarrow> mgr_ok m'"
  by (auto simp: mgr_ok_get DataObjectMgr_Update_def Let_def split: if_splits)

lemma mgr_ok_Remove [inv_intros]: "mgr_ok m \<Longrightarrow> DataObjectMgr_Remove m x = Ok m' \<Longrightarrow> mgr_ok m'"
  by (auto simp: mgr_ok_get DataObjectMgr_Remove_def Let_def split: if_splits)

lemma scan_start_key:
  assumes "no_slash t" "no_slash ns" "valid_names x" "t \<noteq> []"
  shows "starts_with (scan_start t ns) (DataObject_Key x) \<longleftrightarrow> do_tenant x = t \<and> (ns \<noteq> [] \<longrightarrow> do_namespace x = ns)"
proof -
  have x: "no_slash (do_tenant x)" "no_slash (do_namespace x)"
    using assms(3) validate_name_no_slash by (auto simp: valid_names_def)
  have one: "do_tenant x @ CHR ''/'' # u = t @ CHR ''/'' # v \<longleftrightarrow> do_tenant x = t \<and> u = v" for u v
    using split_once_inj[OF x(1) assms(1)] .
  have two: "do_namespace x @ CHR ''/'' # u = ns @ CHR ''/'' # v \<longleftrightarrow> do_namespace x = ns \<and> u = v" for u v
    using split_once_inj[OF x(2) assms(2)] .
  show ?thesis using assms(4)
    by (cases "ns = []") (auto simp: starts_with_prefix scan_start_def DataObject_Key_def slash3_def one two)
qed

text \<open>
  \<open>GetObjects\<close> returns exactly the objects of the tenant and namespace, in key order: the scan
  from the first key, which stops at the first key without the prefix, misses none and takes no
  neighbour (tenant \<open>t1\<close> does not see \<open>t10\<close>). \<open>IsEmpty\<close> says whether there are none.
\<close>

theorem GetObjects_exact:
  assumes "mgr_ok m" "no_slash t" "no_slash ns" "t \<noteq> []"
  shows "GetObjects m t ns =
      Ok (map snd (filter (\<lambda>(k, x). do_tenant x = t \<and> (ns \<noteq> [] \<longrightarrow> do_namespace x = ns)) m)) \<and>
    DataObjectMgr_IsEmpty m t ns = (\<not> (\<exists>(k, x) \<in> set m. do_tenant x = t \<and> (ns \<noteq> [] \<longrightarrow> do_namespace x = ns)))"
proof -
  have "range_scan (scan_start t ns) m = filter (\<lambda>e. starts_with (scan_start t ns) (fst e)) m"
    using assms(1) by (intro range_scan_filter) (simp add: mgr_ok_def)
  also have "\<dots> = filter (\<lambda>(k, x). do_tenant x = t \<and> (ns \<noteq> [] \<longrightarrow> do_namespace x = ns)) m"
  proof (intro filter_cong refl)
    fix e assume "e \<in> set m"
    then have e: "fst e = DataObject_Key (snd e)" "valid_names (snd e)" using assms(1) by (auto simp: mgr_ok_def)
    show "starts_with (scan_start t ns) (fst e) = (case e of (k, x) \<Rightarrow> do_tenant x = t \<and> (ns \<noteq> [] \<longrightarrow> do_namespace x = ns))"
      unfolding e(1) scan_start_key[OF assms(2,3) e(2) assms(4)] by (simp add: case_prod_unfold)
  qed
  finally show ?thesis by (auto simp: GetObjects_def IsEmpty_scan filter_empty_conv)
qed

definition ex_obj :: "string \<Rightarrow> string \<Rightarrow> string \<Rightarrow> nat DataObject" where
  "ex_obj t ns nm = \<lparr>objType = ''pod'', do_tenant = t, do_namespace = ns, do_name = nm, do_labels = [],
     do_annotations = [], channelRev = 0, srcEpoch = 0, revision = 0, object = 0\<rparr>"

theorem GetObjects_exact_witness:
  "\<exists>m. DataObjectMgr_Add [(''t1/n/a'', ex_obj ''t1'' ''n'' ''a'')] (ex_obj ''t10'' ''n'' ''b'') = Ok m \<and>
     GetObjects m ''t1'' ''n'' = Ok [ex_obj ''t1'' ''n'' ''a'']"
proof -
  let ?m = "[(''t1/n/a'', ex_obj ''t1'' ''n'' ''a''), (''t10/n/b'', ex_obj ''t10'' ''n'' ''b'')]"
  have add: "DataObjectMgr_Add [(''t1/n/a'', ex_obj ''t1'' ''n'' ''a'')] (ex_obj ''t10'' ''n'' ''b'') = Ok ?m"
    by code_simp
  have "mgr_ok ?m" by code_simp
  from GetObjects_exact[OF this, of "''t1''" "''n''"] add show ?thesis by (simp add: ex_obj_def)
qed

section \<open>The contract of the object manager\<close>

locale object_store =
  fixes lookup :: "'s \<Rightarrow> 'k \<Rightarrow> 'o option"
    and keyof :: "'o \<Rightarrow> 'k"
    and add :: "'s \<Rightarrow> 'o \<Rightarrow> ('s, 'e) res"
    and update :: "'s \<Rightarrow> 'o \<Rightarrow> ('s, 'e) res"
    and remove :: "'s \<Rightarrow> 'o \<Rightarrow> ('s, 'e) res"
    and ok :: "'s \<Rightarrow> bool"
    and good :: "'o \<Rightarrow> bool"
  assumes add_ok: "is_ok (add s x) \<longleftrightarrow> lookup s (keyof x) = None"
    and update_ok: "is_ok (update s x) \<longleftrightarrow> lookup s (keyof x) \<noteq> None"
    and remove_ok: "is_ok (remove s x) \<longleftrightarrow> lookup s (keyof x) \<noteq> None"
    and add_lookup: "add s x = Ok t \<Longrightarrow> lookup t k = (if k = keyof x then Some x else lookup s k)"
    and update_lookup: "update s x = Ok t \<Longrightarrow> lookup t k = (if k = keyof x then Some x else lookup s k)"
    and remove_lookup: "remove s x = Ok t \<Longrightarrow> lookup t k = (if k = keyof x then None else lookup s k)"
    and ok_add: "ok s \<Longrightarrow> good x \<Longrightarrow> add s x = Ok t \<Longrightarrow> ok t"
    and ok_update: "ok s \<Longrightarrow> good x \<Longrightarrow> update s x = Ok t \<Longrightarrow> ok t"
    and ok_remove: "ok s \<Longrightarrow> remove s x = Ok t \<Longrightarrow> ok t"
    and ok_eq: "ok s \<Longrightarrow> ok t \<Longrightarrow> (\<And>k. lookup s k = lookup t k) \<Longrightarrow> s = t"
begin

lemma add_remove:
  assumes "ok s" "good x" "add s x = Ok t" "keyof y = keyof x"
  shows "remove t y = Ok s"
proof -
  have "is_ok (remove t y)" using remove_ok add_lookup[OF assms(3)] assms(4) by simp
  then obtain u where u: "remove t y = Ok u" by (auto simp: is_ok_iff)
  have "lookup s (keyof x) = None" using add_ok assms(3) by (metis is_ok.simps(1))
  then have "u = s"
    using assms u by (intro ok_eq) (auto simp: remove_lookup[OF u] add_lookup[OF assms(3)] intro: ok_remove ok_add)
  then show ?thesis using u by simp
qed

lemma remove_add_is_update:
  assumes "ok s" "good x" "remove s y = Ok t" "keyof y = keyof x"
  shows "add t x = update s x"
proof -
  have "is_ok (add t x)" "is_ok (update s x)"
    using add_ok update_ok remove_ok assms(3,4) remove_lookup[OF assms(3)] by (metis is_ok.simps(1))+
  then obtain u v where u: "add t x = Ok u" and v: "update s x = Ok v" by (auto simp: is_ok_iff)
  have "u = v"
    using assms u v
    by (intro ok_eq) (auto simp: add_lookup[OF u] update_lookup[OF v] remove_lookup[OF assms(3)]
        intro: ok_remove ok_add ok_update)
  then show ?thesis using u v by simp
qed

end

interpretation mgr: object_store "\<lambda>m k. bt_get k m" DataObject_Key DataObjectMgr_Add DataObjectMgr_Update
  DataObjectMgr_Remove mgr_ok valid_names
proof unfold_locales
  show "s = t" if "mgr_ok s" "mgr_ok t" "\<And>k. bt_get k s = bt_get k t" for s t :: "'a DataObjectMgr"
    using that by (intro bt_ok_eqI) (auto simp: mgr_ok_def)
  show "mgr_ok t" if "mgr_ok s" "valid_names x" "DataObjectMgr_Add s x = Ok t" for s t :: "'a DataObjectMgr" and x
    using that by (rule mgr_ok_Add)
  show "mgr_ok t" if "mgr_ok s" "valid_names x" "DataObjectMgr_Update s x = Ok t" for s t :: "'a DataObjectMgr" and x
    using that by (rule mgr_ok_Update)
  show "mgr_ok t" if "mgr_ok s" "DataObjectMgr_Remove s x = Ok t" for s t :: "'a DataObjectMgr" and x
    using that by (rule mgr_ok_Remove)
qed (auto simp: DataObjectMgr_Add_def DataObjectMgr_Update_def DataObjectMgr_Remove_def Let_def bt_contains_def
    split: if_splits)

text \<open>
  Add, update and remove of the manager follow the key: \<open>Add\<close> succeeds exactly when the name is
  free and \<open>Remove\<close> then restores the manager, removing and adding again is the same as \<open>Update\<close>, and
  \<open>Get\<close> by the names of an added object returns it.
\<close>

theorem DataObjectMgr_contract:
  assumes "mgr_ok m" "valid_names x"
  shows "is_ok (DataObjectMgr_Add m x) = (\<not> DataObjectMgr_Contains m (do_tenant x) (do_namespace x) (do_name x)) \<and>
    (\<forall>m'. DataObjectMgr_Add m x = Ok m' \<longrightarrow> mgr_ok m' \<and> DataObjectMgr_Remove m' x = Ok m \<and>
       DataObjectMgr_Get m' (do_tenant x) (do_namespace x) (do_name x) = Ok x) \<and>
    (\<forall>m'. DataObjectMgr_Remove m x = Ok m' \<longrightarrow> mgr_ok m' \<and> DataObjectMgr_Add m' x = DataObjectMgr_Update m x)"
proof (intro conjI allI impI)
  show "is_ok (DataObjectMgr_Add m x) = (\<not> DataObjectMgr_Contains m (do_tenant x) (do_namespace x) (do_name x))"
    by (simp add: mgr.add_ok DataObjectMgr_Contains_def bt_contains_def DataObject_Key_def)
  fix m' assume a: "DataObjectMgr_Add m x = Ok m'"
  show "mgr_ok m'" "DataObjectMgr_Remove m' x = Ok m"
    using mgr.ok_add[OF assms a] mgr.add_remove[OF assms a] by auto
  show "DataObjectMgr_Get m' (do_tenant x) (do_namespace x) (do_name x) = Ok x"
    using mgr.add_lookup[OF a, of "DataObject_Key x"] by (simp add: DataObjectMgr_Get_def DataObject_Key_def)
next
  fix m' assume r: "DataObjectMgr_Remove m x = Ok m'"
  show "mgr_ok m'" "DataObjectMgr_Add m' x = DataObjectMgr_Update m x"
    using mgr.ok_remove[OF assms(1) r] mgr.remove_add_is_update[OF assms r] by auto
qed

theorem DataObjectMgr_contract_witness:
  "\<exists>m. DataObjectMgr_Add [] (ex_obj ''t1'' ''n'' ''a'') = Ok m \<and> DataObjectMgr_Remove m (ex_obj ''t1'' ''n'' ''a'') = Ok []"
proof -
  have "mgr_ok ([] :: nat DataObjectMgr)" "valid_names (ex_obj ''t1'' ''n'' ''a'')" by code_simp+
  from DataObjectMgr_contract[OF this] show ?thesis
    by (auto simp: DataObjectMgr_Contains_def is_ok_iff)
qed

text \<open>
  Keys of valid objects are injective: two objects share a manager key only when tenant, namespace
  and name agree, and a store key only when the type agrees too.
\<close>

theorem object_keys_injective:
  assumes "valid_names x" "valid_names y" "no_slash (objType x)" "no_slash (objType y)"
  shows "(DataObject_Key x = DataObject_Key y) = (do_tenant x = do_tenant y \<and> do_namespace x = do_namespace y \<and> do_name x = do_name y) \<and>
    (StoreKey x = StoreKey y) = (objType x = objType y \<and> DataObject_Key x = DataObject_Key y)"
proof -
  have n: "no_slash (do_tenant x)" "no_slash (do_tenant y)" "no_slash (do_namespace x)" "no_slash (do_namespace y)"
    using assms validate_name_no_slash by (auto simp: valid_names_def)
  show ?thesis
    unfolding DataObject_Key_def StoreKey_def slash3_inj[OF n] slash4_inj[OF assms(3,4) n] by blast
qed

theorem object_keys_injective_witness:
  "DataObject_Key (ex_obj ''a'' ''b'' ''c'') \<noteq> DataObject_Key (ex_obj ''a'' ''b'' ''d'')"
proof -
  have "valid_names (ex_obj ''a'' ''b'' ''c'')" "valid_names (ex_obj ''a'' ''b'' ''d'')"
    "no_slash (objType (ex_obj ''a'' ''b'' ''c''))" "no_slash (objType (ex_obj ''a'' ''b'' ''d''))"
    by code_simp+
  from object_keys_injective[OF this] show ?thesis by (simp add: ex_obj_def)
qed

end
