(* ===== verification/Func_Obj.thy ===== *)
theory Func_Obj
  imports Resource Data_Obj
begin

text \<open>
  Functions, their policies and their tenants: \<open>func_mgr.rs\<close>, \<open>funcpolicy_mgr.rs\<close>, \<open>funcstatus_mgr.rs\<close> and
  \<open>tenant_mgr.rs\<close> under \<open>src/inferxlib/src/obj_mgr/\<close>. A 64-bit float is the word of its IEEE bits: the
  modelled code copies floats and does not compute with them. Of a function's specification the model
  has the fields that the scheduler and the admission checks read.
\<close>

type_synonym f64 = "64 word"

section \<open>Policies\<close>

definition DEFAULT_PARALLEL_LEVEL :: nat where "DEFAULT_PARALLEL_LEVEL = 50"
definition DEFAULT_QUEUE_LEN :: nat where "DEFAULT_QUEUE_LEN = 100"
definition DEFAULT_QUEUE_TIMEOUT :: f64 where "DEFAULT_QUEUE_TIMEOUT = 0x403E000000000000"
definition DEFAULT_SCALEIN_TIMEOUT :: f64 where "DEFAULT_SCALEIN_TIMEOUT = 0x3FF0000000000000"
definition DEFAULT_QUEUE_RATIO :: f64 where "DEFAULT_QUEUE_RATIO = 0x3FB999999999999A"
definition DEFAULT_PLATFORM_ENDPOINT_MAX_REPLICA :: nat where "DEFAULT_PLATFORM_ENDPOINT_MAX_REPLICA = 4"
definition VIRTUAL_ENDPOINTS_NAMESPACE :: string where "VIRTUAL_ENDPOINTS_NAMESPACE = ''endpoints''"

datatype ScaleOutPolicy = WaitQueueRatio f64

record RuntimeConfig =
  GraphSync :: bool

record FuncPolicySpec =
  nvidiaReplica :: nat
  minReplica :: nat
  maxReplica :: nat
  standbyPerNode :: nat
  fp_parallel :: nat
  queueLen :: nat
  queueTimeout :: f64
  scaleoutPolicy :: ScaleOutPolicy
  scaleinTimeout :: f64
  runtimeConfig :: RuntimeConfig

record PartialFuncPolicySpec =
  p_minReplica :: "nat option"
  p_maxReplica :: "nat option"
  p_standbyPerNode :: "nat option"
  p_parallel :: "nat option"
  p_queueLen :: "nat option"
  p_queueTimeout :: "f64 option"
  p_scaleoutPolicy :: "ScaleOutPolicy option"
  p_scaleinTimeout :: "f64 option"
  p_runtimeConfig :: "RuntimeConfig option"

record FuncPolicySchedulerDefaults =
  d_minReplica :: "nat option"
  d_maxReplica :: "nat option"
  d_standbyPerNode :: "nat option"

record EndpointGatewayPolicySpec =
  g_maxReplica :: nat
  g_parallel :: nat
  g_queueLen :: nat
  g_queueTimeout :: f64
  g_scaleoutPolicy :: ScaleOutPolicy
  g_scaleinTimeout :: f64

definition default_ScaleOutPolicy :: ScaleOutPolicy where
  "default_ScaleOutPolicy = WaitQueueRatio DEFAULT_QUEUE_RATIO"

definition default_runtime_config :: RuntimeConfig where
  "default_runtime_config = \<lparr>GraphSync = False\<rparr>"

definition FuncPolicySpec_default :: FuncPolicySpec where
  "FuncPolicySpec_default = \<lparr>nvidiaReplica = 0, minReplica = 0, maxReplica = 1, standbyPerNode = 1,
     fp_parallel = DEFAULT_PARALLEL_LEVEL, queueLen = DEFAULT_QUEUE_LEN, queueTimeout = DEFAULT_QUEUE_TIMEOUT,
     scaleoutPolicy = default_ScaleOutPolicy, scaleinTimeout = DEFAULT_SCALEIN_TIMEOUT,
     runtimeConfig = default_runtime_config\<rparr>"

text \<open>\<open>if let Some(v) = x { ... }\<close>\<close>

definition if_some :: "'a option \<Rightarrow> ('a \<Rightarrow> 's \<Rightarrow> 's) \<Rightarrow> 's \<Rightarrow> 's" where
  "if_some x f s = (case x of None \<Rightarrow> s | Some v \<Rightarrow> f v s)"

definition Normalize :: "PartialFuncPolicySpec \<Rightarrow> string \<Rightarrow> FuncPolicySpec" where
  "Normalize self namespace =
     (let policy = FuncPolicySpec_default;
          policy = (if namespace = VIRTUAL_ENDPOINTS_NAMESPACE then policy\<lparr>standbyPerNode := 0\<rparr> else policy);
          policy = if_some (p_minReplica self) (\<lambda>v p. p\<lparr>minReplica := v\<rparr>) policy;
          policy = if_some (p_maxReplica self) (\<lambda>v p. p\<lparr>maxReplica := v\<rparr>) policy;
          policy = if_some (p_standbyPerNode self) (\<lambda>v p. p\<lparr>standbyPerNode := v\<rparr>) policy;
          policy = if_some (p_parallel self) (\<lambda>v p. p\<lparr>fp_parallel := v\<rparr>) policy;
          policy = if_some (p_queueLen self) (\<lambda>v p. p\<lparr>queueLen := v\<rparr>) policy;
          policy = if_some (p_queueTimeout self) (\<lambda>v p. p\<lparr>queueTimeout := v\<rparr>) policy;
          policy = if_some (p_scaleoutPolicy self) (\<lambda>v p. p\<lparr>scaleoutPolicy := v\<rparr>) policy;
          policy = if_some (p_scaleinTimeout self) (\<lambda>v p. p\<lparr>scaleinTimeout := v\<rparr>) policy
      in if_some (p_runtimeConfig self) (\<lambda>v p. p\<lparr>runtimeConfig := v\<rparr>) policy)"

definition ApplyTo :: "FuncPolicySchedulerDefaults \<Rightarrow> FuncPolicySpec \<Rightarrow> FuncPolicySpec" where
  "ApplyTo self policy =
     if_some (d_standbyPerNode self) (\<lambda>v p. p\<lparr>standbyPerNode := v\<rparr>)
       (if_some (d_maxReplica self) (\<lambda>v p. p\<lparr>maxReplica := v\<rparr>)
         (if_some (d_minReplica self) (\<lambda>v p. p\<lparr>minReplica := v\<rparr>) policy))"

definition EndpointGatewayPolicySpec_default :: EndpointGatewayPolicySpec where
  "EndpointGatewayPolicySpec_default = \<lparr>g_maxReplica = 1, g_parallel = DEFAULT_PARALLEL_LEVEL,
     g_queueLen = DEFAULT_QUEUE_LEN, g_queueTimeout = DEFAULT_QUEUE_TIMEOUT,
     g_scaleoutPolicy = default_ScaleOutPolicy, g_scaleinTimeout = DEFAULT_SCALEIN_TIMEOUT\<rparr>"

definition AsFuncPolicySpec :: "EndpointGatewayPolicySpec \<Rightarrow> FuncPolicySpec" where
  "AsFuncPolicySpec self = \<lparr>nvidiaReplica = 0, minReplica = 0, maxReplica = g_maxReplica self, standbyPerNode = 0,
     fp_parallel = g_parallel self, queueLen = g_queueLen self, queueTimeout = g_queueTimeout self,
     scaleoutPolicy = g_scaleoutPolicy self, scaleinTimeout = g_scaleinTimeout self,
     runtimeConfig = default_runtime_config\<rparr>"

text \<open>The object is already read from its JSON form; what is left is to complete the policy.\<close>

definition NormalizeFuncPolicyDataObject :: "PartialFuncPolicySpec DataObject \<Rightarrow> FuncPolicySpec DataObject" where
  "NormalizeFuncPolicyDataObject partial =
     \<lparr>objType = objType partial, do_tenant = do_tenant partial, do_namespace = do_namespace partial,
      do_name = do_name partial, do_labels = do_labels partial, do_annotations = do_annotations partial,
      channelRev = channelRev partial, srcEpoch = srcEpoch partial, revision = revision partial,
      object = Normalize (object partial) (do_namespace partial)\<rparr>"

section \<open>Functions\<close>

datatype 'a ObjRef = Obj 'a | Link ObjLink

datatype FuncState = FuncNormal | FuncFail

record FuncSpec =
  fn_commands :: "string list"
  fn_version :: int
  fn_resources :: Resources
  fn_standby :: Standby
  fn_policy :: "FuncPolicySpec ObjRef"

record FuncObjStatus =
  fo_state :: FuncState
  fo_snapshotingFailureCnt :: nat
  fo_resumingFailureCnt :: nat

record FuncObject =
  fn_spec :: FuncSpec
  fn_status :: FuncObjStatus

type_synonym Function = "FuncObject DataObject"

definition SnapshotResource :: "FuncSpec \<Rightarrow> nat \<Rightarrow> (Resources, error) res" where
  "SnapshotResource self ctx =
     (let r = fn_resources self in
      and_then
        (if gpuMem (fn_standby self) = Mem
         then and_then (u64_mul (vRam (rs_gpu r)) (gpuCount (rs_gpu r))) (\<lambda>v.
              Ok (r\<lparr>rs_memory := max (rs_memory r) v\<rparr>))
         else Ok r)
        (\<lambda>r. Ok (r\<lparr>rs_gpu := (rs_gpu r)\<lparr>contextCount := ctx\<rparr>\<rparr>)))"

definition RunningResource :: "FuncSpec \<Rightarrow> Resources" where
  "RunningResource self =
     (let r = fn_resources self in r\<lparr>rs_gpu := (rs_gpu r)\<lparr>contextCount := 1\<rparr>\<rparr>)"

text \<open>The word after the first \<open>--model\<close> of the command line.\<close>

fun model_arg :: "string list \<Rightarrow> string option" where
  "model_arg (a # b # r) = (if a = ''--model'' then Some b else model_arg (b # r))"
| "model_arg _ = None"

definition ModelPath :: "FuncSpec \<Rightarrow> string option" where
  "ModelPath self = model_arg (fn_commands self)"

definition Version :: "Function \<Rightarrow> int" where
  "Version self = fn_version (fn_spec (object self))"

definition Function_Id :: "Function \<Rightarrow> string" where
  "Function_Id self = slash4 (do_tenant self) (do_namespace self) (do_name self) (show_int (Version self))"

record FunctionStatusDef =
  fsd_version :: int
  fsd_published :: bool
  fsd_state :: FuncState
  fsd_snapshotingFailureCnt :: nat
  fsd_resumingFailureCnt :: nat

type_synonym FunctionStatus = "FunctionStatusDef DataObject"

definition FunctionStatus_Id :: "FunctionStatus \<Rightarrow> string" where
  "FunctionStatus_Id self = slash4 (do_tenant self) (do_namespace self) (do_name self) (show_int (fsd_version (object self)))"

section \<open>Tenants\<close>

record ResourceLimit =
  maxFuncCnt :: nat
  allocMemStandby :: bool
  minReplicaCap :: nat
  maxGpu :: nat
  rl_maxReplica :: nat
  maxStandby :: nat
  maxQueueLen :: nat

definition default_resourcelimit :: ResourceLimit where
  "default_resourcelimit = \<lparr>maxFuncCnt = 6, allocMemStandby = False, minReplicaCap = 0, maxGpu = 2,
     rl_maxReplica = 2, maxStandby = 1, maxQueueLen = 100\<rparr>"

text \<open>The limits of a tenant object that has a \<open>limit\<close> with some fields missing.\<close>

definition serde_resourcelimit ::
  "nat option \<Rightarrow> bool option \<Rightarrow> nat option \<Rightarrow> nat option \<Rightarrow> nat option \<Rightarrow> nat option \<Rightarrow> nat option \<Rightarrow> ResourceLimit" where
  "serde_resourcelimit funccnt allow_mem min_cap gpu replica standby queue =
     \<lparr>maxFuncCnt = (case funccnt of None \<Rightarrow> 10 | Some v \<Rightarrow> v),
      allocMemStandby = (case allow_mem of None \<Rightarrow> False | Some v \<Rightarrow> v),
      minReplicaCap = (case min_cap of None \<Rightarrow> 0 | Some v \<Rightarrow> v),
      maxGpu = (case gpu of None \<Rightarrow> 4 | Some v \<Rightarrow> v),
      rl_maxReplica = (case replica of None \<Rightarrow> 2 | Some v \<Rightarrow> v),
      maxStandby = (case standby of None \<Rightarrow> 1 | Some v \<Rightarrow> v),
      maxQueueLen = (case queue of None \<Rightarrow> 100 | Some v \<Rightarrow> v)\<rparr>"

record TenantSpec =
  resourceLimit :: ResourceLimit
  quota_exempt :: bool

definition TenantSpec_default :: TenantSpec where
  "TenantSpec_default = \<lparr>resourceLimit = default_resourcelimit, quota_exempt = False\<rparr>"

record TenantStatus =
  tn_disable :: bool
  quota_exceeded :: bool

record TenantObject =
  tn_spec :: TenantSpec
  tn_status :: TenantStatus

type_synonym Tenant = "TenantObject DataObject"

section \<open>Lemmas\<close>

lemma if_some_simps [simp]: "if_some None f s = s" "if_some (Some v) f s = f v s"
  by (simp_all add: if_some_def)

lemma SnapshotResource_Ok:
  assumes "SnapshotResource s c = Ok r"
  shows "rs_memory (fn_resources s) \<le> rs_memory r" "contextCount (rs_gpu r) = c"
    "gpuMem (fn_standby s) = Mem \<Longrightarrow> vRam (rs_gpu (fn_resources s)) * gpuCount (rs_gpu (fn_resources s)) \<le> rs_memory r"
  using assms by (auto simp: SnapshotResource_def Let_def res_simps u64_mul_def split: if_splits)

lemma RunningResource_gpuCount [simp]: "gpuCount (rs_gpu (RunningResource s)) = gpuCount (rs_gpu (fn_resources s))"
  by (simp add: RunningResource_def Let_def)

lemma model_arg_Some: "model_arg cs = Some m \<Longrightarrow> \<exists>xs ys. cs = xs @ ''--model'' # m # ys"
proof (induction cs rule: model_arg.induct)
  case (1 a b r)
  show ?case
  proof (cases "a = ''--model''")
    case True
    then show ?thesis using "1.prems" by (intro exI[of _ "[]"] exI[of _ r]) simp
  next
    case False
    then obtain xs ys where "b # r = xs @ ''--model'' # m # ys" using "1.IH" "1.prems" by auto
    then show ?thesis by (intro exI[of _ "a # xs"] exI[of _ ys]) simp
  qed
qed simp_all

lemma Normalize_given:
  assumes "p_minReplica p = Some a" "p_maxReplica p = Some b" "p_standbyPerNode p = Some c" "p_parallel p = Some d"
    "p_queueLen p = Some e" "p_queueTimeout p = Some f" "p_scaleoutPolicy p = Some g" "p_scaleinTimeout p = Some h"
    "p_runtimeConfig p = Some i"
  shows "Normalize p ns = \<lparr>nvidiaReplica = 0, minReplica = a, maxReplica = b, standbyPerNode = c, fp_parallel = d,
    queueLen = e, queueTimeout = f, scaleoutPolicy = g, scaleinTimeout = h, runtimeConfig = i\<rparr>"
  by (simp add: Normalize_def assms FuncPolicySpec_default_def Let_def)

end
