(* ===== verification/Func_Pod.thy ===== *)
theory Func_Pod
  imports Func_Obj
begin

text \<open>
  Function pods (\<open>src/inferxlib/src/obj_mgr/pod_mgr.rs\<close>), the lease state of a worker
  (\<open>src/inferxlib/src/node.rs\<close>) and \<open>WorkerPod\<close> (\<open>src/ixshare/src/scheduler/scheduler.rs\<close>).

  A \<open>WorkerPod\<close> is an \<open>Arc\<close>: the scheduler keeps the same one in several maps and changes its two
  mutexes through any of them. Here it is a reference with the immutable pod, and the mutexes are a
  cell of a heap, so that a change made through one map is seen through the others. Of the pod
  specification the model keeps the fields the scheduler reads, and of the function specification copied
  into it the policy; container definitions, volumes and timestamps are left out.
\<close>

section \<open>Pods\<close>

datatype CreatePodType = CreateNormal | CreateSnapshot | CreateRestore

definition CreatePodType_default :: CreatePodType where
  "CreatePodType_default = CreateNormal"

fun CreatePodType_String :: "CreatePodType \<Rightarrow> string" where
  "CreatePodType_String CreateNormal = ''Normal''"
| "CreatePodType_String CreateSnapshot = ''Snapshot''"
| "CreatePodType_String CreateRestore = ''Restore''"

datatype Runtime = InferX | Nvidia

definition Runtime_default :: Runtime where
  "Runtime_default = InferX"

datatype PodState =
    PsInit | PsPullingImage | PsCreating | PsCreated | PsLoading | PsReady | PsTerminating
  | PsTerminated | PsFailed | PsCleanup | PsDeleted | PsSnapshoted | PsRestoring | PsStandby
  | PsResuming | PsResumeDone | PsMemHibernated | PsSnapshoting | PsLoadingTimeout

fun BlockStandby :: "PodState \<Rightarrow> bool" where
  "BlockStandby PsRestoring = True"
| "BlockStandby PsCreating = True"
| "BlockStandby PsResuming = True"
| "BlockStandby _ = False"

record IdxList =
  il_list :: "16 word list"
  il_size :: nat

definition IdxList_Clear :: "IdxList \<Rightarrow> IdxList" where
  "IdxList_Clear self = self\<lparr>il_list := [], il_size := 0\<rparr>"

record FuncPodSpec =
  ps_funcname :: string
  ps_fprevision :: int
  ps_id :: string
  ps_nodename :: string
  ps_runtime :: Runtime
  ps_ipAddr :: "32 word"
  ps_create_type :: CreatePodType
  ps_host_ip :: string
  ps_host_port :: "16 word"
  reqResources :: Resources
  allocResources :: NodeResources
  ps_gpuMemSlots :: "(int, IdxList) btmap"
  ps_policy :: "FuncPolicySpec ObjRef"

datatype ExitInfo = ExitNone | RuntimePanic string | ExitSuccess string | ExitError string

record FuncPodStatus =
  pod_state :: PodState
  exitInfo :: ExitInfo

record FuncPodObject =
  pod_spec :: FuncPodSpec
  pod_status :: FuncPodStatus

type_synonym FuncPod = "FuncPodObject DataObject"

abbreviation podSpec :: "FuncPod \<Rightarrow> FuncPodSpec" where
  "podSpec pod \<equiv> pod_spec (object pod)"

abbreviation podState :: "FuncPod \<Rightarrow> PodState" where
  "podState pod \<equiv> pod_state (pod_status (object pod))"

definition FuncPodKey :: "string \<Rightarrow> string \<Rightarrow> string \<Rightarrow> int \<Rightarrow> string \<Rightarrow> string" where
  "FuncPodKey tenant namespace funcname version i = slash5 tenant namespace funcname (show_int version) i"

definition FuncObjectKey :: "string \<Rightarrow> string \<Rightarrow> string \<Rightarrow> int \<Rightarrow> string" where
  "FuncObjectKey tenant namespace funcname version = slash4 tenant namespace funcname (show_int version)"

definition PodKey :: "FuncPod \<Rightarrow> string" where
  "PodKey self = FuncPodKey (do_tenant self) (do_namespace self) (ps_funcname (podSpec self))
     (ps_fprevision (podSpec self)) (ps_id (podSpec self))"

definition FuncKey :: "FuncPod \<Rightarrow> string" where
  "FuncKey self = slash4 (do_tenant self) (do_namespace self) (ps_funcname (podSpec self))
     (show_int (ps_fprevision (podSpec self)))"

definition PodName :: "FuncPod \<Rightarrow> string" where
  "PodName self = ps_funcname (podSpec self) @ ''_'' @ ps_id (podSpec self)"

definition PodNamespace :: "FuncPod \<Rightarrow> string" where
  "PodNamespace self = do_tenant self @ ''/'' @ do_namespace self"

definition NvidiaRuntime :: "FuncPod \<Rightarrow> bool" where
  "NvidiaRuntime self \<longleftrightarrow> ps_runtime (podSpec self) = Nvidia"

definition GpuAllocs :: "FuncPod \<Rightarrow> (int, nat) btmap" where
  "GpuAllocs self = fold (\<lambda>(i, k). bt_insert i (length (il_list k))) (ps_gpuMemSlots (podSpec self)) []"

definition set_alloc :: "NodeResources \<Rightarrow> FuncPod \<Rightarrow> FuncPod" where
  "set_alloc r self = self\<lparr>object := (object self)\<lparr>pod_spec := (podSpec self)\<lparr>allocResources := r\<rparr>\<rparr>\<rparr>"

definition ResumeRestore :: "FuncPod \<Rightarrow> NodeResources \<Rightarrow> (FuncPod, error) res" where
  "ResumeRestore self resources = Ok (set_alloc resources self)"

definition MemWakeup :: "FuncPod \<Rightarrow> GPUResourceMap \<Rightarrow> (FuncPod, error) res" where
  "MemWakeup self gpuResources =
     (let resources = \<lparr>nr_nodename = ps_nodename (podSpec self), nr_cpu = 0, nr_memory = 0,
            nr_cacheMemory = 0, nr_gpuType = GPUType_Any, nr_gpus = gpuResources, maxContextCnt = 0\<rparr>
      in and_then (NodeResources_Add (allocResources (podSpec self)) resources) (\<lambda>r. Ok (set_alloc r self)))"

section \<open>Lease state\<close>

datatype WorkerPodState = WInit | WStandby | WResuming | WIdle | WWorking int | WTerminating

fun IsIdle :: "WorkerPodState \<Rightarrow> bool" where
  "IsIdle WIdle = True"
| "IsIdle _ = False"

fun IsResumed :: "WorkerPodState \<Rightarrow> bool" where
  "IsResumed WIdle = True"
| "IsResumed (WWorking _) = True"
| "IsResumed WResuming = True"
| "IsResumed _ = False"

fun IsReady :: "WorkerPodState \<Rightarrow> bool" where
  "IsReady WInit = False"
| "IsReady WStandby = False"
| "IsReady _ = True"

section \<open>Workers\<close>

record WorkerPod =
  wp_ref :: nat
  wp_pod :: FuncPod

record WorkerCell =
  workerState :: WorkerPodState
  consumer_tenant :: "string option"

record Heap =
  cells :: "nat \<Rightarrow> WorkerCell"
  next_ref :: nat

definition State :: "Heap \<Rightarrow> WorkerPod \<Rightarrow> WorkerPodState" where
  "State h w = workerState (cells h (wp_ref w))"

definition ConsumerTenant :: "Heap \<Rightarrow> WorkerPod \<Rightarrow> string option" where
  "ConsumerTenant h w = consumer_tenant (cells h (wp_ref w))"

definition upd_cell :: "(WorkerCell \<Rightarrow> WorkerCell) \<Rightarrow> WorkerPod \<Rightarrow> Heap \<Rightarrow> Heap" where
  "upd_cell f w h = h\<lparr>cells := (cells h)(wp_ref w := f (cells h (wp_ref w)))\<rparr>"

definition SetState :: "WorkerPodState \<Rightarrow> WorkerPod \<Rightarrow> Heap \<Rightarrow> Heap" where
  "SetState s w h = upd_cell (\<lambda>c. c\<lparr>workerState := s\<rparr>) w h"

definition SetConsumer :: "string option \<Rightarrow> WorkerPod \<Rightarrow> Heap \<Rightarrow> Heap" where
  "SetConsumer t w h = upd_cell (\<lambda>c. c\<lparr>consumer_tenant := t\<rparr>) w h"

definition SetIdle :: "WorkerPod \<Rightarrow> Heap \<Rightarrow> Heap" where
  "SetIdle w h = SetState WIdle w (SetConsumer None w h)"

definition SetWorking :: "int \<Rightarrow> WorkerPod \<Rightarrow> Heap \<Rightarrow> (Heap, error) res" where
  "SetWorking gatewayId w h =
     (case State h w of
        WTerminating \<Rightarrow> Panic
      | WResuming \<Rightarrow> Panic
      | WStandby \<Rightarrow> Panic
      | WWorking _ \<Rightarrow> Ok (SetState (WWorking gatewayId) w h)
      | WInit \<Rightarrow> Ok (SetState (WWorking gatewayId) w h)
      | WIdle \<Rightarrow> Ok (SetState (WWorking gatewayId) w h))"

definition WorkerPod_New :: "FuncPod \<Rightarrow> Heap \<Rightarrow> WorkerPod \<times> Heap" where
  "WorkerPod_New pod h =
     (let w = \<lparr>wp_ref = next_ref h, wp_pod = pod\<rparr>;
          h0 = \<lparr>cells = (cells h)(next_ref h := \<lparr>workerState = WInit, consumer_tenant = None\<rparr>),
                next_ref = next_ref h + 1\<rparr>;
          h1 = (if podState pod = PsReady then SetIdle w h0 else h0);
          h2 = (if podState pod = PsStandby then SetState WStandby w h1 else h1);
          h3 = (if podState pod = PsResuming then SetState WResuming w h2 else h2)
      in (w, h3))"

section \<open>Lemmas\<close>

text \<open>The key of a pod determines its function: \<open>PodKey\<close> is \<open>FuncKey\<close> and the pod id.\<close>

lemma PodKey_FuncKey: "PodKey p = FuncKey p @ ''/'' @ ps_id (podSpec p)"
  by (simp add: PodKey_def FuncKey_def FuncPodKey_def slash4_def slash5_def)

lemma FuncKey_eq: "FuncKey p = FuncObjectKey (do_tenant p) (do_namespace p) (ps_funcname (podSpec p)) (ps_fprevision (podSpec p))"
  by (simp add: FuncKey_def FuncObjectKey_def)

lemma State_SetState [simp]:
  "State (SetState s w h) w' = (if wp_ref w' = wp_ref w then s else State h w')"
  by (simp add: State_def SetState_def upd_cell_def)

lemma State_SetConsumer [simp]: "State (SetConsumer t w h) w' = State h w'"
  by (simp add: State_def SetConsumer_def upd_cell_def)

lemma ConsumerTenant_SetConsumer [simp]:
  "ConsumerTenant (SetConsumer t w h) w' = (if wp_ref w' = wp_ref w then t else ConsumerTenant h w')"
  by (simp add: ConsumerTenant_def SetConsumer_def upd_cell_def)

lemma ConsumerTenant_SetState [simp]: "ConsumerTenant (SetState s w h) w' = ConsumerTenant h w'"
  by (simp add: ConsumerTenant_def SetState_def upd_cell_def)

lemma State_SetIdle [simp]: "State (SetIdle w h) w' = (if wp_ref w' = wp_ref w then WIdle else State h w')"
  by (simp add: SetIdle_def)

lemma ConsumerTenant_SetIdle [simp]:
  "ConsumerTenant (SetIdle w h) w' = (if wp_ref w' = wp_ref w then None else ConsumerTenant h w')"
  by (simp add: SetIdle_def)

lemma next_ref_upd [simp]:
  "next_ref (SetState s w h) = next_ref h" "next_ref (SetConsumer t w h) = next_ref h"
  "next_ref (SetIdle w h) = next_ref h"
  by (simp_all add: SetState_def SetConsumer_def SetIdle_def upd_cell_def)

lemma SetWorking_Ok:
  "SetWorking g w h = Ok h' \<longleftrightarrow>
     State h w \<in> {WInit, WIdle} \<union> range WWorking \<and> h' = SetState (WWorking g) w h"
  by (auto simp: SetWorking_def split: WorkerPodState.splits)

lemma SetWorking_not_Err [simp]: "SetWorking g w h \<noteq> Err e"
  by (auto simp: SetWorking_def split: WorkerPodState.splits)

lemma WorkerPod_New_ref:
  assumes "WorkerPod_New pod h = (w, h')"
  shows "wp_ref w = next_ref h" "wp_pod w = pod" "next_ref h' = next_ref h + 1"
  using assms by (auto simp: WorkerPod_New_def Let_def)

definition initial_state :: "PodState \<Rightarrow> WorkerPodState" where
  "initial_state s = (case s of PsReady \<Rightarrow> WIdle | PsStandby \<Rightarrow> WStandby | PsResuming \<Rightarrow> WResuming | _ \<Rightarrow> WInit)"

lemma WorkerPod_New_state:
  assumes "WorkerPod_New pod h = (w, h')"
  shows "State h' w' = (if wp_ref w' = next_ref h then initial_state (podState pod) else State h w')"
    and "ConsumerTenant h' w' = (if wp_ref w' = next_ref h then None else ConsumerTenant h w')"
  using assms
  by (auto simp: WorkerPod_New_def Let_def initial_state_def State_def ConsumerTenant_def SetState_def
      SetIdle_def SetConsumer_def upd_cell_def split: PodState.splits if_splits)

end
