(* ===== verification/Node_Status.thy ===== *)
theory Node_Status
  imports Resource_Laws Func_Pod
begin

text \<open>
  What the scheduler keeps of a node (\<open>NodeStatus\<close> and \<open>ResourceAlloc\<close> in
  \<open>src/ixshare/src/scheduler/scheduler_handler.rs\<close>, \<open>Node\<close> in
  \<open>src/inferxlib/src/obj_mgr/node_mgr.rs\<close>): the resources still available, the pods that run there and
  the pods that were scheduled and are not reported yet. Times are nanoseconds; the clock is an
  argument. Log output is not modelled.
\<close>

section \<open>Nodes\<close>

datatype NAState = NodeProxyAvailable | NodeAgentConnected | NodeAgentReady

record NodeSpec =
  nd_nodeEpoch :: int
  nd_nodeIp :: string
  nd_naIp :: string
  nd_cidr :: string
  nd_podMgrPort :: "16 word"
  nd_tsotSvcPort :: "16 word"
  nd_stateSvcPort :: "16 word"
  nd_resources :: NodeResources
  nd_blobStoreEnable :: bool
  nd_CUDA_VISIBLE_DEVICES :: string
  nd_state :: NAState

type_synonym Node = "NodeSpec DataObject"

definition NodeAgentUrl :: "Node \<Rightarrow> string" where
  "NodeAgentUrl self = ''http://'' @ nd_naIp (object self) @ '':'' @ show_nat (unat (nd_podMgrPort (object self)))"

section \<open>Allocation on a node\<close>

definition NodeResources_CanAlloc :: "NodeResources \<Rightarrow> Resources \<Rightarrow> bool \<Rightarrow> (AllocState, error) res" where
  "NodeResources_CanAlloc self req createSnapshot =
     and_then (GPUResourceMap_CanAlloc (nr_gpus self) (rs_gpu req) createSnapshot) (\<lambda>gpus.
     Ok \<lparr>as_cpu = u64_as_i64 (rs_cpu req) \<le> nr_cpu self,
         as_memory = u64_as_i64 (rs_memory req) \<le> nr_memory self,
         as_cacheMem = u64_as_i64 (rs_cacheMemory req) \<le> nr_cacheMemory self,
         as_gpuType = GPUType_CanAlloc (nr_gpuType self) (gr_type (rs_gpu req)),
         as_gpu = (gpus \<noteq> None)\<rparr>)"

definition NodeResources_Alloc ::
  "NodeResources \<Rightarrow> Resources \<Rightarrow> bool \<Rightarrow> (NodeResources \<times> NodeResources, error) res" where
  "NodeResources_Alloc self req createSnapshot =
     and_then (NodeResources_CanAlloc self req createSnapshot) (\<lambda>state.
     if \<not> AllocState_Ok state then Err (ScheduleFail state)
     else
       and_then (i64_sub (nr_memory self) (u64_as_i64 (rs_memory req))) (\<lambda>m.
       and_then (i64_sub (nr_cacheMemory self) (u64_as_i64 (rs_cacheMemory req))) (\<lambda>c.
       and_then (GPUResourceMap_Alloc (nr_gpus self) (rs_gpu req) createSnapshot) (\<lambda>(g, gpus).
       Ok (self\<lparr>nr_memory := m, nr_cacheMemory := c, nr_gpus := g\<rparr>,
           \<lparr>nr_nodename = nr_nodename self, nr_cpu = u64_as_i64 (rs_cpu req),
            nr_memory = u64_as_i64 (rs_memory req), nr_cacheMemory = u64_as_i64 (rs_cacheMemory req),
            nr_gpuType = nr_gpuType self, nr_gpus = gpus, maxContextCnt = maxContextCnt self\<rparr>)))))"

section \<open>The status of a node\<close>

record PendingPod =
  pp_nodeName :: string
  pp_podKey :: string
  pp_funcId :: string
  pp_allocResources :: NodeResources
  schedulingTime :: nat

definition PendingPod_New :: "nat \<Rightarrow> string \<Rightarrow> string \<Rightarrow> string \<Rightarrow> NodeResources \<Rightarrow> PendingPod" where
  "PendingPod_New now nodeName podKey funcId r =
     \<lparr>pp_nodeName = nodeName, pp_podKey = podKey, pp_funcId = funcId, pp_allocResources = r,
      schedulingTime = now\<rparr>"

record NodeStatus =
  ns_node :: Node
  ns_total :: NodeResources
  ns_available :: NodeResources
  ns_pendingPods :: "(string, PendingPod) btmap"
  ns_pods :: "(string, WorkerPod) btmap"
  ns_stoppingPods :: "string btset"
  ns_createTime :: nat
  ns_state :: NAState

abbreviation alloc_of :: "WorkerPod \<Rightarrow> NodeResources" where
  "alloc_of w \<equiv> allocResources (podSpec (wp_pod w))"

definition NodeStatus_New ::
  "nat \<Rightarrow> Node \<Rightarrow> NodeResources \<Rightarrow> (string, WorkerPod) btmap \<Rightarrow> (NodeStatus, error) res" where
  "NodeStatus_New now node tot pods =
     and_then (rfold (\<lambda>(_, pod) av. NodeResources_Sub av (alloc_of pod)) pods (NodeResources_Copy tot))
       (\<lambda>available.
     Ok \<lparr>ns_node = node, ns_total = tot, ns_available = available, ns_pendingPods = [], ns_pods = pods,
         ns_stoppingPods = [], ns_createTime = now, ns_state = nd_state (object node)\<rparr>)"

definition Node_AddPendingPod :: "NodeStatus \<Rightarrow> PendingPod \<Rightarrow> (NodeStatus, error) res" where
  "Node_AddPendingPod self p = Ok (self\<lparr>ns_pendingPods := bt_insert (pp_podKey p) p (ns_pendingPods self)\<rparr>)"

definition Node_AddPod :: "NodeStatus \<Rightarrow> WorkerPod \<Rightarrow> (NodeStatus, error) res" where
  "Node_AddPod self pod =
     (let podKey = PodKey (wp_pod pod);
          self1 = self\<lparr>ns_pendingPods := bt_remove podKey (ns_pendingPods self)\<rparr>
      in and_then
           (case bt_get podKey (ns_pendingPods self) of
              None \<Rightarrow> and_then (NodeResources_Sub (ns_available self1) (alloc_of pod)) (\<lambda>av.
                        Ok (self1\<lparr>ns_available := av\<rparr>))
            | Some _ \<Rightarrow> Ok self1)
           (\<lambda>self2. Ok (self2\<lparr>ns_pods := bt_insert podKey pod (ns_pods self2)\<rparr>)))"

definition Node_UpdatePod :: "NodeStatus \<Rightarrow> WorkerPod \<Rightarrow> WorkerPod \<Rightarrow> (NodeStatus, error) res" where
  "Node_UpdatePod self pod oldPod =
     (let podKey = PodKey (wp_pod pod);
          self1 = (if podState (wp_pod oldPod) = PsResuming \<and> podState (wp_pod pod) = PsReady
                   then self\<lparr>ns_pendingPods := bt_remove podKey (ns_pendingPods self)\<rparr> else self)
      in and_then (rassert (bt_contains podKey (ns_pods self1))) (\<lambda>_.
         Ok (self1\<lparr>ns_pods := bt_insert podKey pod (ns_pods self1)\<rparr>)))"

definition FreeResource :: "NodeStatus \<Rightarrow> NodeResources \<Rightarrow> (NodeStatus, error) res" where
  "FreeResource self free =
     and_then (NodeResources_Add (ns_available self) free) (\<lambda>av. Ok (self\<lparr>ns_available := av\<rparr>))"

definition Node_RemovePod :: "NodeStatus \<Rightarrow> string \<Rightarrow> NodeResources \<Rightarrow> (NodeStatus, error) res" where
  "Node_RemovePod self podKey resources =
     (let pendingExist = bt_contains podKey (ns_pendingPods self);
          exist = bt_contains podKey (ns_pods self);
          self1 = self\<lparr>ns_pendingPods := bt_remove podKey (ns_pendingPods self),
                       ns_pods := bt_remove podKey (ns_pods self),
                       ns_stoppingPods := bt_remove podKey (ns_stoppingPods self)\<rparr>
      in if pendingExist \<or> exist then FreeResource self1 resources else Ok self1)"

definition AllocResource :: "NodeStatus \<Rightarrow> Resources \<Rightarrow> bool \<Rightarrow> (NodeStatus \<times> NodeResources, error) res" where
  "AllocResource self req createSnapshot =
     and_then (NodeResources_Alloc (ns_available self) req createSnapshot) (\<lambda>(av, r).
     Ok (self\<lparr>ns_available := av\<rparr>, r))"

definition NodeStatus_ReadyResourceQuota :: "NodeStatus \<Rightarrow> Resources \<Rightarrow> (NodeResources, error) res" where
  "NodeStatus_ReadyResourceQuota self req = Ok (NodeResources_ReadyResourceQuota (ns_available self) req)"

definition NodeStatus_ResourceQuota :: "NodeStatus \<Rightarrow> Resources \<Rightarrow> (NodeResources, error) res" where
  "NodeStatus_ResourceQuota self req = Ok (NodeResources_ResourceQuota (ns_available self) req)"

definition Node_AddStoppingPod :: "NodeStatus \<Rightarrow> string \<Rightarrow> NodeStatus" where
  "Node_AddStoppingPod self podKey = self\<lparr>ns_stoppingPods := bs_insert podKey (ns_stoppingPods self)\<rparr>"

definition Node_RemoveStoppingPod :: "NodeStatus \<Rightarrow> string \<Rightarrow> NodeStatus \<times> bool" where
  "Node_RemoveStoppingPod self podKey =
     (self\<lparr>ns_stoppingPods := bt_remove podKey (ns_stoppingPods self)\<rparr>,
      bt_contains podKey (ns_stoppingPods self))"

end
