(* ===== verification/Node_Laws.thy ===== *)
theory Node_Laws
  imports Node_Status
begin

text \<open>
  The accounting of a node. What a pod key is charged for is what the scheduler subtracted from the
  node for it: its reservation while it is pending, its allocation once it is reported, and both while
  a standby pod is being resumed. The step relation lists how the scheduler's handlers change a node;
  in every reachable state what is available plus what is charged is the node's total.
\<close>

section \<open>Charges\<close>

fun pair_charge :: "PendingPod option \<Rightarrow> WorkerPod option \<Rightarrow> axis \<Rightarrow> int" where
  "pair_charge None None x = 0"
| "pair_charge None (Some w) x = nr_amount (alloc_of w) x"
| "pair_charge (Some p) None x = nr_amount (pp_allocResources p) x"
| "pair_charge (Some p) (Some w) x = nr_amount (pp_allocResources p) x +
     (if podState (wp_pod w) = PsStandby then nr_amount (alloc_of w) x else 0)"

definition charge_of :: "NodeStatus \<Rightarrow> string \<Rightarrow> axis \<Rightarrow> int" where
  "charge_of ns k x = pair_charge (bt_get k (ns_pendingPods ns)) (bt_get k (ns_pods ns)) x"

definition charged_keys :: "NodeStatus \<Rightarrow> string set" where
  "charged_keys ns = set (bt_keys (ns_pendingPods ns)) \<union> set (bt_keys (ns_pods ns))"

definition charged :: "NodeStatus \<Rightarrow> axis \<Rightarrow> int" where
  "charged ns x = (\<Sum>k \<in> charged_keys ns. charge_of ns k x)"

definition balanced :: "NodeStatus \<Rightarrow> bool" where
  "balanced ns \<longleftrightarrow> (\<forall>x. nr_amount (ns_available ns) x + charged ns x = nr_amount (ns_total ns) x)"

text \<open>
  Well-formed: ordered maps, pods stored under their key, allocations well formed; a pod that is both
  reported and pending, and no longer on standby, was reported with what was reserved for it.
\<close>

definition node_ok :: "NodeStatus \<Rightarrow> bool" where
  "node_ok ns \<longleftrightarrow> bt_ok (ns_pendingPods ns) \<and> bt_ok (ns_pods ns) \<and>
     (\<forall>k w. bt_get k (ns_pods ns) = Some w \<longrightarrow> PodKey (wp_pod w) = k \<and> nr_ok (alloc_of w)) \<and>
     (\<forall>k p. bt_get k (ns_pendingPods ns) = Some p \<longrightarrow> nr_ok (pp_allocResources p)) \<and>
     (\<forall>k w p. bt_get k (ns_pods ns) = Some w \<and> bt_get k (ns_pendingPods ns) = Some p \<and>
        podState (wp_pod w) \<noteq> PsStandby \<longrightarrow> nr_amount (alloc_of w) = nr_amount (pp_allocResources p))"

section \<open>How the scheduler changes a node\<close>

text \<open>
  The constructors follow the handlers: \<open>schedule\<close> is a pod start (\<open>AllocResource\<close> and
  \<open>AddPendingPod\<close> in \<open>StartWorker\<close>'s callers), \<open>report\<close> the first event of a pod (\<open>AddPod\<close>),
  \<open>resume\<close> the reservation of \<open>ResumePod\<close>, \<open>resume_failed\<close> its rollback in
  \<open>ProcessResumeWorkerComplete\<close>, \<open>resuming\<close> the event in which a standby pod has become a resuming one
  (\<open>UpdatePod\<close>), \<open>update\<close> any other event, \<open>remove\<close> the deletion event and \<open>stop\<close>/\<open>unstop\<close> the
  marking of evicted pods.
\<close>

inductive node_step :: "NodeStatus \<Rightarrow> NodeStatus \<Rightarrow> bool" where
  schedule: "AllocResource ns req cs = Ok (ns1, r) \<Longrightarrow> contextCount (rs_gpu req) < 2 ^ 63 \<Longrightarrow>
    nr_ok (ns_available ns) \<Longrightarrow> pp_allocResources p = r \<Longrightarrow> pp_podKey p \<notin> charged_keys ns \<Longrightarrow>
    Node_AddPendingPod ns1 p = Ok ns2 \<Longrightarrow> node_step ns ns2"
| report: "Node_AddPod ns w = Ok ns' \<Longrightarrow> bt_get (PodKey (wp_pod w)) (ns_pods ns) = None \<Longrightarrow> nr_ok (alloc_of w) \<Longrightarrow>
    (\<forall>p. bt_get (PodKey (wp_pod w)) (ns_pendingPods ns) = Some p \<longrightarrow>
       nr_amount (alloc_of w) = nr_amount (pp_allocResources p)) \<Longrightarrow> node_step ns ns'"
| resume: "bt_get (pp_podKey p) (ns_pods ns) = Some w \<Longrightarrow> podState (wp_pod w) = PsStandby \<Longrightarrow>
    bt_get (pp_podKey p) (ns_pendingPods ns) = None \<Longrightarrow> nr_ok (pp_allocResources p) \<Longrightarrow>
    NodeResources_Sub (ns_available ns) (pp_allocResources p) = Ok av \<Longrightarrow>
    Node_AddPendingPod (ns\<lparr>ns_available := av\<rparr>) p = Ok ns' \<Longrightarrow> node_step ns ns'"
| resume_failed: "bt_get k (ns_pods ns) = Some w \<Longrightarrow> podState (wp_pod w) = PsStandby \<Longrightarrow>
    bt_get k (ns_pendingPods ns) = Some p \<Longrightarrow> FreeResource ns (pp_allocResources p) = Ok ns1 \<Longrightarrow>
    node_step ns (ns1\<lparr>ns_pendingPods := bt_remove k (ns_pendingPods ns1)\<rparr>)"
| resuming: "bt_get (PodKey (wp_pod w)) (ns_pods ns) = Some old \<Longrightarrow> podState (wp_pod old) = PsStandby \<Longrightarrow>
    podState (wp_pod w) = PsResuming \<Longrightarrow> bt_get (PodKey (wp_pod w)) (ns_pendingPods ns) = Some p \<Longrightarrow>
    nr_ok (alloc_of w) \<Longrightarrow> nr_amount (alloc_of w) = nr_amount (pp_allocResources p) \<Longrightarrow>
    Node_UpdatePod ns w old = Ok ns1 \<Longrightarrow> FreeResource ns1 (alloc_of old) = Ok ns2 \<Longrightarrow> node_step ns ns2"
| update: "bt_get (PodKey (wp_pod w)) (ns_pods ns) = Some old \<Longrightarrow> nr_ok (alloc_of w) \<Longrightarrow>
    nr_amount (alloc_of w) = nr_amount (alloc_of old) \<Longrightarrow>
    bt_get (PodKey (wp_pod w)) (ns_pendingPods ns) \<noteq> None \<longrightarrow>
      (podState (wp_pod w) = PsStandby \<longleftrightarrow> podState (wp_pod old) = PsStandby) \<Longrightarrow>
    Node_UpdatePod ns w old = Ok ns' \<Longrightarrow> node_step ns ns'"
| remove: "nr_ok r \<Longrightarrow> (\<forall>x. k \<in> charged_keys ns \<longrightarrow> nr_amount r x = charge_of ns k x) \<Longrightarrow>
    Node_RemovePod ns k r = Ok ns' \<Longrightarrow> node_step ns ns'"
| stop: "node_step ns (Node_AddStoppingPod ns k)"
| unstop: "node_step ns (fst (Node_RemoveStoppingPod ns k))"

inductive_cases node_stepE: "node_step ns ns'"

section \<open>Sums of charges\<close>

lemma charge_of_absent: "k \<notin> charged_keys ns \<Longrightarrow> charge_of ns k x = 0"
  by (simp add: charge_of_def charged_keys_def flip: bt_get_None_iff)

lemma finite_charged_keys [simp]: "finite (charged_keys ns)"
  by (simp add: charged_keys_def)

lemma charged_superset:
  "finite K \<Longrightarrow> charged_keys ns \<subseteq> K \<Longrightarrow> charged ns x = (\<Sum>k \<in> K. charge_of ns k x)"
  unfolding charged_def by (rule sum.mono_neutral_left) (auto simp: charge_of_absent)

text \<open>An operation that touches one key changes the sum by the change of that charge.\<close>

lemma charged_one_key:
  assumes "\<And>j. j \<noteq> k \<Longrightarrow> bt_get j (ns_pendingPods ns') = bt_get j (ns_pendingPods ns)"
    and "\<And>j. j \<noteq> k \<Longrightarrow> bt_get j (ns_pods ns') = bt_get j (ns_pods ns)"
  shows "charged ns' x = charged ns x - charge_of ns k x + charge_of ns' k x"
proof -
  let ?K = "insert k (charged_keys ns \<union> charged_keys ns')"
  have "charge_of ns' j x = charge_of ns j x" if "j \<noteq> k" for j
    unfolding charge_of_def using assms[OF that] by metis
  then have "(\<Sum>j \<in> ?K - {k}. charge_of ns' j x) = (\<Sum>j \<in> ?K - {k}. charge_of ns j x)"
    by (intro sum.cong) auto
  moreover have "charged m x = charge_of m k x + (\<Sum>j \<in> ?K - {k}. charge_of m j x)"
    if "charged_keys m \<subseteq> ?K" for m
    using charged_superset[of ?K m] that by (simp add: sum.remove[of ?K k])
  ultimately show ?thesis by (simp add: subset_insertI2)
qed

lemma charged_cong:
  "ns_pendingPods ns' = ns_pendingPods ns \<Longrightarrow> ns_pods ns' = ns_pods ns \<Longrightarrow> charged ns' x = charged ns x"
  unfolding charged_def charged_keys_def charge_of_def by metis

lemma balanced_one_key:
  assumes "balanced ns" "ns_total ns' = ns_total ns"
    and "\<And>j. j \<noteq> k \<Longrightarrow> bt_get j (ns_pendingPods ns') = bt_get j (ns_pendingPods ns)"
    and "\<And>j. j \<noteq> k \<Longrightarrow> bt_get j (ns_pods ns') = bt_get j (ns_pods ns)"
    and "\<And>x. nr_amount (ns_available ns') x = nr_amount (ns_available ns) x + charge_of ns k x - charge_of ns' k x"
  shows "balanced ns'"
  using assms(1,2,5) charged_one_key[OF assms(3,4)] by (simp add: balanced_def)

section \<open>Single operations\<close>

lemma NodeResources_Sub_not_Err [simp]: "NodeResources_Sub n a \<noteq> Err e"
proof -
  have "rfold gpus_sub_entry es m \<noteq> Err e" for es and m :: GPUResourceMap
  proof (induction es arbitrary: m)
    case (Cons x es)
    then show ?case
      by (auto simp: res_simps gpus_sub_entry_def assert_nonneg_def Let_def split: option.splits)
  qed simp
  then show ?thesis by (simp add: NodeResources_Sub_def GPUResourceMap_Sub_def res_simps)
qed

lemma NodeResources_Add_not_Err [simp]: "NodeResources_Add n a \<noteq> Err e"
proof -
  have "rfold gpus_add_entry es m \<noteq> Err e" for es and m :: GPUResourceMap
  proof (induction es arbitrary: m)
    case (Cons x es)
    then show ?case
      by (auto simp: res_simps gpus_add_entry_def assert_nonneg_def Let_def split: option.splits)
  qed simp
  then show ?thesis by (simp add: NodeResources_Add_def GPUResourceMap_Add_def Let_def res_simps)
qed

lemma NodeResources_Alloc_is_Sub:
  assumes "NodeResources_Alloc n req cs = Ok (n', r)" "nr_ok n" "contextCount (rs_gpu req) < 2 ^ 63"
  shows "NodeResources_Sub n r = Ok n'" "nr_ok r"
proof -
  from assms(1) obtain m c g gs where
    mem: "(i64_sub (nr_memory n) (u64_as_i64 (rs_memory req)) :: (int, error) res) = Ok m"
         "(i64_sub (nr_cacheMemory n) (u64_as_i64 (rs_cacheMemory req)) :: (int, error) res) = Ok c"
    and gpu: "GPUResourceMap_Alloc (nr_gpus n) (rs_gpu req) cs = Ok (g, gs)"
    and res: "n' = n\<lparr>nr_memory := m, nr_cacheMemory := c, nr_gpus := g\<rparr>"
         "nr_memory r = u64_as_i64 (rs_memory req)" "nr_cacheMemory r = u64_as_i64 (rs_cacheMemory req)" "nr_gpus r = gs"
    by (auto simp: NodeResources_Alloc_def res_simps split: if_splits)
  have "gpus_ok (nr_gpus n)" using assms(2) by (simp add: nr_ok_def)
  note sub = Alloc_is_Sub[OF gpu this assms(3)]
  show "NodeResources_Sub n r = Ok n'" using mem sub(1) res by (simp add: NodeResources_Sub_def)
  show "nr_ok r" using sub(2) res by (simp add: nr_ok_def)
qed

lemma AllocResource_Ok:
  assumes "AllocResource ns req cs = Ok (ns', r)"
  shows "ns' = ns\<lparr>ns_available := ns_available ns'\<rparr>"
    "NodeResources_Alloc (ns_available ns) req cs = Ok (ns_available ns', r)"
  using assms by (auto simp: AllocResource_def res_simps)

lemma FreeResource_Ok:
  "FreeResource ns r = Ok ns' \<longleftrightarrow>
     (\<exists>av. NodeResources_Add (ns_available ns) r = Ok av \<and> ns' = ns\<lparr>ns_available := av\<rparr>)"
  by (auto simp: FreeResource_def res_simps)

lemma Node_UpdatePod_Ok:
  "Node_UpdatePod ns w old = Ok ns' \<longleftrightarrow> bt_contains (PodKey (wp_pod w)) (ns_pods ns) \<and>
     ns' = ns\<lparr>ns_pendingPods := (if podState (wp_pod old) = PsResuming \<and> podState (wp_pod w) = PsReady
                then bt_remove (PodKey (wp_pod w)) (ns_pendingPods ns) else ns_pendingPods ns),
              ns_pods := bt_insert (PodKey (wp_pod w)) w (ns_pods ns)\<rparr>"
  by (auto simp: Node_UpdatePod_def Let_def res_simps)

lemma Node_AddPod_Ok:
  assumes "Node_AddPod ns w = Ok ns'"
  shows "ns_pods ns' = bt_insert (PodKey (wp_pod w)) w (ns_pods ns)"
    "ns_pendingPods ns' = bt_remove (PodKey (wp_pod w)) (ns_pendingPods ns)" "ns_total ns' = ns_total ns"
    "if bt_get (PodKey (wp_pod w)) (ns_pendingPods ns) = None
     then NodeResources_Sub (ns_available ns) (alloc_of w) = Ok (ns_available ns')
     else ns_available ns' = ns_available ns"
  using assms by (auto simp: Node_AddPod_def Let_def res_simps split: option.splits)

lemma Node_RemovePod_Ok:
  assumes "Node_RemovePod ns k r = Ok ns'"
  shows "ns_pods ns' = bt_remove k (ns_pods ns)" "ns_pendingPods ns' = bt_remove k (ns_pendingPods ns)"
    "ns_total ns' = ns_total ns"
    "if k \<in> charged_keys ns then NodeResources_Add (ns_available ns) r = Ok (ns_available ns')
     else ns_available ns' = ns_available ns"
  using assms
  by (auto simp: Node_RemovePod_def Let_def FreeResource_Ok charged_keys_def bt_contains_iff split: if_splits)

lemmas avail_sub = node_ledger.reserve_amount
lemmas avail_add = node_ledger.release_amount

section \<open>Every step keeps the accounts\<close>

definition node_inv :: "NodeStatus \<Rightarrow> bool" where
  "node_inv ns \<longleftrightarrow> node_ok ns \<and> balanced ns"

lemma node_invI:
  assumes "node_inv ns" "ns_total ns' = ns_total ns" "bt_ok (ns_pendingPods ns')" "bt_ok (ns_pods ns')"
    and "\<And>j. j \<noteq> k \<Longrightarrow> bt_get j (ns_pendingPods ns') = bt_get j (ns_pendingPods ns)"
    and "\<And>j. j \<noteq> k \<Longrightarrow> bt_get j (ns_pods ns') = bt_get j (ns_pods ns)"
    and "\<And>x. nr_amount (ns_available ns') x = nr_amount (ns_available ns) x + charge_of ns k x - charge_of ns' k x"
    and "\<And>w. bt_get k (ns_pods ns') = Some w \<Longrightarrow> PodKey (wp_pod w) = k \<and> nr_ok (alloc_of w)"
    and "\<And>p. bt_get k (ns_pendingPods ns') = Some p \<Longrightarrow> nr_ok (pp_allocResources p)"
    and "\<And>w p. bt_get k (ns_pods ns') = Some w \<Longrightarrow> bt_get k (ns_pendingPods ns') = Some p \<Longrightarrow>
           podState (wp_pod w) \<noteq> PsStandby \<Longrightarrow> nr_amount (alloc_of w) = nr_amount (pp_allocResources p)"
  shows "node_inv ns'"
proof -
  have "balanced ns'"
    by (rule balanced_one_key[of ns ns' k]) (use assms(1,2,5-7) in \<open>auto simp: node_inv_def\<close>)
  moreover have ok: "node_ok ns" using assms(1) by (simp add: node_inv_def)
  have "node_ok ns'"
    unfolding node_ok_def
  proof (intro conjI allI impI; (elim conjE)?)
    fix j w p
    show "PodKey (wp_pod w) = j" "nr_ok (alloc_of w)" if "bt_get j (ns_pods ns') = Some w"
      using ok assms(6)[of j] assms(8)[of w] that by (cases "j = k"; simp add: node_ok_def)+
    show "nr_ok (pp_allocResources p)" if "bt_get j (ns_pendingPods ns') = Some p"
      using ok assms(5)[of j] assms(9)[of p] that by (cases "j = k"; simp add: node_ok_def)
    show "nr_amount (alloc_of w) = nr_amount (pp_allocResources p)"
      if "bt_get j (ns_pods ns') = Some w" "bt_get j (ns_pendingPods ns') = Some p" "podState (wp_pod w) \<noteq> PsStandby"
      using ok assms(5,6)[of j] assms(10)[of w p] that by (cases "j = k"; simp add: node_ok_def)
  qed (use assms(3,4) in auto)
  ultimately show ?thesis by (simp add: node_inv_def)
qed

lemma node_inv_maps: "node_inv ns \<Longrightarrow> bt_ok (ns_pendingPods ns)" "node_inv ns \<Longrightarrow> bt_ok (ns_pods ns)"
  by (auto simp: node_inv_def node_ok_def)

lemma node_inv_pod:
  "node_inv ns \<Longrightarrow> bt_get k (ns_pods ns) = Some w \<Longrightarrow> PodKey (wp_pod w) = k \<and> nr_ok (alloc_of w)"
  by (auto simp: node_inv_def node_ok_def)

lemma node_inv_pending: "node_inv ns \<Longrightarrow> bt_get k (ns_pendingPods ns) = Some p \<Longrightarrow> nr_ok (pp_allocResources p)"
  by (auto simp: node_inv_def node_ok_def)

lemma node_inv_agree:
  "node_inv ns \<Longrightarrow> bt_get k (ns_pods ns) = Some w \<Longrightarrow> bt_get k (ns_pendingPods ns) = Some p \<Longrightarrow>
   podState (wp_pod w) \<noteq> PsStandby \<Longrightarrow> nr_amount (alloc_of w) = nr_amount (pp_allocResources p)"
  by (auto simp: node_inv_def node_ok_def)

lemmas node_inv_facts = node_inv_maps node_inv_pod node_inv_pending node_inv_agree

lemma reserve_step:
  assumes "node_inv ns" "NodeResources_Sub (ns_available ns) (pp_allocResources p) = Ok av" "nr_ok (pp_allocResources p)"
    and "bt_get (pp_podKey p) (ns_pendingPods ns) = None"
    and "\<And>w. bt_get (pp_podKey p) (ns_pods ns) = Some w \<Longrightarrow> podState (wp_pod w) = PsStandby"
    and "Node_AddPendingPod (ns\<lparr>ns_available := av\<rparr>) p = Ok ns'"
  shows "node_inv ns'"
proof (rule node_invI[OF assms(1), of ns' "pp_podKey p"])
  have ns': "ns' = ns\<lparr>ns_available := av, ns_pendingPods := bt_insert (pp_podKey p) p (ns_pendingPods ns)\<rparr>"
    using assms(6) by (simp add: Node_AddPendingPod_def)
  show "nr_amount (ns_available ns') x
      = nr_amount (ns_available ns) x + charge_of ns (pp_podKey p) x - charge_of ns' (pp_podKey p) x" for x
    using avail_sub[OF assms(3,2)] assms(4,5)
    by (cases "bt_get (pp_podKey p) (ns_pods ns)") (simp_all add: ns' charge_of_def)
qed (use assms in \<open>auto simp: Node_AddPendingPod_def node_inv_facts dest: node_inv_pod\<close>)

lemma node_step_report:
  assumes "node_inv ns" "Node_AddPod ns w = Ok ns'" "bt_get (PodKey (wp_pod w)) (ns_pods ns) = None" "nr_ok (alloc_of w)"
    and "\<And>p. bt_get (PodKey (wp_pod w)) (ns_pendingPods ns) = Some p \<Longrightarrow>
       nr_amount (alloc_of w) = nr_amount (pp_allocResources p)"
  shows "node_inv ns'"
proof (rule node_invI[OF assms(1), of ns' "PodKey (wp_pod w)"])
  note ns' = Node_AddPod_Ok[OF assms(2)]
  show "nr_amount (ns_available ns') x = nr_amount (ns_available ns) x +
      charge_of ns (PodKey (wp_pod w)) x - charge_of ns' (PodKey (wp_pod w)) x" for x
    using ns' avail_sub[OF assms(4)] assms(3,5)
    by (cases "bt_get (PodKey (wp_pod w)) (ns_pendingPods ns)") (auto simp: charge_of_def)
qed (use assms(1,4) Node_AddPod_Ok[OF assms(2)] in \<open>auto simp: node_inv_maps\<close>)

lemma node_step_resume_failed:
  assumes "node_inv ns" "bt_get k (ns_pods ns) = Some w" "podState (wp_pod w) = PsStandby"
    "bt_get k (ns_pendingPods ns) = Some p" "FreeResource ns (pp_allocResources p) = Ok ns1"
  shows "node_inv (ns1\<lparr>ns_pendingPods := bt_remove k (ns_pendingPods ns1)\<rparr>)"
proof (rule node_invI[OF assms(1), where k = k])
  from assms(5) obtain av where av: "NodeResources_Add (ns_available ns) (pp_allocResources p) = Ok av"
      and ns1: "ns1 = ns\<lparr>ns_available := av\<rparr>"
    by (auto simp: FreeResource_Ok)
  show "nr_amount (ns_available (ns1\<lparr>ns_pendingPods := bt_remove k (ns_pendingPods ns1)\<rparr>)) x =
      nr_amount (ns_available ns) x + charge_of ns k x -
      charge_of (ns1\<lparr>ns_pendingPods := bt_remove k (ns_pendingPods ns1)\<rparr>) k x" for x
    using avail_add[OF node_inv_pending[OF assms(1,4)] av] assms(2-4) by (simp add: ns1 charge_of_def)
qed (use assms in \<open>auto simp: FreeResource_Ok node_inv_maps dest: node_inv_pod\<close>)

lemma node_step_resuming:
  assumes "node_inv ns" "bt_get (PodKey (wp_pod w)) (ns_pods ns) = Some old" "podState (wp_pod old) = PsStandby"
    "podState (wp_pod w) = PsResuming" "bt_get (PodKey (wp_pod w)) (ns_pendingPods ns) = Some p"
    "nr_ok (alloc_of w)" "nr_amount (alloc_of w) = nr_amount (pp_allocResources p)"
    "Node_UpdatePod ns w old = Ok ns1" "FreeResource ns1 (alloc_of old) = Ok ns2"
  shows "node_inv ns2"
proof (rule node_invI[OF assms(1), of ns2 "PodKey (wp_pod w)"])
  from assms(9) obtain av where av: "NodeResources_Add (ns_available ns1) (alloc_of old) = Ok av"
      and ns2: "ns2 = ns1\<lparr>ns_available := av\<rparr>"
    by (auto simp: FreeResource_Ok)
  have ns1: "ns1 = ns\<lparr>ns_pods := bt_insert (PodKey (wp_pod w)) w (ns_pods ns)\<rparr>"
    using assms(3,8) by (simp add: Node_UpdatePod_Ok)
  have old: "nr_ok (alloc_of old)" using node_inv_pod[OF assms(1,2)] by blast
  show "nr_amount (ns_available ns2) x = nr_amount (ns_available ns) x +
      charge_of ns (PodKey (wp_pod w)) x - charge_of ns2 (PodKey (wp_pod w)) x" for x
    using avail_add[OF old av] assms(2-5) by (simp add: ns2 ns1 charge_of_def)
qed (use assms in \<open>auto simp: FreeResource_Ok Node_UpdatePod_Ok node_inv_maps dest: node_inv_pending\<close>)

lemma node_step_update:
  assumes "node_inv ns" "bt_get (PodKey (wp_pod w)) (ns_pods ns) = Some old" "nr_ok (alloc_of w)"
    "nr_amount (alloc_of w) = nr_amount (alloc_of old)"
    "bt_get (PodKey (wp_pod w)) (ns_pendingPods ns) \<noteq> None \<longrightarrow>
       (podState (wp_pod w) = PsStandby \<longleftrightarrow> podState (wp_pod old) = PsStandby)"
    "Node_UpdatePod ns w old = Ok ns'"
  shows "node_inv ns'"
proof (rule node_invI[OF assms(1), of ns' "PodKey (wp_pod w)"])
  show "nr_amount (ns_available ns') x = nr_amount (ns_available ns) x +
      charge_of ns (PodKey (wp_pod w)) x - charge_of ns' (PodKey (wp_pod w)) x" for x
    using assms(2,4-6) node_inv_agree[OF assms(1,2)]
    by (cases "bt_get (PodKey (wp_pod w)) (ns_pendingPods ns)") (auto simp: Node_UpdatePod_Ok charge_of_def)
qed (use assms node_inv_agree[OF assms(1,2)] in
    \<open>auto simp: Node_UpdatePod_Ok node_inv_maps dest: node_inv_pending split: if_splits\<close>)

lemma node_step_remove:
  assumes "node_inv ns" "nr_ok r" "\<And>x. k \<in> charged_keys ns \<Longrightarrow> nr_amount r x = charge_of ns k x"
    "Node_RemovePod ns k r = Ok ns'"
  shows "node_inv ns'"
proof (rule node_invI[OF assms(1), of ns' k])
  note ns' = Node_RemovePod_Ok[OF assms(4)]
  show "nr_amount (ns_available ns') x = nr_amount (ns_available ns) x + charge_of ns k x - charge_of ns' k x" for x
    using ns' avail_add[OF assms(2)] assms(3)[of x] charge_of_absent[of k ns x]
    by (cases "k \<in> charged_keys ns") (auto simp: charge_of_def)
qed (use assms(1) Node_RemovePod_Ok[OF assms(4)] in \<open>auto simp: node_inv_maps\<close>)

lemma node_step_stopping:
  "node_inv ns \<Longrightarrow> node_inv (ns\<lparr>ns_stoppingPods := s\<rparr>)"
  using charged_cong[of "ns\<lparr>ns_stoppingPods := s\<rparr>" ns]
  by (auto simp: node_inv_def node_ok_def balanced_def)

lemma node_step_inv: "node_step ns ns' \<Longrightarrow> node_inv ns \<Longrightarrow> node_inv ns'"
proof (induction rule: node_step.induct)
  case (schedule ns req cs ns1 r p ns2)
  note sub = NodeResources_Alloc_is_Sub[OF AllocResource_Ok(2)[OF schedule.hyps(1)] schedule.hyps(3,2)]
  have "bt_get (pp_podKey p) (ns_pendingPods ns) = None" "bt_get (pp_podKey p) (ns_pods ns) = None"
    using schedule.hyps(5) by (auto simp: charged_keys_def bt_get_None_iff)
  then show ?case
    using reserve_step[OF schedule.prems, of p "ns_available ns1" ns2] sub schedule.hyps(4,6)
      AllocResource_Ok(1)[OF schedule.hyps(1)] by simp
next
  case (resume p ns w av ns')
  then show ?case using reserve_step[of ns p av ns'] by simp
qed (auto simp: Node_AddStoppingPod_def Node_RemoveStoppingPod_def node_step_stopping
    intro: node_step_report node_step_resume_failed node_step_resuming node_step_update node_step_remove)

lemma node_steps_inv: "node_step\<^sup>*\<^sup>* ns ns' \<Longrightarrow> node_inv ns \<Longrightarrow> node_inv ns'"
  by (induction rule: rtranclp_induct) (auto intro: node_step_inv)

section \<open>A new node\<close>

lemma charges_of_pods:
  "bt_ok pods \<Longrightarrow> (\<Sum>k \<in> set (bt_keys pods). pair_charge None (bt_get k pods) x)
     = sum_list (map (\<lambda>(_, w). nr_amount (alloc_of w) x) pods)"
proof (induction pods)
  case (Cons e pods)
  obtain k w where e: "e = (k, w)" by force
  with Cons.prems have new: "k \<notin> set (bt_keys pods)" and ok: "bt_ok pods" by (auto simp: bt_ok_Cons)
  have "(\<Sum>j \<in> set (bt_keys pods). pair_charge None (bt_get j (e # pods)) x)
      = (\<Sum>j \<in> set (bt_keys pods). pair_charge None (bt_get j pods) x)"
    by (intro sum.cong) (use new in \<open>auto simp: e bt_get_Cons\<close>)
  then show ?case using Cons.IH[OF ok] new by (simp add: e bt_get_Cons)
qed simp

lemma rfold_Sub_amount:
  "rfold (\<lambda>(_, w) av. NodeResources_Sub av (alloc_of w)) pods n = Ok n' \<Longrightarrow> (\<forall>(_, w) \<in> set pods. nr_ok (alloc_of w)) \<Longrightarrow>
   nr_amount n x = nr_amount n' x + sum_list (map (\<lambda>(_, w). nr_amount (alloc_of w) x) pods)"
proof (induction pods arbitrary: n)
  case (Cons e pods)
  then obtain t where t: "NodeResources_Sub n (alloc_of (snd e)) = Ok t"
      "rfold (\<lambda>(_, w) av. NodeResources_Sub av (alloc_of w)) pods t = Ok n'"
    by (cases e) (auto simp: res_simps)
  then have "nr_amount t x = nr_amount n x - nr_amount (alloc_of (snd e)) x"
    using avail_sub Cons.prems(2) by (cases e) auto
  then show ?case using Cons.IH[OF t(2)] Cons.prems(2) by (cases e) auto
qed simp

lemma NodeResources_Copy_id [simp]: "NodeResources_Copy n = n"
  by (simp add: NodeResources_Copy_def)

lemma NodeStatus_New_inv:
  assumes "NodeStatus_New now node tot pods = Ok ns" "bt_ok pods"
    and "\<forall>(k, w) \<in> set pods. PodKey (wp_pod w) = k \<and> nr_ok (alloc_of w)"
  shows "node_inv ns"
proof -
  from assms(1) obtain av where
    av: "rfold (\<lambda>(_, w) av. NodeResources_Sub av (alloc_of w)) pods (NodeResources_Copy tot) = Ok av"
    and ns: "ns_total ns = tot" "ns_available ns = av" "ns_pendingPods ns = []" "ns_pods ns = pods"
    by (auto simp: NodeStatus_New_def res_simps)
  have "\<forall>(_, w) \<in> set pods. nr_ok (alloc_of w)" using assms(3) by auto
  then have "nr_amount tot x = nr_amount av x + charged ns x" for x
    using rfold_Sub_amount[OF av, of x] charges_of_pods[OF assms(2), of x]
    by (simp add: charged_def charged_keys_def charge_of_def ns)
  then have "balanced ns" by (simp add: balanced_def ns)
  moreover have "node_ok ns"
    using assms(2,3) by (auto simp: node_ok_def ns dest: bt_get_Some_mem)
  ultimately show ?thesis by (simp add: node_inv_def)
qed

text \<open>The example pod: it holds the share of the second GPU of the example node.\<close>

definition ex_pod :: "string \<Rightarrow> PodState \<Rightarrow> FuncPod" where
  "ex_pod i s = \<lparr>objType = ''pod'', do_tenant = ''t'', do_namespace = ''n'', do_name = ''f'', do_labels = [],
     do_annotations = [], channelRev = 0, srcEpoch = 0, revision = 0,
     object = \<lparr>pod_spec = \<lparr>ps_funcname = ''f'', ps_fprevision = 1, ps_id = i, ps_nodename = ''node1'',
         ps_runtime = InferX, ps_ipAddr = 0, ps_create_type = CreateRestore, ps_host_ip = '''', ps_host_port = 0,
         reqResources = Resources_default, allocResources = ex_share, ps_gpuMemSlots = [], ps_policy = Obj FuncPolicySpec_default\<rparr>,
       pod_status = \<lparr>pod_state = s, exitInfo = ExitNone\<rparr>\<rparr>\<rparr>"

definition ex_node_obj :: Node where
  "ex_node_obj = \<lparr>objType = ''node_info'', do_tenant = ''system'', do_namespace = ''system'', do_name = ''node1'',
     do_labels = [], do_annotations = [], channelRev = 0, srcEpoch = 0, revision = 0,
     object = \<lparr>nd_nodeEpoch = 1, nd_nodeIp = '''', nd_naIp = '''', nd_cidr = '''', nd_podMgrPort = 1234,
       nd_tsotSvcPort = 0, nd_stateSvcPort = 0, nd_resources = ex_node, nd_blobStoreEnable = False,
       nd_CUDA_VISIBLE_DEVICES = '''', nd_state = NodeAgentReady\<rparr>\<rparr>"

section \<open>Properties\<close>


definition ex_worker :: "PodState \<Rightarrow> WorkerPod" where
  "ex_worker s = \<lparr>wp_ref = 0, wp_pod = ex_pod ''1'' s\<rparr>"

lemmas node_eval = ex_node_def ex_share_def NodeResources_New_def NodeResources_Sub_def NodeResources_Add_def
  GPUResourceMap_Sub_def GPUResourceMap_Add_def gpus_sub_entry_def gpus_add_entry_def assert_nonneg_def i64_add_def
  alloc_eval nr_ok_def

lemma ex_pod_simps [simp]:
  "allocResources (podSpec (ex_pod i s)) = ex_share" "podState (ex_pod i s) = s"
  by (simp_all add: ex_pod_def)

lemma ex_share_ok [simp]: "nr_ok ex_share"
  by (simp add: node_eval)


text \<open>
  C21. A deletion event for a standby pod whose resume is still pending gives back only the standby
  allocation: the node loses, for good, exactly what was reserved for the resume.
\<close>

theorem RemovePod_pending_resume_leaks:
  assumes "node_inv ns" "bt_get k (ns_pods ns) = Some w" "podState (wp_pod w) = PsStandby"
    and "bt_get k (ns_pendingPods ns) = Some p" "Node_RemovePod ns k (alloc_of w) = Ok ns'"
  shows "nr_amount (ns_available ns') x + charged ns' x
     = nr_amount (ns_total ns') x - nr_amount (pp_allocResources p) x"
proof -
  note ns' = Node_RemovePod_Ok[OF assms(5)]
  have "k \<in> charged_keys ns" using assms(2) by (simp add: charged_keys_def flip: bt_contains_iff) (simp add: bt_contains_def)
  then have av: "nr_amount (ns_available ns') x = nr_amount (ns_available ns) x + nr_amount (alloc_of w) x"
    using ns'(4) avail_add node_inv_pod[OF assms(1,2)] by auto
  have "charged ns' x = charged ns x - charge_of ns k x + charge_of ns' k x"
    by (rule charged_one_key) (simp_all add: ns')
  moreover have "charge_of ns' k x = 0" by (simp add: charge_of_def ns')
  moreover have "charge_of ns k x = nr_amount (pp_allocResources p) x + nr_amount (alloc_of w) x"
    using assms(2-4) by (simp add: charge_of_def)
  ultimately show ?thesis using assms(1) ns'(3) av by (auto simp: node_inv_def balanced_def dest: spec[of _ x])
qed

theorem RemovePod_pending_resume_leaks_witness:
  "\<exists>ns ns' w. node_inv ns \<and> Node_RemovePod ns (PodKey (wp_pod w)) (alloc_of w) = Ok ns' \<and> ns_pods ns' = [] \<and>
     ns_pendingPods ns' = [] \<and>
     nr_amount (ns_available ns') (AxSlot 1) + charged ns' (AxSlot 1) = nr_amount (ns_total ns') (AxSlot 1) - 3"
proof -
  let ?w = "ex_worker PsStandby" and ?k = "PodKey (ex_pod ''1'' PsStandby)"
  define p where "p = PendingPod_New 0 ''node1'' ?k ''t/n/f/1'' ex_share"
  have "is_ok (and_then (NodeResources_Sub ex_node ex_share) (\<lambda>a. and_then (NodeResources_Sub a ex_share) (\<lambda>b. NodeResources_Add b ex_share)))"
    by (simp add: node_eval)
  then obtain a b c where run: "NodeResources_Sub ex_node ex_share = Ok a" "NodeResources_Sub a ex_share = Ok b"
      "NodeResources_Add b ex_share = Ok c"
    by (auto simp: is_ok_iff res_simps)
  obtain ns1 where ns1: "NodeStatus_New 0 ex_node_obj ex_node [(?k, ?w)] = Ok ns1" "ns_available ns1 = a"
      "ns_pods ns1 = [(?k, ?w)]" "ns_pendingPods ns1 = []"
    by (simp add: NodeStatus_New_def run ex_worker_def)
  have inv1: "node_inv ns1" by (rule NodeStatus_New_inv[OF ns1(1)]) (simp_all add: ex_worker_def bt_ok_def)
  define ns where "ns = ns1\<lparr>ns_available := b, ns_pendingPods := [(?k, p)]\<rparr>"
  have inv: "node_inv ns"
    by (rule reserve_step[OF inv1, where p = p and av = b])
      (simp_all add: p_def PendingPod_New_def run ns1 ns_def bt_get_Cons ex_worker_def Node_AddPendingPod_def)
  have pod: "bt_get ?k (ns_pods ns) = Some ?w" "bt_get ?k (ns_pendingPods ns) = Some p"
    by (simp_all add: ns_def ns1 bt_get_Cons)
  obtain ns' where ns': "Node_RemovePod ns ?k ex_share = Ok ns'"
    by (simp add: Node_RemovePod_def FreeResource_def run ns_def Let_def bt_contains_def bt_get_Cons)
  have "nr_amount (pp_allocResources p) (AxSlot 1) = 3"
    by (simp add: p_def PendingPod_New_def nr_amount_def gpu_amount_def ex_share_def bt_get_Cons)
  moreover have "ns_pods ns' = []" "ns_pendingPods ns' = []"
    using Node_RemovePod_Ok[OF ns'] by (simp_all add: ns_def ns1 bt_remove_def)
  ultimately show ?thesis
    using RemovePod_pending_resume_leaks[OF inv pod(1) _ pod(2), of ns' "AxSlot 1"] inv ns'
    by (intro exI[of _ ns] exI[of _ ns'] exI[of _ ?w]) (simp add: ex_worker_def)
qed

definition request_ok :: "NodeResources \<Rightarrow> Resources \<Rightarrow> bool" where
  "request_ok n req \<longleftrightarrow> rs_memory req < 2 ^ 63 \<and> rs_cacheMemory req < 2 ^ 63 \<and> contextCount (rs_gpu req) < 2 ^ 63 \<and>
     (gpuCount (rs_gpu req) = 0 \<or> (\<exists>s > 0. ReqSlotCnt (nr_gpus n) (vRam (rs_gpu req)) = Ok s))"

definition node_bounded :: "NodeResources \<Rightarrow> bool" where
  "node_bounded n \<longleftrightarrow> nr_ok n \<and> gpus_bounded (nr_gpus n) \<and> in_i64 (nr_memory n) \<and> in_i64 (nr_cacheMemory n)"

lemma gpu_CanAlloc_Alloc:
  assumes "node_bounded n" "request_ok n req"
  shows "\<exists>gpus. GPUResourceMap_CanAlloc (nr_gpus n) (rs_gpu req) cs = Ok gpus \<and>
     (gpus \<noteq> None \<longrightarrow> (\<exists>g a. GPUResourceMap_Alloc (nr_gpus n) (rs_gpu req) cs = Ok (g, a)))"
proof (cases "gpuCount (rs_gpu req) = 0")
  case True
  then show ?thesis by (simp add: GPUResourceMap_CanAlloc_def Alloc_no_gpu)
next
  case False
  then obtain s where s: "ReqSlotCnt (nr_gpus n) (vRam (rs_gpu req)) = Ok s" "0 < s"
    using assms(2) by (auto simp: request_ok_def)
  have m: "gpus_ok (nr_gpus n)" "contextCount (rs_gpu req) < 2 ^ 63" "gpus_bounded (nr_gpus n)"
    using assms by (simp_all add: node_bounded_def request_ok_def nr_ok_def)
  show ?thesis
    using Alloc_total[OF m(1) False m(2,3) s, of cs] False s
    by (simp add: CanAlloc_eq Let_def) (meson linorder_not_less)
qed

lemma i64_sub_fits: "in_i64 a \<Longrightarrow> int b \<le> a \<Longrightarrow> i64_sub a (int b) = Ok (a - int b)"
  by (simp add: i64_sub_def in_i64_def)

lemma i64_sub_add_fits: "in_i64 a \<Longrightarrow> i64_add (a - b) b = Ok a"
  by (simp add: i64_add_def)

lemma NodeResources_Alloc_Ok:
  assumes "node_bounded n" "request_ok n req" "NodeResources_CanAlloc n req cs = Ok st" "AllocState_Ok st"
  obtains g a where "GPUResourceMap_Alloc (nr_gpus n) (rs_gpu req) cs = Ok (g, a)"
    "int (rs_memory req) \<le> nr_memory n" "int (rs_cacheMemory req) \<le> nr_cacheMemory n"
    "NodeResources_Alloc n req cs = Ok
       (n\<lparr>nr_memory := nr_memory n - int (rs_memory req), nr_cacheMemory := nr_cacheMemory n - int (rs_cacheMemory req), nr_gpus := g\<rparr>,
        \<lparr>nr_nodename = nr_nodename n, nr_cpu = u64_as_i64 (rs_cpu req), nr_memory = int (rs_memory req),
         nr_cacheMemory = int (rs_cacheMemory req), nr_gpuType = nr_gpuType n, nr_gpus = a, maxContextCnt = maxContextCnt n\<rparr>)"
proof -
  have small: "rs_memory req < 2 ^ 63" "rs_cacheMemory req < 2 ^ 63" using assms(2) by (simp_all add: request_ok_def)
  have le: "int (rs_memory req) \<le> nr_memory n" "int (rs_cacheMemory req) \<le> nr_cacheMemory n"
    using assms(3,4) small by (auto simp: NodeResources_CanAlloc_def res_simps AllocState_Ok_def)
  obtain g a where "GPUResourceMap_Alloc (nr_gpus n) (rs_gpu req) cs = Ok (g, a)"
    using gpu_CanAlloc_Alloc[OF assms(1,2), of cs] assms(3,4)
    by (auto simp: NodeResources_CanAlloc_def res_simps AllocState_Ok_def)
  then show thesis
    using that le assms small
    by (simp add: NodeResources_Alloc_def i64_sub_fits node_bounded_def)
qed

text \<open>
  C22. Allocation on a node (\<open>ResourceAlloc\<close>): for a request in range the verdict of \<open>CanAlloc\<close> decides;
  a negative one is the error, and with a positive one the call succeeds, the node is reduced by exactly
  what is returned, memory and cache memory do not become negative, no GPU counter does, and freeing
  what was returned restores the node.
\<close>

theorem NodeResources_Alloc_spec:
  assumes "node_bounded n" "request_ok n req"
  shows "\<exists>st. NodeResources_CanAlloc n req cs = Ok st \<and>
    (if AllocState_Ok st
     then \<exists>n' r. NodeResources_Alloc n req cs = Ok (n', r) \<and> NodeResources_Sub n r = Ok n' \<and> 0 \<le> nr_memory n' \<and>
       0 \<le> nr_cacheMemory n' \<and> (gpus_nonneg (nr_gpus n) \<longrightarrow> gpus_nonneg (nr_gpus n')) \<and> NodeResources_Add n' r = Ok n
     else NodeResources_Alloc n req cs = Err (ScheduleFail st))"
proof -
  obtain st where st: "NodeResources_CanAlloc n req cs = Ok st"
    using gpu_CanAlloc_Alloc[OF assms, of cs] by (auto simp: NodeResources_CanAlloc_def)
  show ?thesis
  proof (cases "AllocState_Ok st")
    case True
    have m: "gpus_ok (nr_gpus n)" "contextCount (rs_gpu req) < 2 ^ 63" "gpus_bounded (nr_gpus n)" "nr_ok n"
      "in_i64 (nr_memory n)" "in_i64 (nr_cacheMemory n)"
      using assms by (simp_all add: node_bounded_def request_ok_def nr_ok_def)
    from assms st True show ?thesis
    proof (rule NodeResources_Alloc_Ok)
      fix g a
      assume g: "GPUResourceMap_Alloc (nr_gpus n) (rs_gpu req) cs = Ok (g, a)"
      note Alloc_slotSize[OF g] and sub = Alloc_is_Sub[OF g m(1,2)] and Alloc_nonneg[OF g m(1) _ m(2)]
      moreover have "GPUResourceMap_Add g a = Ok (nr_gpus n)"
        using Sub_then_Add[OF sub(1) m(1) sub(2) m(3)] Alloc_slotSize[OF g] by simp
      moreover assume "NodeResources_Alloc n req cs = Ok
       (n\<lparr>nr_memory := nr_memory n - int (rs_memory req), nr_cacheMemory := nr_cacheMemory n - int (rs_cacheMemory req), nr_gpus := g\<rparr>,
        \<lparr>nr_nodename = nr_nodename n, nr_cpu = u64_as_i64 (rs_cpu req), nr_memory = int (rs_memory req),
         nr_cacheMemory = int (rs_cacheMemory req), nr_gpuType = nr_gpuType n, nr_gpus = a, maxContextCnt = maxContextCnt n\<rparr>)"
        "int (rs_memory req) \<le> nr_memory n" "int (rs_cacheMemory req) \<le> nr_cacheMemory n"
      ultimately show ?thesis
        using st True NodeResources_Alloc_is_Sub(1)[OF _ m(4,2), of cs] m(5,6)
        by (simp add: NodeResources_Add_def i64_sub_add_fits)
    qed
  next
    case False
    then show ?thesis using st by (simp add: NodeResources_Alloc_def)
  qed
qed

definition ex_req :: Resources where
  "ex_req = \<lparr>rs_cpu = 10, rs_memory = 96, rs_readyMemory = 0, rs_cacheMemory = 12, rs_gpu = ex_usage\<rparr>"

theorem NodeResources_Alloc_spec_witness:
  "\<exists>n' r. NodeResources_Alloc ex_node ex_req False = Ok (n', r) \<and> NodeResources_Sub ex_node r = Ok n' \<and> NodeResources_Add n' r = Ok ex_node"
proof -
  have h: "node_bounded ex_node" "request_ok ex_node ex_req"
    by (simp_all add: node_bounded_def request_ok_def ex_req_def node_eval)
  have st: "NodeResources_CanAlloc ex_node ex_req False = Ok \<lparr>as_cpu = True, as_memory = True, as_cacheMem = True, as_gpuType = True, as_gpu = True\<rparr>"
    by (simp add: NodeResources_CanAlloc_def ex_req_def node_eval GPUType_CanAlloc_def)
  show ?thesis using NodeResources_Alloc_spec[OF h, of False] unfolding st by (auto simp: AllocState_Ok_def)
qed

end
