(* ===== verification/Selector_Parser.thy ===== *)
theory Selector_Parser
  imports Selector
begin

text \<open>
  The lexer and the recursive-descent parser of label selectors (\<open>src/inferxlib/src/selector.rs\<close>). A read past
  the end yields the NUL character, which the lexer also treats as the end of a word or of the text.
  \<open>Unread\<close> at position 0 and an index past the scanned items are the panics of the source. A \<open>HashSet\<close>
  of values is the list of its elements in insertion order, and \<open>ho\<close> is the order in which the set
  hands them out.
\<close>

section \<open>Lexer\<close>

datatype Token =
    ErrorToken | EndOfStringToken | ClosedParToken | CommaToken | DoesNotExistToken | DoubleEqualsToken
  | EqualsToken | GreaterThanToken | IdentifierToken | InToken | LessThanToken | NotEqualsToken | NotInToken
  | OpenParToken

definition STRING2TOKEN :: "(string \<times> Token) list" where
  "STRING2TOKEN =
     [('')'', ClosedParToken), ('','', CommaToken), (''!'', DoesNotExistToken), (''=='', DoubleEqualsToken),
      (''='', EqualsToken), (''>'', GreaterThanToken), (''in'', InToken), (''<'', LessThanToken),
      (''!='', NotEqualsToken), (''notin'', NotInToken), (''('', OpenParToken)]"

record ScannedItem =
  si_tok :: Token
  si_literal :: string

definition ScannedItem_default :: ScannedItem where
  "ScannedItem_default = \<lparr>si_tok = ErrorToken, si_literal = ''''\<rparr>"

definition IsWhitespace :: "char \<Rightarrow> bool" where
  "IsWhitespace ch \<longleftrightarrow> ch = CHR '' '' \<or> ch = CHR 0x09 \<or> ch = CHR 0x0D \<or> ch = CHR 0x0A"

definition IsSpecialSymbol :: "char \<Rightarrow> bool" where
  "IsSpecialSymbol ch \<longleftrightarrow> ch \<in> {CHR ''='', CHR ''!'', CHR ''('', CHR '')'', CHR '','', CHR ''>'', CHR ''<''}"

abbreviation NUL :: char where
  "NUL \<equiv> CHR 0x00"

record Lexer =
  lx_s :: string
  lx_pos :: nat

definition lex_left :: "Lexer \<Rightarrow> nat" where
  "lex_left l = length (lx_s l) - lx_pos l"

definition Lexer_Read :: "Lexer \<Rightarrow> char \<times> Lexer" where
  "Lexer_Read self =
     (if lx_pos self < length (lx_s self) then (lx_s self ! lx_pos self, self\<lparr>lx_pos := lx_pos self + 1\<rparr>)
      else (NUL, self))"

definition Lexer_Unread :: "Lexer \<Rightarrow> (Lexer, error) res" where
  "Lexer_Unread self = and_then (u64_sub (lx_pos self) 1) (\<lambda>p. Ok (self\<lparr>lx_pos := p\<rparr>))"

lemma Lexer_Read_left: "Lexer_Read l = (ch, l') \<Longrightarrow> ch \<noteq> NUL \<Longrightarrow> lex_left l' < lex_left l"
  by (auto simp: Lexer_Read_def lex_left_def split: if_splits)

function scan_id_loop :: "Lexer \<Rightarrow> string \<Rightarrow> (string \<times> Lexer, error) res" where
  "scan_id_loop l buf =
     (case Lexer_Read l of (ch, l1) \<Rightarrow>
        if ch = NUL then Ok (buf, l1)
        else if IsSpecialSymbol ch \<or> IsWhitespace ch then and_then (Lexer_Unread l1) (\<lambda>l2. Ok (buf, l2))
        else scan_id_loop l1 (buf @ [ch]))"
  by pat_completeness auto

termination scan_id_loop
  by (relation "measure (\<lambda>(l, _). lex_left l)") (auto dest: Lexer_Read_left[OF sym])

definition ScanIDOrKeyword :: "Lexer \<Rightarrow> ((Token \<times> string) \<times> Lexer, error) res" where
  "ScanIDOrKeyword self =
     and_then (scan_id_loop self []) (\<lambda>(s, l).
     case map_of STRING2TOKEN s of
       Some v \<Rightarrow> Ok ((v, s), l)
     | None \<Rightarrow> Ok ((IdentifierToken, s), l))"

function scan_special_loop ::
  "Lexer \<Rightarrow> string \<Rightarrow> ScannedItem \<Rightarrow> (string \<times> ScannedItem \<times> Lexer, error) res" where
  "scan_special_loop l buf lastScannedItem =
     (case Lexer_Read l of (ch, l1) \<Rightarrow>
        if ch = NUL then Ok (buf, lastScannedItem, l1)
        else if IsSpecialSymbol ch then
          (case map_of STRING2TOKEN (buf @ [ch]) of
             Some token \<Rightarrow> scan_special_loop l1 (buf @ [ch]) \<lparr>si_tok = token, si_literal = buf @ [ch]\<rparr>
           | None \<Rightarrow>
               if si_tok lastScannedItem \<noteq> ErrorToken
               then and_then (Lexer_Unread l1) (\<lambda>l2. Ok (buf @ [ch], lastScannedItem, l2))
               else scan_special_loop l1 (buf @ [ch]) lastScannedItem)
        else and_then (Lexer_Unread l1) (\<lambda>l2. Ok (buf, lastScannedItem, l2)))"
  by pat_completeness auto

termination scan_special_loop
  by (relation "measure (\<lambda>(l, _, _). lex_left l)") (auto dest: Lexer_Read_left[OF sym])

definition ScanSpecialSymbol :: "Lexer \<Rightarrow> ((Token \<times> string) \<times> Lexer, error) res" where
  "ScanSpecialSymbol self =
     and_then (scan_special_loop self [] ScannedItem_default) (\<lambda>(s, lastScannedItem, l).
     if si_tok lastScannedItem = ErrorToken
     then Ok ((ErrorToken, ''error expected: keyword found '' @ [CHR 0x27] @ s @ [CHR 0x27]), l)
     else Ok ((si_tok lastScannedItem, si_literal lastScannedItem), l))"

function SkipWhiteSpaces :: "Lexer \<Rightarrow> char \<Rightarrow> char \<times> Lexer" where
  "SkipWhiteSpaces l ch =
     (if \<not> IsWhitespace ch then (ch, l) else (case Lexer_Read l of (ch1, l1) \<Rightarrow> SkipWhiteSpaces l1 ch1))"
  by pat_completeness auto

termination SkipWhiteSpaces
  by (relation "measure (\<lambda>(l, ch). lex_left l + (if IsWhitespace ch then 1 else 0))")
    (auto simp: Lexer_Read_def lex_left_def IsWhitespace_def split: if_splits)

definition Lex :: "Lexer \<Rightarrow> ((Token \<times> string) \<times> Lexer, error) res" where
  "Lex self =
     (case Lexer_Read self of (ch0, l0) \<Rightarrow>
      case SkipWhiteSpaces l0 ch0 of (ch, l1) \<Rightarrow>
        if ch = NUL then Ok ((EndOfStringToken, ''''), l1)
        else if IsSpecialSymbol ch then and_then (Lexer_Unread l1) ScanSpecialSymbol
        else and_then (Lexer_Unread l1) ScanIDOrKeyword)"

declare scan_id_loop.simps [simp del] scan_special_loop.simps [simp del] SkipWhiteSpaces.simps [simp del]

section \<open>The lexer on the unread text\<close>

definition lex_rest :: "Lexer \<Rightarrow> string" where
  "lex_rest l = drop (lx_pos l) (lx_s l)"

definition adv :: "nat \<Rightarrow> Lexer \<Rightarrow> Lexer" where
  "adv n l = l\<lparr>lx_pos := lx_pos l + n\<rparr>"

definition ident_char :: "char \<Rightarrow> bool" where
  "ident_char c \<longleftrightarrow> \<not> IsSpecialSymbol c \<and> \<not> IsWhitespace c \<and> c \<noteq> NUL"

definition skip_nul :: "string \<Rightarrow> string" where
  "skip_nul s = (case s of c # t \<Rightarrow> if c = NUL then t else s | [] \<Rightarrow> [])"

lemma lex_left_rest: "lex_left l = length (lex_rest l)"
  by (simp add: lex_left_def lex_rest_def)

lemma lex_rest_adv [simp]: "lex_rest (adv n l) = drop n (lex_rest l)"
  by (simp add: adv_def lex_rest_def add.commute)

lemma adv_adv [simp]: "adv m (adv n l) = adv (n + m) l"
  by (simp add: adv_def)

lemma adv_0 [simp]: "adv 0 l = l"
  by (simp add: adv_def)

lemma Lexer_Read_Nil: "lex_rest l = [] \<Longrightarrow> Lexer_Read l = (NUL, l)"
  by (simp add: lex_rest_def Lexer_Read_def)

lemma Lexer_Read_Cons: "lex_rest l = c # t \<Longrightarrow> Lexer_Read l = (c, adv 1 l)"
proof -
  assume h: "lex_rest l = c # t"
  then have "lx_pos l < length (lx_s l)" by (cases "lx_pos l < length (lx_s l)") (auto simp: lex_rest_def)
  moreover have "lx_s l ! lx_pos l = c" using h by (simp add: lex_rest_def nth_via_drop)
  ultimately show ?thesis by (simp add: Lexer_Read_def adv_def)
qed

lemma Lexer_Unread_adv [simp]: "Lexer_Unread (adv (Suc n) l) = Ok (adv n l)"
  by (simp add: Lexer_Unread_def u64_sub_def adv_def)

lemmas lexer_read = Lexer_Read_Nil Lexer_Read_Cons

text \<open>A word ends before a symbol or a blank, or at a NUL, which it swallows.\<close>

lemma scan_id_loop_eq:
  "\<exists>n. scan_id_loop l buf = Ok (buf @ takeWhile ident_char (lex_rest l), adv n l) \<and>
     drop n (lex_rest l) = skip_nul (dropWhile ident_char (lex_rest l))"
proof (induction "lex_rest l" arbitrary: l buf)
  case Nil
  then show ?case
    by (auto simp: scan_id_loop.simps[of l] Lexer_Read_Nil skip_nul_def intro!: exI[of _ 0])
next
  case (Cons c t)
  note r = Cons.hyps(2)[symmetric]
  note unf = scan_id_loop.simps[of l buf] Lexer_Read_Cons[OF r]
  consider "c = NUL" | "c \<noteq> NUL" "IsSpecialSymbol c \<or> IsWhitespace c" | "ident_char c"
    by (auto simp: ident_char_def)
  then show ?case
  proof cases
    case 1
    then show ?thesis by (auto simp: unf r skip_nul_def ident_char_def intro!: exI[of _ 1])
  next
    case 2
    then have "Lexer_Unread (adv 1 l) = Ok l" using Lexer_Unread_adv[of 0 l] by simp
    then show ?thesis using 2 by (auto simp: unf r skip_nul_def ident_char_def intro!: exI[of _ 0])
  next
    case 3
    have "t = lex_rest (adv 1 l)" by (simp add: r)
    from Cons.hyps(1)[OF this, of "buf @ [c]"] obtain n where
      "scan_id_loop (adv 1 l) (buf @ [c]) = Ok (buf @ [c] @ takeWhile ident_char t, adv n (adv 1 l))"
      "drop n t = skip_nul (dropWhile ident_char t)"
      by (auto simp: r)
    then show ?thesis using 3 by (auto simp: unf r ident_char_def intro!: exI[of _ "Suc n"])
  qed
qed

lemma SkipWhiteSpaces_eq:
  "SkipWhiteSpaces l c = (case dropWhile IsWhitespace (c # lex_rest l) of
       [] \<Rightarrow> (NUL, adv (length (lex_rest l)) l)
     | d # t \<Rightarrow> (d, adv (length (lex_rest l) - length t) l))"
proof (induction "lex_rest l" arbitrary: l c)
  case Nil
  have "\<not> IsWhitespace NUL" by (simp add: IsWhitespace_def)
  then show ?case
    using Nil by (simp add: SkipWhiteSpaces.simps[of l c] Lexer_Read_Nil SkipWhiteSpaces.simps[of l NUL])
next
  case (Cons d t)
  have r: "lex_rest l = d # t" using Cons.hyps(2) by simp
  then have r2: "lex_rest (adv 1 l) = t" by simp
  have tl: "length v \<le> length t" if "dropWhile IsWhitespace t = w # v" for w v
    using that by (metis Suc_leD length_Cons length_dropWhile_le)
  have ih: "SkipWhiteSpaces (adv 1 l) d = (case dropWhile IsWhitespace (d # t) of
       [] \<Rightarrow> (NUL, adv (length t) (adv 1 l)) | e # v \<Rightarrow> (e, adv (length t - length v) (adv 1 l)))"
    using Cons.hyps(1)[OF r2[symmetric], of d] unfolding r2 .
  have step: "SkipWhiteSpaces l c = (if \<not> IsWhitespace c then (c, l) else SkipWhiteSpaces (adv 1 l) d)"
    by (simp only: SkipWhiteSpaces.simps[of l c] Lexer_Read_Cons[OF r] prod.case)
  show ?case unfolding step ih using tl
    by (cases "dropWhile IsWhitespace t") (auto simp: r Suc_diff_le simp del: dropWhile_eq_Nil_conv)
qed

lemma special_not_nul: "IsSpecialSymbol c \<Longrightarrow> c \<noteq> NUL"
  by (auto simp: IsSpecialSymbol_def)

lemma special_single: "IsSpecialSymbol c \<Longrightarrow> \<exists>tk. map_of STRING2TOKEN [c] = Some tk \<and> tk \<notin> {ErrorToken, EndOfStringToken}"
  by (auto simp: IsSpecialSymbol_def STRING2TOKEN_def)

text \<open>Once a symbol is recognised, the scan ends at anything that does not extend it.\<close>

lemma scan_special_stop:
  assumes "si_tok last' \<noteq> ErrorToken"
    and "\<And>c t. lex_rest l = c # t \<Longrightarrow> IsSpecialSymbol c \<Longrightarrow> map_of STRING2TOKEN (buf @ [c]) = None"
  shows "\<exists>b n. scan_special_loop l buf last' = Ok (b, last', adv n l) \<and> drop n (lex_rest l) = skip_nul (lex_rest l)"
proof (cases "lex_rest l")
  case Nil
  then show ?thesis
    by (auto simp: scan_special_loop.simps[of l] Lexer_Read_Nil skip_nul_def intro!: exI[of _ 0])
next
  case (Cons c t)
  have un: "Lexer_Unread (adv 1 l) = Ok (adv 0 l)" using Lexer_Unread_adv[of 0 l] by simp
  show ?thesis
  proof (cases "c = NUL")
    case True
    then show ?thesis
      by (auto simp: scan_special_loop.simps[of l] Lexer_Read_Cons[OF Cons] Cons skip_nul_def intro!: exI[of _ 1])
  next
    case False
    then show ?thesis using assms(1) assms(2)[OF Cons] un
      by (auto simp: scan_special_loop.simps[of l] Lexer_Read_Cons[OF Cons] Cons skip_nul_def intro!: exI[of _ 0])
  qed
qed

definition sym_len :: "string \<Rightarrow> nat" where
  "sym_len s = (if take 2 s = ''=='' \<or> take 2 s = ''!='' then 2 else 1)"

lemma two_symbols:
  "IsSpecialSymbol c \<Longrightarrow> IsSpecialSymbol d \<Longrightarrow>
   map_of STRING2TOKEN [c, d] = (if [c, d] = ''=='' then Some DoubleEqualsToken
     else if [c, d] = ''!='' then Some NotEqualsToken else None)"
  by (auto simp: IsSpecialSymbol_def STRING2TOKEN_def)

lemma three_symbols: "IsSpecialSymbol c \<Longrightarrow> map_of STRING2TOKEN [c, d, e] = None"
  by (auto simp: STRING2TOKEN_def IsSpecialSymbol_def)

lemma ScanSpecialSymbol_eq:
  assumes r: "lex_rest l = c # t" and c: "IsSpecialSymbol c"
  shows "\<exists>n tk. ScanSpecialSymbol l = Ok ((tk, take (sym_len (c # t)) (c # t)), adv n l) \<and>
     map_of STRING2TOKEN (take (sym_len (c # t)) (c # t)) = Some tk \<and> tk \<notin> {ErrorToken, EndOfStringToken} \<and>
     drop n (c # t) = skip_nul (drop (sym_len (c # t)) (c # t))"
proof -
  obtain tk where tk: "map_of STRING2TOKEN [c] = Some tk" "tk \<notin> {ErrorToken, EndOfStringToken}"
    using special_single[OF c] by blast
  have r1: "lex_rest (adv 1 l) = t" using r by simp
  have one: "scan_special_loop l [] ScannedItem_default
      = scan_special_loop (adv 1 l) [c] \<lparr>si_tok = tk, si_literal = [c]\<rparr>"
    using c tk special_not_nul[OF c] by (simp add: scan_special_loop.simps[of l] Lexer_Read_Cons[OF r])
  show ?thesis
  proof (cases "sym_len (c # t) = 2")
    case False
    then have k: "sym_len (c # t) = 1" by (simp add: sym_len_def split: if_splits)
    have nx: "map_of STRING2TOKEN ([c] @ [d]) = None" if "lex_rest (adv 1 l) = d # u" "IsSpecialSymbol d" for d u
    proof -
      have "t = d # u" using that(1) unfolding r1 .
      then show ?thesis using two_symbols[OF c that(2)] False by (auto simp: sym_len_def split: if_splits)
    qed
    have "\<exists>b n. scan_special_loop (adv 1 l) [c] \<lparr>si_tok = tk, si_literal = [c]\<rparr>
         = Ok (b, \<lparr>si_tok = tk, si_literal = [c]\<rparr>, adv n (adv 1 l)) \<and>
         drop n (lex_rest (adv 1 l)) = skip_nul (lex_rest (adv 1 l))"
      by (rule scan_special_stop) (use tk(2) in simp, rule nx)
    then obtain b n where
      "scan_special_loop (adv 1 l) [c] \<lparr>si_tok = tk, si_literal = [c]\<rparr>
         = Ok (b, \<lparr>si_tok = tk, si_literal = [c]\<rparr>, adv n (adv 1 l))" "drop n t = skip_nul t"
      unfolding r1 by blast
    then show ?thesis using tk k one by (auto simp: ScanSpecialSymbol_def intro!: exI[of _ "Suc n"])
  next
    case True
    then obtain d u where d: "t = d # u" "[c, d] = ''=='' \<or> [c, d] = ''!=''" "IsSpecialSymbol d"
      by (cases t) (auto simp: sym_len_def IsSpecialSymbol_def split: if_splits)
    then obtain tk2 where tk2: "map_of STRING2TOKEN [c, d] = Some tk2" "tk2 \<notin> {ErrorToken, EndOfStringToken}"
      using two_symbols[OF c d(3)] by (auto split: if_splits)
    have r1': "lex_rest (adv 1 l) = d # u" using r1 d(1) by simp
    have r2: "lex_rest (adv 2 l) = u" using r d(1) by simp
    have "scan_special_loop (adv 1 l) [c] \<lparr>si_tok = tk, si_literal = [c]\<rparr>
        = scan_special_loop (adv 1 (adv 1 l)) [c, d] \<lparr>si_tok = tk2, si_literal = [c, d]\<rparr>"
      using d(3) tk2 special_not_nul[OF d(3)]
      by (simp only: scan_special_loop.simps[of "adv 1 l"] Lexer_Read_Cons[OF r1']) simp
    then have two: "scan_special_loop (adv 1 l) [c] \<lparr>si_tok = tk, si_literal = [c]\<rparr>
        = scan_special_loop (adv 2 l) [c, d] \<lparr>si_tok = tk2, si_literal = [c, d]\<rparr>" by (simp add: numeral_2_eq_2)
    have "map_of STRING2TOKEN ([c, d] @ [e]) = None" for e using three_symbols[OF c] by simp
    then have "\<exists>b n. scan_special_loop (adv 2 l) [c, d] \<lparr>si_tok = tk2, si_literal = [c, d]\<rparr>
         = Ok (b, \<lparr>si_tok = tk2, si_literal = [c, d]\<rparr>, adv n (adv 2 l)) \<and>
         drop n (lex_rest (adv 2 l)) = skip_nul (lex_rest (adv 2 l))"
      by (intro scan_special_stop) (use tk2(2) in simp)
    then obtain b n where
      "scan_special_loop (adv 2 l) [c, d] \<lparr>si_tok = tk2, si_literal = [c, d]\<rparr>
         = Ok (b, \<lparr>si_tok = tk2, si_literal = [c, d]\<rparr>, adv n (adv 2 l))" "drop n u = skip_nul u"
      unfolding r2 by blast
    then show ?thesis using tk2 True one two
      by (auto simp: ScanSpecialSymbol_def d(1) numeral_2_eq_2 intro!: exI[of _ "Suc (Suc n)"])
  qed
qed

text \<open>What one call of \<open>Lex\<close> does to the unread text.\<close>

definition word_token :: "string \<Rightarrow> Token" where
  "word_token w = (case map_of STRING2TOKEN w of Some tk \<Rightarrow> tk | None \<Rightarrow> IdentifierToken)"

definition lex_str :: "string \<Rightarrow> (Token \<times> string) \<times> string" where
  "lex_str s =
     (case dropWhile IsWhitespace s of
        [] \<Rightarrow> ((EndOfStringToken, ''''), [])
      | c # t \<Rightarrow>
          if c = NUL then ((EndOfStringToken, ''''), t)
          else if IsSpecialSymbol c then
            (let k = sym_len (c # t) in
             ((word_token (take k (c # t)), take k (c # t)), skip_nul (drop k (c # t))))
          else ((word_token (takeWhile ident_char (c # t)), takeWhile ident_char (c # t)),
             skip_nul (dropWhile ident_char (c # t))))"

lemma ScanIDOrKeyword_eq:
  "\<exists>n. ScanIDOrKeyword l = Ok ((word_token (takeWhile ident_char (lex_rest l)), takeWhile ident_char (lex_rest l)), adv n l) \<and>
     drop n (lex_rest l) = skip_nul (dropWhile ident_char (lex_rest l))"
  using scan_id_loop_eq[of l "[]"]
  by (auto simp: ScanIDOrKeyword_def word_token_def split: option.splits)

lemma drop_to_suffix: "length t \<le> length s \<Longrightarrow> \<exists>p. s = p @ t \<Longrightarrow> drop (length s - length t) s = t"
  by auto

lemma dropWhile_suffix: "\<exists>p. s = p @ dropWhile P s"
  by (metis takeWhile_dropWhile_id)

text \<open>The state before the character that \<open>SkipWhiteSpaces\<close> returned.\<close>

lemma Lex_skip:
  assumes "dropWhile IsWhitespace (lex_rest l) = d # t"
  shows "\<exists>n. (case Lexer_Read l of (c, l0) \<Rightarrow> SkipWhiteSpaces l0 c) = (d, adv (Suc n) l) \<and> lex_rest (adv n l) = d # t"
proof -
  obtain c u where r: "lex_rest l = c # u" using assms by (cases "lex_rest l") auto
  have r1: "lex_rest (adv 1 l) = u" using r by simp
  let ?n = "length u - length t"
  obtain p where p: "c # u = p @ d # t" using assms r by (metis dropWhile_suffix)
  then have lp: "length p = ?n" by (metis add_diff_cancel_right' add_Suc_right length_Cons length_append nat.inject)
  have "(case Lexer_Read l of (c, l0) \<Rightarrow> SkipWhiteSpaces l0 c) = (d, adv ?n (adv 1 l))"
    using assms unfolding Lexer_Read_Cons[OF r] prod.case SkipWhiteSpaces_eq r1 r by simp
  moreover have "lex_rest (adv ?n l) = d # t" using p lp r by simp
  ultimately show ?thesis by (intro exI[of _ ?n]) simp
qed

lemma Lex_end:
  assumes "dropWhile IsWhitespace (lex_rest l) = []"
  shows "\<exists>n. (case Lexer_Read l of (c, l0) \<Rightarrow> SkipWhiteSpaces l0 c) = (NUL, adv n l) \<and> lex_rest (adv n l) = []"
proof (cases "lex_rest l")
  case Nil
  then show ?thesis
    by (auto simp: Lexer_Read_Nil SkipWhiteSpaces_eq IsWhitespace_def intro!: exI[of _ 0])
next
  case (Cons c u)
  have r1: "lex_rest (adv 1 l) = u" using Cons by simp
  show ?thesis
    using assms unfolding Lexer_Read_Cons[OF Cons] prod.case SkipWhiteSpaces_eq r1 Cons
    by (intro exI[of _ "Suc (length u)"]) (simp add: Cons)
qed

lemma Lex_eq: "\<exists>l'. Lex l = Ok (fst (lex_str (lex_rest l)), l') \<and> lex_rest l' = snd (lex_str (lex_rest l))"
proof (cases "dropWhile IsWhitespace (lex_rest l)")
  case Nil
  from Lex_end[OF this] obtain n where
    n: "(case Lexer_Read l of (c, l0) \<Rightarrow> SkipWhiteSpaces l0 c) = (NUL, adv n l)" "lex_rest (adv n l) = []"
    by blast
  have "Lex l = Ok ((EndOfStringToken, ''''), adv n l)"
    using n(1) by (simp add: Lex_def case_prod_unfold)
  moreover have "lex_str (lex_rest l) = ((EndOfStringToken, ''''), [])" unfolding lex_str_def Nil by simp
  ultimately show ?thesis using n(2) by simp
next
  case (Cons d t)
  from Lex_skip[OF Cons] obtain n where
    n: "(case Lexer_Read l of (c, l0) \<Rightarrow> SkipWhiteSpaces l0 c) = (d, adv (Suc n) l)"
      "lex_rest (adv n l) = d # t"
    by blast
  have lex: "Lex l = (if d = NUL then Ok ((EndOfStringToken, ''''), adv (Suc n) l)
        else if IsSpecialSymbol d then ScanSpecialSymbol (adv n l) else ScanIDOrKeyword (adv n l))"
    using n(1) by (simp add: Lex_def case_prod_unfold)
  have after: "lex_rest (adv (Suc n) l) = t"
    using n(2) lex_rest_adv[of 1 "adv n l"] by (simp del: lex_rest_adv)
  have sub: "drop m (d # t) = lex_rest (adv m (adv n l))" for m
    using n(2) lex_rest_adv[of m "adv n l"] by (simp del: lex_rest_adv)
  show ?thesis
  proof (cases "d = NUL")
    case True
    then show ?thesis using lex after Cons by (simp add: lex_str_def)
  next
    case False
    show ?thesis
    proof (cases "IsSpecialSymbol d")
      case True
      from ScanSpecialSymbol_eq[OF n(2) True] show ?thesis
        using False True lex Cons sub by (auto simp: lex_str_def Let_def word_token_def simp del: lex_rest_adv adv_adv)
    next
      case noSpec: False
      from ScanIDOrKeyword_eq[of "adv n l"] show ?thesis
        unfolding n(2) using False noSpec lex Cons sub by (auto simp: lex_str_def simp del: lex_rest_adv adv_adv)
    qed
  qed
qed

lemma skip_nul_length: "length (skip_nul s) \<le> length s"
  by (auto simp: skip_nul_def split: list.splits)

lemma lex_str_progress: "fst (fst (lex_str s)) \<noteq> EndOfStringToken \<Longrightarrow> length (snd (lex_str s)) < length s"
proof -
  assume h: "fst (fst (lex_str s)) \<noteq> EndOfStringToken"
  then obtain c t where ct: "dropWhile IsWhitespace s = c # t" by (cases "dropWhile IsWhitespace s") (auto simp: lex_str_def)
  then have len: "Suc (length t) \<le> length s" by (metis length_Cons length_dropWhile_le)
  have "\<not> IsWhitespace c" using ct by (metis hd_dropWhile list.discI list.sel(1))
  then have id: "c \<noteq> NUL \<Longrightarrow> \<not> IsSpecialSymbol c \<Longrightarrow> ident_char c" by (simp add: ident_char_def)
  have "length (skip_nul (dropWhile ident_char t)) \<le> length t"
    using skip_nul_length[of "dropWhile ident_char t"] length_dropWhile_le[of ident_char t] by simp
  moreover have "length (skip_nul (drop (sym_len (c # t)) (c # t))) \<le> length t"
    using skip_nul_length[of "drop (sym_len (c # t)) (c # t)"] by (auto simp: sym_len_def)
  ultimately show ?thesis using h ct len id by (auto simp: lex_str_def Let_def split: if_splits)
qed

lemma Lex_left: "Lex l = Ok ((tk, s), l') \<Longrightarrow> tk \<noteq> EndOfStringToken \<Longrightarrow> lex_left l' < lex_left l"
  using Lex_eq[of l] lex_str_progress[of "lex_rest l"] by (auto simp: lex_left_rest dest!: arg_cong[where f = fst and x = "(tk, s)"])

section \<open>Parser\<close>

datatype ParserContext = KeyAndOperator | Values

record Parser =
  ps_l :: Lexer
  scanItems :: "ScannedItem list"
  position :: nat

definition in_context :: "ParserContext \<Rightarrow> ScannedItem \<Rightarrow> Token \<times> string" where
  "in_context ctx it =
     (if ctx = Values \<and> (si_tok it = InToken \<or> si_tok it = NotInToken) then IdentifierToken else si_tok it,
      si_literal it)"

definition Lookahead :: "Parser \<Rightarrow> ParserContext \<Rightarrow> (Token \<times> string, error) res" where
  "Lookahead self ctx =
     (if position self < length (scanItems self) then Ok (in_context ctx (scanItems self ! position self)) else Panic)"

definition Consume :: "Parser \<Rightarrow> ParserContext \<Rightarrow> ((Token \<times> string) \<times> Parser, error) res" where
  "Consume self ctx =
     (let self1 = self\<lparr>position := position self + 1\<rparr> in
      if position self1 - 1 < length (scanItems self1)
      then Ok (in_context ctx (scanItems self1 ! (position self1 - 1)), self1) else Panic)"

function scan_loop :: "Lexer \<Rightarrow> ScannedItem list \<Rightarrow> (Lexer \<times> ScannedItem list, error) res" where
  "scan_loop l items =
     and_then (Lex l) (\<lambda>r. case r of ((token, lit), l1) \<Rightarrow>
       let items1 = items @ [\<lparr>si_tok = token, si_literal = lit\<rparr>] in
       if token = EndOfStringToken then Ok (l1, items1) else scan_loop l1 items1)"
  by pat_completeness auto

termination scan_loop
  by (relation "measure (\<lambda>(l, _). lex_left l)") (auto dest: Lex_left)

definition Scan :: "Parser \<Rightarrow> (Parser, error) res" where
  "Scan self = and_then (scan_loop (ps_l self) (scanItems self)) (\<lambda>(l, items).
     Ok (self\<lparr>ps_l := l, scanItems := items\<rparr>))"

definition quoted :: "string \<Rightarrow> string" where
  "quoted s = [CHR 0x27] @ s @ [CHR 0x27]"

definition ParseKeyAndInferOperator ::
  "(string \<Rightarrow> string \<Rightarrow> bool) \<Rightarrow> Parser \<Rightarrow> ((string \<times> SelectionOp) \<times> Parser, error) res" where
  "ParseKeyAndInferOperator re self =
     and_then (Consume self Values) (\<lambda>((tok0, lit0), p0).
     and_then (if tok0 = DoesNotExistToken
               then and_then (Consume p0 Values) (\<lambda>((tt, tl), p1). Ok (DoesNotExist, tt, tl, p1))
               else Ok (OpNone, tok0, lit0, p0)) (\<lambda>(operator, tok, lit, p).
     if tok \<noteq> IdentifierToken then Err (CommonError (''found '' @ quoted lit @ '', expected: identifier''))
     else and_then (ValidateLabelKey re lit) (\<lambda>_.
       and_then (Lookahead p Values) (\<lambda>(t, _).
       let operator = (if (t = EndOfStringToken \<or> t = CommaToken) \<and> operator \<noteq> DoesNotExist then Exists else operator)
       in Ok ((lit, operator), p)))))"

definition ParseOperator :: "Parser \<Rightarrow> (SelectionOp \<times> Parser, error) res" where
  "ParseOperator self =
     and_then (Consume self KeyAndOperator) (\<lambda>((tok, lit), p).
     case tok of
       InToken \<Rightarrow> Ok (OpIn, p)
     | EqualsToken \<Rightarrow> Ok (Equals, p)
     | DoubleEqualsToken \<Rightarrow> Ok (DoubleEquals, p)
     | GreaterThanToken \<Rightarrow> Ok (GreaterThan, p)
     | LessThanToken \<Rightarrow> Ok (LessThan, p)
     | NotInToken \<Rightarrow> Ok (NotIn, p)
     | NotEqualsToken \<Rightarrow> Ok (NotEquals, p)
     | _ \<Rightarrow> Err (CommonError (''found '' @ quoted lit @ '', expected: In, NotIn ...'')))"

definition hs_insert :: "'a \<Rightarrow> 'a list \<Rightarrow> 'a list" where
  "hs_insert x s = (if x \<in> set s then s else s @ [x])"

definition parser_left :: "Parser \<Rightarrow> nat" where
  "parser_left p = length (scanItems p) - position p"

lemma Consume_Ok:
  "Consume p ctx = Ok (x, p') \<Longrightarrow>
     position p < length (scanItems p) \<and> x = in_context ctx (scanItems p ! position p) \<and>
     p' = p\<lparr>position := position p + 1\<rparr>"
  by (auto simp: Consume_def Let_def split: if_splits)

lemma Consume_left: "Consume p ctx = Ok (x, p') \<Longrightarrow> parser_left p' < parser_left p"
  by (drule Consume_Ok) (auto simp: parser_left_def)

function parse_ids_loop :: "Parser \<Rightarrow> string list \<Rightarrow> (string list \<times> Parser, error) res" where
  "parse_ids_loop self s =
     and_then (Consume self Values) (\<lambda>r. case r of ((tok, lit), p) \<Rightarrow>
       if tok = IdentifierToken then
         (let s1 = hs_insert lit s in
          and_then (Lookahead p Values) (\<lambda>r2. case r2 of (tok2, lit2) \<Rightarrow>
            if tok2 = CommaToken then parse_ids_loop p s1
            else if tok2 = ClosedParToken then Ok (s1, p)
            else Err (CommonError (''found '' @ quoted lit2 @ '', expected: ',' or ')'' @ [CHR 0x27]))))
       else if tok = CommaToken then
         (let s1 = (if length s = 0 then hs_insert '''' s else s) in
          and_then (Lookahead p Values) (\<lambda>r2. case r2 of (tok2, _) \<Rightarrow>
            if tok = ClosedParToken then Ok (hs_insert '''' s1, p)
            else if tok2 = CommaToken then
              and_then (Consume p Values) (\<lambda>r3. case r3 of (_, p1) \<Rightarrow> parse_ids_loop p1 (hs_insert '''' s1))
            else parse_ids_loop p s1))
       else Err (CommonError (''found '' @ quoted lit @ '', expected: ',', or identifier'')))"
  by pat_completeness auto

termination parse_ids_loop
  by (relation "measure (\<lambda>(p, _). parser_left p)") (auto dest!: Consume_left)

declare scan_loop.simps [simp del] parse_ids_loop.simps [simp del]

definition ParseIdentifiersList :: "Parser \<Rightarrow> (string list \<times> Parser, error) res" where
  "ParseIdentifiersList self = parse_ids_loop self []"

definition ParseValues :: "Parser \<Rightarrow> (string list \<times> Parser, error) res" where
  "ParseValues self =
     and_then (Consume self Values) (\<lambda>((tok, lit), p).
     if tok \<noteq> OpenParToken then Err (CommonError (''found '' @ quoted lit @ '' expected: '('' @ [CHR 0x27]))
     else and_then (Lookahead p Values) (\<lambda>(tok, lit).
       if tok = IdentifierToken \<or> tok = CommaToken then
         and_then (ParseIdentifiersList p) (\<lambda>(s, p1).
         and_then (Consume p1 Values) (\<lambda>((tok2, _), p2).
         if tok2 \<noteq> ClosedParToken
         then Err (CommonError (''found '' @ quoted lit @ '', expected: ')'' @ [CHR 0x27]))
         else Ok (s, p2)))
       else if tok = ClosedParToken then and_then (Consume p Values) (\<lambda>(_, p1). Ok ([], p1))
       else Err (CommonError (''found '' @ quoted lit @ '', expected: ',', ')' or identifier''))))"

definition ParseExactValue :: "Parser \<Rightarrow> (string list \<times> Parser, error) res" where
  "ParseExactValue self =
     and_then (Lookahead self Values) (\<lambda>(tok, _).
     if tok = EndOfStringToken \<or> tok = CommaToken then Ok (hs_insert '''' [], self)
     else and_then (Consume self Values) (\<lambda>((tok, lit), p).
       if tok = IdentifierToken then Ok (hs_insert lit [], p)
       else Err (CommonError (''found '' @ quoted lit @ '', expected: identifier''))))"

definition ParseRequirement ::
  "(string \<Rightarrow> string \<Rightarrow> bool) \<Rightarrow> (string list \<Rightarrow> string list) \<Rightarrow> Parser \<Rightarrow> (Requirement \<times> Parser, error) res" where
  "ParseRequirement re ho self =
     and_then (ParseKeyAndInferOperator re self) (\<lambda>((key, operator), p).
     if operator = Exists \<or> operator = DoesNotExist
     then and_then (Requirement_New re key operator []) (\<lambda>r. Ok (r, p))
     else and_then (ParseOperator p) (\<lambda>(operator, p1).
       and_then (if operator \<in> {OpIn, NotIn} then ParseValues p1
                 else if operator \<in> {Equals, DoubleEquals, NotEquals, GreaterThan, LessThan} then ParseExactValue p1
                 else Ok ([], p1)) (\<lambda>(values, p2).
       and_then (Requirement_New re key operator (ho values)) (\<lambda>r. Ok (r, p2)))))"

text \<open>What each parsing step leaves: the items unchanged, the position not before where it was.\<close>

definition moves :: "Parser \<Rightarrow> Parser \<Rightarrow> bool" where
  "moves p q \<longleftrightarrow> scanItems q = scanItems p \<and> position p \<le> position q"

lemma Consume_moves: "Consume p ctx = Ok (x, q) \<Longrightarrow> moves p q \<and> position p < position q"
  by (drule Consume_Ok) (auto simp: moves_def)

lemma moves_refl [simp]: "moves p p"
  by (simp add: moves_def)

lemma moves_trans: "moves p q \<Longrightarrow> moves q r \<Longrightarrow> moves p r"
  by (simp add: moves_def)

lemma ParseKey_moves:
  "ParseKeyAndInferOperator re p = Ok (x, q) \<Longrightarrow> moves p q \<and> position p < position q"
  by (auto simp: ParseKeyAndInferOperator_def res_simps case_prod_unfold Let_def split: if_splits
      dest!: Consume_moves simp: moves_def)

lemma ParseOperator_moves: "ParseOperator p = Ok (x, q) \<Longrightarrow> moves p q \<and> position p < position q"
proof -
  assume h: "ParseOperator p = Ok (x, q)"
  then obtain tok lit p1 where c: "Consume p KeyAndOperator = Ok ((tok, lit), p1)"
    by (auto simp: ParseOperator_def res_simps)
  then have "q = p1" using h by (cases tok) (auto simp: ParseOperator_def)
  then show ?thesis using Consume_moves[OF c] by simp
qed

lemma parse_ids_loop_Ok:
  assumes "parse_ids_loop p s = Ok (x, q)"
  shows "\<exists>y p1. Consume p Values = Ok (y, p1) \<and> (q = p1 \<or> (\<exists>s'. parse_ids_loop p1 s' = Ok (x, q)) \<or>
     (\<exists>z p2 s'. Consume p1 Values = Ok (z, p2) \<and> parse_ids_loop p2 s' = Ok (x, q)))"
proof -
  from assms obtain tok lit p1 where c: "Consume p Values = Ok ((tok, lit), p1)"
    by (auto simp: parse_ids_loop.simps[of p] res_simps)
  have "q = p1 \<or> (\<exists>s'. parse_ids_loop p1 s' = Ok (x, q)) \<or>
     (\<exists>z p2 s'. Consume p1 Values = Ok (z, p2) \<and> parse_ids_loop p2 s' = Ok (x, q))"
    using assms by (auto simp: parse_ids_loop.simps[of p] c res_simps Let_def split: if_splits)
  then show ?thesis using c by blast
qed

lemma parse_ids_loop_moves: "parse_ids_loop p s = Ok (x, q) \<Longrightarrow> moves p q"
proof (induction "parser_left p" arbitrary: p s rule: less_induct)
  case less
  from parse_ids_loop_Ok[OF less.prems] obtain y p1 where c: "Consume p Values = Ok (y, p1)"
    and o: "q = p1 \<or> (\<exists>s'. parse_ids_loop p1 s' = Ok (x, q)) \<or>
       (\<exists>z p2 s'. Consume p1 Values = Ok (z, p2) \<and> parse_ids_loop p2 s' = Ok (x, q))"
    by blast
  have m: "moves p p1" "parser_left p1 < parser_left p" using Consume_moves[OF c] Consume_left[OF c] by auto
  from o show ?case
  proof (elim disjE exE conjE)
    fix s' assume "parse_ids_loop p1 s' = Ok (x, q)"
    then show ?thesis using less.hyps[OF m(2)] m(1) moves_trans by blast
  next
    fix z p2 s' assume d: "Consume p1 Values = Ok (z, p2)" and r: "parse_ids_loop p2 s' = Ok (x, q)"
    have "parser_left p2 < parser_left p" using Consume_left[OF d] m(2) by simp
    then show ?thesis using less.hyps r m(1) Consume_moves[OF d] moves_trans by blast
  qed (use m in simp)
qed

lemma ParseValues_moves: "ParseValues p = Ok (x, q) \<Longrightarrow> moves p q"
  by (auto simp: ParseValues_def ParseIdentifiersList_def res_simps case_prod_unfold split: if_splits
      dest!: Consume_moves parse_ids_loop_moves intro: moves_trans)

lemma ParseExactValue_moves: "ParseExactValue p = Ok (x, q) \<Longrightarrow> moves p q"
  by (auto simp: ParseExactValue_def res_simps case_prod_unfold split: if_splits dest!: Consume_moves)

lemma ParseRequirement_moves:
  assumes "ParseRequirement re ho p = Ok (x, q)"
  shows "moves p q \<and> position p < position q"
proof -
  from assms obtain key op0 p1 where k: "ParseKeyAndInferOperator re p = Ok ((key, op0), p1)"
    by (auto simp: ParseRequirement_def res_simps)
  have "moves p1 q"
    using assms
    by (auto simp: ParseRequirement_def k res_simps split: if_splits dest!: ParseOperator_moves
        dest: ParseValues_moves ParseExactValue_moves intro: moves_trans)
  then show ?thesis using ParseKey_moves[OF k] by (auto simp: moves_def)
qed

lemma ParseRequirement_left:
  assumes "ParseRequirement re ho p = Ok (x, q)" "Consume q ctx = Ok (y, r)"
  shows "parser_left r < parser_left p"
  using ParseRequirement_moves[OF assms(1)] Consume_Ok[OF assms(2)] by (auto simp: moves_def parser_left_def)

function parse_loop ::
  "(string \<Rightarrow> string \<Rightarrow> bool) \<Rightarrow> (string list \<Rightarrow> string list) \<Rightarrow> Parser \<Rightarrow> Selector \<Rightarrow> (Selector, error) res" where
  "parse_loop re ho self requirements =
     and_then (Lookahead self Values) (\<lambda>h. case h of (tok, lit) \<Rightarrow>
       if tok = IdentifierToken \<or> tok = DoesNotExistToken then
         and_then (ParseRequirement re ho self) (\<lambda>pr. case pr of (r, p) \<Rightarrow>
         let requirements1 = Selector_Add requirements r in
         and_then (Consume p Values) (\<lambda>c. case c of ((t, l), p1) \<Rightarrow>
         if t = EndOfStringToken then Ok requirements1
         else if t = CommaToken then
           and_then (Lookahead p1 Values) (\<lambda>h2. case h2 of (t2, l2) \<Rightarrow>
           if t2 \<noteq> IdentifierToken \<and> t2 \<noteq> DoesNotExistToken
           then Err (CommonError (''found '' @ quoted l2 @ '', expected: identifier after ','' @ [CHR 0x27]))
           else parse_loop re ho p1 requirements1)
         else Err (CommonError (''found '' @ quoted l @ '', expected: ',' or 'end of string'' @ [CHR 0x27]))))
       else if tok = EndOfStringToken then Ok requirements
       else Err (CommonError (''found '' @ quoted lit @ '', expected: !, identifier, or 'end of string'' @ [CHR 0x27])))"
  by pat_completeness auto

termination parse_loop
  by (relation "measure (\<lambda>(_, _, p, _). parser_left p)") (auto dest: ParseRequirement_left)

declare parse_loop.simps [simp del]

definition Parser_Parse ::
  "(string \<Rightarrow> string \<Rightarrow> bool) \<Rightarrow> (string list \<Rightarrow> string list) \<Rightarrow> Parser \<Rightarrow> (Selector, error) res" where
  "Parser_Parse re ho self = and_then (Scan self) (\<lambda>p. parse_loop re ho p [])"

definition Parse ::
  "(string \<Rightarrow> string \<Rightarrow> bool) \<Rightarrow> (string list \<Rightarrow> string list) \<Rightarrow> string \<Rightarrow> (Selector, error) res" where
  "Parse re ho selector =
     and_then (Parser_Parse re ho \<lparr>ps_l = \<lparr>lx_s = selector, lx_pos = 0\<rparr>, scanItems = [], position = 0\<rparr>) (\<lambda>items.
     Ok (Selector_Sort items))"

end
