(* ===== verification/Validation_Laws.thy ===== *)
theory Validation_Laws
  imports Validation
begin

text \<open>
  What the validators accept, for every engine that decides the languages of the source's patterns.
  \<open>source_patterns\<close> pairs each pattern text with its expression; \<open>source_patterns_printed\<close> checks that
  the expression prints as the text.
\<close>

section \<open>The patterns as expressions\<close>

abbreviation az :: item where "az \<equiv> CR CHR ''a'' CHR ''z''"
abbreviation AZ :: item where "AZ \<equiv> CR CHR ''A'' CHR ''Z''"
abbreviation dg :: item where "dg \<equiv> CR CHR ''0'' CHR ''9''"
abbreviation hy :: item where "hy \<equiv> CC CHR ''-''"

definition qname_rx :: rx where
  "qname_rx = Seq (Opt (Seq (Cls [AZ, az, dg]) (Star (Cls [hy, AZ, az, dg, CC CHR ''_'', CC CHR ''.'']))))
     (Cls [AZ, az, dg])"

definition label_rx :: rx where
  "label_rx = Seq (Cls [az, dg]) (Opt (Seq (Star (Cls [hy, az, dg])) (Cls [az, dg])))"

definition subdomain_rx :: rx where
  "subdomain_rx = Seq label_rx (Star (Seq (Lit CHR ''.'') label_rx))"

definition label1035_rx :: rx where
  "label1035_rx = Seq (Cls [az]) (Opt (Seq (Star (Cls [hy, az, dg])) (Cls [az, dg])))"

definition wildcard_rx :: rx where
  "wildcard_rx = Seq (Lit CHR ''*'') (Seq (Lit CHR ''.'') label_rx)"

definition cident_rx :: rx where
  "cident_rx = Seq (Cls [AZ, az, CC CHR ''_'']) (Star (Cls [AZ, az, dg, CC CHR ''_'']))"

definition percent_rx :: rx where
  "percent_rx = Seq (Plus (Cls [dg])) (Lit CHR ''%'')"

definition envvar_rx :: rx where
  "envvar_rx = Seq (Cls [hy, CC CHR ''.'', CC CHR ''_'', az, AZ]) (Star (Cls [hy, CC CHR ''.'', CC CHR ''_'', az, AZ, dg]))"

definition path_items :: "item list" where
  "path_items = [AZ, az, dg, CC CHR ''/'', CE CHR ''-''] @ map CC (''._~%!$&'' @ [CHR 0x27] @ ''()*+,;=:'')"

definition source_patterns :: "(string \<times> rx) list" where
  "source_patterns =
     [(QUALIFIED_NAME_FMT, qname_rx), (HTTP_PATH_FMT, Plus (Cls path_items)), (DNS1123_LABEL_FMT, label_rx),
      (DNS1123_SUBDOMAIN_FMT, subdomain_rx), (DNS1035_LABEL_FMT, label1035_rx),
      (WILDCARD_DNS1123_SUBDOMAIN_FMT, wildcard_rx), (C_IDENTIFIER_FMT, cident_rx), (PERCENT_FMT, percent_rx),
      (HTTP_HEADER_NAME_FMT, Plus (Cls [hy, AZ, az, dg])), (ENV_VAR_NAME_FMT, envvar_rx),
      (CONFIG_MAP_KEY_FMT, envvar_rx), (''[-a-z0-9]+'', Plus (Cls [hy, az, dg]))]"

text \<open>The one pattern that is not anchored is a single class: it is searched for.\<close>

definition regex_ok :: "(string \<Rightarrow> string \<Rightarrow> bool) \<Rightarrow> bool" where
  "regex_ok re \<longleftrightarrow>
     (\<forall>(fmt, r) \<in> set source_patterns. \<forall>s. re (anchored fmt) s = rx_match r s) \<and>
     (\<forall>s. re ''[a-z]'' s = list_ex (cls_has [az]) s)"

lemma source_patterns_printed: "list_all (\<lambda>(fmt, r). pr r = fmt) source_patterns"
  by code_simp

definition rx_engine :: "string \<Rightarrow> string \<Rightarrow> bool" where
  "rx_engine fmt s =
     (case map_of (map (\<lambda>(f, r). (anchored f, r)) source_patterns) fmt of
        Some r \<Rightarrow> rx_match r s
      | None \<Rightarrow> list_ex (cls_has [az]) s)"

lemma rx_engine_patterns:
  "list_all (\<lambda>(f, r). map_of (map (\<lambda>(f, r). (anchored f, r)) source_patterns) (anchored f) = Some r) source_patterns"
  "map_of (map (\<lambda>(f, r). (anchored f, r)) source_patterns) ''[a-z]'' = None"
  by code_simp+

lemma regex_ok_rx_engine: "regex_ok rx_engine"
  unfolding regex_ok_def
proof (intro conjI ballI allI)
  fix x assume "x \<in> set source_patterns"
  then have "case x of (f, r) \<Rightarrow> map_of (map (\<lambda>(f, r). (anchored f, r)) source_patterns) (anchored f) = Some r"
    using rx_engine_patterns(1) by (simp add: list_all_iff)
  then show "case x of (f, r) \<Rightarrow> \<forall>s. rx_engine (anchored f) s = rx_match r s"
    by (auto simp: rx_engine_def)
qed (simp add: rx_engine_def rx_engine_patterns)

lemma regex_ok_use:
  assumes "regex_ok re"
  shows "re (anchored QUALIFIED_NAME_FMT) s \<longleftrightarrow> s \<in> lang qname_rx"
    and "re (anchored DNS1123_LABEL_FMT) s \<longleftrightarrow> s \<in> lang label_rx"
    and "re (anchored DNS1123_SUBDOMAIN_FMT) s \<longleftrightarrow> s \<in> lang subdomain_rx"
    and "re (anchored WILDCARD_DNS1123_SUBDOMAIN_FMT) s \<longleftrightarrow> s \<in> lang wildcard_rx"
  using assms by (simp_all add: regex_ok_def source_patterns_def rx_match_lang)

section \<open>Characters and names\<close>

definition lower_alnum :: "char \<Rightarrow> bool" where
  "lower_alnum c \<longleftrightarrow> (CHR ''a'' \<le> c \<and> c \<le> CHR ''z'') \<or> is_digit c"

definition alnum :: "char \<Rightarrow> bool" where
  "alnum c \<longleftrightarrow> (CHR ''A'' \<le> c \<and> c \<le> CHR ''Z'') \<or> lower_alnum c"

text \<open>A DNS label: lower-case alphanumerics and inner dashes.\<close>

definition dns_label :: "string \<Rightarrow> bool" where
  "dns_label s \<longleftrightarrow> s \<noteq> [] \<and> lower_alnum (hd s) \<and> lower_alnum (last s) \<and>
     list_all (\<lambda>c. lower_alnum c \<or> c = CHR ''-'') s"

text \<open>A name: alphanumerics, with \<open>-\<close>, \<open>_\<close> and \<open>.\<close> allowed inside.\<close>

definition plain_name :: "string \<Rightarrow> bool" where
  "plain_name s \<longleftrightarrow> s \<noteq> [] \<and> alnum (hd s) \<and> alnum (last s) \<and>
     list_all (\<lambda>c. alnum c \<or> c \<in> {CHR ''-'', CHR ''_'', CHR ''.''}) s"

definition dns_subdomain :: "string \<Rightarrow> bool" where
  "dns_subdomain s \<longleftrightarrow> list_all dns_label (split_on CHR ''.'' s)"

lemma cls_has_alnum [simp]:
  "cls_has [az, dg] = lower_alnum"
  "cls_has [AZ, az, dg] = alnum"
  "cls_has [hy, az, dg] = (\<lambda>c. lower_alnum c \<or> c = CHR ''-'')"
  "cls_has [hy, AZ, az, dg, CC CHR ''_'', CC CHR ''.''] = (\<lambda>c. alnum c \<or> c \<in> {CHR ''-'', CHR ''_'', CHR ''.''})"
  by (auto simp: fun_eq_iff cls_has_def lower_alnum_def alnum_def is_digit_def)

lemma list_all_inner:
  "s \<noteq> [] \<Longrightarrow> P (hd s) \<Longrightarrow> tl s \<noteq> [] \<Longrightarrow> P (last s) \<Longrightarrow> list_all P (butlast (tl s)) \<longleftrightarrow> list_all P s"
  by (cases s; cases "tl s" rule: rev_cases) auto

lemma label_rx_lang: "s \<in> lang label_rx \<longleftrightarrow> dns_label s"
proof (cases "tl s = []")
  case True
  then show ?thesis
    by (cases s) (auto simp: label_rx_def lang_Seq_Cls lang_Seq_snoc dns_label_def simp del: lang.simps)
next
  case False
  then show ?thesis
    using list_all_inner[of s "\<lambda>c. lower_alnum c \<or> c = CHR ''-''"]
    by (cases s) (auto simp: label_rx_def lang_Seq_Cls lang_Seq_snoc lang_Star_Cls dns_label_def simp del: lang.simps)
qed

lemma qname_rx_lang: "s \<in> lang qname_rx \<longleftrightarrow> plain_name s"
proof (cases "butlast s = []")
  case True
  then show ?thesis
    by (cases s) (auto simp: qname_rx_def lang_Seq_snoc lang_Seq_Cls plain_name_def simp del: lang.simps split: if_splits)
next
  case False
  then show ?thesis
    using list_all_inner[of s "\<lambda>c. alnum c \<or> c \<in> {CHR ''-'', CHR ''_'', CHR ''.''}"]
    by (cases s) (auto simp: qname_rx_def lang_Seq_snoc lang_Seq_Cls lang_Star_Cls plain_name_def butlast_tl
        simp del: lang.simps split: if_splits)
qed

lemma dns_label_no_dot: "dns_label s \<Longrightarrow> CHR ''.'' \<notin> set s"
  by (auto simp: dns_label_def list_all_iff lower_alnum_def is_digit_def less_eq_char_def)

lemma dotted_concat: "join_with [c] (p # ps) = p @ concat (map ((#) c) ps)"
  by (induction ps arbitrary: p) auto

lemma lang_Lit_Seq: "w \<in> lang (Seq (Lit c) r) \<longleftrightarrow> (\<exists>v. w = c # v \<and> v \<in> lang r)"
  by (auto intro: exI[of _ "[c]"])

lemma subdomain_rx_lang: "s \<in> lang subdomain_rx \<longleftrightarrow> dns_subdomain s"
proof
  assume "s \<in> lang subdomain_rx"
  then obtain u ws where u: "u \<in> lang label_rx" "s = u @ concat ws" "set ws \<subseteq> lang (Seq (Lit CHR ''.'') label_rx)"
    by (auto simp: subdomain_rx_def simp del: lang.simps(4,5)) (auto)
  define vs where "vs = map tl ws"
  have "\<forall>w \<in> set ws. \<exists>v. w = CHR ''.'' # v \<and> v \<in> lang label_rx" using u(3) unfolding lang_Lit_Seq[symmetric] by blast
  then have ws: "ws = map ((#) CHR ''.'') vs" and vs: "\<forall>v \<in> set vs. dns_label v"
    by (auto simp: vs_def label_rx_lang comp_def intro!: map_idI[symmetric])
  have "s = join_with [CHR ''.''] (u # vs)" using u(2) by (simp add: dotted_concat ws)
  moreover have "\<forall>p \<in> set (u # vs). CHR ''.'' \<notin> set p" using vs u(1) dns_label_no_dot by (auto simp: label_rx_lang)
  ultimately have "split_on CHR ''.'' s = u # vs" using split_on_join by blast
  then show "dns_subdomain s" using vs u(1) by (simp add: dns_subdomain_def label_rx_lang list_all_iff)
next
  assume d: "dns_subdomain s"
  obtain u vs where sp: "split_on CHR ''.'' s = u # vs" by (cases "split_on CHR ''.'' s") auto
  have "s = u @ concat (map ((#) CHR ''.'') vs)" using join_split_on[of "CHR ''.''" s] by (simp add: sp dotted_concat)
  moreover have "set (map ((#) CHR ''.'') vs) \<subseteq> lang (Seq (Lit CHR ''.'') label_rx)"
    using d by (auto simp: dns_subdomain_def sp list_all_iff lang_Lit_Seq label_rx_lang simp del: lang.simps)
  moreover have "u \<in> lang label_rx" using d by (simp add: dns_subdomain_def sp label_rx_lang)
  ultimately show "s \<in> lang subdomain_rx"
    unfolding subdomain_rx_def lang.simps(5)[of label_rx] lang.simps(7) by blast
qed

section \<open>What the validators accept\<close>

lemma IsDNS1123Subdomain_iff:
  "regex_ok re \<Longrightarrow> IsDNS1123Subdomain re s = Ok () \<longleftrightarrow> length s \<le> 253 \<and> dns_subdomain s"
  by (auto simp: IsDNS1123Subdomain_def regex_ok_use subdomain_rx_lang DNS1123_SUBDOMAIN_MAX_LENGTH_def)

lemma IsDNS1123Label_iff:
  "regex_ok re \<Longrightarrow> IsDNS1123Label re s = Ok () \<longleftrightarrow> length s \<le> 63 \<and> dns_label s"
  by (auto simp: IsDNS1123Label_def regex_ok_use label_rx_lang QUALIFIED_NAME_MAX_LENGTH_def)

lemma check_name_iff: "regex_ok re \<Longrightarrow> check_name re s = Ok () \<longleftrightarrow> length s \<le> 63 \<and> plain_name s"
  by (auto simp: check_name_def regex_ok_use qname_rx_lang QUALIFIED_NAME_MAX_LENGTH_def plain_name_def)

lemma check_labels_iff: "check_labels re ls = Ok () \<longleftrightarrow> (\<forall>l \<in> set ls. IsDNS1123Label re l = Ok ())"
  by (induction ls) (auto simp: res_simps)

lemma validators_never_panic [simp]:
  "IsDNS1123Subdomain re s \<noteq> Panic" "check_name re s \<noteq> Panic" "IsQualifiedName re s \<noteq> Panic"
  "IsValidLabelValue re s \<noteq> Panic" "IsDNS1123Label re s \<noteq> Panic"
  by (auto simp: IsDNS1123Subdomain_def check_name_def IsQualifiedName_def IsValidLabelValue_def IsDNS1123Label_def
      Let_def res_simps)

definition qualified_name :: "string \<Rightarrow> bool" where
  "qualified_name s \<longleftrightarrow>
     (length s \<le> 63 \<and> plain_name s) \<or>
     (\<exists>prefix name. s = prefix @ ''/'' @ name \<and> length prefix \<le> 253 \<and> dns_subdomain prefix \<and>
        length name \<le> 63 \<and> plain_name name)"

lemma plain_name_no_slash: "plain_name s \<Longrightarrow> no_slash s"
  by (auto simp: plain_name_def list_all_iff alnum_def lower_alnum_def is_digit_def less_eq_char_def)

lemma join_with_chars: "c \<in> set (join_with sep ps) \<Longrightarrow> c \<in> set sep \<or> (\<exists>p \<in> set ps. c \<in> set p)"
  by (induction sep ps rule: join_with.induct) auto

lemma dns_label_no_slash: "dns_label s \<Longrightarrow> no_slash s"
  by (auto simp: dns_label_def list_all_iff lower_alnum_def is_digit_def less_eq_char_def)

lemma dns_subdomain_no_slash:
  assumes "dns_subdomain s"
  shows "no_slash s"
proof
  assume "CHR ''/'' \<in> set s"
  then have "CHR ''/'' \<in> set (join_with [CHR ''.''] (split_on CHR ''.'' s))"
    by (simp only: join_split_on)
  from join_with_chars[OF this] have "\<exists>p \<in> set (split_on CHR ''.'' s). CHR ''/'' \<in> set p" by simp
  then show False using assms dns_label_no_slash unfolding dns_subdomain_def list_all_iff by blast
qed

lemma IsQualifiedName_join:
  "no_slash p \<Longrightarrow> no_slash n \<Longrightarrow> IsQualifiedName re (p @ ''/'' @ n) =
     (if p = [] then Err (CommonError ''Prefix must be non empty'')
      else and_then (IsDNS1123Subdomain re p) (\<lambda>_. check_name re n))"
  by (simp add: IsQualifiedName_def split_on_append_sep split_on_no_sep)

lemma IsQualifiedName_plain: "no_slash n \<Longrightarrow> IsQualifiedName re n = check_name re n"
  by (simp add: IsQualifiedName_def split_on_no_sep)

lemma IsQualifiedName_Ok_shape:
  assumes "IsQualifiedName re s = Ok ()"
  shows "no_slash s \<or> (\<exists>p n. s = p @ ''/'' @ n \<and> no_slash p \<and> no_slash n)"
proof -
  let ?ps = "split_on CHR ''/'' s"
  have s: "s = join_with [CHR ''/''] ?ps" by (simp add: join_split_on)
  have "length ?ps = 1 \<or> length ?ps = 2"
    using assms by (auto simp: IsQualifiedName_def Let_def split: if_splits)
  then consider p where "?ps = [p]" | p n where "?ps = [p, n]"
    by (auto simp: length_Suc_conv numeral_2_eq_2)
  then show ?thesis
  proof cases
    case 1
    then show ?thesis using s split_on_pieces[of p "CHR ''/''" s] by simp
  next
    case 2
    then show ?thesis using s split_on_pieces[of p "CHR ''/''" s] split_on_pieces[of n "CHR ''/''" s] by auto
  qed
qed

text \<open>
  Label keys: for an engine that decides the source's patterns, \<open>IsQualifiedName\<close> accepts exactly
  a name of at most 63 characters, optionally after a DNS subdomain of at most 253 characters and a
  slash; a name is alphanumerics with inner dashes, underscores and dots, a subdomain is DNS labels
  joined by dots.
\<close>

theorem IsQualifiedName_iff:
  assumes "regex_ok re"
  shows "(IsQualifiedName re s = Ok ()) = qualified_name s"
proof
  assume ok: "IsQualifiedName re s = Ok ()"
  show "qualified_name s"
    using IsQualifiedName_Ok_shape[OF ok] ok
    by (fastforce simp: qualified_name_def IsQualifiedName_plain IsQualifiedName_join[simplified] res_simps
        check_name_iff[OF assms] IsDNS1123Subdomain_iff[OF assms] split: if_splits)
next
  have ne: "p \<noteq> []" if "dns_subdomain p" for p
    using that by (cases p) (auto simp: dns_subdomain_def dns_label_def)
  assume "qualified_name s"
  then show "IsQualifiedName re s = Ok ()"
    using assms ne plain_name_no_slash dns_subdomain_no_slash
    by (fastforce simp: qualified_name_def IsQualifiedName_plain IsQualifiedName_join[simplified] res_simps
        check_name_iff IsDNS1123Subdomain_iff)
qed

theorem IsQualifiedName_iff_witness:
  "IsQualifiedName rx_engine ''inferx.net/node-type_1'' = Ok () \<and> \<not> qualified_name ''inferx..net/x''"
proof -
  have "IsQualifiedName rx_engine ''inferx.net/node-type_1'' = Ok ()" by code_simp
  moreover have "IsQualifiedName rx_engine ''inferx..net/x'' \<noteq> Ok ()" by code_simp
  ultimately show ?thesis using IsQualifiedName_iff[OF regex_ok_rx_engine] by blast
qed

lemma split_dns_label_id: "dns_label l \<Longrightarrow> split_on CHR ''.'' l = [l]"
  by (simp add: dns_label_no_dot split_on_no_sep)

text \<open>
  A fully qualified domain name is accepted exactly when, less one trailing dot, it is at least two
  DNS labels of at most 63 characters joined by dots, 253 characters in all.
\<close>

theorem IsFullyQualifiedDomainName_iff:
  assumes "regex_ok re"
  shows "(IsFullyQualifiedDomainName re s = Ok ()) =
    (s \<noteq> [] \<and> (let name = (if last s = CHR ''.'' then butlast s else s); parts = split_on CHR ''.'' name in
       length name \<le> 253 \<and> 2 \<le> length parts \<and> list_all (\<lambda>l. dns_label l \<and> length l \<le> 63) parts))"
proof -
  have "(and_then (IsDNS1123Subdomain re name) (\<lambda>_.
        if length (split_on CHR ''.'' name) < 2
        then Err (CommonError ''should be a domain with at least two segments separated by dots'')
        else check_labels re (split_on CHR ''.'' name)) = Ok ()) =
      (length name \<le> 253 \<and> 2 \<le> length (split_on CHR ''.'' name) \<and>
       list_all (\<lambda>l. dns_label l \<and> length l \<le> 63) (split_on CHR ''.'' name))" for name
    by (auto simp: res_simps IsDNS1123Subdomain_iff[OF assms] check_labels_iff IsDNS1123Label_iff[OF assms]
        dns_subdomain_def list_all_iff)
  then show ?thesis unfolding IsFullyQualifiedDomainName_def Let_def by auto
qed

theorem IsFullyQualifiedDomainName_iff_witness:
  "IsFullyQualifiedDomainName rx_engine ''gw.inferx.net.'' = Ok () \<and>
   IsFullyQualifiedDomainName rx_engine ''localhost'' \<noteq> Ok ()"
  unfolding IsFullyQualifiedDomainName_iff[OF regex_ok_rx_engine] by code_simp

text \<open>
  The wildcard validator takes one label after the star: the names its own comment lists as valid
  are rejected, because they have more than one.
\<close>

theorem IsWildcardDNS1123Subdomain_one_label:
  assumes "regex_ok re"
  shows "(IsWildcardDNS1123Subdomain re s = Ok ()) = (\<exists>l. s = ''*.'' @ l \<and> dns_label l \<and> length s \<le> 253) \<and>
    IsWildcardDNS1123Subdomain re ''*.bar.com'' = Err (CommonError WILDCARD_DNS1123_SUBDOMAIN_ERR_MSG)"
proof -
  have lang: "re (anchored WILDCARD_DNS1123_SUBDOMAIN_FMT) t \<longleftrightarrow> (\<exists>l. t = ''*.'' @ l \<and> dns_label l)" for t
    unfolding regex_ok_use(4)[OF assms] wildcard_rx_def lang_Lit_Seq by (auto simp: label_rx_lang)
  have "\<not> dns_label ''bar.com''" by code_simp
  then have "\<not> re (anchored WILDCARD_DNS1123_SUBDOMAIN_FMT) ''*.bar.com''" unfolding lang by simp
  then show ?thesis by (auto simp: IsWildcardDNS1123Subdomain_def DNS1123_SUBDOMAIN_MAX_LENGTH_def lang)
qed

theorem IsWildcardDNS1123Subdomain_one_label_witness:
  "IsWildcardDNS1123Subdomain rx_engine ''*.bar.com'' = Err (CommonError WILDCARD_DNS1123_SUBDOMAIN_ERR_MSG) \<and>
   IsWildcardDNS1123Subdomain rx_engine ''*.bar'' = Ok ()"
proof -
  have "dns_label ''bar''" by code_simp
  then have "\<exists>l. ''*.bar'' = ''*.'' @ l \<and> dns_label l \<and> length ''*.bar'' \<le> 253" by auto
  then show ?thesis using IsWildcardDNS1123Subdomain_one_label[OF regex_ok_rx_engine] by blast
qed

end
