(* ===== verification/Selector_Laws.thy ===== *)
theory Selector_Laws
  imports Selector Validation_Laws
begin

text \<open>
  Labels and selectors: the selector built from a label set matches exactly the label sets that extend
  it, merging is right-biased, and the text form of a label set reads back. Matching is also described
  by a predicate \<open>req_holds\<close> that mentions no parsing and no loop.
\<close>

section \<open>Matching\<close>

definition num_lt :: "string \<Rightarrow> string \<Rightarrow> bool" where
  "num_lt a b = (case (parse_i64 a, parse_i64 b) of (Some x, Some y) \<Rightarrow> x < y | _ \<Rightarrow> False)"

definition req_holds :: "Requirement \<Rightarrow> Labels \<Rightarrow> bool" where
  "req_holds r l = (case rq_op r of
       OpNone \<Rightarrow> False
     | DoesNotExist \<Rightarrow> bt_get (rq_key r) l = None
     | Exists \<Rightarrow> bt_get (rq_key r) l \<noteq> None
     | GreaterThan \<Rightarrow> (\<exists>v x. bt_get (rq_key r) l = Some v \<and> strVals r = [x] \<and> num_lt x v)
     | LessThan \<Rightarrow> (\<exists>v x. bt_get (rq_key r) l = Some v \<and> strVals r = [x] \<and> num_lt v x)
     | NotEquals \<Rightarrow> (\<forall>v. bt_get (rq_key r) l = Some v \<longrightarrow> v \<notin> set (strVals r))
     | NotIn \<Rightarrow> (\<forall>v. bt_get (rq_key r) l = Some v \<longrightarrow> v \<notin> set (strVals r))
     | _ \<Rightarrow> (\<exists>v. bt_get (rq_key r) l = Some v \<and> v \<in> set (strVals r)))"

lemma HasValue_iff: "HasValue r v \<longleftrightarrow> v \<in> set (strVals r)"
  by (auto simp: HasValue_def list_ex_iff)

lemma Matchs_holds: "rq_op r \<noteq> OpNone \<Longrightarrow> Matchs r l = Ok (req_holds r l)"
  by (cases "rq_op r"; cases "bt_get (rq_key r) l"; cases "strVals r")
    (auto simp: Matchs_def req_holds_def Labels_Get_def Labels_Has_def bt_contains_def HasValue_iff num_lt_def
      split: option.splits)

lemma Selector_Match_holds:
  "\<forall>r \<in> set s. rq_op r \<noteq> OpNone \<Longrightarrow> Selector_Match s l = Ok (\<forall>r \<in> set s. req_holds r l)"
  by (induction s) (auto simp: Matchs_holds)

lemma fold_snoc_map: "fold (\<lambda>x acc. acc @ [f x]) xs acc = acc @ map f xs"
  by (induction xs arbitrary: acc) auto

definition eq_req :: "string \<times> string \<Rightarrow> Requirement" where
  "eq_req e = \<lparr>rq_key = fst e, rq_op = Equals, strVals = [snd e]\<rparr>"

lemma ToSelector_map: "ToSelector l = map eq_req l"
  using fold_snoc_map[of eq_req l "[]"]
  by (simp add: ToSelector_def Selector_Add_def eq_req_def case_prod_unfold)

lemma SelectorFromSet_sort: "SelectorFromSet l = Selector_Sort (map eq_req l)"
  using fold_snoc_map[of eq_req l "[]"]
  by (simp add: SelectorFromSet_def SelectorFromValidatedSet_def Selector_Sort_def eq_req_def case_prod_unfold)

lemma SelectorFromSet_id: "bt_ok l \<Longrightarrow> SelectorFromSet l = map eq_req l"
  unfolding SelectorFromSet_sort Selector_Sort_def
  by (rule sort_key_id_if_sorted)
    (auto simp: bt_ok_def eq_req_def comp_def strict_sorted_iff)

lemma matches_loop_iff: "matches_loop es l \<longleftrightarrow> (\<forall>(k, v) \<in> set es. bt_get k l = Some v)"
  by (induction es l rule: matches_loop.induct)
    (auto simp: Labels_Get_def Labels_Has_def bt_contains_def)

text \<open>
  C10. One label set, three ways to select by it: \<open>Labels::Matches\<close>, the selector of \<open>ToSelector\<close> and
  the sorted selector of \<open>SelectorFromSet\<close> accept the same label sets, namely those that have every
  key with the same value; matching never panics.
\<close>

theorem label_selectors_agree:
  assumes "bt_ok l"
  shows "Selector_Match (ToSelector l) ls = Ok (Labels_Matches l ls) \<and>
    Selector_Match (SelectorFromSet l) ls = Ok (Labels_Matches l ls) \<and>
    Labels_Matches l ls = (\<forall>k v. bt_get k l = Some v \<longrightarrow> bt_get k ls = Some v)"
proof -
  have "Selector_Match (map eq_req l) ls = Ok (\<forall>r \<in> set (map eq_req l). req_holds r ls)"
    by (rule Selector_Match_holds) (auto simp: eq_req_def)
  moreover have "(\<forall>r \<in> set (map eq_req l). req_holds r ls) = Labels_Matches l ls"
    by (auto simp: Labels_Matches_def matches_loop_iff req_holds_def eq_req_def)
  moreover have "Labels_Matches l ls = (\<forall>k v. bt_get k l = Some v \<longrightarrow> bt_get k ls = Some v)"
    by (auto simp: Labels_Matches_def matches_loop_iff bt_get_mem_iff[OF assms])
  ultimately show ?thesis by (simp add: ToSelector_map SelectorFromSet_id[OF assms])
qed

theorem label_selectors_agree_witness:
  "Selector_Match (SelectorFromSet [(''gpu'', ''A10''), (''zone'', ''a'')])
     [(''gpu'', ''A10''), (''rack'', ''7''), (''zone'', ''a'')] = Ok True"
proof -
  have "bt_ok [(''gpu'', ''A10''), (''zone'', ''a'')]" by code_simp
  note label_selectors_agree[OF this, of "[(''gpu'', ''A10''), (''rack'', ''7''), (''zone'', ''a'')]"]
  moreover have "Labels_Matches [(''gpu'', ''A10''), (''zone'', ''a'')]
      [(''gpu'', ''A10''), (''rack'', ''7''), (''zone'', ''a'')]" by code_simp
  ultimately show ?thesis by simp
qed

section \<open>Label sets\<close>

lemma Labels_Merge_get:
  assumes "bt_ok a" "bt_ok b"
  shows "bt_get k (Labels_Merge a b) = (case bt_get k b of Some v \<Rightarrow> Some v | None \<Rightarrow> bt_get k a)"
  by (auto simp: Labels_Merge_def bt_get_fold_insert map_of_rev_bt[OF assms(1)] map_of_rev_bt[OF assms(2)]
      split: option.splits)

lemma equals_loop_iff: "equals_loop es l \<longleftrightarrow> (\<forall>(k, v) \<in> set es. bt_get k l = Some v)"
  by (induction es l rule: equals_loop.induct) (auto split: option.splits)

lemma Labels_Equals_iff:
  assumes "bt_ok a" "bt_ok b"
  shows "Labels_Equals a b \<longleftrightarrow> a = b"
proof
  assume h: "Labels_Equals a b"
  then have len: "length a = length b" and sub: "set a \<subseteq> set b"
    by (auto simp: Labels_Equals_def equals_loop_iff bt_get_mem_iff[OF assms(2)] split: if_splits)
  have "distinct a" "distinct b" using bt_ok_distinct assms distinct_map unfolding bt_keys_def by blast+
  then have "set a = set b" using len sub by (metis card_subset_eq distinct_card finite_set)
  then have "bt_get k a = bt_get k b" for k
    using bt_get_mem_iff[OF assms(1)] bt_get_mem_iff[OF assms(2)] by (metis not_None_eq)
  then show "a = b" by (intro bt_ok_eqI assms)
next
  assume "a = b"
  then show "Labels_Equals a b" by (auto simp: Labels_Equals_def equals_loop_iff bt_get_mem_iff[OF assms(2)])
qed

text \<open>
  \<open>Merge\<close> is right-biased and its result is a well-formed map: a key of the second set keeps that
  value, any other key the value of the first; merging a set with itself changes nothing and \<open>Equals\<close>
  says so.
\<close>

theorem Labels_Merge_spec:
  assumes "bt_ok a" "bt_ok b"
  shows "bt_ok (Labels_Merge a b) \<and>
    bt_get k (Labels_Merge a b) = (case bt_get k b of Some v \<Rightarrow> Some v | None \<Rightarrow> bt_get k a) \<and>
    Labels_Matches b (Labels_Merge a b) \<and> Labels_Equals (Labels_Merge a a) a"
proof -
  have ok: "bt_ok (Labels_Merge x y)" for x y
    by (simp add: Labels_Merge_def bt_ok_fold_insert)
  have "Labels_Matches b (Labels_Merge a b)"
    by (auto simp: Labels_Matches_def matches_loop_iff Labels_Merge_get[OF assms] bt_get_mem_iff[OF assms(2)])
  moreover have "Labels_Merge a a = a"
    by (rule bt_ok_eqI[OF ok assms(1)]) (simp add: Labels_Merge_get[OF assms(1,1)] split: option.splits)
  ultimately show ?thesis using ok Labels_Merge_get[OF assms] Labels_Equals_iff[OF assms(1,1)] by simp
qed

theorem Labels_Merge_spec_witness:
  "bt_get ''a'' (Labels_Merge [(''a'', ''1''), (''b'', ''2'')] [(''a'', ''9'')]) = Some ''9''"
proof -
  have "bt_ok [(''a'', ''1''), (''b'', ''2'')]" "bt_ok [(''a'', ''9'')]" by code_simp+
  then show ?thesis using Labels_Merge_spec[of "[(''a'', ''1''), (''b'', ''2'')]" "[(''a'', ''9'')]" "''a''"]
    by (simp add: bt_get_Cons)
qed

section \<open>The text form of a label set\<close>

definition label_char :: "char \<Rightarrow> bool" where
  "label_char c \<longleftrightarrow> alnum c \<or> c \<in> {CHR ''-'', CHR ''_'', CHR ''.'', CHR ''/''}"

lemma label_char_plain:
  "label_char c \<Longrightarrow> c \<notin> set ''=,!()<>'' \<and> \<not> is_ws c \<and> c \<noteq> CHR 0x00"
  by (auto simp: label_char_def alnum_def lower_alnum_def is_digit_def is_ws_def less_eq_char_def)

lemma plain_name_chars: "plain_name s \<Longrightarrow> list_all label_char s"
  by (auto simp: plain_name_def label_char_def list_all_iff)

lemma dns_subdomain_chars:
  assumes "dns_subdomain s"
  shows "list_all label_char s"
  unfolding list_all_iff
proof
  fix c assume "c \<in> set s"
  then have "c \<in> set (join_with [CHR ''.''] (split_on CHR ''.'' s))" by (simp add: join_split_on)
  from join_with_chars[OF this] show "label_char c"
  proof
    assume "\<exists>p \<in> set (split_on CHR ''.'' s). c \<in> set p"
    then obtain p where p: "p \<in> set (split_on CHR ''.'' s)" "c \<in> set p" by blast
    then have "dns_label p" using assms by (simp add: dns_subdomain_def list_all_iff)
    then have "lower_alnum c \<or> c = CHR ''-''" using p(2) by (simp add: dns_label_def list_all_iff)
    then show ?thesis by (auto simp: label_char_def alnum_def)
  qed (simp add: label_char_def)
qed

lemma qualified_name_chars: "qualified_name s \<Longrightarrow> s \<noteq> [] \<and> list_all label_char s"
  using plain_name_chars dns_subdomain_chars
  by (auto simp: qualified_name_def plain_name_def label_char_def[of "CHR ''/''"])

lemma label_value_iff:
  "regex_ok re \<Longrightarrow> IsValidLabelValue re v = Ok () \<longleftrightarrow> length v \<le> 63 \<and> plain_name v"
  by (auto simp: IsValidLabelValue_def regex_ok_use qname_rx_lang QUALIFIED_NAME_MAX_LENGTH_def)

definition valid_labels :: "(string \<Rightarrow> string \<Rightarrow> bool) \<Rightarrow> Labels \<Rightarrow> bool" where
  "valid_labels re l \<longleftrightarrow> bt_ok l \<and>
     list_all (\<lambda>(k, v). ValidateLabelKey re k = Ok () \<and> ValidateLabelValue re k v = Ok ()) l"

lemma valid_labels_chars:
  assumes "regex_ok re" "valid_labels re l" "(k, v) \<in> set l"
  shows "k \<noteq> [] \<and> v \<noteq> [] \<and> list_all label_char k \<and> list_all label_char v"
  using assms qualified_name_chars[of k] plain_name_chars[of v]
  by (auto simp: valid_labels_def list_all_iff ValidateLabelKey_def ValidateLabelValue_def
      IsQualifiedName_iff[OF assms(1)] label_value_iff[OF assms(1)] plain_name_def)

lemma labels_string_fold:
  "acc \<noteq> [] \<Longrightarrow> fold (\<lambda>(k, v) ret. (if length ret \<noteq> 0 then ret @ '','' else ret) @ k @ ''='' @ v) l acc
     = acc @ concat (map (\<lambda>(k, v). '','' @ k @ ''='' @ v) l)"
  by (induction l arbitrary: acc) auto

lemma Labels_String_join: "Labels_String l = join_with '','' (map (\<lambda>(k, v). k @ ''='' @ v) l)"
proof (cases l)
  case (Cons e es)
  then show ?thesis using labels_string_fold[of "fst e @ ''='' @ snd e" es]
    by (simp add: Labels_String_def dotted_concat comp_def case_prod_unfold)
qed (simp add: Labels_String_def)

lemma trim_id:
  assumes "\<forall>c \<in> set s. \<not> is_ws c"
  shows "trim s = s"
proof -
  have "dropWhile is_ws s = s" "dropWhile is_ws (rev s) = rev s"
    using assms by (auto simp: dropWhile_eq_self_iff hd_rev)
  then show ?thesis by (simp add: trim_def)
qed

lemma labels_new_step_valid:
  assumes "list_all label_char k" "list_all label_char v"
    "ValidateLabelKey re k = Ok ()" "ValidateLabelValue re k v = Ok ()"
  shows "labels_new_step re (k @ ''='' @ v) m = Ok (bt_insert k v m)"
proof -
  have safe: "c \<noteq> CHR ''='' \<and> \<not> is_ws c" if "c \<in> set k \<union> set v" for c
    using assms(1,2) label_char_plain[of c] that by (auto simp: list_all_iff)
  then have "CHR ''='' \<notin> set k" "CHR ''='' \<notin> set v" by auto
  then have "split_on CHR ''='' (k @ ''='' @ v) = [k, v]"
    by (simp add: split_on_append_sep split_on_no_sep)
  then show ?thesis using safe assms(3,4) by (simp add: labels_new_step_def trim_id)
qed

lemma rfold_labels_new:
  assumes "\<forall>(k, v) \<in> set es. list_all label_char k \<and> list_all label_char v \<and>
     ValidateLabelKey re k = Ok () \<and> ValidateLabelValue re k v = Ok ()"
  shows "rfold (labels_new_step re) (map (\<lambda>(k, v). k @ ''='' @ v) es) m =
     Ok (fold (\<lambda>(k, v). bt_insert k v) es m)"
  using assms by (induction es arbitrary: m) (auto simp: labels_new_step_valid[simplified])

text \<open>
  The text of a label set reads back as the same set: \<open>Labels::New\<close> of \<open>Labels::String\<close>
  is the set, for every set whose keys and values pass the validators.
\<close>

theorem Labels_String_New_roundtrip:
  assumes "regex_ok re" "valid_labels re l"
  shows "Labels_New re (Labels_String l) = Ok l"
proof (cases "l = []")
  case False
  let ?ps = "map (\<lambda>(k, v). k @ ''='' @ v) l"
  note chars = valid_labels_chars[OF assms]
  have "\<forall>p \<in> set ?ps. CHR '','' \<notin> set p"
    using chars label_char_plain by (fastforce simp: list_all_iff)
  then have "split_on CHR '','' (Labels_String l) = ?ps"
    unfolding Labels_String_join using False by (intro split_on_join) auto
  moreover have "Labels_String l \<noteq> []"
    using False by (cases l rule: list.exhaust) (auto simp: Labels_String_join dotted_concat)
  moreover have "rfold (labels_new_step re) ?ps [] = Ok (fold (\<lambda>(k, v). bt_insert k v) l [])"
    using chars assms(2) by (intro rfold_labels_new) (auto simp: valid_labels_def list_all_iff)
  ultimately show ?thesis
    using bt_of_list_id assms(2) by (auto simp: Labels_New_def valid_labels_def bt_of_list_def)
qed (simp add: Labels_New_def Labels_String_def)

theorem Labels_String_New_roundtrip_witness:
  "Labels_New rx_engine ''inferx.net/zone=a1,tier=gold_2'' = Ok [(''inferx.net/zone'', ''a1''), (''tier'', ''gold_2'')]"
proof -
  have "valid_labels rx_engine [(''inferx.net/zone'', ''a1''), (''tier'', ''gold_2'')]" by code_simp
  moreover have "Labels_String [(''inferx.net/zone'', ''a1''), (''tier'', ''gold_2'')] = ''inferx.net/zone=a1,tier=gold_2''"
    by code_simp
  ultimately show ?thesis using Labels_String_New_roundtrip[OF regex_ok_rx_engine] by metis
qed

section \<open>Where the code falls short of its comments\<close>

lemma conflict_loop_sound: "conflict_loop es b \<Longrightarrow> \<exists>k v w. (k, v) \<in> set es \<and> bt_get k b = Some w \<and> v \<noteq> w"
  by (induction es b rule: conflict_loop.induct) (auto split: option.splits if_splits)

text \<open>
  A conflict that \<open>Conflict\<close> reports is one: some key has two values. The converse fails: the loop
  gives up at the first key the larger set does not have, so a later conflict goes unnoticed.
\<close>

theorem Labels_Conflict_sound_not_complete:
  assumes "bt_ok a" "bt_ok b"
  shows "(Labels_Conflict a b \<longrightarrow> (\<exists>k v w. bt_get k a = Some v \<and> bt_get k b = Some w \<and> v \<noteq> w)) \<and>
    \<not> Labels_Conflict [(''a'', ''1''), (''b'', ''2'')] [(''b'', ''3''), (''c'', ''4''), (''d'', ''5'')]"
  using conflict_loop_sound[of a b] conflict_loop_sound[of b a] bt_get_mem_iff[OF assms(1)] bt_get_mem_iff[OF assms(2)]
  by (auto simp: Labels_Conflict_def bt_get_Cons)

theorem Labels_Conflict_sound_not_complete_witness:
  "Labels_Conflict [(''a'', ''1'')] [(''a'', ''2'')] \<and> bt_get ''a'' [(''a'', ''1'')] \<noteq> bt_get ''a'' [(''a'', ''2'')]"
proof -
  have "bt_ok [(''a'', ''1'')]" "bt_ok [(''a'', ''2'')]" "Labels_Conflict [(''a'', ''1'')] [(''a'', ''2'')]" by code_simp+
  then show ?thesis using Labels_Conflict_sound_not_complete[of "[(''a'', ''1'')]" "[(''a'', ''2'')]"]
    by (auto simp: bt_get_Cons)
qed

lemma Requirement_Equal_ignores_values:
  "Requirement_Equal a b \<longleftrightarrow> rq_key a = rq_key b \<and> rq_op a = rq_op b \<and> length (strVals a) = length (strVals b)"
  by (auto simp: Requirement_Equal_def)

lemma empty_label_value_rejected: "regex_ok re \<Longrightarrow> IsValidLabelValue re '''' \<noteq> Ok ()"
  by (simp add: label_value_iff plain_name_def)

end
