(* ===== verification/Selector_Roundtrip.thy ===== *)
theory Selector_Roundtrip
  imports Selector_Parser_Laws
begin

text \<open>
  Printing and parsing selectors: the tokens of the text that \<open>Selector::String\<close> prints, and the
  parser's run over them. The result is the printed selector with the values of each requirement in
  the order the hash set hands them out.
\<close>

section \<open>Tokens of printed text\<close>

abbreviation wt :: "string \<Rightarrow> Token \<times> string" where
  "wt w \<equiv> (word_token w, w)"

lemma word_token_not_end: "word_token w \<noteq> EndOfStringToken"
  by (auto simp: word_token_def STRING2TOKEN_def split: option.splits if_splits)

lemma tokens_Nil: "tokens [] = [(EndOfStringToken, '''')]"
  by (simp add: tokens.simps lex_str_def)

lemma tokens_space: "tokens (CHR '' '' # s) = tokens s"
proof -
  have "lex_str (CHR '' '' # s) = lex_str s" by (simp add: lex_str_def IsWhitespace_def)
  then show ?thesis by (simp add: tokens.simps[of s] tokens.simps[of "CHR '' '' # s"])
qed

lemma takeWhile_word:
  "list_all P w \<Longrightarrow> rest = [] \<or> \<not> P (hd rest) \<Longrightarrow> takeWhile P (w @ rest) = w \<and> dropWhile P (w @ rest) = rest"
  by (induction w) (cases rest; auto)+

lemma tokens_word:
  assumes "w \<noteq> []" "list_all ident_char w" "rest = [] \<or> \<not> ident_char (hd rest) \<and> hd rest \<noteq> NUL"
  shows "tokens (w @ rest) = wt w # tokens rest"
proof -
  obtain c u where w: "w = c # u" using assms(1) by (cases w) auto
  have c: "\<not> IsWhitespace c" "c \<noteq> NUL" "\<not> IsSpecialSymbol c" using assms(2) by (auto simp: w ident_char_def)
  have "takeWhile ident_char (w @ rest) = w" "dropWhile ident_char (w @ rest) = rest"
    using takeWhile_word[of ident_char w rest] assms(2,3) by auto
  moreover have "skip_nul rest = rest" using assms(3) by (cases rest) (auto simp: skip_nul_def)
  ultimately have "lex_str (w @ rest) = (wt w, rest)" using c by (simp add: lex_str_def w)
  then show ?thesis by (simp add: tokens.simps[of "w @ rest"] word_token_not_end)
qed

definition symbols :: "string set" where
  "symbols = {''='', ''=='', ''!='', ''>'', ''<'', ''!'', ''('', '')'', '',''}"

lemma tokens_symbol:
  assumes "sy \<in> symbols" "rest = [] \<or> hd rest \<noteq> NUL \<and> hd rest \<noteq> CHR ''=''"
  shows "tokens (sy @ rest) = wt sy # tokens rest"
proof -
  have "skip_nul rest = rest" using assms(2) by (cases rest) (auto simp: skip_nul_def)
  then have "lex_str (sy @ rest) = (wt sy, rest)"
    using assms by (cases rest) (auto simp: symbols_def lex_str_def IsWhitespace_def IsSpecialSymbol_def sym_len_def Let_def)
  then show ?thesis by (simp add: tokens.simps[of "sy @ rest"] word_token_not_end)
qed

lemma label_char_ident: "label_char c \<Longrightarrow> ident_char c"
  using label_char_plain[of c] by (auto simp: ident_char_def IsSpecialSymbol_def IsWhitespace_def is_ws_def)

text \<open>A word of label characters, in value position, is an identifier even when it reads \<open>in\<close> or \<open>notin\<close>.\<close>

definition label_word :: "string \<Rightarrow> bool" where
  "label_word w \<longleftrightarrow> w \<noteq> [] \<and> list_all label_char w"

lemma label_word_token:
  assumes "label_word w"
  shows "in_context Values (item (wt w)) = (IdentifierToken, w)"
proof -
  have "hd w \<notin> set ''=,!()<>''" using assms label_char_plain[of "hd w"] by (cases w) (simp_all add: label_word_def)
  then have "w \<notin> symbols" by (auto simp: symbols_def)
  then have "word_token w \<in> {IdentifierToken, InToken, NotInToken}"
    by (auto simp: word_token_def STRING2TOKEN_def symbols_def split: option.splits if_splits)
  then show ?thesis by (auto simp: in_context_def item_def)
qed

lemma tokens_label_word:
  "label_word w \<Longrightarrow> rest = [] \<or> hd rest \<in> {CHR ''='', CHR ''!'', CHR ''('', CHR '')'', CHR '','', CHR ''>'', CHR ''<'', CHR '' ''} \<Longrightarrow>
   tokens (w @ rest) = wt w # tokens rest"
proof (rule tokens_word)
  assume "label_word w"
  then show "w \<noteq> []" "list_all ident_char w"
    using label_char_ident by (auto simp: label_word_def intro: list.pred_mono_strong)
qed (auto simp: ident_char_def IsSpecialSymbol_def IsWhitespace_def)

lemma label_word_start: "label_word w \<Longrightarrow> w @ rest = [] \<or> hd (w @ rest) \<noteq> NUL \<and> hd (w @ rest) \<noteq> CHR ''=''"
  using label_char_plain[of "hd w"] by (cases w) (auto simp: label_word_def)

section \<open>Tokens of a selector\<close>

fun vals_tokens :: "string list \<Rightarrow> (Token \<times> string) list" where
  "vals_tokens [] = []"
| "vals_tokens [v] = [wt v]"
| "vals_tokens (v # w # vs) = wt v # wt '','' # vals_tokens (w # vs)"

definition op_token :: "SelectionOp \<Rightarrow> string" where
  "op_token op' = (case op' of Equals \<Rightarrow> ''='' | DoubleEquals \<Rightarrow> ''=='' | OpIn \<Rightarrow> ''in'' | NotEquals \<Rightarrow> ''!=''
     | NotIn \<Rightarrow> ''notin'' | GreaterThan \<Rightarrow> ''>'' | LessThan \<Rightarrow> ''<'' | _ \<Rightarrow> '''')"

definition req_tokens :: "Requirement \<Rightarrow> (Token \<times> string) list" where
  "req_tokens r =
     (let vs = bt_keys (Requirement_Values r) in
      if rq_op r = Exists then [wt (rq_key r)]
      else if rq_op r = DoesNotExist then [wt ''!'', wt (rq_key r)]
      else if rq_op r \<in> {OpIn, NotIn}
      then wt (rq_key r) # wt (op_token (rq_op r)) # wt ''('' # vals_tokens vs @ [wt '')'']
      else wt (rq_key r) # wt (op_token (rq_op r)) # vals_tokens vs)"

text \<open>A requirement that passes the checks, with a printable key and printable values.\<close>

definition printable :: "(string \<Rightarrow> string \<Rightarrow> bool) \<Rightarrow> Requirement \<Rightarrow> bool" where
  "printable re r \<longleftrightarrow> wf_req re r \<and> list_all (\<lambda>v. IsValidLabelValue re v = Ok ()) (strVals r)"

lemma printable_words:
  assumes "regex_ok re" "printable re r"
  shows "label_word (rq_key r)" "\<forall>v \<in> set (bt_keys (Requirement_Values r)). label_word v" "rq_op r \<noteq> OpNone"
proof -
  have "IsQualifiedName re (rq_key r) = Ok ()"
    using assms(2) by (auto simp: printable_def wf_req_def Requirement_New_def res_simps ValidateLabelKey_def)
  then show "label_word (rq_key r)"
    using qualified_name_chars IsQualifiedName_iff[OF assms(1)] by (auto simp: label_word_def)
  show "\<forall>v \<in> set (bt_keys (Requirement_Values r)). label_word v"
    using assms plain_name_chars
    by (auto simp: printable_def Requirement_Values_def list_all_iff label_value_iff[OF assms(1)] label_word_def plain_name_def)
  show "rq_op r \<noteq> OpNone"
    using assms(2) Requirement_New_Ok[of re "rq_key r" "rq_op r" "strVals r" r] by (auto simp: printable_def wf_req_def)
qed

lemma tokens_vals:
  "\<forall>v \<in> set vs. label_word v \<Longrightarrow> vs \<noteq> [] \<Longrightarrow> rest = [] \<or> hd rest \<in> {CHR '')'', CHR '',''} \<Longrightarrow>
   tokens (join_with '','' vs @ rest) = vals_tokens vs @ tokens rest"
proof (induction vs rule: vals_tokens.induct)
  case (2 v)
  then show ?case using tokens_label_word[of v rest] by auto
next
  case (3 v w vs)
  let ?r = "join_with '','' (w # vs) @ rest"
  have "w \<noteq> []" "hd w \<noteq> NUL" "hd w \<noteq> CHR ''=''"
    using 3(2) label_word_start[of w "[]"] by (auto simp: label_word_def)
  moreover have "\<exists>u. ?r = w @ u" by (cases vs) auto
  ultimately have "?r = [] \<or> hd ?r \<noteq> NUL \<and> hd ?r \<noteq> CHR ''=''" by auto
  then have "tokens ('','' @ ?r) = wt '','' # tokens ?r" by (intro tokens_symbol) (auto simp: symbols_def)
  moreover have "tokens (v @ '','' @ ?r) = wt v # tokens ('','' @ ?r)"
    using 3(2) by (intro tokens_label_word) auto
  ultimately show ?case using 3 by simp
qed simp

lemma wf_req_shape:
  assumes "wf_req re r"
  shows "rq_op r \<in> {OpIn, NotIn} \<Longrightarrow> strVals r \<noteq> []"
    and "rq_op r \<in> {Equals, DoubleEquals, NotEquals, GreaterThan, LessThan} \<Longrightarrow> \<exists>v. strVals r = [v]"
    and "rq_op r \<in> {Exists, DoesNotExist} \<Longrightarrow> strVals r = []"
  using assms
  by (auto simp: wf_req_def Requirement_New_def res_simps Let_def length_Suc_conv split: if_splits)

lemma values_not_Nil: "strVals r \<noteq> [] \<Longrightarrow> bt_keys (Requirement_Values r) \<noteq> []"
  by (metis Requirement_Values_def bs_of_list_keys set_empty)

lemma join_start:
  "vs \<noteq> [] \<Longrightarrow> \<forall>v \<in> set vs. label_word v \<Longrightarrow>
   join_with '','' vs @ rest = [] \<or> hd (join_with '','' vs @ rest) \<noteq> NUL \<and> hd (join_with '','' vs @ rest) \<noteq> CHR ''=''"
  using label_word_start by (cases vs rule: vals_tokens.cases) auto

lemma tokens_exact:
  assumes "label_word k" "vs \<noteq> []" "\<forall>v \<in> set vs. label_word v" "rest = [] \<or> hd rest = CHR '',''"
    and "sy \<in> {''='', ''=='', ''!='', ''>'', ''<''}"
  shows "tokens (k @ sy @ join_with '','' vs @ rest) = wt k # wt sy # vals_tokens vs @ tokens rest"
proof -
  have "tokens (k @ sy @ join_with '','' vs @ rest) = wt k # tokens (sy @ join_with '','' vs @ rest)"
    using assms(1,5) by (intro tokens_label_word) auto
  also have "tokens (sy @ join_with '','' vs @ rest) = wt sy # tokens (join_with '','' vs @ rest)"
    using join_start[OF assms(2,3)] assms(5) by (intro tokens_symbol) (auto simp: symbols_def)
  also have "tokens (join_with '','' vs @ rest) = vals_tokens vs @ tokens rest"
    using assms by (intro tokens_vals) auto
  finally show ?thesis by simp
qed

lemma tokens_set:
  assumes "label_word k" "vs \<noteq> []" "\<forall>v \<in> set vs. label_word v" "rest = [] \<or> hd rest = CHR '',''"
    and "w \<in> {''in'', ''notin''}"
  shows "tokens (k @ '' '' @ w @ '' '' @ ''('' @ join_with '','' vs @ '')'' @ rest) =
    wt k # wt w # wt ''('' # vals_tokens vs @ wt '')'' # tokens rest"
proof -
  let ?v = "join_with '','' vs @ '')'' @ rest"
  have word: "label_word w" using assms(5) by (auto simp: label_word_def label_char_def alnum_def lower_alnum_def less_eq_char_def)
  have "tokens (k @ '' '' @ w @ '' '' @ ''('' @ ?v) = wt k # tokens (w @ '' '' @ ''('' @ ?v)"
    using assms(1) tokens_label_word[of k "'' '' @ w @ '' '' @ ''('' @ ?v"] tokens_space by simp
  also have "tokens (w @ '' '' @ ''('' @ ?v) = wt w # tokens (''('' @ ?v)"
    using word tokens_label_word[of w "'' '' @ ''('' @ ?v"] tokens_space by simp
  also have "tokens (''('' @ ?v) = wt ''('' # tokens ?v"
    using join_start[OF assms(2,3)] by (intro tokens_symbol) (auto simp: symbols_def)
  also have "tokens ?v = vals_tokens vs @ tokens ('')'' @ rest)"
    using assms by (intro tokens_vals) auto
  also have "tokens ('')'' @ rest) = wt '')'' # tokens rest"
    using assms(4) by (intro tokens_symbol) (auto simp: symbols_def)
  finally show ?thesis by simp
qed

lemma tokens_req:
  assumes "regex_ok re" "printable re r" "rest = [] \<or> hd rest = CHR '',''"
  shows "tokens (Requirement_String r @ rest) = req_tokens r @ tokens rest"
proof -
  note words = printable_words[OF assms(1,2)]
  have wf: "wf_req re r" using assms(2) by (simp add: printable_def)
  let ?vs = "bt_keys (Requirement_Values r)"
  have ne: "?vs \<noteq> []" if "rq_op r \<notin> {Exists, DoesNotExist}"
    using that words(3) wf_req_shape(1,2)[OF wf] values_not_Nil by (cases "rq_op r") auto
  have key: "tokens (rq_key r @ rest) = wt (rq_key r) # tokens rest"
    using words(1) assms(3) by (intro tokens_label_word) auto
  consider "rq_op r = Exists" | "rq_op r = DoesNotExist" | "rq_op r \<in> {OpIn, NotIn}"
    | "rq_op r \<in> {Equals, DoubleEquals, NotEquals, GreaterThan, LessThan}"
    using words(3) by (cases "rq_op r") auto
  then show ?thesis
  proof cases
    case 1
    then show ?thesis using key by (simp add: Requirement_String_def req_tokens_def)
  next
    case 2
    have "tokens (''!'' @ rq_key r @ rest) = wt ''!'' # tokens (rq_key r @ rest)"
      using label_word_start[OF words(1)] by (intro tokens_symbol) (auto simp: symbols_def)
    then show ?thesis using 2 key by (simp add: Requirement_String_def req_tokens_def)
  next
    case 3
    then have o: "op_token (rq_op r) \<in> {''in'', ''notin''}" and n: "?vs \<noteq> []" using ne by (auto simp: op_token_def)
    from tokens_set[OF words(1) n words(2) assms(3) o] 3 show ?thesis
      by (auto simp: Requirement_String_def req_tokens_def op_token_def Let_def)
  next
    case 4
    then have o: "op_token (rq_op r) \<in> {''='', ''=='', ''!='', ''>'', ''<''}" and n: "?vs \<noteq> []"
      using ne by (auto simp: op_token_def)
    from tokens_exact[OF words(1) n words(2) assms(3) o] 4 show ?thesis
      by (auto simp: Requirement_String_def req_tokens_def op_token_def Let_def)
  qed
qed

fun sel_tokens :: "Selector \<Rightarrow> (Token \<times> string) list" where
  "sel_tokens [] = [(EndOfStringToken, '''')]"
| "sel_tokens [r] = req_tokens r @ [(EndOfStringToken, '''')]"
| "sel_tokens (r # s # sel) = req_tokens r @ wt '','' # sel_tokens (s # sel)"

lemma Requirement_String_start:
  assumes "regex_ok re" "printable re r"
  shows "Requirement_String r \<noteq> [] \<and> hd (Requirement_String r) \<noteq> NUL \<and> hd (Requirement_String r) \<noteq> CHR ''=''"
proof -
  have "rq_key r \<noteq> []" "hd (rq_key r) \<noteq> NUL" "hd (rq_key r) \<noteq> CHR ''=''"
    using label_word_start[OF printable_words(1)[OF assms], of "[]"] printable_words(1)[OF assms]
    by (auto simp: label_word_def)
  then show ?thesis by (cases "rq_key r") (auto simp: Requirement_String_def Let_def)
qed

lemma tokens_selector:
  assumes "regex_ok re"
  shows "list_all (printable re) sel \<Longrightarrow> tokens (Selector_String sel) = sel_tokens sel"
proof (induction sel rule: sel_tokens.induct)
  case 1
  then show ?case by (simp add: Selector_String_def tokens_Nil)
next
  case (2 r)
  then show ?case using tokens_req[OF assms, of r "[]"] by (simp add: Selector_String_def tokens_Nil)
next
  case (3 r s sel)
  let ?rest = "join_with '','' (map Requirement_String (s # sel))"
  obtain u where u: "?rest = Requirement_String s @ u" by (cases sel) auto
  have "tokens ('','' @ ?rest) = wt '','' # tokens ?rest"
    using 3 Requirement_String_start[OF assms, of s] unfolding u by (intro tokens_symbol) (auto simp: symbols_def)
  moreover have "tokens (Requirement_String r @ '','' @ ?rest) = req_tokens r @ tokens ('','' @ ?rest)"
    using 3 by (intro tokens_req[OF assms]) auto
  ultimately show ?case using 3 by (simp add: Selector_String_def)
qed

section \<open>The parser over the printed tokens\<close>

definition p_rest :: "Parser \<Rightarrow> ScannedItem list" where
  "p_rest p = drop (position p) (scanItems p)"

definition p_next :: "Parser \<Rightarrow> Parser" where
  "p_next p = p\<lparr>position := position p + 1\<rparr>"

lemma p_rest_Cons:
  assumes "p_rest p = it # ts"
  shows "Lookahead p ctx = Ok (in_context ctx it)" "Consume p ctx = Ok (in_context ctx it, p_next p)"
    "p_rest (p_next p) = ts"
proof -
  have "position p < length (scanItems p)" using assms by (cases "position p < length (scanItems p)") (auto simp: p_rest_def)
  moreover have "scanItems p ! position p = it" using assms by (simp add: p_rest_def nth_via_drop)
  ultimately show "Lookahead p ctx = Ok (in_context ctx it)" "Consume p ctx = Ok (in_context ctx it, p_next p)"
    by (simp_all add: Lookahead_def Consume_def p_next_def Let_def)
  have "p_rest (p_next p) = tl (p_rest p)" by (simp add: p_rest_def p_next_def drop_Suc tl_drop)
  then show "p_rest (p_next p) = ts" using assms by simp
qed

lemma item_token:
  "in_context Values (item (wt '','')) = (CommaToken, '','')"
  "in_context Values (item (wt ''('')) = (OpenParToken, ''('')"
  "in_context Values (item (wt '')'')) = (ClosedParToken, '')'')"
  "in_context Values (item (wt ''!'')) = (DoesNotExistToken, ''!'')"
  "in_context Values (item (EndOfStringToken, '''')) = (EndOfStringToken, '''')"
  by (simp_all add: in_context_def item_def word_token_def STRING2TOKEN_def)

lemma parse_ids_loop_vals:
  "vs \<noteq> [] \<Longrightarrow> \<forall>v \<in> set vs. label_word v \<Longrightarrow> p_rest p = map item (vals_tokens vs) @ item (wt '')'') # ts \<Longrightarrow>
   \<exists>q. parse_ids_loop p s = Ok (fold hs_insert vs s, q) \<and> p_rest q = item (wt '')'') # ts"
proof (induction vs arbitrary: p s rule: vals_tokens.induct)
  case (2 v)
  then have r: "p_rest p = item (wt v) # item (wt '')'') # ts" by simp
  note r1 = p_rest_Cons(3)[OF r]
  show ?case using 2 r1
    by (simp add: parse_ids_loop.simps[of p] p_rest_Cons(2)[OF r] p_rest_Cons(1)[OF r1] label_word_token item_token)
next
  case (3 v w vs)
  let ?more = "map item (vals_tokens (w # vs)) @ item (wt '')'') # ts"
  have r: "p_rest p = item (wt v) # item (wt '','') # ?more" using 3 by simp
  note r1 = p_rest_Cons(3)[OF r] note r2 = p_rest_Cons(3)[OF r1]
  obtain tl' where more: "?more = item (wt w) # tl'" by (cases vs) auto
  have s: "hs_insert v s \<noteq> []" by (auto simp: hs_insert_def)
  have step1: "parse_ids_loop p s = parse_ids_loop (p_next p) (hs_insert v s)"
    using 3(3) by (simp add: parse_ids_loop.simps[of p] p_rest_Cons(2)[OF r] p_rest_Cons(1)[OF r1] label_word_token item_token)
  have step2: "parse_ids_loop (p_next p) (hs_insert v s) = parse_ids_loop (p_next (p_next p)) (hs_insert v s)"
    using 3(3) s by (simp add: parse_ids_loop.simps[of "p_next p"] p_rest_Cons(2)[OF r1]
        p_rest_Cons(1)[OF r2[unfolded more]] label_word_token item_token Let_def)
  from "3.IH"[of "p_next (p_next p)" "hs_insert v s"] 3(3) r2 show ?case
    by (simp add: step1 step2)
qed simp

lemma fold_hs_insert_distinct: "distinct (s @ vs) \<Longrightarrow> fold hs_insert vs s = s @ vs"
  by (induction vs arbitrary: s) (auto simp: hs_insert_def)

definition hash_order :: "(string list \<Rightarrow> string list) \<Rightarrow> bool" where
  "hash_order ho \<longleftrightarrow> (\<forall>xs. distinct xs \<longrightarrow> distinct (ho xs) \<and> set (ho xs) = set xs)"

text \<open>What parsing gives back for a requirement: its values, once each, in hash order.\<close>

definition canon :: "(string list \<Rightarrow> string list) \<Rightarrow> Requirement \<Rightarrow> Requirement" where
  "canon ho r = r\<lparr>strVals := ho (bt_keys (Requirement_Values r))\<rparr>"

lemma values_distinct: "distinct (bt_keys (Requirement_Values r))"
  by (simp add: Requirement_Values_def bt_ok_distinct)

lemma hash_order_small:
  assumes "hash_order ho"
  shows "ho [] = []" "ho [v] = [v]"
proof -
  show "ho [] = []" using assms[unfolded hash_order_def, rule_format, of "[]"] by simp
  have d: "distinct (ho [v])" and s: "set (ho [v]) = {v}" using assms[unfolded hash_order_def, rule_format, of "[v]"] by simp_all
  then have "length (ho [v]) = Suc 0" using distinct_card[OF d] by simp
  then obtain x where x: "ho [v] = [x]" by (metis length_0_conv length_Suc_conv)
  then show "ho [v] = [v]" using s unfolding x by simp
qed

lemma canon_new:
  assumes "hash_order ho" "wf_req re r"
  shows "Requirement_New re (rq_key r) (rq_op r) (ho (bt_keys (Requirement_Values r))) = Ok (canon ho r)"
proof -
  let ?vs = "bt_keys (Requirement_Values r)"
  have new: "Requirement_New re (rq_key r) (rq_op r) (strVals r) = Ok r" using assms(2) by (simp add: wf_req_def)
  have op: "rq_op r \<noteq> OpNone" using Requirement_New_Ok[OF new] by (rule conjunct2)
  have key: "ValidateLabelKey re (rq_key r) = Ok ()"
  proof (cases "ValidateLabelKey re (rq_key r)")
    case (Err e)
    then show ?thesis using new unfolding Requirement_New_def by simp
  next
    case Panic
    then show ?thesis using new unfolding Requirement_New_def by simp
  qed simp
  have single: "?vs = [v]" if "strVals r = [v]" for v
    using that by (simp add: Requirement_Values_def bs_of_list_def bs_insert_def)
  have "set (ho ?vs) = set ?vs" using assms(1) values_distinct by (simp add: hash_order_def)
  then have ne: "ho ?vs \<noteq> []" if "strVals r \<noteq> []" using values_not_Nil[OF that] by (metis set_empty)
  have c: "canon ho r = \<lparr>rq_key = rq_key r, rq_op = rq_op r, strVals = ho ?vs\<rparr>" by (simp add: canon_def)
  show ?thesis
  proof (cases "rq_op r \<in> {OpIn, NotIn}")
    case True
    then have "ho ?vs \<noteq> []" using ne wf_req_shape(1)[OF assms(2)] by blast
    then show ?thesis using True key by (cases "rq_op r") (simp_all add: Requirement_New_def c Let_def)
  next
    case False
    then have "ho ?vs = strVals r"
      using wf_req_shape(2,3)[OF assms(2)] op single hash_order_small[OF assms(1)]
      by (cases "rq_op r") (auto simp: Requirement_Values_def bs_of_list_def)
    then show ?thesis using assms(2) by (simp add: wf_req_def canon_def)
  qed
qed

lemma op_token_word:
  "in_context KeyAndOperator (item (wt (op_token op'))) = (word_token (op_token op'), op_token op')"
  by (simp add: in_context_def item_def)

lemma ParseOperator_token:
  assumes "p_rest p = item (wt (op_token op')) # ts"
    and "op' \<in> {OpIn, NotIn, Equals, DoubleEquals, NotEquals, GreaterThan, LessThan}"
  shows "ParseOperator p = Ok (op', p_next p)"
proof -
  have c: "Consume p KeyAndOperator = Ok (wt (op_token op'), p_next p)"
    unfolding p_rest_Cons(2)[OF assms(1)] op_token_word by (rule refl)
  show ?thesis
    unfolding ParseOperator_def c using assms(2)
    by (cases op') (simp_all add: op_token_def word_token_def STRING2TOKEN_def)
qed

lemma ParseKey_token:
  assumes "p_rest p = item (wt k) # it # ts" "label_word k" "ValidateLabelKey re k = Ok ()"
  shows "ParseKeyAndInferOperator re p =
     Ok ((k, if fst (in_context Values it) \<in> {EndOfStringToken, CommaToken} then Exists else OpNone), p_next p)"
proof -
  obtain t l where t: "in_context Values it = (t, l)" by force
  note r1 = p_rest_Cons(3)[OF assms(1)]
  show ?thesis
    using assms(2,3)
    by (simp add: ParseKeyAndInferOperator_def p_rest_Cons(2)[OF assms(1)] label_word_token p_rest_Cons(1)[OF r1] t)
qed

lemma ParseKey_not_token:
  assumes "p_rest p = item (wt ''!'') # item (wt k) # it # ts" "label_word k" "ValidateLabelKey re k = Ok ()"
  shows "ParseKeyAndInferOperator re p = Ok ((k, DoesNotExist), p_next (p_next p))"
proof -
  note r1 = p_rest_Cons(3)[OF assms(1)] note r2 = p_rest_Cons(3)[OF r1]
  show ?thesis
    using assms(2,3)
    by (simp add: ParseKeyAndInferOperator_def p_rest_Cons(2)[OF assms(1)] p_rest_Cons(2)[OF r1] label_word_token
        p_rest_Cons(1)[OF r2] item_token case_prod_unfold)
qed

lemma ParseValues_tokens:
  assumes "p_rest p = item (wt ''('') # map item (vals_tokens vs) @ item (wt '')'') # ts"
    and "vs \<noteq> []" "distinct vs" "\<forall>v \<in> set vs. label_word v"
  shows "\<exists>q. ParseValues p = Ok (vs, q) \<and> p_rest q = ts"
proof -
  note r1 = p_rest_Cons(3)[OF assms(1)]
  obtain v tl' where v: "map item (vals_tokens vs) @ item (wt '')'') # ts = item (wt v) # tl'" "label_word v"
    using assms(2,4) by (cases vs rule: vals_tokens.cases) auto
  obtain q where q: "parse_ids_loop (p_next p) [] = Ok (vs, q)" "p_rest q = item (wt '')'') # ts"
    using parse_ids_loop_vals[OF assms(2,4) r1, of "[]"] fold_hs_insert_distinct[of "[]" vs] assms(3) by auto
  show ?thesis
    using q v(2) p_rest_Cons[OF q(2)] p_rest_Cons(1)[OF r1[unfolded v(1)]]
    by (simp add: ParseValues_def p_rest_Cons(2)[OF assms(1)] item_token label_word_token ParseIdentifiersList_def)
qed

lemma ParseExactValue_token:
  assumes "p_rest p = item (wt v) # ts" "label_word v"
  shows "ParseExactValue p = Ok ([v], p_next p)"
  using assms(2) by (simp add: ParseExactValue_def p_rest_Cons[OF assms(1)] label_word_token hs_insert_def)

lemma op_not_end:
  "op' \<in> {OpIn, NotIn, Equals, DoubleEquals, NotEquals, GreaterThan, LessThan} \<Longrightarrow>
   fst (in_context Values (item (wt (op_token op')))) \<notin> {EndOfStringToken, CommaToken}"
  by (auto simp: in_context_def item_def op_token_def word_token_def STRING2TOKEN_def)

lemma ParseRequirement_tokens:
  assumes "regex_ok re" "hash_order ho" "printable re r"
    and "p_rest p = map item (req_tokens r) @ it # ts" "fst (in_context Values it) \<in> {EndOfStringToken, CommaToken}"
  shows "\<exists>q. ParseRequirement re ho p = Ok (canon ho r, q) \<and> p_rest q = it # ts"
proof -
  note words = printable_words[OF assms(1,3)]
  have wf: "wf_req re r" using assms(3) by (simp add: printable_def)
  let ?vs = "bt_keys (Requirement_Values r)"
  note new = canon_new[OF assms(2) wf]
  have key: "ValidateLabelKey re (rq_key r) = Ok ()"
    using new by (cases "ValidateLabelKey re (rq_key r)") (simp_all add: Requirement_New_def)
  have empty: "ho ?vs = []" if "rq_op r \<in> {Exists, DoesNotExist}"
    using wf_req_shape(3)[OF wf that] hash_order_small[OF assms(2)] by (simp add: Requirement_Values_def bs_of_list_def)
  consider "rq_op r = Exists" | "rq_op r = DoesNotExist" | "rq_op r \<in> {OpIn, NotIn}"
    | "rq_op r \<in> {Equals, DoubleEquals, NotEquals, GreaterThan, LessThan}"
    using words(3) by (cases "rq_op r") auto
  then show ?thesis
  proof cases
    case 1
    then have r: "p_rest p = item (wt (rq_key r)) # it # ts" using assms(4) by (simp add: req_tokens_def)
    show ?thesis
      using ParseKey_token[OF r words(1) key] p_rest_Cons(3)[OF r] assms(5) new empty 1
      by (simp add: ParseRequirement_unfold)
  next
    case 2
    then have r: "p_rest p = item (wt ''!'') # item (wt (rq_key r)) # it # ts" using assms(4) by (simp add: req_tokens_def)
    show ?thesis
      using ParseKey_not_token[OF r words(1) key] p_rest_Cons(3)[OF p_rest_Cons(3)[OF r]] new empty 2
      by (simp add: ParseRequirement_unfold)
  next
    case 3
    let ?more = "item (wt ''('') # map item (vals_tokens ?vs) @ item (wt '')'') # it # ts"
    have r: "p_rest p = item (wt (rq_key r)) # item (wt (op_token (rq_op r))) # ?more"
      using 3 assms(4) by (auto simp: req_tokens_def Let_def)
    note r1 = p_rest_Cons(3)[OF r] note r2 = p_rest_Cons(3)[OF r1]
    have ops: "rq_op r \<in> {OpIn, NotIn, Equals, DoubleEquals, NotEquals, GreaterThan, LessThan}" using 3 by auto
    obtain q where q: "ParseValues (p_next (p_next p)) = Ok (?vs, q)" "p_rest q = it # ts"
      using ParseValues_tokens[OF r2 values_not_Nil values_distinct words(2)] wf_req_shape(1)[OF wf 3] by blast
    then have "parse_vals (rq_op r) (p_next (p_next p)) = Ok (?vs, q)" using 3 by (simp add: parse_vals_def)
    then show ?thesis
      using ParseKey_token[OF r words(1) key] op_not_end[OF ops] ParseOperator_token[OF r1 ops] new q(2)
      by (simp add: ParseRequirement_unfold)
  next
    case 4
    then obtain v where sv: "strVals r = [v]" using wf_req_shape(2)[OF wf] by blast
    then have vs: "?vs = [v]" by (simp add: Requirement_Values_def bs_of_list_def bs_insert_def)
    then have v: "label_word v" using words(2) by simp
    have r: "p_rest p = item (wt (rq_key r)) # item (wt (op_token (rq_op r))) # item (wt v) # it # ts"
      using 4 assms(4) by (auto simp: req_tokens_def Let_def vs)
    note r1 = p_rest_Cons(3)[OF r] note r2 = p_rest_Cons(3)[OF r1]
    have ops: "rq_op r \<in> {OpIn, NotIn, Equals, DoubleEquals, NotEquals, GreaterThan, LessThan}" using 4 by auto
    have "parse_vals (rq_op r) (p_next (p_next p)) = Ok (?vs, p_next (p_next (p_next p)))"
      using 4 ParseExactValue_token[OF r2 v] by (auto simp: parse_vals_def vs)
    then show ?thesis
      using ParseKey_token[OF r words(1) key] op_not_end[OF ops] ParseOperator_token[OF r1 ops] new p_rest_Cons(3)[OF r2]
      by (simp add: ParseRequirement_unfold)
  qed
qed

lemma req_tokens_head:
  assumes "regex_ok re" "printable re r"
  shows "\<exists>tk ts. req_tokens r = tk # ts \<and> fst (in_context Values (item tk)) \<in> {IdentifierToken, DoesNotExistToken}"
proof -
  have "fst (in_context Values (item (wt (rq_key r)))) = IdentifierToken"
    using label_word_token[OF printable_words(1)[OF assms]] by simp
  then show ?thesis by (auto simp: req_tokens_def Let_def item_token)
qed

lemma parse_loop_tokens:
  assumes "regex_ok re" "hash_order ho"
  shows "list_all (printable re) sel \<Longrightarrow> p_rest p = map item (sel_tokens sel) \<Longrightarrow>
    parse_loop re ho p rs = Ok (rs @ map (canon ho) sel)"
proof (induction sel arbitrary: p rs rule: sel_tokens.induct)
  case 1
  then have r: "p_rest p = [item (EndOfStringToken, '''')]" by simp
  show ?case by (simp add: parse_loop.simps[of re ho p] p_rest_Cons(1)[OF r] item_token)
next
  case (2 r)
  obtain tk ts where h: "req_tokens r = tk # ts" "fst (in_context Values (item tk)) \<in> {IdentifierToken, DoesNotExistToken}"
    using req_tokens_head[OF assms(1), of r] 2 by auto
  obtain a b where ab: "in_context Values (item tk) = (a, b)" by force
  have r: "p_rest p = map item (req_tokens r) @ item (EndOfStringToken, '''') # []" using 2 by simp
  obtain q where q: "ParseRequirement re ho p = Ok (canon ho r, q)" "p_rest q = item (EndOfStringToken, '''') # []"
    using ParseRequirement_tokens[OF assms _ r] 2 by (auto simp: item_token)
  have look: "Lookahead p Values = Ok (a, b)" using p_rest_Cons(1)[of p "item tk"] r h(1) ab by simp
  show ?case using h(2) ab
    by (simp add: parse_loop.simps[of re ho p] look q(1) p_rest_Cons(2)[OF q(2)] item_token Selector_Add_def)
next
  case (3 r s sel)
  obtain tk ts where h: "req_tokens r = tk # ts" "fst (in_context Values (item tk)) \<in> {IdentifierToken, DoesNotExistToken}"
    using req_tokens_head[OF assms(1), of r] 3 by auto
  obtain a b where ab: "in_context Values (item tk) = (a, b)" by force
  have "\<exists>u. sel_tokens (s # sel) = req_tokens s @ u" by (cases sel) auto
  then obtain tk2 ts2 where h2: "sel_tokens (s # sel) = tk2 # ts2"
      "fst (in_context Values (item tk2)) \<in> {IdentifierToken, DoesNotExistToken}"
    using req_tokens_head[OF assms(1), of s] 3 by auto
  obtain c d where cd: "in_context Values (item tk2) = (c, d)" by force
  have r: "p_rest p = map item (req_tokens r) @ item (wt '','') # map item (sel_tokens (s # sel))" using 3 by simp
  obtain q where q: "ParseRequirement re ho p = Ok (canon ho r, q)"
      "p_rest q = item (wt '','') # map item (sel_tokens (s # sel))"
    using ParseRequirement_tokens[OF assms _ r] 3 by (auto simp: item_token)
  note q1 = p_rest_Cons(3)[OF q(2)]
  have look: "Lookahead p Values = Ok (a, b)" using p_rest_Cons(1)[of p "item tk"] r h(1) ab by simp
  have look2: "Lookahead (p_next q) Values = Ok (c, d)" using p_rest_Cons(1)[of "p_next q" "item tk2"] q1 h2(1) cd by simp
  have "parse_loop re ho p rs = parse_loop re ho (p_next q) (rs @ [canon ho r])"
    using h(2) ab h2(2) cd
    by (auto simp add: parse_loop.simps[of re ho p] look q(1) p_rest_Cons(2)[OF q(2)] look2 item_token Selector_Add_def)
  also have "\<dots> = Ok ((rs @ [canon ho r]) @ map (canon ho) (s # sel))" using 3 q1 by (intro 3(1)) auto
  finally show ?case by simp
qed

text \<open>
  C15. Printing and parsing selectors: the text of a selector whose requirements pass the checks and
  whose values are valid label values parses, and gives the same requirements sorted by key (in a
  stable way), each with its values once, in the order of the hash set.
\<close>

theorem Selector_String_Parse_roundtrip:
  assumes "regex_ok re" "hash_order ho" "list_all (printable re) sel"
  shows "Parse re ho (Selector_String sel) = Ok (Selector_Sort (map (canon ho) sel))"
proof -
  obtain q where q: "Parse re ho (Selector_String sel) = and_then (parse_loop re ho q []) (\<lambda>items. Ok (Selector_Sort items))"
      "scanItems q = map item (tokens (Selector_String sel))" "position q = 0"
    using Parse_eq by blast
  have "p_rest q = map item (sel_tokens sel)"
    using q tokens_selector[OF assms(1,3)] by (simp add: p_rest_def)
  then show ?thesis using parse_loop_tokens[OF assms(1,2,3), of q "[]"] by (simp add: q(1))
qed

definition ex_sel :: Selector where
  "ex_sel = [\<lparr>rq_key = ''zone'', rq_op = OpIn, strVals = [''b'', ''a'']\<rparr>,
     \<lparr>rq_key = ''inferx.net/in'', rq_op = Equals, strVals = [''notin'']\<rparr>, \<lparr>rq_key = ''gpu'', rq_op = DoesNotExist, strVals = []\<rparr>]"

theorem Selector_String_Parse_roundtrip_witness:
  "Parse rx_engine rev ''zone in (a,b),inferx.net/in=notin,!gpu'' =
     Ok [\<lparr>rq_key = ''gpu'', rq_op = DoesNotExist, strVals = []\<rparr>,
         \<lparr>rq_key = ''inferx.net/in'', rq_op = Equals, strVals = [''notin'']\<rparr>,
         \<lparr>rq_key = ''zone'', rq_op = OpIn, strVals = [''b'', ''a'']\<rparr>]"
proof -
  have "hash_order rev" by (simp add: hash_order_def)
  moreover have "list_all (printable rx_engine) ex_sel" by code_simp
  moreover have "Selector_String ex_sel = ''zone in (a,b),inferx.net/in=notin,!gpu''" by code_simp
  moreover have "Selector_Sort (map (canon rev) ex_sel) =
     [\<lparr>rq_key = ''gpu'', rq_op = DoesNotExist, strVals = []\<rparr>,
      \<lparr>rq_key = ''inferx.net/in'', rq_op = Equals, strVals = [''notin'']\<rparr>,
      \<lparr>rq_key = ''zone'', rq_op = OpIn, strVals = [''b'', ''a'']\<rparr>]"
    by code_simp
  ultimately show ?thesis using Selector_String_Parse_roundtrip[OF regex_ok_rx_engine, of rev ex_sel] by simp
qed

text \<open>The trailing comma that a comment of the source says is handled is an error.\<close>

lemma trailing_comma_rejected: "\<not> is_ok (Parse rx_engine (\<lambda>x. x) ''x in (a,)'')"
  by code_simp

end
