(* ===== verification/Bi_Index.thy ===== *)
theory Bi_Index
  imports BTree_Map Common
begin

text \<open>
  The two-way index of \<open>src/ixshare/src/scheduler/scheduler.rs\<close> and the snapshot schedule states kept in
  it. The index stores each entry twice; the invariant \<open>bi_ok\<close> says that both sides hold the same
  entries and no empty inner map, and under it the index is a keyed store over pairs of ids.
\<close>

section \<open>Nested maps\<close>

type_synonym 'v nested = "(string, (string, 'v) btmap) btmap"

definition nested_get :: "'v nested \<Rightarrow> string \<Rightarrow> string \<Rightarrow> 'v option" where
  "nested_get m i j = (case bt_get i m of None \<Rightarrow> None | Some x \<Rightarrow> bt_get j x)"

text \<open>\<open>m.entry(i).or_default().insert(j, v)\<close>\<close>

definition nested_insert :: "string \<Rightarrow> string \<Rightarrow> 'v \<Rightarrow> 'v nested \<Rightarrow> 'v nested" where
  "nested_insert i j v m =
     bt_insert i (bt_insert j v (case bt_get i m of None \<Rightarrow> [] | Some x \<Rightarrow> x)) m"

text \<open>Remove from the inner map, and the inner map when nothing is left of it.\<close>

definition nested_remove :: "string \<Rightarrow> string \<Rightarrow> 'v nested \<Rightarrow> 'v nested" where
  "nested_remove i j m =
     (case bt_get i m of
        None \<Rightarrow> m
      | Some x \<Rightarrow>
          let x' = bt_remove j x in
          if length x' = 0 then bt_remove i m else bt_insert i x' m)"

section \<open>The index\<close>

record 'v BiIndex =
  byId1 :: "'v nested"
  byId2 :: "'v nested"

definition BiIndex_New :: "'v BiIndex" where
  "BiIndex_New = \<lparr>byId1 = [], byId2 = []\<rparr>"

definition Get12 :: "'v BiIndex \<Rightarrow> string \<Rightarrow> string \<Rightarrow> 'v option" where
  "Get12 self id1 id2 = nested_get (byId1 self) id1 id2"

definition Get21 :: "'v BiIndex \<Rightarrow> string \<Rightarrow> string \<Rightarrow> 'v option" where
  "Get21 self id2 id1 = nested_get (byId2 self) id2 id1"

text \<open>The index, and whether it changed.\<close>

definition BiIndex_Set :: "'v BiIndex \<Rightarrow> string \<Rightarrow> string \<Rightarrow> 'v \<Rightarrow> 'v BiIndex \<times> bool" where
  "BiIndex_Set self id1 id2 info =
     (if Get12 self id1 id2 = Some info then (self, False)
      else (\<lparr>byId1 = nested_insert id1 id2 info (byId1 self),
             byId2 = nested_insert id2 id1 info (byId2 self)\<rparr>, True))"

definition RemovePair :: "'v BiIndex \<Rightarrow> string \<Rightarrow> string \<Rightarrow> 'v BiIndex" where
  "RemovePair self id1 id2 =
     \<lparr>byId1 = nested_remove id1 id2 (byId1 self), byId2 = nested_remove id2 id1 (byId2 self)\<rparr>"

definition RemoveById1 :: "'v BiIndex \<Rightarrow> string \<Rightarrow> 'v BiIndex" where
  "RemoveById1 self id1 =
     (case bt_get id1 (byId1 self) of
        None \<Rightarrow> self
      | Some m2 \<Rightarrow>
          \<lparr>byId1 = bt_remove id1 (byId1 self),
           byId2 = fold (\<lambda>id2 m. nested_remove id2 id1 m) (bt_keys m2) (byId2 self)\<rparr>)"

definition RemoveById2 :: "'v BiIndex \<Rightarrow> string \<Rightarrow> 'v BiIndex" where
  "RemoveById2 self id2 =
     (case bt_get id2 (byId2 self) of
        None \<Rightarrow> self
      | Some m1 \<Rightarrow>
          \<lparr>byId1 = fold (\<lambda>id1 m. nested_remove id1 id2 m) (bt_keys m1) (byId1 self),
           byId2 = bt_remove id2 (byId2 self)\<rparr>)"

definition GetById1 :: "'v BiIndex \<Rightarrow> string \<Rightarrow> (string, 'v) btmap option" where
  "GetById1 self id1 = bt_get id1 (byId1 self)"

definition GetById2 :: "'v BiIndex \<Rightarrow> string \<Rightarrow> (string, 'v) btmap option" where
  "GetById2 self id2 = bt_get id2 (byId2 self)"

definition BiIndex_Len :: "'v BiIndex \<Rightarrow> nat" where
  "BiIndex_Len self = sum_list (map length (bt_values (byId1 self)))"

definition BiIndex_IsEmpty :: "'v BiIndex \<Rightarrow> bool" where
  "BiIndex_IsEmpty self \<longleftrightarrow> length (byId1 self) = 0"

section \<open>Snapshot schedule states\<close>

datatype SnapshotScheduleState =
  SSInit | SSDone | SSScheduled | SSScheduleFail string | SSCannot string | SSWaiting string

fun StateName :: "SnapshotScheduleState \<Rightarrow> string" where
  "StateName SSInit = ''Init''"
| "StateName SSDone = ''Done''"
| "StateName SSScheduled = ''Scheduled''"
| "StateName (SSScheduleFail _) = ''ScheduleFail''"
| "StateName (SSCannot _) = ''Cannot''"
| "StateName (SSWaiting _) = ''Waiting''"

fun Detail :: "SnapshotScheduleState \<Rightarrow> string" where
  "Detail SSInit = ''Init''"
| "Detail SSDone = ''Done''"
| "Detail SSScheduled = ''Scheduled''"
| "Detail (SSScheduleFail s) = s"
| "Detail (SSCannot s) = s"
| "Detail (SSWaiting s) = s"

record SnapshotScheduleInfo =
  ssi_funcId :: string
  ssi_nodename :: string
  ssi_state :: SnapshotScheduleState

definition SnapshotScheduleInfo_New :: "string \<Rightarrow> string \<Rightarrow> SnapshotScheduleState \<Rightarrow> SnapshotScheduleInfo" where
  "SnapshotScheduleInfo_New funcId nodename state =
     \<lparr>ssi_funcId = funcId, ssi_nodename = nodename, ssi_state = state\<rparr>"

section \<open>Laws of nested maps\<close>

definition nested_ok :: "'v nested \<Rightarrow> bool" where
  "nested_ok m \<longleftrightarrow> bt_ok m \<and> (\<forall>(i, x) \<in> set m. bt_ok x \<and> x \<noteq> [])"

lemma nested_ok_get: "nested_ok m \<longleftrightarrow> bt_ok m \<and> (\<forall>i x. bt_get i m = Some x \<longrightarrow> bt_ok x \<and> x \<noteq> [])"
  unfolding nested_ok_def using bt_get_mem_iff by (fastforce split: prod.splits)

lemma nested_get_insert [simp]:
  "nested_get (nested_insert i j v m) i' j' = (if i' = i \<and> j' = j then Some v else nested_get m i' j')"
  by (auto simp: nested_get_def nested_insert_def split: option.splits)

lemma nested_ok_insert [simp]: "nested_ok m \<Longrightarrow> nested_ok (nested_insert i j v m)"
  by (auto simp: nested_ok_get nested_insert_def split: option.splits if_splits)

lemma bt_get_empty: "bt_remove j x = [] \<Longrightarrow> j' \<noteq> j \<Longrightarrow> bt_get j' x = None"
  by (metis bt_get_Nil bt_get_remove)

lemma nested_get_remove [simp]:
  "nested_get (nested_remove i j m) i' j' = (if i' = i \<and> j' = j then None else nested_get m i' j')"
  by (auto simp: nested_get_def nested_remove_def Let_def bt_get_empty split: option.splits)

lemma nested_ok_remove [simp]: "nested_ok m \<Longrightarrow> nested_ok (nested_remove i j m)"
  by (auto simp: nested_ok_get nested_remove_def Let_def split: option.splits if_splits)

lemma nested_ok_outer_remove [simp]: "nested_ok m \<Longrightarrow> nested_ok (bt_remove i m)"
  by (auto simp: nested_ok_get)

lemma nested_get_outer_remove [simp]:
  "nested_get (bt_remove i m) i' j' = (if i' = i then None else nested_get m i' j')"
  by (simp add: nested_get_def)

lemma fold_nested_remove:
  "nested_get (fold (\<lambda>j m. nested_remove j i m) js m) j' i' = (if j' \<in> set js \<and> i' = i then None else nested_get m j' i')"
  by (induction js arbitrary: m) auto

lemma nested_ok_fold_remove: "nested_ok m \<Longrightarrow> nested_ok (fold (\<lambda>j m. nested_remove j i m) js m)"
  by (induction js arbitrary: m) auto

lemma nested_some: "nested_ok m \<Longrightarrow> bt_get i m = Some x \<Longrightarrow> \<exists>j v. nested_get m i j = Some v"
proof -
  assume "nested_ok m" and x: "bt_get i m = Some x"
  then have "x \<noteq> []" by (simp add: nested_ok_get)
  then show ?thesis using x by (cases x) (auto simp: nested_get_def bt_get_Cons)
qed

lemma nested_ext:
  assumes "nested_ok m" "nested_ok n" "\<And>i j. nested_get m i j = nested_get n i j"
  shows "m = n"
proof (rule bt_ok_eqI)
  show "bt_get i m = bt_get i n" for i
  proof (cases "bt_get i m"; cases "bt_get i n")
    fix x y assume xy: "bt_get i m = Some x" "bt_get i n = Some y"
    then have "bt_get j x = bt_get j y" for j using assms(3)[of i j] by (simp add: nested_get_def)
    then show ?thesis using assms(1,2) xy bt_ok_eqI[of x y] by (simp add: nested_ok_get)
  next
    fix x assume "bt_get i m = Some x" "bt_get i n = None"
    then show ?thesis using nested_some[OF assms(1)] assms(3)[of i] by (fastforce simp: nested_get_def)
  next
    fix y assume "bt_get i m = None" "bt_get i n = Some y"
    then show ?thesis using nested_some[OF assms(2)] assms(3)[of i] by (fastforce simp: nested_get_def)
  qed simp
qed (use assms in \<open>auto simp: nested_ok_get\<close>)

section \<open>The invariant of the index\<close>

definition bi_ok :: "'v BiIndex \<Rightarrow> bool" where
  "bi_ok b \<longleftrightarrow> nested_ok (byId1 b) \<and> nested_ok (byId2 b) \<and> (\<forall>i j. Get12 b i j = Get21 b j i)"

lemma bi_ok_New: "bi_ok BiIndex_New"
  by (simp add: bi_ok_def BiIndex_New_def nested_ok_def Get12_def Get21_def nested_get_def)

lemma bi_ok_Set [inv_intros]: "bi_ok b \<Longrightarrow> bi_ok (fst (BiIndex_Set b i j v))"
  by (auto simp: bi_ok_def BiIndex_Set_def Get12_def Get21_def)

lemma bi_ok_RemovePair [inv_intros]: "bi_ok b \<Longrightarrow> bi_ok (RemovePair b i j)"
  by (auto simp: bi_ok_def RemovePair_def Get12_def Get21_def)

lemma RemoveById1_get:
  assumes "bi_ok b"
  shows "Get12 (RemoveById1 b i) i' j = (if i' = i then None else Get12 b i' j)"
    and "Get21 (RemoveById1 b i) j i' = (if i' = i then None else Get21 b j i')"
proof -
  show "Get12 (RemoveById1 b i) i' j = (if i' = i then None else Get12 b i' j)"
    by (auto simp: RemoveById1_def Get12_def nested_get_def split: option.splits)
  have sym: "Get21 b j i = Get12 b i j" using assms by (simp add: bi_ok_def)
  show "Get21 (RemoveById1 b i) j i' = (if i' = i then None else Get21 b j i')"
  proof (cases "bt_get i (byId1 b)")
    case None
    then show ?thesis using sym by (auto simp: RemoveById1_def Get12_def nested_get_def)
  next
    case (Some x)
    then have "j \<notin> set (bt_keys x) \<Longrightarrow> Get12 b i j = None"
      by (simp add: Get12_def nested_get_def bt_get_None_iff)
    then show ?thesis using Some sym by (auto simp: RemoveById1_def Get21_def fold_nested_remove)
  qed
qed

lemma RemoveById2_get:
  assumes "bi_ok b"
  shows "Get21 (RemoveById2 b j) j' i = (if j' = j then None else Get21 b j' i)"
    and "Get12 (RemoveById2 b j) i j' = (if j' = j then None else Get12 b i j')"
proof -
  show "Get21 (RemoveById2 b j) j' i = (if j' = j then None else Get21 b j' i)"
    by (auto simp: RemoveById2_def Get21_def nested_get_def split: option.splits)
  have sym: "Get12 b i j = Get21 b j i" using assms by (simp add: bi_ok_def)
  show "Get12 (RemoveById2 b j) i j' = (if j' = j then None else Get12 b i j')"
  proof (cases "bt_get j (byId2 b)")
    case None
    then show ?thesis using sym by (auto simp: RemoveById2_def Get21_def nested_get_def)
  next
    case (Some x)
    then have "i \<notin> set (bt_keys x) \<Longrightarrow> Get21 b j i = None"
      by (simp add: Get21_def nested_get_def bt_get_None_iff)
    then show ?thesis using Some sym by (auto simp: RemoveById2_def Get12_def fold_nested_remove)
  qed
qed

lemma bi_ok_RemoveById1 [inv_intros]: "bi_ok b \<Longrightarrow> bi_ok (RemoveById1 b i)"
  using RemoveById1_get[of b i]
  by (auto simp: bi_ok_def RemoveById1_def nested_ok_fold_remove split: option.splits)

lemma bi_ok_RemoveById2 [inv_intros]: "bi_ok b \<Longrightarrow> bi_ok (RemoveById2 b j)"
  using RemoveById2_get[of b j]
  by (auto simp: bi_ok_def RemoveById2_def nested_ok_fold_remove split: option.splits)

lemma bi_ext: "bi_ok a \<Longrightarrow> bi_ok b \<Longrightarrow> (\<And>i j. Get12 a i j = Get12 b i j) \<Longrightarrow> a = b"
proof -
  assume h: "bi_ok a" "bi_ok b" "\<And>i j. Get12 a i j = Get12 b i j"
  have "byId1 a = byId1 b" using h by (intro nested_ext) (auto simp: bi_ok_def Get12_def)
  moreover have "byId2 a = byId2 b"
    using h by (intro nested_ext) (auto simp: bi_ok_def Get21_def[symmetric])
  ultimately show ?thesis by (cases a; cases b) simp
qed

lemma Get12_Set: "Get12 (fst (BiIndex_Set b i j v)) i' j' = (if i' = i \<and> j' = j then Some v else Get12 b i' j')"
  by (auto simp: BiIndex_Set_def Get12_def)

lemma Get12_RemovePair: "Get12 (RemovePair b i j) i' j' = (if i' = i \<and> j' = j then None else Get12 b i' j')"
  by (simp add: RemovePair_def Get12_def)

interpretation bix: keyed_store "\<lambda>(i, j) b. Get12 b i j" "\<lambda>(i, j) v b. fst (BiIndex_Set b i j v)"
  "\<lambda>(i, j) b. RemovePair b i j" bi_ok
  by unfold_locales (auto simp: Get12_Set Get12_RemovePair intro: inv_intros bi_ext split: prod.splits)

section \<open>Histories of the index\<close>

datatype 'v bi_op = OpSet string string 'v | OpPair string string | OpId1 string | OpId2 string

fun bi_step :: "'v bi_op \<Rightarrow> 'v BiIndex \<Rightarrow> 'v BiIndex" where
  "bi_step (OpSet i j v) b = fst (BiIndex_Set b i j v)"
| "bi_step (OpPair i j) b = RemovePair b i j"
| "bi_step (OpId1 i) b = RemoveById1 b i"
| "bi_step (OpId2 j) b = RemoveById2 b j"

fun bi_spec :: "'v bi_op \<Rightarrow> (string \<times> string \<Rightarrow> 'v option) \<Rightarrow> (string \<times> string \<Rightarrow> 'v option)" where
  "bi_spec (OpSet i j v) m = m((i, j) \<mapsto> v)"
| "bi_spec (OpPair i j) m = m((i, j) := None)"
| "bi_spec (OpId1 i) m = (\<lambda>(a, b). if a = i then None else m (a, b))"
| "bi_spec (OpId2 j) m = (\<lambda>(a, b). if b = j then None else m (a, b))"

definition bi_abs :: "'v BiIndex \<Rightarrow> string \<times> string \<Rightarrow> 'v option" where
  "bi_abs b = (\<lambda>(i, j). Get12 b i j)"

lemma bi_ok_step: "bi_ok b \<Longrightarrow> bi_ok (bi_step p b)"
  by (cases p) (auto intro: inv_intros)

lemma bi_step_spec: "bi_ok b \<Longrightarrow> bi_abs (bi_step p b) = bi_spec p (bi_abs b)"
  using bix.get_put[of b] bix.get_del[of b] RemoveById1_get(1)[of b] RemoveById2_get(2)[of b]
  by (cases p) (auto simp: bi_abs_def fun_eq_iff)

lemma bi_history: "bi_ok b \<Longrightarrow> bi_ok (fold bi_step ps b) \<and> bi_abs (fold bi_step ps b) = fold bi_spec ps (bi_abs b)"
  by (induction ps arbitrary: b) (auto simp: bi_ok_step bi_step_spec)

text \<open>
  C19. The two-way index implements a map from pairs: after any sequence of \<open>Set\<close>, \<open>RemovePair\<close>,
  \<open>RemoveById1\<close> and \<open>RemoveById2\<close> on a new index, both lookups give what the same operations give
  on a plain map of pairs, and no inner map is left empty.
\<close>

theorem BiIndex_refines_pair_map:
  "bi_ok (fold bi_step ps BiIndex_New) \<and>
   Get12 (fold bi_step ps BiIndex_New) i j = fold bi_spec ps (\<lambda>_. None) (i, j) \<and>
   Get21 (fold bi_step ps BiIndex_New) j i = fold bi_spec ps (\<lambda>_. None) (i, j)"
proof -
  have "bi_abs (BiIndex_New :: 'a BiIndex) = (\<lambda>_. None)"
    by (auto simp: bi_abs_def BiIndex_New_def Get12_def nested_get_def)
  then have h: "bi_ok (fold bi_step ps BiIndex_New)"
      "bi_abs (fold bi_step ps BiIndex_New) (i, j) = fold bi_spec ps (\<lambda>_. None) (i, j)"
    using bi_history[OF bi_ok_New, of ps] by auto
  then show ?thesis by (auto simp: bi_ok_def bi_abs_def)
qed

end
