(* ===== verification/Peer_Mgr.thy ===== *)
theory Peer_Mgr
  imports Common
begin

text \<open>
  The peer table of the scheduler and the gateway (\<open>src/ixshare/src/peer_mgr.rs\<close>): which node serves a
  block of pod addresses, the pod network test, and the fixed-size connection request of the pod
  network; \<open>FromString\<close> and \<open>ToString\<close> of \<open>IpAddress\<close> (\<open>src/ixshare/src/common.rs\<close>) with the IPv4 parser
  of the standard library. The hash map is a partial function. Socket input and output is not modelled.
\<close>

section \<open>Addresses as text\<close>

definition octet_of :: "string \<Rightarrow> nat option" where
  "octet_of s = (if s \<noteq> [] \<and> length s \<le> 3 \<and> list_all is_digit s \<and> (length s = 1 \<or> hd s \<noteq> CHR ''0'')
     then (let n = foldl (\<lambda>a c. 10 * a + (of_char c - 48)) 0 s in if n < 256 then Some n else None)
     else None)"

text \<open>\<open>Ipv4Addr::from_str\<close>: four decimal octets without leading zeros.\<close>

definition parse_ipv4 :: "string \<Rightarrow> 8 word list option" where
  "parse_ipv4 s = (case map octet_of (split_on CHR ''.'' s) of
       [Some a, Some b, Some c, Some d] \<Rightarrow> Some [of_nat a, of_nat b, of_nat c, of_nat d]
     | _ \<Rightarrow> None)"

definition IpAddress_FromString :: "string \<Rightarrow> (32 word, error) res" where
  "IpAddress_FromString s = (case parse_ipv4 s of
       None \<Rightarrow> Err (CommonError (''IpAddress fail to parse '' @ s))
     | Some octets \<Rightarrow> IpAddress_New octets)"

definition IpAddress_ToString :: "32 word \<Rightarrow> string" where
  "IpAddress_ToString ip = join_with ''.'' (map (\<lambda>b. show_nat (unat b)) (IpAddress_AsBytes ip))"

section \<open>Peers\<close>

definition MASK_BITS :: nat where
  "MASK_BITS = 12"

record Peer =
  hostIp :: "32 word"
  pr_port :: "16 word"
  cidrAddr :: "32 word"

definition Peer_New :: "32 word \<Rightarrow> 16 word \<Rightarrow> 32 word \<Rightarrow> Peer" where
  "Peer_New h p c = \<lparr>hostIp = h, pr_port = p, cidrAddr = c\<rparr>"

record PeerMgr =
  peers :: "32 word \<rightharpoonup> Peer"
  pm_maskbits :: nat
  pm_mask :: "32 word"
  pm_cidr :: "32 word"

unbundle bit_operations_syntax

text \<open>The octets of the node's network, with the third one cleared; the prefix length is not used.\<close>

definition PeerMgr_New :: "8 word list \<Rightarrow> (PeerMgr, error) res" where
  "PeerMgr_New octets =
     (let maskbits = MASK_BITS; mask = NOT (push_bit maskbits 1 - 1) in
      and_then (rassert (length octets = 4)) (\<lambda>_.
      and_then (IpAddress_New (octets[2 := 0])) (\<lambda>cidr.
      Ok \<lparr>peers = Map.empty, pm_maskbits = maskbits, pm_mask = mask, pm_cidr = cidr\<rparr>)))"

definition BelongCidr :: "PeerMgr \<Rightarrow> 32 word \<Rightarrow> bool" where
  "BelongCidr self ip = (ip AND 0xff000000 = pm_cidr self)"

definition AddPeer :: "PeerMgr \<Rightarrow> 32 word \<Rightarrow> 16 word \<Rightarrow> 32 word \<Rightarrow> (PeerMgr, error) res" where
  "AddPeer self h p c =
     (if peers self c \<noteq> None then Err (Exist ''PeerMgr::AddPeer get existing peer'')
      else Ok (self\<lparr>peers := (peers self)(c \<mapsto> Peer_New h p c)\<rparr>))"

definition RemovePeer :: "PeerMgr \<Rightarrow> 32 word \<Rightarrow> (PeerMgr, error) res" where
  "RemovePeer self c =
     (case peers self c of
        None \<Rightarrow> Err (NotExist ''PeerMgr::RemovePeer'')
      | Some _ \<Rightarrow> Ok (self\<lparr>peers := (peers self)(c := None)\<rparr>))"

definition LookforPeer :: "PeerMgr \<Rightarrow> 32 word \<Rightarrow> (Peer, error) res" where
  "LookforPeer self ip =
     (case peers self (ip AND pm_mask self) of
        None \<Rightarrow> Err (PeerNotExist ''PeerMgr::LookforPeer'')
      | Some peer \<Rightarrow> Ok peer)"

section \<open>The connection request of the pod network\<close>

text \<open>Well-formed UTF-8 (\<open>std::str::from_utf8\<close>), on byte values.\<close>

definition cont :: "nat \<Rightarrow> bool" where
  "cont b \<longleftrightarrow> 128 \<le> b \<and> b < 192"

fun utf8_ok :: "nat list \<Rightarrow> bool" where
  "utf8_ok [] = True"
| "utf8_ok (a # bs) =
     (if a < 128 then utf8_ok bs
      else if 194 \<le> a \<and> a < 224 then
        (case bs of b # r \<Rightarrow> cont b \<and> utf8_ok r | _ \<Rightarrow> False)
      else if 224 \<le> a \<and> a < 240 then
        (case bs of b # c # r \<Rightarrow> cont b \<and> cont c \<and> (a = 224 \<longrightarrow> 160 \<le> b) \<and> (a = 237 \<longrightarrow> b < 160) \<and> utf8_ok r
         | _ \<Rightarrow> False)
      else if 240 \<le> a \<and> a < 245 then
        (case bs of b # c # d # r \<Rightarrow> cont b \<and> cont c \<and> cont d \<and> (a = 240 \<longrightarrow> 144 \<le> b) \<and> (a = 244 \<longrightarrow> b < 144) \<and> utf8_ok r
         | _ \<Rightarrow> False)
      else False)"

record TsotConnReq =
  podNamespace :: "char list"
  tc_dstIp :: "32 word"
  tc_dstPort :: "16 word"
  tc_srcIp :: "32 word"
  tc_srcPort :: "16 word"

text \<open>The loop of \<open>Connect\<close> that copies the namespace into the 64 bytes of the request.\<close>

definition fill_namespace :: "string \<Rightarrow> string \<Rightarrow> (char list, error) res" where
  "fill_namespace tenant namespace =
     (let s = tenant @ ''/'' @ namespace in
      rfold (\<lambda>i a. and_then (rassert (i < length a)) (\<lambda>_. Ok (a[i := s ! i]))) [0..<length s]
        (replicate 64 (char_of (0::nat))))"

definition str_from_utf8 :: "char list \<Rightarrow> (string, error) res" where
  "str_from_utf8 bs = (if utf8_ok (map of_char bs) then Ok bs else Err Utf8Error)"

definition GetNamespace :: "TsotConnReq \<Rightarrow> (string, error) res" where
  "GetNamespace self =
     (let s = takeWhile (\<lambda>c. c \<noteq> char_of (0::nat)) (podNamespace self)
      in if length s < length (podNamespace self) \<and> s = [] then Ok ''Default'' else str_from_utf8 s)"

section \<open>Lemmas\<close>

lemma show_nat_step: "10 \<le> n \<Longrightarrow> show_nat n = show_nat (n div 10) @ [char_of (48 + n mod 10)]"
  by (subst show_nat.simps) simp

lemma show_nat_digit: "n < 10 \<Longrightarrow> show_nat n = [char_of (48 + n)]"
  by (subst show_nat.simps) simp

lemma foldl_show_nat: "foldl (\<lambda>a c. 10 * a + (of_char c - 48)) 0 (show_nat n) = n"
proof (induction n rule: show_nat.induct)
  case (1 n)
  then show ?case by (cases "n < 10") (simp_all add: show_nat_digit show_nat_step of_char_digit)
qed

lemma hd_show_nat: "0 < n \<Longrightarrow> hd (show_nat n) \<noteq> CHR ''0''"
proof (induction n rule: show_nat.induct)
  case (1 n)
  have "char_of (48 + n) \<noteq> CHR ''0''" if "n < 10"
  proof
    assume "char_of (48 + n) = CHR ''0''"
    then have "(of_char (char_of (48 + n)) :: nat) = of_char CHR ''0''" by (simp only:)
    then show False using of_char_digit[OF that] "1.prems" by simp
  qed
  then show ?case using "1.IH" by (cases "n < 10") (simp_all add: show_nat_digit show_nat_step hd_append)
qed

lemma octet_of_show: "n < 256 \<Longrightarrow> octet_of (show_nat n) = Some n"
proof -
  assume n: "n < 256"
  then have "length (show_nat n) \<le> 3"
    by (cases "n < 10"; cases "n < 100") (simp_all add: show_nat_digit show_nat_step)
  moreover have "list_all is_digit (show_nat n)" using show_nat_digits by (simp add: list_all_iff)
  moreover have "length (show_nat n) = 1 \<or> hd (show_nat n) \<noteq> CHR ''0''"
    using hd_show_nat[of n] by (cases "n = 0") (simp_all add: show_nat_digit)
  ultimately show ?thesis using n by (simp add: octet_of_def foldl_show_nat)
qed

lemma show_nat_no_dot: "CHR ''.'' \<notin> set (show_nat n)"
proof
  assume "CHR ''.'' \<in> set (show_nat n)"
  then have "is_digit CHR ''.''" by (rule show_nat_digits)
  then show False by (simp add: is_digit_def less_eq_char_def)
qed

lemma parse_ipv4_show:
  fixes a b c d :: "8 word"
  shows "parse_ipv4 (join_with ''.'' [show_nat (unat a), show_nat (unat b), show_nat (unat c), show_nat (unat d)]) = Some [a, b, c, d]"
proof -
  have "unat w < 256" for w :: "8 word" using unsigned_less[of w] by simp
  then show ?thesis
    by (simp add: parse_ipv4_def split_on_append_sep split_on_no_sep show_nat_no_dot octet_of_show)
qed

lemma FromString_ToString: "IpAddress_FromString (IpAddress_ToString ip) = Ok ip"
proof -
  obtain a b c d where abcd: "IpAddress_AsBytes ip = [a, b, c, d]" by (simp add: IpAddress_AsBytes_def)
  then have "parse_ipv4 (IpAddress_ToString ip) = Some (IpAddress_AsBytes ip)"
    using parse_ipv4_show[of a b c d] by (simp add: IpAddress_ToString_def)
  then show ?thesis by (simp add: IpAddress_FromString_def IpAddress_roundtrip)
qed

text \<open>The block of an address: its upper 20 bits.\<close>

lemma block_of: "(ip :: 32 word) AND NOT (mask 12) = push_bit 12 (drop_bit 12 ip)"
  by (rule bit_eqI) (auto simp: bit_simps)

lemma drop_block: "drop_bit 12 ((ip :: 32 word) AND NOT (mask 12)) = drop_bit 12 ip"
  by (rule bit_eqI) (auto simp: bit_simps dest: bit_imp_le_length)

lemma block_eq_iff:
  "(ip :: 32 word) AND NOT (mask 12) = c AND NOT (mask 12) \<longleftrightarrow> drop_bit 12 ip = drop_bit 12 c"
  by (metis block_of drop_block)

lemma unat_block: "unat (drop_bit 12 (ip :: 32 word)) = unat ip div 4096"
  unfolding unat_drop_bit_eq by (simp add: drop_bit_eq_div)

lemma same_block_iff:
  "(ip :: 32 word) AND NOT (mask 12) = c AND NOT (mask 12) \<longleftrightarrow> unat ip div 4096 = unat c div 4096"
  using unat_block[of ip] unat_block[of c] by (metis block_eq_iff unsigned_word_eqI)

lemma PeerMgr_New_mask: "PeerMgr_New octets = Ok m \<Longrightarrow> pm_mask m = NOT (mask 12)"
  by (auto simp: PeerMgr_New_def MASK_BITS_def Let_def res_simps mask_eq_exp_minus_1)

section \<open>Properties\<close>

text \<open>
  Looking up a peer: after a peer is added for a block address, every pod address of that 4096
  address block finds it, and every other address finds what it found before; a peer added under an
  address that does not start a block is never found.
\<close>

theorem AddPeer_LookforPeer:
  assumes "PeerMgr_New octets = Ok m0" "pm_mask m = pm_mask m0" "AddPeer m h p c = Ok m'"
  shows "(if c AND 0xfff = 0
      then LookforPeer m' ip = (if unat ip div 4096 = unat c div 4096 then Ok (Peer_New h p c) else LookforPeer m ip)
      else LookforPeer m' ip = LookforPeer m ip)"
proof -
  have mk: "pm_mask m = NOT (mask 12)" using assms(1,2) PeerMgr_New_mask by simp
  have m': "m' = m\<lparr>peers := (peers m)(c \<mapsto> Peer_New h p c)\<rparr>"
    using assms(3) by (auto simp: AddPeer_def split: if_splits)
  have aligned: "c AND 0xfff = 0 \<longleftrightarrow> c AND NOT (mask 12) = c"
  proof -
    have "c AND 0xfff = c AND mask 12" by (simp add: mask_eq_exp_minus_1)
    moreover have "c = (c AND mask 12) OR (c AND NOT (mask 12))" by (rule bit_eqI) (auto simp: bit_simps)
    moreover have "(c AND NOT (mask 12)) AND mask 12 = 0" by (rule bit_eqI) (auto simp: bit_simps)
    ultimately show ?thesis by (metis or.left_neutral)
  qed
  have idem: "(ip AND NOT (mask 12)) AND NOT (mask 12) = ip AND NOT (mask 12)" by (simp add: and.assoc)
  show ?thesis
    using aligned idem same_block_iff[of ip c] unfolding LookforPeer_def m' by (auto simp: mk)
qed

theorem AddPeer_LookforPeer_witness:
  "\<exists>m m'. PeerMgr_New [10, 1, 1, 0] = Ok m \<and> AddPeer m 0xc0a80001 1234 0x0a012000 = Ok m' \<and>
     LookforPeer m' 0x0a012fff = Ok (Peer_New 0xc0a80001 1234 0x0a012000) \<and>
     LookforPeer m' 0x0a013000 = LookforPeer m 0x0a013000"
proof -
  obtain m where m: "PeerMgr_New [10, 1, 1, 0] = Ok m" "peers m = Map.empty"
    by (simp add: PeerMgr_New_def Let_def)
  obtain m' where m': "AddPeer m 0xc0a80001 1234 0x0a012000 = Ok m'" using m(2) by (simp add: AddPeer_def)
  show ?thesis
    using m(1) m' AddPeer_LookforPeer[OF m(1) refl m', of "0x0a012fff"] AddPeer_LookforPeer[OF m(1) refl m', of "0x0a013000"]
    by simp
qed

text \<open>
  The pod network test \<open>BelongCidr\<close> keeps only the first octet of the address but compares it with
  a network of which only the third octet was cleared: it can hold only if the second and the fourth
  octet of the configured network are zero. A node network such as 10.1.1.0 has no address that belongs
  to it.
\<close>

theorem BelongCidr_first_octet:
  assumes "PeerMgr_New [a, b, c, d] = Ok m"
  shows "BelongCidr m ip \<longleftrightarrow> b = 0 \<and> d = 0 \<and> IpAddress_AsBytes ip ! 0 = a"
proof -
  have c: "pm_cidr m = push_bit 24 (ucast a) OR push_bit 16 (ucast b) OR ucast d"
    using assms by (auto simp: PeerMgr_New_def Let_def)
  have top: "(0xff000000 :: 32 word) = push_bit 24 (mask 8)" by (simp add: mask_eq_exp_minus_1)
  have lhs: "bit (ip AND 0xff000000) n \<longleftrightarrow> 24 \<le> n \<and> bit ip n" for n
    unfolding top by (auto simp: bit_simps dest: bit_imp_le_length)
  have rhs: "bit (pm_cidr m) n \<longleftrightarrow> n < 32 \<and> (if n < 16 then bit d n else if n < 24 then bit b (n - 16) else bit a (n - 24))" for n
    unfolding c by (auto simp: bit_simps dest: bit_imp_le_length)
  show ?thesis (is "?L \<longleftrightarrow> ?R")
  proof
    assume ?L
    then have eq: "(24 \<le> n \<and> bit ip n) \<longleftrightarrow> bit (pm_cidr m) n" for n
      using lhs[of n] by (simp add: BelongCidr_def)
    have len: "bit w n \<Longrightarrow> n < 8" for w :: "8 word" and n using bit_imp_le_length[of w n] by simp
    have "\<not> bit b n" for n using eq[of "16 + n"] len[of b n] by (auto simp: rhs)
    moreover have "\<not> bit d n" for n using eq[of n] len[of d n] by (auto simp: rhs)
    moreover have "bit (ucast (drop_bit 24 ip) :: 8 word) n = bit a n" for n
      using eq[of "24 + n"] by (auto simp: rhs bit_simps dest: bit_imp_le_length)
    ultimately show ?R by (simp add: bit_eq_iff IpAddress_AsBytes_def)
  next
    assume R: ?R
    then have a: "a = ucast (drop_bit 24 ip)" "b = 0" "d = 0" by (simp_all add: IpAddress_AsBytes_def)
    show ?L unfolding BelongCidr_def
    proof (rule bit_eqI)
      fix n assume "possible_bit TYPE(32 word) n"
      then have "n < 32" by simp
      then show "bit (ip AND 0xff000000) n = bit (pm_cidr m) n"
        unfolding lhs rhs by (auto simp: a bit_simps)
    qed
  qed
qed

theorem BelongCidr_first_octet_witness:
  "\<exists>m. PeerMgr_New [10, 1, 1, 0] = Ok m \<and> (\<forall>ip. \<not> BelongCidr m ip)"
proof -
  obtain m where m: "PeerMgr_New [10, 1, 1, 0] = Ok m" by (simp add: PeerMgr_New_def Let_def)
  show ?thesis using m BelongCidr_first_octet[OF m] by simp
qed

text \<open>
  Addresses as text: printing an address and parsing it gives the address back.
\<close>

theorem IpAddress_text_roundtrip: "IpAddress_FromString (IpAddress_ToString ip) = Ok ip"
  by (rule FromString_ToString)

lemma fill_loop:
  assumes "n \<le> length a" "n \<le> length s"
  shows "rfold (\<lambda>i a. and_then (rassert (i < length a)) (\<lambda>_. Ok (a[i := s ! i]))) [0..<n] a = (Ok (take n s @ drop n a) :: ('a list, error) res)"
  using assms
proof (induction n)
  case (Suc n)
  have "(take n s @ drop n a)[n := s ! n] = take (Suc n) s @ drop (Suc n) a"
    using Suc.prems by (simp add: list_update_append take_Suc_conv_app_nth upd_conv_take_nth_drop Cons_nth_drop_Suc[symmetric])
  then show ?case using Suc by (simp add: rfold_append)
qed simp

lemma fill_namespace_long:
  assumes "length a < length s"
  shows "rfold (\<lambda>i a. and_then (rassert (i < length a)) (\<lambda>_. Ok (a[i := s ! i]))) [0..<length s] a = (Panic :: ('a list, error) res)"
proof -
  have "[0..<length s] = [0..<length a] @ length a # [Suc (length a)..<length s]"
    using assms upt_add_eq_append[of 0 "length a" "length s - length a"] by (simp add: upt_conv_Cons)
  then show ?thesis using fill_loop[of "length a" a s] assms by (simp add: rfold_append)
qed

lemma utf8_ascii: "(\<forall>b \<in> set bs. b < 128) \<Longrightarrow> utf8_ok bs"
  by (induction bs rule: utf8_ok.induct) auto

text \<open>
  The namespace of a connection request: names that fit the 64 bytes are read back as they were
  written, whatever their length up to the last byte; longer ones make \<open>Connect\<close> panic.
\<close>

theorem connect_namespace_roundtrip:
  assumes "\<forall>c \<in> set tenant \<union> set namespace. 0 < (of_char c :: nat) \<and> (of_char c :: nat) < 128"
  shows "if length tenant + length namespace < 64
     then \<exists>a. fill_namespace tenant namespace = Ok a \<and> length a = 64 \<and>
            GetNamespace \<lparr>podNamespace = a, tc_dstIp = di, tc_dstPort = dp, tc_srcIp = si, tc_srcPort = sp\<rparr>
              = Ok (tenant @ ''/'' @ namespace)
     else fill_namespace tenant namespace = Panic"
proof (cases "length tenant + length namespace < 64")
  case True
  define s where "s = tenant @ ''/'' @ namespace"
  let ?z = "char_of (0::nat)"
  let ?a = "s @ replicate (64 - length s) ?z"
  have len: "length s \<le> 64" "s \<noteq> []" using True by (simp_all add: s_def)
  have fill: "fill_namespace tenant namespace = Ok ?a"
    unfolding fill_namespace_def Let_def s_def[symmetric] using fill_loop[of "length s" "replicate 64 ?z" s] len by simp
  have ch: "0 < (of_char c :: nat) \<and> (of_char c :: nat) < 128" if "c \<in> set s" for c
    using assms that by (auto simp: s_def)
  then have "\<forall>c \<in> set s. c \<noteq> ?z" by fastforce
  then have tw: "takeWhile (\<lambda>c. c \<noteq> ?z) ?a = s"
    by (subst takeWhile_append2) (simp_all add: takeWhile_eq_Nil_iff)
  have "utf8_ok (map of_char s)" using ch by (intro utf8_ascii) auto
  then show ?thesis using True fill len
    by (simp add: GetNamespace_def tw Let_def str_from_utf8_def) (simp add: s_def)
next
  case False
  then show ?thesis
    using fill_namespace_long[of "replicate 64 (char_of (0::nat))" "tenant @ ''/'' @ namespace"]
    by (simp add: fill_namespace_def Let_def)
qed

theorem connect_namespace_roundtrip_witness:
  "fill_namespace (replicate 40 CHR ''t'') (replicate 24 CHR ''n'') = Panic"
  using connect_namespace_roundtrip[of "replicate 40 CHR ''t''" "replicate 24 CHR ''n''"] by simp

end
