(* ===== verification/Admission.thy ===== *)
theory Admission
  imports Func_Obj
begin

text \<open>
  Admission control of the state service (\<open>src/ixshare/src/state_svc/admission.rs\<close>) and the informer
  handler that keeps its view of tenants, namespaces and functions (\<open>ProcessDeltaEvent\<close> in
  \<open>src/ixshare/src/state_svc/state_svc.rs\<close>). An object arrives as JSON; the model has it read, with a
  constructor for an object whose JSON does not fit its type. The store behind the service is etcd: its
  answers are arguments.
\<close>

section \<open>Objects and state\<close>

definition SYSTEM_TENANT :: string where "SYSTEM_TENANT = ''system''"
definition SYSTEM_NAMESPACE :: string where "SYSTEM_NAMESPACE = ''system''"
definition PLATFORM_TENANT :: string where "PLATFORM_TENANT = ''inferx''"
definition PLATFORM_SHARED_NAMESPACE :: string where "PLATFORM_SHARED_NAMESPACE = ''endpoint''"

record NamespaceObject =
  nsp_disable :: bool

type_synonym Namespace = "NamespaceObject DataObject"

datatype AnyObj =
    TenantVal Tenant
  | NamespaceVal Namespace
  | FunctionVal Function
  | PolicyVal "FuncPolicySpec DataObject"
  | StatusVal FunctionStatus
  | OtherVal string
  | BadVal string

record StateSvc =
  tenantMgr :: "TenantObject DataObjectMgr"
  funcMgr :: "FuncObject DataObjectMgr"
  namespaceMgr :: "NamespaceObject DataObjectMgr"

section \<open>Checks\<close>

definition RejectVirtualEndpointsNamespace :: "string \<Rightarrow> string \<Rightarrow> (unit, error) res" where
  "RejectVirtualEndpointsNamespace t ns =
     (if t \<noteq> SYSTEM_TENANT \<and> ns = VIRTUAL_ENDPOINTS_NAMESPACE
      then Err (CommonError ''namespace endpoints is reserved for virtual endpoints; only FuncPolicy objects are allowed there'')
      else Ok ())"

definition ContainersNamespace :: "StateSvc \<Rightarrow> string \<Rightarrow> string \<Rightarrow> (unit, error) res" where
  "ContainersNamespace self t ns =
     (if \<not> DataObjectMgr_Contains (tenantMgr self) SYSTEM_TENANT SYSTEM_NAMESPACE t
      then Err (NotExist (''StateSvc has no tenant '' @ t))
      else if \<not> DataObjectMgr_Contains (namespaceMgr self) t SYSTEM_NAMESPACE ns
      then Err (NotExist (''StateSvc has no namespace '' @ t @ ''/'' @ ns))
      else Ok ())"

definition CreateTenantCheck :: "StateSvc \<Rightarrow> Tenant \<Rightarrow> (unit, error) res" where
  "CreateTenantCheck self tenant =
     (if do_tenant tenant \<noteq> SYSTEM_TENANT \<or> do_namespace tenant \<noteq> SYSTEM_NAMESPACE
      then Err (NotExist ''tenant must be created in tenant system  and namespace system'')
      else if DataObjectMgr_Contains (tenantMgr self) SYSTEM_TENANT SYSTEM_NAMESPACE (do_name tenant)
      then Err (Exist (''StateSvc has tenant '' @ do_name tenant))
      else Ok ())"

definition CreateNamespaceCheck :: "StateSvc \<Rightarrow> Namespace \<Rightarrow> (unit, error) res" where
  "CreateNamespaceCheck self ns =
     and_then (RejectVirtualEndpointsNamespace (do_tenant ns) (do_name ns)) (\<lambda>_.
     if \<not> DataObjectMgr_Contains (tenantMgr self) SYSTEM_TENANT SYSTEM_NAMESPACE (do_tenant ns)
     then Err (NotExist (''StateSvc has no tenant '' @ do_tenant ns))
     else if do_namespace ns \<noteq> SYSTEM_NAMESPACE
     then Err (NotExist (''namespace must be created in tenant '' @ do_tenant ns @ ''  and namespace system''))
     else if DataObjectMgr_Contains (namespaceMgr self) (do_tenant ns) (do_namespace ns) (do_name ns)
     then Err (Exist (''StateSvc exists namespace '' @ DataObject_Key ns))
     else Ok ())"

definition ValidateTenantFuncPolicyLimit :: "ResourceLimit \<Rightarrow> FuncPolicySpec \<Rightarrow> (unit, error) res" where
  "ValidateTenantFuncPolicyLimit limit p =
     (if minReplica p > minReplicaCap limit then Err (CommonError ''policy minReplica exceed limit'')
      else if maxReplica p > rl_maxReplica limit then Err (CommonError ''policy maxReplica exceed limit'')
      else if standbyPerNode p > maxStandby limit then Err (CommonError ''policy standbyPerNode exceed limit'')
      else if queueLen p > maxQueueLen limit then Err (CommonError ''policy QueueLen exceed limit'')
      else Ok ())"

definition FuncPolicyCheck :: "StateSvc \<Rightarrow> string \<Rightarrow> FuncPolicySpec \<Rightarrow> (unit, error) res" where
  "FuncPolicyCheck self t p =
     and_then (DataObjectMgr_Get (tenantMgr self) ''system'' ''system'' t) (\<lambda>tenant.
     ValidateTenantFuncPolicyLimit (resourceLimit (tn_spec (object tenant))) p)"

definition ValidateEndpointsFuncPolicy :: "string \<Rightarrow> FuncPolicySpec \<Rightarrow> (unit, error) res" where
  "ValidateEndpointsFuncPolicy ns p =
     (if ns \<noteq> VIRTUAL_ENDPOINTS_NAMESPACE then Ok ()
      else if minReplica p > 0
      then Err (CommonError ''min_replica is not supported for endpoints FuncPolicy; standby is controlled by the platform function'')
      else if standbyPerNode p > 0
      then Err (CommonError ''standby_per_node is not supported for endpoints FuncPolicy; standby is controlled by the platform function'')
      else Ok ())"

definition CreateFuncPolicyCheck :: "StateSvc \<Rightarrow> FuncPolicySpec DataObject \<Rightarrow> (unit, error) res" where
  "CreateFuncPolicyCheck self p =
     and_then (ValidateEndpointsFuncPolicy (do_namespace p) (object p)) (\<lambda>_.
     FuncPolicyCheck self (do_tenant p) (object p))"

definition spec_policy_check :: "StateSvc \<Rightarrow> Function \<Rightarrow> (unit, error) res" where
  "spec_policy_check self func =
     (case fn_policy (fn_spec (object func)) of
        Link _ \<Rightarrow> Ok ()
      | Obj p \<Rightarrow> FuncPolicyCheck self (do_tenant func) p)"

definition uses_mem_standby :: "Function \<Rightarrow> bool" where
  "uses_mem_standby func =
     (let standby = fn_standby (fn_spec (object func))
      in gpuMem standby = Mem \<or> pageableMem standby = Mem \<or> pinndMem standby = Mem)"

definition CreateFuncCheck :: "StateSvc \<Rightarrow> Function \<Rightarrow> (unit, error) res" where
  "CreateFuncCheck self func =
     and_then (RejectVirtualEndpointsNamespace (do_tenant func) (do_namespace func)) (\<lambda>_.
     and_then (ContainersNamespace self (do_tenant func) (do_namespace func)) (\<lambda>_.
     and_then (DataObjectMgr_Get (tenantMgr self) ''system'' ''system'' (do_tenant func)) (\<lambda>tenant.
     let limit = resourceLimit (tn_spec (object tenant)) in
     and_then (GetObjectsByPrefix (funcMgr self) (do_tenant func) '''' '''') (\<lambda>funcs.
     let funccnt = length funcs in
     if DataObjectMgr_Contains (funcMgr self) (do_tenant func) (do_namespace func) (do_name func)
     then Err (Exist (''StateSvc exists func '' @ DataObject_Key func))
     else if maxFuncCnt limit \<le> funccnt
     then Err (NotExist (''Func count '' @ show_nat funccnt @ '' exceed tenant limit '' @ show_nat (maxFuncCnt limit)))
     else if \<not> allocMemStandby limit \<and> uses_mem_standby func
     then Err (NotExist ''Standby is not allowed in tenant allocMemStandby==false'')
     else spec_policy_check self func))))"

definition bad_json :: "(unit, error) res" where
  "bad_json = Err (SerdeJsonError '''')"

text \<open>An object of a checked type whose JSON does not fit is rejected, one of another type is not read.\<close>

definition CHECKED_TYPES :: "string list" where
  "CHECKED_TYPES = [''tenant'', ''namespace'', ''function'', ''funcpolicy'']"

fun CreateObjCheck :: "StateSvc \<Rightarrow> AnyObj \<Rightarrow> (unit, error) res" where
  "CreateObjCheck self (TenantVal t) = CreateTenantCheck self t"
| "CreateObjCheck self (NamespaceVal n) = CreateNamespaceCheck self n"
| "CreateObjCheck self (FunctionVal f) = CreateFuncCheck self f"
| "CreateObjCheck self (PolicyVal p) = CreateFuncPolicyCheck self p"
| "CreateObjCheck self (StatusVal s) = Ok ()"
| "CreateObjCheck self (OtherVal _) = Ok ()"
| "CreateObjCheck self (BadVal ty) = (if ty \<in> set CHECKED_TYPES then bad_json else Ok ())"

definition UpdateTenantCheck :: "StateSvc \<Rightarrow> Tenant \<Rightarrow> (unit, error) res" where
  "UpdateTenantCheck self tenant =
     (if do_tenant tenant \<noteq> SYSTEM_TENANT \<or> do_namespace tenant \<noteq> SYSTEM_NAMESPACE
      then Err (CommonError ''tenant must be in tenant system and namespace system'')
      else if \<not> DataObjectMgr_Contains (tenantMgr self) SYSTEM_TENANT SYSTEM_NAMESPACE (do_name tenant)
      then Err (NotExist (''StateSvc doesn't exist tenant '' @ do_name tenant))
      else Ok ())"

definition UpdateFuncCheck :: "StateSvc \<Rightarrow> Function \<Rightarrow> (unit, error) res" where
  "UpdateFuncCheck self func =
     and_then (RejectVirtualEndpointsNamespace (do_tenant func) (do_namespace func)) (\<lambda>_.
     and_then (ContainersNamespace self (do_tenant func) (do_namespace func)) (\<lambda>_.
     if \<not> DataObjectMgr_Contains (funcMgr self) (do_tenant func) (do_namespace func) (do_name func)
     then Err (NotExist (''StateSvc doesn't exist func '' @ DataObject_Key func))
     else spec_policy_check self func))"

fun UpdateObjCheck :: "StateSvc \<Rightarrow> AnyObj \<Rightarrow> (unit, error) res" where
  "UpdateObjCheck self (NamespaceVal n) = RejectVirtualEndpointsNamespace (do_tenant n) (do_name n)"
| "UpdateObjCheck self (TenantVal t) = UpdateTenantCheck self t"
| "UpdateObjCheck self (StatusVal s) = Ok ()"
| "UpdateObjCheck self (FunctionVal f) = UpdateFuncCheck self f"
| "UpdateObjCheck self (PolicyVal p) = CreateFuncPolicyCheck self p"
| "UpdateObjCheck self (OtherVal ty) = Err (CommonError (ty @ '' is not allowed update''))"
| "UpdateObjCheck self (BadVal ty) =
     (if ty \<in> set CHECKED_TYPES then bad_json
      else if ty = ''funcstatus'' then Ok ()
      else Err (CommonError (ty @ '' is not allowed update'')))"

definition DeleteFuncCheck :: "StateSvc \<Rightarrow> string \<Rightarrow> string \<Rightarrow> string \<Rightarrow> (unit, error) res" where
  "DeleteFuncCheck self t ns nm =
     and_then (ContainersNamespace self t ns) (\<lambda>_.
     if \<not> DataObjectMgr_Contains (funcMgr self) t ns nm
     then Err (NotExist (''StateSvc doesn't exist func '' @ slash3 t ns nm)) else Ok ())"

definition DeleteObjCheck :: "StateSvc \<Rightarrow> string \<Rightarrow> string \<Rightarrow> string \<Rightarrow> string \<Rightarrow> (unit, error) res" where
  "DeleteObjCheck self ty t ns nm =
     (if ty = ''tenant'' \<or> ty = ''namespace'' then Err (CommonError (ty @ '' is not allowed delete''))
      else if ty = ''function'' then DeleteFuncCheck self t ns nm
      else if ty = ''funcpolicy'' then Ok ()
      else Err (CommonError (ty @ '' is not allowed delete'')))"

section \<open>The status object of a function\<close>

definition IsPlatformSharedFunc :: "string \<Rightarrow> string \<Rightarrow> bool" where
  "IsPlatformSharedFunc t ns \<longleftrightarrow> t = PLATFORM_TENANT \<and> ns = PLATFORM_SHARED_NAMESPACE"

definition DefaultFunctionPublished :: "Function \<Rightarrow> bool" where
  "DefaultFunctionPublished func \<longleftrightarrow> \<not> IsPlatformSharedFunc (do_tenant func) (do_namespace func)"

definition status_of :: "Function \<Rightarrow> FunctionStatus" where
  "status_of func = \<lparr>objType = ''funcstatus'', do_tenant = do_tenant func, do_namespace = do_namespace func,
     do_name = do_name func, do_labels = [], do_annotations = [], channelRev = 0, srcEpoch = 0, revision = 0,
     object = \<lparr>fsd_version = Version func, fsd_published = DefaultFunctionPublished func, fsd_state = FuncNormal,
       fsd_snapshotingFailureCnt = 0, fsd_resumingFailureCnt = 0\<rparr>\<rparr>"

definition CreateFuncStatus :: "(FunctionStatus \<Rightarrow> (unit, error) res) \<Rightarrow> AnyObj \<Rightarrow> (unit, error) res" where
  "CreateFuncStatus store_create obj =
     (case obj of
        FunctionVal func \<Rightarrow> store_create (status_of func)
      | BadVal ty \<Rightarrow> if ty = ''function'' then bad_json else Ok ()
      | _ \<Rightarrow> Ok ())"

text \<open>The answers of the store depend on the attempt: other clients write between them.\<close>

function update_status_loop ::
  "(nat \<Rightarrow> (int option, error) res) \<Rightarrow> (nat \<Rightarrow> int \<Rightarrow> (unit, error) res) \<Rightarrow> nat \<Rightarrow> (unit, error) res" where
  "update_status_loop store_get store_update attempts =
     and_then (store_get attempts) (\<lambda>current.
     let expected_rev = (case current of Some r \<Rightarrow> r | None \<Rightarrow> 0) in
     case store_update attempts expected_rev of
       Ok _ \<Rightarrow> Ok ()
     | Err e \<Rightarrow> (case e of
           UpdateRevNotMatchErr a b \<Rightarrow>
             if attempts < 3 then update_status_loop store_get store_update (attempts + 1) else Err e
         | _ \<Rightarrow> Err e)
     | Panic \<Rightarrow> Panic)"
  by pat_completeness auto
termination by (relation "measure (\<lambda>(_, _, n). 3 - n)") auto

declare update_status_loop.simps [simp del]

definition UpdateFuncStatus ::
  "(nat \<Rightarrow> (int option, error) res) \<Rightarrow> (FunctionStatus \<Rightarrow> nat \<Rightarrow> int \<Rightarrow> (unit, error) res) \<Rightarrow> AnyObj \<Rightarrow> (unit, error) res" where
  "UpdateFuncStatus store_get store_update obj =
     (case obj of
        FunctionVal func \<Rightarrow> update_status_loop store_get (store_update (status_of func)) 1
      | BadVal ty \<Rightarrow> if ty = ''function'' then bad_json else Ok ()
      | _ \<Rightarrow> Ok ())"

section \<open>The informer\<close>

text \<open>
  The managers after the event, and the outcome. An error of a second manager call leaves what the first
  one did; the caller logs the error and goes on.
\<close>

definition on_tenants :: "StateSvc \<Rightarrow> (TenantObject DataObjectMgr, error) res \<Rightarrow> StateSvc \<times> (unit, error) res" where
  "on_tenants s r = (case r of Ok m \<Rightarrow> (s\<lparr>tenantMgr := m\<rparr>, Ok ()) | Err e \<Rightarrow> (s, Err e) | Panic \<Rightarrow> (s, Panic))"

definition on_funcs :: "StateSvc \<Rightarrow> (FuncObject DataObjectMgr, error) res \<Rightarrow> StateSvc \<times> (unit, error) res" where
  "on_funcs s r = (case r of Ok m \<Rightarrow> (s\<lparr>funcMgr := m\<rparr>, Ok ()) | Err e \<Rightarrow> (s, Err e) | Panic \<Rightarrow> (s, Panic))"

definition on_namespaces :: "StateSvc \<Rightarrow> (NamespaceObject DataObjectMgr, error) res \<Rightarrow> StateSvc \<times> (unit, error) res" where
  "on_namespaces s r = (case r of Ok m \<Rightarrow> (s\<lparr>namespaceMgr := m\<rparr>, Ok ()) | Err e \<Rightarrow> (s, Err e) | Panic \<Rightarrow> (s, Panic))"

definition delta_err :: "StateSvc \<Rightarrow> StateSvc \<times> (unit, error) res" where
  "delta_err s = (s, Err (CommonError ''NamespaceMgr::ProcessDeltaEvent''))"

definition delta_bad :: "StateSvc \<Rightarrow> string \<Rightarrow> StateSvc \<times> (unit, error) res" where
  "delta_bad s ty = (if ty \<in> {''tenant'', ''function'', ''namespace''} then (s, bad_json) else delta_err s)"

fun delta_added :: "StateSvc \<Rightarrow> AnyObj \<Rightarrow> StateSvc \<times> (unit, error) res" where
  "delta_added s (TenantVal t) = on_tenants s (DataObjectMgr_Add (tenantMgr s) t)"
| "delta_added s (FunctionVal f) = on_funcs s (DataObjectMgr_Add (funcMgr s) f)"
| "delta_added s (NamespaceVal n) = on_namespaces s (DataObjectMgr_Add (namespaceMgr s) n)"
| "delta_added s (BadVal ty) = delta_bad s ty"
| "delta_added s _ = delta_err s"

definition delta_func_modified :: "StateSvc \<Rightarrow> Function \<Rightarrow> Function \<Rightarrow> StateSvc \<times> (unit, error) res" where
  "delta_func_modified s f old =
     (case on_funcs s (DataObjectMgr_Remove (funcMgr s) old) of
        (s1, Ok _) \<Rightarrow> on_funcs s1 (DataObjectMgr_Add (funcMgr s1) f)
      | (s1, r) \<Rightarrow> (s1, r))"

fun delta_modified :: "StateSvc \<Rightarrow> AnyObj \<Rightarrow> AnyObj option \<Rightarrow> StateSvc \<times> (unit, error) res" where
  "delta_modified s (TenantVal t) _ = on_tenants s (DataObjectMgr_Update (tenantMgr s) t)"
| "delta_modified s (NamespaceVal n) _ = on_namespaces s (DataObjectMgr_Update (namespaceMgr s) n)"
| "delta_modified s (FunctionVal f) old =
     (case old of
        None \<Rightarrow> (s, Panic)
      | Some (FunctionVal g) \<Rightarrow> delta_func_modified s f g
      | Some _ \<Rightarrow> (s, bad_json))"
| "delta_modified s (BadVal ty) old =
     (if ty = ''function'' then
        (case old of
           None \<Rightarrow> (s, Panic)
         | Some (FunctionVal g) \<Rightarrow>
             (case on_funcs s (DataObjectMgr_Remove (funcMgr s) g) of (s1, Ok _) \<Rightarrow> (s1, bad_json) | (s1, r) \<Rightarrow> (s1, r))
         | Some _ \<Rightarrow> (s, bad_json))
      else delta_bad s ty)"
| "delta_modified s _ _ = delta_err s"

text \<open>A deletion removes the old object; its type is the one of the event's object.\<close>

fun delta_deleted :: "StateSvc \<Rightarrow> AnyObj \<Rightarrow> AnyObj option \<Rightarrow> StateSvc \<times> (unit, error) res" where
  "delta_deleted s (FunctionVal _) old =
     (case old of None \<Rightarrow> (s, Panic) | Some (FunctionVal g) \<Rightarrow> on_funcs s (DataObjectMgr_Remove (funcMgr s) g) | Some _ \<Rightarrow> (s, bad_json))"
| "delta_deleted s (NamespaceVal _) old =
     (case old of None \<Rightarrow> (s, Panic) | Some (NamespaceVal g) \<Rightarrow> on_namespaces s (DataObjectMgr_Remove (namespaceMgr s) g) | Some _ \<Rightarrow> (s, bad_json))"
| "delta_deleted s (TenantVal _) old =
     (case old of None \<Rightarrow> (s, Panic) | Some (TenantVal g) \<Rightarrow> on_tenants s (DataObjectMgr_Remove (tenantMgr s) g) | Some _ \<Rightarrow> (s, bad_json))"
| "delta_deleted s (BadVal ty) old = (if ty \<in> {''tenant'', ''function'', ''namespace''} \<and> old = None then (s, Panic) else delta_bad s ty)"
| "delta_deleted s _ _ = delta_err s"

fun ProcessDeltaEvent :: "StateSvc \<Rightarrow> EventType \<times> AnyObj \<times> AnyObj option \<Rightarrow> StateSvc \<times> (unit, error) res" where
  "ProcessDeltaEvent s (Added, x, old) = delta_added s x"
| "ProcessDeltaEvent s (Modified, x, old) = delta_modified s x old"
| "ProcessDeltaEvent s (Deleted, x, old) = delta_deleted s x old"
| "ProcessDeltaEvent s (InitDone, x, old) = (s, Ok ())"
| "ProcessDeltaEvent s (_, x, old) = delta_err s"

section \<open>The handlers of the service\<close>

record MetaResp =
  mr_error :: string
  mr_revision :: int

definition meta_err :: "string \<Rightarrow> MetaResp" where
  "meta_err e = \<lparr>mr_error = e, mr_revision = 0\<rparr>"

datatype ReqObj = Plain AnyObj | PartialPolicy "PartialFuncPolicySpec DataObject"

fun normalize_req :: "ReqObj \<Rightarrow> AnyObj" where
  "normalize_req (Plain x) = x"
| "normalize_req (PartialPolicy p) = PolicyVal (NormalizeFuncPolicyDataObject p)"

text \<open>
  \<open>create\<close> and \<open>update\<close>: normalise, check, write, write the function status. \<open>store_write\<close> is the answer
  of etcd, the revision it assigned; \<open>status_write\<close> the outcome of the status object's write.
\<close>

definition svc_create ::
  "(AnyObj \<Rightarrow> (int, error) res) \<Rightarrow> (FunctionStatus \<Rightarrow> (unit, error) res) \<Rightarrow> StateSvc \<Rightarrow> ReqObj option \<Rightarrow> (MetaResp, error) res" where
  "svc_create store_write status_write self req =
     (case req of
        None \<Rightarrow> Ok (meta_err ''create error: invalid request'')
      | Some r \<Rightarrow>
          let obj = normalize_req r in
          (case CreateObjCheck self obj of
             Err e \<Rightarrow> Ok (meta_err ''create error: '')
           | Panic \<Rightarrow> Panic
           | Ok _ \<Rightarrow>
               (case store_write obj of
                  Err e \<Rightarrow> Ok (meta_err ''create error: '')
                | Panic \<Rightarrow> Panic
                | Ok rv \<Rightarrow>
                    (case CreateFuncStatus status_write obj of
                       Ok _ \<Rightarrow> Ok \<lparr>mr_error = '''', mr_revision = rv\<rparr>
                     | Err e \<Rightarrow> Ok (meta_err ''create error: '')
                     | Panic \<Rightarrow> Panic))))"

definition svc_update ::
  "(AnyObj \<Rightarrow> (int, error) res) \<Rightarrow> (nat \<Rightarrow> (int option, error) res) \<Rightarrow>
   (FunctionStatus \<Rightarrow> nat \<Rightarrow> int \<Rightarrow> (unit, error) res) \<Rightarrow> StateSvc \<Rightarrow> ReqObj option \<Rightarrow> (MetaResp, error) res" where
  "svc_update store_write status_get status_write self req =
     (case req of
        None \<Rightarrow> Ok (meta_err ''update error: invalid request'')
      | Some r \<Rightarrow>
          let obj = normalize_req r in
          (case UpdateObjCheck self obj of
             Err e \<Rightarrow> Ok (meta_err ''update error: '')
           | Panic \<Rightarrow> Panic
           | Ok _ \<Rightarrow>
               (case store_write obj of
                  Err e \<Rightarrow> Ok (meta_err ''create error: '')
                | Panic \<Rightarrow> Panic
                | Ok rv \<Rightarrow>
                    (case UpdateFuncStatus status_get status_write obj of
                       Ok _ \<Rightarrow> Ok \<lparr>mr_error = '''', mr_revision = rv\<rparr>
                     | Err e \<Rightarrow> Ok (meta_err ''update funcstatus error: '')
                     | Panic \<Rightarrow> Panic))))"

text \<open>
  \<open>delete\<close>: the object must be in the cache of its type; then it is deleted, and with a function its
  status. \<open>cached\<close> is \<open>None\<close> when the type has no cache.
\<close>

definition svc_delete ::
  "((bool, error) res) option \<Rightarrow> (int, error) res \<Rightarrow> (unit, error) res \<Rightarrow> StateSvc \<Rightarrow> string \<Rightarrow> (MetaResp, error) res" where
  "svc_delete cached store_delete status_delete self ty =
     (case cached of
        None \<Rightarrow> Ok (meta_err (''statesvc doesn't support obj type '' @ ty))
      | Some (Err e) \<Rightarrow> Ok (meta_err ''Object delete Fail: '')
      | Some Panic \<Rightarrow> Panic
      | Some (Ok False) \<Rightarrow> Ok (meta_err ''delete object Fail not exist'')
      | Some (Ok True) \<Rightarrow>
          (case store_delete of
             Err e \<Rightarrow> Ok (meta_err ''delete error: '')
           | Panic \<Rightarrow> Panic
           | Ok rv \<Rightarrow>
               (case (if ty = ''function'' then status_delete else Ok ()) of
                  Ok _ \<Rightarrow> Ok \<lparr>mr_error = '''', mr_revision = rv\<rparr>
                | Err e \<Rightarrow> Ok (meta_err ''delete funcstatus error: '')
                | Panic \<Rightarrow> Panic)))"

end
