(* ===== verification/Admission_Laws.thy ===== *)
theory Admission_Laws
  imports Admission
begin

text \<open>
  What admission control guarantees. Requests are checked against the view the informer has built, and
  reach that view later: the cluster is the view together with the accepted writes still on their way,
  and a step is an accepted write or a delivery.
\<close>

type_synonym AnyEvent = "EventType \<times> AnyObj \<times> AnyObj option"

record Cluster =
  view :: StateSvc
  inflight :: "AnyEvent list"

text \<open>The object an event brings lies where it must: a namespace in a tenant, a function in both.\<close>

definition has_tenant :: "StateSvc \<Rightarrow> string \<Rightarrow> bool" where
  "has_tenant s t \<longleftrightarrow> DataObjectMgr_Contains (tenantMgr s) SYSTEM_TENANT SYSTEM_NAMESPACE t"

definition has_namespace :: "StateSvc \<Rightarrow> string \<Rightarrow> string \<Rightarrow> bool" where
  "has_namespace s t ns \<longleftrightarrow> DataObjectMgr_Contains (namespaceMgr s) t SYSTEM_NAMESPACE ns"

fun placed :: "StateSvc \<Rightarrow> AnyObj \<Rightarrow> bool" where
  "placed s (NamespaceVal n) = has_tenant s (do_tenant n)"
| "placed s (FunctionVal f) = (has_tenant s (do_tenant f) \<and> has_namespace s (do_tenant f) (do_namespace f) \<and>
     (do_tenant f = SYSTEM_TENANT \<or> do_namespace f \<noteq> VIRTUAL_ENDPOINTS_NAMESPACE))"
| "placed s _ = True"

definition well_placed :: "Cluster \<Rightarrow> bool" where
  "well_placed c \<longleftrightarrow>
     (\<forall>n \<in> set (bt_values (namespaceMgr (view c))). placed (view c) (NamespaceVal n)) \<and>
     (\<forall>f \<in> set (bt_values (funcMgr (view c))). placed (view c) (FunctionVal f)) \<and>
     (\<forall>(ty, x, old) \<in> set (inflight c). placed (view c) x)"

text \<open>
  Steps without deletions: a create that passed its check, an update that passed its check (of a
  namespace that exists), and the delivery of the oldest write. The informer logs an error and goes on.
\<close>

fun updates_existing :: "StateSvc \<Rightarrow> AnyObj \<Rightarrow> bool" where
  "updates_existing s (NamespaceVal n) = has_tenant s (do_tenant n)"
| "updates_existing s _ = True"

inductive cluster_step :: "Cluster \<Rightarrow> Cluster \<Rightarrow> bool" where
  create: "CreateObjCheck (view c) x = Ok () \<Longrightarrow> cluster_step c (c\<lparr>inflight := inflight c @ [(Added, x, None)]\<rparr>)"
| update: "UpdateObjCheck (view c) x = Ok () \<Longrightarrow> updates_existing (view c) x \<Longrightarrow>
    cluster_step c (c\<lparr>inflight := inflight c @ [(Modified, x, old)]\<rparr>)"
| deliver: "inflight c = e # es \<Longrightarrow> snd (ProcessDeltaEvent (view c) e) \<noteq> Panic \<Longrightarrow> fst e \<in> {Added, Modified} \<Longrightarrow>
    cluster_step c \<lparr>view = fst (ProcessDeltaEvent (view c) e), inflight = es\<rparr>"

section \<open>Checks\<close>

lemma CreateObjCheck_placed: "CreateObjCheck s x = Ok u \<Longrightarrow> placed s x"
  by (cases x)
    (auto simp: CreateNamespaceCheck_def CreateFuncCheck_def ContainersNamespace_def RejectVirtualEndpointsNamespace_def
      has_tenant_def has_namespace_def res_simps Let_def split: if_splits)

lemma UpdateObjCheck_placed: "UpdateObjCheck s x = Ok u \<Longrightarrow> updates_existing s x \<Longrightarrow> placed s x"
  by (cases x)
    (auto simp: UpdateFuncCheck_def ContainersNamespace_def RejectVirtualEndpointsNamespace_def
      has_tenant_def has_namespace_def res_simps split: if_splits)

section \<open>Deliveries only add tenants and namespaces\<close>

definition grows :: "StateSvc \<Rightarrow> StateSvc \<Rightarrow> bool" where
  "grows s s' \<longleftrightarrow> (\<forall>k. bt_contains k (tenantMgr s) \<longrightarrow> bt_contains k (tenantMgr s')) \<and>
     (\<forall>k. bt_contains k (namespaceMgr s) \<longrightarrow> bt_contains k (namespaceMgr s'))"

lemma placed_mono: "grows s s' \<Longrightarrow> placed s x \<Longrightarrow> placed s' x"
  by (cases x) (auto simp: grows_def has_tenant_def has_namespace_def DataObjectMgr_Contains_def)

lemma mgr_values:
  "DataObjectMgr_Add m x = Ok m' \<Longrightarrow> set (bt_values m') \<subseteq> insert x (set (bt_values m))"
  "DataObjectMgr_Update m x = Ok m' \<Longrightarrow> set (bt_values m') \<subseteq> insert x (set (bt_values m))"
  "DataObjectMgr_Remove m x = Ok m' \<Longrightarrow> set (bt_values m') \<subseteq> set (bt_values m)"
  by (auto simp: DataObjectMgr_Add_def DataObjectMgr_Update_def DataObjectMgr_Remove_def Let_def split: if_splits
      dest: bt_values_insert[THEN subsetD] bt_values_remove[THEN subsetD])

lemma mgr_contains:
  "DataObjectMgr_Add m x = Ok m' \<Longrightarrow> bt_contains k m \<Longrightarrow> bt_contains k m'"
  "DataObjectMgr_Update m x = Ok m' \<Longrightarrow> bt_contains k m \<Longrightarrow> bt_contains k m'"
  by (auto simp: DataObjectMgr_Add_def DataObjectMgr_Update_def Let_def split: if_splits)

text \<open>What a delivery of a write may do to the view.\<close>

definition delivers :: "StateSvc \<Rightarrow> AnyObj \<Rightarrow> StateSvc \<Rightarrow> bool" where
  "delivers s x s' \<longleftrightarrow> grows s s' \<and>
     (\<forall>n \<in> set (bt_values (namespaceMgr s')). n \<in> set (bt_values (namespaceMgr s)) \<or> x = NamespaceVal n) \<and>
     (\<forall>f \<in> set (bt_values (funcMgr s')). f \<in> set (bt_values (funcMgr s)) \<or> x = FunctionVal f)"

lemma delivers_refl [simp]: "delivers s x s"
  by (simp add: delivers_def grows_def)

lemma delivers_tenants:
  "(\<And>m. r = Ok m \<Longrightarrow> \<forall>k. bt_contains k (tenantMgr s) \<longrightarrow> bt_contains k m) \<Longrightarrow> delivers s x (fst (on_tenants s r))"
  by (cases r) (auto simp: on_tenants_def delivers_def grows_def)

lemma delivers_namespaces:
  "(\<And>m. r = Ok m \<Longrightarrow> (\<forall>k. bt_contains k (namespaceMgr s) \<longrightarrow> bt_contains k m) \<and>
      set (bt_values m) \<subseteq> insert n (set (bt_values (namespaceMgr s)))) \<Longrightarrow>
   delivers s (NamespaceVal n) (fst (on_namespaces s r))"
  by (cases r) (auto simp: on_namespaces_def delivers_def grows_def)

lemma delivers_funcs:
  "(\<And>m. r = Ok m \<Longrightarrow> \<forall>f \<in> set (bt_values m). f \<in> set (bt_values (funcMgr s)) \<or> x = FunctionVal f) \<Longrightarrow>
   delivers s x (fst (on_funcs s r))"
  by (cases r) (auto simp: on_funcs_def delivers_def grows_def)

lemma delivers_trans: "delivers s x s1 \<Longrightarrow> delivers s1 x s2 \<Longrightarrow> delivers s x s2"
  unfolding delivers_def grows_def by blast

lemma delivers_remove: "delivers s x (fst (on_funcs s (DataObjectMgr_Remove (funcMgr s) g)))"
  by (rule delivers_funcs) (use mgr_values(3) in blast)

lemma delta_added_delivers: "delivers s x (fst (delta_added s x))"
proof (cases x)
  case (TenantVal t)
  then show ?thesis using delivers_tenants[of "DataObjectMgr_Add (tenantMgr s) t" s x] mgr_contains(1) by simp blast
next
  case (NamespaceVal n)
  then show ?thesis
    using delivers_namespaces[of "DataObjectMgr_Add (namespaceMgr s) n" s n] mgr_contains(1) mgr_values(1) by simp blast
next
  case (FunctionVal f)
  then show ?thesis using delivers_funcs[of "DataObjectMgr_Add (funcMgr s) f" s x] mgr_values(1) by simp blast
qed (auto simp: delta_err_def delta_bad_def)

lemma delta_func_modified_delivers: "delivers s (FunctionVal f) (fst (delta_func_modified s f g))"
proof (cases "on_funcs s (DataObjectMgr_Remove (funcMgr s) g)")
  case (Pair s1 r)
  then have s1: "delivers s (FunctionVal f) s1" using delivers_remove[of s "FunctionVal f" g] by simp
  show ?thesis
  proof (cases r)
    case (Ok u)
    have "delivers s1 (FunctionVal f) (fst (on_funcs s1 (DataObjectMgr_Add (funcMgr s1) f)))"
      by (rule delivers_funcs) (use mgr_values(1) in blast)
    then show ?thesis using delivers_trans[OF s1] by (simp add: delta_func_modified_def Pair Ok)
  qed (use s1 in \<open>simp_all add: delta_func_modified_def Pair\<close>)
qed

lemma replace_outcome_fst:
  "fst (case p of (s1, Ok _) \<Rightarrow> (s1, b) | (s1, r) \<Rightarrow> (s1, r)) = fst p"
  by (cases p; cases "snd p") auto

lemma delta_modified_delivers: "delivers s x (fst (delta_modified s x old))"
proof (cases x)
  case (TenantVal t)
  then show ?thesis using delivers_tenants[of "DataObjectMgr_Update (tenantMgr s) t" s x] mgr_contains(2) by simp blast
next
  case (NamespaceVal n)
  then show ?thesis
    using delivers_namespaces[of "DataObjectMgr_Update (namespaceMgr s) n" s n] mgr_contains(2) mgr_values(2) by simp blast
next
  case (FunctionVal f)
  then show ?thesis by (auto simp: delta_func_modified_delivers split: option.splits AnyObj.splits)
next
  case (BadVal ty)
  then show ?thesis
    using delivers_remove[of s x]
    by (auto simp: delta_bad_def delta_err_def replace_outcome_fst split: option.split AnyObj.split)
qed (auto simp: delta_err_def)

lemma ProcessDeltaEvent_delivers:
  "ty \<in> {Added, Modified} \<Longrightarrow> delivers s x (fst (ProcessDeltaEvent s (ty, x, old)))"
  by (auto simp: delta_added_delivers delta_modified_delivers)

section \<open>Well-placed objects\<close>

lemma well_placed_deliver:
  assumes "well_placed c" "inflight c = (ty, x, old) # es" "ty \<in> {Added, Modified}"
  shows "well_placed \<lparr>view = fst (ProcessDeltaEvent (view c) (ty, x, old)), inflight = es\<rparr>"
proof -
  let ?s = "view c" and ?s' = "fst (ProcessDeltaEvent (view c) (ty, x, old))"
  have d: "delivers ?s x ?s'" by (rule ProcessDeltaEvent_delivers[OF assms(3)])
  then have mono: "placed ?s y \<Longrightarrow> placed ?s' y" for y using placed_mono by (auto simp: delivers_def)
  have "placed ?s x" using assms(1,2) by (auto simp: well_placed_def)
  then show ?thesis
    using assms(1,2) d mono unfolding well_placed_def delivers_def by (auto simp del: placed.simps)
qed

lemma cluster_step_well_placed: "cluster_step c c' \<Longrightarrow> well_placed c \<Longrightarrow> well_placed c'"
proof (induction rule: cluster_step.induct)
  case (create c x)
  then show ?case using CreateObjCheck_placed by (auto simp: well_placed_def simp del: placed.simps)
next
  case (update c x old)
  then show ?case using UpdateObjCheck_placed by (auto simp: well_placed_def simp del: placed.simps)
next
  case (deliver c e es)
  then show ?case using well_placed_deliver[of c "fst e" "fst (snd e)" "snd (snd e)" es] by simp
qed

definition empty_svc :: StateSvc where
  "empty_svc = \<lparr>tenantMgr = [], funcMgr = [], namespaceMgr = []\<rparr>"

definition empty_cluster :: Cluster where
  "empty_cluster = \<lparr>view = empty_svc, inflight = []\<rparr>"

text \<open>
  C27. As long as nothing is deleted, admission control keeps the object hierarchy although requests are
  checked against a view that lags behind: in every reachable state each namespace belongs to a known
  tenant, and each function to a known tenant and namespace and, outside the system tenant, never to the
  namespace reserved for virtual endpoints.
\<close>

theorem admission_keeps_hierarchy:
  assumes "cluster_step\<^sup>*\<^sup>* empty_cluster c" "f \<in> set (bt_values (funcMgr (view c)))"
  shows "has_tenant (view c) (do_tenant f) \<and> has_namespace (view c) (do_tenant f) (do_namespace f) \<and>
     (do_tenant f = SYSTEM_TENANT \<or> do_namespace f \<noteq> VIRTUAL_ENDPOINTS_NAMESPACE)"
proof -
  have "well_placed c" using assms(1)
  proof (induction rule: rtranclp_induct)
    case base
    then show ?case by (simp add: well_placed_def empty_cluster_def empty_svc_def bt_values_def)
  next
    case (step d e)
    then show ?case using cluster_step_well_placed by blast
  qed
  then show ?thesis using assms(2) unfolding well_placed_def by auto
qed

definition ex_tenant :: Tenant where
  "ex_tenant = \<lparr>objType = ''tenant'', do_tenant = ''system'', do_namespace = ''system'', do_name = ''t'', do_labels = [],
     do_annotations = [], channelRev = 0, srcEpoch = 0, revision = 0,
     object = \<lparr>tn_spec = \<lparr>resourceLimit = default_resourcelimit\<lparr>maxFuncCnt := 1\<rparr>, quota_exempt = False\<rparr>,
       tn_status = \<lparr>tn_disable = False, quota_exceeded = False\<rparr>\<rparr>\<rparr>"

definition ex_namespace :: Namespace where
  "ex_namespace = \<lparr>objType = ''namespace'', do_tenant = ''t'', do_namespace = ''system'', do_name = ''n'', do_labels = [],
     do_annotations = [], channelRev = 0, srcEpoch = 0, revision = 0, object = \<lparr>nsp_disable = False\<rparr>\<rparr>"

definition ex_func :: "string \<Rightarrow> StandbyType \<Rightarrow> Function" where
  "ex_func nm level = \<lparr>objType = ''function'', do_tenant = ''t'', do_namespace = ''n'', do_name = nm, do_labels = [],
     do_annotations = [], channelRev = 0, srcEpoch = 0, revision = 0,
     object = \<lparr>fn_spec = \<lparr>fn_commands = [], fn_version = 1, fn_resources = Resources_default,
         fn_standby = \<lparr>gpuMem = level, pageableMem = File, pinndMem = File\<rparr>, fn_policy = Obj FuncPolicySpec_default\<rparr>,
       fn_status = \<lparr>fo_state = FuncNormal, fo_snapshotingFailureCnt = 0, fo_resumingFailureCnt = 0\<rparr>\<rparr>\<rparr>"

lemmas admission_eval = ex_tenant_def ex_namespace_def ex_func_def empty_cluster_def empty_svc_def CreateTenantCheck_def
  CreateNamespaceCheck_def CreateFuncCheck_def UpdateFuncCheck_def ContainersNamespace_def RejectVirtualEndpointsNamespace_def
  SYSTEM_TENANT_def SYSTEM_NAMESPACE_def VIRTUAL_ENDPOINTS_NAMESPACE_def DataObjectMgr_Contains_def DataObjectMgr_Get_def
  DataObjectMgr_Add_def DataObject_Key_def slash3_def bt_get_Cons bt_contains_def GetObjectsByPrefix_def range_scan_def
  bt_range_from_def starts_with_def uses_mem_standby_def spec_policy_check_def FuncPolicyCheck_def ValidateTenantFuncPolicyLimit_def
  default_resourcelimit_def FuncPolicySpec_default_def DEFAULT_QUEUE_LEN_def DEFAULT_PARALLEL_LEVEL_def on_tenants_def on_funcs_def
  on_namespaces_def

definition ex_view :: "Function list \<Rightarrow> StateSvc" where
  "ex_view fs = \<lparr>tenantMgr = [(''system/system/t'', ex_tenant)], funcMgr = map (\<lambda>f. (DataObject_Key f, f)) fs,
     namespaceMgr = [(''t/system/n'', ex_namespace)]\<rparr>"

lemma ex_cluster_reach: "cluster_step\<^sup>*\<^sup>* empty_cluster \<lparr>view = ex_view [], inflight = []\<rparr>"
proof -
  let ?c1 = "\<lparr>view = empty_svc, inflight = [(Added, TenantVal ex_tenant, None)]\<rparr>"
  let ?s2 = "empty_svc\<lparr>tenantMgr := [(''system/system/t'', ex_tenant)]\<rparr>"
  have "cluster_step empty_cluster ?c1"
    using cluster_step.create[of empty_cluster "TenantVal ex_tenant"] by (simp add: admission_eval)
  moreover have "cluster_step ?c1 \<lparr>view = ?s2, inflight = []\<rparr>"
    using cluster_step.deliver[of ?c1] by (simp add: admission_eval)
  moreover have "cluster_step \<lparr>view = ?s2, inflight = []\<rparr> \<lparr>view = ?s2, inflight = [(Added, NamespaceVal ex_namespace, None)]\<rparr>"
    using cluster_step.create[of "\<lparr>view = ?s2, inflight = []\<rparr>" "NamespaceVal ex_namespace"] by (simp add: admission_eval)
  moreover have "cluster_step \<lparr>view = ?s2, inflight = [(Added, NamespaceVal ex_namespace, None)]\<rparr> \<lparr>view = ex_view [], inflight = []\<rparr>"
    using cluster_step.deliver[of "\<lparr>view = ?s2, inflight = [(Added, NamespaceVal ex_namespace, None)]\<rparr>"]
    by (simp add: admission_eval ex_view_def)
  ultimately show ?thesis by (meson converse_rtranclp_into_rtranclp rtranclp.rtrancl_refl)
qed

text \<open>Two creations checked before either is delivered.\<close>

lemma ex_race_reach:
  "cluster_step\<^sup>*\<^sup>* empty_cluster \<lparr>view = ex_view [ex_func ''a'' File, ex_func ''b'' File], inflight = []\<rparr>"
proof -
  let ?f = "\<lambda>nm. (Added, FunctionVal (ex_func nm File), None)"
  have ok: "CreateFuncCheck (ex_view []) (ex_func nm File) = Ok ()" for nm
    by (simp add: admission_eval ex_view_def)
  have a: "delta_added (ex_view []) (FunctionVal (ex_func ''a'' File)) = (ex_view [ex_func ''a'' File], Ok ())"
    by (simp add: admission_eval ex_view_def)
  have b: "delta_added (ex_view [ex_func ''a'' File]) (FunctionVal (ex_func ''b'' File))
      = (ex_view [ex_func ''a'' File, ex_func ''b'' File], Ok ())"
    by (simp add: admission_eval ex_view_def less_char_def)
  have "cluster_step \<lparr>view = ex_view [], inflight = []\<rparr> \<lparr>view = ex_view [], inflight = [?f ''a'']\<rparr>"
    using cluster_step.create[of "\<lparr>view = ex_view [], inflight = []\<rparr>" "FunctionVal (ex_func ''a'' File)"] ok by simp
  moreover have "cluster_step \<lparr>view = ex_view [], inflight = [?f ''a'']\<rparr> \<lparr>view = ex_view [], inflight = [?f ''a'', ?f ''b'']\<rparr>"
    using cluster_step.create[of "\<lparr>view = ex_view [], inflight = [?f ''a'']\<rparr>" "FunctionVal (ex_func ''b'' File)"] ok by simp
  moreover have "cluster_step \<lparr>view = ex_view [], inflight = [?f ''a'', ?f ''b'']\<rparr> \<lparr>view = ex_view [ex_func ''a'' File], inflight = [?f ''b'']\<rparr>"
    using cluster_step.deliver[of "\<lparr>view = ex_view [], inflight = [?f ''a'', ?f ''b'']\<rparr>"] a by simp
  moreover have "cluster_step \<lparr>view = ex_view [ex_func ''a'' File], inflight = [?f ''b'']\<rparr>
      \<lparr>view = ex_view [ex_func ''a'' File, ex_func ''b'' File], inflight = []\<rparr>"
    using cluster_step.deliver[of "\<lparr>view = ex_view [ex_func ''a'' File], inflight = [?f ''b'']\<rparr>"] b by simp
  ultimately show ?thesis using ex_cluster_reach by (meson rtranclp.rtrancl_into_rtrancl)
qed

theorem admission_keeps_hierarchy_witness:
  "has_tenant (ex_view [ex_func ''a'' File, ex_func ''b'' File]) ''t'' \<and>
   has_namespace (ex_view [ex_func ''a'' File, ex_func ''b'' File]) ''t'' ''n''"
  using admission_keeps_hierarchy[OF ex_race_reach, of "ex_func ''a'' File"]
  by (simp add: bt_values_def ex_view_def[of "[ex_func ''a'' File, ex_func ''b'' File]"]) (simp add: ex_func_def)

definition tenant_funcs :: "StateSvc \<Rightarrow> string \<Rightarrow> Function list" where
  "tenant_funcs s t = filter (\<lambda>f. do_tenant f = t) (bt_values (funcMgr s))"

lemma GetObjectsByPrefix_tenant:
  assumes "mgr_ok (funcMgr s)" "is_ok (validate_name t)" "t \<noteq> ''''"
  shows "GetObjectsByPrefix (funcMgr s) t '''' '''' = Ok (tenant_funcs s t)"
proof -
  have "starts_with (t @ ''/'') k \<longleftrightarrow> do_tenant f = t" if kf: "(k, f) \<in> set (funcMgr s)" for k f
  proof -
    have k: "k = slash3 (do_tenant f) (do_namespace f) (do_name f)" and "no_slash (do_tenant f)"
      using assms(1) kf validate_name_no_slash by (auto simp: mgr_ok_def DataObject_Key_def valid_names_def)
    moreover have "no_slash t" using assms(2) by (rule validate_name_no_slash)
    ultimately show ?thesis using split_once_inj[of "CHR ''/''" "do_tenant f" t] by (auto simp: starts_with_prefix slash3_def)
  qed
  then have "map snd (filter (\<lambda>e. starts_with (t @ ''/'') (fst e)) (funcMgr s)) = tenant_funcs s t"
    unfolding tenant_funcs_def bt_values_def filter_map by (intro arg_cong[of _ _ "map snd"] filter_cong) auto
  then show ?thesis
    using assms range_scan_filter[of "funcMgr s" "t @ ''/''"] by (simp add: GetObjectsByPrefix_def mgr_ok_def)
qed

lemma tenant_funcs_add: "length (filter P (bt_values (bt_insert k v m))) \<le> Suc (length (filter P (bt_values m)))"
  by (induction k v m rule: bt_insert.induct) (auto simp: bt_values_def)

text \<open>
  C28. The limit on the number of functions of a tenant: a creation is admitted only while the tenant is
  below its limit in the checked view, so a view that is up to date never exceeds it; but two requests
  checked before the first is delivered both pass, and the limit is exceeded.
\<close>

theorem function_limit_check:
  assumes "mgr_ok (funcMgr s)" "valid_names f" "do_tenant f \<noteq> ''''" "CreateFuncCheck s f = Ok ()"
    and "ProcessDeltaEvent s (Added, FunctionVal f, None) = (s', Ok ())"
  shows "(\<exists>tenant. DataObjectMgr_Get (tenantMgr s) ''system'' ''system'' (do_tenant f) = Ok tenant \<and>
     length (tenant_funcs s' (do_tenant f)) \<le> maxFuncCnt (resourceLimit (tn_spec (object tenant)))) \<and>
     (\<exists>c tenant. cluster_step\<^sup>*\<^sup>* empty_cluster c \<and> DataObjectMgr_Get (tenantMgr (view c)) ''system'' ''system'' ''t'' = Ok tenant \<and>
        maxFuncCnt (resourceLimit (tn_spec (object tenant))) < length (tenant_funcs (view c) ''t''))"
proof
  have pre: "GetObjectsByPrefix (funcMgr s) (do_tenant f) '''' '''' = Ok (tenant_funcs s (do_tenant f))"
    using GetObjectsByPrefix_tenant assms(1-3) by (auto simp: valid_names_def)
  obtain tenant where t: "DataObjectMgr_Get (tenantMgr s) ''system'' ''system'' (do_tenant f) = Ok tenant"
      "length (tenant_funcs s (do_tenant f)) < maxFuncCnt (resourceLimit (tn_spec (object tenant)))"
    using assms(4) pre by (auto simp: CreateFuncCheck_def res_simps Let_def split: if_splits)
  have "funcMgr s' = bt_insert (DataObject_Key f) f (funcMgr s)"
    using assms(5) by (auto simp: on_funcs_def DataObjectMgr_Add_def Let_def split: if_splits)
  then have "length (tenant_funcs s' (do_tenant f)) \<le> Suc (length (tenant_funcs s (do_tenant f)))"
    by (simp add: tenant_funcs_def tenant_funcs_add)
  then show "\<exists>tenant. DataObjectMgr_Get (tenantMgr s) ''system'' ''system'' (do_tenant f) = Ok tenant \<and>
     length (tenant_funcs s' (do_tenant f)) \<le> maxFuncCnt (resourceLimit (tn_spec (object tenant)))"
    using t by auto
next
  let ?c = "\<lparr>view = ex_view [ex_func ''a'' File, ex_func ''b'' File], inflight = []\<rparr>"
  have "DataObjectMgr_Get (tenantMgr (view ?c)) ''system'' ''system'' ''t'' = Ok ex_tenant"
    by (simp add: ex_view_def DataObjectMgr_Get_def slash3_def bt_get_Cons)
  moreover have "maxFuncCnt (resourceLimit (tn_spec (object ex_tenant))) < length (tenant_funcs (view ?c) ''t'')"
    by (simp add: ex_tenant_def tenant_funcs_def bt_values_def ex_view_def ex_func_def)
  ultimately show "\<exists>c tenant. cluster_step\<^sup>*\<^sup>* empty_cluster c \<and> DataObjectMgr_Get (tenantMgr (view c)) ''system'' ''system'' ''t'' = Ok tenant \<and>
        maxFuncCnt (resourceLimit (tn_spec (object tenant))) < length (tenant_funcs (view c) ''t'')"
    using ex_race_reach by blast
qed

theorem function_limit_check_witness:
  "length (tenant_funcs (ex_view [ex_func ''a'' File]) ''t'') \<le> 1"
proof -
  have "CreateFuncCheck (ex_view []) (ex_func ''a'' File) = Ok ()"
    by (simp add: admission_eval ex_view_def)
  moreover have "ProcessDeltaEvent (ex_view []) (Added, FunctionVal (ex_func ''a'' File), None) = (ex_view [ex_func ''a'' File], Ok ())"
    by (simp add: admission_eval ex_view_def)
  moreover have "mgr_ok (funcMgr (ex_view []))" by (simp add: mgr_ok_def ex_view_def)
  moreover have "valid_names (ex_func ''a'' File)" "do_tenant (ex_func ''a'' File) = ''t''"
    by (simp_all add: valid_names_def ex_func_def validate_name_def is_ascii_alphanumeric_def less_eq_char_def is_digit_def)
  moreover have "DataObjectMgr_Get (tenantMgr (ex_view [])) ''system'' ''system'' ''t'' = Ok ex_tenant"
    by (simp add: ex_view_def DataObjectMgr_Get_def slash3_def bt_get_Cons)
  ultimately show ?thesis
    using function_limit_check[of "ex_view []" "ex_func ''a'' File" "ex_view [ex_func ''a'' File]"] by (simp add: ex_tenant_def)
qed

text \<open>
  C29. What admission lets through: an update may switch a function to memory standby although the
  tenant does not allow it, which a creation of the same function may not; and the delete handler does
  not consult \<open>DeleteObjCheck\<close>, so deleting a tenant or a namespace, which that check always refuses,
  succeeds whenever the store accepts it.
\<close>

theorem admission_gaps:
  "(\<exists>s f e. CreateFuncCheck (s\<lparr>funcMgr := []\<rparr>) f = Err e \<and> UpdateFuncCheck s f = Ok () \<and> uses_mem_standby f \<and>
      (\<exists>tenant. DataObjectMgr_Get (tenantMgr s) ''system'' ''system'' (do_tenant f) = Ok tenant \<and>
         \<not> allocMemStandby (resourceLimit (tn_spec (object tenant))))) \<and>
   (\<forall>s t ns nm rv st. \<not> is_ok (DeleteObjCheck s ''tenant'' t ns nm) \<and>
      svc_delete (Some (Ok True)) (Ok rv) st s ''tenant'' = Ok \<lparr>mr_error = '''', mr_revision = rv\<rparr>)"
proof
  let ?s = "ex_view [ex_func ''a'' File]" and ?f = "ex_func ''a'' Mem"
  have "CreateFuncCheck (?s\<lparr>funcMgr := []\<rparr>) ?f = Err (NotExist ''Standby is not allowed in tenant allocMemStandby==false'')"
    by (simp add: admission_eval ex_view_def)
  moreover have "UpdateFuncCheck ?s ?f = Ok ()" by (simp add: admission_eval ex_view_def)
  moreover have "uses_mem_standby ?f" by (simp add: ex_func_def uses_mem_standby_def)
  moreover have "DataObjectMgr_Get (tenantMgr ?s) ''system'' ''system'' (do_tenant ?f) = Ok ex_tenant"
    by (simp add: ex_view_def DataObjectMgr_Get_def slash3_def bt_get_Cons ex_func_def)
  moreover have "\<not> allocMemStandby (resourceLimit (tn_spec (object ex_tenant)))"
    by (simp add: ex_tenant_def default_resourcelimit_def)
  ultimately show "\<exists>s f e. CreateFuncCheck (s\<lparr>funcMgr := []\<rparr>) f = Err e \<and> UpdateFuncCheck s f = Ok () \<and> uses_mem_standby f \<and>
      (\<exists>tenant. DataObjectMgr_Get (tenantMgr s) ''system'' ''system'' (do_tenant f) = Ok tenant \<and>
         \<not> allocMemStandby (resourceLimit (tn_spec (object tenant))))"
    by blast
qed (simp add: DeleteObjCheck_def svc_delete_def)

text \<open>
  Writing the status of an updated function: the loop ends after at most three attempts; it
  succeeds with the first write the store accepts when every earlier one met a conflict, and reports the
  conflict when all three do.
\<close>

theorem UpdateFuncStatus_three_attempts:
  assumes "\<forall>n. 1 \<le> n \<and> n \<le> 3 \<longrightarrow> (\<exists>r. get n = Ok r)"
    and "\<forall>n rv. 1 \<le> n \<and> n < k \<longrightarrow> (\<exists>a b. upd n rv = Err (UpdateRevNotMatchErr a b))" "1 \<le> k" "k \<le> 4"
    and "k \<le> 3 \<Longrightarrow> \<forall>rv. upd k rv = Ok ()"
  shows "if k \<le> 3 then update_status_loop get upd 1 = Ok ()
         else \<exists>a b. update_status_loop get upd 1 = Err (UpdateRevNotMatchErr a b)"
proof -
  have step: "update_status_loop get upd n = update_status_loop get upd (n + 1)" if n: "1 \<le> n" "n < k" "n < 3" for n
  proof -
    obtain r where r: "get n = Ok r" using assms(1) n by (metis less_imp_le)
    obtain a b where "upd n (case r of Some r \<Rightarrow> r | None \<Rightarrow> 0) = Err (UpdateRevNotMatchErr a b)"
      using assms(2) n by blast
    then show ?thesis using n r by (subst update_status_loop.simps) simp
  qed
  obtain r1 r2 r3 where g: "get 1 = Ok r1" "get 2 = Ok r2" "get 3 = Ok r3" using assms(1) by force
  consider "k = 1" | "k = 2" | "k = 3" | "k = 4" using assms(3,4) by linarith
  then show ?thesis
  proof cases
    case 1
    then show ?thesis using assms(5) g by (subst update_status_loop.simps) simp
  next
    case 2
    then have "update_status_loop get upd 2 = Ok ()" using assms(5) g by (subst update_status_loop.simps) simp
    then show ?thesis using 2 step[of 1] by (simp add: numeral_2_eq_2)
  next
    case 3
    then have "update_status_loop get upd 3 = Ok ()" using assms(5) g by (subst update_status_loop.simps) simp
    then show ?thesis using 3 step[of 1] step[of 2] by (simp add: numeral_eq_Suc)
  next
    case 4
    then obtain a b where "upd 3 (case r3 of Some r \<Rightarrow> r | None \<Rightarrow> 0) = Err (UpdateRevNotMatchErr a b)"
      using assms(2) by fastforce
    then have "update_status_loop get upd 3 = Err (UpdateRevNotMatchErr a b)" using g by (subst update_status_loop.simps) simp
    then show ?thesis using 4 step[of 1] step[of 2] by (simp add: numeral_eq_Suc)
  qed
qed

theorem UpdateFuncStatus_three_attempts_witness:
  "update_status_loop (\<lambda>n. Ok (Some (int n))) (\<lambda>n rv. if n < 3 then Err (UpdateRevNotMatchErr 7 rv) else Ok ()) 1 = Ok ()"
  using UpdateFuncStatus_three_attempts[of "\<lambda>n. Ok (Some (int n))" 3 "\<lambda>n rv. if n < 3 then Err (UpdateRevNotMatchErr 7 rv) else Ok ()"]
  by simp

end
