(* ===== verification/Handler_Monad.thy ===== *)
theory Handler_Monad
  imports Common
begin

text \<open>
  Handlers of the scheduler change their own state and return a \<open>Result\<close>. Such a function is an action:
  from a state to an outcome and the state it leaves, also when the outcome is an error, because \<open>?\<close>
  keeps what was changed before it. A panic ends the process; the state it leaves is not used.

  \<open>keeps I m\<close> says that \<open>m\<close> preserves \<open>I\<close> unless it panics; \<open>hoare P m Q E\<close> is the triple with one
  postcondition for success and one for errors. Both have a rule for every combinator, so that the
  invariants of the handlers follow by applying them.
\<close>

type_synonym ('s, 'a) act = "'s \<Rightarrow> ('a, error) res \<times> 's"

section \<open>Combinators\<close>

definition ret :: "'a \<Rightarrow> ('s, 'a) act" where
  "ret x = (\<lambda>s. (Ok x, s))"

definition abind :: "('s, 'a) act \<Rightarrow> ('a \<Rightarrow> ('s, 'b) act) \<Rightarrow> ('s, 'b) act" where
  "abind m f = (\<lambda>s. case m s of (Ok x, s') \<Rightarrow> f x s' | (Err e, s') \<Rightarrow> (Err e, s') | (Panic, s') \<Rightarrow> (Panic, s'))"

definition aseq :: "('s, 'a) act \<Rightarrow> ('s, 'b) act \<Rightarrow> ('s, 'b) act" where
  "aseq m n = abind m (\<lambda>_. n)"

definition aget :: "('s \<Rightarrow> 'a) \<Rightarrow> ('s, 'a) act" where
  "aget f = (\<lambda>s. (Ok (f s), s))"

definition amod :: "('s \<Rightarrow> 's) \<Rightarrow> ('s, unit) act" where
  "amod f = (\<lambda>s. (Ok (), f s))"

definition alift :: "('a, error) res \<Rightarrow> ('s, 'a) act" where
  "alift r = (\<lambda>s. (r, s))"

definition athrow :: "error \<Rightarrow> ('s, 'a) act" where
  "athrow e = alift (Err e)"

definition apanic :: "('s, 'a) act" where
  "apanic = alift Panic"

definition aassert :: "bool \<Rightarrow> ('s, unit) act" where
  "aassert b = alift (rassert b)"

definition awhen :: "bool \<Rightarrow> ('s, unit) act \<Rightarrow> ('s, unit) act" where
  "awhen b m = (if b then m else ret ())"

text \<open>\<open>if let Some(x) = o { ... }\<close>\<close>

definition asome :: "'a option \<Rightarrow> ('a \<Rightarrow> ('s, unit) act) \<Rightarrow> ('s, unit) act" where
  "asome x f = (case x of None \<Rightarrow> ret () | Some v \<Rightarrow> f v)"

text \<open>\<open>match m { Ok(x) => ..., Err(e) => ... }\<close>: the outcome as a value.\<close>

definition atry :: "('s, 'a) act \<Rightarrow> ('s, ('a, error) res) act" where
  "atry m = (\<lambda>s. case m s of (Panic, s') \<Rightarrow> (Panic, s') | (r, s') \<Rightarrow> (Ok r, s'))"

text \<open>\<open>m.ok();\<close>: the outcome is dropped.\<close>

definition aok :: "('s, 'a) act \<Rightarrow> ('s, unit) act" where
  "aok m = abind (atry m) (\<lambda>_. ret ())"

fun aiter :: "('b \<Rightarrow> ('s, unit) act) \<Rightarrow> 'b list \<Rightarrow> ('s, unit) act" where
  "aiter f [] = ret ()"
| "aiter f (x # xs) = aseq (f x) (aiter f xs)"

section \<open>Evaluation\<close>

named_theorems act_simps \<open>running an action on a state\<close>

lemma ret_run [simp, act_simps]: "ret x s = (Ok x, s)"
  by (simp add: ret_def)

lemma abind_run [act_simps]:
  "abind m f s = (case m s of (Ok x, s') \<Rightarrow> f x s' | (Err e, s') \<Rightarrow> (Err e, s') | (Panic, s') \<Rightarrow> (Panic, s'))"
  by (simp add: abind_def)

lemma aseq_run [act_simps]:
  "aseq m n s = (case m s of (Ok x, s') \<Rightarrow> n s' | (Err e, s') \<Rightarrow> (Err e, s') | (Panic, s') \<Rightarrow> (Panic, s'))"
  by (simp add: aseq_def abind_def)

lemma aget_run [simp, act_simps]: "aget f s = (Ok (f s), s)"
  by (simp add: aget_def)

lemma amod_run [simp, act_simps]: "amod f s = (Ok (), f s)"
  by (simp add: amod_def)

lemma alift_run [simp, act_simps]: "alift r s = (r, s)"
  by (simp add: alift_def)

lemma athrow_run [simp, act_simps]: "athrow e s = (Err e, s)"
  by (simp add: athrow_def)

lemma apanic_run [simp, act_simps]: "apanic s = (Panic, s)"
  by (simp add: apanic_def)

lemma aassert_run [simp, act_simps]: "aassert b s = (if b then Ok () else Panic, s)"
  by (simp add: aassert_def rassert_def)

lemma awhen_run [act_simps]: "awhen b m s = (if b then m s else (Ok (), s))"
  by (simp add: awhen_def)

lemma asome_run [act_simps]: "asome x f s = (case x of None \<Rightarrow> (Ok (), s) | Some v \<Rightarrow> f v s)"
  by (simp add: asome_def split: option.split)

lemma atry_run [act_simps]: "atry m s = (case m s of (Ok x, s') \<Rightarrow> (Ok (Ok x), s') | (Err e, s') \<Rightarrow> (Ok (Err e), s') | (Panic, s') \<Rightarrow> (Panic, s'))"
  by (simp add: atry_def split: prod.splits res.splits)

lemma aok_run [act_simps]: "aok m s = (case m s of (Panic, s') \<Rightarrow> (Panic, s') | (_, s') \<Rightarrow> (Ok (), s'))"
  by (simp add: aok_def abind_def atry_def split: prod.splits res.splits)

lemma aiter_run [act_simps]:
  "aiter f [] s = (Ok (), s)" "aiter f (x # xs) s = aseq (f x) (aiter f xs) s"
  by simp_all

lemma aseq_assoc: "aseq (aseq m n) k = aseq m (aseq n k)"
  by (rule ext) (simp add: aseq_run split: prod.splits res.splits)

lemma aseq_Ok: "aseq m n s = (Ok y, t) \<longleftrightarrow> (\<exists>x u. m s = (Ok x, u) \<and> n u = (Ok y, t))"
  by (auto simp: aseq_run split: prod.splits res.splits)

lemma abind_Ok: "abind m f s = (Ok y, t) \<longleftrightarrow> (\<exists>x u. m s = (Ok x, u) \<and> f x u = (Ok y, t))"
  by (auto simp: abind_run split: prod.splits res.splits)

lemma aiter_amod: "aiter (\<lambda>x. amod (f x)) xs s = (Ok (), fold f xs s)"
  by (induction xs arbitrary: s) (simp_all add: aseq_run)

section \<open>Triples\<close>

definition hoare :: "('s \<Rightarrow> bool) \<Rightarrow> ('s, 'a) act \<Rightarrow> ('a \<Rightarrow> 's \<Rightarrow> bool) \<Rightarrow> ('s \<Rightarrow> bool) \<Rightarrow> bool" where
  "hoare P m Q E \<longleftrightarrow> (\<forall>s. P s \<longrightarrow> (case m s of (Ok x, s') \<Rightarrow> Q x s' | (Err _, s') \<Rightarrow> E s' | (Panic, _) \<Rightarrow> True))"

definition keeps :: "('s \<Rightarrow> bool) \<Rightarrow> ('s, 'a) act \<Rightarrow> bool" where
  "keeps I m \<longleftrightarrow> hoare I m (\<lambda>_. I) I"

named_theorems keeps_intros \<open>an action preserves an invariant\<close>

lemma keeps_iff: "keeps I m \<longleftrightarrow> (\<forall>s r s'. I s \<longrightarrow> m s = (r, s') \<longrightarrow> r \<noteq> Panic \<longrightarrow> I s')"
proof -
  have "(case m s of (Ok x, s') \<Rightarrow> I s' | (Err _, s') \<Rightarrow> I s' | (Panic, _) \<Rightarrow> True) \<longleftrightarrow>
      (\<forall>r s'. m s = (r, s') \<longrightarrow> r \<noteq> Panic \<longrightarrow> I s')" for s
    by (cases "m s"; cases "fst (m s)") auto
  then show ?thesis by (auto simp: keeps_def hoare_def)
qed

lemma keepsD: "keeps I m \<Longrightarrow> m s = (r, s') \<Longrightarrow> r \<noteq> Panic \<Longrightarrow> I s \<Longrightarrow> I s'"
  by (auto simp: keeps_iff)

lemma keeps_ret [keeps_intros]: "keeps I (ret x)"
  by (simp add: keeps_iff)

lemma keeps_aget [keeps_intros]: "keeps I (aget f)"
  by (simp add: keeps_iff)

lemma keeps_alift [keeps_intros]: "keeps I (alift r)"
  by (simp add: keeps_iff)

lemma keeps_athrow [keeps_intros]: "keeps I (athrow e)"
  by (simp add: keeps_iff)

lemma keeps_apanic [keeps_intros]: "keeps I apanic"
  by (simp add: keeps_iff)

lemma keeps_aassert [keeps_intros]: "keeps I (aassert b)"
  by (simp add: keeps_iff)

lemma keeps_amod: "(\<And>s. I s \<Longrightarrow> I (f s)) \<Longrightarrow> keeps I (amod f)"
  by (simp add: keeps_iff)

lemma keeps_abind [keeps_intros]:
  assumes m: "keeps I m" and f: "\<And>x. keeps I (f x)"
  shows "keeps I (abind m f)"
  unfolding keeps_iff
proof (intro allI impI)
  fix s r s' assume s: "I s" "abind m f s = (r, s')" "r \<noteq> Panic"
  obtain q u where q: "m s = (q, u)" by force
  show "I s'"
    using s q keepsD[OF m q] keepsD[OF f] by (cases q) (auto simp: abind_run)
qed

lemma keeps_aseq [keeps_intros]: "keeps I m \<Longrightarrow> keeps I n \<Longrightarrow> keeps I (aseq m n)"
  by (simp add: aseq_def keeps_abind)

lemma keeps_if [keeps_intros]: "(b \<Longrightarrow> keeps I m) \<Longrightarrow> (\<not> b \<Longrightarrow> keeps I n) \<Longrightarrow> keeps I (if b then m else n)"
  by simp

lemma keeps_awhen [keeps_intros]: "(b \<Longrightarrow> keeps I m) \<Longrightarrow> keeps I (awhen b m)"
  by (simp add: awhen_def keeps_ret)

lemma keeps_asome [keeps_intros]: "(\<And>v. x = Some v \<Longrightarrow> keeps I (f v)) \<Longrightarrow> keeps I (asome x f)"
  by (simp add: asome_def keeps_ret split: option.split)

lemma keeps_atry [keeps_intros]:
  assumes m: "keeps I m"
  shows "keeps I (atry m)"
  unfolding keeps_iff
proof (intro allI impI)
  fix s r s' assume s: "I s" "atry m s = (r, s')" "r \<noteq> Panic"
  obtain q u where q: "m s = (q, u)" by force
  show "I s'" using s q keepsD[OF m q] by (cases q) (auto simp: atry_run)
qed

lemma keeps_aok [keeps_intros]: "keeps I m \<Longrightarrow> keeps I (aok m)"
  by (simp add: aok_def keeps_abind keeps_atry keeps_ret)

lemma keeps_aiter [keeps_intros]: "(\<And>x. x \<in> set xs \<Longrightarrow> keeps I (f x)) \<Longrightarrow> keeps I (aiter f xs)"
  by (induction xs) (simp_all add: keeps_ret keeps_aseq)

lemma keeps_option [keeps_intros]:
  "(x = None \<Longrightarrow> keeps I m) \<Longrightarrow> (\<And>v. x = Some v \<Longrightarrow> keeps I (f v)) \<Longrightarrow> keeps I (case x of None \<Rightarrow> m | Some v \<Rightarrow> f v)"
  by (simp split: option.split)

lemma keeps_res [keeps_intros]:
  "(\<And>v. r = Ok v \<Longrightarrow> keeps I (f v)) \<Longrightarrow> (\<And>e. r = Err e \<Longrightarrow> keeps I (g e)) \<Longrightarrow> (r = Panic \<Longrightarrow> keeps I h) \<Longrightarrow>
   keeps I (case r of Ok v \<Rightarrow> f v | Err e \<Rightarrow> g e | Panic \<Rightarrow> h)"
  by (simp split: res.split)

lemma keeps_prod [keeps_intros]: "(\<And>a b. x = (a, b) \<Longrightarrow> keeps I (f a b)) \<Longrightarrow> keeps I (case x of (a, b) \<Rightarrow> f a b)"
  by (simp split: prod.split)

lemma keeps_let [keeps_intros]: "(\<And>x. x = v \<Longrightarrow> keeps I (f x)) \<Longrightarrow> keeps I (let x = v in f x)"
  by simp

section \<open>Rules for triples\<close>


lemma hoareD: "hoare P m Q E \<Longrightarrow> P s \<Longrightarrow> m s = (Ok x, s') \<Longrightarrow> Q x s'"
  by (force simp: hoare_def)

lemma hoareD_Err: "hoare P m Q E \<Longrightarrow> P s \<Longrightarrow> m s = (Err e, s') \<Longrightarrow> E s'"
  by (force simp: hoare_def)

lemma hoareI:
  "(\<And>s x s'. P s \<Longrightarrow> m s = (Ok x, s') \<Longrightarrow> Q x s') \<Longrightarrow> (\<And>s e s'. P s \<Longrightarrow> m s = (Err e, s') \<Longrightarrow> E s') \<Longrightarrow> hoare P m Q E"
  by (auto simp: hoare_def split: prod.splits res.splits)

lemma hoare_keeps: "hoare P m (\<lambda>_. P) P \<Longrightarrow> keeps P m"
  by (simp add: keeps_def)

lemma hoare_weaken:
  assumes h: "hoare P' m Q' E'" and "\<And>s. P s \<Longrightarrow> P' s" "\<And>x s. Q' x s \<Longrightarrow> Q x s" "\<And>s. E' s \<Longrightarrow> E s"
  shows "hoare P m Q E"
  by (rule hoareI) (use assms hoareD[OF h] hoareD_Err[OF h] in blast)+

lemma hoare_pre: "hoare P' m Q E \<Longrightarrow> (\<And>s. P s \<Longrightarrow> P' s) \<Longrightarrow> hoare P m Q E"
  by (rule hoare_weaken)

lemma hoare_abind:
  assumes m: "hoare P m Q E" and f: "\<And>x. hoare (Q x) (f x) R E"
  shows "hoare P (abind m f) R E"
proof (rule hoareI)
  fix s y t assume "P s" "abind m f s = (Ok y, t)"
  then obtain x u where "m s = (Ok x, u)" "f x u = (Ok y, t)" by (auto simp: abind_Ok)
  then show "R y t" using \<open>P s\<close> hoareD[OF m] hoareD[OF f] by blast
next
  fix s e t assume s: "P s" "abind m f s = (Err e, t)"
  obtain q u where q: "m s = (q, u)" by force
  show "E t"
  proof (cases q)
    case (Ok x)
    then have "f x u = (Err e, t)" using s q by (simp add: abind_run)
    then show ?thesis using hoareD[OF m s(1)] q Ok hoareD_Err[OF f] by blast
  next
    case (Err e')
    then show ?thesis using s q hoareD_Err[OF m s(1)] by (simp add: abind_run)
  qed (use s q in \<open>simp add: abind_run\<close>)
qed

lemma hoare_aseq: "hoare P m (\<lambda>_. Q) E \<Longrightarrow> hoare Q n R E \<Longrightarrow> hoare P (aseq m n) R E"
  unfolding aseq_def by (rule hoare_abind)

lemma hoare_ret: "hoare (Q x) (ret x) Q E"
  by (simp add: hoare_def)

lemma hoare_aget: "hoare (\<lambda>s. Q (f s) s) (aget f) Q E"
  by (simp add: hoare_def)

lemma hoare_amod: "hoare (\<lambda>s. Q () (f s)) (amod f) Q E"
  by (simp add: hoare_def)

lemma hoare_apanic: "hoare P apanic Q E"
  by (simp add: hoare_def)

lemma hoare_alift: "(\<And>x. r = Ok x \<Longrightarrow> P = Q x) \<Longrightarrow> (\<And>e. r = Err e \<Longrightarrow> P = E) \<Longrightarrow> hoare P (alift r) Q E"
  by (auto simp: hoare_def split: res.splits)

lemma hoare_aassert: "hoare (\<lambda>s. b \<longrightarrow> Q () s) (aassert b) Q E"
  by (simp add: hoare_def)

lemma hoare_awhen: "(b \<Longrightarrow> hoare P m Q E) \<Longrightarrow> (\<And>s. \<not> b \<Longrightarrow> P s \<Longrightarrow> Q () s) \<Longrightarrow> hoare P (awhen b m) Q E"
  by (cases b) (auto simp: hoare_def awhen_run)

lemma hoare_if: "(b \<Longrightarrow> hoare P m Q E) \<Longrightarrow> (\<not> b \<Longrightarrow> hoare P n Q E) \<Longrightarrow> hoare P (if b then m else n) Q E"
  by simp

lemma hoare_False: "hoare (\<lambda>_. False) m Q E"
  by (simp add: hoare_def)

lemma hoare_aget_bind: "(\<And>s0. hoare (\<lambda>s. P s \<and> s = s0) (g (f s0)) Q E) \<Longrightarrow> hoare P (abind (aget f) g) Q E"
  by (simp add: hoare_def abind_run)

text \<open>A read whose value satisfies \<open>R\<close> in every state of the invariant.\<close>

lemma keeps_read:
  assumes "\<And>s. I s \<Longrightarrow> R (f s)" "\<And>x. R x \<Longrightarrow> keeps I (g x)"
  shows "keeps I (abind (aget f) g)"
  unfolding keeps_iff
proof (intro allI impI)
  fix s r s' assume s: "I s" "abind (aget f) g s = (r, s')" "r \<noteq> Panic"
  then have "g (f s) s = (r, s')" by (simp add: abind_run)
  then show "I s'" using keepsD[OF assms(2)[OF assms(1)]] s by blast
qed

text \<open>An action that changes nothing that \<open>g\<close> shows keeps any invariant that depends on \<open>g\<close> only.\<close>

lemma keeps_frame:
  assumes "\<And>v. keeps (\<lambda>s. g s = v) m"
  shows "keeps (\<lambda>s. J (g s)) m"
  unfolding keeps_iff
proof (intro allI impI)
  fix s r s' assume s: "J (g s)" "m s = (r, s')" "r \<noteq> Panic"
  then have "g s' = g s" using keepsD[OF assms] by blast
  then show "J (g s')" using s by simp
qed

lemma frame_hoare:
  assumes "\<And>v. keeps (\<lambda>s. g s = v) m" "\<And>s e s'. m s \<noteq> (Err e, s')"
  shows "hoare (\<lambda>s. g s = v) m (\<lambda>_ s. g s = v) (\<lambda>_. False)"
proof (rule hoareI)
  fix s x s' assume "g s = v" "m s = (Ok x, s')"
  then show "g s' = v" using keepsD[OF assms(1)] by blast
qed (use assms(2) in auto)

section \<open>Actions that do not fail\<close>

definition noerr :: "('s, 'a) act \<Rightarrow> bool" where
  "noerr m \<longleftrightarrow> (\<forall>s e s'. m s \<noteq> (Err e, s'))"

named_theorems noerr_intros \<open>actions that return no error\<close>

lemma noerr_basic [noerr_intros]:
  "noerr (ret x)" "noerr (aget f)" "noerr (amod g)" "noerr apanic" "noerr (aassert b)"
  by (simp_all add: noerr_def)

lemma noerr_abind [noerr_intros]: "noerr m \<Longrightarrow> (\<And>x. noerr (f x)) \<Longrightarrow> noerr (abind m f)"
  by (simp add: noerr_def abind_run split: prod.splits res.splits)

lemma noerr_aseq [noerr_intros]: "noerr m \<Longrightarrow> noerr n \<Longrightarrow> noerr (aseq m n)"
  by (simp add: aseq_def noerr_abind)

lemma noerr_control [noerr_intros]:
  "(b \<Longrightarrow> noerr m) \<Longrightarrow> noerr (awhen b m)" "(\<And>v. x = Some v \<Longrightarrow> noerr (f v)) \<Longrightarrow> noerr (asome x f)"
  "(b \<Longrightarrow> noerr m') \<Longrightarrow> (\<not> b \<Longrightarrow> noerr m'') \<Longrightarrow> noerr (if b then m' else m'')"
  by (auto simp: noerr_def awhen_def asome_def split: option.split)

lemma noerr_alift [noerr_intros]: "(\<And>e. r \<noteq> Err e) \<Longrightarrow> noerr (alift r)"
  by (simp add: noerr_def)

lemma noerr_cases [noerr_intros]:
  "(x = None \<Longrightarrow> noerr m) \<Longrightarrow> (\<And>v. x = Some v \<Longrightarrow> noerr (f v)) \<Longrightarrow> noerr (case x of None \<Rightarrow> m | Some v \<Rightarrow> f v)"
  "(\<And>a b. p = (a, b) \<Longrightarrow> noerr (g a b)) \<Longrightarrow> noerr (case p of (a, b) \<Rightarrow> g a b)"
  "noerr (h y) \<Longrightarrow> noerr (Let y h)"
  by (simp_all split: option.split prod.split)

lemma noerr_caught [noerr_intros]: "noerr (aok k)" "noerr (atry k)"
  by (auto simp: noerr_def aok_run atry_run split: prod.splits res.splits)

lemma noerr_aiter [noerr_intros]: "(\<And>x. noerr (f x)) \<Longrightarrow> noerr (aiter f xs)"
  by (induction xs) (auto intro: noerr_intros)

end
