(* ===== verification/Func_Snapshot.thy ===== *)
theory Func_Snapshot
  imports Resource Data_Obj
begin

text \<open>
  Snapshots of a function on a node (\<open>src/inferxlib/src/obj_mgr/funcsnapshot_mgr.rs\<close>): how much host
  memory a snapshot takes on standby and when it is ready. Sizes are bytes, results megabytes rounded up
  to whole gigabytes. The metadata of a snapshot is read by the node agent only and left out.
\<close>

record SnapshotInfo =
  hostMemSize :: nat
  processCheckpointSize :: nat
  fatbinSize :: nat
  gpuMemSizes :: "(int, nat) btmap"
  si_standby :: Standby
  containerImage :: string

record SnapshotStandyInfo =
  sy_pageable :: nat
  sy_pinned :: nat
  sy_gpu :: nat

datatype SnapshotState = SnAvailable | SnLoading | SnReady

record ContainerSnapshot =
  cs_funckey :: string
  cs_nodename :: string
  cs_state :: SnapshotState
  cs_info :: SnapshotInfo

type_synonym FuncSnapshot = "ContainerSnapshot DataObject"

definition ONE_GB :: nat where
  "ONE_GB = 2 ^ 30"

definition SnapshotStandyInfo_of :: "SnapshotInfo \<Rightarrow> (SnapshotStandyInfo, error) res" where
  "SnapshotStandyInfo_of self =
     and_then (rfold (\<lambda>(_, size) gpu. u64_add gpu size) (gpuMemSizes self) 0) (\<lambda>gpu.
     Ok \<lparr>sy_pageable = processCheckpointSize self, sy_pinned = hostMemSize self, sy_gpu = gpu\<rparr>)"

text \<open>\<open>(n + ONE_GB - 1) / ONE_GB * 1024\<close>\<close>

definition round_gb :: "nat \<Rightarrow> (nat, error) res" where
  "round_gb n = and_then (u64_add n ONE_GB) (\<lambda>m. u64_mul ((m - 1) div ONE_GB) 1024)"

definition StandyCacheMemory :: "SnapshotInfo \<Rightarrow> (nat, error) res" where
  "StandyCacheMemory self = (if pinndMem (si_standby self) = Mem then round_gb (hostMemSize self) else Ok 0)"

definition Info_ReadyCacheMemory :: "SnapshotInfo \<Rightarrow> (nat, error) res" where
  "Info_ReadyCacheMemory self = round_gb (hostMemSize self)"

definition StandbyMemory :: "SnapshotInfo \<Rightarrow> (nat, error) res" where
  "StandbyMemory self =
     (if pageableMem (si_standby self) = Mem then round_gb (processCheckpointSize self) else Ok 0)"

definition StandbyResource :: "ContainerSnapshot \<Rightarrow> (Resources, error) res" where
  "StandbyResource self =
     and_then (StandbyMemory (cs_info self)) (\<lambda>m.
     and_then (StandyCacheMemory (cs_info self)) (\<lambda>c.
     Ok \<lparr>rs_cpu = 0, rs_memory = m, rs_readyMemory = 0, rs_cacheMemory = c, rs_gpu = GPUResource_default\<rparr>))"

definition Snapshot_ReadyCacheMemory :: "ContainerSnapshot \<Rightarrow> (nat, error) res" where
  "Snapshot_ReadyCacheMemory self = Info_ReadyCacheMemory (cs_info self)"

lemma round_gb_covers:
  assumes "round_gb n = Ok m"
  shows "n \<le> m * 2 ^ 20" "m * 2 ^ 20 < n + ONE_GB" "m mod 1024 = 0"
proof -
  define k where "k = (n + ONE_GB - 1) div ONE_GB"
  have m: "m = k * 1024" using assms by (auto simp: round_gb_def res_simps arith_defs k_def split: if_splits)
  have "k * ONE_GB \<le> n + ONE_GB - 1" "n + ONE_GB - 1 < k * ONE_GB + ONE_GB"
    unfolding k_def by (simp_all add: dividend_less_div_times[of ONE_GB] ONE_GB_def)
  moreover have "m * 2 ^ 20 = k * ONE_GB" by (simp add: m ONE_GB_def)
  ultimately show "n \<le> m * 2 ^ 20" "m * 2 ^ 20 < n + ONE_GB" by (simp_all add: ONE_GB_def)
  show "m mod 1024 = 0" by (simp add: m)
qed

end
