(* ===== verification/Func_Status.thy ===== *)
theory Func_Status
  imports Func_Obj Node_Status Peer_Mgr
begin

text \<open>
  What the scheduler keeps of a function (\<open>FuncStatus\<close> in
  \<open>src/ixshare/src/scheduler/scheduler_handler.rs\<close>): its pods and the queue of lease requests that wait
  for one, and the GPU gauge of \<open>src/ixshare/src/gateway/metrics.rs\<close>.

  The state outside the scheduler's own structures is the record \<open>Rt\<close>: the cells of the workers, the
  gauge, and a trace of what was sent: answers on one-shot channels, values written to the Prometheus
  client, remote calls, usage ticks, audit records; the first argument of a remote call is the address of
  the node agent, and values that the code sends as JSON text are kept as values. A channel is a number; \<open>alive\<close> says whether its receiver still
  waits, and sending on a dead channel fails, as in \<open>tokio::sync::oneshot\<close>. Times are nanoseconds.
\<close>

section \<open>Messages\<close>

record LeaseWorkerReq =
  lr_tenant :: string
  lr_namespace :: string
  lr_funcname :: string
  lr_fprevision :: int
  lr_gateway_id :: int
  lr_consumer_tenant :: string

record LeaseWorkerResp =
  ls_error :: string
  ls_id :: string
  ls_ipaddr :: "32 word"
  ls_keepalive :: bool
  ls_hostipaddr :: "32 word"
  ls_hostport :: nat
  ls_hostnetwork :: bool

definition lease_error :: "string \<Rightarrow> LeaseWorkerResp" where
  "lease_error e = \<lparr>ls_error = e, ls_id = '''', ls_ipaddr = 0, ls_keepalive = False, ls_hostipaddr = 0, ls_hostport = 0,
     ls_hostnetwork = False\<rparr>"

record PodLabels =
  pl_tenant :: string
  pl_namespace :: string
  pl_funcname :: string
  pl_revision :: int
  pl_nodename :: string

record TerminatePodReq =
  tp_tenant :: string
  tp_namespace :: string
  tp_funcname :: string
  tp_fprevision :: int
  tp_id :: string

record ResumePodReq =
  rq_tenant :: string
  rq_namespace :: string
  rq_funcname :: string
  rq_fprevision :: int
  rq_id :: string
  rq_alloc_resources :: NodeResources
  rq_terminate_pods :: "TerminatePodReq list"

record CreateFuncPodReq =
  cq_tenant :: string
  cq_namespace :: string
  cq_funcname :: string
  cq_fprevision :: int
  cq_id :: string
  cq_annotations :: "(string \<times> string) list"
  cq_create_type :: CreatePodType
  cq_funcspec :: FuncSpec
  cq_alloc_resources :: NodeResources
  cq_resource_quota :: NodeResources
  cq_terminate_pods :: "TerminatePodReq list"

record UsageTick =
  ut_session_id :: string
  ut_tenant :: string
  ut_caller_tenant :: "string option"
  ut_namespace :: string
  ut_funcname :: string
  ut_fprevision :: int
  ut_nodename :: "string option"
  ut_pod_id :: "int option"
  ut_gateway_id :: "int option"
  ut_gpu_type :: string
  ut_gpu_count :: int
  ut_vram_mb :: int
  ut_total_vram_mb :: int
  interval_ms :: int
  tick_type :: string
  usage_type :: string
  is_coldstart :: bool

record SnapshotScheduleAudit =
  sa_tenant :: string
  sa_namespace :: string
  sa_funcname :: string
  sa_revision :: int
  sa_nodename :: string
  sa_state :: string
  sa_detail :: string

datatype KillPodStatus = KillOk | KillNotFound | KillInvalidState | KillInternal

datatype Response = LeaseResp LeaseWorkerResp | ConnectResp string | ReturnResp string | KillResp string KillPodStatus

datatype SchedTask =
    RefreshSnapshot
  | RemoveSnapshotFromNode string string string
  | SnapshotTask string string
  | NvidiaPodTask string
  | StandbyTask string
  | TaskAddNode string
  | TaskAddFunc string
  | DelayedInitNode string

datatype Effect =
    Sent nat Response
  | PodLeaseInc PodLabels
  | ColdStartObserve PodLabels nat
  | UsedGPUSet string int
  | TotalGPUSet string int
  | TotalGPURemove string
  | RpcTerminate string TerminatePodReq
  | RpcResume string ResumePodReq
  | RpcCreate string CreateFuncPodReq
  | RpcRemoveSnapshot string string
  | Tick UsageTick
  | SnapshotAudit SnapshotScheduleAudit
  | StatusWritten FunctionStatus

record Rt =
  heap :: Heap
  usedGpuCnt :: "(string, nat) btmap"
  trace :: "Effect list"

definition emit :: "Effect \<Rightarrow> Rt \<Rightarrow> Rt" where
  "emit e rt = rt\<lparr>trace := trace rt @ [e]\<rparr>"

definition on_heap :: "(Heap \<Rightarrow> Heap) \<Rightarrow> Rt \<Rightarrow> Rt" where
  "on_heap f rt = rt\<lparr>heap := f (heap rt)\<rparr>"

section \<open>The GPU gauge\<close>

definition IxGauge_Inc :: "string \<Rightarrow> nat \<Rightarrow> (string, nat) btmap \<Rightarrow> ((string, nat) btmap \<times> nat, error) res" where
  "IxGauge_Inc label cnt m =
     (case bt_get label m of
        None \<Rightarrow> Ok (bt_insert label cnt m, cnt)
      | Some v \<Rightarrow> and_then (u64_add v cnt) (\<lambda>v'. Ok (bt_insert label v' m, v')))"

definition IxGauge_Dec :: "string \<Rightarrow> nat \<Rightarrow> (string, nat) btmap \<Rightarrow> (string, nat) btmap \<times> nat" where
  "IxGauge_Dec label cnt m =
     (case bt_get label m of
        None \<Rightarrow> (m, 0)
      | Some v \<Rightarrow> (bt_insert label (v - cnt) m, v - cnt))"

abbreviation gpus_of :: "WorkerPod \<Rightarrow> nat" where
  "gpus_of w \<equiv> gpuCount (rs_gpu (reqResources (podSpec (wp_pod w))))"

abbreviation node_of :: "WorkerPod \<Rightarrow> string" where
  "node_of w \<equiv> ps_nodename (podSpec (wp_pod w))"

text \<open>The gauge of a worker's node counts its GPUs in or out, and the result is exported.\<close>

definition gauge_inc :: "WorkerPod \<Rightarrow> Rt \<Rightarrow> (Rt, error) res" where
  "gauge_inc w rt =
     and_then (IxGauge_Inc (node_of w) (gpus_of w) (usedGpuCnt rt)) (\<lambda>(m, cnt).
     Ok (emit (UsedGPUSet (node_of w) (u64_as_i64 cnt)) (rt\<lparr>usedGpuCnt := m\<rparr>)))"

definition gauge_dec :: "WorkerPod \<Rightarrow> Rt \<Rightarrow> Rt" where
  "gauge_dec w rt =
     (let (m, cnt) = IxGauge_Dec (node_of w) (gpus_of w) (usedGpuCnt rt)
      in emit (UsedGPUSet (node_of w) (u64_as_i64 cnt)) (rt\<lparr>usedGpuCnt := m\<rparr>))"

section \<open>The status of a function\<close>

record LeaseReq =
  lq_req :: LeaseWorkerReq
  lq_time :: nat

record FuncStatus =
  fs_func :: Function
  fs_pods :: "(string, WorkerPod) btmap"
  fs_pendingPods :: "(string, PendingPod) btmap"
  fs_stoppingPods :: "string btset"
  leaseWorkerReqs :: "(LeaseReq \<times> nat) list"

definition FuncStatus_New :: "Function \<Rightarrow> (string, WorkerPod) btmap \<Rightarrow> (FuncStatus, error) res" where
  "FuncStatus_New fp pods = Ok \<lparr>fs_func = fp, fs_pods = pods, fs_pendingPods = [], fs_stoppingPods = [], leaseWorkerReqs = []\<rparr>"

definition PushLeaseWorkerReq :: "nat \<Rightarrow> FuncStatus \<Rightarrow> LeaseWorkerReq \<Rightarrow> nat \<Rightarrow> FuncStatus" where
  "PushLeaseWorkerReq now self req tx =
     self\<lparr>leaseWorkerReqs := leaseWorkerReqs self @ [(\<lparr>lq_req = req, lq_time = now\<rparr>, tx)]\<rparr>"

definition PopLeaseWorkerReq :: "FuncStatus \<Rightarrow> FuncStatus \<times> (LeaseReq \<times> nat) option" where
  "PopLeaseWorkerReq self =
     (case leaseWorkerReqs self of
        [] \<Rightarrow> (self, None)
      | e # q \<Rightarrow> (self\<lparr>leaseWorkerReqs := q\<rparr>, Some e))"

text \<open>\<open>elapsed().as_millis() as u64 > timeout_ms\<close>; a time in the future has no elapsed time.\<close>

definition lease_expired :: "nat \<Rightarrow> nat \<Rightarrow> LeaseReq \<times> nat \<Rightarrow> bool" where
  "lease_expired now timeout_ms e \<longleftrightarrow>
     lq_time (fst e) \<le> now \<and> timeout_ms < ((now - lq_time (fst e)) div 1000000) mod 2 ^ 64"

fun reconcile_loop :: "nat \<Rightarrow> nat \<Rightarrow> (LeaseReq \<times> nat) list \<Rightarrow> nat \<Rightarrow> (LeaseReq \<times> nat) list \<times> nat" where
  "reconcile_loop now timeout_ms [] removed = ([], removed)"
| "reconcile_loop now timeout_ms (e # q) removed =
     (if lease_expired now timeout_ms e then reconcile_loop now timeout_ms q (removed + 1) else (e # q, removed))"

definition ReconcileStuckLeaseRequests :: "nat \<Rightarrow> FuncStatus \<Rightarrow> nat \<Rightarrow> FuncStatus \<times> nat" where
  "ReconcileStuckLeaseRequests now self timeout_ms =
     (let (q, n) = reconcile_loop now timeout_ms (leaseWorkerReqs self) 0 in (self\<lparr>leaseWorkerReqs := q\<rparr>, n))"

definition Func_AddPendingPod :: "FuncStatus \<Rightarrow> PendingPod \<Rightarrow> (FuncStatus, error) res" where
  "Func_AddPendingPod self p = Ok (self\<lparr>fs_pendingPods := bt_insert (pp_podKey p) p (fs_pendingPods self)\<rparr>)"

definition HasPendingPod :: "FuncStatus \<Rightarrow> bool" where
  "HasPendingPod self \<longleftrightarrow> 0 < length (fs_pendingPods self)"

definition Func_AddPod :: "FuncStatus \<Rightarrow> WorkerPod \<Rightarrow> (FuncStatus, error) res" where
  "Func_AddPod self pod =
     (let podKey = PodKey (wp_pod pod)
      in Ok (self\<lparr>fs_pendingPods := bt_remove podKey (fs_pendingPods self), fs_pods := bt_insert podKey pod (fs_pods self)\<rparr>))"

definition consumer_of :: "LeaseWorkerReq \<Rightarrow> string option" where
  "consumer_of req = (if lr_consumer_tenant req = '''' then None else Some (lr_consumer_tenant req))"

definition labels_of :: "LeaseWorkerReq \<Rightarrow> WorkerPod \<Rightarrow> PodLabels" where
  "labels_of req w = \<lparr>pl_tenant = lr_tenant req, pl_namespace = lr_namespace req, pl_funcname = lr_funcname req,
     pl_revision = lr_fprevision req, pl_nodename = node_of w\<rparr>"

definition lease_resp :: "WorkerPod \<Rightarrow> Peer \<Rightarrow> bool \<Rightarrow> LeaseWorkerResp" where
  "lease_resp w peer keep = \<lparr>ls_error = '''', ls_id = ps_id (podSpec (wp_pod w)), ls_ipaddr = ps_ipAddr (podSpec (wp_pod w)),
     ls_keepalive = keep, ls_hostipaddr = hostIp peer, ls_hostport = unat (pr_port peer),
     ls_hostnetwork = NvidiaRuntime (wp_pod w)\<rparr>"

text \<open>
  The loop of \<open>UpdatePod\<close>: hand the ready worker to the first request whose caller still waits. The
  queue, the outer state and the outcome: \<open>Ok True\<close> when the worker became idle.
\<close>

fun serve_queue ::
  "(nat \<Rightarrow> bool) \<Rightarrow> nat \<Rightarrow> PeerMgr \<Rightarrow> WorkerPod \<Rightarrow> (LeaseReq \<times> nat) list \<Rightarrow> Rt \<Rightarrow>
   (LeaseReq \<times> nat) list \<times> Rt \<times> (bool, error) res" where
  "serve_queue alive now pm w [] rt = ([], on_heap (SetIdle w) rt, Ok True)"
| "serve_queue alive now pm w ((lr, tx) # q) rt =
     (if now < lq_time lr then (q, rt, Panic)
      else
        (case LookforPeer pm (ps_ipAddr (podSpec (wp_pod w))) of
           Err e \<Rightarrow> (q, rt, Err e)
         | Panic \<Rightarrow> (q, rt, Panic)
         | Ok peer \<Rightarrow>
             if alive tx then
               (let req = lq_req lr;
                    rt1 = emit (Sent tx (LeaseResp (lease_resp w peer False))) rt
                in case SetWorking (lr_gateway_id req) w (heap rt1) of
                     Ok h \<Rightarrow>
                       let rt2 = rt1\<lparr>heap := SetConsumer (consumer_of req) w h\<rparr>;
                           rt3 = emit (PodLeaseInc (labels_of req w)) rt2;
                           rt4 = emit (ColdStartObserve (labels_of req w) ((now - lq_time lr) div 1000000)) rt3
                       in (case gauge_inc w rt4 of
                             Ok rt5 \<Rightarrow> (q, rt5, Ok False)
                           | Err e \<Rightarrow> (q, rt4, Err e)
                           | Panic \<Rightarrow> (q, rt4, Panic))
                   | Err e \<Rightarrow> (q, rt1, Err e)
                   | Panic \<Rightarrow> (q, rt1, Panic))
             else serve_queue alive now pm w q rt))"

definition Func_UpdatePod ::
  "(nat \<Rightarrow> bool) \<Rightarrow> nat \<Rightarrow> PeerMgr \<Rightarrow> FuncStatus \<Rightarrow> WorkerPod \<Rightarrow> Rt \<Rightarrow> FuncStatus \<times> Rt \<times> (bool, error) res" where
  "Func_UpdatePod alive now pm self pod rt =
     (let podKey = PodKey (wp_pod pod);
          self1 = self\<lparr>fs_pods := bt_insert podKey pod (fs_pods self)\<rparr>
      in if bt_get podKey (fs_pods self) = None then (self1, rt, Panic)
         else if podState (wp_pod pod) = PsReady \<and> IsIdle (State (heap rt) pod) then
           (let (q, rt', r) = serve_queue alive now pm pod (leaseWorkerReqs self1) rt
            in (self1\<lparr>leaseWorkerReqs := q\<rparr>, rt', r))
         else (self1, rt, Ok False))"

definition Func_RemovePod :: "FuncStatus \<Rightarrow> string \<Rightarrow> FuncStatus" where
  "Func_RemovePod self podKey =
     self\<lparr>fs_pods := bt_remove podKey (fs_pods self), fs_pendingPods := bt_remove podKey (fs_pendingPods self),
          fs_stoppingPods := bt_remove podKey (fs_stoppingPods self)\<rparr>"

definition Func_AddStoppingPod :: "FuncStatus \<Rightarrow> string \<Rightarrow> FuncStatus" where
  "Func_AddStoppingPod self podKey = self\<lparr>fs_stoppingPods := bs_insert podKey (fs_stoppingPods self)\<rparr>"

definition Func_RemoveStoppingPod :: "FuncStatus \<Rightarrow> string \<Rightarrow> FuncStatus \<times> bool" where
  "Func_RemoveStoppingPod self podKey =
     (self\<lparr>fs_stoppingPods := bt_remove podKey (fs_stoppingPods self)\<rparr>, bt_contains podKey (fs_stoppingPods self))"

section \<open>The lease queue\<close>

lemma reconcile_loop_eq:
  "reconcile_loop now t q n = (dropWhile (lease_expired now t) q, n + length (takeWhile (lease_expired now t) q))"
  by (induction q arbitrary: n) auto

lemma serve_queue_dead:
  "(\<forall>(lr, tx) \<in> set d. \<not> alive tx \<and> lq_time lr \<le> now) \<Longrightarrow> LookforPeer pm (ps_ipAddr (podSpec (wp_pod w))) = Ok peer \<Longrightarrow>
   serve_queue alive now pm w (d @ q) rt = serve_queue alive now pm w q rt"
  by (induction d) auto

text \<open>Requests queued by a clock that does not run backwards.\<close>

definition queue_ordered :: "(LeaseReq \<times> nat) list \<Rightarrow> bool" where
  "queue_ordered q \<longleftrightarrow> sorted (map (\<lambda>e. lq_time (fst e)) q)"

lemma queue_ordered_push:
  "queue_ordered (leaseWorkerReqs s) \<Longrightarrow> (\<forall>e \<in> set (leaseWorkerReqs s). lq_time (fst e) \<le> now) \<Longrightarrow>
   queue_ordered (leaseWorkerReqs (PushLeaseWorkerReq now s req tx))"
  by (auto simp: queue_ordered_def PushLeaseWorkerReq_def sorted_append)

lemma dropWhile_eq_filter_not:
  "(\<And>xs ys x y. q = xs @ x # ys \<Longrightarrow> y \<in> set ys \<Longrightarrow> P y \<Longrightarrow> P x) \<Longrightarrow> dropWhile P q = filter (\<lambda>x. \<not> P x) q"
proof (induction q)
  case (Cons a q)
  show ?case
  proof (cases "P a")
    case True
    then show ?thesis using Cons.IH Cons.prems[of "a # _"] by (metis append_Cons dropWhile.simps(2) filter.simps(2))
  next
    case False
    then have "\<forall>y \<in> set q. \<not> P y" using Cons.prems[of "[]" a q] by auto
    then show ?thesis using False by simp
  qed
qed simp

text \<open>
  Cleaning up stuck lease requests: the requests removed are the longest expired prefix of the
  queue and their number is returned; in a queue filled by a clock that does not run backwards these are
  exactly the expired requests, so no fresh request is lost and no expired one stays.
\<close>

theorem ReconcileStuckLeaseRequests_exact:
  assumes "queue_ordered (leaseWorkerReqs s)" "\<forall>e \<in> set (leaseWorkerReqs s). lq_time (fst e) \<le> now" "now div 1000000 < 2 ^ 64"
    and "ReconcileStuckLeaseRequests now s t = (s', n)"
  shows "leaseWorkerReqs s' = filter (\<lambda>e. \<not> lease_expired now t e) (leaseWorkerReqs s) \<and>
     n = length (filter (lease_expired now t) (leaseWorkerReqs s)) \<and> s' = s\<lparr>leaseWorkerReqs := leaseWorkerReqs s'\<rparr>"
proof -
  let ?q = "leaseWorkerReqs s" and ?P = "lease_expired now t"
  have s': "s' = s\<lparr>leaseWorkerReqs := dropWhile ?P ?q\<rparr>" and n: "n = length (takeWhile ?P ?q)"
    using assms(4) by (simp_all add: ReconcileStuckLeaseRequests_def reconcile_loop_eq)
  have P: "?P e \<longleftrightarrow> t < (now - lq_time (fst e)) div 1000000" if "e \<in> set ?q" for e
  proof -
    have "(now - lq_time (fst e)) div 1000000 < 2 ^ 64"
      using assms(3) div_le_mono[of "now - lq_time (fst e)" now 1000000] by linarith
    then show ?thesis using assms(2) that by (simp add: lease_expired_def)
  qed
  have dw: "dropWhile ?P ?q = filter (\<lambda>e. \<not> ?P e) ?q"
  proof (rule dropWhile_eq_filter_not)
    fix xs ys x y assume q: "?q = xs @ x # ys" and y: "y \<in> set ys" "?P y"
    then have "lq_time (fst x) \<le> lq_time (fst y)" using assms(1) by (auto simp: queue_ordered_def sorted_append)
    then have "(now - lq_time (fst y)) div 1000000 \<le> (now - lq_time (fst x)) div 1000000" by (simp add: div_le_mono)
    then show "?P x" using P[of x] P[of y] y q by simp
  qed
  have "length (takeWhile ?P ?q) + length (dropWhile ?P ?q) = length ?q"
    by (metis length_append takeWhile_dropWhile_id)
  then have "n = length (filter ?P ?q)" using sum_length_filter_compl[of ?P ?q] n dw by simp
  then show ?thesis using s' dw by simp
qed

definition ex_lease :: "nat \<Rightarrow> nat \<Rightarrow> LeaseReq \<times> nat" where
  "ex_lease t tx = (\<lparr>lq_req = \<lparr>lr_tenant = ''t'', lr_namespace = ''n'', lr_funcname = ''f'', lr_fprevision = 1,
     lr_gateway_id = 7, lr_consumer_tenant = ''c''\<rparr>, lq_time = t\<rparr>, tx)"

definition ex_function :: Function where
  "ex_function = \<lparr>objType = ''function'', do_tenant = ''t'', do_namespace = ''n'', do_name = ''f'', do_labels = [],
     do_annotations = [], channelRev = 0, srcEpoch = 0, revision = 1,
     object = \<lparr>fn_spec = \<lparr>fn_commands = [], fn_version = 1, fn_resources = Resources_default,
         fn_standby = \<lparr>gpuMem = File, pageableMem = File, pinndMem = File\<rparr>, fn_policy = Obj FuncPolicySpec_default\<rparr>,
       fn_status = \<lparr>fo_state = FuncNormal, fo_snapshotingFailureCnt = 0, fo_resumingFailureCnt = 0\<rparr>\<rparr>\<rparr>"

definition ex_func_pod :: "string \<Rightarrow> PodState \<Rightarrow> FuncPod" where
  "ex_func_pod i st = \<lparr>objType = ''funcpod'', do_tenant = ''t'', do_namespace = ''n'', do_name = ''f'',
     do_labels = [], do_annotations = [], channelRev = 0, srcEpoch = 0, revision = 1,
     object = \<lparr>pod_spec = \<lparr>ps_funcname = ''f'', ps_fprevision = 1, ps_id = i, ps_nodename = ''node1'',
         ps_runtime = InferX, ps_ipAddr = 0x0a012005, ps_create_type = CreateNormal, ps_host_ip = '''',
         ps_host_port = 0, reqResources = Resources_default, allocResources = NodeResources_default,
         ps_gpuMemSlots = [], ps_policy = Obj FuncPolicySpec_default\<rparr>,
       pod_status = \<lparr>pod_state = st, exitInfo = ExitNone\<rparr>\<rparr>\<rparr>"

definition ex_status :: "WorkerPod list \<Rightarrow> (LeaseReq \<times> nat) list \<Rightarrow> FuncStatus" where
  "ex_status ws q = \<lparr>fs_func = ex_function, fs_pods = map (\<lambda>w. (PodKey (wp_pod w), w)) ws, fs_pendingPods = [],
     fs_stoppingPods = [], leaseWorkerReqs = q\<rparr>"

theorem ReconcileStuckLeaseRequests_exact_witness:
  "\<exists>s'. ReconcileStuckLeaseRequests 5000000000 (ex_status [] [ex_lease 0 1, ex_lease 4000000000 2]) 2000 = (s', 1) \<and>
     leaseWorkerReqs s' = [ex_lease 4000000000 2]"
proof -
  let ?s = "ex_status [] [ex_lease 0 1, ex_lease 4000000000 2]"
  obtain s' n where r: "ReconcileStuckLeaseRequests 5000000000 ?s 2000 = (s', n)" by fastforce
  have e: "lease_expired 5000000000 2000 (ex_lease 0 1)" "\<not> lease_expired 5000000000 2000 (ex_lease 4000000000 2)"
    by (simp_all add: lease_expired_def ex_lease_def)
  have "queue_ordered (leaseWorkerReqs ?s)" "\<forall>e \<in> set (leaseWorkerReqs ?s). lq_time (fst e) \<le> 5000000000"
    by (simp_all add: ex_status_def queue_ordered_def ex_lease_def)
  from ReconcileStuckLeaseRequests_exact[OF this _ r] show ?thesis using r e by (simp add: ex_status_def)
qed

section \<open>A worker becomes ready\<close>

lemma dead_prefix:
  "takeWhile (\<lambda>(_, tx). \<not> alive tx) q @ dropWhile (\<lambda>(_, tx). \<not> alive tx) q = q"
  by simp

lemma serve_queue_skip:
  assumes "LookforPeer pm (ps_ipAddr (podSpec (wp_pod w))) = Ok peer" "\<forall>e \<in> set q. lq_time (fst e) \<le> now"
  shows "serve_queue alive now pm w q rt = serve_queue alive now pm w (dropWhile (\<lambda>(_, tx). \<not> alive tx) q) rt"
proof -
  have "\<forall>(lr, tx) \<in> set (takeWhile (\<lambda>(_, tx). \<not> alive tx) q). \<not> alive tx \<and> lq_time lr \<le> now"
    using assms(2) by (force dest: set_takeWhileD)
  from serve_queue_dead[OF this assms(1)] show ?thesis by (metis dead_prefix)
qed

lemma gauge_inc_Ok:
  assumes "(case bt_get (node_of w) (usedGpuCnt rt) of None \<Rightarrow> 0 | Some v \<Rightarrow> v) + gpus_of w < 2 ^ 64"
  obtains cnt m where "gauge_inc w rt = Ok (emit (UsedGPUSet (node_of w) cnt) (rt\<lparr>usedGpuCnt := m\<rparr>))"
  using assms by (auto simp: gauge_inc_def IxGauge_Inc_def u64_add_def split: option.splits)

text \<open>
  C32. A pod that becomes ready is handed to one waiting request at most, and in order: requests whose
  caller has gone are dropped from the front of the queue, the first one whose caller still waits gets
  the worker, which then works for that caller's gateway and consumer tenant, and everything behind it
  stays queued. Exactly one answer is sent. When no caller waits the queue is empty, nothing is sent,
  and the worker is idle with no consumer.
\<close>

theorem ready_worker_served_in_order:
  assumes "LookforPeer pm (ps_ipAddr (podSpec (wp_pod w))) = Ok peer"
    and "\<forall>e \<in> set (leaseWorkerReqs s). lq_time (fst e) \<le> now"
    and "bt_get (PodKey (wp_pod w)) (fs_pods s) \<noteq> None" "podState (wp_pod w) = PsReady" "State (heap rt) w = WIdle"
    and "(case bt_get (node_of w) (usedGpuCnt rt) of None \<Rightarrow> 0 | Some v \<Rightarrow> v) + gpus_of w < 2 ^ 64"
  shows "\<exists>s' rt' idle. Func_UpdatePod alive now pm s w rt = (s', rt', Ok idle) \<and>
     (case dropWhile (\<lambda>(_, tx). \<not> alive tx) (leaseWorkerReqs s) of
        [] \<Rightarrow> idle \<and> leaseWorkerReqs s' = [] \<and> trace rt' = trace rt \<and>
              State (heap rt') w = WIdle \<and> ConsumerTenant (heap rt') w = None
      | (lr, tx) # later \<Rightarrow>
          \<not> idle \<and> leaseWorkerReqs s' = later \<and>
          State (heap rt') w = WWorking (lr_gateway_id (lq_req lr)) \<and>
          ConsumerTenant (heap rt') w = consumer_of (lq_req lr) \<and>
          (\<exists>es. trace rt' = trace rt @ Sent tx (LeaseResp (lease_resp w peer False)) # es \<and>
                (\<forall>tx' r. Sent tx' r \<notin> set es)))"
proof -
  let ?self = "s\<lparr>fs_pods := bt_insert (PodKey (wp_pod w)) w (fs_pods s)\<rparr>"
  define q where "q = dropWhile (\<lambda>(_, tx). \<not> alive tx) (leaseWorkerReqs s)"
  have u: "Func_UpdatePod alive now pm s w rt =
      (let (q', rt', r) = serve_queue alive now pm w q rt in (?self\<lparr>leaseWorkerReqs := q'\<rparr>, rt', r))"
    using assms(3,4,5) serve_queue_skip[OF assms(1,2), of alive rt] by (auto simp: Func_UpdatePod_def Let_def q_def)
  show ?thesis
  proof (cases q)
    case Nil
    then show ?thesis unfolding u q_def[symmetric] by (auto simp: on_heap_def)
  next
    case (Cons e later)
    obtain lr tx where e: "e = (lr, tx)" by (cases e)
    have al: "alive tx" "lq_time lr \<le> now"
    proof -
      have "leaseWorkerReqs s = takeWhile (\<lambda>(_, tx). \<not> alive tx) (leaseWorkerReqs s) @ e # later" "alive tx"
        using Cons e by (auto simp: q_def dropWhile_eq_Cons_conv)
      then show "alive tx" "lq_time lr \<le> now" using assms(2) e by (metis fst_conv in_set_conv_decomp)+
    qed
    let ?req = "lq_req lr"
    let ?h = "SetConsumer (consumer_of ?req) w (SetState (WWorking (lr_gateway_id ?req)) w (heap rt))"
    define rt4 where "rt4 = rt\<lparr>heap := ?h, trace := trace rt @ [Sent tx (LeaseResp (lease_resp w peer False)),
        PodLeaseInc (labels_of ?req w), ColdStartObserve (labels_of ?req w) ((now - lq_time lr) div 1000000)]\<rparr>"
    obtain cnt m where g: "gauge_inc w rt4 = Ok (emit (UsedGPUSet (node_of w) cnt) (rt4\<lparr>usedGpuCnt := m\<rparr>))"
      using gauge_inc_Ok[of w rt4] assms(6) by (auto simp: rt4_def)
    have "serve_queue alive now pm w (e # later) rt = (later, emit (UsedGPUSet (node_of w) cnt) (rt4\<lparr>usedGpuCnt := m\<rparr>), Ok False)"
      using al assms(1,5) g by (simp add: e Let_def emit_def SetWorking_def rt4_def)
    then have "Func_UpdatePod alive now pm s w rt =
        (?self\<lparr>leaseWorkerReqs := later\<rparr>, emit (UsedGPUSet (node_of w) cnt) (rt4\<lparr>usedGpuCnt := m\<rparr>), Ok False)"
      unfolding u Cons by (simp only: Let_def prod.case)
    then show ?thesis unfolding q_def[symmetric] Cons e by (auto simp: emit_def rt4_def)
  qed
qed

definition ex_pm :: PeerMgr where
  "ex_pm = \<lparr>peers = [0x0a012000 \<mapsto> Peer_New 0xc0a80001 1234 0x0a012000], pm_maskbits = 12, pm_mask = 0xfffff000, pm_cidr = 0\<rparr>"

theorem ready_worker_served_in_order_witness:
  "\<exists>w s' rt'. Func_UpdatePod (\<lambda>tx. tx \<noteq> 1) 10 ex_pm (ex_status [w] [ex_lease 0 1, ex_lease 1 2, ex_lease 2 3])
      w \<lparr>heap = \<lparr>cells = (\<lambda>_. \<lparr>workerState = WIdle, consumer_tenant = None\<rparr>), next_ref = 1\<rparr>, usedGpuCnt = [], trace = []\<rparr>
     = (s', rt', Ok False) \<and> leaseWorkerReqs s' = [ex_lease 2 3] \<and> State (heap rt') w = WWorking 7"
proof -
  define w where "w = \<lparr>wp_ref = 0, wp_pod = ex_func_pod ''1'' PsReady\<rparr>"
  have w: "ps_ipAddr (podSpec (wp_pod w)) = 0x0a012005" "podState (wp_pod w) = PsReady" "gpus_of w < 2 ^ 64"
    by (simp_all add: w_def ex_func_pod_def Resources_default_def GPUResource_default_def)
  have "LookforPeer ex_pm 0x0a012005 = Ok (Peer_New 0xc0a80001 1234 0x0a012000)"
    by (simp add: ex_pm_def LookforPeer_def)
  then show ?thesis
    using ready_worker_served_in_order[where w = w and pm = ex_pm and now = 10 and alive = "\<lambda>tx. tx \<noteq> 1"
      and s = "ex_status [w] [ex_lease 0 1, ex_lease 1 2, ex_lease 2 3]"
      and rt = "\<lparr>heap = \<lparr>cells = (\<lambda>_. \<lparr>workerState = WIdle, consumer_tenant = None\<rparr>), next_ref = 1\<rparr>, usedGpuCnt = [], trace = []\<rparr>"] w
    by (fastforce simp: ex_status_def ex_lease_def State_def bt_get_Cons)
qed

end
