(* ===== verification/Sched_State.thy ===== *)
theory Sched_State
  imports Handler_Monad Func_Snapshot Func_Status Bi_Index
begin

text \<open>
  The state of the scheduler (\<open>SchedulerHandler\<close> in \<open>src/ixshare/src/scheduler/scheduler_handler.rs\<close>, the
  task queue of \<open>scheduler.rs\<close>), its lookups and its small updates: tenants' GPU use, policies, pods of a
  function, pending snapshots, tasks.

  What the handlers take from outside is the record \<open>Env\<close>, fixed while one message is handled: the
  clock (nanoseconds, read once), the configuration, which channels have a waiting receiver, and the
  answers of code that is not in the repository: the \<open>lru\<close> cache, the random shuffle, generated ids,
  the address parser of \<open>ipnetwork\<close> and the state service. Interval timers, the handler's own message
  sender and the counter \<open>nextWorkId\<close>, which nothing calls, are left out.
\<close>

section \<open>The environment\<close>

text \<open>\<open>lru::LruCache<String, ()>\<close>: \<open>lru_iter\<close> lists the keys from most to least recently used.\<close>

record 'l LruOps =
  lru_empty :: 'l
  lru_put :: "string \<Rightarrow> 'l \<Rightarrow> 'l"
  lru_pop :: "string \<Rightarrow> 'l \<Rightarrow> 'l \<times> bool"
  lru_iter :: "'l \<Rightarrow> string list"

record 'l Env =
  now :: nat
  alive :: "nat \<Rightarrow> bool"
  lru :: "'l LruOps"
  enableSnapshotBilling :: bool
  inferxEndpointFuncDefaultPolicy :: FuncPolicySchedulerDefaults
  ticks_sent :: bool
  audit_room :: bool
  shuffle :: "string list \<Rightarrow> string list"
  uuid :: "nat \<Rightarrow> string"
  uid_get :: "nat \<Rightarrow> (nat, error) res"
  ipv4_network :: "string \<Rightarrow> 32 word option"
  store_client :: bool
  store_update :: "nat \<Rightarrow> FunctionStatus \<Rightarrow> bool"
  store_get :: "nat \<Rightarrow> FunctionStatus option"

section \<open>The state\<close>

record TerminatingMeta =
  tm_since :: nat
  stuck_retry_count :: nat

record TimedTask =
  tt_when :: nat
  tt_task :: SchedTask

record SnapshotBillingSession =
  sb_session_id :: string
  sb_start_time :: nat
  sb_last_tick_time :: nat
  sb_pod_id :: int
  sb_funckey :: string
  sb_nodename :: string
  sb_tenant :: string
  sb_namespace :: string
  sb_funcname :: string
  sb_fprevision :: int
  sb_gpu_type :: string
  sb_gpu_count :: int
  sb_vram_mb :: int
  sb_total_vram_mb :: int

record StandbyBillingSession =
  st_session_id :: string
  st_start_time :: nat
  st_last_tick_time :: nat
  st_funckey :: string
  st_tenant :: string
  st_namespace :: string
  st_funcname :: string
  st_fprevision :: int
  st_gpu_type :: string
  st_gpu_count :: int
  st_vram_mb :: int
  st_total_vram_mb :: int

record 'l SchedulerHandler =
  nodeEpoch :: "(string, int) btmap"
  pods :: "(string, WorkerPod) btmap"
  gateways :: "(int, nat) btmap"
  nodes :: "(string, NodeStatus) btmap"
  nodePods :: "(string, (string, WorkerPod) btmap) btmap"
  funcs :: "(string, FuncStatus) btmap"
  funcstatus :: "(string, FunctionStatus) btmap"
  tenants :: "(string, Tenant) btmap"
  snapshots :: "(string, (string, ContainerSnapshot) btmap) btmap"
  pendingsnapshots :: "(string, string btset) btmap"
  idlePods :: 'l
  terminating_pods :: "(string, TerminatingMeta) btmap"
  funcPods :: "(string, (string, WorkerPod) btmap) btmap"
  SnapshotSched :: "SnapshotScheduleInfo BiIndex"
  funcpolicy :: "(string, FuncPolicySpec) btmap"
  nodeListDone :: bool
  funcListDone :: bool
  funcstatusListDone :: bool
  funcPodListDone :: bool
  snapshotListDone :: bool
  funcpolicyDone :: bool
  listDone :: bool
  warmupStartTime :: "nat option"
  warmupComplete :: bool
  taskQueue :: "SchedTask list"
  delayed_tasks :: "TimedTask list"
  node_semaphores :: "(string, nat) btmap"
  pending_snapshot_removals :: "string btset"
  snapshot_billing_sessions :: "(string, SnapshotBillingSession) btmap"
  standby_billing_sessions :: "(string, StandbyBillingSession) btmap"
  peer_mgr :: PeerMgr
  rt :: Rt
  uuid_cnt :: nat
  uid_cnt :: nat

type_synonym ('l, 'a) handler = "('l SchedulerHandler, 'a) act"

text \<open>The peer table is the process-wide \<open>PEER_MGR\<close>; it and the runtime start as given.\<close>

definition SchedulerHandler_default :: "'l Env \<Rightarrow> PeerMgr \<Rightarrow> Rt \<Rightarrow> 'l SchedulerHandler" where
  "SchedulerHandler_default env pm r =
     \<lparr>nodeEpoch = [], pods = [], gateways = [], nodes = [], nodePods = [], funcs = [], funcstatus = [], tenants = [],
      snapshots = [], pendingsnapshots = [], idlePods = lru_empty (lru env), terminating_pods = [], funcPods = [],
      SnapshotSched = BiIndex_New, funcpolicy = [], nodeListDone = False, funcListDone = False, funcstatusListDone = False,
      funcPodListDone = False, snapshotListDone = False, funcpolicyDone = False, listDone = False,
      warmupStartTime = None, warmupComplete = False, taskQueue = [], delayed_tasks = [], node_semaphores = [],
      pending_snapshot_removals = [], snapshot_billing_sessions = [], standby_billing_sessions = [], peer_mgr = pm, rt = r,
      uuid_cnt = 0, uid_cnt = 0\<rparr>"

definition get_node_semaphore :: "string \<Rightarrow> ('l, nat) handler" where
  "get_node_semaphore nodename =
     aseq (amod (\<lambda>s. if bt_contains nodename (node_semaphores s) then s
                     else s\<lparr>node_semaphores := bt_insert nodename 2 (node_semaphores s)\<rparr>))
       (abind (aget (\<lambda>s. bt_get nodename (node_semaphores s))) (\<lambda>n. alift (opt_or_panic n)))"

section \<open>Updates in place\<close>

definition on_rt :: "(Rt \<Rightarrow> Rt) \<Rightarrow> ('l, unit) handler" where
  "on_rt f = amod (\<lambda>s. s\<lparr>rt := f (rt s)\<rparr>)"

definition h_emit :: "Effect \<Rightarrow> ('l, unit) handler" where
  "h_emit e = on_rt (emit e)"

definition h_SetState :: "WorkerPodState \<Rightarrow> WorkerPod \<Rightarrow> ('l, unit) handler" where
  "h_SetState st w = on_rt (on_heap (SetState st w))"

definition h_SetIdle :: "WorkerPod \<Rightarrow> ('l, unit) handler" where
  "h_SetIdle w = on_rt (on_heap (SetIdle w))"

definition h_SetConsumer :: "string option \<Rightarrow> WorkerPod \<Rightarrow> ('l, unit) handler" where
  "h_SetConsumer t w = on_rt (on_heap (SetConsumer t w))"

definition h_SetWorking :: "int \<Rightarrow> WorkerPod \<Rightarrow> ('l, unit) handler" where
  "h_SetWorking g w =
     abind (aget (\<lambda>s. SetWorking g w (heap (rt s)))) (\<lambda>r.
     abind (alift r) (\<lambda>h. on_rt (\<lambda>x. x\<lparr>heap := h\<rparr>)))"

definition h_State :: "WorkerPod \<Rightarrow> ('l, WorkerPodState) handler" where
  "h_State w = aget (\<lambda>s. State (heap (rt s)) w)"

definition h_WorkerPod_New :: "FuncPod \<Rightarrow> ('l, WorkerPod) handler" where
  "h_WorkerPod_New pod =
     abind (aget (\<lambda>s. WorkerPod_New pod (heap (rt s)))) (\<lambda>(w, h).
     aseq (on_rt (\<lambda>x. x\<lparr>heap := h\<rparr>)) (ret w))"

text \<open>\<open>tx.send(resp).unwrap()\<close> and \<open>tx.send(resp).ok()\<close>: a send fails when the receiver is gone.\<close>

definition send_unwrap :: "'l Env \<Rightarrow> nat \<Rightarrow> Response \<Rightarrow> ('l, unit) handler" where
  "send_unwrap env tx r = (if alive env tx then h_emit (Sent tx r) else apanic)"

definition send_ok :: "'l Env \<Rightarrow> nat \<Rightarrow> Response \<Rightarrow> ('l, unit) handler" where
  "send_ok env tx r = (if alive env tx then h_emit (Sent tx r) else ret ())"

definition idle_put :: "'l Env \<Rightarrow> string \<Rightarrow> ('l, unit) handler" where
  "idle_put env k = amod (\<lambda>s. s\<lparr>idlePods := lru_put (lru env) k (idlePods s)\<rparr>)"

definition idle_pop :: "'l Env \<Rightarrow> string \<Rightarrow> ('l, bool) handler" where
  "idle_pop env k =
     abind (aget (\<lambda>s. lru_pop (lru env) k (idlePods s))) (\<lambda>(l, b).
     aseq (amod (\<lambda>s. s\<lparr>idlePods := l\<rparr>)) (ret b))"

text \<open>Change an entry of a map that is there: \<open>if let Some(x) = m.get_mut(k) { ... }\<close>.\<close>

definition upd_node :: "string \<Rightarrow> (NodeStatus \<Rightarrow> (NodeStatus, error) res) \<Rightarrow> ('l, unit) handler" where
  "upd_node n f =
     abind (aget (\<lambda>s. bt_get n (nodes s))) (\<lambda>x. asome x (\<lambda>ns.
     abind (alift (f ns)) (\<lambda>ns'. amod (\<lambda>s. s\<lparr>nodes := bt_insert n ns' (nodes s)\<rparr>))))"

definition upd_func :: "string \<Rightarrow> (FuncStatus \<Rightarrow> FuncStatus) \<Rightarrow> ('l, unit) handler" where
  "upd_func k f =
     amod (\<lambda>s. case bt_get k (funcs s) of None \<Rightarrow> s | Some fs \<Rightarrow> s\<lparr>funcs := bt_insert k (f fs) (funcs s)\<rparr>)"

section \<open>Tasks\<close>

text \<open>The channel of the task queue holds 2000 tasks; \<open>try_send(task).unwrap()\<close> panics when it is full.\<close>

definition TASK_QUEUE_SIZE :: nat where
  "TASK_QUEUE_SIZE = 2000"

definition AddTask :: "SchedTask \<Rightarrow> ('l, unit) handler" where
  "AddTask task =
     abind (aget (\<lambda>s. length (taskQueue s))) (\<lambda>n.
     aseq (aassert (n < TASK_QUEUE_SIZE))
          (amod (\<lambda>s. s\<lparr>taskQueue := taskQueue s @ [task]\<rparr>)))"

definition TaskQueue_Next :: "('l, SchedTask option) handler" where
  "TaskQueue_Next =
     abind (aget taskQueue) (\<lambda>q. case q of [] \<Rightarrow> ret None
       | t # q' \<Rightarrow> aseq (amod (\<lambda>s. s\<lparr>taskQueue := q'\<rparr>)) (ret (Some t)))"

definition TaskQueue_AddNode :: "string \<Rightarrow> ('l, unit) handler" where
  "TaskQueue_AddNode nodename = AddTask (TaskAddNode nodename)"

definition TaskQueue_AddFunc :: "string \<Rightarrow> ('l, unit) handler" where
  "TaskQueue_AddFunc funcId = AddTask (TaskAddFunc funcId)"

text \<open>
  The delayed tasks are a heap ordered by time. Which of two tasks of the same time is popped first is
  not specified by the heap; here it is the one scheduled first.
\<close>

definition heap_push :: "TimedTask \<Rightarrow> TimedTask list \<Rightarrow> TimedTask list" where
  "heap_push t ts = takeWhile (\<lambda>x. tt_when x \<le> tt_when t) ts @ t # dropWhile (\<lambda>x. tt_when x \<le> tt_when t) ts"

definition schedule_delayed_task :: "'l Env \<Rightarrow> nat \<Rightarrow> SchedTask \<Rightarrow> ('l, unit) handler" where
  "schedule_delayed_task env delay task =
     amod (\<lambda>s. s\<lparr>delayed_tasks := heap_push \<lparr>tt_when = now env + delay, tt_task = task\<rparr> (delayed_tasks s)\<rparr>)"

fun drain_loop :: "nat \<Rightarrow> TimedTask list \<Rightarrow> ('l, unit) handler" where
  "drain_loop t [] = amod (\<lambda>s. s\<lparr>delayed_tasks := []\<rparr>)"
| "drain_loop t (e # ts) =
     (if tt_when e \<le> t then aseq (AddTask (tt_task e)) (drain_loop t ts)
      else amod (\<lambda>s. s\<lparr>delayed_tasks := e # ts\<rparr>))"

definition drain_due_delayed_tasks :: "'l Env \<Rightarrow> ('l, unit) handler" where
  "drain_due_delayed_tasks env = abind (aget delayed_tasks) (drain_loop (now env))"

definition SEC :: nat where
  "SEC = 1000000000"

definition AddNvidiaPodTask :: "'l Env \<Rightarrow> string \<Rightarrow> ('l, unit) handler" where
  "AddNvidiaPodTask env funcId = schedule_delayed_task env SEC (NvidiaPodTask funcId)"

definition AddStandbyTask :: "'l Env \<Rightarrow> string \<Rightarrow> ('l, unit) handler" where
  "AddStandbyTask env nodename = schedule_delayed_task env SEC (StandbyTask nodename)"

section \<open>Tenants and policies\<close>

definition SCHED_PLATFORM_TENANT :: string where
  "SCHED_PLATFORM_TENANT = ''inferx''"

definition SCHED_PLATFORM_SHARED_NAMESPACE :: string where
  "SCHED_PLATFORM_SHARED_NAMESPACE = ''endpoint''"

definition Sched_IsPlatformSharedFunc :: "string \<Rightarrow> string \<Rightarrow> bool" where
  "Sched_IsPlatformSharedFunc t ns \<longleftrightarrow> t = SCHED_PLATFORM_TENANT \<and> ns = SCHED_PLATFORM_SHARED_NAMESPACE"

definition EffectiveTenant :: "LeaseWorkerReq \<Rightarrow> string" where
  "EffectiveTenant req = (if lr_consumer_tenant req = '''' then lr_tenant req else lr_consumer_tenant req)"

definition TenantIsGpuCapExempt :: "string \<Rightarrow> bool" where
  "TenantIsGpuCapExempt t \<longleftrightarrow> t = SCHED_PLATFORM_TENANT \<or> t = ''public''"

definition TenantGpuLimit :: "'l SchedulerHandler \<Rightarrow> string \<Rightarrow> nat" where
  "TenantGpuLimit self t =
     (case bt_get t (tenants self) of
        Some x \<Rightarrow> maxGpu (resourceLimit (tn_spec (object x)))
      | None \<Rightarrow> 2)"

fun holds_gpu :: "WorkerPodState \<Rightarrow> bool" where
  "holds_gpu (WWorking _) = True"
| "holds_gpu WResuming = True"
| "holds_gpu _ = False"

definition pod_tenant :: "Heap \<Rightarrow> WorkerPod \<Rightarrow> string" where
  "pod_tenant h w = (case ConsumerTenant h w of Some t \<Rightarrow> t | None \<Rightarrow> do_tenant (wp_pod w))"

text \<open>The sum of \<open>u64\<close> values panics when it overflows.\<close>

definition TenantActiveGpu :: "'l SchedulerHandler \<Rightarrow> string \<Rightarrow> (nat, error) res" where
  "TenantActiveGpu self t =
     (let h = heap (rt self);
          ws = filter (\<lambda>w. pod_tenant h w = t) (filter (\<lambda>w. holds_gpu (State h w)) (bt_values (pods self)))
      in rfold (\<lambda>w n. u64_add n (gpus_of w)) ws 0)"

definition ResolveReferencedFuncPolicy :: "'l SchedulerHandler \<Rightarrow> string \<Rightarrow> FuncPolicySpec ObjRef \<Rightarrow> FuncPolicySpec" where
  "ResolveReferencedFuncPolicy self t p =
     (case p of
        Obj x \<Rightarrow> x
      | Link l \<Rightarrow>
          if ol_objType l \<noteq> ''funcpolicy'' then FuncPolicySpec_default
          else (case bt_get (ObjLink_Key l t) (funcpolicy self) of None \<Rightarrow> FuncPolicySpec_default | Some x \<Rightarrow> x))"

definition FuncPolicy :: "'l Env \<Rightarrow> 'l SchedulerHandler \<Rightarrow> string \<Rightarrow> string \<Rightarrow> string \<Rightarrow> FuncPolicySpec ObjRef \<Rightarrow> FuncPolicySpec" where
  "FuncPolicy env self t ns nm p =
     (case bt_get (slash3 t ns nm) (funcpolicy self) of
        Some x \<Rightarrow> x
      | None \<Rightarrow>
          let policy = ResolveReferencedFuncPolicy self t p
          in if Sched_IsPlatformSharedFunc t ns then ApplyTo (inferxEndpointFuncDefaultPolicy env) policy else policy)"

definition policy_of :: "'l Env \<Rightarrow> 'l SchedulerHandler \<Rightarrow> Function \<Rightarrow> FuncPolicySpec" where
  "policy_of env self f =
     FuncPolicy env self (do_tenant f) (do_namespace f) (do_name f) (fn_policy (fn_spec (object f)))"

section \<open>Lookups\<close>

definition GetFuncPod :: "'l SchedulerHandler \<Rightarrow> string \<Rightarrow> string \<Rightarrow> string \<Rightarrow> int \<Rightarrow> string \<Rightarrow> (WorkerPod, error) res" where
  "GetFuncPod self t ns fpname rv i =
     (let podKey = slash5 t ns fpname (show_int rv) i
      in case bt_get podKey (pods self) of
           None \<Rightarrow> Err (NotExist ''pod  doesn't exist'')
         | Some w \<Rightarrow> Ok w)"

definition GetFuncPodsByKey :: "'l SchedulerHandler \<Rightarrow> string \<Rightarrow> WorkerPod list" where
  "GetFuncPodsByKey self fpkey =
     (case bt_get fpkey (funcs self) of None \<Rightarrow> [] | Some fs \<Rightarrow> bt_values (fs_pods fs))"

definition GetFuncPods :: "'l SchedulerHandler \<Rightarrow> string \<Rightarrow> string \<Rightarrow> string \<Rightarrow> int \<Rightarrow> WorkerPod list" where
  "GetFuncPods self t ns fpname rv = GetFuncPodsByKey self (slash4 t ns fpname (show_int rv))"

definition GetFunc :: "'l SchedulerHandler \<Rightarrow> string \<Rightarrow> string \<Rightarrow> string \<Rightarrow> (Function, error) res" where
  "GetFunc self t ns nm =
     (case bt_get (slash3 t ns nm) (funcs self) of
        None \<Rightarrow> Err (NotExist (''GetFunc '' @ slash3 t ns nm))
      | Some fs \<Rightarrow> Ok (fs_func fs))"

definition ReadyPodCount :: "'l SchedulerHandler \<Rightarrow> string \<Rightarrow> nat" where
  "ReadyPodCount self funcname =
     (case bt_get funcname (funcs self) of
        None \<Rightarrow> 0
      | Some fs \<Rightarrow> length (filter (\<lambda>w. IsResumed (State (heap (rt self)) w)) (bt_values (fs_pods fs))))"

definition NvidiaRuntimePodCount :: "'l SchedulerHandler \<Rightarrow> string \<Rightarrow> nat" where
  "NvidiaRuntimePodCount self funcname =
     (case bt_get funcname (funcs self) of
        None \<Rightarrow> 0
      | Some fs \<Rightarrow> length (filter (\<lambda>w. NvidiaRuntime (wp_pod w)) (bt_values (fs_pods fs))))"

definition IsNodeReady :: "'l SchedulerHandler \<Rightarrow> string \<Rightarrow> bool" where
  "IsNodeReady self nodename =
     (case bt_get nodename (nodes self) of None \<Rightarrow> False | Some ns \<Rightarrow> ns_state ns = NodeAgentReady)"

definition GetSnapshotNodes :: "'l SchedulerHandler \<Rightarrow> string \<Rightarrow> string btset" where
  "GetSnapshotNodes self funcid =
     (case bt_get funcid (snapshots self) of None \<Rightarrow> [] | Some ns \<Rightarrow> bs_of_list (bt_keys ns))"

definition Sched_HasPendingPod :: "'l SchedulerHandler \<Rightarrow> string \<Rightarrow> bool" where
  "Sched_HasPendingPod self funcid =
     (case bt_get funcid (funcs self) of None \<Rightarrow> False | Some fs \<Rightarrow> HasPendingPod fs)"

definition GetReadySnapshotNodes :: "'l SchedulerHandler \<Rightarrow> string \<Rightarrow> string list" where
  "GetReadySnapshotNodes self funcid =
     (case bt_get funcid (snapshots self) of
        None \<Rightarrow> []
      | Some m \<Rightarrow> bt_keys (filter (\<lambda>e. cs_state (snd e) = SnReady) m))"

text \<open>Any standby memory kept in the blob store.\<close>

definition uses_blob :: "FuncSpec \<Rightarrow> bool" where
  "uses_blob spec \<longleftrightarrow>
     (gpuMem (fn_standby spec) = Blob \<or> pageableMem (fn_standby spec) = Blob \<or> pinndMem (fn_standby spec) = Blob)"

definition GetSnapshotCandidateNodes :: "'l Env \<Rightarrow> 'l SchedulerHandler \<Rightarrow> Function \<Rightarrow> (string btset, error) res" where
  "GetSnapshotCandidateNodes env self func =
     (let snapshotNodes = GetSnapshotNodes self (Function_Id func);
          spec = fn_spec (object func)
      in rfold (\<lambda>ns acc.
           let nm = do_name (ns_node ns) in
           if \<not> IsNodeReady self nm then Ok acc
           else if now env - ns_createTime ns < 5 * SEC then Ok acc
           else if \<not> nd_blobStoreEnable (object (ns_node ns)) \<and> uses_blob spec then Ok acc
           else if bt_contains nm snapshotNodes then Ok acc
           else (case bt_get nm (nodes self) of
                   None \<Rightarrow> Ok acc
                 | Some ns' \<Rightarrow>
                     and_then (NodeResources_CanAlloc (ns_total ns') (fn_resources spec) True) (\<lambda>st.
                     Ok (if AllocState_Ok st then bs_insert (do_name (ns_node ns')) acc else acc))))
         (bt_values (nodes self)) [])"

section \<open>Pending snapshots\<close>

definition AddPendingSnapshot :: "string \<Rightarrow> string \<Rightarrow> ('l, unit) handler" where
  "AddPendingSnapshot funcid nodename =
     amod (\<lambda>s. s\<lparr>pendingsnapshots :=
       bt_insert funcid (bs_insert nodename (case bt_get funcid (pendingsnapshots s) of None \<Rightarrow> [] | Some m \<Rightarrow> m))
         (pendingsnapshots s)\<rparr>)"

definition RemovePendingSnapshot :: "string \<Rightarrow> string \<Rightarrow> ('l, unit) handler" where
  "RemovePendingSnapshot funcid nodename =
     amod (\<lambda>s. case bt_get funcid (pendingsnapshots s) of
       None \<Rightarrow> s
     | Some m \<Rightarrow>
         let m' = bt_remove nodename m in
         s\<lparr>pendingsnapshots := (if length m' = 0 then bt_remove funcid (pendingsnapshots s)
                                else bt_insert funcid m' (pendingsnapshots s))\<rparr>)"

definition HasPendingSnapshot :: "'l SchedulerHandler \<Rightarrow> string \<Rightarrow> bool" where
  "HasPendingSnapshot self funcid = bt_contains funcid (pendingsnapshots self)"

definition RemovePendingSnapshots_of_node :: "string \<Rightarrow> ('l, unit) handler" where
  "RemovePendingSnapshots_of_node nodename =
     abind (aget (\<lambda>s. bt_keys (pendingsnapshots s))) (aiter (\<lambda>funcId. RemovePendingSnapshot funcId nodename))"

text \<open>A task to take a snapshot, unless the function wants no standby pods. The function must be known.\<close>

definition AddSnapshotTask :: "'l Env \<Rightarrow> string \<Rightarrow> string \<Rightarrow> ('l, unit) handler" where
  "AddSnapshotTask env nodename funcId =
     abind (aget id) (\<lambda>s.
     case bt_get funcId (funcs s) of
       None \<Rightarrow> apanic
     | Some f \<Rightarrow>
         if standbyPerNode (policy_of env s (fs_func f)) = 0 then ret ()
         else schedule_delayed_task env SEC (SnapshotTask funcId nodename))"

definition InitSnapshotTask :: "'l Env \<Rightarrow> ('l, unit) handler" where
  "InitSnapshotTask env =
     abind (aget (\<lambda>s. bt_keys (funcs s))) (\<lambda>funcIds.
     abind (aget (\<lambda>s. bt_keys (nodes s))) (\<lambda>ns.
     aiter (\<lambda>funcId. aiter (\<lambda>nodename.
       abind (aget id) (\<lambda>s.
       if nested_get (snapshots s) funcId nodename \<noteq> None then ret ()
       else if nested_get (pendingsnapshots s) funcId nodename \<noteq> None then ret ()
       else AddSnapshotTask env nodename funcId)) ns) funcIds))"

definition mark_terminating :: "'l Env \<Rightarrow> WorkerPod \<Rightarrow> ('l, unit) handler" where
  "mark_terminating env w =
     aseq (h_SetState WTerminating w)
       (amod (\<lambda>s. s\<lparr>terminating_pods :=
          bt_insert (PodKey (wp_pod w)) \<lparr>tm_since = now env, stuck_retry_count = 0\<rparr> (terminating_pods s)\<rparr>))"

definition Sched_PushLeaseWorkerReq :: "'l Env \<Rightarrow> string \<Rightarrow> LeaseWorkerReq \<Rightarrow> nat \<Rightarrow> ('l, unit) handler" where
  "Sched_PushLeaseWorkerReq env fpKey req tx =
     abind (aget (\<lambda>s. bt_get fpKey (funcs s))) (\<lambda>x.
     case x of
       None \<Rightarrow> athrow (NotExist (''CreateWorker can't find funcpcakge with id '' @ fpKey @ '' ''))
     | Some fs \<Rightarrow> amod (\<lambda>s. s\<lparr>funcs := bt_insert fpKey (PushLeaseWorkerReq (now env) fs req tx) (funcs s)\<rparr>))"

definition ReconcileAllStuckLeaseRequests :: "'l Env \<Rightarrow> nat \<Rightarrow> ('l, nat) handler" where
  "ReconcileAllStuckLeaseRequests env timeout_ms =
     abind (aget (\<lambda>s. sum_list (map (\<lambda>(_, fs). snd (ReconcileStuckLeaseRequests (now env) fs timeout_ms)) (funcs s)))) (\<lambda>n.
     aseq (amod (\<lambda>s. s\<lparr>funcs := map (\<lambda>(k, fs). (k, fst (ReconcileStuckLeaseRequests (now env) fs timeout_ms))) (funcs s)\<rparr>))
       (ret n))"

end
