(* ===== verification/Sched_Billing.thy ===== *)
theory Sched_Billing
  imports Sched_State Selector
begin

text \<open>
  Billing sessions of the scheduler: GPU use while a snapshot is taken, and the standby charge of a
  function whose snapshot is ready. A session emits a start tick, periodic ticks and a final tick; each
  tick carries the milliseconds since the one before. Also the audit record of a snapshot schedule
  (\<open>FuncId\<close>, \<open>SnapshotScheduleAudit\<close> in \<open>src/ixshare/src/audit.rs\<close>). The wall-clock time of a tick is left out.
\<close>

section \<open>Snapshots\<close>

record FuncId =
  fi_tenant :: string
  fi_namespace :: string
  fi_funcname :: string
  fi_revision :: int

definition FuncId_New :: "string \<Rightarrow> (FuncId, error) res" where
  "FuncId_New funcId =
     (let parts = split_on CHR ''/'' funcId in
      if length parts \<noteq> 4 then Err (CommonError (''FuncId new fail with id '' @ funcId))
      else (case parse_i64 (parts ! 3) of
              None \<Rightarrow> Err (CommonError (''FuncId new fail with id '' @ funcId @ '' revision invalid '' @ parts ! 3))
            | Some r \<Rightarrow> Ok \<lparr>fi_tenant = parts ! 0, fi_namespace = parts ! 1, fi_funcname = parts ! 2, fi_revision = r\<rparr>))"

definition SnapshotScheduleAudit_New :: "string \<Rightarrow> string \<Rightarrow> SnapshotScheduleState \<Rightarrow> (SnapshotScheduleAudit, error) res" where
  "SnapshotScheduleAudit_New funcId nodename st =
     and_then (FuncId_New funcId) (\<lambda>i.
     Ok \<lparr>sa_tenant = fi_tenant i, sa_namespace = fi_namespace i, sa_funcname = fi_funcname i, sa_revision = fi_revision i,
         sa_nodename = nodename, sa_state = StateName st, sa_detail = Detail st\<rparr>)"

definition AuditSnapshotSchedule :: "'l Env \<Rightarrow> SnapshotScheduleAudit \<Rightarrow> ('l, unit) handler" where
  "AuditSnapshotSchedule env a = (if audit_room env then h_emit (SnapshotAudit a) else apanic)"

definition SetSnapshotStatus :: "'l Env \<Rightarrow> string \<Rightarrow> string \<Rightarrow> SnapshotScheduleState \<Rightarrow> ('l, unit) handler" where
  "SetSnapshotStatus env funcId nodename st =
     abind (aget (\<lambda>s. BiIndex_Set (SnapshotSched s) funcId nodename (SnapshotScheduleInfo_New funcId nodename st))) (\<lambda>(b, upd).
     aseq (amod (\<lambda>s. s\<lparr>SnapshotSched := b\<rparr>))
       (awhen upd
         (case SnapshotScheduleAudit_New funcId nodename st of
            Ok a \<Rightarrow> AuditSnapshotSchedule env a
          | _ \<Rightarrow> ret ())))"

section \<open>Ticks\<close>

definition u64_as_i32 :: "nat \<Rightarrow> int" where
  "u64_as_i32 n = (int n + 2 ^ 31) mod 2 ^ 32 - 2 ^ 31"

definition TotalVRam :: "GPUResourceMap \<Rightarrow> (nat, error) res" where
  "TotalVRam self = u64_mul (totalSlotCnt self) (slotSize self)"

text \<open>\<open>now.duration_since(t).as_millis() as i64\<close>\<close>

definition millis_since :: "nat \<Rightarrow> nat \<Rightarrow> int" where
  "millis_since t0 t1 = u64_as_i64 ((t1 - t0) div 1000000)"

definition Audit_tick :: "'l Env \<Rightarrow> UsageTick \<Rightarrow> ('l, unit) handler" where
  "Audit_tick env t = awhen (ticks_sent env) (h_emit (Tick t))"

definition new_uuid :: "'l Env \<Rightarrow> ('l, string) handler" where
  "new_uuid env =
     abind (aget (\<lambda>s. uuid env (uuid_cnt s))) (\<lambda>u.
     aseq (amod (\<lambda>s. s\<lparr>uuid_cnt := uuid_cnt s + 1\<rparr>)) (ret u))"

definition snapshot_tick :: "SnapshotBillingSession \<Rightarrow> int \<Rightarrow> string \<Rightarrow> bool \<Rightarrow> UsageTick" where
  "snapshot_tick b ms ty cold = \<lparr>ut_session_id = sb_session_id b, ut_tenant = sb_tenant b, ut_caller_tenant = None,
     ut_namespace = sb_namespace b, ut_funcname = sb_funcname b, ut_fprevision = sb_fprevision b,
     ut_nodename = Some (sb_nodename b), ut_pod_id = Some (sb_pod_id b), ut_gateway_id = None,
     ut_gpu_type = sb_gpu_type b, ut_gpu_count = sb_gpu_count b, ut_vram_mb = sb_vram_mb b,
     ut_total_vram_mb = sb_total_vram_mb b, interval_ms = ms, tick_type = ty, usage_type = ''snapshot'',
     is_coldstart = cold\<rparr>"

definition standby_tick :: "StandbyBillingSession \<Rightarrow> int \<Rightarrow> string \<Rightarrow> UsageTick" where
  "standby_tick b ms ty = \<lparr>ut_session_id = st_session_id b, ut_tenant = st_tenant b, ut_caller_tenant = None,
     ut_namespace = st_namespace b, ut_funcname = st_funcname b, ut_fprevision = st_fprevision b,
     ut_nodename = None, ut_pod_id = None, ut_gateway_id = None,
     ut_gpu_type = st_gpu_type b, ut_gpu_count = st_gpu_count b, ut_vram_mb = st_vram_mb b,
     ut_total_vram_mb = st_total_vram_mb b, interval_ms = ms, tick_type = ty, usage_type = ''standby'',
     is_coldstart = False\<rparr>"

section \<open>Snapshot pods\<close>

definition start_snapshot_pod_billing :: "'l Env \<Rightarrow> FuncPod \<Rightarrow> ('l, unit) handler" where
  "start_snapshot_pod_billing env pod =
     (if \<not> enableSnapshotBilling env then ret ()
      else
        let spec = podSpec pod;
            gpu_count = u64_as_i32 (gpuCount (rs_gpu (reqResources spec)))
        in abind (alift (TotalVRam (nr_gpus (allocResources spec)))) (\<lambda>vr.
           if gpu_count = 0 then ret ()
           else
             abind (new_uuid env) (\<lambda>session_id.
             let b = \<lparr>sb_session_id = session_id, sb_start_time = now env, sb_last_tick_time = now env,
                      sb_pod_id = (case parse_i64 (ps_id spec) of Some v \<Rightarrow> v | None \<Rightarrow> 0), sb_funckey = FuncKey pod,
                      sb_nodename = ps_nodename spec, sb_tenant = do_tenant pod, sb_namespace = do_namespace pod,
                      sb_funcname = ps_funcname spec, sb_fprevision = ps_fprevision spec,
                      sb_gpu_type = nr_gpuType (allocResources spec), sb_gpu_count = gpu_count,
                      sb_vram_mb = u64_as_i64 (vRam (rs_gpu (reqResources spec))),
                      sb_total_vram_mb = u64_as_i64 (vr div 1024 div 1024)\<rparr>
             in aseq (Audit_tick env (snapshot_tick b 0 ''start'' True))
                  (amod (\<lambda>s. s\<lparr>snapshot_billing_sessions := bt_insert (PodKey pod) b (snapshot_billing_sessions s)\<rparr>)))))"

definition end_snapshot_pod_billing :: "'l Env \<Rightarrow> string \<Rightarrow> ('l, unit) handler" where
  "end_snapshot_pod_billing env pod_key =
     (if \<not> enableSnapshotBilling env then ret ()
      else
        abind (aget (\<lambda>s. bt_get pod_key (snapshot_billing_sessions s))) (\<lambda>x. asome x (\<lambda>b.
        aseq (amod (\<lambda>s. s\<lparr>snapshot_billing_sessions := bt_remove pod_key (snapshot_billing_sessions s)\<rparr>))
          (Audit_tick env (snapshot_tick b (millis_since (sb_last_tick_time b) (now env)) ''final'' False)))))"

text \<open>One periodic tick for every session whose last tick is at least a millisecond old.\<close>

definition snapshot_due :: "nat \<Rightarrow> (string, SnapshotBillingSession) btmap \<Rightarrow> (string \<times> UsageTick) list" where
  "snapshot_due t m = map (\<lambda>(k, b). (k, snapshot_tick b (millis_since (sb_last_tick_time b) t) ''periodic'' False))
     (filter (\<lambda>(k, b). 0 < millis_since (sb_last_tick_time b) t) m)"

definition emit_periodic_billing_ticks :: "'l Env \<Rightarrow> ('l, unit) handler" where
  "emit_periodic_billing_ticks env =
     (if \<not> enableSnapshotBilling env then ret ()
      else
        abind (aget (\<lambda>s. snapshot_due (now env) (snapshot_billing_sessions s))) (aiter (\<lambda>(k, tick).
          aseq (Audit_tick env tick)
            (amod (\<lambda>s. case bt_get k (snapshot_billing_sessions s) of
               None \<Rightarrow> s
             | Some b \<Rightarrow> s\<lparr>snapshot_billing_sessions :=
                 bt_insert k (b\<lparr>sb_last_tick_time := now env\<rparr>) (snapshot_billing_sessions s)\<rparr>)))))"

section \<open>Standby\<close>

definition start_standby_billing :: "'l Env \<Rightarrow> string \<Rightarrow> ('l, unit) handler" where
  "start_standby_billing env funckey =
     abind (aget (\<lambda>s. bt_contains funckey (standby_billing_sessions s))) (\<lambda>known.
     if known then ret () else
     abind (aget (\<lambda>s. bt_get funckey (funcs s))) (\<lambda>x. asome x (\<lambda>f.
     let gpu = rs_gpu (fn_resources (fn_spec (object (fs_func f))));
         gpu_count = u64_as_i32 (gpuCount gpu);
         vram_mb = u64_as_i64 (vRam gpu)
     in if gpu_count = 0 then ret ()
        else
          abind (alift (i64_mul gpu_count vram_mb)) (\<lambda>total_vram_mb.
          let parts = split_on CHR ''/'' funckey in
          if length parts < 4 then ret ()
          else (case parse_i64 (parts ! 3) of
             None \<Rightarrow> ret ()
           | Some fprevision \<Rightarrow>
               abind (new_uuid env) (\<lambda>session_id.
               let b = \<lparr>st_session_id = session_id, st_start_time = now env, st_last_tick_time = now env,
                        st_funckey = funckey, st_tenant = parts ! 0, st_namespace = parts ! 1, st_funcname = parts ! 2,
                        st_fprevision = fprevision, st_gpu_type = gr_type gpu, st_gpu_count = gpu_count,
                        st_vram_mb = vram_mb, st_total_vram_mb = total_vram_mb\<rparr>
               in aseq (Audit_tick env (standby_tick b 0 ''start''))
                    (amod (\<lambda>s. s\<lparr>standby_billing_sessions := bt_insert funckey b (standby_billing_sessions s)\<rparr>))))))))"

definition end_standby_billing :: "'l Env \<Rightarrow> string \<Rightarrow> ('l, unit) handler" where
  "end_standby_billing env funckey =
     abind (aget (\<lambda>s. bt_get funckey (standby_billing_sessions s))) (\<lambda>x. asome x (\<lambda>b.
     aseq (amod (\<lambda>s. s\<lparr>standby_billing_sessions := bt_remove funckey (standby_billing_sessions s)\<rparr>))
       (Audit_tick env (standby_tick b (millis_since (st_last_tick_time b) (now env)) ''final''))))"

definition standby_due :: "nat \<Rightarrow> (string, StandbyBillingSession) btmap \<Rightarrow> (string \<times> UsageTick) list" where
  "standby_due t m = map (\<lambda>(k, b). (k, standby_tick b (millis_since (st_last_tick_time b) t) ''periodic''))
     (filter (\<lambda>(k, b). 0 < millis_since (st_last_tick_time b) t) m)"

definition emit_periodic_standby_ticks :: "'l Env \<Rightarrow> ('l, unit) handler" where
  "emit_periodic_standby_ticks env =
     abind (aget (\<lambda>s. standby_due (now env) (standby_billing_sessions s))) (aiter (\<lambda>(k, tick).
       aseq (Audit_tick env tick)
         (amod (\<lambda>s. case bt_get k (standby_billing_sessions s) of
            None \<Rightarrow> s
          | Some b \<Rightarrow> s\<lparr>standby_billing_sessions :=
              bt_insert k (b\<lparr>st_last_tick_time := now env\<rparr>) (standby_billing_sessions s)\<rparr>))))"

definition recover_standby_billing :: "'l Env \<Rightarrow> ('l, unit) handler" where
  "recover_standby_billing env =
     abind (aget (\<lambda>s. bt_keys (filter (\<lambda>e. \<exists>x \<in> set (bt_values (snd e)). cs_state x = SnReady) (snapshots s))))
       (aiter (start_standby_billing env))"

section \<open>The snapshot table\<close>

definition AddSnapshot :: "'l Env \<Rightarrow> FuncSnapshot \<Rightarrow> ('l, unit) handler" where
  "AddSnapshot env snapshot =
     (let c = object snapshot; funckey = cs_funckey c; nodename = cs_nodename c in
      aseq (RemovePendingSnapshot funckey nodename)
     (aseq (amod (\<lambda>s. s\<lparr>snapshots := nested_insert funckey nodename c (snapshots s)\<rparr>))
       (awhen (cs_state c = SnReady) (start_standby_billing env funckey))))"

definition UpdateSnapshot :: "'l Env \<Rightarrow> FuncSnapshot \<Rightarrow> ('l, unit) handler" where
  "UpdateSnapshot env snapshot =
     (let c = object snapshot; funckey = cs_funckey c; nodename = cs_nodename c in
      abind (aget (\<lambda>s. bt_contains funckey (snapshots s))) (\<lambda>known.
      if \<not> known then ret ()
      else aseq (amod (\<lambda>s. s\<lparr>snapshots := nested_insert funckey nodename c (snapshots s)\<rparr>))
             (awhen (cs_state c = SnReady) (start_standby_billing env funckey))))"

definition RemoveSnapshot :: "FuncSnapshot \<Rightarrow> ('l, unit) handler" where
  "RemoveSnapshot snapshot =
     (let c = object snapshot; funckey = cs_funckey c in
      amod (\<lambda>s. case bt_get funckey (snapshots s) of
        None \<Rightarrow> s
      | Some m \<Rightarrow> s\<lparr>snapshots := bt_insert funckey (bt_remove (cs_nodename c) m) (snapshots s)\<rparr>))"

definition ProcessRemoveSnapshotComplete :: "string \<Rightarrow> string \<Rightarrow> (unit, error) res \<Rightarrow> ('l, unit) handler" where
  "ProcessRemoveSnapshotComplete funckey nodename r =
     aseq (amod (\<lambda>s. s\<lparr>pending_snapshot_removals := bt_remove (funckey @ '':'' @ nodename) (pending_snapshot_removals s)\<rparr>))
       (case r of
          Ok _ \<Rightarrow> amod (\<lambda>s. s\<lparr>snapshots := nested_remove funckey nodename (snapshots s)\<rparr>)
        | _ \<Rightarrow> ret ())"

end
