(* ===== verification/Sched_Rpc.thy ===== *)
theory Sched_Rpc
  imports Sched_Billing
begin

text \<open>
  Remote calls of the scheduler to node agents and the handlers of their completion: stopping, starting
  and resuming a worker, removing a snapshot. A call is spawned in the background, so spawning it only
  records the request; its outcome comes back later as a message, here the argument \<open>r\<close> of the
  \<open>...Complete\<close> handlers.
\<close>

section \<open>Stopping workers\<close>

definition terminate_req :: "FuncPod \<Rightarrow> TerminatePodReq" where
  "terminate_req pod = \<lparr>tp_tenant = do_tenant pod, tp_namespace = do_namespace pod, tp_funcname = ps_funcname (podSpec pod),
     tp_fprevision = ps_fprevision (podSpec pod), tp_id = ps_id (podSpec pod)\<rparr>"

definition StopWorkerInner :: "string \<Rightarrow> string \<Rightarrow> string \<Rightarrow> string \<Rightarrow> int \<Rightarrow> string \<Rightarrow> ('l, unit) handler" where
  "StopWorkerInner naUrl t ns funcname fprevision i =
     h_emit (RpcTerminate naUrl \<lparr>tp_tenant = t, tp_namespace = ns, tp_funcname = funcname, tp_fprevision = fprevision, tp_id = i\<rparr>)"

definition node_or_err :: "string \<Rightarrow> ('l, NodeStatus) handler" where
  "node_or_err nodename =
     abind (aget (\<lambda>s. bt_get nodename (nodes s))) (\<lambda>x.
     case x of None \<Rightarrow> athrow (CommonError (''Node '' @ nodename @ '' not found'')) | Some ns \<Rightarrow> ret ns)"

definition StopWorker :: "FuncPod \<Rightarrow> ('l, unit) handler" where
  "StopWorker pod =
     abind (node_or_err (ps_nodename (podSpec pod))) (\<lambda>ns.
     StopWorkerInner (NodeAgentUrl (ns_node ns)) (do_tenant pod) (do_namespace pod) (ps_funcname (podSpec pod))
       (ps_fprevision (podSpec pod)) (ps_id (podSpec pod)))"

definition ProcessStopWorkerComplete :: "string \<Rightarrow> (unit, error) res \<Rightarrow> ('l, unit) handler" where
  "ProcessStopWorkerComplete pod_key r =
     abind (aget (\<lambda>s. bt_get pod_key (terminating_pods s))) (\<lambda>x. asome x (\<lambda>meta.
     case r of
       Ok _ \<Rightarrow> amod (\<lambda>s. s\<lparr>terminating_pods := bt_insert pod_key (meta\<lparr>stuck_retry_count := 0\<rparr>) (terminating_pods s)\<rparr>)
     | _ \<Rightarrow>
         if stuck_retry_count meta + 1 < 2 ^ 32
         then amod (\<lambda>s. s\<lparr>terminating_pods :=
                bt_insert pod_key (meta\<lparr>stuck_retry_count := stuck_retry_count meta + 1\<rparr>) (terminating_pods s)\<rparr>)
         else apanic))"

text \<open>The pods of a function are the ones whose key starts with the function's key and a slash.\<close>

definition pods_from :: "string \<Rightarrow> (string, WorkerPod) btmap \<Rightarrow> WorkerPod list" where
  "pods_from funckey m = bt_values (bt_range_from (funckey @ ''/'') m)"

definition HasPod :: "'l SchedulerHandler \<Rightarrow> string \<Rightarrow> bool" where
  "HasPod self funckey =
     (case pods_from funckey (pods self) of
        [] \<Rightarrow> False
      | p # _ \<Rightarrow> FuncKey (wp_pod p) = funckey)"

definition RemovePodsByFunckey :: "'l Env \<Rightarrow> string \<Rightarrow> ('l, bool) handler" where
  "RemovePodsByFunckey env funckey =
     abind (aget (\<lambda>s. takeWhile (\<lambda>p. FuncKey (wp_pod p) = funckey) (pods_from funckey (pods s)))) (\<lambda>ps.
     aseq (aiter (\<lambda>p. abind (atry (StopWorker (wp_pod p))) (\<lambda>r.
             case r of Ok _ \<Rightarrow> mark_terminating env p | _ \<Rightarrow> ret ())) ps)
       (ret (ps = [])))"

definition CleanPods :: "'l Env \<Rightarrow> ('l, unit) handler" where
  "CleanPods env =
     abind (aget (\<lambda>s. bt_keys (bs_of_list (filter (\<lambda>k. \<not> bt_contains k (funcs s))
              (map (\<lambda>p. FuncKey (wp_pod p)) (bt_values (pods s))))))) (\<lambda>ks.
     aiter (\<lambda>k. aok (RemovePodsByFunckey env k)) ks)"

section \<open>Removing snapshots\<close>

definition RemoveSnapshotFromNode_call :: "string \<Rightarrow> string \<Rightarrow> ('l, unit) handler" where
  "RemoveSnapshotFromNode_call nodename funckey =
     (let pending_key = funckey @ '':'' @ nodename in
      abind (aget (\<lambda>s. bt_contains pending_key (pending_snapshot_removals s))) (\<lambda>busy.
      if busy then ret ()
      else
        abind (node_or_err nodename) (\<lambda>ns.
        aseq (amod (\<lambda>s. s\<lparr>pending_snapshot_removals := bs_insert pending_key (pending_snapshot_removals s)\<rparr>))
          (h_emit (RpcRemoveSnapshot (NodeAgentUrl (ns_node ns)) funckey)))))"

definition RemoveSnapshotByFunckey :: "string \<Rightarrow> ('l, unit) handler" where
  "RemoveSnapshotByFunckey funckey =
     abind (aget (\<lambda>s. bt_get funckey (snapshots s))) (\<lambda>x. asome x (\<lambda>m.
     aiter (\<lambda>nodename. aok (RemoveSnapshotFromNode_call nodename funckey)) (bt_keys m)))"

definition CleanSnapshots :: "('l, unit) handler" where
  "CleanSnapshots =
     abind (aget (\<lambda>s. filter (\<lambda>k. \<not> bt_contains k (funcs s)) (bt_keys (snapshots s)))) (\<lambda>ks.
     aiter (\<lambda>k. abind (aget (\<lambda>s. HasPod s k)) (\<lambda>has.
       if has then ret () else aok (RemoveSnapshotByFunckey k))) ks)"

definition ProcessRemoveFunc :: "'l Env \<Rightarrow> Function \<Rightarrow> ('l, unit) handler" where
  "ProcessRemoveFunc env spec =
     abind (RemovePodsByFunckey env (Function_Id spec)) (\<lambda>hasPod.
     awhen (\<not> hasPod) (RemoveSnapshotByFunckey (Function_Id spec)))"

section \<open>Failed calls\<close>

fun contains_text :: "string \<Rightarrow> string \<Rightarrow> bool" where
  "contains_text p [] = (p = [])"
| "contains_text p (c # s) = (starts_with p (c # s) \<or> contains_text p s)"

text \<open>Whether the call certainly never reached the node agent.\<close>

fun is_safe_to_restore :: "error \<Rightarrow> bool" where
  "is_safe_to_restore (TonicTransportErr s) =
     (contains_text ''Connection refused'' s \<or> contains_text ''ConnectionRefused'' s \<or> contains_text ''dns error'' s \<or>
      contains_text ''failed to lookup'' s \<or> contains_text ''No route to host'' s \<or> contains_text ''Network unreachable'' s)"
| "is_safe_to_restore (TonicStatus c) = (c = Unavailable \<or> c = Unimplemented)"
| "is_safe_to_restore (CommonError m) = (contains_text ''Connection refused'' m \<or> contains_text ''ConnectionRefused'' m)"
| "is_safe_to_restore _ = False"

text \<open>The pods that were to be stopped for the failed call go back to the idle pool.\<close>

definition node_remove_stopping :: "string \<Rightarrow> string \<Rightarrow> ('l, bool) handler" where
  "node_remove_stopping n k =
     abind (aget (\<lambda>s. bt_get n (nodes s))) (\<lambda>x. case x of
       None \<Rightarrow> ret False
     | Some ns \<Rightarrow>
         let (ns', removed) = Node_RemoveStoppingPod ns k in
         aseq (amod (\<lambda>s. s\<lparr>nodes := bt_insert n ns' (nodes s)\<rparr>)) (ret removed))"

definition restore_terminated :: "'l Env \<Rightarrow> string list \<Rightarrow> ('l, unit) handler" where
  "restore_terminated env ks =
     aiter (\<lambda>k.
       abind (aget (\<lambda>s. bt_get k (pods s))) (\<lambda>x. asome x (\<lambda>w.
       abind (node_remove_stopping (node_of w) k) (\<lambda>removed.
       awhen removed
         (aseq (h_SetState WIdle w)
         (aseq (idle_put env k)
           (upd_func (FuncKey (wp_pod w)) (\<lambda>fs. fst (Func_RemoveStoppingPod fs k)))))))))
     ks"

definition fail_one_lease :: "'l Env \<Rightarrow> string \<Rightarrow> ('l, unit) handler" where
  "fail_one_lease env funcid =
     abind (aget (\<lambda>s. bt_get funcid (funcs s))) (\<lambda>x. asome x (\<lambda>fs.
     let (fs', e) = PopLeaseWorkerReq fs in
     aseq (amod (\<lambda>s. s\<lparr>funcs := bt_insert funcid fs' (funcs s)\<rparr>))
       (asome e (\<lambda>(_, tx). send_ok env tx (LeaseResp (lease_error ''Resume RPC failed (safe to restore): . Gateway should retry.''))))))"

definition ProcessResumeWorkerComplete ::
  "'l Env \<Rightarrow> string \<Rightarrow> string \<Rightarrow> (unit, error) res \<Rightarrow> NodeResources \<Rightarrow> string list \<Rightarrow> ('l, unit) handler" where
  "ProcessResumeWorkerComplete env pod_key nodename r resources terminated_pod_keys =
     (case r of
        Ok _ \<Rightarrow> ret ()
      | Panic \<Rightarrow> apanic
      | Err e \<Rightarrow>
          if is_safe_to_restore e then
            aseq (upd_node nodename (\<lambda>ns.
              and_then (NodeResources_Add (ns_available ns) resources) (\<lambda>av.
              Ok (ns\<lparr>ns_available := av, ns_pendingPods := bt_remove pod_key (ns_pendingPods ns)\<rparr>))))
           (abind (aget (\<lambda>s. bt_get pod_key (pods s))) (\<lambda>x.
            case x of
              None \<Rightarrow> apanic
            | Some w \<Rightarrow>
                let funcid = FuncKey (wp_pod w) in
                aseq (h_SetState WStandby w)
               (aseq (upd_func funcid (\<lambda>fs. fs\<lparr>fs_pendingPods := bt_remove pod_key (fs_pendingPods fs)\<rparr>))
               (aseq (fail_one_lease env funcid)
                 (restore_terminated env terminated_pod_keys)))))
          else apanic)"

definition ProcessStartWorkerComplete ::
  "'l Env \<Rightarrow> string \<Rightarrow> string \<Rightarrow> string \<Rightarrow> CreatePodType \<Rightarrow> (unit, error) res \<Rightarrow> NodeResources \<Rightarrow> string list \<Rightarrow> ('l, unit) handler" where
  "ProcessStartWorkerComplete env funcid nodename podkey create_type r resources terminated_pod_keys =
     (case r of
        Ok _ \<Rightarrow> ret ()
      | Panic \<Rightarrow> apanic
      | Err e \<Rightarrow>
          if is_safe_to_restore e then
            aseq (upd_node nodename (\<lambda>ns.
              FreeResource (ns\<lparr>ns_pendingPods := bt_remove podkey (ns_pendingPods ns)\<rparr>) resources))
           (aseq (upd_func funcid (\<lambda>fs. fs\<lparr>fs_pendingPods := bt_remove podkey (fs_pendingPods fs)\<rparr>))
           (aseq (awhen (create_type = CreateSnapshot) (RemovePendingSnapshot funcid nodename))
           (aseq (restore_terminated env terminated_pod_keys)
             (awhen (create_type = CreateSnapshot) (AddSnapshotTask env nodename funcid)))))
          else apanic)"

definition ProcessCleanupDuplicateSnapshot ::
  "'l Env \<Rightarrow> string \<Rightarrow> string \<Rightarrow> string \<Rightarrow> NodeResources \<Rightarrow> string list \<Rightarrow> ('l, unit) handler" where
  "ProcessCleanupDuplicateSnapshot env funcid nodename podkey resources terminated_pod_keys =
     aseq (RemovePendingSnapshot funcid nodename)
    (aseq (upd_node nodename (\<lambda>ns.
       FreeResource (ns\<lparr>ns_pendingPods := bt_remove podkey (ns_pendingPods ns)\<rparr>) resources))
    (aseq (upd_func funcid (\<lambda>fs. fs\<lparr>fs_pendingPods := bt_remove podkey (fs_pendingPods fs)\<rparr>))
      (aiter (\<lambda>k.
         abind (aget (\<lambda>s. bt_get k (pods s))) (\<lambda>x. asome x (\<lambda>w.
         aseq (upd_node (node_of w) (\<lambda>ns. Ok (fst (Node_RemoveStoppingPod ns k))))
        (aseq (upd_func (FuncKey (wp_pod w)) (\<lambda>fs. fst (Func_RemoveStoppingPod fs k)))
        (aseq (idle_put env k)
          (aok (upd_node (node_of w) (\<lambda>ns.
             and_then (AllocResource ns (reqResources (podSpec (wp_pod w))) False) (\<lambda>(ns', _). Ok ns')))))))))
       terminated_pod_keys)))"

section \<open>Starting and resuming workers\<close>

definition FUNCPOD_TYPE :: string where "FUNCPOD_TYPE = ''funcpod_type.inferx.io''"
definition FUNCPOD_FUNCNAME :: string where "FUNCPOD_FUNCNAME = ''func_name.inferx.io''"
definition FUNCPOD_PROMPT :: string where "FUNCPOD_PROMPT = ''prompt''"

definition StartWorker ::
  "'l Env \<Rightarrow> string \<Rightarrow> Function \<Rightarrow> NodeResources \<Rightarrow> NodeResources \<Rightarrow> CreatePodType \<Rightarrow> WorkerPod list \<Rightarrow> ('l, nat) handler" where
  "StartWorker env naUrl func alloc quota createType terminatePods =
     abind (aget (\<lambda>s. uid_get env (uid_cnt s))) (\<lambda>u.
     aseq (amod (\<lambda>s. s\<lparr>uid_cnt := uid_cnt s + 1\<rparr>))
    (abind (alift u) (\<lambda>i.
     abind (aget (\<lambda>s. policy_of env s func)) (\<lambda>policy.
     aseq (h_emit (RpcCreate naUrl
       \<lparr>cq_tenant = do_tenant func, cq_namespace = do_namespace func, cq_funcname = do_name func, cq_fprevision = Version func,
        cq_id = show_nat i,
        cq_annotations = [(FUNCPOD_TYPE, FUNCPOD_PROMPT), (FUNCPOD_FUNCNAME, do_name func)] @ do_annotations func,
        cq_create_type = createType, cq_funcspec = (fn_spec (object func))\<lparr>fn_policy := Obj policy\<rparr>,
        cq_alloc_resources = alloc, cq_resource_quota = quota,
        cq_terminate_pods = map (\<lambda>p. terminate_req (wp_pod p)) terminatePods\<rparr>))
       (ret i)))))"

definition ResumeWorker ::
  "string \<Rightarrow> string \<Rightarrow> string \<Rightarrow> string \<Rightarrow> int \<Rightarrow> string \<Rightarrow> NodeResources \<Rightarrow> WorkerPod list \<Rightarrow> ('l, unit) handler" where
  "ResumeWorker naUrl t ns funcname fprevision i alloc terminatePods =
     h_emit (RpcResume naUrl \<lparr>rq_tenant = t, rq_namespace = ns, rq_funcname = funcname, rq_fprevision = fprevision,
       rq_id = i, rq_alloc_resources = alloc, rq_terminate_pods = map (\<lambda>p. terminate_req (wp_pod p)) terminatePods\<rparr>)"

end
