(* ===== verification/Sched_Place.thy ===== *)
theory Sched_Place
  imports Sched_Rpc
begin

text \<open>
  Placement in the scheduler: what a pod needs on a node, which node has it or can have it once idle pods
  are stopped, and the four ways a pod comes up: resumed from standby, started for a snapshot, restored
  to standby, or started under the plain runtime.
\<close>

section \<open>Resources of a pod on a node\<close>

definition snapshot_on :: "'l SchedulerHandler \<Rightarrow> string \<Rightarrow> string \<Rightarrow> (ContainerSnapshot, error) res" where
  "snapshot_on self funcId nodename = opt_or_panic (nested_get (snapshots self) funcId nodename)"

definition StandyResource :: "'l SchedulerHandler \<Rightarrow> string \<Rightarrow> string \<Rightarrow> (Resources, error) res" where
  "StandyResource self funcId nodename = and_then (snapshot_on self funcId nodename) StandbyResource"

definition ReadyResource :: "'l SchedulerHandler \<Rightarrow> Resources \<Rightarrow> string \<Rightarrow> string \<Rightarrow> (Resources, error) res" where
  "ReadyResource self r funcId nodename =
     and_then (snapshot_on self funcId nodename) (\<lambda>snapshot.
     and_then (Snapshot_ReadyCacheMemory snapshot) (\<lambda>c.
     and_then (if 0 < rs_readyMemory r then Ok (rs_readyMemory r) else u64_sub (rs_memory r) c) (\<lambda>m.
     Ok (r\<lparr>rs_cacheMemory := c, rs_memory := m, rs_gpu := (rs_gpu r)\<lparr>contextCount := 1\<rparr>\<rparr>))))"

definition ReqResumeResource :: "'l SchedulerHandler \<Rightarrow> Resources \<Rightarrow> string \<Rightarrow> string \<Rightarrow> (Resources, error) res" where
  "ReqResumeResource self r funcId nodename =
     and_then (ReadyResource self r funcId nodename) (\<lambda>x.
     and_then (StandyResource self funcId nodename) (\<lambda>st.
     Ok (x\<lparr>rs_memory := rs_memory x - rs_memory st, rs_cacheMemory := rs_cacheMemory x - rs_cacheMemory st\<rparr>)))"

definition SnapshotReadyCacheMemory :: "'l SchedulerHandler \<Rightarrow> string \<Rightarrow> string \<Rightarrow> (nat, error) res" where
  "SnapshotReadyCacheMemory self funcId nodename =
     and_then (snapshot_on self funcId nodename) Snapshot_ReadyCacheMemory"

section \<open>Evicting idle pods\<close>

definition VerifyMinReplicaPolicy :: "'l Env \<Rightarrow> 'l SchedulerHandler \<Rightarrow> WorkerPod \<Rightarrow> WorkerPod list \<Rightarrow> (bool, error) res" where
  "VerifyMinReplicaPolicy env self w workids =
     (let k = FuncKey (wp_pod w);
          evicted = length (filter (\<lambda>p. FuncKey (wp_pod p) = k) workids);
          policy = FuncPolicy env self (do_tenant (wp_pod w)) (do_namespace (wp_pod w)) (ps_funcname (podSpec (wp_pod w)))
                     (ps_policy (podSpec (wp_pod w)))
      in and_then (u64_sub (ReadyPodCount self k) evicted) (\<lambda>n. Ok (minReplica policy < n)))"

text \<open>
  The loop of \<open>TryFreeResources\<close> over the idle pods, least recently used first: the resources and the
  pods to stop so far, and the keys of pods that no longer exist.
\<close>

fun free_loop ::
  "'l Env \<Rightarrow> 'l SchedulerHandler \<Rightarrow> string \<Rightarrow> Resources \<Rightarrow> bool \<Rightarrow> string list \<Rightarrow> NodeResources \<Rightarrow> WorkerPod list \<Rightarrow> string list \<Rightarrow>
   (NodeResources \<times> WorkerPod list \<times> string list, error) res" where
  "free_loop env self nodename req snap [] av ws miss = Ok (av, ws, miss)"
| "free_loop env self nodename req snap (k # ks) av ws miss =
     (case bt_get k (pods self) of
        None \<Rightarrow> free_loop env self nodename req snap ks av ws (miss @ [k])
      | Some w \<Rightarrow>
          if node_of w \<noteq> nodename then free_loop env self nodename req snap ks av ws miss
          else if NvidiaRuntime (wp_pod w) then free_loop env self nodename req snap ks av ws miss
          else
            and_then (VerifyMinReplicaPolicy env self w ws) (\<lambda>may.
            if \<not> may then free_loop env self nodename req snap ks av ws miss
            else
              and_then (NodeResources_Add av (alloc_of w)) (\<lambda>av'.
              and_then (NodeResources_CanAlloc av' req snap) (\<lambda>st.
              if AllocState_Ok st then Ok (av', ws @ [w], miss)
              else free_loop env self nodename req snap ks av' (ws @ [w]) miss))))"

definition drop_missing :: "'l Env \<Rightarrow> string list \<Rightarrow> ('l, unit) handler" where
  "drop_missing env ks = aiter (\<lambda>k. aseq (idle_pop env k) (ret ())) ks"

definition TryFreeResources ::
  "'l Env \<Rightarrow> string \<Rightarrow> string \<Rightarrow> NodeResources \<Rightarrow> Resources \<Rightarrow> bool \<Rightarrow> ('l, NodeResources \<times> WorkerPod list) handler" where
  "TryFreeResources env nodename funcId available req snap =
     abind (aget (\<lambda>s. free_loop env s nodename req snap (rev (lru_iter (lru env) (idlePods s))) available [] [])) (\<lambda>r.
     abind (alift r) (\<lambda>(av, ws, miss).
     aseq (drop_missing env miss)
    (abind (alift (NodeResources_CanAlloc av req snap)) (\<lambda>st.
     if AllocState_Ok st then ret (av, ws)
     else athrow (SchedulerNoEnoughResource (''Node '' @ nodename @ '' has no enough free resource to run '' @ funcId @ '' ''))))))"

section \<open>Finding a node\<close>

datatype FindNodeType = FindResume | FindNvidiaRuntimePod

definition find_req :: "'l SchedulerHandler \<Rightarrow> Function \<Rightarrow> FindNodeType \<Rightarrow> string \<Rightarrow> int \<Rightarrow> (Resources, error) res" where
  "find_req self func ty nodename ctx =
     (if ty \<noteq> FindResume then SnapshotResource (fn_spec (object func)) (i64_as_u64 ctx)
      else ReqResumeResource self (RunningResource (fn_spec (object func))) (Function_Id func) nodename)"

text \<open>Standby pods of the function on the node that are not about to be resumed.\<close>

definition standby_pods_on :: "NodeStatus \<Rightarrow> string \<Rightarrow> string list" where
  "standby_pods_on ns funcid =
     bt_keys (filter (\<lambda>(k, w). podState (wp_pod w) = PsStandby \<and> FuncKey (wp_pod w) = funcid \<and> \<not> bt_contains k (ns_pendingPods ns))
       (ns_pods ns))"

type_synonym NodeSnapshots = "(string, NodeResources \<times> WorkerPod list) btmap"

fun find_free ::
  "'l SchedulerHandler \<Rightarrow> Function \<Rightarrow> FindNodeType \<Rightarrow> string list \<Rightarrow> NodeSnapshots \<Rightarrow>
   ((string \<times> NodeResources) + NodeSnapshots, error) res" where
  "find_free self func ty [] sn = Ok (Inr sn)"
| "find_free self func ty (n # ns) sn =
     (case bt_get n (nodes self) of
        None \<Rightarrow> Panic
      | Some node \<Rightarrow>
          if ty = FindResume \<and> standby_pods_on node (Function_Id func) = [] then find_free self func ty ns sn
          else
            let nr = ns_available node in
            and_then (find_req self func ty n (maxContextCnt nr)) (\<lambda>req.
            and_then (NodeResources_CanAlloc nr req (ty \<noteq> FindResume)) (\<lambda>st.
            if AllocState_Ok st then Ok (Inl (n, nr))
            else find_free self func ty ns (bt_insert n (nr, []) sn))))"

fun find_evict ::
  "'l Env \<Rightarrow> 'l SchedulerHandler \<Rightarrow> Function \<Rightarrow> FindNodeType \<Rightarrow> string list \<Rightarrow> NodeSnapshots \<Rightarrow> string list \<Rightarrow>
   (string list \<times> (string \<times> WorkerPod list \<times> NodeResources) option, error) res" where
  "find_evict env self func ty [] sn miss = Ok (miss, None)"
| "find_evict env self func ty (k # ks) sn miss =
     (case bt_get k (pods self) of
        None \<Rightarrow> find_evict env self func ty ks sn (miss @ [k])
      | Some w \<Rightarrow>
          if FuncKey (wp_pod w) = Function_Id func then find_evict env self func ty ks sn miss
          else (case bt_get (node_of w) sn of
              None \<Rightarrow> find_evict env self func ty ks sn miss
            | Some (nr, ws) \<Rightarrow>
                and_then (VerifyMinReplicaPolicy env self w ws) (\<lambda>may.
                if \<not> may then find_evict env self func ty ks sn miss
                else
                  and_then (NodeResources_Add nr (alloc_of w)) (\<lambda>nr'.
                  and_then (find_req self func ty (node_of w) (maxContextCnt nr')) (\<lambda>req.
                  and_then (NodeResources_CanAlloc nr' req (ty \<noteq> FindResume)) (\<lambda>st.
                  if AllocState_Ok st then Ok (miss, Some (node_of w, ws @ [w], nr'))
                  else find_evict env self func ty ks (bt_insert (node_of w) (nr', ws @ [w]) sn) miss))))))"

definition no_resource :: "Function \<Rightarrow> error" where
  "no_resource func = SchedulerNoEnoughResource
     (''can't find enough resource for '' @ DataObject_Key func @ '', required resources: , nodes allocation state: '')"

definition FindNode4Pod ::
  "'l Env \<Rightarrow> Function \<Rightarrow> FindNodeType \<Rightarrow> string btset \<Rightarrow> ('l, string \<times> WorkerPod list \<times> NodeResources) handler" where
  "FindNode4Pod env func ty candidateNodes =
     abind (aget (\<lambda>s. find_free s func ty (bt_keys candidateNodes) [])) (\<lambda>r.
     abind (alift r) (\<lambda>found.
     case found of
       Inl (n, nr) \<Rightarrow> ret (n, [], nr)
     | Inr sn \<Rightarrow>
         abind (aget (\<lambda>s. find_evict env s func ty (rev (lru_iter (lru env) (idlePods s))) sn [])) (\<lambda>r2.
         abind (alift r2) (\<lambda>(miss, res).
         aseq (drop_missing env miss)
           (case res of
              Some x \<Rightarrow> ret x
            | None \<Rightarrow>
                aseq (if ty \<noteq> FindResume then aseq (alift (SnapshotResource (fn_spec (object func)) 1)) (ret ()) else ret ())
                  (athrow (no_resource func)))))))"

definition GetBestNvidiaRuntimeNode :: "'l Env \<Rightarrow> Function \<Rightarrow> ('l, string \<times> WorkerPod list \<times> NodeResources) handler" where
  "GetBestNvidiaRuntimeNode env fp =
     abind (aget (\<lambda>s. filter (\<lambda>n. IsNodeReady s n) (bt_keys (nodes s)))) (\<lambda>ns.
     if ns = [] then athrow (SchedulerErr ''No resource for nvidia runtime for func '')
     else FindNode4Pod env fp FindNvidiaRuntimePod (bs_of_list ns))"

definition GetBestResumeWorker :: "'l Env \<Rightarrow> Function \<Rightarrow> ('l, WorkerPod \<times> WorkerPod list \<times> NodeResources) handler" where
  "GetBestResumeWorker env fp =
     abind (aget (\<lambda>s. GetFuncPodsByKey s (Function_Id fp))) (\<lambda>ps.
     if ps = [] then athrow (SchedulerNoEnoughResource ''no standby worker for function '')
     else
       abind (aget (\<lambda>s. filter (IsNodeReady s) (map node_of (filter (\<lambda>p. podState (wp_pod p) = PsStandby) ps)))) (\<lambda>ns.
       if ns = [] then athrow (SchedulerErr ''No standy pod for func , likely it is just restarted, please retry'')
       else
         abind (FindNode4Pod env fp FindResume (bs_of_list ns)) (\<lambda>(nodename, ws, nr).
         abind (aget (\<lambda>s. filter (\<lambda>p. podState (wp_pod p) = PsStandby \<and> State (heap (rt s)) p = WStandby \<and> node_of p = nodename) ps)) (\<lambda>cs.
         case cs of
           w # _ \<Rightarrow> ret (w, ws, nr)
         | [] \<Rightarrow> athrow (SchedulerNoEnoughResource ''no standby worker for function '')))))"

definition GetBestNodeToRestore :: "'l Env \<Rightarrow> Function \<Rightarrow> ('l, string) handler" where
  "GetBestNodeToRestore env fp =
     abind (aget id) (\<lambda>s.
     let funcid = Function_Id fp;
         existnodes = map node_of (filter (\<lambda>p. podState (wp_pod p) \<noteq> PsReady \<and> IsNodeReady s (node_of p)) (GetFuncPodsByKey s funcid));
         res = (case bt_get funcid (snapshots s) of None \<Rightarrow> []
                | Some m \<Rightarrow> filter (\<lambda>n. IsNodeReady s n \<and> n \<notin> set existnodes) (bt_keys m))
     in if res = [] then athrow (CommonError (''can't find snapshot to restore '' @ funcid))
        else (case shuffle env res of [] \<Rightarrow> apanic | n # _ \<Rightarrow> ret n))"

section \<open>Bringing pods up\<close>

text \<open>The evicted pods leave the idle pool; one that is not in it is a panic.\<close>

definition pop_evicted :: "'l Env \<Rightarrow> WorkerPod list \<Rightarrow> ('l, unit) handler" where
  "pop_evicted env ws = aiter (\<lambda>w. abind (idle_pop env (PodKey (wp_pod w))) aassert) ws"

text \<open>They are recorded as stopping on the node and with their functions.\<close>

definition add_stopping :: "string \<Rightarrow> WorkerPod list \<Rightarrow> ('l, unit) handler" where
  "add_stopping nodename ws =
     aseq (upd_node nodename (\<lambda>ns. Ok (fold (\<lambda>w n. Node_AddStoppingPod n (PodKey (wp_pod w))) ws ns)))
       (aiter (\<lambda>w. upd_func (FuncKey (wp_pod w)) (\<lambda>fs. Func_AddStoppingPod fs (PodKey (wp_pod w)))) ws)"

definition the_node :: "string \<Rightarrow> ('l, NodeStatus) handler" where
  "the_node nodename = abind (aget (\<lambda>s. bt_get nodename (nodes s))) (\<lambda>x. alift (opt_or_panic x))"

definition reserve :: "string \<Rightarrow> NodeResources \<Rightarrow> ('l, unit) handler" where
  "reserve nodename r =
     upd_node nodename (\<lambda>ns. and_then (NodeResources_Sub (ns_available ns) r) (\<lambda>av. Ok (ns\<lparr>ns_available := av\<rparr>)))"

definition ResumePod :: "'l Env \<Rightarrow> string \<Rightarrow> string option \<Rightarrow> ('l, unit) handler" where
  "ResumePod env fpKey consumer =
     abind (aget (\<lambda>s. range_scan fpKey (funcs s))) (\<lambda>vec.
     case vec of
       [] \<Rightarrow> athrow (NotExist (''GetFunc '' @ fpKey))
     | _ # _ # _ \<Rightarrow> athrow (CommonError (''CreateWorker get multiple func for '' @ fpKey @ ''  with keys ''))
     | [(key, fs)] \<Rightarrow>
         let fp = fs_func fs in
         abind (GetBestResumeWorker env fp) (\<lambda>(w, ws, nodeResource).
         let nodename = node_of w; spec = podSpec (wp_pod w) in
         abind (aget (\<lambda>s. ReadyResource s (RunningResource (fn_spec (object fp))) fpKey nodename)) (\<lambda>rr.
         abind (alift rr) (\<lambda>readyResource.
         abind (alift (NodeResources_Add nodeResource (alloc_of w))) (\<lambda>nr.
         abind (alift (NodeResources_Alloc nr readyResource False)) (\<lambda>(_, resources).
         abind (the_node nodename) (\<lambda>ns.
         aseq (pop_evicted env ws)
        (aseq (h_SetState WResuming w)
        (aseq (h_SetConsumer (case consumer of None \<Rightarrow> None | Some t \<Rightarrow> if t = '''' then None else Some t) w)
        (aseq (aiter (mark_terminating env) ws)
        (aseq (add_stopping nodename ws)
        (aseq (reserve nodename resources)
        (aseq (upd_node nodename (\<lambda>ns. Node_AddPendingPod ns
           (PendingPod_New (now env) nodename (FuncPodKey (do_tenant fp) (do_namespace fp) (do_name fp) (Version fp) (ps_id spec))
             (FuncObjectKey (do_tenant fp) (do_namespace fp) (do_name fp) (Version fp)) resources)))
          (ResumeWorker (NodeAgentUrl (ns_node ns)) (do_tenant (wp_pod w)) (do_namespace (wp_pod w)) (ps_funcname spec)
             (ps_fprevision spec) (ps_id spec) resources ws))))))))))))))"

text \<open>
  The common part of a snapshot and of a pod under the plain runtime: evict, mark as stopping, take the
  snapshot's resources from the simulated node and subtract them from the real one.
\<close>

definition evict_and_reserve :: "'l Env \<Rightarrow> Function \<Rightarrow> string \<Rightarrow> WorkerPod list \<Rightarrow> NodeResources \<Rightarrow> ('l, string \<times> NodeResources) handler" where
  "evict_and_reserve env func nodename ws nodeResources =
     aseq (aiter (\<lambda>w. aseq (abind (idle_pop env (PodKey (wp_pod w))) aassert) (mark_terminating env w)) ws)
    (abind (the_node nodename) (\<lambda>ns.
     aseq (add_stopping nodename ws)
    (abind (alift (SnapshotResource (fn_spec (object func)) (i64_as_u64 (maxContextCnt (nd_resources (object (ns_node ns))))))) (\<lambda>sr.
     abind (alift (NodeResources_Alloc nodeResources sr True)) (\<lambda>(_, resources).
     aseq (reserve nodename resources)
       (ret (NodeAgentUrl (ns_node ns), resources)))))))"

definition new_pending :: "'l Env \<Rightarrow> Function \<Rightarrow> string \<Rightarrow> nat \<Rightarrow> string \<Rightarrow> NodeResources \<Rightarrow> PendingPod" where
  "new_pending env func nodename i funcId resources =
     PendingPod_New (now env) nodename (FuncPodKey (do_tenant func) (do_namespace func) (do_name func) (Version func) (show_nat i))
       funcId resources"

definition CreateOneNividaPod :: "'l Env \<Rightarrow> string \<Rightarrow> ('l, unit) handler" where
  "CreateOneNividaPod env funcId =
     abind (aget (\<lambda>s. bt_get funcId (funcs s))) (\<lambda>x.
     case x of
       None \<Rightarrow> athrow (NotExist (''CreateWorker can't find funcpcakge with id '' @ funcId @ '' ''))
     | Some fs \<Rightarrow>
         let func = fs_func fs in
         abind (GetBestNvidiaRuntimeNode env func) (\<lambda>(nodename, ws, nr).
         abind (evict_and_reserve env func nodename ws nr) (\<lambda>(url, resources).
         abind (StartWorker env url func resources resources CreateNormal ws) (\<lambda>i.
         aseq (the_node nodename)
           (upd_node nodename (\<lambda>ns. Node_AddPendingPod ns (new_pending env func nodename i funcId resources)))))))"

definition TryCreateSnapshotOnNode :: "'l Env \<Rightarrow> string \<Rightarrow> string \<Rightarrow> ('l, unit) handler" where
  "TryCreateSnapshotOnNode env funcId nodename =
     abind (aget id) (\<lambda>s.
     if nested_get (snapshots s) funcId nodename \<noteq> None then ret ()
     else if nested_get (pendingsnapshots s) funcId nodename \<noteq> None then ret ()
     else (case bt_get funcId (funcs s) of
       None \<Rightarrow> ret ()
     | Some fs \<Rightarrow>
         let func = fs_func fs; spec = fn_spec (object func) in
         if (case bt_get funcId (funcstatus s) of None \<Rightarrow> False | Some st \<Rightarrow> fsd_state (object st) = FuncFail) then ret ()
         else (case bt_get nodename (nodes s) of
           None \<Rightarrow> ret ()
         | Some ns \<Rightarrow>
             if \<not> nd_blobStoreEnable (object (ns_node ns)) \<and> uses_blob spec then
               aseq (SetSnapshotStatus env funcId nodename (SSCannot ''NodAgent doesn't support blob''))
                 (athrow (SchedulerNoEnoughResource ''NodAgent doesn't support blob''))
             else if \<not> IsNodeReady s nodename then
               aseq (AddSnapshotTask env nodename funcId) (athrow (SchedulerNoEnoughResource ''NodAgent node ready''))
             else
               abind (alift (SnapshotResource spec (i64_as_u64 (maxContextCnt (nd_resources (object (ns_node ns))))))) (\<lambda>req.
               abind (alift (NodeResources_CanAlloc (ns_total ns) req True)) (\<lambda>st.
               if \<not> AllocState_Ok st then
                 aseq (SetSnapshotStatus env funcId nodename (SSCannot ''has no enough resource to run ''))
                   (athrow (SchedulerNoEnoughResource (''Node '' @ nodename @ '' has no enough resource to run '' @ funcId)))
               else
                 abind (alift (NodeResources_CanAlloc (ns_available ns) req True)) (\<lambda>st2.
                 abind (if AllocState_Ok st2 then ret (ns_available ns, [])
                        else abind (atry (TryFreeResources env nodename funcId (ns_available ns) req True)) (\<lambda>r.
                          case r of
                            Ok x \<Rightarrow> ret x
                          | Err (SchedulerNoEnoughResource m) \<Rightarrow>
                              aseq (SetSnapshotStatus env funcId nodename (SSWaiting ''Resource is busy''))
                             (aseq (AddSnapshotTask env nodename funcId) (athrow (SchedulerNoEnoughResource m)))
                          | Err e \<Rightarrow> athrow e
                          | Panic \<Rightarrow> apanic)) (\<lambda>(nr, ws).
                 abind (evict_and_reserve env func nodename ws nr) (\<lambda>(url, resources).
                 abind (atry (StartWorker env url func resources resources CreateSnapshot ws)) (\<lambda>r.
                 case r of
                   Err e \<Rightarrow>
                     aseq (SetSnapshotStatus env funcId nodename (SSScheduleFail ''snapshoting sched fail ''))
                    (aseq (AddSnapshotTask env nodename funcId) (athrow e))
                 | Panic \<Rightarrow> apanic
                 | Ok i \<Rightarrow>
                     let p = new_pending env func nodename i funcId resources in
                     aseq (SetSnapshotStatus env funcId nodename SSScheduled)
                    (aseq (upd_node nodename (\<lambda>ns. Node_AddPendingPod ns p))
                    (aseq (upd_func funcId (\<lambda>fs. fs\<lparr>fs_pendingPods := bt_insert (pp_podKey p) p (fs_pendingPods fs)\<rparr>))
                      (AddPendingSnapshot funcId nodename))))))))))))"

section \<open>Standby pods\<close>

text \<open>Standby pods per function with a ready snapshot on the node; \<open>None\<close> when a pod there is starting.\<close>

fun count_standby :: "string \<Rightarrow> WorkerPod list \<Rightarrow> (string, nat) btmap \<Rightarrow> (string, nat) btmap option" where
  "count_standby nodename [] m = Some m"
| "count_standby nodename (w # ws) m =
     (if node_of w \<noteq> nodename then count_standby nodename ws m
      else
        let st = podState (wp_pod w) in
        if BlockStandby st then None
        else if st \<noteq> PsStandby \<and> st \<noteq> PsPullingImage then count_standby nodename ws m
        else (case bt_get (FuncKey (wp_pod w)) m of
                None \<Rightarrow> count_standby nodename ws m
              | Some c \<Rightarrow> count_standby nodename ws (bt_insert (FuncKey (wp_pod w)) (c + 1) m)))"

definition ready_funcs_on :: "'l SchedulerHandler \<Rightarrow> string \<Rightarrow> (string, nat) btmap" where
  "ready_funcs_on self nodename =
     fold (\<lambda>(k, m) acc. case bt_get nodename m of
             Some x \<Rightarrow> if cs_state x = SnReady then bt_insert k 0 acc else acc
           | None \<Rightarrow> acc) (snapshots self) []"

definition stop_excess :: "string \<Rightarrow> string \<Rightarrow> nat \<Rightarrow> ('l, unit) handler" where
  "stop_excess nodename funcId excess =
     abind (aget (\<lambda>s. filter (\<lambda>p. FuncKey (wp_pod p) = funcId \<and> node_of p = nodename \<and> podState (wp_pod p) = PsStandby)
              (bt_values (pods s)))) (\<lambda>ps.
     aiter (\<lambda>p. aok (StopWorker (wp_pod p))) (take excess ps))"

definition node_alloc :: "string \<Rightarrow> Resources \<Rightarrow> ('l, (NodeStatus \<times> NodeResources) option) handler" where
  "node_alloc n req =
     abind (aget (\<lambda>s. bt_get n (nodes s))) (\<lambda>x. case x of
       None \<Rightarrow> ret None
     | Some ns \<Rightarrow>
         abind (alift (AllocResource ns req False)) (\<lambda>(ns', alloc).
         aseq (amod (\<lambda>s. s\<lparr>nodes := bt_insert n ns' (nodes s)\<rparr>)) (ret (Some (ns', alloc)))))"

definition start_standby :: "'l Env \<Rightarrow> string \<Rightarrow> string \<Rightarrow> ('l, unit) handler" where
  "start_standby env nodename funcId =
     abind (aget id) (\<lambda>s.
     asome (bt_get funcId (funcs s)) (\<lambda>fs.
     let func = fs_func fs in
     abind (alift (StandyResource s funcId nodename)) (\<lambda>sr.
     abind (node_alloc nodename sr) (\<lambda>y. asome y (\<lambda>(ns', alloc).
     abind (alift (NodeStatus_ReadyResourceQuota ns' (fn_resources (fn_spec (object func))))) (\<lambda>quota.
     abind (atry (StartWorker env (NodeAgentUrl (ns_node ns')) func alloc quota CreateRestore [])) (\<lambda>r.
     case r of
       Err e \<Rightarrow> aseq (upd_node nodename (\<lambda>ns. FreeResource ns alloc)) (athrow e)
     | Panic \<Rightarrow> apanic
     | Ok i \<Rightarrow>
         let p = new_pending env func nodename i funcId alloc in
         aseq (upd_node nodename (\<lambda>ns. Node_AddPendingPod ns p))
           (upd_func funcId (\<lambda>fs. fs\<lparr>fs_pendingPods := bt_insert (pp_podKey p) p (fs_pendingPods fs)\<rparr>)))))))))"

definition TryAdjustStandbyPodsOnNode :: "'l Env \<Rightarrow> string \<Rightarrow> ('l, unit) handler" where
  "TryAdjustStandbyPodsOnNode env nodename =
     abind (aget (\<lambda>s. bt_get nodename (nodes s))) (\<lambda>x. asome x (\<lambda>ns.
     aseq (AddStandbyTask env nodename)
    (if 0 < length (ns_pendingPods ns) \<or> ns_state ns \<noteq> NodeAgentReady then ret ()
     else
       abind (aget (\<lambda>s. count_standby nodename (bt_values (pods s)) (ready_funcs_on s nodename))) (\<lambda>c. asome c (\<lambda>cnt.
       abind (aget (\<lambda>s. map (\<lambda>(k, n). (k, standbyPerNode (policy_of env s (fs_func (the (bt_get k (funcs s))))), n))
                (filter (\<lambda>(k, n). bt_contains k (funcs s)) cnt))) (\<lambda>ws.
       aseq (aiter (\<lambda>(k, want, n). awhen (want < n) (stop_excess nodename k (n - want))) ws)
         (let need = map fst (filter (\<lambda>(k, want, n). n < want) ws) in
          if need = [] then ret ()
          else (case shuffle env need of [] \<Rightarrow> apanic | k # _ \<Rightarrow> start_standby env nodename k))))))))"

section \<open>Functions and tasks\<close>

definition ProcessAddFunc :: "'l Env \<Rightarrow> string \<Rightarrow> ('l, bool) handler" where
  "ProcessAddFunc env funcid =
     abind (aget id) (\<lambda>s.
     if bt_contains funcid (funcPods s) then ret False
     else (case bt_get funcid (funcs s) of
       None \<Rightarrow> ret False
     | Some fs \<Rightarrow>
         let func = fs_func fs in
         if fo_state (fn_status (object func)) = FuncFail then ret False
         else
           let policy = policy_of env s func in
           aseq (awhen (NvidiaRuntimePodCount s funcid < nvidiaReplica policy) (aok (CreateOneNividaPod env funcid)))
          (abind (aget (\<lambda>s. ReadyPodCount s funcid)) (\<lambda>ready.
           if ready < minReplica policy then
             abind (atry (ResumePod env funcid None)) (\<lambda>r. case r of Ok _ \<Rightarrow> ret True | _ \<Rightarrow> ret False)
           else ret False))))"

fun refresh_loop :: "'l Env \<Rightarrow> string list \<Rightarrow> ('l, unit) handler" where
  "refresh_loop env [] = ret ()"
| "refresh_loop env (k # ks) = abind (ProcessAddFunc env k) (\<lambda>b. if b then ret () else refresh_loop env ks)"

definition RefreshScheduling :: "'l Env \<Rightarrow> ('l, unit) handler" where
  "RefreshScheduling env = abind (aget (\<lambda>s. bt_keys (funcs s))) (\<lambda>ks. refresh_loop env (shuffle env ks))"

fun ProcessTask :: "'l Env \<Rightarrow> SchedTask \<Rightarrow> ('l, unit) handler" where
  "ProcessTask env (TaskAddNode nodename) = schedule_delayed_task env (3 * SEC) (DelayedInitNode nodename)"
| "ProcessTask env (DelayedInitNode nodename) =
     abind (aget (\<lambda>s. bt_keys (funcs s))) (\<lambda>ks.
     aseq (aiter (\<lambda>k. AddSnapshotTask env nodename k) ks) (AddStandbyTask env nodename))"
| "ProcessTask env (TaskAddFunc funcId) =
     abind (aget (\<lambda>s. bt_keys (nodes s))) (aiter (\<lambda>n. AddSnapshotTask env n funcId))"
| "ProcessTask env (SnapshotTask funcId nodename) = aok (TryCreateSnapshotOnNode env funcId nodename)"
| "ProcessTask env (NvidiaPodTask funcId) = aok (CreateOneNividaPod env funcId)"
| "ProcessTask env (StandbyTask nodename) = aok (TryAdjustStandbyPodsOnNode env nodename)"
| "ProcessTask env _ = ret ()"

definition CompleteWarmupAfterConnect :: "'l Env \<Rightarrow> ('l, unit) handler" where
  "CompleteWarmupAfterConnect env =
     abind (aget warmupComplete) (\<lambda>done.
     if done then ret ()
     else aseq (amod (\<lambda>s. s\<lparr>warmupComplete := True\<rparr>)) (aseq (RefreshScheduling env) (InitSnapshotTask env)))"

definition CheckAndCompleteWarmup :: "'l Env \<Rightarrow> ('l, unit) handler" where
  "CheckAndCompleteWarmup env =
     abind (aget id) (\<lambda>s.
     if warmupComplete s then ret ()
     else asome (warmupStartTime s) (\<lambda>t0. awhen (5 * SEC < now env - t0) (CompleteWarmupAfterConnect env)))"

end
