(* ===== verification/Sched_Gateway.thy ===== *)
theory Sched_Gateway
  imports Sched_Place
begin

text \<open>
  What gateways ask of the scheduler: connect after a restart with the workers they still hold, refresh
  their registration, lease and return workers, kill a pod; and the sweep over gateways that stopped
  refreshing.
\<close>

section \<open>Registration\<close>

definition ProcessRefreshGateway :: "'l Env \<Rightarrow> int \<Rightarrow> ('l, unit) handler" where
  "ProcessRefreshGateway env gatewayId = amod (\<lambda>s. s\<lparr>gateways := bt_insert gatewayId (now env) (gateways s)\<rparr>)"

definition GATEWAY_TIMEOUT :: nat where
  "GATEWAY_TIMEOUT = 4000 * 1000000"

definition timeoutGateways :: "nat \<Rightarrow> (int, nat) btmap \<Rightarrow> int list" where
  "timeoutGateways t m = bt_keys (filter (\<lambda>(_, refresh). GATEWAY_TIMEOUT < t - refresh) m)"

definition release_lost :: "'l Env \<Rightarrow> int list \<Rightarrow> WorkerPod \<Rightarrow> ('l, unit) handler" where
  "release_lost env gone w =
     abind (h_State w) (\<lambda>st. case st of
       WWorking g \<Rightarrow>
         awhen (g \<in> set gone)
           (aseq (on_rt (gauge_dec w)) (aseq (h_SetIdle w) (idle_put env (PodKey (wp_pod w)))))
     | _ \<Rightarrow> ret ())"

definition ProcessGatewayTimeout :: "'l Env \<Rightarrow> ('l, unit) handler" where
  "ProcessGatewayTimeout env =
     abind (aget (\<lambda>s. timeoutGateways (now env) (gateways s))) (\<lambda>gone.
     if length gone = 0 then ret ()
     else
       aseq (amod (\<lambda>s. s\<lparr>gateways := fold bt_remove gone (gateways s)\<rparr>))
      (abind (aget (\<lambda>s. bt_values (pods s))) (aiter (release_lost env gone))))"

record WorkerKey =
  wk_tenant :: string
  wk_namespace :: string
  wk_funcname :: string
  wk_fprevision :: int
  wk_id :: string

text \<open>The workers a gateway claims; \<open>None\<close> when one of them was given to somebody else.\<close>

fun claimed :: "'l SchedulerHandler \<Rightarrow> int \<Rightarrow> WorkerKey list \<Rightarrow> WorkerPod list option" where
  "claimed self g [] = Some []"
| "claimed self g (k # ks) =
     (case GetFuncPod self (wk_tenant k) (wk_namespace k) (wk_funcname k) (wk_fprevision k) (wk_id k) of
        Ok w \<Rightarrow>
          let st = State (heap (rt self)) w in
          if st \<noteq> WIdle \<and> st \<noteq> WWorking g then None
          else (case claimed self g ks of None \<Rightarrow> None | Some ws \<Rightarrow> Some (w # ws))
      | _ \<Rightarrow> claimed self g ks)"

definition reassigned :: string where
  "reassigned = ''ProcessConnectReq the leasing worker  has been reassigned, state  expect idle or  '' @ [CHR 0x0A] @
     '' likely the scheduler restarted and the gateway doesn't connect ontime''"

definition ProcessConnectReq :: "'l Env \<Rightarrow> int \<Rightarrow> WorkerKey list \<Rightarrow> nat \<Rightarrow> ('l, bool) handler" where
  "ProcessConnectReq env gatewayId workers tx =
     abind (aget id) (\<lambda>s.
     if \<not> listDone s then
       aseq (send_ok env tx (ConnectResp ''Scheduler still initializing, please retry'')) (ret False)
     else (case claimed s gatewayId workers of
         None \<Rightarrow> aseq (send_unwrap env tx (ConnectResp reassigned)) (ret False)
       | Some ws \<Rightarrow>
           aseq (aiter (\<lambda>w. aseq (h_SetWorking gatewayId w) (aseq (idle_pop env (PodKey (wp_pod w))) (ret ()))) ws)
          (aseq (send_ok env tx (ConnectResp ''''))
             (ret True))))"

section \<open>Leases\<close>

definition lease_refusal :: "string \<Rightarrow> nat \<Rightarrow> nat \<Rightarrow> nat \<Rightarrow> string" where
  "lease_refusal t mx act rq = ''ProcessLeaseWorkerReq tenant '' @ t @ '' exceed max_gpu limit '' @ show_nat mx @
     '' active '' @ show_nat act @ '' requested '' @ show_nat rq"

definition replica_refusal :: "string \<Rightarrow> nat \<Rightarrow> nat \<Rightarrow> string" where
  "replica_refusal f mx n = ''ProcessLeaseWorkerReq can't create pod for func '' @ f @
     '' as reach max_replica limitation '' @ show_nat mx @ '' ready pod count '' @ show_nat n"

definition lease_idle :: "'l Env \<Rightarrow> LeaseWorkerReq \<Rightarrow> nat \<Rightarrow> WorkerPod \<Rightarrow> ('l, unit) handler" where
  "lease_idle env req tx w =
     (let spec = podSpec (wp_pod w) in
      aseq (h_SetWorking (lr_gateway_id req) w)
     (aseq (h_SetConsumer (consumer_of req) w)
     (aseq (abind (idle_pop env (PodKey (wp_pod w))) aassert)
       (if ps_runtime spec \<noteq> InferX then
          (case IpAddress_FromString (ps_host_ip spec) of
             Ok ip \<Rightarrow> send_unwrap env tx (LeaseResp \<lparr>ls_error = '''', ls_id = ps_id spec, ls_ipaddr = ip, ls_keepalive = True,
                       ls_hostipaddr = ip, ls_hostport = unat (ps_host_port spec), ls_hostnetwork = NvidiaRuntime (wp_pod w)\<rparr>)
           | _ \<Rightarrow> apanic)
        else
          abind (aget (\<lambda>s. LookforPeer (peer_mgr s) (ps_ipAddr spec))) (\<lambda>p.
          abind (alift p) (\<lambda>peer.
          aseq (h_emit (PodLeaseInc (labels_of req w)))
         (abind (aget (\<lambda>s. gauge_inc w (rt s))) (\<lambda>g.
          abind (alift g) (\<lambda>r.
          aseq (amod (\<lambda>s. s\<lparr>rt := r\<rparr>))
            (send_unwrap env tx (LeaseResp (lease_resp w peer True))))))))))))"

definition lease_key :: "LeaseWorkerReq \<Rightarrow> string" where
  "lease_key req = slash4 (lr_tenant req) (lr_namespace req) (lr_funcname req) (show_int (lr_fprevision req))"

definition idle_ready :: "'l SchedulerHandler \<Rightarrow> WorkerPod \<Rightarrow> bool" where
  "idle_ready self w \<longleftrightarrow> podState (wp_pod w) = PsReady \<and> IsIdle (State (heap (rt self)) w)"

definition gpu_check :: "'l SchedulerHandler \<Rightarrow> LeaseWorkerReq \<Rightarrow> Function \<Rightarrow> (string option, error) res" where
  "gpu_check self req func =
     (let t = EffectiveTenant req; rq = gpuCount (rs_gpu (RunningResource (fn_spec (object func)))) in
      if TenantIsGpuCapExempt t then Ok None
      else
        and_then (TenantActiveGpu self t) (\<lambda>act.
        let mx = TenantGpuLimit self t in
        Ok (if mx < u64_saturating_add act rq then Some (lease_refusal t mx act rq) else None)))"

definition ProcessLeaseWorkerReq :: "'l Env \<Rightarrow> LeaseWorkerReq \<Rightarrow> nat \<Rightarrow> ('l, unit) handler" where
  "ProcessLeaseWorkerReq env req tx =
     abind (aget id) (\<lambda>s.
     let funcname = lease_key req in
     case bt_get funcname (funcs s) of
       None \<Rightarrow>
         aseq (send_unwrap env tx (LeaseResp (lease_error (''ProcessLeaseWorkerReq can't find func with id '' @ funcname @ '' ''))))
           (athrow (NotExist (''ProcessLeaseWorkerReq can't find func with id '' @ funcname @ '' '')))
     | Some fs \<Rightarrow>
         let func = fs_func fs in
         abind (alift (gpu_check s req func)) (\<lambda>refusal.
         case refusal of
           Some msg \<Rightarrow> send_unwrap env tx (LeaseResp (lease_error msg))
         | None \<Rightarrow>
             (case filter (idle_ready s) (GetFuncPods s (lr_tenant req) (lr_namespace req) (lr_funcname req) (lr_fprevision req)) of
                w # _ \<Rightarrow> lease_idle env req tx w
              | [] \<Rightarrow>
                  let mx = maxReplica (policy_of env s func); ready = ReadyPodCount s funcname in
                  if mx \<le> ready then
                    aseq (send_unwrap env tx (LeaseResp (lease_error (replica_refusal funcname mx ready))))
                      (athrow (NotExist (replica_refusal funcname mx ready)))
                  else
                    abind (atry (ResumePod env funcname (Some (EffectiveTenant req)))) (\<lambda>r.
                    case r of
                      Ok _ \<Rightarrow> Sched_PushLeaseWorkerReq env funcname req tx
                    | _ \<Rightarrow> send_unwrap env tx (LeaseResp (lease_error ''Failed to resume pod: ''))))))"

definition ProcessReturnWorkerReq :: "'l Env \<Rightarrow> WorkerKey \<Rightarrow> bool \<Rightarrow> nat \<Rightarrow> ('l, unit) handler" where
  "ProcessReturnWorkerReq env k failworker tx =
     abind (aget (\<lambda>s. GetFuncPod s (wk_tenant k) (wk_namespace k) (wk_funcname k) (wk_fprevision k) (wk_id k))) (\<lambda>r.
     case r of
       Ok w \<Rightarrow>
         aseq (on_rt (gauge_dec w))
        (abind (h_State w) (\<lambda>st.
         aseq (awhen (st \<noteq> WTerminating)
                (if failworker then aseq (mark_terminating env w) (aok (StopWorker (wp_pod w)))
                 else aseq (h_SetIdle w) (idle_put env (PodKey (wp_pod w)))))
           (send_unwrap env tx (ReturnResp ''''))))
     | Err _ \<Rightarrow> send_unwrap env tx (ReturnResp ''NotExist'')
     | Panic \<Rightarrow> apanic)"

definition ProcessKillPod :: "'l Env \<Rightarrow> WorkerKey \<Rightarrow> ('l, string \<times> KillPodStatus) handler" where
  "ProcessKillPod env k =
     (let pod_key = FuncPodKey (wk_tenant k) (wk_namespace k) (wk_funcname k) (wk_fprevision k) (wk_id k) in
      abind (aget (\<lambda>s. bt_get pod_key (pods s))) (\<lambda>x.
      case x of
        None \<Rightarrow> ret (''pod not found: '' @ pod_key, KillNotFound)
      | Some w \<Rightarrow>
          abind (h_State w) (\<lambda>st.
          case st of
            WIdle \<Rightarrow>
              aseq (idle_pop env pod_key)
             (abind (atry (StopWorker (wp_pod w))) (\<lambda>r.
              case r of
                Ok _ \<Rightarrow> aseq (mark_terminating env w) (ret ('''', KillOk))
              | _ \<Rightarrow> aseq (idle_put env pod_key) (ret (''CommonError'', KillInternal))))
          | WTerminating \<Rightarrow> ret (''pod is already terminating'', KillInvalidState)
          | WInit \<Rightarrow> ret (''pod '' @ pod_key @ '' is not in a killable state: '', KillInvalidState)
          | WResuming \<Rightarrow> ret (''pod '' @ pod_key @ '' is not in a killable state: '', KillInvalidState)
          | _ \<Rightarrow>
              abind (atry (StopWorker (wp_pod w))) (\<lambda>r.
              case r of
                Ok _ \<Rightarrow> aseq (mark_terminating env w) (ret ('''', KillOk))
              | _ \<Rightarrow> ret (''CommonError'', KillInternal)))))"

end
