(* ===== verification/Sched_Events.thy ===== *)
theory Sched_Events
  imports Sched_Gateway
begin

text \<open>
  What the informers tell the scheduler: pods, functions, nodes, snapshots, policies and tenants added,
  modified and deleted, and the end of the initial lists; and \<open>ProcessOnce\<close>, one round of the scheduler's
  loop, as a function of what it received. The state dump is JSON output and left out.
\<close>

section \<open>Pods\<close>


fun is_snapshot_pod_finished :: "PodState \<Rightarrow> bool" where
  "is_snapshot_pod_finished PsSnapshoted = True"
| "is_snapshot_pod_finished PsTerminating = True"
| "is_snapshot_pod_finished PsTerminated = True"
| "is_snapshot_pod_finished PsCleanup = True"
| "is_snapshot_pod_finished PsDeleted = True"
| "is_snapshot_pod_finished _ = False"

text \<open>A pod of a node, or of a function, that is not known yet waits in \<open>nodePods\<close>, or \<open>funcPods\<close>.\<close>

definition hold_node_pod :: "string \<Rightarrow> WorkerPod \<Rightarrow> ('l, unit) handler" where
  "hold_node_pod nodename w = amod (\<lambda>s. s\<lparr>nodePods := nested_insert nodename (PodKey (wp_pod w)) w (nodePods s)\<rparr>)"

definition hold_func_pod :: "string \<Rightarrow> WorkerPod \<Rightarrow> ('l, unit) handler" where
  "hold_func_pod fpKey w = amod (\<lambda>s. s\<lparr>funcPods := nested_insert fpKey (PodKey (wp_pod w)) w (funcPods s)\<rparr>)"

definition Sched_AddPod :: "'l Env \<Rightarrow> FuncPod \<Rightarrow> ('l, unit) handler" where
  "Sched_AddPod env pod =
     (let podKey = PodKey pod; nodename = ps_nodename (podSpec pod); fpKey = FuncKey pod in
      abind (h_WorkerPod_New pod) (\<lambda>w.
      abind (aget (\<lambda>s. bt_contains podKey (pods s))) (\<lambda>known.
      aseq (aassert (\<not> known))
     (aseq (amod (\<lambda>s. s\<lparr>pods := bt_insert podKey w (pods s)\<rparr>))
     (aseq (awhen (ps_create_type (podSpec pod) = CreateSnapshot \<and> podState pod \<noteq> PsFailed)
             (aseq (AddPendingSnapshot fpKey nodename)
               (awhen (\<not> is_snapshot_pod_finished (podState pod)) (start_snapshot_pod_billing env pod))))
     (abind (h_State w) (\<lambda>st.
      aseq (awhen (IsIdle st \<and> podState pod = PsReady) (aseq (h_SetIdle w) (idle_put env podKey)))
     (abind (aget (\<lambda>s. bt_contains nodename (nodes s))) (\<lambda>has_node.
      aseq (if has_node then upd_node nodename (\<lambda>ns. Node_AddPod ns w) else hold_node_pod nodename w)
     (abind (aget (\<lambda>s. bt_contains fpKey (funcs s))) (\<lambda>has_func.
      if has_func then upd_func fpKey (\<lambda>fs. fs\<lparr>fs_pendingPods := bt_remove podKey (fs_pendingPods fs),
                                              fs_pods := bt_insert podKey w (fs_pods fs)\<rparr>)
      else hold_func_pod fpKey w)))))))))))"

text \<open>A lease survives the update of its pod.\<close>

definition keep_lease :: "WorkerPod \<Rightarrow> WorkerPod \<Rightarrow> ('l, unit) handler" where
  "keep_lease old w =
     abind (aget (\<lambda>s. (State (heap (rt s)) old, ConsumerTenant (heap (rt s)) old))) (\<lambda>(st, t).
     case st of
       WWorking _ \<Rightarrow> aseq (h_SetState st w) (h_SetConsumer t w)
     | _ \<Rightarrow> ret ())"

definition node_update :: "WorkerPod \<Rightarrow> WorkerPod \<Rightarrow> NodeStatus \<Rightarrow> (NodeStatus, error) res" where
  "node_update w old ns =
     and_then (Node_UpdatePod ns w old) (\<lambda>ns'.
     if podState (wp_pod old) = PsStandby \<and> podState (wp_pod w) = PsResuming
     then and_then (NodeResources_Add (ns_available ns') (alloc_of old)) (\<lambda>av. Ok (ns'\<lparr>ns_available := av\<rparr>))
     else Ok ns')"

definition func_update :: "'l Env \<Rightarrow> string \<Rightarrow> FuncStatus \<Rightarrow> WorkerPod \<Rightarrow> ('l, bool) handler" where
  "func_update env funcKey fs w =
     abind (aget (\<lambda>s. Func_UpdatePod (alive env) (now env) (peer_mgr s) fs w (rt s))) (\<lambda>(fs', r, out).
     aseq (amod (\<lambda>s. s\<lparr>funcs := bt_insert funcKey fs' (funcs s), rt := r\<rparr>))
       (alift out))"

definition Sched_UpdatePod :: "'l Env \<Rightarrow> FuncPod \<Rightarrow> ('l, unit) handler" where
  "Sched_UpdatePod env pod =
     (let podKey = PodKey pod; nodeName = ps_nodename (podSpec pod); funcKey = FuncKey pod in
      abind (h_WorkerPod_New pod) (\<lambda>w.
      abind (aget (\<lambda>s. bt_get podKey (pods s))) (\<lambda>x.
      case x of
        None \<Rightarrow> apanic
      | Some old \<Rightarrow>
          aseq (amod (\<lambda>s. s\<lparr>pods := bt_insert podKey w (pods s)\<rparr>))
         (aseq (keep_lease old w)
         (abind (aget (\<lambda>s. bt_contains nodeName (nodes s))) (\<lambda>has_node.
          aseq (if has_node then upd_node nodeName (node_update w old) else hold_node_pod nodeName w)
         (abind (aget (\<lambda>s. bt_get funcKey (funcs s))) (\<lambda>f.
          case f of
            None \<Rightarrow> hold_func_pod funcKey w
          | Some fs \<Rightarrow>
              abind (func_update env funcKey fs w) (\<lambda>idle.
              awhen idle (idle_put env podKey))))))))))"

text \<open>
  Recording a failed snapshot with the state service: at most three attempts, each on the newest status
  after a conflict.
\<close>

definition count_failure :: "FunctionStatus \<Rightarrow> (FunctionStatus, error) res" where
  "count_failure st =
     and_then (u64_add (fsd_snapshotingFailureCnt (object st)) 1) (\<lambda>n.
     Ok (st\<lparr>object := (object st)\<lparr>fsd_snapshotingFailureCnt := n,
        fsd_state := (if 3 \<le> n then FuncFail else fsd_state (object st))\<rparr>\<rparr>))"

function failure_loop :: "'l Env \<Rightarrow> nat \<Rightarrow> FunctionStatus \<Rightarrow> ('l, unit) handler" where
  "failure_loop env attempts status =
     (if store_update env attempts status then h_emit (StatusWritten status)
      else if attempts < 3 then
        (case store_get env attempts of
           None \<Rightarrow> apanic
         | Some latest \<Rightarrow>
             (case count_failure latest of
                Ok st \<Rightarrow> failure_loop env (attempts + 1) st
              | _ \<Rightarrow> apanic))
      else apanic)"
  by pat_completeness auto
termination by (relation "measure (\<lambda>(_, n, _). 3 - n)") auto

declare failure_loop.simps [simp del]

definition record_snapshot_failure :: "'l Env \<Rightarrow> string \<Rightarrow> string \<Rightarrow> ('l, unit) handler" where
  "record_snapshot_failure env nodeName funcKey =
     abind (aget (\<lambda>s. bt_get funcKey (funcstatus s))) (\<lambda>x. asome x (\<lambda>st0.
     abind (alift (count_failure st0)) (\<lambda>st.
     aseq (AddSnapshotTask env nodeName funcKey)
    (aseq (aassert (store_client env)) (failure_loop env 1 st)))))"

definition Sched_RemovePod :: "'l Env \<Rightarrow> FuncPod \<Rightarrow> ('l, unit) handler" where
  "Sched_RemovePod env pod =
     (let podKey = PodKey pod; nodeName = ps_nodename (podSpec pod); funcKey = FuncKey pod;
          ty = ps_create_type (podSpec pod); state = podState pod in
      aseq (amod (\<lambda>s. s\<lparr>terminating_pods := bt_remove podKey (terminating_pods s)\<rparr>))
     (aseq (awhen (ty = CreateSnapshot) (end_snapshot_pod_billing env podKey))
     (abind (aget (\<lambda>s. bt_get podKey (pods s))) (\<lambda>x.
      case x of
        None \<Rightarrow> apanic
      | Some w \<Rightarrow>
          aseq (amod (\<lambda>s. s\<lparr>pods := bt_remove podKey (pods s)\<rparr>))
         (abind (h_State w) (\<lambda>st.
          aseq (case st of WWorking _ \<Rightarrow> on_rt (gauge_dec w) | _ \<Rightarrow> ret ())
         (abind (aget (\<lambda>s. bt_contains funcKey (funcs s))) (\<lambda>has_func.
          aseq (awhen (state = PsFailed \<and> has_func \<and> ty = CreateSnapshot) (record_snapshot_failure env nodeName funcKey))
         (aseq (awhen (ty = CreateSnapshot \<and> \<not> is_snapshot_pod_finished state)
                 (abind (aget (\<lambda>s. nested_get (snapshots s) funcKey nodeName)) (\<lambda>sn.
                  aseq (awhen (sn = None) (AddSnapshotTask env nodeName funcKey))
                    (RemovePendingSnapshot funcKey nodeName))))
         (aseq (aseq (idle_pop env podKey) (ret ()))
         (aseq (upd_node nodeName (\<lambda>ns. Node_RemovePod ns podKey (allocResources (podSpec pod))))
           (upd_func funcKey (\<lambda>fs. Func_RemovePod fs podKey)))))))))))))"

section \<open>Functions\<close>

definition Sched_AddFunc :: "Function \<Rightarrow> ('l, unit) handler" where
  "Sched_AddFunc spec =
     (let fpId = Function_Id spec in
      abind (aget (\<lambda>s. bt_contains fpId (funcs s))) (\<lambda>known.
      if known then athrow (Exist (''FuncMgr::add '' @ fpId))
      else
        abind (aget (\<lambda>s. case bt_get fpId (funcPods s) of None \<Rightarrow> [] | Some m \<Rightarrow> m)) (\<lambda>ps.
        aseq (amod (\<lambda>s. s\<lparr>funcPods := bt_remove fpId (funcPods s)\<rparr>))
       (abind (alift (FuncStatus_New spec ps)) (\<lambda>fs.
        amod (\<lambda>s. s\<lparr>funcs := bt_insert fpId fs (funcs s)\<rparr>))))))"

definition Sched_RemoveFunc :: "'l Env \<Rightarrow> Function \<Rightarrow> ('l, unit) handler" where
  "Sched_RemoveFunc env spec =
     (let key = Function_Id spec in
      abind (aget (\<lambda>s. bt_contains key (funcs s))) (\<lambda>known.
      if \<not> known then athrow (NotExist (''FuncMgr::Remove '' @ key @ ''/''))
      else
        aseq (amod (\<lambda>s. s\<lparr>funcs := bt_remove key (funcs s), funcPods := bt_remove key (funcPods s),
               funcstatus := bt_remove key (funcstatus s), pendingsnapshots := bt_remove key (pendingsnapshots s)\<rparr>))
          (end_standby_billing env key)))"

section \<open>Nodes\<close>

definition Sched_AddNode :: "'l Env \<Rightarrow> Node \<Rightarrow> ('l, unit) handler" where
  "Sched_AddNode env node =
     (let nodeName = do_name node in
      abind (aget (\<lambda>s. bt_contains nodeName (nodes s))) (\<lambda>known.
      if known then athrow (Exist (''NodeMgr::add '' @ nodeName))
      else
        aseq (h_emit (TotalGPUSet nodeName (int (length (Gpus (nr_gpus (nd_resources (object node))))))))
       (abind (aget (\<lambda>s. case bt_get nodeName (nodePods s) of None \<Rightarrow> [] | Some m \<Rightarrow> m)) (\<lambda>ps.
        aseq (amod (\<lambda>s. s\<lparr>nodePods := bt_remove nodeName (nodePods s)\<rparr>))
       (abind (alift (NodeStatus_New (now env) node (nd_resources (object node)) ps)) (\<lambda>ns.
        aseq (amod (\<lambda>s. s\<lparr>nodes := bt_insert nodeName ns (nodes s)\<rparr>))
          (TaskQueue_AddNode nodeName)))))))"

definition Sched_UpdateNode :: "Node \<Rightarrow> ('l, unit) handler" where
  "Sched_UpdateNode node =
     (let nodeName = do_name node in
      abind (aget (\<lambda>s. bt_contains nodeName (nodes s))) (\<lambda>known.
      if \<not> known then athrow (NotExist (''NodeMgr::UpdateNode '' @ nodeName))
      else upd_node nodeName (\<lambda>ns. Ok (ns\<lparr>ns_state := nd_state (object node), ns_node := node\<rparr>))))"

fun stable :: "PodState \<Rightarrow> bool" where
  "stable PsStandby = True"
| "stable PsReady = True"
| "stable _ = False"

definition drop_keys :: "string list \<Rightarrow> (string, 'v) btmap \<Rightarrow> (string, 'v) btmap" where
  "drop_keys ks m = fold bt_remove ks m"

definition sync_worker :: "'l Env \<Rightarrow> WorkerPod \<Rightarrow> ('l, unit) handler" where
  "sync_worker env w =
     abind (h_State w) (\<lambda>st.
     case podState (wp_pod w) of
       PsReady \<Rightarrow> (case st of WWorking _ \<Rightarrow> ret () | _ \<Rightarrow> aseq (h_SetState WIdle w) (idle_put env (PodKey (wp_pod w))))
     | PsStandby \<Rightarrow> awhen (st \<noteq> WStandby) (h_SetState WStandby w)
     | _ \<Rightarrow> apanic)"

definition ReconcileNodeAfterNodeAgentRestart :: "'l Env \<Rightarrow> string \<Rightarrow> Node \<Rightarrow> ('l, unit) handler" where
  "ReconcileNodeAfterNodeAgentRestart env nodename new_node_info =
     abind (aget (\<lambda>s. bt_get nodename (nodes s))) (\<lambda>x. asome x (\<lambda>ns0.
     let gone = bt_keys (filter (\<lambda>(k, w). \<not> stable (podState (wp_pod w))) (ns_pods ns0));
         ns1 = ns0\<lparr>ns_pods := drop_keys gone (ns_pods ns0), ns_pendingPods := [], ns_stoppingPods := []\<rparr>;
         tot = NodeResources_Copy (nd_resources (object new_node_info))
     in
     aseq (amod (\<lambda>s. s\<lparr>
         nodes := bt_insert nodename ns1 (nodes s),
         funcs := map (\<lambda>(k, fs). (k, fs\<lparr>fs_pendingPods := drop_keys gone (fs_pendingPods fs),
                    fs_stoppingPods := drop_keys gone (fs_stoppingPods fs), fs_pods := drop_keys gone (fs_pods fs)\<rparr>)) (funcs s),
         pods := drop_keys gone (pods s),
         nodePods := map (\<lambda>(k, m). (k, if k = nodename then drop_keys gone m else m)) (nodePods s),
         funcPods := map (\<lambda>(k, m). (k, drop_keys gone m)) (funcPods s)\<rparr>))
    (abind (alift (rfold (\<lambda>(_, w) av. NodeResources_Sub av (alloc_of w)) (ns_pods ns1) (NodeResources_Copy tot))) (\<lambda>available.
     aseq (amod (\<lambda>s. s\<lparr>nodes := bt_insert nodename (ns1\<lparr>ns_total := tot, ns_available := available\<rparr>) (nodes s)\<rparr>))
    (aseq (aiter (sync_worker env) (bt_values (ns_pods ns1)))
      (RemovePendingSnapshots_of_node nodename))))))"

definition CleanFuncStatusForNode :: "string \<Rightarrow> ('l, unit) handler" where
  "CleanFuncStatusForNode nodename =
     abind (aget (\<lambda>s. bt_get nodename (nodes s))) (\<lambda>x. asome x (\<lambda>ns.
     aseq (aiter (\<lambda>(pod_key, p). upd_func (pp_funcId p) (\<lambda>fs. fs\<lparr>fs_pendingPods := bt_remove pod_key (fs_pendingPods fs)\<rparr>))
            (ns_pendingPods ns))
       (aiter (\<lambda>pod_key. asome (bt_get pod_key (ns_pods ns)) (\<lambda>w.
            upd_func (FuncKey (wp_pod w)) (\<lambda>fs. fs\<lparr>fs_stoppingPods := bt_remove pod_key (fs_stoppingPods fs)\<rparr>)))
          (bt_keys (ns_stoppingPods ns)))))"

definition Sched_RemoveNode :: "Node \<Rightarrow> ('l, unit) handler" where
  "Sched_RemoveNode node =
     (let key = do_name node in
      aseq (h_emit (TotalGPURemove key))
     (abind (aget (\<lambda>s. bt_contains key (nodes s))) (\<lambda>known.
      if \<not> known then athrow (NotExist (''NodeMgr::Remove '' @ key))
      else
        aseq (CleanFuncStatusForNode key)
       (aseq (RemovePendingSnapshots_of_node key)
         (amod (\<lambda>s. s\<lparr>nodes := bt_remove key (nodes s)\<rparr>))))))"

definition ends_with :: "string \<Rightarrow> string \<Rightarrow> bool" where
  "ends_with sfx s \<longleftrightarrow> length sfx \<le> length s \<and> drop (length s - length sfx) s = sfx"

definition CleanNode :: "'l Env \<Rightarrow> string \<Rightarrow> ('l, unit) handler" where
  "CleanNode env nodename =
     abind (aget (\<lambda>s. case bt_get nodename (nodePods s) of None \<Rightarrow> [] | Some m \<Rightarrow> bt_values m)) (\<lambda>held.
     aseq (amod (\<lambda>s. s\<lparr>nodePods := bt_remove nodename (nodePods s)\<rparr>))
    (aseq (aiter (\<lambda>w. aok (Sched_RemovePod env (wp_pod w))) held)
    (aseq (CleanFuncStatusForNode nodename)
    (abind (aget (\<lambda>s. case bt_get nodename (nodes s) of None \<Rightarrow> [] | Some ns \<Rightarrow> bt_values (ns_pods ns))) (\<lambda>ps.
     aseq (aiter (\<lambda>w. aok (Sched_RemovePod env (wp_pod w))) ps)
    (aseq (amod (\<lambda>s. s\<lparr>snapshots := fold (\<lambda>k m. nested_remove k nodename m) (bt_keys (snapshots s)) (snapshots s)\<rparr>))
    (aseq (RemovePendingSnapshots_of_node nodename)
    (aseq (amod (\<lambda>s. s\<lparr>node_semaphores := bt_remove nodename (node_semaphores s),
              pending_snapshot_removals := filter (\<lambda>(k, _). \<not> ends_with ('':'' @ nodename) k) (pending_snapshot_removals s),
              SnapshotSched := RemoveById2 (SnapshotSched s) nodename\<rparr>))
      (abind (aget (\<lambda>s. bt_get nodename (nodes s))) (\<lambda>x. asome x (\<lambda>ns. aok (Sched_RemoveNode (ns_node ns)))))))))))))"

definition CheckNodeEpoch :: "'l Env \<Rightarrow> string \<Rightarrow> int \<Rightarrow> ('l, unit) handler" where
  "CheckNodeEpoch env nodename epoch =
     abind (aget (\<lambda>s. bt_get nodename (nodeEpoch s))) (\<lambda>x.
     let set_epoch = amod (\<lambda>s. s\<lparr>nodeEpoch := bt_insert nodename epoch (nodeEpoch s)\<rparr>) in
     case x of
       None \<Rightarrow> set_epoch
     | Some old \<Rightarrow> if old = epoch then ret () else aseq (CleanNode env nodename) set_epoch)"

datatype ListType = ListNode | ListFuncPod | ListFunc | ListFuncStatus | ListSnapshot | ListFuncpolicy

fun mark_list :: "ListType \<Rightarrow> 'l SchedulerHandler \<Rightarrow> 'l SchedulerHandler" where
  "mark_list ListFunc s = s\<lparr>funcListDone := True\<rparr>"
| "mark_list ListFuncStatus s = s\<lparr>funcstatusListDone := True\<rparr>"
| "mark_list ListFuncPod s = s\<lparr>funcPodListDone := True\<rparr>"
| "mark_list ListNode s = s\<lparr>nodeListDone := True\<rparr>"
| "mark_list ListSnapshot s = s\<lparr>snapshotListDone := True\<rparr>"
| "mark_list ListFuncpolicy s = s\<lparr>funcpolicyDone := True\<rparr>"

definition all_lists_done :: "'l SchedulerHandler \<Rightarrow> bool" where
  "all_lists_done s \<longleftrightarrow> nodeListDone s \<and> funcListDone s \<and> funcstatusListDone s \<and> funcPodListDone s \<and>
     snapshotListDone s \<and> funcpolicyDone s"

definition ListDone :: "'l Env \<Rightarrow> ListType \<Rightarrow> ('l, bool) handler" where
  "ListDone env ty =
     aseq (amod (mark_list ty))
    (abind (aget all_lists_done) (\<lambda>all.
     if all then
       aseq (amod (\<lambda>s. s\<lparr>listDone := True\<rparr>))
      (aseq (recover_standby_billing env)
      (aseq (amod (\<lambda>s. s\<lparr>warmupStartTime := Some (now env), warmupComplete := False\<rparr>))
        (ret True)))
     else ret False))"

section \<open>Events\<close>

text \<open>An object of an event, already decoded; \<open>BadObj\<close> is one of a known type that does not decode.\<close>

datatype SchedObj =
    FunctionObj Function
  | FuncStatusObj FunctionStatus
  | NodeObj Node
  | PodObj FuncPod
  | SnapshotObj FuncSnapshot
  | PolicyObj "FuncPolicySpec DataObject"
  | TenantObj Tenant
  | BadObj
  | OtherObj

datatype SchedEvent =
    EvAdded SchedObj
  | EvModified SchedObj "SchedObj option"
  | EvDeleted SchedObj "SchedObj option"
  | EvInitDone string
  | EvError

definition bad_obj :: "('l, unit) handler" where
  "bad_obj = athrow (SerdeJsonError '''')"

definition the_ip :: "'l Env \<Rightarrow> string \<Rightarrow> ('l, 32 word) handler" where
  "the_ip env s = alift (opt_or_panic (ipv4_network env s))"

definition node_added :: "'l Env \<Rightarrow> Node \<Rightarrow> ('l, unit) handler" where
  "node_added env node =
     aseq (CheckNodeEpoch env (do_name node) (nd_nodeEpoch (object node)))
    (abind (the_ip env (nd_nodeIp (object node))) (\<lambda>peerIp.
     abind (the_ip env (nd_cidr (object node))) (\<lambda>cidr.
     abind (aget (\<lambda>s. AddPeer (peer_mgr s) peerIp (nd_tsotSvcPort (object node)) cidr)) (\<lambda>r.
     case r of
       Ok pm \<Rightarrow> aseq (amod (\<lambda>s. s\<lparr>peer_mgr := pm\<rparr>)) (Sched_AddNode env node)
     | _ \<Rightarrow> apanic))))"

fun ev_added :: "'l Env \<Rightarrow> SchedObj \<Rightarrow> ('l, unit) handler" where
  "ev_added env (FunctionObj func) =
     aseq (Sched_AddFunc func)
    (abind (aget (\<lambda>s. listDone s \<and> warmupComplete s)) (\<lambda>go.
     awhen go (aseq (ProcessAddFunc env (Function_Id func)) (TaskQueue_AddFunc (Function_Id func)))))"
| "ev_added env (FuncStatusObj st) = amod (\<lambda>s. s\<lparr>funcstatus := bt_insert (FunctionStatus_Id st) st (funcstatus s)\<rparr>)"
| "ev_added env (NodeObj node) = node_added env node"
| "ev_added env (PodObj pod) =
     aseq (CheckNodeEpoch env (ps_nodename (podSpec pod)) (srcEpoch pod)) (Sched_AddPod env pod)"
| "ev_added env (SnapshotObj sn) =
     aseq (CheckNodeEpoch env (cs_nodename (object sn)) (srcEpoch sn)) (AddSnapshot env sn)"
| "ev_added env (PolicyObj p) = amod (\<lambda>s. s\<lparr>funcpolicy := bt_insert (DataObject_Key p) (object p) (funcpolicy s)\<rparr>)"
| "ev_added env (TenantObj t) = amod (\<lambda>s. s\<lparr>tenants := bt_insert (do_name t) t (tenants s)\<rparr>)"
| "ev_added env BadObj = bad_obj"
| "ev_added env OtherObj = ret ()"

definition function_modified :: "'l Env \<Rightarrow> Function \<Rightarrow> Function \<Rightarrow> ('l, unit) handler" where
  "function_modified env func old =
     aseq (ProcessRemoveFunc env old)
    (aseq (Sched_RemoveFunc env old)
    (aseq (Sched_AddFunc func)
    (abind (aget listDone) (\<lambda>go.
     awhen go (aseq (ProcessAddFunc env (Function_Id func)) (TaskQueue_AddFunc (Function_Id func)))))))"

definition node_modified :: "'l Env \<Rightarrow> Node \<Rightarrow> ('l, unit) handler" where
  "node_modified env node =
     abind (aget (\<lambda>s. map_option ns_state (bt_get (do_name node) (nodes s)))) (\<lambda>old_state.
     aseq (Sched_UpdateNode node)
       (awhen (old_state = Some NodeAgentConnected \<and> nd_state (object node) = NodeAgentReady)
         (ReconcileNodeAfterNodeAgentRestart env (do_name node) node)))"

fun ev_modified :: "'l Env \<Rightarrow> SchedObj \<Rightarrow> SchedObj option \<Rightarrow> ('l, unit) handler" where
  "ev_modified env (FunctionObj func) old =
     (case old of
        None \<Rightarrow> apanic
      | Some (FunctionObj f) \<Rightarrow> function_modified env func f
      | Some _ \<Rightarrow> bad_obj)"
| "ev_modified env (FuncStatusObj st) old = amod (\<lambda>s. s\<lparr>funcstatus := bt_insert (FunctionStatus_Id st) st (funcstatus s)\<rparr>)"
| "ev_modified env (NodeObj node) old = node_modified env node"
| "ev_modified env (PodObj pod) old = Sched_UpdatePod env pod"
| "ev_modified env (SnapshotObj sn) old = UpdateSnapshot env sn"
| "ev_modified env (PolicyObj p) old = amod (\<lambda>s. s\<lparr>funcpolicy := bt_insert (DataObject_Key p) (object p) (funcpolicy s)\<rparr>)"
| "ev_modified env (TenantObj t) old = amod (\<lambda>s. s\<lparr>tenants := bt_insert (do_name t) t (tenants s)\<rparr>)"
| "ev_modified env BadObj old = bad_obj"
| "ev_modified env OtherObj old = ret ()"

definition node_deleted :: "'l Env \<Rightarrow> Node \<Rightarrow> ('l, unit) handler" where
  "node_deleted env node =
     abind (the_ip env (nd_cidr (object node))) (\<lambda>cidr.
     abind (aget (\<lambda>s. RemovePeer (peer_mgr s) cidr)) (\<lambda>r.
     case r of
       Ok pm \<Rightarrow> aseq (amod (\<lambda>s. s\<lparr>peer_mgr := pm\<rparr>)) (Sched_RemoveNode node)
     | _ \<Rightarrow> apanic))"

fun ev_deleted :: "'l Env \<Rightarrow> SchedObj \<Rightarrow> SchedObj option \<Rightarrow> ('l, unit) handler" where
  "ev_deleted env (FunctionObj func) old =
     (case old of
        None \<Rightarrow> apanic
      | Some (FunctionObj f) \<Rightarrow> aseq (ProcessRemoveFunc env f) (Sched_RemoveFunc env f)
      | Some _ \<Rightarrow> bad_obj)"
| "ev_deleted env (FuncStatusObj st) old = amod (\<lambda>s. s\<lparr>funcstatus := bt_remove (FunctionStatus_Id st) (funcstatus s)\<rparr>)"
| "ev_deleted env (NodeObj node) old = node_deleted env node"
| "ev_deleted env (PodObj pod) old = Sched_RemovePod env pod"
| "ev_deleted env (SnapshotObj sn) old = RemoveSnapshot sn"
| "ev_deleted env (PolicyObj p) old = amod (\<lambda>s. s\<lparr>funcpolicy := bt_remove (DataObject_Key p) (funcpolicy s)\<rparr>)"
| "ev_deleted env (TenantObj t) old = amod (\<lambda>s. s\<lparr>tenants := bt_remove (do_name t) (tenants s)\<rparr>)"
| "ev_deleted env BadObj old = bad_obj"
| "ev_deleted env OtherObj old = ret ()"

definition list_type_of :: "string \<Rightarrow> ListType option" where
  "list_type_of ty =
     (if ty = ''function'' then Some ListFunc
      else if ty = ''funcstatus'' then Some ListFuncStatus
      else if ty = ''node_info'' then Some ListNode
      else if ty = ''pod'' then Some ListFuncPod
      else if ty = ''snapshot'' then Some ListSnapshot
      else if ty = ''funcpolicy'' then Some ListFuncpolicy
      else None)"

fun ProcessEvent :: "'l Env \<Rightarrow> SchedEvent \<Rightarrow> ('l, unit) handler" where
  "ProcessEvent env (EvAdded x) = ev_added env x"
| "ProcessEvent env (EvModified x old) = ev_modified env x old"
| "ProcessEvent env (EvDeleted x old) = ev_deleted env x old"
| "ProcessEvent env (EvInitDone ty) =
     asome (list_type_of ty) (\<lambda>lt. aseq (ListDone env lt) (ret ()))"
| "ProcessEvent env EvError = athrow (CommonError ''PodHandler::ProcessDeltaEvent '')"

section \<open>One round of the loop\<close>

datatype WorkerHandlerMsg =
    ConnectScheduler int "WorkerKey list" nat
  | LeaseWorker LeaseWorkerReq nat
  | ReturnWorker WorkerKey bool nat
  | KillPod WorkerKey nat
  | RefreshGateway int
  | CleanupDuplicateSnapshot string string string NodeResources "string list"
  | ResumeWorkerComplete string string "(unit, error) res" NodeResources "string list"
  | StartWorkerComplete string string string CreatePodType "(unit, error) res" NodeResources "string list"
  | RemoveSnapshotComplete string string "(unit, error) res"
  | StopWorkerComplete string "(unit, error) res"
  | OtherMsg

fun ProcessMsg :: "'l Env \<Rightarrow> WorkerHandlerMsg \<Rightarrow> ('l, unit) handler" where
  "ProcessMsg env (ConnectScheduler g ws tx) =
     abind (ProcessConnectReq env g ws tx) (\<lambda>b. awhen b (CompleteWarmupAfterConnect env))"
| "ProcessMsg env (LeaseWorker req tx) = ProcessLeaseWorkerReq env req tx"
| "ProcessMsg env (ReturnWorker k f tx) = aok (ProcessReturnWorkerReq env k f tx)"
| "ProcessMsg env (KillPod k tx) = abind (ProcessKillPod env k) (\<lambda>(e, st). send_ok env tx (KillResp e st))"
| "ProcessMsg env (RefreshGateway g) = ProcessRefreshGateway env g"
| "ProcessMsg env (CleanupDuplicateSnapshot f n p r ks) = aok (ProcessCleanupDuplicateSnapshot env f n p r ks)"
| "ProcessMsg env (ResumeWorkerComplete p n out r ks) =
     abind (atry (ProcessResumeWorkerComplete env p n out r ks)) (\<lambda>x. case x of Ok _ \<Rightarrow> ret () | _ \<Rightarrow> apanic)"
| "ProcessMsg env (StartWorkerComplete f n p ty out r ks) = aok (ProcessStartWorkerComplete env f n p ty out r ks)"
| "ProcessMsg env (RemoveSnapshotComplete f n out) = ProcessRemoveSnapshotComplete f n out"
| "ProcessMsg env (StopWorkerComplete p out) = ProcessStopWorkerComplete p out"
| "ProcessMsg env OtherMsg = ret ()"

datatype SchedInput =
    InMsg WorkerHandlerMsg
  | InDelayTick
  | InBillingTick
  | InStandbyTick
  | InInterval
  | InEvent SchedEvent
  | InTask
  | InClosed

text \<open>The periodic work after warm-up.\<close>

definition ProcessInterval :: "'l Env \<Rightarrow> ('l, unit) handler" where
  "ProcessInterval env =
     abind (aget listDone) (\<lambda>go. awhen go
       (aseq (CheckAndCompleteWarmup env)
       (abind (aget warmupComplete) (\<lambda>warm. awhen warm
         (aseq (RefreshScheduling env)
         (aseq (CleanPods env)
         (aseq CleanSnapshots
         (aseq (ProcessGatewayTimeout env)
         (aseq (ReconcileAllStuckLeaseRequests env 30000) (ret ()))))))))))"

fun ProcessOnce :: "'l Env \<Rightarrow> SchedInput \<Rightarrow> ('l, unit) handler" where
  "ProcessOnce env (InMsg m) = ProcessMsg env m"
| "ProcessOnce env InDelayTick = drain_due_delayed_tasks env"
| "ProcessOnce env InBillingTick = emit_periodic_billing_ticks env"
| "ProcessOnce env InStandbyTick = emit_periodic_standby_ticks env"
| "ProcessOnce env InInterval = ProcessInterval env"
| "ProcessOnce env (InEvent e) = ProcessEvent env e"
| "ProcessOnce env InTask = abind TaskQueue_Next (\<lambda>t. asome t (ProcessTask env))"
| "ProcessOnce env InClosed = athrow ProcessDone"

text \<open>\<open>Process\<close>: rounds until the end is asked for; other errors are dropped. A panic ends it too.\<close>

fun sched_run :: "('l Env \<times> SchedInput) list \<Rightarrow> ('l, unit) handler" where
  "sched_run [] = ret ()"
| "sched_run ((env, i) # is) =
     abind (atry (ProcessOnce env i)) (\<lambda>r. if r = Err ProcessDone then ret () else sched_run is)"

end
