(* ===== verification/Sched_Frame.thy ===== *)
theory Sched_Frame
  imports Sched_Events
begin

text \<open>
  Most handlers of the scheduler change counters, queues, leases and billing and leave the rest alone.
  The locale \<open>sched_view\<close> is the contract of an observation of the state that such changes do not affect;
  in it, every handler that makes only such changes is shown to keep the observation. An interpretation
  for a particular observation then leaves the few handlers that do affect it.
\<close>

section \<open>More rules\<close>

lemma keeps_state [keeps_intros]:
  "(\<And>g. st = WWorking g \<Longrightarrow> keeps I (m g)) \<Longrightarrow> keeps I n \<Longrightarrow> keeps I (case st of WWorking g \<Rightarrow> m g | _ \<Rightarrow> n)"
  by (cases st) auto

lemma keeps_list [keeps_intros]:
  "(xs = [] \<Longrightarrow> keeps I m) \<Longrightarrow> (\<And>y ys. xs = y # ys \<Longrightarrow> keeps I (f y ys)) \<Longrightarrow> keeps I (case xs of [] \<Rightarrow> m | y # ys \<Rightarrow> f y ys)"
  by (cases xs) auto

lemma keeps_sum [keeps_intros]:
  "(\<And>a. x = Inl a \<Longrightarrow> keeps I (f a)) \<Longrightarrow> (\<And>b. x = Inr b \<Longrightarrow> keeps I (g b)) \<Longrightarrow> keeps I (case x of Inl a \<Rightarrow> f a | Inr b \<Rightarrow> g b)"
  by (cases x) auto

lemma keeps_no_resource [keeps_intros]:
  "(\<And>m. keeps I (f m)) \<Longrightarrow> keeps I (case e of SchedulerNoEnoughResource m \<Rightarrow> f m | e' \<Rightarrow> athrow e')"
  by (cases e) (simp_all add: keeps_athrow)

lemma keeps_Let [keeps_intros]: "keeps I (f v) \<Longrightarrow> keeps I (Let v f)"
  by simp

text \<open>A change of a node's or function's status that keeps its name and pods.\<close>

definition node_quiet :: "(NodeStatus \<Rightarrow> (NodeStatus, error) res) \<Rightarrow> bool" where
  "node_quiet f \<longleftrightarrow> (\<forall>ns ns'. f ns = Ok ns' \<longrightarrow> ns_node ns' = ns_node ns \<and> ns_pods ns' = ns_pods ns)"

definition func_quiet :: "(FuncStatus \<Rightarrow> FuncStatus) \<Rightarrow> bool" where
  "func_quiet f \<longleftrightarrow> (\<forall>fs. fs_func (f fs) = fs_func fs \<and> fs_pods (f fs) = fs_pods fs)"

lemma gauge_dec_heap [simp]: "heap (gauge_dec w r) = heap r"
  by (simp add: gauge_dec_def emit_def split: prod.split)

lemma gauge_inc_heap: "gauge_inc w r = Ok r' \<Longrightarrow> heap r' = heap r"
  by (auto simp: gauge_inc_def emit_def res_simps)

lemma SetWorking_next: "SetWorking g w h = Ok h' \<Longrightarrow> next_ref h' = next_ref h"
  by (auto simp: SetWorking_Ok)

lemma node_quiet_intros:
  "node_quiet (\<lambda>ns. Ok (fst (Node_RemoveStoppingPod ns k)))"
  "node_quiet (\<lambda>ns. FreeResource (ns\<lparr>ns_pendingPods := bt_remove k (ns_pendingPods ns)\<rparr>) r)"
  "node_quiet (\<lambda>ns. FreeResource ns r)"
  "node_quiet (\<lambda>ns. Node_AddPendingPod ns p)"
  "node_quiet (\<lambda>ns. and_then (NodeResources_Add (ns_available ns) r) (\<lambda>av.
      Ok (ns\<lparr>ns_available := av, ns_pendingPods := bt_remove k (ns_pendingPods ns)\<rparr>)))"
  "node_quiet (\<lambda>ns. and_then (NodeResources_Sub (ns_available ns) r) (\<lambda>av. Ok (ns\<lparr>ns_available := av\<rparr>)))"
  "node_quiet (\<lambda>ns. and_then (AllocResource ns q b) (\<lambda>(ns', _). Ok ns'))"
  by (auto simp: node_quiet_def Node_RemoveStoppingPod_def FreeResource_def Node_AddPendingPod_def AllocResource_def res_simps
      split: prod.splits)

lemma fold_stopping:
  "ns_node (fold (\<lambda>w n. Node_AddStoppingPod n (PodKey (wp_pod w))) ws ns) = ns_node ns \<and>
   ns_pods (fold (\<lambda>w n. Node_AddStoppingPod n (PodKey (wp_pod w))) ws ns) = ns_pods ns"
  by (induction ws arbitrary: ns) (simp_all add: Node_AddStoppingPod_def)

lemma node_quiet_stopping: "node_quiet (\<lambda>ns. Ok (fold (\<lambda>w n. Node_AddStoppingPod n (PodKey (wp_pod w))) ws ns))"
  by (simp add: node_quiet_def fold_stopping)

lemma func_quiet_intros:
  "func_quiet (\<lambda>fs. fst (Func_RemoveStoppingPod fs k))" "func_quiet (\<lambda>fs. Func_AddStoppingPod fs k)"
  "func_quiet (\<lambda>fs. fs\<lparr>fs_pendingPods := bt_remove k (fs_pendingPods fs)\<rparr>)"
  "func_quiet (\<lambda>fs. fs\<lparr>fs_pendingPods := bt_insert k p (fs_pendingPods fs)\<rparr>)"
  "func_quiet (\<lambda>fs. fs\<lparr>fs_stoppingPods := bt_remove k (fs_stoppingPods fs)\<rparr>)"
  by (simp_all add: func_quiet_def Func_RemoveStoppingPod_def Func_AddStoppingPod_def)

lemmas quiet_intros = node_quiet_intros node_quiet_stopping func_quiet_intros

section \<open>Views\<close>

named_theorems view_frame \<open>actions that do not change a view\<close>

locale sched_view =
  fixes obs :: "'l SchedulerHandler \<Rightarrow> 'o"
  assumes obs_rt: "next_ref (heap r) = next_ref (heap (rt s)) \<Longrightarrow> obs (s\<lparr>rt := r\<rparr>) = obs s"
    and obs_idle: "obs (s\<lparr>idlePods := l\<rparr>) = obs s"
    and obs_queue: "obs (s\<lparr>taskQueue := q\<rparr>) = obs s"
    and obs_delayed: "obs (s\<lparr>delayed_tasks := ts\<rparr>) = obs s"
    and obs_term: "obs (s\<lparr>terminating_pods := tm\<rparr>) = obs s"
    and obs_pending: "obs (s\<lparr>pendingsnapshots := ps\<rparr>) = obs s"
    and obs_sched: "obs (s\<lparr>SnapshotSched := b\<rparr>) = obs s"
    and obs_snap: "obs (s\<lparr>snapshots := sn\<rparr>) = obs s"
    and obs_snapbill: "obs (s\<lparr>snapshot_billing_sessions := sb\<rparr>) = obs s"
    and obs_standby: "obs (s\<lparr>standby_billing_sessions := tb\<rparr>) = obs s"
    and obs_uuid: "obs (s\<lparr>uuid_cnt := c\<rparr>) = obs s"
    and obs_uid: "obs (s\<lparr>uid_cnt := c\<rparr>) = obs s"
    and obs_removals: "obs (s\<lparr>pending_snapshot_removals := rems\<rparr>) = obs s"
    and obs_gateways: "obs (s\<lparr>gateways := g\<rparr>) = obs s"
    and obs_sems: "obs (s\<lparr>node_semaphores := sm\<rparr>) = obs s"
    and obs_status: "obs (s\<lparr>funcstatus := st\<rparr>) = obs s"
    and obs_tenants: "obs (s\<lparr>tenants := tn\<rparr>) = obs s"
    and obs_policy: "obs (s\<lparr>funcpolicy := fp\<rparr>) = obs s"
    and obs_peers: "obs (s\<lparr>peer_mgr := pm\<rparr>) = obs s"
    and obs_epoch: "obs (s\<lparr>nodeEpoch := ep\<rparr>) = obs s"
    and obs_node: "bt_get n (nodes s) = Some ns \<Longrightarrow> ns_node ns' = ns_node ns \<Longrightarrow> ns_pods ns' = ns_pods ns \<Longrightarrow>
        obs (s\<lparr>nodes := bt_insert n ns' (nodes s)\<rparr>) = obs s"
    and obs_func: "bt_get k (funcs s) = Some fs \<Longrightarrow> fs_func fs' = fs_func fs \<Longrightarrow> fs_pods fs' = fs_pods fs \<Longrightarrow>
        obs (s\<lparr>funcs := bt_insert k fs' (funcs s)\<rparr>) = obs s"
    and obs_funcs: "(\<And>k fs. fs_func (h k fs) = fs_func fs \<and> fs_pods (h k fs) = fs_pods fs) \<Longrightarrow>
        obs (s\<lparr>funcs := map (\<lambda>(k, fs). (k, h k fs)) (funcs s)\<rparr>) = obs s"
begin

abbreviation same :: "'o \<Rightarrow> 'l SchedulerHandler \<Rightarrow> bool" where
  "same v s \<equiv> obs s = v"

lemmas obs_simps = obs_idle obs_queue obs_delayed obs_term obs_pending obs_sched obs_snap obs_snapbill obs_standby
  obs_uuid obs_uid obs_removals obs_gateways obs_sems obs_status obs_tenants obs_policy obs_peers obs_epoch

lemma keeps_upd: "(\<And>s. obs (f s) = obs s) \<Longrightarrow> keeps (same v) (amod f)"
  by (rule keeps_amod) simp

lemma on_rt_view: "(\<And>r. next_ref (heap (f r)) = next_ref (heap r)) \<Longrightarrow> keeps (same v) (on_rt f)"
  unfolding on_rt_def by (rule keeps_upd) (simp add: obs_rt)

lemma h_emit_view [view_frame]: "keeps (same v) (h_emit e)"
  unfolding h_emit_def by (rule on_rt_view) (simp add: emit_def)

lemma h_SetState_view [view_frame]: "keeps (same v) (h_SetState st w)"
  unfolding h_SetState_def by (rule on_rt_view) (simp add: on_heap_def)

lemma h_SetIdle_view [view_frame]: "keeps (same v) (h_SetIdle w)"
  unfolding h_SetIdle_def by (rule on_rt_view) (simp add: on_heap_def)

lemma h_SetConsumer_view [view_frame]: "keeps (same v) (h_SetConsumer t w)"
  unfolding h_SetConsumer_def by (rule on_rt_view) (simp add: on_heap_def)

lemma gauge_dec_view [view_frame]: "keeps (same v) (on_rt (gauge_dec w))"
  by (rule on_rt_view) simp

lemma h_SetWorking_view [view_frame]: "keeps (same v) (h_SetWorking g w)"
  unfolding keeps_iff h_SetWorking_def
  by (auto simp: act_simps on_rt_def dest: SetWorking_next split: prod.splits res.splits intro!: obs_rt)

lemma h_State_view [view_frame]: "keeps (same v) (h_State w)"
  unfolding h_State_def by (rule keeps_aget)

lemma send_unwrap_view [view_frame]: "keeps (same v) (send_unwrap env tx r)"
  unfolding send_unwrap_def by (intro keeps_intros h_emit_view)

lemma send_ok_view [view_frame]: "keeps (same v) (send_ok env tx r)"
  unfolding send_ok_def by (intro keeps_intros h_emit_view)

lemma idle_put_view [view_frame]: "keeps (same v) (idle_put env k)"
  unfolding idle_put_def by (rule keeps_upd) (rule obs_idle)

lemma idle_pop_view [view_frame]: "keeps (same v) (idle_pop env k)"
  unfolding idle_pop_def by (intro keeps_intros keeps_upd obs_idle)

lemma upd_node_view [view_frame]: "node_quiet f \<Longrightarrow> keeps (same v) (upd_node n f)"
  unfolding keeps_iff upd_node_def
  by (auto simp: act_simps node_quiet_def obs_node split: option.splits res.splits prod.splits)

lemma upd_func_view [view_frame]: "func_quiet f \<Longrightarrow> keeps (same v) (upd_func k f)"
  unfolding upd_func_def
  by (rule keeps_upd) (auto simp: func_quiet_def obs_func split: option.splits)

lemma AddTask_view [view_frame]: "keeps (same v) (AddTask t)"
  unfolding AddTask_def by (intro keeps_intros view_frame keeps_upd obs_simps)

lemma TaskQueue_AddNode_view [view_frame]: "keeps (same v) (TaskQueue_AddNode n)"
  unfolding TaskQueue_AddNode_def by (intro keeps_intros view_frame keeps_upd)

lemma TaskQueue_AddFunc_view [view_frame]: "keeps (same v) (TaskQueue_AddFunc n)"
  unfolding TaskQueue_AddFunc_def by (intro keeps_intros view_frame keeps_upd)

lemma TaskQueue_Next_view [view_frame]: "keeps (same v) (TaskQueue_Next)"
  unfolding TaskQueue_Next_def by (intro keeps_intros view_frame keeps_upd obs_simps)

lemma get_node_semaphore_view [view_frame]: "keeps (same v) (get_node_semaphore n)"
  unfolding get_node_semaphore_def by (intro keeps_intros view_frame keeps_upd)
    (simp add: obs_sems)

lemma schedule_delayed_task_view [view_frame]: "keeps (same v) (schedule_delayed_task env d t)"
  unfolding schedule_delayed_task_def by (intro keeps_intros view_frame keeps_upd obs_simps)

lemma drain_loop_view [view_frame]: "keeps (same v) (drain_loop t ts)"
  by (induction ts; simp only: drain_loop.simps; intro keeps_intros view_frame keeps_upd obs_simps)

lemma drain_due_delayed_tasks_view [view_frame]: "keeps (same v) (drain_due_delayed_tasks env)"
  unfolding drain_due_delayed_tasks_def by (intro keeps_intros view_frame keeps_upd)

lemma AddNvidiaPodTask_view [view_frame]: "keeps (same v) (AddNvidiaPodTask env f)"
  unfolding AddNvidiaPodTask_def by (intro keeps_intros view_frame keeps_upd)

lemma AddStandbyTask_view [view_frame]: "keeps (same v) (AddStandbyTask env n)"
  unfolding AddStandbyTask_def by (intro keeps_intros view_frame keeps_upd)

lemma AddPendingSnapshot_view [view_frame]: "keeps (same v) (AddPendingSnapshot f n)"
  unfolding AddPendingSnapshot_def by (intro keeps_intros view_frame keeps_upd obs_simps)

lemma RemovePendingSnapshot_view [view_frame]: "keeps (same v) (RemovePendingSnapshot f n)"
  unfolding RemovePendingSnapshot_def by (rule keeps_upd) (simp add: obs_simps Let_def split: option.splits)

lemma RemovePendingSnapshots_of_node_view [view_frame]: "keeps (same v) (RemovePendingSnapshots_of_node n)"
  unfolding RemovePendingSnapshots_of_node_def by (intro keeps_intros view_frame keeps_upd)

lemma AddSnapshotTask_view [view_frame]: "keeps (same v) (AddSnapshotTask env n f)"
  unfolding AddSnapshotTask_def by (intro keeps_intros view_frame keeps_upd)

lemma InitSnapshotTask_view [view_frame]: "keeps (same v) (InitSnapshotTask env)"
  unfolding InitSnapshotTask_def by (intro keeps_intros view_frame keeps_upd)

lemma mark_terminating_view [view_frame]: "keeps (same v) (mark_terminating env w)"
  unfolding mark_terminating_def by (intro keeps_intros view_frame keeps_upd obs_simps)

lemma Sched_PushLeaseWorkerReq_view [view_frame]: "keeps (same v) (Sched_PushLeaseWorkerReq env k req tx)"
  unfolding keeps_iff Sched_PushLeaseWorkerReq_def
  by (auto simp: act_simps PushLeaseWorkerReq_def obs_func split: option.splits)

lemma ReconcileStuck_quiet:
  "fs_func (fst (ReconcileStuckLeaseRequests t fs ms)) = fs_func fs" "fs_pods (fst (ReconcileStuckLeaseRequests t fs ms)) = fs_pods fs"
  by (simp_all add: ReconcileStuckLeaseRequests_def split: prod.splits)

lemma ReconcileAllStuckLeaseRequests_view [view_frame]: "keeps (same v) (ReconcileAllStuckLeaseRequests env ms)"
  unfolding ReconcileAllStuckLeaseRequests_def by (intro keeps_intros keeps_upd obs_funcs) (simp add: ReconcileStuck_quiet)

text \<open>Billing and snapshots.\<close>

lemma AuditSnapshotSchedule_view [view_frame]: "keeps (same v) (AuditSnapshotSchedule env a)"
  unfolding AuditSnapshotSchedule_def by (intro keeps_intros view_frame keeps_upd)

lemma SetSnapshotStatus_view [view_frame]: "keeps (same v) (SetSnapshotStatus env f n st)"
  unfolding SetSnapshotStatus_def by (intro keeps_intros view_frame keeps_upd obs_simps)

lemma Audit_tick_view [view_frame]: "keeps (same v) (Audit_tick env t)"
  unfolding Audit_tick_def by (intro keeps_intros view_frame keeps_upd)

lemma new_uuid_view [view_frame]: "keeps (same v) (new_uuid env)"
  unfolding new_uuid_def by (intro keeps_intros view_frame keeps_upd obs_simps)

lemma start_snapshot_pod_billing_view [view_frame]: "keeps (same v) (start_snapshot_pod_billing env pod)"
  unfolding start_snapshot_pod_billing_def by (intro keeps_intros view_frame keeps_upd obs_simps)

lemma end_snapshot_pod_billing_view [view_frame]: "keeps (same v) (end_snapshot_pod_billing env k)"
  unfolding end_snapshot_pod_billing_def by (intro keeps_intros view_frame keeps_upd obs_simps)

lemma emit_periodic_billing_ticks_view [view_frame]: "keeps (same v) (emit_periodic_billing_ticks env)"
  unfolding emit_periodic_billing_ticks_def
  by (intro keeps_intros view_frame keeps_upd) (simp add: obs_simps split: option.splits)

lemma start_standby_billing_view [view_frame]: "keeps (same v) (start_standby_billing env k)"
  unfolding start_standby_billing_def by (intro keeps_intros view_frame keeps_upd obs_simps)

lemma end_standby_billing_view [view_frame]: "keeps (same v) (end_standby_billing env k)"
  unfolding end_standby_billing_def by (intro keeps_intros view_frame keeps_upd obs_simps)

lemma emit_periodic_standby_ticks_view [view_frame]: "keeps (same v) (emit_periodic_standby_ticks env)"
  unfolding emit_periodic_standby_ticks_def
  by (intro keeps_intros view_frame keeps_upd) (simp add: obs_simps split: option.splits)

lemma recover_standby_billing_view [view_frame]: "keeps (same v) (recover_standby_billing env)"
  unfolding recover_standby_billing_def by (intro keeps_intros view_frame keeps_upd)

lemma AddSnapshot_view [view_frame]: "keeps (same v) (AddSnapshot env sn)"
  unfolding AddSnapshot_def by (intro keeps_intros view_frame keeps_upd obs_simps)

lemma UpdateSnapshot_view [view_frame]: "keeps (same v) (UpdateSnapshot env sn)"
  unfolding UpdateSnapshot_def by (intro keeps_intros view_frame keeps_upd obs_simps)

lemma RemoveSnapshot_view [view_frame]: "keeps (same v) (RemoveSnapshot sn)"
  unfolding RemoveSnapshot_def by (intro keeps_intros keeps_upd) (simp add: obs_simps split: option.splits)

lemma ProcessRemoveSnapshotComplete_view [view_frame]: "keeps (same v) (ProcessRemoveSnapshotComplete f n r)"
  unfolding ProcessRemoveSnapshotComplete_def by (intro keeps_intros view_frame keeps_upd obs_simps)

text \<open>Calls to node agents.\<close>

lemma StopWorkerInner_view [view_frame]: "keeps (same v) (StopWorkerInner u t ns f rv i)"
  unfolding StopWorkerInner_def by (intro keeps_intros view_frame keeps_upd)

lemma node_or_err_view [view_frame]: "keeps (same v) (node_or_err n)"
  unfolding node_or_err_def by (intro keeps_intros view_frame keeps_upd)

lemma StopWorker_view [view_frame]: "keeps (same v) (StopWorker pod)"
  unfolding StopWorker_def by (intro keeps_intros view_frame keeps_upd)

lemma ProcessStopWorkerComplete_view [view_frame]: "keeps (same v) (ProcessStopWorkerComplete k r)"
  unfolding ProcessStopWorkerComplete_def by (intro keeps_intros view_frame keeps_upd obs_simps)

lemma RemovePodsByFunckey_view [view_frame]: "keeps (same v) (RemovePodsByFunckey env k)"
  unfolding RemovePodsByFunckey_def by (intro keeps_intros view_frame keeps_upd)

lemma CleanPods_view [view_frame]: "keeps (same v) (CleanPods env)"
  unfolding CleanPods_def by (intro keeps_intros view_frame keeps_upd)

lemma RemoveSnapshotFromNode_call_view [view_frame]: "keeps (same v) (RemoveSnapshotFromNode_call n k)"
  unfolding RemoveSnapshotFromNode_call_def by (intro keeps_intros view_frame keeps_upd obs_simps)

lemma RemoveSnapshotByFunckey_view [view_frame]: "keeps (same v) (RemoveSnapshotByFunckey k)"
  unfolding RemoveSnapshotByFunckey_def by (intro keeps_intros view_frame keeps_upd)

lemma CleanSnapshots_view [view_frame]: "keeps (same v) (CleanSnapshots)"
  unfolding CleanSnapshots_def by (intro keeps_intros view_frame keeps_upd)

lemma ProcessRemoveFunc_view [view_frame]: "keeps (same v) (ProcessRemoveFunc env f)"
  unfolding ProcessRemoveFunc_def by (intro keeps_intros view_frame keeps_upd)

lemma node_remove_stopping_view [view_frame]: "keeps (same v) (node_remove_stopping n k)"
  unfolding keeps_iff node_remove_stopping_def
  by (auto simp: act_simps Node_RemoveStoppingPod_def obs_node split: option.splits)

lemma node_alloc_view [view_frame]: "keeps (same v) (node_alloc n req)"
  unfolding keeps_iff node_alloc_def
  by (auto simp: act_simps AllocResource_def res_simps obs_node split: option.splits prod.splits res.splits)

lemma fail_one_lease_view [view_frame]: "keeps (same v) (fail_one_lease env k)"
  unfolding keeps_iff fail_one_lease_def
  by (auto simp: act_simps PopLeaseWorkerReq_def send_ok_def h_emit_def on_rt_def emit_def obs_rt obs_func
      split: option.splits list.splits prod.splits if_splits)

lemma restore_terminated_view [view_frame]: "keeps (same v) (restore_terminated env ks)"
  unfolding restore_terminated_def by (intro keeps_intros view_frame keeps_upd quiet_intros)

lemma ProcessResumeWorkerComplete_view [view_frame]: "keeps (same v) (ProcessResumeWorkerComplete env k n r res ks)"
  unfolding ProcessResumeWorkerComplete_def by (intro keeps_intros view_frame keeps_upd quiet_intros)

lemma ProcessStartWorkerComplete_view [view_frame]: "keeps (same v) (ProcessStartWorkerComplete env f n k ty r res ks)"
  unfolding ProcessStartWorkerComplete_def by (intro keeps_intros view_frame keeps_upd quiet_intros)

lemma ProcessCleanupDuplicateSnapshot_view [view_frame]: "keeps (same v) (ProcessCleanupDuplicateSnapshot env f n k res ks)"
  unfolding ProcessCleanupDuplicateSnapshot_def by (intro keeps_intros view_frame keeps_upd quiet_intros)

lemma StartWorker_view [view_frame]: "keeps (same v) (StartWorker env u f a q ty ws)"
  unfolding StartWorker_def by (intro keeps_intros view_frame keeps_upd obs_simps)

lemma ResumeWorker_view [view_frame]: "keeps (same v) (ResumeWorker u t ns f rv i a ws)"
  unfolding ResumeWorker_def by (intro keeps_intros view_frame keeps_upd)

text \<open>Placement.\<close>

lemma drop_missing_view [view_frame]: "keeps (same v) (drop_missing env ks)"
  unfolding drop_missing_def by (intro keeps_intros view_frame keeps_upd)

lemma TryFreeResources_view [view_frame]: "keeps (same v) (TryFreeResources env n f av req b)"
  unfolding TryFreeResources_def by (intro keeps_intros view_frame keeps_upd)

lemma FindNode4Pod_view [view_frame]: "keeps (same v) (FindNode4Pod env f ty ns)"
  unfolding FindNode4Pod_def by (intro keeps_intros view_frame keeps_upd)

lemma GetBestNvidiaRuntimeNode_view [view_frame]: "keeps (same v) (GetBestNvidiaRuntimeNode env f)"
  unfolding GetBestNvidiaRuntimeNode_def by (intro keeps_intros view_frame keeps_upd)

lemma GetBestResumeWorker_view [view_frame]: "keeps (same v) (GetBestResumeWorker env f)"
  unfolding GetBestResumeWorker_def by (intro keeps_intros view_frame keeps_upd)

lemma GetBestNodeToRestore_view [view_frame]: "keeps (same v) (GetBestNodeToRestore env f)"
  unfolding GetBestNodeToRestore_def by (intro keeps_intros view_frame keeps_upd)

lemma pop_evicted_view [view_frame]: "keeps (same v) (pop_evicted env ws)"
  unfolding pop_evicted_def by (intro keeps_intros view_frame keeps_upd)

lemma add_stopping_view [view_frame]: "keeps (same v) (add_stopping n ws)"
  unfolding add_stopping_def by (intro keeps_intros view_frame keeps_upd quiet_intros)

lemma the_node_view [view_frame]: "keeps (same v) (the_node n)"
  unfolding the_node_def by (intro keeps_intros view_frame keeps_upd)

lemma reserve_view [view_frame]: "keeps (same v) (reserve n r)"
  unfolding reserve_def by (intro keeps_intros view_frame keeps_upd quiet_intros)

lemma ResumePod_view [view_frame]: "keeps (same v) (ResumePod env k c)"
  unfolding ResumePod_def by (intro keeps_intros view_frame keeps_upd quiet_intros)

lemma evict_and_reserve_view [view_frame]: "keeps (same v) (evict_and_reserve env f n ws nr)"
  unfolding evict_and_reserve_def by (intro keeps_intros view_frame keeps_upd)

lemma CreateOneNividaPod_view [view_frame]: "keeps (same v) (CreateOneNividaPod env k)"
  unfolding CreateOneNividaPod_def by (intro keeps_intros view_frame keeps_upd quiet_intros)

lemma TryCreateSnapshotOnNode_view [view_frame]: "keeps (same v) (TryCreateSnapshotOnNode env k n)"
  unfolding TryCreateSnapshotOnNode_def by (intro keeps_intros view_frame keeps_upd quiet_intros)

lemma stop_excess_view [view_frame]: "keeps (same v) (stop_excess n f x)"
  unfolding stop_excess_def by (intro keeps_intros view_frame keeps_upd)

lemma start_standby_view [view_frame]: "keeps (same v) (start_standby env n k)"
  unfolding start_standby_def by (intro keeps_intros view_frame keeps_upd quiet_intros)

lemma TryAdjustStandbyPodsOnNode_view [view_frame]: "keeps (same v) (TryAdjustStandbyPodsOnNode env n)"
  unfolding TryAdjustStandbyPodsOnNode_def by (intro keeps_intros view_frame keeps_upd)

lemma ProcessAddFunc_view [view_frame]: "keeps (same v) (ProcessAddFunc env k)"
  unfolding ProcessAddFunc_def by (intro keeps_intros view_frame keeps_upd)

lemma refresh_loop_view [view_frame]: "keeps (same v) (refresh_loop env ks)"
  by (induction ks; simp only: refresh_loop.simps; intro keeps_intros view_frame)

lemma RefreshScheduling_view [view_frame]: "keeps (same v) (RefreshScheduling env)"
  unfolding RefreshScheduling_def by (intro keeps_intros view_frame keeps_upd)

lemma ProcessTask_view [view_frame]: "keeps (same v) (ProcessTask env t)"
  by (cases t; simp only: ProcessTask.simps; intro keeps_intros view_frame)

text \<open>Gateways.\<close>

lemma ProcessRefreshGateway_view [view_frame]: "keeps (same v) (ProcessRefreshGateway env g)"
  unfolding ProcessRefreshGateway_def by (intro keeps_intros view_frame keeps_upd obs_simps)

lemma release_lost_view [view_frame]: "keeps (same v) (release_lost env gone w)"
  unfolding release_lost_def by (intro keeps_intros view_frame keeps_upd)

lemma ProcessGatewayTimeout_view [view_frame]: "keeps (same v) (ProcessGatewayTimeout env)"
  unfolding ProcessGatewayTimeout_def by (intro keeps_intros view_frame keeps_upd obs_simps)

lemma ProcessConnectReq_view [view_frame]: "keeps (same v) (ProcessConnectReq env g ws tx)"
  unfolding ProcessConnectReq_def by (intro keeps_intros view_frame keeps_upd)

lemma gauge_inc_view [view_frame]:
  assumes m: "keeps (same v) m"
  shows "keeps (same v) (abind (aget (\<lambda>s. gauge_inc w (rt s))) (\<lambda>g. abind (alift g) (\<lambda>r. aseq (amod (\<lambda>s. s\<lparr>rt := r\<rparr>)) m)))"
  unfolding keeps_iff
proof (intro allI impI)
  fix s r s'
  assume s: "same v s" "r \<noteq> Panic"
    "abind (aget (\<lambda>s. gauge_inc w (rt s))) (\<lambda>g. abind (alift g) (\<lambda>r. aseq (amod (\<lambda>s. s\<lparr>rt := r\<rparr>)) m)) s = (r, s')"
  show "same v s'"
  proof (cases "gauge_inc w (rt s)")
    case (Ok g)
    then have "same v (s\<lparr>rt := g\<rparr>)" using s(1) by (simp add: obs_rt gauge_inc_heap)
    moreover have "m (s\<lparr>rt := g\<rparr>) = (r, s')" using s(3) Ok by (simp add: act_simps)
    ultimately show ?thesis using keepsD[OF m] s(2) by blast
  qed (use s in \<open>simp_all add: act_simps\<close>)
qed

lemma lease_idle_view [view_frame]: "keeps (same v) (lease_idle env req tx w)"
  unfolding lease_idle_def by (intro gauge_inc_view keeps_intros view_frame)

lemma ProcessLeaseWorkerReq_view [view_frame]: "keeps (same v) (ProcessLeaseWorkerReq env req tx)"
  unfolding ProcessLeaseWorkerReq_def by (intro keeps_intros view_frame keeps_upd)

lemma ProcessReturnWorkerReq_view [view_frame]: "keeps (same v) (ProcessReturnWorkerReq env k f tx)"
  unfolding ProcessReturnWorkerReq_def by (intro keeps_intros view_frame keeps_upd)

lemma ProcessKillPod_view [view_frame]: "keeps (same v) (ProcessKillPod env k)"
  unfolding ProcessKillPod_def
  by (intro keeps_intros view_frame; split WorkerPodState.split; intro conjI impI allI keeps_intros view_frame)

text \<open>Events.\<close>

lemma keep_lease_view [view_frame]: "keeps (same v) (keep_lease old w)"
  unfolding keep_lease_def by (intro keeps_intros view_frame keeps_upd)

lemma failure_loop_view [view_frame]: "keeps (same v) (failure_loop env n st)"
  by (induction env n st rule: failure_loop.induct) (subst failure_loop.simps, intro keeps_intros view_frame, auto)

lemma record_snapshot_failure_view [view_frame]: "keeps (same v) (record_snapshot_failure env n f)"
  unfolding record_snapshot_failure_def by (intro keeps_intros view_frame keeps_upd)

lemma CleanFuncStatusForNode_view [view_frame]: "keeps (same v) (CleanFuncStatusForNode n)"
  unfolding CleanFuncStatusForNode_def by (intro keeps_intros view_frame keeps_upd quiet_intros)

lemma sync_worker_view [view_frame]: "keeps (same v) (sync_worker env w)"
  unfolding sync_worker_def
  by (intro keeps_intros view_frame; split PodState.split; intro conjI impI allI keeps_intros view_frame)

end

end
