(* ===== verification/Sched_Rounds.thy ===== *)
theory Sched_Rounds
  imports Sched_Frame Node_Laws
begin

text \<open>
  An invariant of the scheduler, once and for all: the locale \<open>sched_inv\<close> names what has to be shown of
  an invariant \<open>J\<close> of a view of the state, that is, that the few handlers that change the view keep it; in
  the locale, every event, message and timer, and so every run of the scheduler's loop, is shown to keep it.
\<close>

section \<open>More rules\<close>

lemma keeps_obj:
  "(\<And>f. x = FunctionObj f \<Longrightarrow> keeps I (m f)) \<Longrightarrow> keeps I n \<Longrightarrow> keeps I (case x of FunctionObj f \<Rightarrow> m f | _ \<Rightarrow> n)"
  by (cases x) auto

section \<open>Invariants of a view\<close>

locale sched_inv = sched_view obs for obs :: "'l SchedulerHandler \<Rightarrow> 'o" +
  fixes J :: "'o \<Rightarrow> bool"
  assumes inv_AddPod: "keeps (\<lambda>s. J (obs s)) (Sched_AddPod env pod)"
    and inv_UpdatePod: "keeps (\<lambda>s. J (obs s)) (Sched_UpdatePod env pod)"
    and inv_RemovePod: "keeps (\<lambda>s. J (obs s)) (Sched_RemovePod env pod)"
    and inv_AddFunc: "keeps (\<lambda>s. J (obs s)) (Sched_AddFunc spec)"
    and inv_RemoveFunc: "keeps (\<lambda>s. J (obs s)) (Sched_RemoveFunc env spec)"
    and inv_AddNode: "keeps (\<lambda>s. J (obs s)) (Sched_AddNode env node)"
    and inv_UpdateNode: "keeps (\<lambda>s. J (obs s)) (Sched_UpdateNode node)"
    and inv_RemoveNode: "keeps (\<lambda>s. J (obs s)) (Sched_RemoveNode node)"
    and inv_Reconcile: "keeps (\<lambda>s. J (obs s)) (ReconcileNodeAfterNodeAgentRestart env nodename node)"
    and inv_unhold: "keeps (\<lambda>s. J (obs s)) (amod (\<lambda>s. s\<lparr>nodePods := bt_remove nodename (nodePods s)\<rparr>))"
    and inv_ListDone: "keeps (\<lambda>s. J (obs s)) (ListDone env ty)"
    and inv_Connect: "keeps (\<lambda>s. J (obs s)) (ProcessMsg env (ConnectScheduler g ws tx))"
    and inv_Warmup: "keeps (\<lambda>s. J (obs s)) (CheckAndCompleteWarmup env)"
begin

abbreviation I :: "'l SchedulerHandler \<Rightarrow> bool" where
  "I s \<equiv> J (obs s)"

lemmas inv_intros = inv_AddPod inv_UpdatePod inv_RemovePod inv_AddFunc inv_RemoveFunc inv_AddNode inv_UpdateNode
  inv_RemoveNode inv_Reconcile inv_unhold inv_ListDone inv_Connect inv_Warmup

lemma inv_frame: "(\<And>v. keeps (same v) m) \<Longrightarrow> keeps I m"
  by (rule keeps_frame)

lemma inv_CleanNode: "keeps I (CleanNode env n)"
  unfolding CleanNode_def
  by (intro keeps_intros inv_intros; rule inv_frame; intro keeps_intros view_frame keeps_upd obs_simps) (simp add: obs_simps)

lemma inv_CheckNodeEpoch: "keeps I (CheckNodeEpoch env n e)"
  unfolding CheckNodeEpoch_def Let_def
  by (intro keeps_intros inv_CleanNode; rule inv_frame; intro keeps_intros view_frame keeps_upd obs_simps)

lemma inv_node_events:
  "keeps I (node_added env node)" "keeps I (node_modified env node)" "keeps I (node_deleted env node)"
  unfolding node_added_def node_modified_def node_deleted_def the_ip_def
  by (intro keeps_intros inv_intros inv_CheckNodeEpoch; rule inv_frame; intro keeps_intros view_frame keeps_upd obs_simps)+

lemma inv_function_modified: "keeps I (function_modified env f g)"
  unfolding function_modified_def
  by (intro keeps_intros inv_intros; rule inv_frame; intro keeps_intros view_frame)

lemma inv_ev_added: "keeps I (ev_added env x)"
  by (cases x; simp only: ev_added.simps bad_obj_def;
      (intro keeps_intros inv_intros inv_node_events inv_CheckNodeEpoch)?; rule inv_frame; intro keeps_intros view_frame keeps_upd obs_simps)

lemma inv_ev_modified: "keeps I (ev_modified env x old)"
  by (cases x; simp only: ev_modified.simps bad_obj_def;
      (intro keeps_intros inv_intros inv_node_events inv_function_modified keeps_obj)?; rule inv_frame; intro keeps_intros view_frame keeps_upd obs_simps)

lemma inv_ev_deleted: "keeps I (ev_deleted env x old)"
  by (cases x; simp only: ev_deleted.simps bad_obj_def;
      (intro keeps_intros inv_intros inv_node_events keeps_obj)?; rule inv_frame; intro keeps_intros view_frame keeps_upd obs_simps)

lemma inv_ProcessEvent: "keeps I (ProcessEvent env e)"
  by (cases e; simp only: ProcessEvent.simps; intro keeps_intros inv_intros inv_ev_added inv_ev_modified inv_ev_deleted)

lemma inv_ProcessMsg: "keeps I (ProcessMsg env m)"
proof (cases m)
  case (ConnectScheduler g ws tx) then show ?thesis by (simp only: inv_Connect)
qed (simp only: ProcessMsg.simps; rule inv_frame; intro keeps_intros view_frame)+

lemma inv_ProcessInterval: "keeps I (ProcessInterval env)"
  unfolding ProcessInterval_def
  by (intro keeps_intros inv_Warmup; rule inv_frame; intro keeps_intros view_frame)

lemma inv_ProcessOnce: "keeps I (ProcessOnce env i)"
  by (cases i; simp only: ProcessOnce.simps; (intro inv_ProcessEvent inv_ProcessMsg inv_ProcessInterval)?;
      rule inv_frame; intro keeps_intros view_frame)

lemma inv_sched_run: "keeps I (sched_run is)"
  by (induction "is" rule: sched_run.induct; simp only: sched_run.simps; intro keeps_intros inv_ProcessOnce; assumption?)

text \<open>So the invariant holds after any rounds from a state in which it holds.\<close>

lemma inv_run: "I s0 \<Longrightarrow> sched_run is s0 = (out, s) \<Longrightarrow> out \<noteq> Panic \<Longrightarrow> I s"
  by (rule keepsD[OF inv_sched_run])

end

section \<open>Nodes\<close>

text \<open>The two node events that read the state they change, for any invariant.\<close>

lemma hoare_option:
  "(x = None \<Longrightarrow> hoare P m Q E) \<Longrightarrow> (\<And>y. x = Some y \<Longrightarrow> hoare P (f y) Q E) \<Longrightarrow> hoare P (case x of None \<Rightarrow> m | Some y \<Rightarrow> f y) Q E"
  by (cases x) auto

lemma hoare_alift_bind:
  "(\<And>x. r = Ok x \<Longrightarrow> hoare P (f x) Q E) \<Longrightarrow> (\<And>e. r \<noteq> Err e) \<Longrightarrow> hoare P (abind (alift r) f) Q E"
  by (cases r) (auto simp: hoare_def act_simps)

lemma hoare_amod_aseq: "(\<And>s. P s \<Longrightarrow> P' (f s)) \<Longrightarrow> hoare P' m Q E \<Longrightarrow> hoare P (aseq (amod f) m) Q E"
  by (rule hoare_aseq) (auto simp: hoare_def)

lemma NodeStatus_New_Ok: "NodeStatus_New t node tot ps = Ok ns \<Longrightarrow> ns_node ns = node \<and> ns_pods ns = ps"
  by (auto simp: NodeStatus_New_def res_simps)

lemma rfold_Sub_not_Err: "rfold (\<lambda>(_, w) av. NodeResources_Sub av (alloc_of w)) ps av \<noteq> Err e"
proof (induction ps arbitrary: av)
  case (Cons p ps)
  then show ?case by (cases p; cases "NodeResources_Sub av (alloc_of (snd p))") auto
qed simp

lemma NodeStatus_New_not_Err: "NodeStatus_New t node tot ps \<noteq> Err e"
  by (auto simp: NodeStatus_New_def res_simps rfold_Sub_not_Err)

lemma Sched_AddNode_rule:
  assumes emit: "\<And>e. keeps I (h_emit e)" and task: "keeps I (TaskQueue_AddNode (do_name node))"
    and know: "\<And>s ns. I s \<Longrightarrow> bt_get (do_name node) (nodes s) = None \<Longrightarrow>
      NodeStatus_New (now env) node (nd_resources (object node)) (case bt_get (do_name node) (nodePods s) of None \<Rightarrow> [] | Some m \<Rightarrow> m) = Ok ns \<Longrightarrow>
      I (s\<lparr>nodePods := bt_remove (do_name node) (nodePods s), nodes := bt_insert (do_name node) ns (nodes s)\<rparr>)"
  shows "keeps I (Sched_AddNode env node)"
proof -
  let ?add = "abind (aget (\<lambda>s. case bt_get (do_name node) (nodePods s) of None \<Rightarrow> [] | Some m \<Rightarrow> m)) (\<lambda>ps.
        aseq (amod (\<lambda>s. s\<lparr>nodePods := bt_remove (do_name node) (nodePods s)\<rparr>))
       (abind (alift (NodeStatus_New (now env) node (nd_resources (object node)) ps)) (\<lambda>ns.
        aseq (amod (\<lambda>s. s\<lparr>nodes := bt_insert (do_name node) ns (nodes s)\<rparr>))
          (TaskQueue_AddNode (do_name node)))))"
  let ?P = "\<lambda>s. I s \<and> bt_get (do_name node) (nodes s) = None"
  have "I s'" if "?P s" "?add s = (r, s')" "r \<noteq> Panic" for s r s'
    using that keepsD[OF task] know[of s] by (auto simp: act_simps NodeStatus_New_not_Err split: res.splits)
  then have add: "hoare ?P ?add (\<lambda>_. I) I" by (intro hoareI) blast+
  have emit': "hoare ?P (h_emit e) (\<lambda>_. ?P) I" for e
    by (rule hoareI) (use keepsD[OF emit[of e]] in \<open>auto simp: h_emit_def on_rt_def\<close>)
  show ?thesis
    unfolding Sched_AddNode_def Let_def
    by (rule hoare_keeps, rule hoare_aget_bind, rule hoare_if, simp add: hoare_def)
       (rule hoare_pre[OF hoare_aseq[OF emit' add]], auto simp: bt_contains_def)
qed

lemma ReconcileNode_rule:
  assumes drop: "\<And>s ns0 gone. I s \<Longrightarrow> bt_get n (nodes s) = Some ns0 \<Longrightarrow> I (s\<lparr>
         nodes := bt_insert n (ns0\<lparr>ns_pods := drop_keys gone (ns_pods ns0), ns_pendingPods := [], ns_stoppingPods := []\<rparr>) (nodes s),
         funcs := map (\<lambda>(k, fs). (k, fs\<lparr>fs_pendingPods := drop_keys gone (fs_pendingPods fs),
                    fs_stoppingPods := drop_keys gone (fs_stoppingPods fs), fs_pods := drop_keys gone (fs_pods fs)\<rparr>)) (funcs s),
         pods := drop_keys gone (pods s),
         nodePods := map (\<lambda>(k, m). (k, if k = n then drop_keys gone m else m)) (nodePods s),
         funcPods := map (\<lambda>(k, m). (k, drop_keys gone m)) (funcPods s)\<rparr>)"
    and upd: "\<And>s ns ns1. I s \<Longrightarrow> bt_get n (nodes s) = Some ns \<Longrightarrow> ns_node ns1 = ns_node ns \<Longrightarrow> ns_pods ns1 = ns_pods ns \<Longrightarrow>
      I (s\<lparr>nodes := bt_insert n ns1 (nodes s)\<rparr>)"
    and rest: "\<And>ws. keeps I (aseq (aiter (sync_worker env) ws) (RemovePendingSnapshots_of_node n))"
  shows "keeps I (ReconcileNodeAfterNodeAgentRestart env n node)"
proof -
  define Q where "Q = (\<lambda>ns1 s. I s \<and> bt_get n (nodes s) = Some ns1)"
  have second: "I (s\<lparr>nodes := bt_insert n (ns1\<lparr>ns_total := tot, ns_available := av\<rparr>) (nodes s)\<rparr>)" if "Q ns1 s" for ns1 s tot av
    using that upd[of s ns1] by (simp add: Q_def)
  have last: "hoare (Q ns1) (abind (alift (rfold (\<lambda>(_, w) av. NodeResources_Sub av (alloc_of w)) (ns_pods ns1) (NodeResources_Copy tot))) (\<lambda>av.
      aseq (amod (\<lambda>s. s\<lparr>nodes := bt_insert n (ns1\<lparr>ns_total := tot, ns_available := av\<rparr>) (nodes s)\<rparr>))
        (aseq (aiter (sync_worker env) (bt_values (ns_pods ns1))) (RemovePendingSnapshots_of_node n)))) (\<lambda>_. I) I" for ns1 tot
    by (rule hoare_alift_bind, rule hoare_amod_aseq[OF second rest[unfolded keeps_def]]) (auto simp: rfold_Sub_not_Err)
  show ?thesis
    unfolding ReconcileNodeAfterNodeAgentRestart_def Let_def asome_def
    by (rule hoare_keeps, rule hoare_aget_bind, rule hoare_option, simp add: hoare_def, rule hoare_amod_aseq[OF _ last])
      (unfold Q_def, elim conjE, intro conjI, rule drop, simp_all)
qed

end
