(* ===== verification/Sched_Sample.thy ===== *)
theory Sched_Sample
  imports Sched_Events
begin

text \<open>
  The laws of the \<open>lru\<close> cache that properties of the scheduler rely on, an implementation of them by a
  list, and an environment on which the properties are applied to concrete runs.
\<close>

section \<open>The cache of idle pods\<close>

text \<open>
  The documented behaviour of \<open>LruCache::put\<close>, \<open>pop\<close> and \<open>iter\<close> for an unbounded cache: \<open>put\<close> makes the key
  the most recently used one, \<open>pop\<close> removes it and tells whether it was there, the order of the others stays.
\<close>

definition lru_laws :: "'l LruOps \<Rightarrow> bool" where
  "lru_laws ops \<longleftrightarrow>
     lru_iter ops (lru_empty ops) = [] \<and>
     (\<forall>k l. lru_iter ops (lru_put ops k l) = k # filter (\<lambda>x. x \<noteq> k) (lru_iter ops l)) \<and>
     (\<forall>k l. lru_iter ops (fst (lru_pop ops k l)) = filter (\<lambda>x. x \<noteq> k) (lru_iter ops l)) \<and>
     (\<forall>k l. snd (lru_pop ops k l) \<longleftrightarrow> k \<in> set (lru_iter ops l))"

definition list_lru :: "string list LruOps" where
  "list_lru = \<lparr>lru_empty = [], lru_put = (\<lambda>k l. k # filter (\<lambda>x. x \<noteq> k) l),
     lru_pop = (\<lambda>k l. (filter (\<lambda>x. x \<noteq> k) l, k \<in> set l)), lru_iter = (\<lambda>l. l)\<rparr>"

lemma list_lru_laws: "lru_laws list_lru"
  by (simp add: lru_laws_def list_lru_def)

section \<open>A sample environment\<close>

definition ex_env :: "nat \<Rightarrow> string list Env" where
  "ex_env t = \<lparr>now = t, alive = (\<lambda>_. True), lru = list_lru, enableSnapshotBilling = True,
     inferxEndpointFuncDefaultPolicy = \<lparr>d_minReplica = None, d_maxReplica = None, d_standbyPerNode = None\<rparr>,
     ticks_sent = True, audit_room = True, shuffle = (\<lambda>xs. xs), uuid = (\<lambda>n. show_nat n), uid_get = (\<lambda>n. Ok n),
     ipv4_network = (\<lambda>_. None), store_client = True, store_update = (\<lambda>_ _. True), store_get = (\<lambda>_. None)\<rparr>"

definition ex_rt :: Rt where
  "ex_rt = \<lparr>heap = \<lparr>cells = (\<lambda>_. \<lparr>workerState = WInit, consumer_tenant = None\<rparr>), next_ref = 0\<rparr>, usedGpuCnt = [], trace = []\<rparr>"

end
