(* ===== verification/Sched_Index.thy ===== *)
theory Sched_Index
  imports Sched_Rounds Sched_Sample
begin

text \<open>
  The scheduler finds a pod through five maps: the table of all pods, the pods of each node and of each
  function, and the pods held back until their node or function is known. All of them share the worker,
  so what one handler does to a worker's lease is seen by the others. This theory shows that every
  handler keeps the maps in agreement.

  \<open>Idx\<close> is the part of the state the five maps make up. Most handlers do not change it (theory
  \<open>Sched_Frame\<close>); the ones that do are the pod, function and node events.
\<close>

section \<open>The view\<close>

record Idx =
  i_pod :: "string \<Rightarrow> WorkerPod option"
  i_node :: "string \<Rightarrow> string option"
  i_npod :: "string \<Rightarrow> string \<Rightarrow> WorkerPod option"
  i_nheld :: "string \<Rightarrow> string \<Rightarrow> WorkerPod option"
  i_func :: "string \<Rightarrow> string option"
  i_fpod :: "string \<Rightarrow> string \<Rightarrow> WorkerPod option"
  i_fheld :: "string \<Rightarrow> string \<Rightarrow> WorkerPod option"
  i_next :: nat

definition idx :: "'l SchedulerHandler \<Rightarrow> Idx" where
  "idx s = \<lparr>i_pod = (\<lambda>k. bt_get k (pods s)),
     i_node = (\<lambda>n. map_option (\<lambda>ns. do_name (ns_node ns)) (bt_get n (nodes s))),
     i_npod = (\<lambda>n k. case bt_get n (nodes s) of None \<Rightarrow> None | Some ns \<Rightarrow> bt_get k (ns_pods ns)),
     i_nheld = nested_get (nodePods s),
     i_func = (\<lambda>f. map_option (\<lambda>fs. Function_Id (fs_func fs)) (bt_get f (funcs s))),
     i_fpod = (\<lambda>f k. case bt_get f (funcs s) of None \<Rightarrow> None | Some fs \<Rightarrow> bt_get k (fs_pods fs)),
     i_fheld = nested_get (funcPods s),
     i_next = next_ref (heap (rt s))\<rparr>"

text \<open>
  A copy \<open>w\<close> of the pod \<open>k\<close>, kept by the node or function \<open>o\<close> that \<open>own\<close> computes from it: it has the
  right key and owner, its cell exists, it is the worker of the pod table unless the pod has moved, and no
  other worker of the table has its cell.
\<close>

definition copy_ok :: "Idx \<Rightarrow> (WorkerPod \<Rightarrow> string) \<Rightarrow> string \<Rightarrow> string \<Rightarrow> WorkerPod \<Rightarrow> bool" where
  "copy_ok v own q k w \<longleftrightarrow>
     PodKey (wp_pod w) = k \<and> own w = q \<and> wp_ref w < i_next v \<and>
     (\<forall>w'. i_pod v k = Some w' \<longrightarrow> own w' = q \<longrightarrow> w' = w) \<and>
     (\<forall>k' w'. i_pod v k' = Some w' \<longrightarrow> wp_ref w' = wp_ref w \<longrightarrow> w' = w)"

abbreviation func_of :: "WorkerPod \<Rightarrow> string" where
  "func_of w \<equiv> FuncKey (wp_pod w)"

definition idx_ok :: "Idx \<Rightarrow> bool" where
  "idx_ok v \<longleftrightarrow>
     (\<forall>k w. i_pod v k = Some w \<longrightarrow> PodKey (wp_pod w) = k \<and> wp_ref w < i_next v) \<and>
     (\<forall>k k' w w'. i_pod v k = Some w \<longrightarrow> i_pod v k' = Some w' \<longrightarrow> wp_ref w = wp_ref w' \<longrightarrow> k = k') \<and>
     (\<forall>n nm. i_node v n = Some nm \<longrightarrow> nm = n \<and> (\<forall>k. i_nheld v n k = None)) \<and>
     (\<forall>f i. i_func v f = Some i \<longrightarrow> i = f \<and> (\<forall>k. i_fheld v f k = None)) \<and>
     (\<forall>n k w. i_npod v n k = Some w \<longrightarrow> i_node v n \<noteq> None \<and> copy_ok v node_of n k w) \<and>
     (\<forall>n k w. i_nheld v n k = Some w \<longrightarrow> copy_ok v node_of n k w) \<and>
     (\<forall>f k w. i_fpod v f k = Some w \<longrightarrow> i_func v f \<noteq> None \<and> copy_ok v func_of f k w) \<and>
     (\<forall>f k w. i_fheld v f k = Some w \<longrightarrow> copy_ok v func_of f k w)"

lemma idx_okD:
  assumes "idx_ok v"
  shows "i_pod v k = Some w \<Longrightarrow> PodKey (wp_pod w) = k" "i_pod v k = Some w \<Longrightarrow> wp_ref w < i_next v"
    "i_pod v k = Some w \<Longrightarrow> i_pod v k' = Some w' \<Longrightarrow> wp_ref w = wp_ref w' \<Longrightarrow> k = k'"
    "i_node v n = Some nm \<Longrightarrow> nm = n" "i_node v n = Some nm \<Longrightarrow> i_nheld v n k = None"
    "i_func v n = Some nm \<Longrightarrow> nm = n" "i_func v n = Some nm \<Longrightarrow> i_fheld v n k = None"
    "i_npod v n k = Some w \<Longrightarrow> i_node v n \<noteq> None" "i_npod v n k = Some w \<Longrightarrow> copy_ok v node_of n k w"
    "i_nheld v n k = Some w \<Longrightarrow> copy_ok v node_of n k w"
    "i_fpod v n k = Some w \<Longrightarrow> i_func v n \<noteq> None" "i_fpod v n k = Some w \<Longrightarrow> copy_ok v func_of n k w"
    "i_fheld v n k = Some w \<Longrightarrow> copy_ok v func_of n k w"
  using assms by (auto simp: idx_ok_def)


interpretation iv: sched_view idx
  by unfold_locales (auto simp: idx_def fun_eq_iff nested_get_def bt_get_map_values map_option_case split: option.splits)

definition sched_ok :: "'l SchedulerHandler \<Rightarrow> bool" where
  "sched_ok s \<longleftrightarrow> idx_ok (idx s)"

named_theorems ok_intros \<open>handlers that keep the maps in agreement\<close>

lemma frame_ok: "(\<And>v. keeps (\<lambda>s. idx s = v) m) \<Longrightarrow> keeps sched_ok m"
  unfolding sched_ok_def by (rule keeps_frame)

section \<open>Actions that return no error\<close>

lemma noerr_worker_state [noerr_intros]:
  "(\<And>g. st = WWorking g \<Longrightarrow> noerr (mw g)) \<Longrightarrow> noerr n \<Longrightarrow> noerr (case st of WWorking g \<Rightarrow> mw g | _ \<Rightarrow> n)"
  by (simp split: WorkerPodState.split)

lemma frame_step:
  assumes "\<And>v. keeps (\<lambda>s. idx s = v) m" "noerr m"
  shows "hoare (\<lambda>s. idx s = v) m (\<lambda>_ s. idx s = v) (\<lambda>_. False)"
  by (rule frame_hoare) (use assms in \<open>auto simp: noerr_def\<close>)

lemma noerr_runtime [noerr_intros]:
  "noerr (on_rt f)" "noerr (h_emit e)" "noerr (h_SetState st w)" "noerr (h_SetIdle w)" "noerr (h_SetConsumer t w)"
  "noerr (h_State w)" "noerr (idle_put env k)" "noerr (idle_pop env k)" "noerr (upd_func k g)"
  by (auto simp: on_rt_def h_emit_def h_SetState_def h_SetIdle_def h_SetConsumer_def h_State_def idle_put_def idle_pop_def
      upd_func_def intro!: noerr_intros)

lemma noerr_upd_node [noerr_intros]: "(\<And>ns e. f ns \<noteq> Err e) \<Longrightarrow> noerr (upd_node n f)"
  unfolding upd_node_def by (intro noerr_intros)

lemma u64_mul_no_Err: "(u64_mul a b :: (nat, error) res) \<noteq> Err e"
  by (simp add: u64_mul_def)

lemma noerr_billing [noerr_intros]:
  "noerr (AddPendingSnapshot f n)" "noerr (RemovePendingSnapshot f n)" "noerr (start_snapshot_pod_billing env pod)"
  "noerr (end_snapshot_pod_billing env k)"
  unfolding AddPendingSnapshot_def RemovePendingSnapshot_def start_snapshot_pod_billing_def end_snapshot_pod_billing_def
    Audit_tick_def new_uuid_def TotalVRam_def
  by (intro noerr_intros u64_mul_no_Err)+

lemma noerr_AddTask [noerr_intros]: "noerr (AddTask t)"
  unfolding AddTask_def by (intro noerr_intros)

lemma noerr_AddSnapshotTask [noerr_intros]: "noerr (AddSnapshotTask env n f)"
  unfolding AddSnapshotTask_def schedule_delayed_task_def by (intro noerr_intros)

section \<open>Changes of the view\<close>

text \<open>Entries dropped, nothing else moved.\<close>

definition shrinks :: "Idx \<Rightarrow> Idx \<Rightarrow> bool" where
  "shrinks v v' \<longleftrightarrow>
     (\<forall>k w. i_pod v' k = Some w \<longrightarrow> i_pod v k = Some w) \<and>
     (\<forall>n. i_node v' n = None \<or> i_node v' n = i_node v n) \<and>
     (\<forall>n k w. i_npod v' n k = Some w \<longrightarrow> i_npod v n k = Some w \<and> i_node v' n \<noteq> None) \<and>
     (\<forall>n k w. i_nheld v' n k = Some w \<longrightarrow> i_nheld v n k = Some w) \<and>
     (\<forall>f. i_func v' f = None \<or> i_func v' f = i_func v f) \<and>
     (\<forall>f k w. i_fpod v' f k = Some w \<longrightarrow> i_fpod v f k = Some w \<and> i_func v' f \<noteq> None) \<and>
     (\<forall>f k w. i_fheld v' f k = Some w \<longrightarrow> i_fheld v f k = Some w) \<and>
     i_next v' = i_next v"

lemma copy_ok_shrinks: "copy_ok v own q k w \<Longrightarrow> shrinks v v' \<Longrightarrow> copy_ok v' own q k w"
  unfolding copy_ok_def shrinks_def by (intro conjI allI impI) (simp_all, blast)

lemma idx_ok_shrinks:
  assumes ok: "idx_ok v" and s: "shrinks v v'"
  shows "idx_ok v'"
proof -
  have pod: "i_pod v' k = Some w \<Longrightarrow> i_pod v k = Some w" for k w using s by (simp add: shrinks_def)
  have node: "i_node v' n = Some nm \<Longrightarrow> i_node v n = Some nm" "i_func v' n = Some nm \<Longrightarrow> i_func v n = Some nm" for n nm
    using s unfolding shrinks_def by (metis option.distinct(1))+
  have held: "i_nheld v n k = None \<Longrightarrow> i_nheld v' n k = None" "i_fheld v n k = None \<Longrightarrow> i_fheld v' n k = None" for n k
    using s unfolding shrinks_def by (metis not_None_eq)+
  have copies: "i_npod v' n k = Some w \<Longrightarrow> i_npod v n k = Some w \<and> i_node v' n \<noteq> None"
    "i_nheld v' n k = Some w \<Longrightarrow> i_nheld v n k = Some w"
    "i_fpod v' n k = Some w \<Longrightarrow> i_fpod v n k = Some w \<and> i_func v' n \<noteq> None"
    "i_fheld v' n k = Some w \<Longrightarrow> i_fheld v n k = Some w" "i_next v' = i_next v" for n k w
    using s by (simp_all add: shrinks_def)
  note D = idx_okD[OF ok] and C = copy_ok_shrinks[OF _ s]
  show ?thesis unfolding idx_ok_def
    by (intro conjI allI impI)
      (use pod node held copies D C in \<open>simp_all\<close>, (use pod D in metis)+)
qed

text \<open>A worker entered in all the maps that concern it.\<close>

definition put_table :: "WorkerPod \<Rightarrow> Idx \<Rightarrow> Idx" where
  "put_table w v = v\<lparr>i_pod := (i_pod v)(PodKey (wp_pod w) \<mapsto> w)\<rparr>"

definition put_node :: "WorkerPod \<Rightarrow> Idx \<Rightarrow> Idx" where
  "put_node w v = (let n = node_of w; k = PodKey (wp_pod w) in
     if i_node v n \<noteq> None then v\<lparr>i_npod := (i_npod v)(n := (i_npod v n)(k \<mapsto> w))\<rparr>
     else v\<lparr>i_nheld := (i_nheld v)(n := (i_nheld v n)(k \<mapsto> w))\<rparr>)"

definition put_func :: "WorkerPod \<Rightarrow> Idx \<Rightarrow> Idx" where
  "put_func w v = (let f = func_of w; k = PodKey (wp_pod w) in
     if i_func v f \<noteq> None then v\<lparr>i_fpod := (i_fpod v)(f := (i_fpod v f)(k \<mapsto> w))\<rparr>
     else v\<lparr>i_fheld := (i_fheld v)(f := (i_fheld v f)(k \<mapsto> w))\<rparr>)"

abbreviation put_pod :: "WorkerPod \<Rightarrow> Idx \<Rightarrow> Idx" where
  "put_pod w v \<equiv> put_func w (put_node w (put_table w v))"

lemma put_fields:
  "i_pod (put_pod w v) = (i_pod v)(PodKey (wp_pod w) \<mapsto> w)"
  "i_node (put_pod w v) = i_node v" "i_func (put_pod w v) = i_func v" "i_next (put_pod w v) = i_next v"
  "i_npod (put_pod w v) n k = (if i_node v n \<noteq> None \<and> n = node_of w \<and> k = PodKey (wp_pod w) then Some w else i_npod v n k)"
  "i_nheld (put_pod w v) n k = (if i_node v n = None \<and> n = node_of w \<and> k = PodKey (wp_pod w) then Some w else i_nheld v n k)"
  "i_fpod (put_pod w v) n k = (if i_func v n \<noteq> None \<and> n = func_of w \<and> k = PodKey (wp_pod w) then Some w else i_fpod v n k)"
  "i_fheld (put_pod w v) n k = (if i_func v n = None \<and> n = func_of w \<and> k = PodKey (wp_pod w) then Some w else i_fheld v n k)"
  by (auto simp: put_func_def put_node_def put_table_def Let_def)

abbreviation fresh :: "Idx \<Rightarrow> Idx" where
  "fresh v \<equiv> v\<lparr>i_next := Suc (i_next v)\<rparr>"

lemma copy_ok_put:
  "wp_ref w = i_next v \<Longrightarrow> copy_ok v own q k w' \<Longrightarrow> k \<noteq> PodKey (wp_pod w) \<or> own w \<noteq> q \<Longrightarrow> copy_ok (put_pod w (fresh v)) own q k w'"
  by (auto simp: copy_ok_def put_fields)

lemma copy_ok_new:
  "idx_ok v \<Longrightarrow> wp_ref w = i_next v \<Longrightarrow> copy_ok (put_pod w (fresh v)) own (own w) (PodKey (wp_pod w)) w"
  using idx_okD(2)[of v] by (fastforce simp: copy_ok_def put_fields)

lemma idx_ok_fresh: "idx_ok v \<Longrightarrow> idx_ok (fresh v)"
  by (auto simp: idx_ok_def copy_ok_def less_SucI)

lemma idx_ok_put:
  assumes ok: "idx_ok v" and w: "wp_ref w = i_next v"
  shows "idx_ok (put_pod w (fresh v))"
proof -
  let ?v = "put_pod w (fresh v)" and ?k = "PodKey (wp_pod w)"
  note D = idx_okD[OF ok]
  have less: "i_pod v k = Some w' \<Longrightarrow> wp_ref w' < i_next v" for k w' using D(2) .
  have node: "i_npod ?v n k = Some w' \<Longrightarrow> i_node ?v n \<noteq> None \<and> copy_ok ?v node_of n k w'"
    "i_nheld ?v n k = Some w' \<Longrightarrow> copy_ok ?v node_of n k w'" for n k w'
    using D(8)[of n k w'] D(9,10)[of n k w', THEN copy_ok_put[OF w]] copy_ok_new[OF ok w, of node_of] D(5)[of n _ k]
    by (cases "n = node_of w \<and> k = ?k"; force simp: put_fields split: if_splits)+
  have func: "i_fpod ?v n k = Some w' \<Longrightarrow> i_func ?v n \<noteq> None \<and> copy_ok ?v func_of n k w'"
    "i_fheld ?v n k = Some w' \<Longrightarrow> copy_ok ?v func_of n k w'" for n k w'
    using D(11)[of n k w'] D(12,13)[of n k w', THEN copy_ok_put[OF w]] copy_ok_new[OF ok w, of func_of] D(7)[of n _ k]
    by (cases "n = func_of w \<and> k = ?k"; force simp: put_fields split: if_splits)+
  have table: "PodKey (wp_pod w') = k \<and> wp_ref w' < i_next ?v" if "i_pod ?v k = Some w'" for k w'
    using that D(1) less[of k w'] w by (auto simp: put_fields split: if_splits)
  have inj: "k = k'" if "i_pod ?v k = Some w1" "i_pod ?v k' = Some w2" "wp_ref w1 = wp_ref w2" for k k' w1 w2
    using that D(3) less[of k w1] less[of k' w2] w by (auto simp: put_fields split: if_splits)
  have names: "i_node ?v n = Some nm \<Longrightarrow> nm = n \<and> (\<forall>k. i_nheld ?v n k = None)"
    "i_func ?v n = Some nm \<Longrightarrow> nm = n \<and> (\<forall>k. i_fheld ?v n k = None)" for n nm
    using D(4-7) by (auto simp: put_fields)
  show ?thesis
    unfolding idx_ok_def using table inj names node func by (intro conjI) blast+
qed

section \<open>Pods\<close>

lemma h_WorkerPod_New_idx:
  "hoare (\<lambda>s. idx s = v) (h_WorkerPod_New pod) (\<lambda>w s. idx s = fresh v \<and> wp_ref w = i_next v \<and> wp_pod w = pod) (\<lambda>_. False)"
  unfolding h_WorkerPod_New_def
  by (rule hoareI)
    (auto simp: act_simps on_rt_def idx_def WorkerPod_New_ref split: prod.splits dest: WorkerPod_New_ref)

lemma upd_node_idx:
  assumes "\<And>ns ns'. f ns = Ok ns' \<Longrightarrow> ns_node ns' = ns_node ns \<and> (\<forall>k. bt_get k (ns_pods ns') = g k (bt_get k (ns_pods ns)))"
    and "\<And>ns e. f ns \<noteq> Err e"
  shows "hoare (\<lambda>s. idx s = v) (upd_node n f)
    (\<lambda>_ s. idx s = (if i_node v n \<noteq> None then v\<lparr>i_npod := (i_npod v)(n := (\<lambda>k. g k (i_npod v n k)))\<rparr> else v)) (\<lambda>_. False)"
  unfolding upd_node_def
  by (rule hoareI) (auto simp: act_simps idx_def fun_eq_iff assms split: option.splits res.splits dest: assms(1))

lemma upd_func_idx:
  assumes "\<And>fs. fs_func (f fs) = fs_func fs \<and> (\<forall>k. bt_get k (fs_pods (f fs)) = g k (bt_get k (fs_pods fs)))"
  shows "hoare (\<lambda>s. idx s = v) (upd_func n f)
    (\<lambda>_ s. idx s = (if i_func v n \<noteq> None then v\<lparr>i_fpod := (i_fpod v)(n := (\<lambda>k. g k (i_fpod v n k)))\<rparr> else v)) (\<lambda>_. False)"
  unfolding upd_func_def
  by (rule hoareI) (auto simp: act_simps idx_def fun_eq_iff assms split: option.splits)

lemma hoare_pure: "(A \<Longrightarrow> hoare P m Q E) \<Longrightarrow> hoare (\<lambda>s. P s \<and> A) m Q E"
  by (simp add: hoare_def)

lemma hoare_aget_any: "(\<And>x. hoare P (g x) Q E) \<Longrightarrow> hoare P (abind (aget f) g) Q E"
  by (simp add: hoare_def abind_run)

lemma hoare_drop_error: "hoare P m Q (\<lambda>_. False) \<Longrightarrow> hoare P m Q E"
  by (erule hoare_weaken) auto

lemma abind_aseq: "abind m (\<lambda>x. aseq (f x) n) = aseq (abind m f) n"
  by (rule ext) (simp add: act_simps split: prod.splits res.splits)

text \<open>A step that leaves the view alone, in front of the rest of a handler.\<close>

lemma frame_aseq:
  assumes "\<And>v. keeps (\<lambda>s. idx s = v) m" "noerr m" "hoare (\<lambda>s. idx s = v) n Q E"
  shows "hoare (\<lambda>s. idx s = v) (aseq m n) Q E"
  by (rule hoare_aseq[OF hoare_drop_error[OF frame_step[OF assms(1,2)]] assms(3)])

lemma frame_abind:
  assumes "\<And>v. keeps (\<lambda>s. idx s = v) m" "noerr m" "\<And>x. hoare (\<lambda>s. idx s = v) (n x) Q E"
  shows "hoare (\<lambda>s. idx s = v) (abind m n) Q E"
  by (rule hoare_abind[OF hoare_drop_error[OF frame_step[OF assms(1,2)]] assms(3)])

lemma put_table_step:
  assumes "PodKey (wp_pod w) = k" "hoare (\<lambda>s. idx s = put_table w v) m Q E"
  shows "hoare (\<lambda>s. idx s = v) (aseq (amod (\<lambda>s. s\<lparr>pods := bt_insert k w (pods s)\<rparr>)) m) Q E"
  by (rule hoare_aseq[OF _ assms(2)])
    (rule hoareI; auto simp: idx_def put_table_def assms(1)[symmetric] fun_eq_iff)

definition enters_node :: "WorkerPod \<Rightarrow> (NodeStatus \<Rightarrow> (NodeStatus, error) res) \<Rightarrow> bool" where
  "enters_node w f \<longleftrightarrow> (\<forall>ns ns'. f ns = Ok ns' \<longrightarrow>
     ns_node ns' = ns_node ns \<and> ns_pods ns' = bt_insert (PodKey (wp_pod w)) w (ns_pods ns)) \<and> (\<forall>ns e. f ns \<noteq> Err e)"

lemma put_node_step:
  assumes "n = node_of w" and f: "enters_node w f" and m: "hoare (\<lambda>s. idx s = put_node w v) m Q E"
  shows "hoare (\<lambda>s. idx s = v) (abind (aget (\<lambda>s. bt_contains n (nodes s)))
    (\<lambda>b. aseq (if b then upd_node n f else hold_node_pod n w) m)) Q E"
proof -
  let ?u = "upd_node n f :: ('a, unit) handler"
  have upd: "hoare (\<lambda>s. idx s = v) ?u (\<lambda>_ s. idx s =
      (if i_node v n \<noteq> None then v\<lparr>i_npod := (i_npod v)(n := (\<lambda>k. if k = PodKey (wp_pod w) then Some w else i_npod v n k))\<rparr> else v)) (\<lambda>_. False)"
    by (rule upd_node_idx) (use f in \<open>auto simp: enters_node_def\<close>)
  have "hoare (\<lambda>s. idx s = v) (abind (aget (\<lambda>s. bt_contains n (nodes s)))
      (\<lambda>b. if b then ?u else hold_node_pod n w)) (\<lambda>_ s. idx s = put_node w v) E"
  proof (rule hoare_aget_bind)
    fix s0 :: "'a SchedulerHandler"
    show "hoare (\<lambda>s. idx s = v \<and> s = s0) (if bt_contains n (nodes s0) then ?u else hold_node_pod n w)
        (\<lambda>_ s. idx s = put_node w v) E"
    proof (cases "bt_contains n (nodes s0)")
      case True
      have "hoare (\<lambda>s. idx s = v \<and> s = s0) ?u (\<lambda>_ s. idx s = put_node w v) E"
      proof (cases "idx s0 = v")
        case v: True
        then have "i_node v n \<noteq> None" using True by (auto simp: idx_def bt_contains_def)
        then show ?thesis
          by (intro hoare_weaken[OF upd]) (auto simp: put_node_def assms(1) Let_def fun_eq_iff fun_upd_def)
      qed (simp add: hoare_def)
      then show ?thesis using True by simp
    next
      case False
      then show ?thesis
        by (auto simp: hoare_def hold_node_pod_def put_node_def idx_def bt_contains_def assms(1) Let_def fun_eq_iff)
    qed
  qed
  then show ?thesis unfolding abind_aseq using m by (rule hoare_aseq)
qed

lemma enters_node_add: "enters_node w (\<lambda>ns. Node_AddPod ns w)"
  by (auto simp: enters_node_def Node_AddPod_def Let_def res_simps split: option.splits)

lemma enters_node_update: "enters_node w (node_update w old)"
  by (auto simp: enters_node_def node_update_def Node_UpdatePod_def Let_def res_simps split: if_splits)

definition entered :: "Idx \<Rightarrow> FuncPod \<Rightarrow> 'l SchedulerHandler \<Rightarrow> bool" where
  "entered v pod s \<longleftrightarrow> (\<exists>w. wp_ref w = i_next v \<and> wp_pod w = pod \<and> idx s = put_pod w (fresh v))"

lemma entered_ok: "idx_ok v \<Longrightarrow> entered v pod s \<Longrightarrow> sched_ok s"
  by (auto simp: entered_def sched_ok_def idx_ok_put)

lemma put_func_add:
  assumes "k = func_of w" "PodKey (wp_pod w) = p"
  shows "hoare (\<lambda>s. idx s = v) (abind (aget (\<lambda>s. bt_contains k (funcs s)))
    (\<lambda>b. if b then upd_func k (\<lambda>fs. fs\<lparr>fs_pendingPods := bt_remove p (fs_pendingPods fs),
                                      fs_pods := bt_insert p w (fs_pods fs)\<rparr>)
         else hold_func_pod k w)) (\<lambda>_ s. idx s = put_func w v) E"
  by (auto simp: hoare_def act_simps hold_func_pod_def upd_func_def put_func_def idx_def bt_contains_def
      Let_def fun_eq_iff assms(1) assms(2)[symmetric] split: option.splits)

lemma new_worker_step:
  assumes "\<And>w. wp_ref w = i_next v \<Longrightarrow> wp_pod w = pod \<Longrightarrow> hoare (\<lambda>s. idx s = fresh v) (f w) Q E"
  shows "hoare (\<lambda>s. idx s = v) (abind (h_WorkerPod_New pod) f) Q E"
proof (rule hoare_abind[OF hoare_drop_error[OF h_WorkerPod_New_idx]])
  fix w
  show "hoare (\<lambda>s. idx s = fresh v \<and> wp_ref w = i_next v \<and> wp_pod w = pod) (f w) Q E"
    by (rule hoare_pure) (use assms in blast)
qed

lemma put_func_add_entered:
  assumes "wp_ref w = i_next v" "wp_pod w = pod"
  shows "hoare (\<lambda>s. idx s = put_node w (put_table w (fresh v))) (abind (aget (\<lambda>s. bt_contains (FuncKey pod) (funcs s)))
    (\<lambda>b. if b then upd_func (FuncKey pod) (\<lambda>fs. fs\<lparr>fs_pendingPods := bt_remove (PodKey pod) (fs_pendingPods fs),
                                      fs_pods := bt_insert (PodKey pod) w (fs_pods fs)\<rparr>)
         else hold_func_pod (FuncKey pod) w)) (\<lambda>_. entered v pod) (entered v pod)"
  by (rule hoare_weaken[OF put_func_add, where w1 = w]) (use assms in \<open>auto simp: entered_def\<close>)

lemmas idx_steps = new_worker_step hoare_aget_any frame_aseq frame_abind put_table_step put_node_step
  noerr_intros keeps_intros view_frame

lemma Sched_AddPod_idx:
  "hoare (\<lambda>s. idx s = v) (Sched_AddPod env pod) (\<lambda>_. entered v pod) (entered v pod)"
  unfolding Sched_AddPod_def Let_def
  by (rule idx_steps enters_node_add put_func_add_entered | simp; fail | assumption)+

lemma serve_queue_next: "serve_queue al t pm w q r = (q', r', out) \<Longrightarrow> next_ref (heap r') = next_ref (heap r)"
  by (induction al t pm w q r rule: serve_queue.induct)
    (auto simp: on_heap_def emit_def Let_def SetWorking_Ok dest!: gauge_inc_heap split: if_splits res.splits)

lemma Func_UpdatePod_quiet:
  assumes "Func_UpdatePod al t pm fs w r = (fs', r', out)" 
  shows "next_ref (heap r') = next_ref (heap r)" "fs_func fs' = fs_func fs" "fs_pods fs' = bt_insert (PodKey (wp_pod w)) w (fs_pods fs)"
  using assms by (auto simp: Func_UpdatePod_def Let_def dest: serve_queue_next split: if_splits prod.splits)

lemma put_func_update:
  assumes "wp_ref w = i_next v" "wp_pod w = pod"
  shows "hoare (\<lambda>s. idx s = put_node w (put_table w (fresh v))) (abind (aget (\<lambda>s. bt_get (FuncKey pod) (funcs s)))
    (\<lambda>f. case f of
            None \<Rightarrow> hold_func_pod (FuncKey pod) w
          | Some fs \<Rightarrow> abind (func_update env (FuncKey pod) fs w) (\<lambda>idle. awhen idle (idle_put env k))))
    (\<lambda>_. entered v pod) (entered v pod)"
proof -
  have upd: "idx (s\<lparr>funcs := bt_insert (FuncKey pod) fs' (funcs s), rt := r'\<rparr>) = put_func w (idx s)"
    if "bt_get (FuncKey pod) (funcs s) = Some fs" "Func_UpdatePod al t pm fs w (rt s) = (fs', r', out)" for s :: "'a SchedulerHandler" and fs fs' r' al t pm out
    using that(1) Func_UpdatePod_quiet[OF that(2)] assms(2)
    by (auto simp: idx_def put_func_def Let_def fun_eq_iff)
  have hold: "idx (s\<lparr>funcPods := nested_insert (FuncKey pod) (PodKey pod) w (funcPods s)\<rparr>) = put_func w (idx s)"
    if "bt_get (FuncKey pod) (funcs s) = None" for s :: "'a SchedulerHandler"
    using that assms(2) by (auto simp: idx_def put_func_def Let_def fun_eq_iff)
  have "hoare (\<lambda>s. idx s = put_node w (put_table w (fresh v)) \<and> bt_get (FuncKey pod) (funcs s) = Some fs)
      (func_update env (FuncKey pod) fs w) (\<lambda>_. entered v pod) (entered v pod)" for fs and env :: "'a Env"
    unfolding func_update_def
    by (rule hoareI) (auto simp: act_simps upd entered_def assms intro!: exI[of _ w] split: prod.splits)
  moreover have "keeps (entered v pod) (awhen idle (idle_put env k))" for idle and env :: "'a Env"
    unfolding entered_def by (rule keeps_frame, intro keeps_intros view_frame)
  ultimately have found: "hoare (\<lambda>s. idx s = put_node w (put_table w (fresh v)) \<and> bt_get (FuncKey pod) (funcs s) = Some fs)
      (abind (func_update env (FuncKey pod) fs w) (\<lambda>idle. awhen idle (idle_put env k))) (\<lambda>_. entered v pod) (entered v pod)" for fs
    unfolding keeps_def by (rule hoare_abind)
  have none: "hoare (\<lambda>s. idx s = put_node w (put_table w (fresh v)) \<and> bt_get (FuncKey pod) (funcs s) = None)
      (hold_func_pod (FuncKey pod) w :: ('a, unit) handler) (\<lambda>_. entered v pod) (entered v pod)"
    by (rule hoareI) (auto simp: hold_func_pod_def hold entered_def assms intro!: exI[of _ w])
  show ?thesis
  proof (rule hoare_aget_bind)
    fix s0
    show "hoare (\<lambda>s. idx s = put_node w (put_table w (fresh v)) \<and> s = s0) (case bt_get (FuncKey pod) (funcs s0) of
            None \<Rightarrow> hold_func_pod (FuncKey pod) w
          | Some fs \<Rightarrow> abind (func_update env (FuncKey pod) fs w) (\<lambda>idle. awhen idle (idle_put env k)))
        (\<lambda>_. entered v pod) (entered v pod)"
      by (cases "bt_get (FuncKey pod) (funcs s0)") (auto intro: hoare_pre[OF none] hoare_pre[OF found])
  qed
qed

lemma noerr_keep_lease [noerr_intros]: "noerr (keep_lease old w)"
  unfolding keep_lease_def by (intro noerr_intros)

lemma Sched_UpdatePod_idx:
  "hoare (\<lambda>s. idx s = v) (Sched_UpdatePod env pod) (\<lambda>_. entered v pod) (entered v pod)"
  unfolding Sched_UpdatePod_def Let_def
  by (rule new_worker_step hoare_aget_any hoare_option hoare_apanic frame_aseq put_table_step put_node_step put_func_update
      enters_node_update noerr_keep_lease view_frame | simp; fail | assumption)+


lemma entered_keeps: "(\<And>v. hoare (\<lambda>s. idx s = v) m (\<lambda>_. entered v pod) (entered v pod)) \<Longrightarrow> keeps sched_ok m"
proof (rule hoare_keeps)
  assume m: "\<And>v. hoare (\<lambda>s. idx s = v) m (\<lambda>_. entered v pod) (entered v pod)"
  show "hoare sched_ok m (\<lambda>_. sched_ok) sched_ok"
    by (rule hoareI) (use hoareD[OF m refl] hoareD_Err[OF m refl] in \<open>blast intro: entered_ok dest: sched_ok_def[THEN iffD1]\<close>)+
qed

lemma pods_ok [ok_intros]: "keeps sched_ok (Sched_AddPod env pod)" "keeps sched_ok (Sched_UpdatePod env pod)"
  by (rule entered_keeps, rule Sched_AddPod_idx Sched_UpdatePod_idx)+

lemma shrink_ok: "(\<And>s. shrinks (idx s) (idx (f s))) \<Longrightarrow> keeps sched_ok (amod f)"
  by (rule keeps_amod) (auto simp: sched_ok_def intro: idx_ok_shrinks)

lemma pods_remove_ok [ok_intros]: "keeps sched_ok (amod (\<lambda>s. s\<lparr>pods := bt_remove k (pods s)\<rparr>))"
  by (rule shrink_ok) (auto simp: shrinks_def idx_def split: option.splits if_splits)

lemma nodePods_remove_ok [ok_intros]: "keeps sched_ok (amod (\<lambda>s. s\<lparr>nodePods := bt_remove k (nodePods s)\<rparr>))"
  by (rule shrink_ok) (auto simp: shrinks_def idx_def nested_get_def split: option.splits if_splits)

lemma nodes_remove_ok [ok_intros]: "keeps sched_ok (amod (\<lambda>s. s\<lparr>nodes := bt_remove k (nodes s)\<rparr>))"
  by (rule shrink_ok) (auto simp: shrinks_def idx_def split: option.splits if_splits)

lemma func_remove_ok [ok_intros]:
  "keeps sched_ok (amod (\<lambda>s. s\<lparr>funcs := bt_remove key (funcs s), funcPods := bt_remove key (funcPods s),
               funcstatus := bt_remove key (funcstatus s), pendingsnapshots := bt_remove key (pendingsnapshots s)\<rparr>))"
  by (rule shrink_ok) (auto simp: shrinks_def idx_def nested_get_def split: option.splits if_splits)

definition node_drops :: "(NodeStatus \<Rightarrow> (NodeStatus, error) res) \<Rightarrow> bool" where
  "node_drops f \<longleftrightarrow> (\<forall>ns ns'. f ns = Ok ns' \<longrightarrow> ns_node ns' = ns_node ns \<and> (\<exists>ks. ns_pods ns' = drop_keys ks (ns_pods ns)))"

lemma bt_get_drop_keys [simp]: "bt_get k (drop_keys ks m) = (if k \<in> set ks then None else bt_get k m)"
  unfolding drop_keys_def by (induction ks arbitrary: m) auto

lemma upd_node_drops_ok [ok_intros]:
  assumes "node_drops f"
  shows "keeps sched_ok (upd_node n f)"
  unfolding keeps_iff
proof (intro allI impI)
  fix s :: "'l SchedulerHandler" and r s' assume s: "sched_ok s" "upd_node n f s = (r, s')" "r \<noteq> Panic"
  then have "s' = s \<or> (\<exists>ns ns'. bt_get n (nodes s) = Some ns \<and> f ns = Ok ns' \<and> s' = s\<lparr>nodes := bt_insert n ns' (nodes s)\<rparr>)"
    by (auto simp: upd_node_def act_simps split: option.splits res.splits)
  then show "sched_ok s'"
  proof (elim disjE exE conjE)
    fix ns ns' assume u: "bt_get n (nodes s) = Some ns" "f ns = Ok ns'" "s' = s\<lparr>nodes := bt_insert n ns' (nodes s)\<rparr>"
    then have "ns_node ns' = ns_node ns" "\<exists>ks. ns_pods ns' = drop_keys ks (ns_pods ns)"
      using assms by (auto simp: node_drops_def)
    then have "shrinks (idx s) (idx s')" using u(1,3) by (auto simp: shrinks_def idx_def split: option.splits if_splits)
    then show "sched_ok s'" using s(1) by (auto simp: sched_ok_def intro: idx_ok_shrinks)
  qed (use s in simp)
qed

lemma upd_func_drops_ok [ok_intros]: "keeps sched_ok (upd_func k (\<lambda>fs. Func_RemovePod fs p))"
  unfolding upd_func_def
  by (rule shrink_ok) (auto simp: shrinks_def idx_def Func_RemovePod_def split: option.splits if_splits)

lemma node_drops_remove: "node_drops (\<lambda>ns. Node_RemovePod ns k r)"
  by (auto simp: node_drops_def Node_RemovePod_def FreeResource_def Let_def res_simps drop_keys_def split: if_splits
      intro!: exI[of _ "[k]"])

lemmas frame_rules = keeps_intros view_frame iv.keeps_upd iv.obs_simps

lemma Sched_RemovePod_ok [ok_intros]: "keeps sched_ok (Sched_RemovePod env pod)"
  unfolding Sched_RemovePod_def Let_def by (intro keeps_intros ok_intros node_drops_remove; rule frame_ok; intro frame_rules)

section \<open>Functions and nodes\<close>

text \<open>A function or node becomes known and takes over the pods held for it.\<close>

lemma copy_ok_cong: "i_pod v' = i_pod v \<Longrightarrow> i_next v' = i_next v \<Longrightarrow> copy_ok v' = copy_ok v"
  by (simp add: copy_ok_def fun_eq_iff)

lemma idx_ok_know_func:
  assumes "idx_ok v" "i_func v f = None"
  shows "idx_ok (v\<lparr>i_func := (i_func v)(f \<mapsto> f), i_fpod := (i_fpod v)(f := i_fheld v f), i_fheld := (i_fheld v)(f := (\<lambda>_. None))\<rparr>)"
    (is "idx_ok ?v")
proof -
  note D = idx_okD[OF assms(1)]
  have c: "copy_ok ?v = copy_ok v" by (rule copy_ok_cong) simp_all
  show ?thesis
    unfolding idx_ok_def c
    by (intro conjI allI impI) (use D in \<open>auto split: if_splits\<close>)
qed

lemma idx_ok_know_node:
  assumes "idx_ok v" "i_node v n = None"
  shows "idx_ok (v\<lparr>i_node := (i_node v)(n \<mapsto> n), i_npod := (i_npod v)(n := i_nheld v n), i_nheld := (i_nheld v)(n := (\<lambda>_. None))\<rparr>)"
    (is "idx_ok ?v")
proof -
  note D = idx_okD[OF assms(1)]
  have c: "copy_ok ?v = copy_ok v" by (rule copy_ok_cong) simp_all
  show ?thesis
    unfolding idx_ok_def c
    by (intro conjI allI impI) (use D in \<open>auto split: if_splits\<close>)
qed

lemma Sched_AddFunc_ok [ok_intros]: "keeps sched_ok (Sched_AddFunc spec)"
  unfolding keeps_iff
proof (intro allI impI)
  fix s :: "'l SchedulerHandler" and r s'
  let ?f = "Function_Id spec"
  let ?ps = "case bt_get ?f (funcPods s) of None \<Rightarrow> [] | Some m \<Rightarrow> m"
  assume s: "sched_ok s" "Sched_AddFunc spec s = (r, s')" "r \<noteq> Panic"
  show "sched_ok s'"
  proof (cases "bt_get ?f (funcs s)")
    case None
    then have "s' = s\<lparr>funcPods := bt_remove ?f (funcPods s), funcs := bt_insert ?f
        \<lparr>fs_func = spec, fs_pods = ?ps, fs_pendingPods = [], fs_stoppingPods = [], leaseWorkerReqs = []\<rparr> (funcs s)\<rparr>"
      using s(2) by (auto simp: Sched_AddFunc_def Let_def act_simps bt_contains_def FuncStatus_New_def)
    then have "idx s' = (idx s)\<lparr>i_func := (i_func (idx s))(?f \<mapsto> ?f), i_fpod := (i_fpod (idx s))(?f := i_fheld (idx s) ?f),
        i_fheld := (i_fheld (idx s))(?f := (\<lambda>_. None))\<rparr>"
      by (auto simp: idx_def fun_eq_iff nested_get_def split: option.splits)
    then show ?thesis using idx_ok_know_func[of "idx s" ?f] s(1) None by (simp add: sched_ok_def) (simp add: idx_def)
  qed (use s in \<open>simp add: Sched_AddFunc_def Let_def act_simps bt_contains_def\<close>)
qed

lemma know_node_ok:
  assumes "sched_ok s" "bt_get (do_name node) (nodes s) = None"
    and "NodeStatus_New t node tot (case bt_get (do_name node) (nodePods s) of None \<Rightarrow> [] | Some m \<Rightarrow> m) = Ok ns"
  shows "sched_ok (s\<lparr>nodePods := bt_remove (do_name node) (nodePods s), nodes := bt_insert (do_name node) ns (nodes s)\<rparr>)" (is "sched_ok ?s'")
proof -
  let ?n = "do_name node"
  have "idx ?s' = (idx s)\<lparr>i_node := (i_node (idx s))(?n \<mapsto> ?n), i_npod := (i_npod (idx s))(?n := i_nheld (idx s) ?n),
      i_nheld := (i_nheld (idx s))(?n := (\<lambda>_. None))\<rparr>"
    using NodeStatus_New_Ok[OF assms(3)] by (auto simp: idx_def fun_eq_iff nested_get_def split: option.splits)
  then show ?thesis using idx_ok_know_node[of "idx s" ?n] assms(1,2) by (simp add: sched_ok_def) (simp add: idx_def)
qed

lemma Sched_AddNode_ok [ok_intros]: "keeps sched_ok (Sched_AddNode env node)"
  by (rule Sched_AddNode_rule; (rule know_node_ok | rule frame_ok; intro frame_rules))

lemma Sched_UpdateNode_ok [ok_intros]: "keeps sched_ok (Sched_UpdateNode node)"
proof -
  have same: "idx (s\<lparr>nodes := bt_insert (do_name node) (ns\<lparr>ns_state := st, ns_node := node\<rparr>) (nodes s)\<rparr>) = idx s"
    if "sched_ok s" "bt_get (do_name node) (nodes s) = Some ns" for s :: "'a SchedulerHandler" and ns st
  proof -
    have "do_name (ns_node ns) = do_name node"
      using that idx_okD(4)[of "idx s" "do_name node"] by (auto simp: sched_ok_def idx_def)
    then show ?thesis using that(2) by (auto simp: idx_def fun_eq_iff)
  qed
  show ?thesis
    unfolding keeps_iff Sched_UpdateNode_def Let_def
    by (auto simp: upd_node_def act_simps same sched_ok_def[of "_\<lparr>nodes := _\<rparr>"] sched_ok_def[symmetric] split: option.splits)
qed

lemma Sched_RemoveFunc_ok [ok_intros]: "keeps sched_ok (Sched_RemoveFunc env spec)"
  unfolding Sched_RemoveFunc_def Let_def by (intro keeps_intros ok_intros; rule frame_ok; intro frame_rules)

lemma Sched_RemoveNode_ok [ok_intros]: "keeps sched_ok (Sched_RemoveNode node)"
  unfolding Sched_RemoveNode_def Let_def by (intro keeps_intros ok_intros; rule frame_ok; intro frame_rules)

text \<open>The restart of a node's agent drops the pods that were neither ready nor on standby.\<close>

lemma reconcile_shrinks:
  assumes "bt_get n (nodes s) = Some ns0"
  shows "shrinks (idx s) (idx (s\<lparr>
         nodes := bt_insert n (ns0\<lparr>ns_pods := drop_keys gone (ns_pods ns0), ns_pendingPods := [], ns_stoppingPods := []\<rparr>) (nodes s),
         funcs := map (\<lambda>(k, fs). (k, fs\<lparr>fs_pendingPods := drop_keys gone (fs_pendingPods fs),
                    fs_stoppingPods := drop_keys gone (fs_stoppingPods fs), fs_pods := drop_keys gone (fs_pods fs)\<rparr>)) (funcs s),
         pods := drop_keys gone (pods s),
         nodePods := map (\<lambda>(k, m). (k, if k = n then drop_keys gone m else m)) (nodePods s),
         funcPods := map (\<lambda>(k, m). (k, drop_keys gone m)) (funcPods s)\<rparr>))"
  using assms
  by (auto simp: shrinks_def idx_def nested_get_def bt_get_map_values option.map_comp comp_def split: option.splits if_splits)

lemma ReconcileNode_ok [ok_intros]: "keeps sched_ok (ReconcileNodeAfterNodeAgentRestart env n node)"
proof (rule ReconcileNode_rule)
  show "keeps sched_ok (aseq (aiter (sync_worker env) ws) (RemovePendingSnapshots_of_node n))" for ws
    by (rule frame_ok; intro frame_rules)
qed (auto simp: sched_ok_def iv.obs_node intro: idx_ok_shrinks[OF _ reconcile_shrinks])

section \<open>Every round\<close>

lemma idx_phase:
  "idx (s\<lparr>listDone := b\<rparr>) = idx s" "idx (s\<lparr>warmupComplete := b\<rparr>) = idx s"
  "idx (s\<lparr>warmupStartTime := t, warmupComplete := b\<rparr>) = idx s" "idx (mark_list ty s) = idx s"
  by (cases ty; simp add: idx_def)+

lemma ListDone_idx: "keeps (\<lambda>s. idx s = v) (ListDone env ty)"
  unfolding ListDone_def by (intro frame_rules idx_phase)

lemma CompleteWarmup_idx:
  "keeps (\<lambda>s. idx s = v) (CompleteWarmupAfterConnect env)" "keeps (\<lambda>s. idx s = v) (CheckAndCompleteWarmup env)"
  unfolding CheckAndCompleteWarmup_def CompleteWarmupAfterConnect_def by (intro frame_rules idx_phase)+

interpretation ok: sched_inv idx idx_ok
proof (unfold_locales, fold sched_ok_def)
  show "keeps sched_ok (ProcessMsg env (ConnectScheduler g ws tx))" for env g ws tx
    unfolding ProcessMsg.simps by (rule frame_ok; intro frame_rules CompleteWarmup_idx)
qed (intro ok_intros frame_ok ListDone_idx CompleteWarmup_idx)+

lemma sched_ok_default: "sched_ok (SchedulerHandler_default env pm r)"
  by (auto simp: sched_ok_def idx_ok_def idx_def SchedulerHandler_default_def nested_get_def)

section \<open>The maps agree\<close>

lemma sched_okD:
  assumes "sched_ok s"
  shows "bt_get k (pods s) = Some w \<Longrightarrow> PodKey (wp_pod w) = k"
    "bt_get k (pods s) = Some w \<Longrightarrow> bt_get k' (pods s) = Some w' \<Longrightarrow> wp_ref w = wp_ref w' \<Longrightarrow> k = k'"
    "bt_get n (nodes s) = Some ns \<Longrightarrow> do_name (ns_node ns) = n" "bt_get n (nodes s) = Some ns \<Longrightarrow> nested_get (nodePods s) n k = None"
    "bt_get f (funcs s) = Some fs \<Longrightarrow> Function_Id (fs_func fs) = f" "bt_get f (funcs s) = Some fs \<Longrightarrow> nested_get (funcPods s) f k = None"
    "bt_get n (nodes s) = Some ns \<Longrightarrow> bt_get k (ns_pods ns) = Some w \<Longrightarrow> copy_ok (idx s) node_of n k w"
    "bt_get f (funcs s) = Some fs \<Longrightarrow> bt_get k (fs_pods fs) = Some w \<Longrightarrow> copy_ok (idx s) func_of f k w"
proof -
  note D = idx_okD[OF assms[unfolded sched_ok_def]]
  show "bt_get k (pods s) = Some w \<Longrightarrow> PodKey (wp_pod w) = k" using D(1)[of k w] by (simp add: idx_def)
  show "bt_get k (pods s) = Some w \<Longrightarrow> bt_get k' (pods s) = Some w' \<Longrightarrow> wp_ref w = wp_ref w' \<Longrightarrow> k = k'"
    using D(3)[of k w k' w'] by (simp add: idx_def)
  show "bt_get n (nodes s) = Some ns \<Longrightarrow> do_name (ns_node ns) = n" "bt_get n (nodes s) = Some ns \<Longrightarrow> nested_get (nodePods s) n k = None"
    using D(4,5)[of n] by (simp_all add: idx_def)
  show "bt_get f (funcs s) = Some fs \<Longrightarrow> Function_Id (fs_func fs) = f" "bt_get f (funcs s) = Some fs \<Longrightarrow> nested_get (funcPods s) f k = None"
    using D(6,7)[of f] by (simp_all add: idx_def)
  show "bt_get n (nodes s) = Some ns \<Longrightarrow> bt_get k (ns_pods ns) = Some w \<Longrightarrow> copy_ok (idx s) node_of n k w"
    using D(9)[of n k w] by (simp add: idx_def)
  show "bt_get f (funcs s) = Some fs \<Longrightarrow> bt_get k (fs_pods fs) = Some w \<Longrightarrow> copy_ok (idx s) func_of f k w"
    using D(12)[of f k w] by (simp add: idx_def)
qed

lemma copy_ok_pods: "copy_ok (idx s) own q k w \<Longrightarrow> PodKey (wp_pod w) = k \<and> own w = q \<and>
    (\<forall>w'. bt_get k (pods s) = Some w' \<longrightarrow> own w' = q \<longrightarrow> w' = w)"
  by (simp add: copy_ok_def idx_def)


definition ex_inputs :: "(string list Env \<times> SchedInput) list" where
  "ex_inputs = [(ex_env 0, InEvent (EvAdded (FunctionObj ex_function))),
     (ex_env 1, InEvent (EvAdded (PodObj (ex_func_pod ''1'' PsStandby))))]"

lemma ex_keys: "Function_Id ex_function = ''t/n/f/1''" "PodKey (ex_func_pod ''1'' st) = ''t/n/f/1/1''" "FuncKey (ex_func_pod ''1'' st) = ''t/n/f/1''"
  "ps_nodename (podSpec (ex_func_pod i st)) = ''node1''" "podState (ex_func_pod i st) = st" "srcEpoch (ex_func_pod i st) = 0"
  "ps_create_type (podSpec (ex_func_pod i st)) = CreateNormal"
  by code_simp+

lemmas run_eval = act_simps Let_def SchedulerHandler_default_def bt_contains_def bt_get_Cons nested_get_def nested_insert_def
  on_rt_def h_State_def h_WorkerPod_New_def WorkerPod_New_def upd_func_def hold_node_pod_def hold_func_pod_def

lemma ex_run:
  "\<exists>s w. sched_run ex_inputs (SchedulerHandler_default (ex_env 0) ex_pm ex_rt) = (Ok (), s) \<and> pods s = [(''t/n/f/1/1'', w)] \<and>
   map fst (funcs s) = [''t/n/f/1''] \<and> nested_get (nodePods s) ''node1'' ''t/n/f/1/1'' = Some w"
  by (simp add: ex_inputs_def ex_keys run_eval Sched_AddFunc_def FuncStatus_New_def CheckNodeEpoch_def Sched_AddPod_def ex_rt_def)


end
