(* ===== verification/Sched_Phase.thy ===== *)
theory Sched_Phase
  imports Sched_Index
begin

text \<open>
  The start of the scheduler: it first waits until all six lists of objects have arrived, then for a
  gateway to connect or five seconds, and only then schedules. The part of the state that says how far
  it is, and that every round keeps it consistent.
\<close>

section \<open>The view\<close>

record Phase =
  p_lists :: bool
  p_listDone :: bool
  p_start :: "nat option"
  p_warm :: bool

definition phase :: "'l SchedulerHandler \<Rightarrow> Phase" where
  "phase s = \<lparr>p_lists = all_lists_done s, p_listDone = listDone s, p_start = warmupStartTime s, p_warm = warmupComplete s\<rparr>"

lemma phase_upd [simp]:
  "phase (s\<lparr>pods := a\<rparr>) = phase s" "phase (s\<lparr>nodes := b\<rparr>) = phase s" "phase (s\<lparr>nodePods := c\<rparr>) = phase s"
  "phase (s\<lparr>funcs := d\<rparr>) = phase s" "phase (s\<lparr>funcPods := c\<rparr>) = phase s" "phase (s\<lparr>rt := e\<rparr>) = phase s"
  by (simp_all add: phase_def all_lists_done_def)

interpretation pv: sched_view phase
  by unfold_locales (simp_all add: phase_def all_lists_done_def)

definition phase_inv :: "Phase \<Rightarrow> bool" where
  "phase_inv p \<longleftrightarrow> p_listDone p = p_lists p \<and> (p_start p \<noteq> None) = p_listDone p \<and> (p_warm p \<longrightarrow> p_listDone p)"

definition phase_ok :: "'l SchedulerHandler \<Rightarrow> bool" where
  "phase_ok s \<longleftrightarrow> phase_inv (phase s)"

lemma phase_frame: "(\<And>v. keeps (\<lambda>s. phase s = v) m) \<Longrightarrow> keeps phase_ok m"
  unfolding phase_ok_def by (rule keeps_frame)

section \<open>Handlers that only move pods\<close>

named_theorems phase_keeps \<open>handlers that leave the phase alone\<close>

lemma upd_node_phase [phase_keeps]: "keeps (\<lambda>s. phase s = v) (upd_node n f)"
  unfolding upd_node_def by (intro keeps_intros pv.keeps_upd phase_upd)

lemma upd_func_phase [phase_keeps]: "keeps (\<lambda>s. phase s = v) (upd_func n f)"
  unfolding upd_func_def by (rule pv.keeps_upd) (simp split: option.split)

lemma hold_phase [phase_keeps]: "keeps (\<lambda>s. phase s = v) (hold_node_pod n w)" "keeps (\<lambda>s. phase s = v) (hold_func_pod n w)"
  unfolding hold_node_pod_def hold_func_pod_def by (intro pv.keeps_upd phase_upd)+

lemma on_rt_phase [phase_keeps]: "keeps (\<lambda>s. phase s = v) (on_rt f)"
  unfolding on_rt_def by (intro pv.keeps_upd phase_upd)

lemma h_WorkerPod_New_phase [phase_keeps]: "keeps (\<lambda>s. phase s = v) (h_WorkerPod_New pod)"
  unfolding h_WorkerPod_New_def by (intro keeps_intros phase_keeps)

lemma func_update_phase [phase_keeps]: "keeps (\<lambda>s. phase s = v) (func_update env k fs w)"
  unfolding func_update_def by (intro keeps_intros pv.keeps_upd) simp

lemma Sched_AddPod_phase [phase_keeps]: "keeps (\<lambda>s. phase s = v) (Sched_AddPod env pod)"
  unfolding Sched_AddPod_def by (intro keeps_intros phase_keeps view_frame pv.keeps_upd phase_upd)

lemma Sched_UpdatePod_phase [phase_keeps]: "keeps (\<lambda>s. phase s = v) (Sched_UpdatePod env pod)"
  unfolding Sched_UpdatePod_def by (intro keeps_intros phase_keeps view_frame pv.keeps_upd phase_upd)

lemma Sched_RemovePod_phase [phase_keeps]: "keeps (\<lambda>s. phase s = v) (Sched_RemovePod env pod)"
  unfolding Sched_RemovePod_def by (intro keeps_intros phase_keeps view_frame pv.keeps_upd phase_upd pv.obs_simps)

lemma Sched_AddFunc_phase [phase_keeps]: "keeps (\<lambda>s. phase s = v) (Sched_AddFunc f)"
  unfolding Sched_AddFunc_def by (intro keeps_intros phase_keeps view_frame pv.keeps_upd phase_upd)

lemma Sched_RemoveFunc_phase [phase_keeps]: "keeps (\<lambda>s. phase s = v) (Sched_RemoveFunc env f)"
  unfolding Sched_RemoveFunc_def by (intro keeps_intros phase_keeps view_frame pv.keeps_upd) (simp add: pv.obs_simps)

lemma Sched_AddNode_phase [phase_keeps]: "keeps (\<lambda>s. phase s = v) (Sched_AddNode env node)"
  unfolding Sched_AddNode_def by (intro keeps_intros phase_keeps view_frame pv.keeps_upd phase_upd)

lemma Sched_UpdateNode_phase [phase_keeps]: "keeps (\<lambda>s. phase s = v) (Sched_UpdateNode node)"
  unfolding Sched_UpdateNode_def by (intro keeps_intros phase_keeps view_frame pv.keeps_upd phase_upd)

lemma ReconcileNode_phase [phase_keeps]: "keeps (\<lambda>s. phase s = v) (ReconcileNodeAfterNodeAgentRestart env n node)"
  unfolding ReconcileNodeAfterNodeAgentRestart_def by (intro keeps_intros phase_keeps view_frame pv.keeps_upd) simp_all

lemma Sched_RemoveNode_phase [phase_keeps]: "keeps (\<lambda>s. phase s = v) (Sched_RemoveNode node)"
  unfolding Sched_RemoveNode_def by (intro keeps_intros phase_keeps view_frame pv.keeps_upd phase_upd)

section \<open>Lists and warm-up\<close>

lemma all_lists_mark: "all_lists_done s \<Longrightarrow> all_lists_done (mark_list ty s)"
  by (cases ty) (auto simp: all_lists_done_def)

lemma mark_list_fields [simp]:
  "listDone (mark_list ty s) = listDone s" "warmupStartTime (mark_list ty s) = warmupStartTime s"
  "warmupComplete (mark_list ty s) = warmupComplete s"
  by (cases ty; simp)+

lemma i64_mul_no_Err: "(i64_mul a b :: (int, error) res) \<noteq> Err e"
  by (simp add: i64_mul_def)

lemma noerr_recover: "noerr (recover_standby_billing env)"
  unfolding recover_standby_billing_def start_standby_billing_def new_uuid_def Audit_tick_def
  by (intro noerr_intros noerr_aiter i64_mul_no_Err)

definition warming :: "'l SchedulerHandler \<Rightarrow> bool" where
  "warming s \<longleftrightarrow> p_lists (phase s) \<and> p_listDone (phase s)"

lemma warming_frame: "(\<And>v. keeps (\<lambda>s. phase s = v) m) \<Longrightarrow> keeps warming m"
  unfolding warming_def by (rule keeps_frame[where J = "\<lambda>p. p_lists p \<and> p_listDone p"])

lemma hoare_noerr: "keeps P m \<Longrightarrow> noerr m \<Longrightarrow> hoare P m (\<lambda>_. P) E"
  by (rule hoareI) (auto dest: keepsD simp: noerr_def)

lemma hoare_read_if:
  "(\<And>s. P s \<Longrightarrow> b s \<Longrightarrow> P1 s) \<Longrightarrow> (\<And>s. P s \<Longrightarrow> \<not> b s \<Longrightarrow> P2 s) \<Longrightarrow> hoare P1 m Q E \<Longrightarrow> hoare P2 n Q E \<Longrightarrow>
   hoare P (abind (aget b) (\<lambda>x. if x then m else n)) Q E"
  by (auto simp: hoare_def act_simps split: prod.splits res.splits)

lemma ListDone_phase: "keeps phase_ok (ListDone env ty)"
proof -
  have set: "phase_ok (s\<lparr>warmupStartTime := Some (now env), warmupComplete := False\<rparr>)" if "warming s" for s :: "'a SchedulerHandler"
    using that by (auto simp: phase_ok_def phase_inv_def phase_def all_lists_done_def warming_def)
  have all: "hoare all_lists_done (aseq (amod (\<lambda>s. s\<lparr>listDone := True\<rparr>))
      (aseq (recover_standby_billing env)
      (aseq (amod (\<lambda>s. s\<lparr>warmupStartTime := Some (now env), warmupComplete := False\<rparr>)) (ret True)))) (\<lambda>_. phase_ok) phase_ok"
    by (rule hoare_amod_aseq[where P' = warming], simp add: warming_def phase_def all_lists_done_def,
        rule hoare_aseq[OF hoare_noerr[OF warming_frame noerr_recover]], intro view_frame,
        rule hoare_amod_aseq[where P' = phase_ok], erule set, rule hoare_ret)
  have mark: "phase_ok (mark_list ty s) \<or> all_lists_done (mark_list ty s)" if "phase_ok s" for s :: "'a SchedulerHandler"
    using that all_lists_mark[of s ty] by (auto simp: phase_ok_def phase_inv_def phase_def)
  show ?thesis
    unfolding ListDone_def
    by (rule hoare_keeps, rule hoare_amod_aseq[where P' = "\<lambda>s. phase_ok s \<or> all_lists_done s"], erule mark,
        rule hoare_read_if[OF _ _ all hoare_ret], auto)
qed

text \<open>Warm-up ends only from a state in which the lists are complete.\<close>

lemma CompleteWarmup_phase: "hoare (\<lambda>s. phase_ok s \<and> listDone s) (CompleteWarmupAfterConnect env) (\<lambda>_. phase_ok) phase_ok"
proof -
  have "keeps phase_ok (aseq (RefreshScheduling env) (InitSnapshotTask env))"
    by (rule phase_frame) (intro keeps_intros view_frame)
  then show ?thesis
    unfolding CompleteWarmupAfterConnect_def keeps_def
    by (intro hoare_aget_any hoare_if hoare_amod_aseq[where P' = phase_ok])
      (auto simp: hoare_def phase_ok_def phase_inv_def phase_def all_lists_done_def)
qed

section \<open>Every round\<close>

lemma phase_okD: "phase_ok s \<Longrightarrow> listDone s = all_lists_done s" "phase_ok s \<Longrightarrow> (warmupStartTime s \<noteq> None) = listDone s"
  "phase_ok s \<Longrightarrow> warmupComplete s \<Longrightarrow> listDone s"
  by (auto simp: phase_ok_def phase_inv_def phase_def)

lemma CheckAndCompleteWarmup_phase: "keeps phase_ok (CheckAndCompleteWarmup env)"
proof (rule hoare_keeps, unfold CheckAndCompleteWarmup_def, rule hoare_aget_bind)
  fix s0 :: "'a SchedulerHandler"
  have "listDone s0" if "phase_ok s0" "warmupStartTime s0 = Some t0" for t0 using phase_okD(2)[OF that(1)] that(2) by simp
  then show "hoare (\<lambda>s. phase_ok s \<and> s = s0) (if warmupComplete (id s0) then ret () else asome (warmupStartTime (id s0))
      (\<lambda>t0. awhen (5 * SEC < now env - t0) (CompleteWarmupAfterConnect env))) (\<lambda>_. phase_ok) phase_ok"
    by (auto simp: asome_def hoare_def[of _ "ret ()"] split: option.split
      intro!: hoare_awhen hoare_pre[OF CompleteWarmup_phase] hoare_False)
qed

lemma ProcessConnect_phase: "keeps phase_ok (ProcessMsg env (ConnectScheduler g ws tx))"
proof -
  have "hoare phase_ok (ProcessConnectReq env g ws tx) (\<lambda>b s. phase_ok s \<and> (b \<longrightarrow> listDone s)) phase_ok"
  proof (rule hoareI)
    fix s :: "'a SchedulerHandler" and b s' assume s: "phase_ok s" "ProcessConnectReq env g ws tx s = (Ok b, s')"
    then have "phase s' = phase s" using keepsD[OF pv.ProcessConnectReq_view] by blast
    moreover have "b \<longrightarrow> listDone s"
      using s(2) by (auto simp: ProcessConnectReq_def abind_run aseq_run send_ok_def h_emit_def on_rt_def split: if_splits)
    ultimately show "phase_ok s' \<and> (b \<longrightarrow> listDone s')" using s(1) by (auto simp: phase_ok_def) (simp add: phase_def)
  qed (use keepsD[OF phase_frame[OF pv.ProcessConnectReq_view]] in blast)
  moreover have "hoare (\<lambda>s. phase_ok s \<and> (b \<longrightarrow> listDone s)) (awhen b (CompleteWarmupAfterConnect env)) (\<lambda>_. phase_ok) phase_ok" for b
    by (cases b) (auto simp: awhen_def hoare_def[of _ "ret ()"] CompleteWarmup_phase)
  ultimately show ?thesis unfolding ProcessMsg.simps keeps_def by (rule hoare_abind)
qed

interpretation ph: sched_inv phase phase_inv
proof (unfold_locales, fold phase_ok_def)
  show "keeps phase_ok (amod (\<lambda>s. s\<lparr>nodePods := bt_remove n (nodePods s)\<rparr>))" for n
    by (rule phase_frame) (intro pv.keeps_upd phase_upd)
qed (intro ListDone_phase ProcessConnect_phase CheckAndCompleteWarmup_phase | rule phase_frame, intro phase_keeps)+

lemma phase_ok_default: "phase_ok (SchedulerHandler_default env pm r)"
  by (simp add: phase_ok_def phase_inv_def phase_def all_lists_done_def SchedulerHandler_default_def)

text \<open>
  C34. Whatever the scheduler received, unless a round panicked: it considers its lists complete exactly
  when all six lists (nodes, functions, function states, pods, snapshots, policies) have arrived, the
  warm-up clock runs from then on, and the warm-up is over only after that; and while a list is missing, or the
  warm-up is neither over nor older than five seconds, the periodic round changes nothing, so it
  starts, stops and reclaims nothing on a partial view.
\<close>

theorem no_scheduling_before_lists:
  assumes "sched_run inputs (SchedulerHandler_default env0 pm r) = (out, s)" "out \<noteq> Panic"
  shows "(listDone s \<longleftrightarrow> nodeListDone s \<and> funcListDone s \<and> funcstatusListDone s \<and> funcPodListDone s \<and>
            snapshotListDone s \<and> funcpolicyDone s) \<and>
    (listDone s \<longleftrightarrow> warmupStartTime s \<noteq> None) \<and> (warmupComplete s \<longrightarrow> listDone s) \<and>
    (\<forall>env. \<not> warmupComplete s \<longrightarrow> \<not> listDone s \<or> now env \<le> the (warmupStartTime s) + 5 * SEC \<longrightarrow>
       ProcessInterval env s = (Ok (), s))"
proof -
  have ok: "phase_ok s" using ph.inv_run[folded phase_ok_def, OF phase_ok_default assms] .
  have "ProcessInterval env s = (Ok (), s)"
    if "\<not> warmupComplete s" "\<not> listDone s \<or> now env \<le> the (warmupStartTime s) + 5 * SEC" for env
    using that phase_okD(2)[OF ok]
    by (auto simp: ProcessInterval_def CheckAndCompleteWarmup_def act_simps split: option.splits)
  then show ?thesis using phase_okD[OF ok] by (auto simp: all_lists_done_def)
qed

definition ex_lists :: "(string list Env \<times> SchedInput) list" where
  "ex_lists = map (\<lambda>ty. (ex_env 7, InEvent (EvInitDone ty))) [''node_info'', ''function'', ''funcstatus'', ''pod'', ''snapshot'', ''funcpolicy'']"

theorem no_scheduling_before_lists_witness:
  "\<exists>s. sched_run ex_lists (SchedulerHandler_default (ex_env 0) ex_pm ex_rt) = (Ok (), s) \<and> listDone s \<and>
     ProcessInterval (ex_env SEC) s = (Ok (), s)"
proof -
  have "\<exists>s. sched_run ex_lists (SchedulerHandler_default (ex_env 0) ex_pm ex_rt) = (Ok (), s) \<and> listDone s \<and>
      \<not> warmupComplete s \<and> warmupStartTime s = Some 7"
    by (simp add: ex_lists_def act_simps list_type_of_def ListDone_def all_lists_done_def SchedulerHandler_default_def
      recover_standby_billing_def) (simp add: ex_env_def)
  then obtain s where s: "sched_run ex_lists (SchedulerHandler_default (ex_env 0) ex_pm ex_rt) = (Ok (), s)" "listDone s"
    "\<not> warmupComplete s" "warmupStartTime s = Some 7" by auto
  have "now (ex_env SEC) \<le> the (warmupStartTime s) + 5 * SEC" using s(4) by (simp add: ex_env_def)
  then show ?thesis using no_scheduling_before_lists[OF s(1)] s by blast
qed

end
