(* ===== verification/Sched_Sorted.thy ===== *)
theory Sched_Sorted
  imports Sched_Index
begin

text \<open>
  The scheduler's maps are \<open>BTreeMap\<close>s, modelled as lists of entries. Every round keeps the lists sorted by
  key, each key once, so that a list is what a \<open>BTreeMap\<close> iterates over and a lookup finds the only entry.
\<close>

section \<open>The view\<close>

definition inner_sorted :: "('v \<Rightarrow> (string, 'w) btmap) \<Rightarrow> (string, 'v) btmap \<Rightarrow> bool" where
  "inner_sorted f m \<longleftrightarrow> bt_ok m \<and> (\<forall>v \<in> set (bt_values m). bt_ok (f v))"

definition sorted_maps :: "'l SchedulerHandler \<Rightarrow> bool" where
  "sorted_maps s \<longleftrightarrow> bt_ok (pods s) \<and> inner_sorted ns_pods (nodes s) \<and> inner_sorted fs_pods (funcs s) \<and>
     inner_sorted id (nodePods s) \<and> inner_sorted id (funcPods s)"

lemma bt_ok_insert_iff: "bt_ok (bt_insert k v m) \<longleftrightarrow> bt_ok m"
proof
  show "bt_ok (bt_insert k v m) \<Longrightarrow> bt_ok m"
  proof (induction k v m rule: bt_insert.induct)
    case (2 k v k' v' m)
    then show ?case by (auto simp: bt_ok_Cons split: if_splits)
  qed simp
qed simp

lemma set_bt_insert: "set (bt_values (bt_insert k v m)) \<subseteq> insert v (set (bt_values m))"
  by (induction k v m rule: bt_insert.induct) (auto simp: bt_values_def)

lemma inner_sorted_insert: "inner_sorted f m \<Longrightarrow> bt_ok (f v) \<Longrightarrow> inner_sorted f (bt_insert k v m)"
  using set_bt_insert[of k v m] by (auto simp: inner_sorted_def)

lemma inner_sorted_get: "inner_sorted f m \<Longrightarrow> bt_get k m = Some v \<Longrightarrow> bt_ok (f v)"
  by (auto simp: inner_sorted_def dest: bt_get_Some_value)

lemma inner_sorted_replace:
  assumes "bt_get k m = Some v" "f v' = f v"
  shows "inner_sorted f (bt_insert k v' m) \<longleftrightarrow> inner_sorted f m"
proof -
  have "(\<forall>x \<in> set (bt_values (bt_insert k v' m)). bt_ok (f x)) \<longleftrightarrow> (\<forall>x \<in> set (bt_values m). bt_ok (f x))"
    using assms
  proof (induction k v' m rule: bt_insert.induct)
    case (2 k v' k1 v1 m)
    then show ?case by (auto simp: bt_values_def bt_get_Cons split: if_splits) (force dest: bt_get_Some_mem)+
  qed simp
  then show ?thesis by (simp add: inner_sorted_def bt_ok_insert_iff)
qed

lemma inner_sorted_remove: "inner_sorted f m \<Longrightarrow> inner_sorted f (bt_remove k m)"
  by (auto simp: inner_sorted_def bt_remove_def bt_values_def bt_ok_filter)

lemma inner_sorted_map: 
  assumes "\<And>k v. bt_ok (f v) \<Longrightarrow> bt_ok (f (h k v))" "inner_sorted f m"
  shows "inner_sorted f (map (\<lambda>(k, v). (k, h k v)) m)"
  using assms by (force simp: inner_sorted_def bt_ok_map_values bt_values_def)

lemma inner_sorted_map_iff:
  assumes "\<And>k v. f (h k v) = f v"
  shows "inner_sorted f (map (\<lambda>(k, v). (k, h k v)) m) \<longleftrightarrow> inner_sorted f m"
  using assms by (force simp: inner_sorted_def bt_ok_map_values bt_values_def)

interpretation sv: sched_view sorted_maps
  by unfold_locales (simp_all add: sorted_maps_def inner_sorted_replace inner_sorted_map_iff)

section \<open>Handlers that change the maps\<close>

named_theorems sorted_intros \<open>handlers that keep the maps sorted\<close>

lemma sorted_frame: "(\<And>v. keeps (\<lambda>s. sorted_maps s = v) m) \<Longrightarrow> keeps sorted_maps m"
  by (rule keeps_frame[where J = "\<lambda>b. b"])

lemma upd_node_sorted [sorted_intros]:
  assumes "\<And>ns ns'. f ns = Ok ns' \<Longrightarrow> bt_ok (ns_pods ns) \<Longrightarrow> bt_ok (ns_pods ns')"
  shows "keeps sorted_maps (upd_node n f)"
  unfolding keeps_iff upd_node_def
  by (auto simp: act_simps sorted_maps_def intro!: inner_sorted_insert intro: assms dest: inner_sorted_get split: option.splits res.splits)

lemma upd_func_sorted [sorted_intros]:
  assumes "\<And>fs. bt_ok (fs_pods fs) \<Longrightarrow> bt_ok (fs_pods (f fs))"
  shows "keeps sorted_maps (upd_func k f)"
  unfolding upd_func_def
  by (rule keeps_amod) (auto simp: sorted_maps_def intro!: inner_sorted_insert intro: assms dest: inner_sorted_get split: option.split)

lemma nested_insert_sorted: "inner_sorted id m \<Longrightarrow> inner_sorted id (nested_insert i j v m)"
  unfolding nested_insert_def
  by (auto simp: bt_ok_Cons intro!: inner_sorted_insert dest: inner_sorted_get split: option.splits)

lemma hold_sorted [sorted_intros]: "keeps sorted_maps (hold_node_pod n w)" "keeps sorted_maps (hold_func_pod n w)"
  unfolding hold_node_pod_def hold_func_pod_def
  by (rule keeps_amod, simp add: sorted_maps_def nested_insert_sorted)+

lemma table_sorted [sorted_intros]:
  "keeps sorted_maps (amod (\<lambda>s. s\<lparr>pods := bt_insert k w (pods s)\<rparr>))" "keeps sorted_maps (amod (\<lambda>s. s\<lparr>pods := bt_remove k (pods s)\<rparr>))"
  "keeps sorted_maps (amod (\<lambda>s. s\<lparr>nodes := bt_remove k (nodes s)\<rparr>))" "keeps sorted_maps (amod (\<lambda>s. s\<lparr>nodePods := bt_remove k (nodePods s)\<rparr>))"
  "keeps sorted_maps (amod (\<lambda>s. s\<lparr>funcs := bt_remove k (funcs s), funcPods := bt_remove k (funcPods s),
               funcstatus := bt_remove k (funcstatus s), pendingsnapshots := bt_remove k (pendingsnapshots s)\<rparr>))"
  by (rule keeps_amod, simp add: sorted_maps_def inner_sorted_remove)+

lemma on_rt_sorted [sorted_intros]: "keeps sorted_maps (on_rt f)"
  unfolding on_rt_def by (rule keeps_amod) (simp add: sorted_maps_def)

lemma h_WorkerPod_New_sorted [sorted_intros]: "keeps sorted_maps (h_WorkerPod_New pod)"
  unfolding h_WorkerPod_New_def by (intro keeps_intros sorted_intros)

lemmas sorted_frame_rules = keeps_intros view_frame sv.keeps_upd sv.obs_simps

lemma Node_AddPod_sorted: "Node_AddPod ns w = Ok ns' \<Longrightarrow> bt_ok (ns_pods ns) \<Longrightarrow> bt_ok (ns_pods ns')"
  by (auto simp: Node_AddPod_def Let_def res_simps split: option.splits)

lemma node_update_sorted: "node_update w old ns = Ok ns' \<Longrightarrow> bt_ok (ns_pods ns) \<Longrightarrow> bt_ok (ns_pods ns')"
  by (auto simp: node_update_def Node_UpdatePod_def Let_def res_simps split: if_splits)

lemma Node_RemovePod_sorted: "Node_RemovePod ns k r = Ok ns' \<Longrightarrow> bt_ok (ns_pods ns) \<Longrightarrow> bt_ok (ns_pods ns')"
  by (auto simp: Node_RemovePod_def FreeResource_def Let_def res_simps split: if_splits)

lemma Sched_AddPod_sorted [sorted_intros]: "keeps sorted_maps (Sched_AddPod env pod)"
  unfolding Sched_AddPod_def Let_def
  by (intro keeps_intros sorted_intros; (erule (1) Node_AddPod_sorted | (simp; fail) | rule sorted_frame; intro sorted_frame_rules))

lemma Sched_RemovePod_sorted [sorted_intros]: "keeps sorted_maps (Sched_RemovePod env pod)"
  unfolding Sched_RemovePod_def Let_def
  by (intro keeps_intros sorted_intros;
     (erule (1) Node_RemovePod_sorted | (simp add: Func_RemovePod_def; fail) | rule sorted_frame; intro sorted_frame_rules))

lemma sorted_func_insert:
  assumes "sorted_maps s" "bt_get k (funcs s) = Some fs" "fs_pods fs' = bt_insert p w (fs_pods fs)"
  shows "sorted_maps (s\<lparr>funcs := bt_insert k fs' (funcs s), rt := r\<rparr>)"
proof -
  have "bt_ok (fs_pods fs)" by (rule inner_sorted_get[OF _ assms(2)]) (use assms(1) in \<open>simp add: sorted_maps_def\<close>)
  then show ?thesis using assms(1,3) by (simp add: sorted_maps_def inner_sorted_insert)
qed

lemma func_update_sorted:
  "hoare (\<lambda>s. sorted_maps s \<and> bt_get k (funcs s) = Some fs) (func_update env k fs w) (\<lambda>_. sorted_maps) sorted_maps"
  unfolding func_update_def
  by (rule hoareI) (auto simp: act_simps Func_UpdatePod_quiet(3) intro!: sorted_func_insert split: prod.splits)

lemma Sched_UpdatePod_func_sorted:
  "keeps sorted_maps (abind (aget (\<lambda>s. bt_get k (funcs s))) (\<lambda>f. case f of None \<Rightarrow> hold_func_pod k w
     | Some fs \<Rightarrow> abind (func_update env k fs w) (\<lambda>idle. awhen idle (idle_put env p))))"
proof (rule hoare_keeps, rule hoare_aget_bind)
  fix s0 :: "'a SchedulerHandler"
  have put: "keeps sorted_maps (awhen b (idle_put env p))" for b by (rule sorted_frame) (intro sorted_frame_rules)
  show "hoare (\<lambda>s. sorted_maps s \<and> s = s0) (case bt_get k (funcs s0) of None \<Rightarrow> hold_func_pod k w
     | Some fs \<Rightarrow> abind (func_update env k fs w) (\<lambda>idle. awhen idle (idle_put env p))) (\<lambda>_. sorted_maps) sorted_maps"
  proof (cases "bt_get k (funcs s0)")
    case None
    then show ?thesis using hold_sorted(2)[of k w] by (auto simp: keeps_def intro: hoare_pre)
  next
    case (Some fs)
    then show ?thesis
      by (auto intro!: hoare_abind[OF hoare_pre[OF func_update_sorted] put[unfolded keeps_def]])
  qed
qed

lemma Sched_UpdatePod_sorted [sorted_intros]: "keeps sorted_maps (Sched_UpdatePod env pod)"
  unfolding Sched_UpdatePod_def Let_def
  by (intro Sched_UpdatePod_func_sorted keeps_intros sorted_intros;
     (erule (1) node_update_sorted | rule sorted_frame; intro sorted_frame_rules))

lemma Sched_AddFunc_sorted [sorted_intros]: "keeps sorted_maps (Sched_AddFunc f)"
  unfolding keeps_iff Sched_AddFunc_def Let_def
  by (auto simp: act_simps FuncStatus_New_def sorted_maps_def inner_sorted_remove split: if_splits option.splits
      intro!: inner_sorted_insert dest: inner_sorted_get[of id])

lemma Sched_RemoveFunc_sorted [sorted_intros]: "keeps sorted_maps (Sched_RemoveFunc env f)"
  unfolding Sched_RemoveFunc_def Let_def by (intro keeps_intros sorted_intros; rule sorted_frame; intro sorted_frame_rules)

lemma Sched_UpdateNode_sorted [sorted_intros]: "keeps sorted_maps (Sched_UpdateNode node)"
  unfolding Sched_UpdateNode_def Let_def by (intro keeps_intros sorted_intros) auto

lemma Sched_RemoveNode_sorted [sorted_intros]: "keeps sorted_maps (Sched_RemoveNode node)"
  unfolding Sched_RemoveNode_def Let_def by (intro keeps_intros sorted_intros; rule sorted_frame; intro sorted_frame_rules)

lemma Sched_AddNode_sorted [sorted_intros]: "keeps sorted_maps (Sched_AddNode env node)"
proof (rule Sched_AddNode_rule)
  fix s :: "'a SchedulerHandler" and ns
  let ?held = "case bt_get (do_name node) (nodePods s) of None \<Rightarrow> [] | Some m \<Rightarrow> m"
  assume s: "sorted_maps s" "NodeStatus_New (now env) node (nd_resources (object node)) ?held = Ok ns"
  then have "bt_ok ?held" by (auto simp: sorted_maps_def dest: inner_sorted_get[of id] split: option.split)
  then show "sorted_maps (s\<lparr>nodePods := bt_remove (do_name node) (nodePods s), nodes := bt_insert (do_name node) ns (nodes s)\<rparr>)"
    using s(1) NodeStatus_New_Ok[OF s(2)] by (simp add: sorted_maps_def inner_sorted_insert inner_sorted_remove)
qed (rule sorted_frame; intro sorted_frame_rules)+

lemma bt_ok_drop_keys: "bt_ok m \<Longrightarrow> bt_ok (drop_keys ks m)"
  unfolding drop_keys_def by (induction ks arbitrary: m) auto

lemma ReconcileNode_sorted [sorted_intros]: "keeps sorted_maps (ReconcileNodeAfterNodeAgentRestart env n node)"
proof (rule ReconcileNode_rule)
  show "keeps sorted_maps (aseq (aiter (sync_worker env) ws) (RemovePendingSnapshots_of_node n))" for ws
    by (rule sorted_frame; intro sorted_frame_rules)
next
  fix s :: "'a SchedulerHandler" and ns0 gone assume s: "sorted_maps s" "bt_get n (nodes s) = Some ns0"
  have "bt_ok (ns_pods ns0)" by (rule inner_sorted_get[OF _ s(2)]) (use s(1) in \<open>simp add: sorted_maps_def\<close>)
  then show "sorted_maps (s\<lparr>
         nodes := bt_insert n (ns0\<lparr>ns_pods := drop_keys gone (ns_pods ns0), ns_pendingPods := [], ns_stoppingPods := []\<rparr>) (nodes s),
         funcs := map (\<lambda>(k, fs). (k, fs\<lparr>fs_pendingPods := drop_keys gone (fs_pendingPods fs),
                    fs_stoppingPods := drop_keys gone (fs_stoppingPods fs), fs_pods := drop_keys gone (fs_pods fs)\<rparr>)) (funcs s),
         pods := drop_keys gone (pods s),
         nodePods := map (\<lambda>(k, m). (k, if k = n then drop_keys gone m else m)) (nodePods s),
         funcPods := map (\<lambda>(k, m). (k, drop_keys gone m)) (funcPods s)\<rparr>)"
    using s(1) by (auto simp: sorted_maps_def bt_ok_drop_keys intro!: inner_sorted_insert inner_sorted_map)
qed (simp add: sv.obs_node)

section \<open>Every round\<close>

lemma sorted_phase:
  "sorted_maps (s\<lparr>listDone := b\<rparr>) = sorted_maps s" "sorted_maps (s\<lparr>warmupComplete := b\<rparr>) = sorted_maps s"
  "sorted_maps (s\<lparr>warmupStartTime := t, warmupComplete := b\<rparr>) = sorted_maps s" "sorted_maps (mark_list ty s) = sorted_maps s"
  by (cases ty; simp add: sorted_maps_def)+

lemma warmup_sorted [sorted_intros]:
  "keeps sorted_maps (ListDone env ty)" "keeps sorted_maps (CompleteWarmupAfterConnect env)" "keeps sorted_maps (CheckAndCompleteWarmup env)"
  unfolding ListDone_def CheckAndCompleteWarmup_def CompleteWarmupAfterConnect_def
  by (rule sorted_frame; intro sorted_frame_rules sorted_phase)+

interpretation so: sched_inv sorted_maps "\<lambda>b. b"
proof (unfold_locales)
  show "keeps sorted_maps (ProcessMsg env (ConnectScheduler g ws tx))" for env g ws tx
    unfolding ProcessMsg.simps by (intro keeps_intros sorted_intros; rule sorted_frame; intro sorted_frame_rules)
qed (intro sorted_intros)+

lemma sorted_maps_default: "sorted_maps (SchedulerHandler_default env pm r)"
  by (simp add: sorted_maps_def inner_sorted_def SchedulerHandler_default_def bt_values_def)



end
