(* ===== verification/Sched_Lease.thy ===== *)
theory Sched_Lease
  imports Sched_Sorted
begin

text \<open>
  Leases and GPUs. What a tenant holds is computed from the table of pods and the cells of their workers,
  so this theory follows how a lease request changes these two, and shows that the cap on a tenant's GPUs
  holds after it, whether the request gets an idle worker or has a pod resumed.
\<close>

section \<open>The table of pods and the cells\<close>

definition wv :: "'l SchedulerHandler \<Rightarrow> (string, WorkerPod) btmap \<times> (nat \<Rightarrow> WorkerCell)" where
  "wv s = (pods s, cells (heap (rt s)))"

named_theorems wv_keeps \<open>handlers that change neither the table of pods nor a cell\<close>

lemma wv_upd [simp]:
  "wv (s\<lparr>idlePods := l\<rparr>) = wv s" "wv (s\<lparr>nodes := n\<rparr>) = wv s" "wv (s\<lparr>funcs := f\<rparr>) = wv s"
  "wv (s\<lparr>terminating_pods := tm\<rparr>) = wv s" "heap r = heap (rt s) \<Longrightarrow> wv (s\<lparr>rt := r\<rparr>) = wv s"
  by (simp_all add: wv_def)

lemma wv_amod: "(\<And>s. wv (f s) = wv s) \<Longrightarrow> keeps (\<lambda>s. wv s = v) (amod f)"
  by (rule keeps_amod) simp

lemma h_emit_wv [wv_keeps]: "keeps (\<lambda>s. wv s = v) (h_emit e)"
  unfolding h_emit_def on_rt_def by (rule wv_amod) (simp add: emit_def)

lemma send_unwrap_wv [wv_keeps]: "keeps (\<lambda>s. wv s = v) (send_unwrap env tx r)"
  unfolding send_unwrap_def by (intro keeps_intros wv_keeps)

lemma idle_pop_wv [wv_keeps]: "keeps (\<lambda>s. wv s = v) (idle_pop env k)"
  unfolding idle_pop_def by (intro keeps_intros wv_amod wv_upd)

lemma upd_node_wv [wv_keeps]: "keeps (\<lambda>s. wv s = v) (upd_node n f)"
  unfolding upd_node_def by (intro keeps_intros wv_amod wv_upd)

lemma upd_func_wv [wv_keeps]: "keeps (\<lambda>s. wv s = v) (upd_func k f)"
  unfolding upd_func_def by (rule wv_amod) (simp split: option.split)

lemma Sched_PushLeaseWorkerReq_wv [wv_keeps]: "keeps (\<lambda>s. wv s = v) (Sched_PushLeaseWorkerReq env k req tx)"
  unfolding Sched_PushLeaseWorkerReq_def by (intro keeps_intros wv_amod wv_upd)

lemma placement_wv [wv_keeps]:
  "keeps (\<lambda>s. wv s = v) (drop_missing env ks)" "keeps (\<lambda>s. wv s = v) (the_node n)" "keeps (\<lambda>s. wv s = v) (pop_evicted env ws)"
  "keeps (\<lambda>s. wv s = v) (add_stopping n ws)" "keeps (\<lambda>s. wv s = v) (reserve n r)" "keeps (\<lambda>s. wv s = v) (ResumeWorker u t ns f rv i a ws)"
  unfolding drop_missing_def the_node_def pop_evicted_def add_stopping_def reserve_def ResumeWorker_def
  by (intro keeps_intros wv_keeps)+

lemma FindNode4Pod_wv [wv_keeps]: "keeps (\<lambda>s. wv s = v) (FindNode4Pod env f ty ns)"
  unfolding FindNode4Pod_def by (intro keeps_intros wv_keeps)

section \<open>One worker taken, others stopped\<close>

text \<open>The table is as in \<open>v\<close>; a cell is as in \<open>v\<close>, or its worker is being stopped, or it is the one of \<open>w\<close>.\<close>

definition near :: "(string, WorkerPod) btmap \<times> (nat \<Rightarrow> WorkerCell) \<Rightarrow> WorkerPod \<Rightarrow> 'l SchedulerHandler \<Rightarrow> bool" where
  "near v w s \<longleftrightarrow> (let (ps, c) = wv s in ps = fst v \<and> (\<forall>r. c r = snd v r \<or> workerState (c r) = WTerminating \<or> r = wp_ref w))"

lemma near_self: "wv s = v \<Longrightarrow> near v w s"
  by (auto simp: near_def)

named_theorems near_intros \<open>handlers that change no other cell than to stop its worker\<close>

lemma near_frame: "(\<And>v. keeps (\<lambda>s. wv s = v) m) \<Longrightarrow> keeps (near v w) m"
  unfolding near_def by (rule keeps_frame)

lemma near_own [near_intros]:
  "keeps (near v w) (h_SetState st w)" "keeps (near v w) (h_SetConsumer t w)" "keeps (near v w) (h_SetWorking g w)"
  by (auto simp: keeps_iff near_def wv_def h_SetState_def h_SetConsumer_def h_SetWorking_def on_rt_def on_heap_def SetState_def
      SetConsumer_def upd_cell_def act_simps SetWorking_Ok split: prod.splits res.splits)

lemma near_stop: "keeps (near v w) (h_SetState WTerminating w')"
  by (auto simp: keeps_iff near_def wv_def h_SetState_def on_rt_def on_heap_def SetState_def upd_cell_def)

lemma near_mark_terminating [near_intros]: "keeps (near v w) (mark_terminating env w')"
  unfolding mark_terminating_def by (intro keeps_intros near_stop near_frame wv_amod wv_upd)

lemma near_gauge_inc [near_intros]:
  assumes m: "keeps (near v w) m"
  shows "keeps (near v w) (abind (aget (\<lambda>s. gauge_inc w' (rt s))) (\<lambda>g. abind (alift g) (\<lambda>r. aseq (amod (\<lambda>s. s\<lparr>rt := r\<rparr>)) m)))"
  unfolding keeps_iff
proof (intro allI impI)
  fix s r s'
  assume s: "near v w s" "r \<noteq> Panic"
    "abind (aget (\<lambda>s. gauge_inc w' (rt s))) (\<lambda>g. abind (alift g) (\<lambda>r. aseq (amod (\<lambda>s. s\<lparr>rt := r\<rparr>)) m)) s = (r, s')"
  show "near v w s'"
  proof (cases "gauge_inc w' (rt s)")
    case (Ok g)
    then have "near v w (s\<lparr>rt := g\<rparr>)" using s(1) by (simp add: near_def gauge_inc_heap)
    moreover have "m (s\<lparr>rt := g\<rparr>) = (r, s')" using s(3) Ok by (simp add: act_simps)
    ultimately show ?thesis using keepsD[OF m] s(2) by blast
  qed (use s in \<open>simp_all add: act_simps\<close>)
qed

lemma near_lease_idle: "keeps (near v w) (lease_idle env req tx w)"
  unfolding lease_idle_def by (intro near_gauge_inc keeps_intros near_intros; rule near_frame; intro keeps_intros wv_keeps)

section \<open>Resuming a pod\<close>

text \<open>What a request may do to the workers: nothing, or take one worker of its function.\<close>

definition took_one :: "'l SchedulerHandler \<Rightarrow> string \<Rightarrow> 'l SchedulerHandler \<Rightarrow> bool" where
  "took_one s0 f s \<longleftrightarrow> wv s = wv s0 \<or> (\<exists>w \<in> set (GetFuncPodsByKey s0 f). near (wv s0) w s)"

lemma took_oneI:
  assumes "w \<in> set (GetFuncPodsByKey s0 f)" "keeps (near (wv s0) w) m"
  shows "hoare (\<lambda>s. wv s = wv s0) m (\<lambda>_. took_one s0 f) (took_one s0 f)"
  by (rule hoareI) (use keepsD[OF assms(2) _ _ near_self] assms(1) in \<open>auto simp: took_one_def\<close>)

lemma took_one_same:
  assumes "\<And>v. keeps (\<lambda>s. wv s = v) m"
  shows "hoare (\<lambda>s. wv s = wv s0) m (\<lambda>_. took_one s0 f) (took_one s0 f)"
  by (rule hoareI) (use keepsD[OF assms] in \<open>auto simp: took_one_def\<close>)

lemma took_one_keeps:
  assumes "\<And>v. keeps (\<lambda>s. wv s = v) m"
  shows "keeps (took_one s0 f) m"
  unfolding took_one_def near_def by (rule keeps_frame[OF assms])

lemma GetBestResumeWorker_wv:
  "hoare (\<lambda>s. s = s0) (GetBestResumeWorker env fp)
     (\<lambda>(w, _, _) s. wv s = wv s0 \<and> w \<in> set (GetFuncPodsByKey s0 (Function_Id fp))) (\<lambda>s. wv s = wv s0)"
proof (rule hoareI)
  have k: "keeps (\<lambda>s. wv s = wv s0) (GetBestResumeWorker env fp)"
    unfolding GetBestResumeWorker_def by (intro keeps_intros wv_keeps)
  { fix s x s' assume s: "s = s0" "GetBestResumeWorker env fp s = (Ok x, s')"
    moreover have "fst x \<in> set (GetFuncPodsByKey s0 (Function_Id fp))"
      using s by (auto simp: GetBestResumeWorker_def act_simps filter_eq_Cons_iff split: if_splits prod.splits res.splits list.splits)
    ultimately show "(case x of (w, _, _) \<Rightarrow> \<lambda>s. wv s = wv s0 \<and> w \<in> set (GetFuncPodsByKey s0 (Function_Id fp))) s'"
      using keepsD[OF k s(2)] by (cases x) auto }
  fix s e s' assume "s = s0" "GetBestResumeWorker env fp s = (Err e, s')"
  then show "wv s' = wv s0" using keepsD[OF k] by blast
qed

lemma range_scan_self:
  assumes "bt_ok m" "bt_get k m = Some x" "range_scan k m = [(k', y)]"
  shows "k' = k \<and> y = x"
proof -
  have "(k, x) \<in> set (range_scan k m)"
    using range_scan_filter[OF assms(1)] bt_get_Some_mem[OF assms(2)] by (simp add: starts_with_def)
  then show ?thesis using assms(3) by simp
qed

lemma hoare_read_at: "hoare (\<lambda>s. s = s0) (g (f s0)) Q E \<Longrightarrow> hoare (\<lambda>s. s = s0) (abind (aget f) g) Q E"
  by (simp add: hoare_def abind_run)

lemma hoare_list:
  "(xs = [] \<Longrightarrow> hoare P m Q E) \<Longrightarrow> (\<And>y ys. xs = y # ys \<Longrightarrow> hoare P (f y ys) Q E) \<Longrightarrow> hoare P (case xs of [] \<Rightarrow> m | y # ys \<Rightarrow> f y ys) Q E"
  by (cases xs) auto

lemma hoare_prod: "(\<And>a b. x = (a, b) \<Longrightarrow> hoare P (f a b) Q E) \<Longrightarrow> hoare P (case x of (a, b) \<Rightarrow> f a b) Q E"
  by (cases x) auto

lemma ResumePod_took_one:
  assumes "sched_ok s0" "bt_ok (funcs s0)" "bt_get fpKey (funcs s0) = Some fs"
  shows "hoare (\<lambda>s. s = s0) (ResumePod env fpKey c) (\<lambda>_. took_one s0 fpKey) (took_one s0 fpKey)"
proof -
  have id: "Function_Id (fs_func fs) = fpKey" using sched_okD(5)[OF assms(1,3)] .
  have step: "hoare (case x of (w, _, _) \<Rightarrow> \<lambda>s. wv s = wv s0 \<and> w \<in> set (GetFuncPodsByKey s0 fpKey))
      (case x of (w, ws, nr) \<Rightarrow> m w ws nr) (\<lambda>_. took_one s0 fpKey) (took_one s0 fpKey)"
    if "\<And>w ws nr. keeps (near (wv s0) w) (m w ws nr)" for x and m :: "WorkerPod \<Rightarrow> WorkerPod list \<Rightarrow> NodeResources \<Rightarrow> ('a, unit) handler"
    by (cases x, simp only: prod.case, rule hoare_pure, erule took_oneI, rule that)
  have thrown: "hoare (\<lambda>s. s = s0) (athrow e) (\<lambda>_. took_one s0 fpKey) (took_one s0 fpKey)" for e
    by (simp add: hoare_def took_one_def)
  have best: "hoare (\<lambda>s. s = s0) (GetBestResumeWorker env (fs_func fs))
      (\<lambda>(w, _, _) s. wv s = wv s0 \<and> w \<in> set (GetFuncPodsByKey s0 fpKey)) (took_one s0 fpKey)"
    by (rule hoare_weaken[OF GetBestResumeWorker_wv[of s0 env "fs_func fs", unfolded id]]) (auto simp: took_one_def)
  have found: "fs' = fs" if "range_scan fpKey (funcs s0) = y # ys" "y = (key, fs')" "ys = []" for y ys key fs'
    using range_scan_self[OF assms(2,3)] that by simp
  show ?thesis
    unfolding ResumePod_def Let_def
    by (rule hoare_read_at, rule hoare_list, rule thrown, rule hoare_prod, rule hoare_list, drule (2) found, simp only:,
        rule hoare_abind[OF best], rule step, (intro keeps_intros near_intros; rule near_frame; intro keeps_intros wv_keeps),
        rule thrown)
qed

section \<open>A lease request\<close>

lemma gpu_check_cases:
  "gpu_check s req func = Ok None \<Longrightarrow> \<not> TenantIsGpuCapExempt (EffectiveTenant req) \<Longrightarrow>
   \<exists>act. TenantActiveGpu s (EffectiveTenant req) = Ok act \<and>
     u64_saturating_add act (gpuCount (rs_gpu (fn_resources (fn_spec (object func))))) \<le> TenantGpuLimit s (EffectiveTenant req)"
  by (auto simp: gpu_check_def Let_def res_simps split: if_splits)

lemma GetFuncPods_key:
  "GetFuncPods s (lr_tenant req) (lr_namespace req) (lr_funcname req) (lr_fprevision req) = GetFuncPodsByKey s (lease_key req)"
  by (simp add: GetFuncPods_def lease_key_def)

text \<open>A request that the check refuses, or whose function is unknown, touches no worker.\<close>

lemma lease_refused_wv:
  assumes "ProcessLeaseWorkerReq env req tx s = (out, s')" "out \<noteq> Panic"
    and "bt_get (lease_key req) (funcs s) = None \<or> (\<exists>fs m. bt_get (lease_key req) (funcs s) = Some fs \<and> gpu_check s req (fs_func fs) = Ok (Some m))"
  shows "wv s' = wv s"
proof -
  have k: "keeps (\<lambda>s. wv s = v) (aseq (send_unwrap env tx r) (athrow e))" "keeps (\<lambda>s. wv s = v) (send_unwrap env tx r)" for v r e
    by (intro keeps_intros wv_keeps)+
  have "(\<exists>r e. aseq (send_unwrap env tx r) (athrow e) s = (out, s')) \<or> (\<exists>r. send_unwrap env tx r s = (out, s'))"
    using assms(1,3) unfolding ProcessLeaseWorkerReq_def
    by (elim disjE exE conjE) (simp only: abind_run aget_run alift_run id_apply option.case res.case prod.case Let_def; blast)+
  then show ?thesis using keepsD[OF k(1) _ assms(2) refl] keepsD[OF k(2) _ assms(2) refl] by blast
qed

lemma lease_took_one:
  assumes "sched_ok s0" "bt_ok (funcs s0)"
    and run: "ProcessLeaseWorkerReq env req tx s0 = (out, s')" "out \<noteq> Panic"
    and fs: "bt_get (lease_key req) (funcs s0) = Some fs" "gpu_check s0 req (fs_func fs) = Ok None"
  shows "took_one s0 (lease_key req) s'"
proof -
  let ?f = "lease_key req" and ?idle = "filter (idle_ready s0) (GetFuncPodsByKey s0 (lease_key req))"
  let ?mx = "maxReplica (policy_of env s0 (fs_func fs))" and ?ready = "ReadyPodCount s0 (lease_key req)"
  let ?low = "abind (atry (ResumePod env ?f (Some (EffectiveTenant req)))) (\<lambda>r.
      case r of Ok _ \<Rightarrow> Sched_PushLeaseWorkerReq env ?f req tx | _ \<Rightarrow> send_unwrap env tx (LeaseResp (lease_error ''Failed to resume pod: '')))"
  let ?no = "aseq (send_unwrap env tx (LeaseResp (lease_error (replica_refusal ?f ?mx ?ready)))) (athrow (NotExist (replica_refusal ?f ?mx ?ready)))"
  let ?m = "case ?idle of w # _ \<Rightarrow> lease_idle env req tx w | [] \<Rightarrow> if ?mx \<le> ?ready then ?no else ?low"
  have eq: "?m s0 = (out, s')"
    using run(1) unfolding ProcessLeaseWorkerReq_def
    by (simp only: abind_run aget_run alift_run id_apply option.case res.case prod.case Let_def GetFuncPods_key fs)
  have idle: "hoare (\<lambda>s. s = s0) (lease_idle env req tx w) (\<lambda>_. took_one s0 ?f) (took_one s0 ?f)" if "?idle = w # ws" for w ws
  proof -
    have "w \<in> set (GetFuncPodsByKey s0 ?f)" using arg_cong[OF that, of set] by auto
    then show ?thesis by (intro hoare_pre[OF took_oneI[OF _ near_lease_idle]]) auto
  qed
  have no: "hoare (\<lambda>s. s = s0) ?no (\<lambda>_. took_one s0 ?f) (took_one s0 ?f)"
    by (rule hoare_pre[OF took_one_same]) (intro keeps_intros wv_keeps, simp)
  have resume: "hoare (\<lambda>s. s = s0) (atry (ResumePod env ?f c)) (\<lambda>_. took_one s0 ?f) (took_one s0 ?f)" for c
    using ResumePod_took_one[OF assms(1,2) fs(1), of env c] by (auto simp: hoare_def atry_run split: prod.splits res.splits)
  have "keeps (took_one s0 ?f) (case r of Ok _ \<Rightarrow> Sched_PushLeaseWorkerReq env ?f req tx | _ \<Rightarrow> send_unwrap env tx x)" for r :: "(unit, error) res" and x
    by (rule took_one_keeps) (intro keeps_intros wv_keeps)
  then have low: "hoare (\<lambda>s. s = s0) ?low (\<lambda>_. took_one s0 ?f) (took_one s0 ?f)"
    unfolding keeps_def by (intro hoare_abind[OF resume])
  have h: "hoare (\<lambda>s. s = s0) ?m (\<lambda>_. took_one s0 ?f) (took_one s0 ?f)"
    by (rule hoare_list[where f = "\<lambda>w _. lease_idle env req tx w"], rule hoare_if, rule no, rule low, rule idle)
  show ?thesis using hoareD[OF h refl] hoareD_Err[OF h refl] eq run(2) by (cases out) auto
qed

section \<open>The GPUs a tenant holds\<close>

text \<open>The sum that \<open>TenantActiveGpu\<close> computes, over the natural numbers.\<close>

definition active_gpus :: "'l SchedulerHandler \<Rightarrow> string \<Rightarrow> nat" where
  "active_gpus s t = sum_list (map gpus_of (filter (\<lambda>w. pod_tenant (heap (rt s)) w = t)
     (filter (\<lambda>w. holds_gpu (State (heap (rt s)) w)) (bt_values (pods s)))))"

lemma rfold_u64_add: "rfold (\<lambda>w n. u64_add n (g w)) ws a = (Ok n :: (nat, error) res) \<Longrightarrow> n = a + sum_list (map g ws)"
proof (induction ws arbitrary: a)
  case (Cons w ws)
  have "u64_add a (g w) = (if a + g w < 2 ^ 64 then Ok (a + g w) else Panic :: (nat, error) res)" by (simp add: u64_add_def)
  then have "rfold (\<lambda>w n. u64_add n (g w)) ws (a + g w) = (Ok n :: (nat, error) res)" using Cons.prems by (simp split: if_splits)
  from Cons.IH[OF this] show ?case by simp
qed simp

lemma TenantActiveGpu_Ok: "TenantActiveGpu s t = Ok n \<Longrightarrow> n = active_gpus s t"
  unfolding TenantActiveGpu_def active_gpus_def Let_def by (drule rfold_u64_add) simp

lemma sum_filter_mono:
  "(\<And>x. x \<in> set xs \<Longrightarrow> P x \<Longrightarrow> Q x) \<Longrightarrow> sum_list (map g (filter P xs)) \<le> (sum_list (map g (filter Q xs)) :: nat)"
  by (induction xs) (auto intro: le_SucI add_mono le_add2[THEN order_trans])

lemma sum_filter_one:
  assumes "distinct xs" "\<And>x. x \<in> set xs \<Longrightarrow> P x \<Longrightarrow> Q x \<or> x = w"
  shows "sum_list (map g (filter P xs)) \<le> (sum_list (map g (filter Q xs)) :: nat) + g w"
  using assms
proof (induction xs)
  case (Cons x xs)
  show ?case
  proof (cases "x = w")
    case True
    then have "sum_list (map g (filter P xs)) \<le> sum_list (map g (filter Q xs))"
      by (intro sum_filter_mono) (use Cons.prems in force)
    then show ?thesis using True by simp
  next
    case False
    then have "P x \<Longrightarrow> Q x" using Cons.prems(2) by auto
    moreover have "sum_list (map g (filter P xs)) \<le> sum_list (map g (filter Q xs)) + g w"
      using Cons by simp
    ultimately show ?thesis by simp
  qed
qed simp

lemma bt_values_distinct:
  assumes "bt_ok m" "\<And>k w. bt_get k m = Some w \<Longrightarrow> key w = k"
  shows "distinct (bt_values m)"
proof -
  have "map key (bt_values m) = bt_keys m"
    using assms(2) bt_get_mem_iff[OF assms(1)] by (force simp: bt_values_def bt_keys_def)
  then show ?thesis using bt_ok_distinct[OF assms(1)] by (metis distinct_map)
qed

lemma near_active:
  assumes ok: "sched_ok s" "bt_ok (pods s)" and near: "near (wv s) w s'"
    and w: "\<And>k x. bt_get k (pods s) = Some x \<Longrightarrow> wp_ref x = wp_ref w \<Longrightarrow> x = w"
  shows "active_gpus s' t \<le> active_gpus s t + gpus_of w"
proof -
  have pods: "pods s' = pods s" and cells: "cells (heap (rt s')) r = cells (heap (rt s)) r \<or>
      workerState (cells (heap (rt s')) r) = WTerminating \<or> r = wp_ref w" for r
    using near by (auto simp: near_def wv_def)
  have mem: "\<exists>k. bt_get k (pods s) = Some x" if "x \<in> set (bt_values (pods s))" for x
    using that bt_get_mem_iff[OF ok(2)] by (force simp: bt_values_def)
  let ?P = "\<lambda>s x. pod_tenant (heap (rt s)) x = t \<and> holds_gpu (State (heap (rt s)) x)"
  have "?P s x \<or> x = w" if "x \<in> set (bt_values (pods s))" "?P s' x" for x
    using cells[of "wp_ref x"] that(2) w mem[OF that(1)]
    by (auto simp: State_def pod_tenant_def ConsumerTenant_def)
  then have "sum_list (map gpus_of (filter (?P s') (bt_values (pods s)))) \<le>
      sum_list (map gpus_of (filter (?P s) (bt_values (pods s)))) + gpus_of w"
    by (intro sum_filter_one bt_values_distinct[OF ok(2), of "\<lambda>w. PodKey (wp_pod w)"] sched_okD(1)[OF ok(1)])
  then show ?thesis by (simp add: active_gpus_def pods conj_commute)
qed

lemma same_active: "wv s' = wv s \<Longrightarrow> active_gpus s' t = active_gpus s t"
  by (simp add: wv_def active_gpus_def pod_tenant_def ConsumerTenant_def State_def)

section \<open>The cap\<close>

lemma TenantActiveGpu_not_Err: "TenantActiveGpu s t \<noteq> Err e"
proof -
  have "rfold (\<lambda>w n. u64_add n (g w)) ws a \<noteq> Err e" for g :: "WorkerPod \<Rightarrow> nat" and ws a
    by (induction ws arbitrary: a) (auto simp: and_then_eq_Err)
  then show ?thesis by (simp add: TenantActiveGpu_def Let_def)
qed

lemma lease_checked:
  assumes "ProcessLeaseWorkerReq env req tx s = (out, s')" "out \<noteq> Panic" "bt_get (lease_key req) (funcs s) = Some fs"
  obtains x where "gpu_check s req (fs_func fs) = Ok x"
proof (cases "gpu_check s req (fs_func fs)")
  case (Err e)
  then show ?thesis by (auto simp: gpu_check_def Let_def and_then_eq_Err TenantActiveGpu_not_Err split: if_splits)
next
  case Panic
  then show ?thesis using assms by (simp add: ProcessLeaseWorkerReq_def act_simps Let_def)
qed

lemma took_one_active:
  assumes ok: "sched_ok s" "sorted_maps s" and fs: "bt_get f (funcs s) = Some fs"
    and took: "took_one s f s'" and g: "\<And>w. w \<in> set (bt_values (fs_pods fs)) \<Longrightarrow> gpus_of w \<le> n"
  shows "active_gpus s' t \<le> active_gpus s t + n"
proof -
  consider "wv s' = wv s" | w where "w \<in> set (bt_values (fs_pods fs))" "near (wv s) w s'"
    using took fs by (auto simp: took_one_def GetFuncPodsByKey_def)
  then show ?thesis
  proof cases
    case 2
    have "bt_ok (fs_pods fs)" by (rule inner_sorted_get[OF _ fs]) (use ok(2) in \<open>simp add: sorted_maps_def\<close>)
    then obtain k where "bt_get k (fs_pods fs) = Some w" using 2(1) by (force simp: bt_values_def bt_get_mem_iff)
    then have "copy_ok (idx s) func_of f k w" by (rule sched_okD(8)[OF ok(1) fs])
    then have "x = w" if "bt_get k' (pods s) = Some x" "wp_ref x = wp_ref w" for k' x
      using that by (auto simp: copy_ok_def idx_def)
    then have "active_gpus s' t \<le> active_gpus s t + gpus_of w"
      using ok by (intro near_active 2(2)) (auto simp: sorted_maps_def)
    then show ?thesis using g[OF 2(1)] by linarith
  next
    case 1
    then show ?thesis using same_active[of s' s t] by simp
  qed
qed

text \<open>
  C36. A lease request never takes a tenant above its cap. In any state the scheduler reaches, let a
  request be handled that is charged to the tenant \<open>t\<close> (the consumer if the request names one, else the
  function's tenant), which is not exempt and has a limit below the largest \<open>u64\<close>; let the pods of the
  function ask for no more GPUs than the function. Then afterwards the GPUs of the pods that work or
  resume for \<open>t\<close> are within its limit, or no more than they were, whether the request was refused, got an
  idle worker, or had a pod resumed and idle pods of others evicted.
\<close>

theorem lease_within_gpu_cap:
  assumes "sched_run inputs (SchedulerHandler_default env0 pm r) = (out0, s)" "out0 \<noteq> Panic"
    and "ProcessLeaseWorkerReq env req tx s = (out, s')" "out \<noteq> Panic"
    and "\<not> TenantIsGpuCapExempt (EffectiveTenant req)" "TenantGpuLimit s (EffectiveTenant req) < 2 ^ 64 - 1"
    and "\<forall>fs. bt_get (lease_key req) (funcs s) = Some fs \<longrightarrow> (\<forall>w \<in> set (bt_values (fs_pods fs)).
      gpus_of w \<le> gpuCount (rs_gpu (fn_resources (fn_spec (object (fs_func fs))))))"
  shows "active_gpus s' (EffectiveTenant req) \<le> max (active_gpus s (EffectiveTenant req)) (TenantGpuLimit s (EffectiveTenant req))"
proof -
  have ok: "sched_ok s" "sorted_maps s"
    using ok.inv_run[folded sched_ok_def, OF sched_ok_default assms(1,2)] so.inv_run[OF sorted_maps_default assms(1,2)] by auto
  show ?thesis
  proof (cases "bt_get (lease_key req) (funcs s)")
    case None
    then show ?thesis using lease_refused_wv[OF assms(3,4)] same_active[of s' s] by simp
  next
    case (Some fs)
    let ?n = "gpuCount (rs_gpu (fn_resources (fn_spec (object (fs_func fs)))))"
    obtain x where x: "gpu_check s req (fs_func fs) = Ok x"
      by (rule lease_checked[OF assms(3,4) Some])
    show ?thesis
    proof (cases x)
      case None
      have "took_one s (lease_key req) s'"
        using lease_took_one[OF ok(1) _ assms(3,4) Some] ok(2) x None by (simp add: sorted_maps_def inner_sorted_def)
      then have "active_gpus s' (EffectiveTenant req) \<le> active_gpus s (EffectiveTenant req) + ?n"
        using assms(7) Some by (intro took_one_active[OF ok Some]) auto
      moreover obtain act where "TenantActiveGpu s (EffectiveTenant req) = Ok act"
        "u64_saturating_add act ?n \<le> TenantGpuLimit s (EffectiveTenant req)"
        using gpu_check_cases[of s req "fs_func fs"] x None assms(5) by auto
      ultimately show ?thesis using assms(6) TenantActiveGpu_Ok[of s "EffectiveTenant req"]
        by (auto simp: u64_saturating_add_def)
    next
      case (Some m)
      then show ?thesis using lease_refused_wv[OF assms(3,4)] same_active[of s' s] x \<open>bt_get _ _ = Some fs\<close> by simp
    qed
  qed
qed

definition ex_gpu :: Resources where
  "ex_gpu = Resources_default\<lparr>rs_gpu := (rs_gpu Resources_default)\<lparr>gpuCount := 1\<rparr>\<rparr>"

definition ex_gpu_function :: Function where
  "ex_gpu_function = ex_function\<lparr>object := (object ex_function)\<lparr>fn_spec := (fn_spec (object ex_function))\<lparr>fn_resources := ex_gpu\<rparr>\<rparr>\<rparr>"

definition ex_gpu_pod :: FuncPod where
  "ex_gpu_pod = (ex_func_pod ''1'' PsReady)\<lparr>object := (object (ex_func_pod ''1'' PsReady))\<lparr>pod_spec :=
     (podSpec (ex_func_pod ''1'' PsReady))\<lparr>reqResources := ex_gpu\<rparr>\<rparr>\<rparr>"

definition ex_gpu_inputs :: "(string list Env \<times> SchedInput) list" where
  "ex_gpu_inputs = [(ex_env 0, InEvent (EvAdded (FunctionObj ex_gpu_function))), (ex_env 1, InEvent (EvAdded (PodObj ex_gpu_pod)))]"

lemma ex_gpu_keys: "Function_Id ex_gpu_function = ''t/n/f/1''" "PodKey ex_gpu_pod = ''t/n/f/1/1''" "FuncKey ex_gpu_pod = ''t/n/f/1''"
  "ps_nodename (podSpec ex_gpu_pod) = ''node1''" "podState ex_gpu_pod = PsReady" "srcEpoch ex_gpu_pod = 0"
  "ps_create_type (podSpec ex_gpu_pod) = CreateNormal" "ps_runtime (podSpec ex_gpu_pod) = InferX"
  "gpuCount (rs_gpu (reqResources (podSpec ex_gpu_pod))) = 1" "ps_ipAddr (podSpec ex_gpu_pod) = 0x0a012005"
  "gpuCount (rs_gpu (fn_resources (fn_spec (object ex_gpu_function)))) = 1" "do_tenant ex_gpu_pod = ''t''"
  by code_simp+

abbreviation ex_req :: LeaseWorkerReq where
  "ex_req \<equiv> lq_req (fst (ex_lease 0 9))"

lemma ex_req_simps: "lr_consumer_tenant ex_req = ''c''" "lease_key ex_req = ''t/n/f/1''" "EffectiveTenant ex_req = ''c''"
  "lr_gateway_id ex_req = 7" "consumer_of ex_req = Some ''c''"
  by code_simp+

lemma ex_env_simps: "lru (ex_env t) = list_lru" "alive (ex_env t) tx" "lru_empty list_lru = []" "lru_put list_lru k l = k # filter (\<lambda>x. x \<noteq> k) l"
  "lru_pop list_lru k l = (filter (\<lambda>x. x \<noteq> k) l, k \<in> set l)"
  by (simp_all add: ex_env_def list_lru_def)

lemma ex_peer: "LookforPeer ex_pm 167845893 = Ok (Peer_New 0xc0a80001 1234 0x0a012000)"
  by (simp add: ex_pm_def LookforPeer_def)

lemmas lease_eval = ex_gpu_keys run_eval Sched_AddFunc_def FuncStatus_New_def CheckNodeEpoch_def Sched_AddPod_def
  ex_rt_def h_SetIdle_def on_heap_def idle_put_def State_def SetIdle_def SetState_def SetConsumer_def upd_cell_def bt_remove_def
  ProcessLeaseWorkerReq_def gpu_check_def ex_req_simps TenantIsGpuCapExempt_def SCHED_PLATFORM_TENANT_def
  TenantActiveGpu_def TenantGpuLimit_def bt_values_def GetFuncPods_key GetFuncPodsByKey_def idle_ready_def lease_idle_def
  h_SetWorking_def SetWorking_def h_SetConsumer_def idle_pop_def u64_saturating_add_def pod_tenant_def ConsumerTenant_def
  ex_env_simps ex_peer h_emit_def emit_def gauge_inc_def IxGauge_Inc_def u64_add_def send_unwrap_def

lemma ex_gpu_run:
  "\<exists>s s'. sched_run ex_gpu_inputs (SchedulerHandler_default (ex_env 0) ex_pm ex_rt) = (Ok (), s) \<and>
     ProcessLeaseWorkerReq (ex_env 2) ex_req 9 s = (Ok (), s') \<and> tenants s = [] \<and> active_gpus s' ''c'' = 1 \<and>
     funcs s = [(''t/n/f/1'', \<lparr>fs_func = ex_gpu_function, fs_pods = [(''t/n/f/1/1'', \<lparr>wp_ref = 0, wp_pod = ex_gpu_pod\<rparr>)],
       fs_pendingPods = [], fs_stoppingPods = [], leaseWorkerReqs = []\<rparr>)]"
  by (simp add: ex_gpu_inputs_def lease_eval active_gpus_def)

theorem lease_within_gpu_cap_witness:
  "\<exists>s s'. sched_run ex_gpu_inputs (SchedulerHandler_default (ex_env 0) ex_pm ex_rt) = (Ok (), s) \<and>
     ProcessLeaseWorkerReq (ex_env 2) ex_req 9 s = (Ok (), s') \<and> active_gpus s' ''c'' = 1 \<and>
     active_gpus s' ''c'' \<le> max (active_gpus s ''c'') (TenantGpuLimit s ''c'')"
proof -
  obtain s s' where run: "sched_run ex_gpu_inputs (SchedulerHandler_default (ex_env 0) ex_pm ex_rt) = (Ok (), s)"
    and lease: "ProcessLeaseWorkerReq (ex_env 2) ex_req 9 s = (Ok (), s')" and s: "tenants s = []" "active_gpus s' ''c'' = 1"
    "funcs s = [(''t/n/f/1'', \<lparr>fs_func = ex_gpu_function, fs_pods = [(''t/n/f/1/1'', \<lparr>wp_ref = 0, wp_pod = ex_gpu_pod\<rparr>)],
       fs_pendingPods = [], fs_stoppingPods = [], leaseWorkerReqs = []\<rparr>)]"
    using ex_gpu_run by auto
  have "\<not> TenantIsGpuCapExempt (EffectiveTenant ex_req)" "TenantGpuLimit s (EffectiveTenant ex_req) < 2 ^ 64 - 1"
    "\<forall>fs. bt_get (lease_key ex_req) (funcs s) = Some fs \<longrightarrow> (\<forall>w \<in> set (bt_values (fs_pods fs)).
      gpus_of w \<le> gpuCount (rs_gpu (fn_resources (fn_spec (object (fs_func fs))))))"
    by (simp_all add: ex_req_simps TenantIsGpuCapExempt_def SCHED_PLATFORM_TENANT_def TenantGpuLimit_def s bt_values_def bt_get_Cons ex_gpu_keys)
  from lease_within_gpu_cap[OF run _ lease _ this] show ?thesis using run lease s(2) by (auto simp: ex_req_simps)
qed

end
