(* ===== verification/Sched_Release.thy ===== *)
theory Sched_Release
  imports Sched_Lease
begin

text \<open>
  The sweep over gateways that stopped refreshing: exactly their workers become idle again.
\<close>

section \<open>One worker\<close>

definition lost :: "int list \<Rightarrow> Heap \<Rightarrow> WorkerPod \<Rightarrow> bool" where
  "lost gone h w \<longleftrightarrow> (\<exists>g \<in> set gone. State h w = WWorking g)"

lemma release_lost_run:
  "release_lost env gone w s = (Ok (), if lost gone (heap (rt s)) w
     then s\<lparr>rt := on_heap (SetIdle w) (gauge_dec w (rt s)), idlePods := lru_put (lru env) (PodKey (wp_pod w)) (idlePods s)\<rparr> else s)"
  by (auto simp: release_lost_def lost_def h_State_def h_SetIdle_def idle_put_def on_rt_def act_simps split: WorkerPodState.split)

lemma lost_SetIdle: "lost gone (heap (on_heap (SetIdle w) r)) x \<longleftrightarrow> wp_ref x \<noteq> wp_ref w \<and> lost gone (heap r) x"
  by (auto simp: lost_def on_heap_def)

section \<open>All workers\<close>

definition released :: "int list \<Rightarrow> Heap \<Rightarrow> WorkerPod list \<Rightarrow> WorkerPod \<Rightarrow> bool" where
  "released gone h ws x \<longleftrightarrow> (\<exists>w \<in> set ws. wp_ref w = wp_ref x \<and> lost gone h w)"

lemma release_all:
  assumes "distinct (map wp_ref ws)"
  shows "\<exists>s'. aiter (release_lost env gone) ws s = (Ok (), s') \<and> pods s' = pods s \<and> gateways s' = gateways s \<and>
    (\<forall>x. State (heap (rt s')) x = (if released gone (heap (rt s)) ws x then WIdle else State (heap (rt s)) x)) \<and>
    (\<forall>x. ConsumerTenant (heap (rt s')) x = (if released gone (heap (rt s)) ws x then None else ConsumerTenant (heap (rt s)) x)) \<and>
    (lru_laws (lru env) \<longrightarrow> set (lru_iter (lru env) (idlePods s')) =
       set (lru_iter (lru env) (idlePods s)) \<union> {PodKey (wp_pod w) |w. w \<in> set ws \<and> lost gone (heap (rt s)) w})"
  using assms
proof (induction ws arbitrary: s)
  case Nil
  then show ?case by (simp add: released_def)
next
  case (Cons w ws)
  define s1 where "s1 = snd (release_lost env gone w s)"
  have run: "release_lost env gone w s = (Ok (), s1)" by (simp add: s1_def release_lost_run)
  obtain s' where s': "aiter (release_lost env gone) ws s1 = (Ok (), s')" "pods s' = pods s1" "gateways s' = gateways s1"
    and st: "\<And>x. State (heap (rt s')) x = (if released gone (heap (rt s1)) ws x then WIdle else State (heap (rt s1)) x)"
    and co: "\<And>x. ConsumerTenant (heap (rt s')) x = (if released gone (heap (rt s1)) ws x then None else ConsumerTenant (heap (rt s1)) x)"
    and idle: "lru_laws (lru env) \<Longrightarrow> set (lru_iter (lru env) (idlePods s')) =
       set (lru_iter (lru env) (idlePods s1)) \<union> {PodKey (wp_pod w) |w. w \<in> set ws \<and> lost gone (heap (rt s1)) w}"
    using Cons.IH[of s1] Cons.prems by auto
  have fresh: "x \<in> set ws \<Longrightarrow> wp_ref x \<noteq> wp_ref w" for x using Cons.prems by (auto simp: image_iff)
  have s1: "pods s1 = pods s" "gateways s1 = gateways s" by (simp_all add: s1_def release_lost_run)
  have h1: "heap (rt s1) = (if lost gone (heap (rt s)) w then SetIdle w (heap (rt s)) else heap (rt s))"
    by (simp add: s1_def release_lost_run on_heap_def)
  have keep: "x \<in> set ws \<Longrightarrow> lost gone (heap (rt s1)) x \<longleftrightarrow> lost gone (heap (rt s)) x" for x
    using fresh[of x] by (simp add: h1 lost_def)
  have rel: "released gone (heap (rt s1)) ws x \<longleftrightarrow> released gone (heap (rt s)) ws x" for x
    using keep by (auto simp: released_def)
  have rel': "released gone (heap (rt s)) (w # ws) x \<longleftrightarrow> (wp_ref w = wp_ref x \<and> lost gone (heap (rt s)) w) \<or> released gone (heap (rt s)) ws x" for x
    by (auto simp: released_def)
  have "set (lru_iter (lru env) (idlePods s1)) = set (lru_iter (lru env) (idlePods s)) \<union>
      (if lost gone (heap (rt s)) w then {PodKey (wp_pod w)} else {})" if "lru_laws (lru env)"
    using that by (auto simp: s1_def release_lost_run lru_laws_def)
  then have "lru_laws (lru env) \<longrightarrow> set (lru_iter (lru env) (idlePods s')) =
       set (lru_iter (lru env) (idlePods s)) \<union> {PodKey (wp_pod x) |x. x \<in> set (w # ws) \<and> lost gone (heap (rt s)) x}"
    using idle keep by (auto split: if_splits)
  moreover have "\<forall>x. State (heap (rt s')) x = (if released gone (heap (rt s)) (w # ws) x then WIdle else State (heap (rt s)) x)"
    "\<forall>x. ConsumerTenant (heap (rt s')) x = (if released gone (heap (rt s)) (w # ws) x then None else ConsumerTenant (heap (rt s)) x)"
    unfolding st co rel rel' by (auto simp: h1)
  ultimately show ?case using s' s1 run by (auto simp: aseq_run)
qed

section \<open>The sweep\<close>

lemma table_refs_distinct:
  assumes "sched_ok s" "bt_ok (pods s)"
  shows "distinct (map wp_ref (bt_values (pods s)))"
proof -
  have "inj_on wp_ref (set (bt_values (pods s)))"
  proof (rule inj_onI)
    fix x y assume "x \<in> set (bt_values (pods s))" "y \<in> set (bt_values (pods s))" and r: "wp_ref x = wp_ref y"
    then obtain k k' where k: "bt_get k (pods s) = Some x" "bt_get k' (pods s) = Some y"
      using bt_get_mem_iff[OF assms(2)] by (auto simp: bt_values_def)
    then show "x = y" using sched_okD(2)[OF assms(1) k r] by simp
  qed
  moreover have "distinct (bt_values (pods s))"
    by (rule bt_values_distinct[OF assms(2), of "\<lambda>w. PodKey (wp_pod w)"]) (rule sched_okD(1)[OF assms(1)])
  ultimately show ?thesis by (simp add: distinct_map)
qed

lemma timeout_gateways:
  assumes "bt_ok (gateways s)"
  shows "g \<in> set (timeoutGateways t (gateways s)) \<longleftrightarrow> (\<exists>t0. bt_get g (gateways s) = Some t0 \<and> GATEWAY_TIMEOUT < t - t0)"
  using bt_get_mem_iff[OF assms] by (force simp: timeoutGateways_def bt_keys_def)

lemma bt_get_fold_remove: "bt_get k (fold bt_remove ks m) = (if k \<in> set ks then None else bt_get k m)"
  by (induction ks arbitrary: m) auto

lemma ProcessGatewayTimeout_run:
  assumes "gone = timeoutGateways (now env) (gateways s)"
  shows "ProcessGatewayTimeout env s =
    aiter (release_lost env gone) (bt_values (pods s)) (s\<lparr>gateways := fold bt_remove gone (gateways s)\<rparr>)"
proof (cases "gone = []")
  case True
  have "aiter (release_lost env []) ws s = (Ok (), s)" for ws
    by (induction ws) (simp_all add: aseq_run release_lost_run lost_def)
  then show ?thesis using True assms by (simp add: ProcessGatewayTimeout_def act_simps)
qed (simp add: ProcessGatewayTimeout_def act_simps assms)

lemma table_released:
  assumes "sched_ok s" "bt_ok (pods s)" "bt_get k (pods s) = Some w"
  shows "released gone h (bt_values (pods s)) w \<longleftrightarrow> lost gone h w"
    "k \<in> {PodKey (wp_pod w) |w. w \<in> set (bt_values (pods s)) \<and> lost gone h w} \<longleftrightarrow> lost gone h w"
proof -
  have any: "x \<in> set (bt_values (pods s)) \<longleftrightarrow> (\<exists>k. bt_get k (pods s) = Some x)" for x
    by (auto simp: bt_values_def image_iff bt_get_mem_iff[OF assms(2), symmetric] Bex_def)
  have mem: "x \<in> set (bt_values (pods s)) \<longleftrightarrow> bt_get (PodKey (wp_pod x)) (pods s) = Some x" for x
  proof
    assume "x \<in> set (bt_values (pods s))"
    then obtain k where k: "bt_get k (pods s) = Some x" unfolding any ..
    then show "bt_get (PodKey (wp_pod x)) (pods s) = Some x" using sched_okD(1)[OF assms(1) k] by simp
  qed (use any in blast)
  have key: "PodKey (wp_pod w) = k" using sched_okD(1)[OF assms(1,3)] .
  show "k \<in> {PodKey (wp_pod w) |w. w \<in> set (bt_values (pods s)) \<and> lost gone h w} \<longleftrightarrow> lost gone h w"
  proof
    assume "k \<in> {PodKey (wp_pod w) |w. w \<in> set (bt_values (pods s)) \<and> lost gone h w}"
    then obtain x where x: "k = PodKey (wp_pod x)" "x \<in> set (bt_values (pods s))" "lost gone h x" by blast
    then have "x = w" using mem[of x] assms(3) by simp
    then show "lost gone h w" using x(3) by simp
  qed (use key bt_get_Some_value[OF assms(3)] in blast)
  show "released gone h (bt_values (pods s)) w \<longleftrightarrow> lost gone h w"
    using bt_get_Some_value[OF assms(3)] by (auto simp: released_def lost_def State_def)
qed

text \<open>
  C38. The sweep frees exactly what lost gateways held. In any state the scheduler reaches, with a cache of
  idle pods that behaves as documented, the sweep returns; it forgets the gateways whose last refresh is
  older than four seconds and no other; every pod that was leased to one of them becomes idle, is charged
  to no consumer any more and can be found in the idle pool; and every other pod keeps its lease, its
  consumer and its place in or outside the pool.
\<close>

theorem lost_gateways_release_workers:
  assumes "sched_run inputs (SchedulerHandler_default env0 pm r) = (out0, s)" "out0 \<noteq> Panic"
    and "bt_ok (gateways s)" "lru_laws (lru env)"
  shows "\<exists>s'. ProcessGatewayTimeout env s = (Ok (), s') \<and> pods s' = pods s \<and>
    (\<forall>g. bt_get g (gateways s') = (case bt_get g (gateways s) of None \<Rightarrow> None
       | Some t0 \<Rightarrow> if GATEWAY_TIMEOUT < now env - t0 then None else Some t0)) \<and>
    (\<forall>k w. bt_get k (pods s) = Some w \<longrightarrow>
       (if \<exists>g t0. State (heap (rt s)) w = WWorking g \<and> bt_get g (gateways s) = Some t0 \<and> GATEWAY_TIMEOUT < now env - t0
        then State (heap (rt s')) w = WIdle \<and> ConsumerTenant (heap (rt s')) w = None \<and> k \<in> set (lru_iter (lru env) (idlePods s'))
        else State (heap (rt s')) w = State (heap (rt s)) w \<and> ConsumerTenant (heap (rt s')) w = ConsumerTenant (heap (rt s)) w \<and>
             (k \<in> set (lru_iter (lru env) (idlePods s')) \<longleftrightarrow> k \<in> set (lru_iter (lru env) (idlePods s)))))"
proof -
  have ok: "sched_ok s" "bt_ok (pods s)"
    using ok.inv_run[folded sched_ok_def, OF sched_ok_default assms(1,2)] so.inv_run[OF sorted_maps_default assms(1,2)]
    by (auto simp: sorted_maps_def)
  define gone where "gone = timeoutGateways (now env) (gateways s)"
  define s1 where "s1 = s\<lparr>gateways := fold bt_remove gone (gateways s)\<rparr>"
  obtain s' where run: "aiter (release_lost env gone) (bt_values (pods s)) s1 = (Ok (), s')" and s': "pods s' = pods s" "gateways s' = gateways s1"
    and st: "\<And>x. State (heap (rt s')) x = (if released gone (heap (rt s)) (bt_values (pods s)) x then WIdle else State (heap (rt s)) x)"
    and co: "\<And>x. ConsumerTenant (heap (rt s')) x = (if released gone (heap (rt s)) (bt_values (pods s)) x then None else ConsumerTenant (heap (rt s)) x)"
    and idle: "set (lru_iter (lru env) (idlePods s')) = set (lru_iter (lru env) (idlePods s)) \<union>
      {PodKey (wp_pod w) |w. w \<in> set (bt_values (pods s)) \<and> lost gone (heap (rt s)) w}"
    using release_all[OF table_refs_distinct[OF ok], of env gone s1] assms(4) by (auto simp: s1_def)
  have sweep: "ProcessGatewayTimeout env s = (Ok (), s')" using ProcessGatewayTimeout_run[OF gone_def] run by (simp add: s1_def)
  have g: "g \<in> set gone \<longleftrightarrow> (\<exists>t0. bt_get g (gateways s) = Some t0 \<and> GATEWAY_TIMEOUT < now env - t0)" for g
    by (simp add: gone_def timeout_gateways assms(3))
  have lost: "(\<exists>g t0. State (heap (rt s)) w = WWorking g \<and> bt_get g (gateways s) = Some t0 \<and> GATEWAY_TIMEOUT < now env - t0) \<longleftrightarrow>
      lost gone (heap (rt s)) w" for w
    by (auto simp: lost_def g)
  have "bt_get g (gateways s') = (case bt_get g (gateways s) of None \<Rightarrow> None
       | Some t0 \<Rightarrow> if GATEWAY_TIMEOUT < now env - t0 then None else Some t0)" for g
    using g[of g] by (auto simp: s' s1_def bt_get_fold_remove split: option.split)
  moreover have "if lost gone (heap (rt s)) w
        then State (heap (rt s')) w = WIdle \<and> ConsumerTenant (heap (rt s')) w = None \<and> k \<in> set (lru_iter (lru env) (idlePods s'))
        else State (heap (rt s')) w = State (heap (rt s)) w \<and> ConsumerTenant (heap (rt s')) w = ConsumerTenant (heap (rt s)) w \<and>
             (k \<in> set (lru_iter (lru env) (idlePods s')) \<longleftrightarrow> k \<in> set (lru_iter (lru env) (idlePods s)))"
    if "bt_get k (pods s) = Some w" for k w
    unfolding st co idle Un_iff table_released[OF ok that] by simp
  ultimately show ?thesis unfolding lost using sweep s'(1) by blast
qed

definition ex_lease_inputs :: "(string list Env \<times> SchedInput) list" where
  "ex_lease_inputs = ex_gpu_inputs @ [(ex_env 2, InMsg (RefreshGateway 7)), (ex_env 3, InMsg (LeaseWorker ex_req 9))]"

lemma ex_lease_run:
  "\<exists>s w. sched_run ex_lease_inputs (SchedulerHandler_default (ex_env 0) ex_pm ex_rt) = (Ok (), s) \<and>
     bt_get ''t/n/f/1/1'' (pods s) = Some w \<and> State (heap (rt s)) w = WWorking 7 \<and> gateways s = [(7, 2)]"
  by (simp add: ex_lease_inputs_def ex_gpu_inputs_def lease_eval ProcessRefreshGateway_def) (simp add: ex_env_def)

theorem lost_gateways_release_workers_witness:
  "\<exists>s s' w. sched_run ex_lease_inputs (SchedulerHandler_default (ex_env 0) ex_pm ex_rt) = (Ok (), s) \<and>
     State (heap (rt s)) w = WWorking 7 \<and> ProcessGatewayTimeout (ex_env 5000000000) s = (Ok (), s') \<and> State (heap (rt s')) w = WIdle"
proof -
  obtain s w where run: "sched_run ex_lease_inputs (SchedulerHandler_default (ex_env 0) ex_pm ex_rt) = (Ok (), s)"
    and w: "bt_get ''t/n/f/1/1'' (pods s) = Some w" and st: "State (heap (rt s)) w = WWorking 7" and g: "gateways s = [(7, 2)]"
    using ex_lease_run by auto
  have late: "\<exists>g t0. State (heap (rt s)) w = WWorking g \<and> bt_get g (gateways s) = Some t0 \<and> GATEWAY_TIMEOUT < now (ex_env 5000000000) - t0"
    by (simp add: st g bt_get_Cons GATEWAY_TIMEOUT_def ex_env_def)
  have "bt_ok (gateways s)" "lru_laws (lru (ex_env 5000000000))"
    using list_lru_laws by (simp_all add: g bt_ok_def ex_env_def)
  from lost_gateways_release_workers[OF run _ this] obtain s' where "ProcessGatewayTimeout (ex_env 5000000000) s = (Ok (), s')"
    "State (heap (rt s')) w = WIdle"
    using w late by force
  then show ?thesis using run st by blast
qed

end
