(* ===== verification/Sched_Tasks.thy ===== *)
theory Sched_Tasks
  imports Sched_Sample
begin

text \<open>
  The scheduler's delayed tasks: a heap ordered by time, emptied into the bounded task queue by a tick.
\<close>

section \<open>The heap\<close>

abbreviation in_order :: "TimedTask list \<Rightarrow> bool" where
  "in_order ts \<equiv> sorted (map tt_when ts)"

lemma heap_push_rec:
  "heap_push t [] = [t]"
  "heap_push t (x # xs) = (if tt_when x \<le> tt_when t then x # heap_push t xs else t # x # xs)"
  by (simp_all add: heap_push_def)

lemma heap_push_set: "set (heap_push t ts) = insert t (set ts)"
  by (induction ts) (auto simp: heap_push_rec)

lemma heap_push_in_order: "in_order ts \<Longrightarrow> in_order (heap_push t ts)"
  by (induction ts) (auto simp: heap_push_rec heap_push_set)

text \<open>Of a heap in order, the entries that are due come first.\<close>

lemma due_first:
  assumes "in_order ts"
  shows "takeWhile (\<lambda>e. tt_when e \<le> t) ts = filter (\<lambda>e. tt_when e \<le> t) ts"
    "dropWhile (\<lambda>e. tt_when e \<le> t) ts = filter (\<lambda>e. t < tt_when e) ts"
proof -
  have "takeWhile (\<lambda>e. tt_when e \<le> t) ts = filter (\<lambda>e. tt_when e \<le> t) ts \<and>
      dropWhile (\<lambda>e. tt_when e \<le> t) ts = filter (\<lambda>e. t < tt_when e) ts"
    using assms
  proof (induction ts)
    case (Cons a ts)
    show ?case
    proof (cases "tt_when a \<le> t")
      case False
      then have "\<forall>x \<in> set ts. t < tt_when x" using Cons.prems by auto
      then have "filter (\<lambda>e. tt_when e \<le> t) ts = []" "filter (\<lambda>e. t < tt_when e) ts = ts"
        by (auto simp: filter_empty_conv filter_id_conv)
      then show ?thesis using False by simp
    qed (use Cons in auto)
  qed simp
  then show "takeWhile (\<lambda>e. tt_when e \<le> t) ts = filter (\<lambda>e. tt_when e \<le> t) ts"
    "dropWhile (\<lambda>e. tt_when e \<le> t) ts = filter (\<lambda>e. t < tt_when e) ts" by auto
qed

section \<open>Draining\<close>

lemma AddTask_run: "AddTask x s = (if length (taskQueue s) < TASK_QUEUE_SIZE then (Ok (), s\<lparr>taskQueue := taskQueue s @ [x]\<rparr>) else (Panic, s))"
  by (simp add: AddTask_def act_simps)

lemma drain_loop_run:
  "length (taskQueue s) + length (takeWhile (\<lambda>e. tt_when e \<le> t) ts) \<le> TASK_QUEUE_SIZE \<Longrightarrow>
   drain_loop t ts s = (Ok (), s\<lparr>taskQueue := taskQueue s @ map tt_task (takeWhile (\<lambda>e. tt_when e \<le> t) ts),
     delayed_tasks := dropWhile (\<lambda>e. tt_when e \<le> t) ts\<rparr>)"
  by (induction ts arbitrary: s) (auto simp: act_simps AddTask_run split: if_splits)

lemma drain_loop_full:
  "length (taskQueue s) \<le> TASK_QUEUE_SIZE \<Longrightarrow> TASK_QUEUE_SIZE < length (taskQueue s) + length (takeWhile (\<lambda>e. tt_when e \<le> t) ts) \<Longrightarrow>
   fst (drain_loop t ts s) = Panic"
  by (induction ts arbitrary: s) (auto simp: act_simps AddTask_run split: if_splits)

text \<open>
  C37. A delayed task is run. In a state whose heap is in order of time and whose queue is within its
  capacity, scheduling a task keeps the order; and at the first tick at or after the task's time, the tasks
  that are due, and only these, go to the end of the queue in order of time, this task among them, and the
  others stay in the heap, still in order, if the queue has room for all of them; if it has not, the
  tick panics.
\<close>

theorem delayed_task_runs:
  assumes "in_order (delayed_tasks s)" "length (taskQueue s) \<le> TASK_QUEUE_SIZE"
    and "schedule_delayed_task env d task s = (Ok (), s1)" "now env + d \<le> now env'"
    and "drain_due_delayed_tasks env' s1 = (out, s2)"
  shows "in_order (delayed_tasks s1) \<and>
    (let due = filter (\<lambda>e. tt_when e \<le> now env') (delayed_tasks s1) in
     (out = Panic \<longleftrightarrow> TASK_QUEUE_SIZE < length (taskQueue s) + length due) \<and>
     (out \<noteq> Panic \<longrightarrow> out = Ok () \<and> taskQueue s2 = taskQueue s @ map tt_task due \<and> in_order due \<and> task \<in> set (taskQueue s2) \<and>
        delayed_tasks s2 = filter (\<lambda>e. now env' < tt_when e) (delayed_tasks s1) \<and> in_order (delayed_tasks s2)))"
proof -
  let ?t = "now env'" and ?e = "\<lparr>tt_when = now env + d, tt_task = task\<rparr>"
  have s1: "s1 = s\<lparr>delayed_tasks := heap_push ?e (delayed_tasks s)\<rparr>"
    using assms(3) by (simp add: schedule_delayed_task_def)
  have ord: "in_order (delayed_tasks s1)" using assms(1) by (simp add: s1 heap_push_in_order)
  note due = due_first[OF ord, of ?t]
  have e: "?e \<in> set (filter (\<lambda>e. tt_when e \<le> ?t) (delayed_tasks s1))" using assms(4) by (simp add: s1 heap_push_set)
  have run: "drain_loop ?t (delayed_tasks s1) s1 = (out, s2)" using assms(5) by (simp add: drain_due_delayed_tasks_def act_simps)
  have sub: "in_order (filter P (delayed_tasks s1))" for P using ord by (simp add: sorted_filter)
  show ?thesis
  proof (cases "TASK_QUEUE_SIZE < length (taskQueue s) + length (filter (\<lambda>e. tt_when e \<le> ?t) (delayed_tasks s1))")
    case True
    then have "out = Panic" using drain_loop_full[of s1 ?t "delayed_tasks s1"] assms(2) run due by (simp add: s1)
    then show ?thesis using True ord by simp
  next
    case False
    then have "out = Ok ()" "taskQueue s2 = taskQueue s @ map tt_task (filter (\<lambda>e. tt_when e \<le> ?t) (delayed_tasks s1))"
      "delayed_tasks s2 = filter (\<lambda>e. ?t < tt_when e) (delayed_tasks s1)"
      using drain_loop_run[of s1 ?t "delayed_tasks s1"] run due by (auto simp: s1)
    then show ?thesis using False ord sub e by (force simp: Let_def)
  qed
qed

definition ex_sched :: "string list SchedulerHandler" where
  "ex_sched = SchedulerHandler_default (ex_env 0) ex_pm ex_rt"

theorem delayed_task_runs_witness:
  "\<exists>s1 s2. schedule_delayed_task (ex_env 5) 10 (StandbyTask ''node1'') ex_sched = (Ok (), s1) \<and>
     drain_due_delayed_tasks (ex_env 20) s1 = (Ok (), s2) \<and> taskQueue s2 = [StandbyTask ''node1''] \<and> delayed_tasks s2 = []"
proof -
  obtain s1 where s1: "schedule_delayed_task (ex_env 5) 10 (StandbyTask ''node1'') ex_sched = (Ok (), s1)"
    by (simp add: schedule_delayed_task_def)
  obtain out s2 where s2: "drain_due_delayed_tasks (ex_env 20) s1 = (out, s2)" by force
  have "in_order (delayed_tasks ex_sched)" "length (taskQueue ex_sched) \<le> TASK_QUEUE_SIZE" "now (ex_env 5) + 10 \<le> now (ex_env 20)"
    by (simp_all add: ex_sched_def SchedulerHandler_default_def TASK_QUEUE_SIZE_def ex_env_def)
  from delayed_task_runs[OF this(1,2) s1 this(3) s2] show ?thesis
    using s1 s2 by (auto simp: Let_def schedule_delayed_task_def ex_sched_def SchedulerHandler_default_def TASK_QUEUE_SIZE_def ex_env_def heap_push_def)
qed

end
