(* ===== verification/Billing_Laws.thy ===== *)
theory Billing_Laws
  imports Sched_Sample
begin

text \<open>
  What a standby session is billed: the intervals of its ticks against the time it lasted.
\<close>

section \<open>Ticks of a session\<close>

fun tick_of :: "string \<Rightarrow> Effect \<Rightarrow> bool" where
  "tick_of sid (Tick t) = (ut_session_id t = sid)"
| "tick_of sid _ = False"

fun tick_ms :: "Effect \<Rightarrow> int" where
  "tick_ms (Tick t) = interval_ms t"
| "tick_ms _ = 0"

definition billed :: "string \<Rightarrow> Effect list \<Rightarrow> int" where
  "billed sid es = sum_list (map tick_ms (filter (tick_of sid) es))"

definition ticks :: "string \<Rightarrow> Effect list \<Rightarrow> nat" where
  "ticks sid es = length (filter (tick_of sid) es)"

lemma billed_append: "billed sid (es @ fs) = billed sid es + billed sid fs" "ticks sid (es @ fs) = ticks sid es + ticks sid fs"
  by (simp_all add: billed_def ticks_def)

text \<open>The sessions in which only \<open>k\<close> has the id \<open>sid\<close>.\<close>

definition only_session :: "string \<Rightarrow> string \<Rightarrow> (string, StandbyBillingSession) btmap \<Rightarrow> bool" where
  "only_session k sid m \<longleftrightarrow> bt_ok m \<and> (\<forall>k' b. bt_get k' m = Some b \<longrightarrow> st_session_id b = sid \<longrightarrow> k' = k)"

lemma filter_key: "bt_ok m \<Longrightarrow> bt_get k m = Some b \<Longrightarrow> filter (\<lambda>e. fst e = k) m = [(k, b)]"
proof (induction m)
  case (Cons e m)
  obtain k1 b1 where e: "e = (k1, b1)" by force
  have tail: "\<forall>k' \<in> set (bt_keys m). k1 < k'" "bt_ok m" using Cons.prems(1) by (auto simp: e bt_ok_Cons)
  show ?case
  proof (cases "k1 = k")
    case True
    then have "filter (\<lambda>e. fst e = k) m = []" using tail(1) by (auto simp: filter_empty_conv bt_keys_def)
    then show ?thesis using True Cons.prems(2) by (simp add: e bt_get_Cons)
  next
    case False
    then show ?thesis using Cons.IH[OF tail(2)] Cons.prems(2) by (simp add: e bt_get_Cons)
  qed
qed simp

lemma due_of_session:
  assumes "only_session k sid m" "bt_get k m = Some b" "st_session_id b = sid"
  shows "filter (tick_of sid) (map (Tick \<circ> snd) (standby_due t m)) =
    (if 0 < millis_since (st_last_tick_time b) t then [Tick (standby_tick b (millis_since (st_last_tick_time b) t) ''periodic'')] else [])"
proof -
  have ok: "bt_ok m" using assms(1) by (simp add: only_session_def)
  have mine: "st_session_id b' = sid \<longleftrightarrow> k' = k" if "(k', b') \<in> set m" for k' b'
  proof -
    have got: "bt_get k' m = Some b'" using that bt_get_mem_iff[OF ok] by simp
    show ?thesis
    proof
      assume "st_session_id b' = sid"
      then show "k' = k" using assms(1) got unfolding only_session_def by blast
    next
      assume "k' = k"
      then show "st_session_id b' = sid" using got assms(2,3) by simp
    qed
  qed
  let ?f = "\<lambda>e :: string \<times> StandbyBillingSession. Tick (standby_tick (snd e) (millis_since (st_last_tick_time (snd e)) t) ''periodic'')"
  let ?Q = "\<lambda>e :: string \<times> StandbyBillingSession. 0 < millis_since (st_last_tick_time (snd e)) t"
  have "map (Tick \<circ> snd) (standby_due t m) = map ?f (filter ?Q m)"
    by (simp add: standby_due_def case_prod_unfold comp_def)
  moreover have "filter (tick_of sid \<circ> ?f) m = filter (\<lambda>e. fst e = k) m"
  proof (rule filter_cong[OF refl])
    fix e assume "e \<in> set m"
    then show "(tick_of sid \<circ> ?f) e = (fst e = k)"
      using mine[of "fst e" "snd e"] by (simp add: standby_tick_def)
  qed
  moreover have "filter P (map g (filter Q m)) = map g (filter Q (filter (P \<circ> g) m))"
    for P Q and g :: "string \<times> StandbyBillingSession \<Rightarrow> Effect"
    by (simp add: filter_map comp_def conj_commute)
  ultimately have "filter (tick_of sid) (map (Tick \<circ> snd) (standby_due t m)) = map ?f (filter ?Q (filter (\<lambda>e. fst e = k) m))"
    by (simp only:)
  then show ?thesis by (simp add: filter_key[OF ok assms(2)])
qed

section \<open>A periodic pass\<close>

definition touch :: "nat \<Rightarrow> string \<Rightarrow> (string, StandbyBillingSession) btmap \<Rightarrow> (string, StandbyBillingSession) btmap" where
  "touch t k m = (case bt_get k m of None \<Rightarrow> m | Some b \<Rightarrow> bt_insert k (b\<lparr>st_last_tick_time := t\<rparr>) m)"

lemma touch_get: "bt_get k (touch t a m) = (if k = a then map_option (\<lambda>b. b\<lparr>st_last_tick_time := t\<rparr>) (bt_get k m) else bt_get k m)"
  by (auto simp: touch_def split: option.split)

lemma touch_all:
  "bt_get k (fold (\<lambda>(k, _). touch t k) L m) = (if k \<in> fst ` set L then map_option (\<lambda>b. b\<lparr>st_last_tick_time := t\<rparr>) (bt_get k m) else bt_get k m)"
  by (induction L arbitrary: m) (auto simp: touch_get option.map_comp comp_def)

lemma touch_sorted: "bt_ok m \<Longrightarrow> bt_ok (fold (\<lambda>(k, _). touch t k) L m)"
  by (induction L arbitrary: m) (auto simp: touch_def split: option.splits)

lemma pass_run:
  assumes "ticks_sent env"
  shows "emit_periodic_standby_ticks env s = (Ok (), s\<lparr>
     rt := (rt s)\<lparr>trace := trace (rt s) @ map (Tick \<circ> snd) (standby_due (now env) (standby_billing_sessions s))\<rparr>,
     standby_billing_sessions := fold (\<lambda>(k, _). touch (now env) k) (standby_due (now env) (standby_billing_sessions s)) (standby_billing_sessions s)\<rparr>)"
proof -
  let ?body = "\<lambda>(k, tick). aseq (Audit_tick env tick)
         (amod (\<lambda>s. case bt_get k (standby_billing_sessions s) of
            None \<Rightarrow> s
          | Some b \<Rightarrow> s\<lparr>standby_billing_sessions :=
              bt_insert k (b\<lparr>st_last_tick_time := now env\<rparr>) (standby_billing_sessions s)\<rparr>))"
  have "aiter ?body L s = (Ok (), s\<lparr>rt := (rt s)\<lparr>trace := trace (rt s) @ map (Tick \<circ> snd) L\<rparr>,
      standby_billing_sessions := fold (\<lambda>(k, _). touch (now env) k) L (standby_billing_sessions s)\<rparr>)" for L s
    by (induction L arbitrary: s)
      (auto simp: act_simps Audit_tick_def assms h_emit_def on_rt_def emit_def touch_def split: option.splits)
  then show ?thesis by (simp add: emit_periodic_standby_ticks_def act_simps)
qed

lemma millis_exact: "t1 - t0 < 1000000 * 2 ^ 63 \<Longrightarrow> millis_since t0 t1 = int ((t1 - t0) div 1000000)"
proof -
  assume "t1 - t0 < 1000000 * 2 ^ 63"
  then have "(t1 - t0) div 1000000 < 2 ^ 63" by (simp add: less_mult_imp_div_less mult.commute)
  then show ?thesis by (simp add: millis_since_def u64_as_i64_def)
qed

text \<open>Between two states of a session: the log grew by \<open>es\<close>, whose ticks of the session account for the time its
  last tick moved, up to a millisecond per tick.\<close>

definition accounts :: "string \<Rightarrow> Effect list \<Rightarrow> nat \<Rightarrow> nat \<Rightarrow> bool" where
  "accounts sid es t0 t1 \<longleftrightarrow> t0 \<le> t1 \<and> 1000000 * billed sid es \<le> int t1 - int t0 \<and>
     int t1 - int t0 \<le> 1000000 * billed sid es + 999999 * int (ticks sid es)"

lemma accounts_trans: "accounts sid es t0 t1 \<Longrightarrow> accounts sid fs t1 t2 \<Longrightarrow> accounts sid (es @ fs) t0 t2"
  by (simp add: accounts_def billed_append algebra_simps)

lemma accounts_refl: "filter (tick_of sid) es = [] \<Longrightarrow> accounts sid es t t"
  by (simp add: accounts_def billed_def ticks_def)

lemma accounts_one:
  assumes "filter (tick_of sid) es = [Tick (standby_tick b (millis_since t0 t1) ty)]" "t0 \<le> t1" "t1 - t0 < 1000000 * 2 ^ 63"
  shows "accounts sid es t0 t1"
proof -
  have "1000000 * ((t1 - t0) div 1000000) + (t1 - t0) mod 1000000 = t1 - t0" by simp
  then have "1000000 * int ((t1 - t0) div 1000000) + int ((t1 - t0) mod 1000000) = int t1 - int t0"
    using assms(2) by (metis of_nat_add of_nat_diff of_nat_mult of_nat_numeral)
  moreover have "int ((t1 - t0) mod 1000000) \<le> 999999"
    using mod_less_divisor[of 1000000 "t1 - t0"] by linarith
  ultimately show ?thesis using assms(2)
    by (simp add: accounts_def billed_def ticks_def assms(1) standby_tick_def millis_exact[OF assms(3)])
qed

definition in_session :: "string \<Rightarrow> string \<Rightarrow> nat \<Rightarrow> 'l SchedulerHandler \<Rightarrow> bool" where
  "in_session k sid t s \<longleftrightarrow> only_session k sid (standby_billing_sessions s) \<and>
     (\<exists>b. bt_get k (standby_billing_sessions s) = Some b \<and> st_session_id b = sid \<and> st_last_tick_time b = t)"

lemma in_session_obtain:
  assumes "in_session k sid t s"
  obtains b where "only_session k sid (standby_billing_sessions s)" "bt_get k (standby_billing_sessions s) = Some b"
    "st_session_id b = sid" "st_last_tick_time b = t"
  using assms by (auto simp only: in_session_def)

lemma touched_only:
  assumes "only_session k sid m"
  shows "only_session k sid (fold (\<lambda>(k, _). touch t k) L m)"
  unfolding only_session_def
proof (intro conjI allI impI)
  show "bt_ok (fold (\<lambda>(k, _). touch t k) L m)" using assms touch_sorted unfolding only_session_def by blast
next
  fix k' b assume got: "bt_get k' (fold (\<lambda>(k, _). touch t k) L m) = Some b" and "st_session_id b = sid"
  then obtain b' where "bt_get k' m = Some b'" "st_session_id b' = sid"
    by (auto simp: touch_all split: if_splits)
  then show "k' = k" using assms unfolding only_session_def by blast
qed

lemma due_keys:
  assumes "bt_ok m" "bt_get k m = Some b"
  shows "k \<in> fst ` set (standby_due t m) \<longleftrightarrow> 0 < millis_since (st_last_tick_time b) t"
proof -
  have "k \<in> fst ` set (standby_due t m) \<longleftrightarrow> (\<exists>b'. (k, b') \<in> set m \<and> 0 < millis_since (st_last_tick_time b') t)"
    by (force simp: standby_due_def)
  then show ?thesis using assms(2) by (simp add: bt_get_mem_iff[OF assms(1)])
qed

lemma pass_accounts:
  assumes "ticks_sent env" "in_session k sid t s" "t \<le> now env" "now env - t < 1000000 * 2 ^ 63"
  shows "\<exists>s' es t'. emit_periodic_standby_ticks env s = (Ok (), s') \<and> trace (rt s') = trace (rt s) @ es \<and>
    in_session k sid t' s' \<and> accounts sid es t t' \<and> t' \<le> now env"
proof -
  obtain b where m: "only_session k sid (standby_billing_sessions s)" "bt_get k (standby_billing_sessions s) = Some b"
    "st_session_id b = sid" "st_last_tick_time b = t" using assms(2) by (rule in_session_obtain)
  have ok: "bt_ok (standby_billing_sessions s)" using m(1) by (simp add: only_session_def)
  let ?due = "standby_due (now env) (standby_billing_sessions s)"
  let ?es = "map (Tick \<circ> snd) ?due"
  let ?m = "fold (\<lambda>(k, _). touch (now env) k) ?due (standby_billing_sessions s)"
  let ?t = "if 0 < millis_since t (now env) then now env else t"
  have got: "bt_get k ?m = Some (b\<lparr>st_last_tick_time := ?t\<rparr>)"
    using due_keys[OF ok m(2), of "now env"] m(2,4) by (simp add: touch_all)
  have "accounts sid ?es t ?t"
    using due_of_session[OF m(1-3), of "now env"] accounts_one[OF _ assms(3,4), of sid ?es] accounts_refl[of sid ?es]
    by (simp add: m(4) split: if_splits)
  moreover have "in_session k sid ?t (snd (emit_periodic_standby_ticks env s))"
    using got touched_only[OF m(1), of "now env" ?due] m(3) by (simp add: pass_run[OF assms(1)] in_session_def)
  ultimately show ?thesis using assms(3) by (auto simp: pass_run[OF assms(1)] simp del: map_map split: if_splits)
qed

lemma passes_account:
  assumes "\<forall>e \<in> set envs. ticks_sent e" "in_session k sid t s" "sorted (t # map now envs)"
    "\<forall>e \<in> set envs. now e - t < 1000000 * 2 ^ 63"
  shows "\<exists>s' es t'. aiter emit_periodic_standby_ticks envs s = (Ok (), s') \<and> trace (rt s') = trace (rt s) @ es \<and>
    in_session k sid t' s' \<and> accounts sid es t t' \<and> t' \<le> last (t # map now envs)"
  using assms
proof (induction envs arbitrary: s t)
  case Nil
  then show ?case using accounts_refl[of sid "[]" t] by (force simp: act_simps)
next
  case (Cons env envs)
  obtain s1 es1 t1 where one: "emit_periodic_standby_ticks env s = (Ok (), s1)" "trace (rt s1) = trace (rt s) @ es1"
    "in_session k sid t1 s1" "accounts sid es1 t t1" "t1 \<le> now env"
    using pass_accounts[of env k sid t s] Cons.prems by auto
  have "t \<le> t1" using one(4) by (simp add: accounts_def)
  then have "sorted (t1 # map now envs)" "\<forall>e \<in> set envs. now e - t1 < 1000000 * 2 ^ 63"
    using Cons.prems(3,4) one(5) by (auto intro: le_less_trans[OF diff_le_mono2])
  then obtain s2 es2 t2 where two: "aiter emit_periodic_standby_ticks envs s1 = (Ok (), s2)" "trace (rt s2) = trace (rt s1) @ es2"
    "in_session k sid t2 s2" "accounts sid es2 t1 t2" "t2 \<le> last (t1 # map now envs)"
    using Cons.IH[OF _ one(3)] Cons.prems(1) by (metis (no_types, lifting) list.set_intros(2))
  have "t2 \<le> last (t # map now (env # envs))" using two(5) one(5) by (cases envs) auto
  then show ?case using one(1,2) two(1,2,3) accounts_trans[OF one(4) two(4)] by (auto simp: act_simps)
qed

section \<open>What a session pays\<close>

lemma final_accounts:
  assumes "ticks_sent env" "in_session k sid t s" "t \<le> now env" "now env - t < 1000000 * 2 ^ 63"
  shows "\<exists>s' es. end_standby_billing env k s = (Ok (), s') \<and> trace (rt s') = trace (rt s) @ es \<and>
    bt_get k (standby_billing_sessions s') = None \<and> accounts sid es t (now env)"
proof -
  obtain b where m: "only_session k sid (standby_billing_sessions s)" "bt_get k (standby_billing_sessions s) = Some b"
    "st_session_id b = sid" "st_last_tick_time b = t" using assms(2) by (rule in_session_obtain)
  let ?tick = "Tick (standby_tick b (millis_since t (now env)) ''final'')"
  have "filter (tick_of sid) [?tick] = [?tick]" using m(3) by (simp add: standby_tick_def)
  then have "accounts sid [?tick] t (now env)" by (rule accounts_one[OF _ assms(3,4)])
  then show ?thesis using m assms(1)
    by (auto simp: end_standby_billing_def act_simps Audit_tick_def h_emit_def on_rt_def emit_def)
qed


definition ex_session :: StandbyBillingSession where
  "ex_session = \<lparr>st_session_id = ''0'', st_start_time = 0, st_last_tick_time = 0, st_funckey = ''t/n/f/1'', st_tenant = ''t'',
     st_namespace = ''n'', st_funcname = ''f'', st_fprevision = 1, st_gpu_type = ''A100'', st_gpu_count = 1, st_vram_mb = 8000,
     st_total_vram_mb = 8000\<rparr>"

definition ex_billing :: "string list SchedulerHandler" where
  "ex_billing = (SchedulerHandler_default (ex_env 0) ex_pm ex_rt)\<lparr>standby_billing_sessions := [(''t/n/f/1'', ex_session)]\<rparr>"


end
