(* ===== verification/Place_Laws.thy ===== *)
theory Place_Laws
  imports Sched_Lease "HOL-Library.Sublist"
begin

text \<open>
  What a placement that evicts idle pods guarantees: which pods it picks, that the functions they belong to keep
  their minimal number of replicas, and that the node has room once they are stopped.
\<close>

section \<open>The pods picked so far\<close>

lemma subseq_members: "subseq xs ys \<Longrightarrow> set xs \<subseteq> set ys"
  by (induction xs ys rule: list_emb.induct) auto

lemma subseq_distinct: "subseq xs ys \<Longrightarrow> distinct ys \<Longrightarrow> distinct xs"
  by (induction xs ys rule: list_emb.induct) (use subseq_members in auto)

fun free_all :: "NodeResources \<Rightarrow> WorkerPod list \<Rightarrow> (NodeResources, error) res" where
  "free_all nr [] = Ok nr"
| "free_all nr (w # ws) = and_then (NodeResources_Add nr (alloc_of w)) (\<lambda>nr'. free_all nr' ws)"

lemma free_all_snoc: "free_all nr ws = Ok nr' \<Longrightarrow> free_all nr (ws @ [w]) = NodeResources_Add nr' (alloc_of w)"
  by (induction ws arbitrary: nr) (auto simp: and_then_eq_Ok, cases "NodeResources_Add nr' (alloc_of w)", auto)

definition pod_policy :: "'l Env \<Rightarrow> 'l SchedulerHandler \<Rightarrow> WorkerPod \<Rightarrow> FuncPolicySpec" where
  "pod_policy env self w = FuncPolicy env self (do_tenant (wp_pod w)) (do_namespace (wp_pod w)) (ps_funcname (podSpec (wp_pod w)))
     (ps_policy (podSpec (wp_pod w)))"

definition same_func :: "WorkerPod \<Rightarrow> WorkerPod list \<Rightarrow> nat" where
  "same_func w ws = length (filter (\<lambda>p. FuncKey (wp_pod p) = FuncKey (wp_pod w)) ws)"

text \<open>Each pod leaves its function, without it and the ones picked before it, the replicas its policy wants.\<close>

definition replicas_kept :: "'l Env \<Rightarrow> 'l SchedulerHandler \<Rightarrow> WorkerPod list \<Rightarrow> bool" where
  "replicas_kept env self ws \<longleftrightarrow> (\<forall>i < length ws.
     minReplica (pod_policy env self (ws ! i)) + same_func (ws ! i) (take (Suc i) ws) \<le> ReadyPodCount self (FuncKey (wp_pod (ws ! i))))"

lemma replicas_kept_snoc:
  assumes "replicas_kept env self ws" "VerifyMinReplicaPolicy env self w ws = Ok True"
  shows "replicas_kept env self (ws @ [w])"
  unfolding replicas_kept_def
proof (intro allI impI)
  fix i assume "i < length (ws @ [w])"
  then consider "i < length ws" | "i = length ws" by fastforce
  then show "minReplica (pod_policy env self ((ws @ [w]) ! i)) + same_func ((ws @ [w]) ! i) (take (Suc i) (ws @ [w]))
      \<le> ReadyPodCount self (FuncKey (wp_pod ((ws @ [w]) ! i)))"
  proof cases
    case 1
    then show ?thesis using assms(1) by (simp add: replicas_kept_def nth_append)
  next
    case 2
    have "minReplica (pod_policy env self w) + Suc (same_func w ws) \<le> ReadyPodCount self (FuncKey (wp_pod w))"
      using assms(2) by (auto simp: VerifyMinReplicaPolicy_def Let_def pod_policy_def same_func_def and_then_eq_Ok u64_sub_def split: if_splits res.splits)
    then show ?thesis using 2 by (simp add: same_func_def)
  qed
qed

text \<open>The pods \<open>ws\<close> of the node are picked from the keys \<open>l\<close>, in their order.\<close>

definition picked :: "'l Env \<Rightarrow> 'l SchedulerHandler \<Rightarrow> Function \<Rightarrow> string list \<Rightarrow> string \<Rightarrow> NodeResources \<Rightarrow> WorkerPod list \<Rightarrow> bool" where
  "picked env self func l n nr ws \<longleftrightarrow>
     (\<exists>node. bt_get n (nodes self) = Some node \<and> free_all (ns_available node) ws = Ok nr) \<and>
     (\<exists>ks. subseq ks l \<and> map (\<lambda>k. bt_get k (pods self)) ks = map Some ws) \<and>
     (\<forall>w \<in> set ws. node_of w = n \<and> FuncKey (wp_pod w) \<noteq> Function_Id func) \<and> replicas_kept env self ws"

lemma picked_start: "bt_get n (nodes self) = Some node \<Longrightarrow> picked env self func l n (ns_available node) []"
  by (auto simp: picked_def replicas_kept_def)

lemma picked_more: "picked env self func l n nr ws \<Longrightarrow> picked env self func (l @ l') n nr ws"
  unfolding picked_def by (metis (no_types, lifting) list_emb_append_mono list_emb_Nil append_Nil2)

lemma picked_snoc:
  assumes "picked env self func l (node_of w) nr ws" "bt_get k (pods self) = Some w" "FuncKey (wp_pod w) \<noteq> Function_Id func"
    "VerifyMinReplicaPolicy env self w ws = Ok True" "NodeResources_Add nr (alloc_of w) = Ok nr'"
  shows "picked env self func (l @ [k]) (node_of w) nr' (ws @ [w])"
proof -
  obtain ks where "subseq ks l" "map (\<lambda>k. bt_get k (pods self)) ks = map Some ws"
    using assms(1) by (auto simp: picked_def)
  then have "subseq (ks @ [k]) (l @ [k])" "map (\<lambda>k. bt_get k (pods self)) (ks @ [k]) = map Some (ws @ [w])"
    using assms(2) by (simp_all add: list_emb_append_mono)
  moreover obtain node where "bt_get (node_of w) (nodes self) = Some node" "free_all (ns_available node) (ws @ [w]) = Ok nr'"
    using assms(1,5) by (auto simp: picked_def free_all_snoc)
  moreover have "replicas_kept env self (ws @ [w])" using assms(1,4) replicas_kept_snoc by (auto simp: picked_def)
  moreover have "\<forall>v \<in> set (ws @ [w]). node_of v = node_of w \<and> FuncKey (wp_pod v) \<noteq> Function_Id func"
    using assms(1,3) by (auto simp: picked_def)
  ultimately show ?thesis unfolding picked_def by blast
qed

section \<open>The two searches\<close>

definition fits :: "'l SchedulerHandler \<Rightarrow> Function \<Rightarrow> FindNodeType \<Rightarrow> string \<Rightarrow> NodeResources \<Rightarrow> bool" where
  "fits self func ty n nr \<longleftrightarrow> (\<exists>req st. find_req self func ty n (maxContextCnt nr) = Ok req \<and>
     NodeResources_CanAlloc nr req (ty \<noteq> FindResume) = Ok st \<and> AllocState_Ok st)"

lemma find_free_Inl:
  "find_free self func ty ns sn = Ok (Inl (n, nr)) \<Longrightarrow>
   n \<in> set ns \<and> fits self func ty n nr \<and> (\<exists>node. bt_get n (nodes self) = Some node \<and> nr = ns_available node)"
proof (induction ns arbitrary: sn)
  case (Cons m ns)
  obtain node where node: "bt_get m (nodes self) = Some node" using Cons.prems(1) by (auto split: option.splits)
  then consider "find_free self func ty ns sn = Ok (Inl (n, nr))"
    | "find_free self func ty ns (bt_insert m (ns_available node, []) sn) = Ok (Inl (n, nr))"
    | "n = m" "nr = ns_available node" "fits self func ty m (ns_available node)"
    using Cons.prems(1) by (auto simp: Let_def and_then_eq_Ok fits_def split: if_splits)
  then show ?case by cases (use Cons.IH node in force)+
qed simp

lemma find_free_Inr:
  "find_free self func ty ns sn = Ok (Inr sn') \<Longrightarrow> bt_get n sn' = Some x \<Longrightarrow>
   bt_get n sn = Some x \<or> (n \<in> set ns \<and> (\<exists>node. bt_get n (nodes self) = Some node \<and> x = (ns_available node, [])))"
proof (induction ns arbitrary: sn)
  case (Cons m ns)
  obtain node where node: "bt_get m (nodes self) = Some node" using Cons.prems(1) by (auto split: option.splits)
  then consider "find_free self func ty ns sn = Ok (Inr sn')"
    | "find_free self func ty ns (bt_insert m (ns_available node, []) sn) = Ok (Inr sn')"
    using Cons.prems(1) by (auto simp: Let_def and_then_eq_Ok split: if_splits)
  then show ?case
  proof cases
    case 1
    then show ?thesis using Cons.IH[OF 1 Cons.prems(2)] by auto
  next
    case 2
    then show ?thesis using Cons.IH[OF 2 Cons.prems(2)] node by (auto split: if_splits)
  qed
qed simp

lemma find_evict_picked:
  assumes "find_evict env self func ty ks sn miss = Ok (miss', Some (n, ws, nr))"
    and "\<And>n nr ws. bt_get n sn = Some (nr, ws) \<Longrightarrow> n \<in> N \<and> picked env self func l n nr ws"
  shows "n \<in> N \<and> picked env self func (l @ ks) n nr ws \<and> fits self func ty n nr"
  using assms
proof (induction ks arbitrary: sn miss l)
  case Nil
  then show ?case by simp
next
  case (Cons k ks)
  have more: "n \<in> N \<and> picked env self func (l @ [k]) n nr ws" if "bt_get n sn = Some (nr, ws)" for n nr ws
    using Cons.prems(2)[OF that] picked_more by blast
  note step = Cons.IH[of _ _ "l @ [k]", simplified]
  have skip: ?case if "find_evict env self func ty ks sn miss1 = Ok (miss', Some (n, ws, nr))" for miss1
    using step[OF that] more by blast
  show ?case
  proof (cases "bt_get k (pods self)")
    case None
    then show ?thesis using Cons.prems(1) skip by simp
  next
    case (Some w)
    show ?thesis
    proof (cases "FuncKey (wp_pod w) = Function_Id func \<or> bt_get (node_of w) sn = None")
      case True
      then show ?thesis using Cons.prems(1) skip Some by (auto split: if_splits)
    next
      case False
      then obtain nr0 ws0 where sn: "bt_get (node_of w) sn = Some (nr0, ws0)" "FuncKey (wp_pod w) \<noteq> Function_Id func" by auto
      note eq = Cons.prems(1)[unfolded find_evict.simps Some option.case sn(1) prod.case if_not_P[OF sn(2)] and_then_eq_Ok]
      obtain may where may: "VerifyMinReplicaPolicy env self w ws0 = Ok may" using eq by blast
      show ?thesis
      proof (cases may)
        case False
        then show ?thesis using eq may skip by auto
      next
        case True
        then obtain nr1 req st where nr1: "NodeResources_Add nr0 (alloc_of w) = Ok nr1"
          and fit: "find_req self func ty (node_of w) (maxContextCnt nr1) = Ok req" "NodeResources_CanAlloc nr1 req (ty \<noteq> FindResume) = Ok st"
          and rest: "(if AllocState_Ok st then Ok (miss, Some (node_of w, ws0 @ [w], nr1))
            else find_evict env self func ty ks (bt_insert (node_of w) (nr1, ws0 @ [w]) sn) miss) = Ok (miss', Some (n, ws, nr))"
          using eq may by (auto simp: and_then_eq_Ok)
        have pick: "picked env self func (l @ [k]) (node_of w) nr1 (ws0 @ [w])"
          using picked_snoc[OF _ Some sn(2) _ nr1] Cons.prems(2)[OF sn(1)] may True by simp
        show ?thesis
        proof (cases "AllocState_Ok st")
          case True
          then have "fits self func ty (node_of w) nr1" using fit by (auto simp: fits_def)
          then show ?thesis using rest True pick picked_more[OF pick, of ks] Cons.prems(2)[OF sn(1)] by simp
        next
          case False
          then have go: "find_evict env self func ty ks (bt_insert (node_of w) (nr1, ws0 @ [w]) sn) miss = Ok (miss', Some (n, ws, nr))"
            using rest by simp
          show ?thesis by (rule step[OF go]) (use more pick Cons.prems(2)[OF sn(1)] in \<open>auto simp: bt_get_insert split: if_splits\<close>)
        qed
      qed
    qed
  qed
qed

lemma find_evict_missing:
  "find_evict env self func ty ks sn miss = Ok (miss', x) \<Longrightarrow> k \<in> set miss' \<Longrightarrow> k \<in> set miss \<or> bt_get k (pods self) = None"
proof (induction ks arbitrary: sn miss)
  case (Cons a ks)
  consider m sn1 where "find_evict env self func ty ks sn1 m = Ok (miss', x)" "m = miss \<or> m = miss @ [a] \<and> bt_get a (pods self) = None"
    | "miss' = miss"
    using Cons.prems(1) by (auto simp: and_then_eq_Ok split: option.splits prod.splits if_splits)
  then show ?case by cases (use Cons.IH Cons.prems(2) in force)+
qed simp

section \<open>The idle pool\<close>

lemma idle_pop_run:
  assumes "lru_laws (lru env)"
  shows "\<exists>l. idle_pop env k s = (Ok (k \<in> set (lru_iter (lru env) (idlePods s))), s\<lparr>idlePods := l\<rparr>) \<and>
    lru_iter (lru env) l = filter (\<lambda>x. x \<noteq> k) (lru_iter (lru env) (idlePods s))"
  using assms by (cases "lru_pop (lru env) k (idlePods s)") (auto simp: idle_pop_def act_simps lru_laws_def dest: spec[of _ k], (metis fst_conv snd_conv)+)

lemma drop_missing_run:
  assumes "lru_laws (lru env)"
  shows "\<exists>l. drop_missing env ks s = (Ok (), s\<lparr>idlePods := l\<rparr>) \<and>
    lru_iter (lru env) l = filter (\<lambda>x. x \<notin> set ks) (lru_iter (lru env) (idlePods s))"
proof (induction ks arbitrary: s)
  case Nil
  show ?case by (intro exI[of _ "idlePods s"]) (simp add: drop_missing_def act_simps)
next
  case (Cons k ks)
  obtain l where l: "idle_pop env k s = (Ok (k \<in> set (lru_iter (lru env) (idlePods s))), s\<lparr>idlePods := l\<rparr>)"
    "lru_iter (lru env) l = filter (\<lambda>x. x \<noteq> k) (lru_iter (lru env) (idlePods s))"
    using idle_pop_run[OF assms] by blast
  obtain l2 where "drop_missing env ks (s\<lparr>idlePods := l\<rparr>) = (Ok (), s\<lparr>idlePods := l2\<rparr>)"
    "lru_iter (lru env) l2 = filter (\<lambda>x. x \<notin> set ks) (lru_iter (lru env) l)"
    using Cons.IH[of "s\<lparr>idlePods := l\<rparr>"] by auto
  then show ?case using l by (auto simp: drop_missing_def act_simps conj_commute)
qed

lemma pop_evicted_run:
  assumes "lru_laws (lru env)" "distinct (map (\<lambda>w. PodKey (wp_pod w)) ws)"
    "\<forall>w \<in> set ws. PodKey (wp_pod w) \<in> set (lru_iter (lru env) (idlePods s))"
  shows "\<exists>l. pop_evicted env ws s = (Ok (), s\<lparr>idlePods := l\<rparr>) \<and>
    lru_iter (lru env) l = filter (\<lambda>x. x \<notin> (\<lambda>w. PodKey (wp_pod w)) ` set ws) (lru_iter (lru env) (idlePods s))"
  using assms(2,3)
proof (induction ws arbitrary: s)
  case Nil
  show ?case by (intro exI[of _ "idlePods s"]) (simp add: pop_evicted_def act_simps)
next
  case (Cons w ws)
  obtain l where l: "idle_pop env (PodKey (wp_pod w)) s = (Ok True, s\<lparr>idlePods := l\<rparr>)"
    "lru_iter (lru env) l = filter (\<lambda>x. x \<noteq> PodKey (wp_pod w)) (lru_iter (lru env) (idlePods s))"
    using idle_pop_run[OF assms(1), of "PodKey (wp_pod w)" s] Cons.prems(2) by auto
  have "\<forall>v \<in> set ws. PodKey (wp_pod v) \<in> set (lru_iter (lru env) (idlePods (s\<lparr>idlePods := l\<rparr>)))"
    using Cons.prems l(2) by (auto simp: image_iff)
  then obtain l2 where "pop_evicted env ws (s\<lparr>idlePods := l\<rparr>) = (Ok (), s\<lparr>idlePods := l2\<rparr>)"
    "lru_iter (lru env) l2 = filter (\<lambda>x. x \<notin> (\<lambda>w. PodKey (wp_pod w)) ` set ws) (lru_iter (lru env) l)"
    using Cons.IH[of "s\<lparr>idlePods := l\<rparr>"] Cons.prems(1) by auto
  then show ?case using l by (auto simp: pop_evicted_def act_simps conj_commute)
qed

lemma picked_keys:
  assumes "picked env s func l n nr ws" "\<forall>k w. bt_get k (pods s) = Some w \<longrightarrow> PodKey (wp_pod w) = k"
  shows "subseq (map (\<lambda>w. PodKey (wp_pod w)) ws) l" "w \<in> set ws \<Longrightarrow> bt_get (PodKey (wp_pod w)) (pods s) = Some w"
proof -
  obtain ks where ks: "subseq ks l" "map (\<lambda>k. bt_get k (pods s)) ks = map Some ws"
    using assms(1) by (auto simp: picked_def)
  have at: "bt_get (ks ! i) (pods s) = Some (ws ! i)" "PodKey (wp_pod (ws ! i)) = ks ! i" if "i < length ws" for i
  proof -
    have "length ks = length ws" using arg_cong[OF ks(2), of length] by simp
    then show "bt_get (ks ! i) (pods s) = Some (ws ! i)" using arg_cong[OF ks(2), of "\<lambda>xs. xs ! i"] that by simp
    then show "PodKey (wp_pod (ws ! i)) = ks ! i" using assms(2) by blast
  qed
  have "map (\<lambda>w. PodKey (wp_pod w)) ws = ks"
    using arg_cong[OF ks(2), of length] by (intro nth_equalityI) (simp_all add: at(2))
  then show "subseq (map (\<lambda>w. PodKey (wp_pod w)) ws) l" using ks(1) by simp
  show "bt_get (PodKey (wp_pod w)) (pods s) = Some w" if "w \<in> set ws"
    using that at by (metis in_set_conv_nth)
qed

lemma FindNode4Pod_found:
  assumes "lru_laws (lru env)" "FindNode4Pod env func ty ns s = (Ok (n, ws, nr), s')"
  shows "n \<in> set (bt_keys ns) \<and> fits s func ty n nr \<and> picked env s func (rev (lru_iter (lru env) (idlePods s))) n nr ws \<and>
    (\<exists>l. s' = s\<lparr>idlePods := l\<rparr> \<and> (\<forall>k. bt_get k (pods s) \<noteq> None \<longrightarrow>
       (k \<in> set (lru_iter (lru env) l) \<longleftrightarrow> k \<in> set (lru_iter (lru env) (idlePods s)))))"
proof -
  let ?L = "rev (lru_iter (lru env) (idlePods s))"
  obtain found where found: "find_free s func ty (bt_keys ns) [] = Ok found"
    using assms(2) by (cases "find_free s func ty (bt_keys ns) []") (auto simp: FindNode4Pod_def act_simps)
  show ?thesis
  proof (cases found)
    case (Inl p)
    then have "s' = s" "ws = []" "find_free s func ty (bt_keys ns) [] = Ok (Inl (n, nr))"
      using assms(2) found by (cases p; auto simp: FindNode4Pod_def act_simps)+
    then show ?thesis using find_free_Inl[of s func ty "bt_keys ns" "[]" n nr] picked_start
      by (auto intro!: exI[of _ "idlePods s"])
  next
    case (Inr sn)
    obtain miss res where evict: "find_evict env s func ty ?L sn [] = Ok (miss, res)"
      using assms(2) found Inr by (cases "find_evict env s func ty ?L sn []") (auto simp: FindNode4Pod_def act_simps)
    obtain l where l: "drop_missing env miss s = (Ok (), s\<lparr>idlePods := l\<rparr>)"
      "lru_iter (lru env) l = filter (\<lambda>x. x \<notin> set miss) (lru_iter (lru env) (idlePods s))"
      using drop_missing_run[OF assms(1)] by blast
    have res: "res = Some (n, ws, nr)" and s': "s' = s\<lparr>idlePods := l\<rparr>"
      using assms(2) found Inr evict l(1)
      by (cases res; auto simp: FindNode4Pod_def act_simps athrow_def split: if_splits res.splits)+
    have sn: "n \<in> set (bt_keys ns) \<and> picked env s func [] n nr ws" if "bt_get n sn = Some (nr, ws)" for n nr ws
      using find_free_Inr[OF found[unfolded Inr] that] picked_start by (auto simp: bt_get_def)
    have "n \<in> set (bt_keys ns) \<and> picked env s func ([] @ ?L) n nr ws \<and> fits s func ty n nr"
      by (rule find_evict_picked[OF evict[unfolded res] sn])
    moreover have "\<forall>k. bt_get k (pods s) \<noteq> None \<longrightarrow> k \<notin> set miss" using find_evict_missing[OF evict] by auto
    ultimately show ?thesis using s' l(2) by auto
  qed
qed

text \<open>
  C40. A placement evicts only what it may. When \<open>FindNode4Pod\<close> returns a node, the pods to stop and the node's
  resources after that, the node is a candidate; the pods are taken from the idle ones in the order in which they were
  last used, oldest first, they run on that node and belong to other functions; every function that loses a pod keeps
  the replicas its policy asks for; the resources are those the node has available plus what each pod holds, and they
  are enough for the new pod. Taking the pods out of the idle pool then succeeds for each of them (the code asserts
  it), and exactly the other pods stay idle.
\<close>

theorem eviction_is_safe:
  assumes "lru_laws (lru env)" "distinct (lru_iter (lru env) (idlePods s))"
    and "\<forall>k w. bt_get k (pods s) = Some w \<longrightarrow> PodKey (wp_pod w) = k"
    and "FindNode4Pod env func ty ns s = (Ok (n, ws, nr), s1)"
  shows "n \<in> set (bt_keys ns) \<and> fits s func ty n nr \<and> picked env s func (rev (lru_iter (lru env) (idlePods s))) n nr ws \<and>
    (\<exists>s2. pop_evicted env ws s1 = (Ok (), s2) \<and> pods s2 = pods s \<and> (\<forall>k. bt_get k (pods s) \<noteq> None \<longrightarrow>
      (k \<in> set (lru_iter (lru env) (idlePods s2)) \<longleftrightarrow>
        k \<in> set (lru_iter (lru env) (idlePods s)) \<and> k \<notin> (\<lambda>w. PodKey (wp_pod w)) ` set ws)))"
proof -
  let ?L = "lru_iter (lru env) (idlePods s)"
  note found = FindNode4Pod_found[OF assms(1,4)]
  then have pick: "picked env s func (rev ?L) n nr ws" by blast
  obtain l where s1: "s1 = s\<lparr>idlePods := l\<rparr>"
    and idle: "\<And>k. bt_get k (pods s) \<noteq> None \<Longrightarrow> k \<in> set (lru_iter (lru env) l) \<longleftrightarrow> k \<in> set ?L"
    using found by blast
  have sub: "subseq (map (\<lambda>w. PodKey (wp_pod w)) ws) (rev ?L)" by (rule picked_keys(1)[OF pick assms(3)])
  then have "distinct (map (\<lambda>w. PodKey (wp_pod w)) ws)" using assms(2) subseq_distinct[OF sub] by simp
  moreover have "\<forall>w \<in> set ws. PodKey (wp_pod w) \<in> set (lru_iter (lru env) (idlePods s1))"
  proof
    fix w assume w: "w \<in> set ws"
    then have "PodKey (wp_pod w) \<in> set ?L" using subseq_members[OF sub] by auto
    then show "PodKey (wp_pod w) \<in> set (lru_iter (lru env) (idlePods s1))"
      using idle[of "PodKey (wp_pod w)"] picked_keys(2)[OF pick assms(3) w] s1 by simp
  qed
  ultimately obtain l2 where l2: "pop_evicted env ws s1 = (Ok (), s1\<lparr>idlePods := l2\<rparr>)"
    "lru_iter (lru env) l2 = filter (\<lambda>x. x \<notin> (\<lambda>w. PodKey (wp_pod w)) ` set ws) (lru_iter (lru env) (idlePods s1))"
    using pop_evicted_run[OF assms(1)] by blast
  have "k \<in> set (lru_iter (lru env) l2) \<longleftrightarrow> k \<in> set ?L \<and> k \<notin> (\<lambda>w. PodKey (wp_pod w)) ` set ws"
    if "bt_get k (pods s) \<noteq> None" for k
    using idle[OF that] l2(2) s1 by simp
  then show ?thesis using found l2(1) s1 by (intro conjI exI[of _ "s1\<lparr>idlePods := l2\<rparr>"]) simp_all
qed

definition ex_idle_pod :: WorkerPod where
  "ex_idle_pod = (let p = ex_func_pod ''1'' PsReady in
     \<lparr>wp_ref = 0, wp_pod = p\<lparr>object := (object p)\<lparr>pod_spec := (podSpec p)\<lparr>allocResources := NodeResources_default\<lparr>nr_memory := 10\<rparr>\<rparr>\<rparr>\<rparr>\<rparr>)"

definition ex_wanted :: Function where
  "ex_wanted = ex_function\<lparr>do_name := ''g'', object := (object ex_function)\<lparr>fn_spec := (fn_spec (object ex_function))
     \<lparr>fn_resources := Resources_default\<lparr>rs_memory := 8\<rparr>\<rparr>\<rparr>\<rparr>"

definition ex_full :: "string list SchedulerHandler" where
  "ex_full = (SchedulerHandler_default (ex_env 0) ex_pm (ex_rt\<lparr>heap := \<lparr>cells = (\<lambda>_. \<lparr>workerState = WIdle, consumer_tenant = None\<rparr>), next_ref = 1\<rparr>\<rparr>))
     \<lparr>nodes := [(''node1'', \<lparr>ns_node = ex_node_obj, ns_total = NodeResources_default\<lparr>nr_memory := 10\<rparr>, ns_available = NodeResources_default,
        ns_pendingPods = [], ns_pods = [(''t/n/f/1/1'', ex_idle_pod)], ns_stoppingPods = [], ns_createTime = 0, ns_state = NodeAgentReady\<rparr>)],
      pods := [(''t/n/f/1/1'', ex_idle_pod)], funcs := [(''t/n/f/1'', ex_status [ex_idle_pod] [])], idlePods := [''t/n/f/1/1'']\<rparr>"

lemma ex_idle_keys: "PodKey (wp_pod ex_idle_pod) = ''t/n/f/1/1''" "FuncKey (wp_pod ex_idle_pod) = ''t/n/f/1''" "Function_Id ex_wanted = ''t/n/g/1''"
  "node_of ex_idle_pod = ''node1''" "alloc_of ex_idle_pod = NodeResources_default\<lparr>nr_memory := 10\<rparr>" "do_tenant (wp_pod ex_idle_pod) = ''t''"
  "ps_policy (podSpec (wp_pod ex_idle_pod)) = Obj FuncPolicySpec_default" "wp_ref ex_idle_pod = 0"
  "fn_spec (object ex_wanted) = (fn_spec (object ex_function))\<lparr>fn_resources := Resources_default\<lparr>rs_memory := 8\<rparr>\<rparr>"
  "gpuMem (fn_standby (fn_spec (object ex_function))) = File"
  by code_simp+

lemma ex_full_simps: "pods ex_full = [(''t/n/f/1/1'', ex_idle_pod)]" "idlePods ex_full = [''t/n/f/1/1'']" "funcpolicy ex_full = []"
  "nodes ex_full = [(''node1'', \<lparr>ns_node = ex_node_obj, ns_total = NodeResources_default\<lparr>nr_memory := 10\<rparr>, ns_available = NodeResources_default,
        ns_pendingPods = [], ns_pods = [(''t/n/f/1/1'', ex_idle_pod)], ns_stoppingPods = [], ns_createTime = 0, ns_state = NodeAgentReady\<rparr>)]"
  "funcs ex_full = [(''t/n/f/1'', ex_status [ex_idle_pod] [])]" "workerState (cells (heap (rt ex_full)) 0) = WIdle"
  by (simp_all add: ex_full_def SchedulerHandler_default_def)

lemma ex_wanted_room:
  "find_req ex_full ex_wanted FindNvidiaRuntimePod ''node1'' 0 = Ok (Resources_default\<lparr>rs_memory := 8, rs_gpu := (rs_gpu Resources_default)\<lparr>contextCount := 0\<rparr>\<rparr>)"
  "NodeResources_CanAlloc NodeResources_default (Resources_default\<lparr>rs_memory := 8, rs_gpu := (rs_gpu Resources_default)\<lparr>contextCount := 0\<rparr>\<rparr>) True =
     Ok \<lparr>as_cpu = True, as_memory = False, as_cacheMem = True, as_gpuType = True, as_gpu = True\<rparr>"
  "NodeResources_CanAlloc (NodeResources_default\<lparr>nr_memory := 10\<rparr>) (Resources_default\<lparr>rs_memory := 8, rs_gpu := (rs_gpu Resources_default)\<lparr>contextCount := 0\<rparr>\<rparr>) True =
     Ok \<lparr>as_cpu = True, as_memory = True, as_cacheMem = True, as_gpuType = True, as_gpu = True\<rparr>"
  "NodeResources_Add NodeResources_default (NodeResources_default\<lparr>nr_memory := 10\<rparr>) = Ok (NodeResources_default\<lparr>nr_memory := 10\<rparr>)"
  "maxContextCnt NodeResources_default = 0" "i64_as_u64 0 = 0" "minReplica FuncPolicySpec_default = 0"
  by (simp add: find_req_def ex_idle_keys SnapshotResource_def i64_as_u64_def Resources_default_def) code_simp+

lemma ex_may_evict: "VerifyMinReplicaPolicy (ex_env 0) ex_full ex_idle_pod [] = Ok True"
  by (simp add: VerifyMinReplicaPolicy_def ReadyPodCount_def ex_full_simps ex_idle_keys bt_get_Cons FuncPolicy_def ResolveReferencedFuncPolicy_def
    Sched_IsPlatformSharedFunc_def ex_wanted_room u64_sub_def State_def ex_status_def bt_values_def ApplyTo_def ex_env_def)

lemma ex_full_search:
  "find_free ex_full ex_wanted FindNvidiaRuntimePod [''node1''] [] = Ok (Inr [(''node1'', NodeResources_default, [])])"
  "find_evict (ex_env 0) ex_full ex_wanted FindNvidiaRuntimePod [''t/n/f/1/1''] [(''node1'', NodeResources_default, [])] [] =
     Ok ([], Some (''node1'', [ex_idle_pod], NodeResources_default\<lparr>nr_memory := 10\<rparr>))"
  by (simp_all add: ex_full_simps ex_idle_keys bt_get_Cons ex_wanted_room ex_may_evict AllocState_Ok_def)

theorem eviction_is_safe_witness:
  "\<exists>s1 s2. FindNode4Pod (ex_env 0) ex_wanted FindNvidiaRuntimePod [(''node1'', ())] ex_full =
       (Ok (''node1'', [ex_idle_pod], NodeResources_default\<lparr>nr_memory := 10\<rparr>), s1) \<and>
     fits ex_full ex_wanted FindNvidiaRuntimePod ''node1'' (NodeResources_default\<lparr>nr_memory := 10\<rparr>) \<and>
     pop_evicted (ex_env 0) [ex_idle_pod] s1 = (Ok (), s2) \<and> ''t/n/f/1/1'' \<notin> set (lru_iter list_lru (idlePods s2))"
proof -
  have env: "lru (ex_env 0) = list_lru" "lru_iter list_lru l = l" for l by (simp_all add: ex_env_def list_lru_def)
  have run: "FindNode4Pod (ex_env 0) ex_wanted FindNvidiaRuntimePod [(''node1'', ())] ex_full =
     (Ok (''node1'', [ex_idle_pod], NodeResources_default\<lparr>nr_memory := 10\<rparr>), ex_full)"
    by (simp add: FindNode4Pod_def act_simps bt_keys_def ex_full_search env ex_full_simps(1,2) drop_missing_def
      del: find_free.simps find_evict.simps)
  have keys: "\<forall>k w. bt_get k (pods ex_full) = Some w \<longrightarrow> PodKey (wp_pod w) = k"
    by (simp add: ex_idle_keys(1) ex_full_simps(1,2) bt_get_Cons)
  show ?thesis
    using eviction_is_safe[OF _ _ keys run] run by (auto simp: env list_lru_laws ex_idle_keys(1) ex_full_simps(1,2) bt_get_Cons)
qed

end
