(* ===== verification/Selection_Pred.thy ===== *)
theory Selection_Pred
  imports Data_Obj
begin

text \<open>
  Selection of objects by labels and by fields of their JSON payload
  (\<open>src/ixshare/src/metastore/selection_predicate.rs\<close>, \<open>GetAttributes\<close> and \<open>ToString\<close> in
  \<open>src/inferxlib/src/selector.rs\<close>). A number is its decimal text. How \<open>serde_json\<close> prints arrays and objects with
  \<open>{:?}\<close> is the argument \<open>dbg\<close>.
\<close>

section \<open>Fields of a payload\<close>

datatype Value = VNull | VBool bool | VNumber string | VString string | VArray "Value list" | VObject "(string \<times> Value) list"

type_synonym Obj = "Value DataObject"

fun Value_get :: "Value \<Rightarrow> string \<Rightarrow> Value option" where
  "Value_get (VObject m) s = map_of m s"
| "Value_get _ s = None"

fun Value_ToString :: "(Value \<Rightarrow> string) \<Rightarrow> Value \<Rightarrow> string" where
  "Value_ToString dbg VNull = ''''"
| "Value_ToString dbg (VBool b) = (if b then ''true'' else ''false'')"
| "Value_ToString dbg (VNumber n) = n"
| "Value_ToString dbg (VString s) = s"
| "Value_ToString dbg v = dbg v"

fun get_path :: "Value \<Rightarrow> string list \<Rightarrow> Value option" where
  "get_path v [] = Some v"
| "get_path v (s # ss) = (case Value_get v s of None \<Rightarrow> None | Some v' \<Rightarrow> get_path v' ss)"

fun attributes_loop :: "(Value \<Rightarrow> string) \<Rightarrow> Value \<Rightarrow> Selector \<Rightarrow> (string, string) btmap \<Rightarrow> (string, string) btmap option" where
  "attributes_loop dbg val [] m = Some m"
| "attributes_loop dbg val (r # rs) m =
     (case get_path val (split_on CHR ''.'' (rq_key r)) of
        None \<Rightarrow> None
      | Some v \<Rightarrow> attributes_loop dbg val rs (bt_insert (rq_key r) (Value_ToString dbg v) m))"

definition GetAttributes :: "(Value \<Rightarrow> string) \<Rightarrow> Selector \<Rightarrow> Value \<Rightarrow> (string, string) btmap option" where
  "GetAttributes dbg self val = attributes_loop dbg val self []"

section \<open>Continuation of a list\<close>

record Continue =
  co_key :: string
  co_revision :: int

definition Continue_Continue :: "Continue \<Rightarrow> string \<Rightarrow> (string \<times> int, error) res" where
  "Continue_Continue self keyPrefix =
     (if co_revision self = 0 then
        Err (CommonError ''continue key is not valid: incorrect encoded start resourceVersion (version meta.k8s.io/v1)'')
      else if length (co_key self) = 0 then
        Err (CommonError ''continue key is not valid: encoded start key empty (version meta.k8s.io/v1)'')
      else
        let key = (if starts_with ''/'' (co_key self) then co_key self else ''/'' @ co_key self)
        in Ok (keyPrefix @ drop 1 key, co_revision self))"

definition Continue_DeepCopy :: "Continue \<Rightarrow> Continue" where
  "Continue_DeepCopy self = \<lparr>co_key = co_key self, co_revision = co_revision self\<rparr>"

definition EncodeContinue :: "string \<Rightarrow> string \<Rightarrow> int \<Rightarrow> (Continue, error) res" where
  "EncodeContinue key keyPrefix rv =
     (if starts_with keyPrefix key then Ok \<lparr>co_key = drop (length keyPrefix) key, co_revision = rv\<rparr>
      else Err (CommonError (''unable to encode next field: the key '' @ [CHR 0x27] @ key @ [CHR 0x27] @ '' and key prefix '' @
        [CHR 0x27] @ keyPrefix @ [CHR 0x27] @ '' do not match'')))"

section \<open>Predicates\<close>

record SelectionPredicate =
  sp_label :: Selector
  sp_field :: Selector
  sp_limit :: nat
  sp_continue :: "Continue option"

definition SelectionPredicate_default :: SelectionPredicate where
  "SelectionPredicate_default = \<lparr>sp_label = [], sp_field = [], sp_limit = 0, sp_continue = None\<rparr>"

definition SelectionPredicate_Empty :: "SelectionPredicate \<Rightarrow> bool" where
  "SelectionPredicate_Empty self \<longleftrightarrow> Selector_Empty (sp_label self) \<and> Selector_Empty (sp_field self)"

definition meta_attrs :: "Obj \<Rightarrow> Selector \<Rightarrow> (string, string) btmap \<Rightarrow> (string, string) btmap" where
  "meta_attrs obj fs attrs = fold (\<lambda>r m.
     if rq_key r = ''metadata.name'' then bt_insert ''metadata.name'' (do_name obj) m
     else if rq_key r = ''metadata.namespace'' then bt_insert ''metadata.namespace'' (do_namespace obj) m
     else m) fs attrs"

definition SelectionPredicate_Match :: "(Value \<Rightarrow> string) \<Rightarrow> SelectionPredicate \<Rightarrow> Obj \<Rightarrow> (bool, error) res" where
  "SelectionPredicate_Match dbg self obj =
     (if SelectionPredicate_Empty self then Ok True
      else
        and_then (Selector_Match (sp_label self) (do_labels obj)) (\<lambda>matched.
        if \<not> matched then Ok False
        else (case GetAttributes dbg (sp_field self) (object obj) of
                None \<Rightarrow> Ok False
              | Some attrs \<Rightarrow> Selector_Match (sp_field self) (meta_attrs obj (sp_field self) attrs))))"

definition SelectionPredicate_DeepCopy :: "SelectionPredicate \<Rightarrow> SelectionPredicate" where
  "SelectionPredicate_DeepCopy self = \<lparr>sp_label = Selector_DeepCopy (sp_label self), sp_field = Selector_DeepCopy (sp_field self),
     sp_limit = sp_limit self, sp_continue = map_option Continue_DeepCopy (sp_continue self)\<rparr>"

definition HasContinue :: "SelectionPredicate \<Rightarrow> bool" where
  "HasContinue self \<longleftrightarrow> sp_continue self \<noteq> None"

definition SelectionPredicate_Continue :: "SelectionPredicate \<Rightarrow> string \<Rightarrow> (string \<times> int, error) res" where
  "SelectionPredicate_Continue self keyPrefix =
     (case sp_continue self of
        None \<Rightarrow> Err (CommonError ''SelectionPredicate has no continue'')
      | Some c \<Rightarrow> Continue_Continue c keyPrefix)"

datatype RevisionMatch = RevNone | NotOlderThan | RevExact

record ListOption =
  lo_revision :: int
  lo_revisionMatch :: RevisionMatch
  lo_predicate :: SelectionPredicate

definition ListOption_DeepCopy :: "ListOption \<Rightarrow> ListOption" where
  "ListOption_DeepCopy self = \<lparr>lo_revision = lo_revision self, lo_revisionMatch = lo_revisionMatch self,
     lo_predicate = SelectionPredicate_DeepCopy (lo_predicate self)\<rparr>"

section \<open>Lemmas\<close>

text \<open>What a predicate looks at: not the revisions.\<close>

lemma Match_rev [simp]:
  "SelectionPredicate_Match dbg p (obj\<lparr>channelRev := c, revision := v\<rparr>) = SelectionPredicate_Match dbg p obj"
  by (simp add: SelectionPredicate_Match_def meta_attrs_def cong: if_cong option.case_cong)

text \<open>A position encoded for one page of a list is the key the next page starts with.\<close>

lemma Encode_Continue:
  assumes "EncodeContinue key p rv = Ok c" "rv \<noteq> 0" "co_key c \<noteq> []" "\<not> starts_with ''/'' (co_key c)"
  shows "Continue_Continue c p = Ok (key, rv)"
proof -
  have pk: "take (length p) key = p" and c: "c = \<lparr>co_key = drop (length p) key, co_revision = rv\<rparr>"
    using assms(1) by (auto simp: EncodeContinue_def starts_with_def split: if_splits)
  then have "p @ co_key c = key" by (metis Continue.select_convs(1) append_take_drop_id)
  then show ?thesis using assms(2-4) c by (simp add: Continue_Continue_def)
qed

end
