(* ===== verification/Watch_Cache.thy ===== *)
theory Watch_Cache
  imports Selection_Pred Handler_Monad
begin

text \<open>
  The cache of one type of objects in the state service and the streams that watch it
  (\<open>src/ixshare/src/metastore/watch.rs\<close> and \<open>cache_store.rs\<close>). The methods of \<open>CacheStore\<close> hold its lock from start to
  end, so each is one step. A channel keeps all messages it accepted and how many of them were read. The record time
  of an event and log output are left out. \<open>capacity()\<close> of a buffer is its length.
\<close>

section \<open>Channels\<close>

record Channel =
  ch_cap :: nat
  ch_sent :: "Value WatchEvent list"
  ch_read :: nat
  ch_closed :: bool

definition channel :: "nat \<Rightarrow> Channel" where
  "channel n = \<lparr>ch_cap = n, ch_sent = [], ch_read = 0, ch_closed = False\<rparr>"

definition try_send :: "Value WatchEvent \<Rightarrow> Channel \<Rightarrow> Channel \<times> (unit, error) res" where
  "try_send e ch =
     (if ch_closed ch then (ch, Err TokioChannClose)
      else if ch_cap ch \<le> length (ch_sent ch) - ch_read ch then (ch, Err TokioChannFull)
      else (ch\<lparr>ch_sent := ch_sent ch @ [e]\<rparr>, Ok ()))"

section \<open>Events and watchers\<close>

record WatchCacheEvent =
  wc_type :: EventType
  wc_obj :: Obj
  wc_prevObj :: "Obj option"
  wc_channelRev :: int
  wc_revision :: int

definition WatchCacheEvent_Key :: "WatchCacheEvent \<Rightarrow> string" where
  "WatchCacheEvent_Key self = DataObject_Key (wc_obj self)"

record CacheWatcher =
  cw_id :: nat
  cw_namespace :: string
  cw_predicate :: SelectionPredicate
  cw_identifier :: string

definition CacheWatcher_Match :: "(Value \<Rightarrow> string) \<Rightarrow> CacheWatcher \<Rightarrow> string \<Rightarrow> Obj \<Rightarrow> (bool, error) res" where
  "CacheWatcher_Match dbg self objKey obj =
     (if \<not> starts_with (cw_namespace self) objKey then Ok False
      else SelectionPredicate_Match dbg (cw_predicate self) obj)"

definition ConvertToWatchEvent :: "(Value \<Rightarrow> string) \<Rightarrow> CacheWatcher \<Rightarrow> WatchCacheEvent \<Rightarrow> (Value WatchEvent option, error) res" where
  "ConvertToWatchEvent dbg self event =
     and_then (if wc_type event \<noteq> Deleted then CacheWatcher_Match dbg self (WatchCacheEvent_Key event) (wc_obj event) else Ok False) (\<lambda>curObjPasses.
     and_then (case wc_prevObj event of
                 None \<Rightarrow> Ok False
               | Some old \<Rightarrow> CacheWatcher_Match dbg self (WatchCacheEvent_Key event) old) (\<lambda>oldObjPasses.
     if curObjPasses \<and> oldObjPasses then
       Ok (Some \<lparr>we_type = Modified, we_obj = DataObject_DeepCopy (wc_obj event)\<rparr>)
     else if curObjPasses \<and> \<not> oldObjPasses then
       Ok (Some \<lparr>we_type = Added, we_obj = DataObject_DeepCopy (wc_obj event)\<rparr>)
     else if \<not> curObjPasses \<and> oldObjPasses then
       (case wc_prevObj event of
          None \<Rightarrow> Panic
        | Some old \<Rightarrow> Ok (Some \<lparr>we_type = Deleted, we_obj = CopyWithRev old (wc_channelRev event) (wc_revision event)\<rparr>))
     else Ok None))"

definition SendWatchCacheEvent :: "(Value \<Rightarrow> string) \<Rightarrow> CacheWatcher \<Rightarrow> WatchCacheEvent \<Rightarrow> Channel \<Rightarrow> Channel \<times> (unit, error) res" where
  "SendWatchCacheEvent dbg self event ch =
     (case ConvertToWatchEvent dbg self event of
        Err e \<Rightarrow> (ch, Err e)
      | Panic \<Rightarrow> (ch, Panic)
      | Ok None \<Rightarrow> (ch, Ok ())
      | Ok (Some we) \<Rightarrow> try_send we ch)"

section \<open>Buffers\<close>

definition BUFFER_SIZE :: nat where
  "BUFFER_SIZE = 100"

record WatchCacheBuf =
  wb_buffer :: "WatchCacheEvent option list"
  wb_head :: nat
  wb_tail :: nat

definition WatchCacheBuf_New :: WatchCacheBuf where
  "WatchCacheBuf_New = \<lparr>wb_buffer = replicate BUFFER_SIZE None, wb_head = 0, wb_tail = 0\<rparr>"

definition WatchCacheBuf_IsEmpty :: "WatchCacheBuf \<Rightarrow> bool" where
  "WatchCacheBuf_IsEmpty self \<longleftrightarrow> wb_head self = wb_tail self"

definition WatchCacheBuf_IsFull :: "WatchCacheBuf \<Rightarrow> (bool, error) res" where
  "WatchCacheBuf_IsFull self = and_then (u64_sub (wb_tail self) (wb_head self)) (\<lambda>n. Ok (n = length (wb_buffer self)))"

definition WatchCacheBuf_Reset :: "WatchCacheBuf \<Rightarrow> WatchCacheBuf" where
  "WatchCacheBuf_Reset self = self\<lparr>wb_head := 0, wb_tail := 0\<rparr>"

definition WatchCacheBuf_Push :: "WatchCacheBuf \<Rightarrow> WatchCacheEvent \<Rightarrow> (WatchCacheBuf \<times> WatchCacheEvent option, error) res" where
  "WatchCacheBuf_Push self event =
     and_then (WatchCacheBuf_IsFull self) (\<lambda>full.
     if full then Ok (self, Some event)
     else
       and_then (u64_add (wb_tail self) 1) (\<lambda>t.
       Ok (self\<lparr>wb_buffer := (wb_buffer self)[wb_tail self mod length (wb_buffer self) := Some event], wb_tail := t\<rparr>, None)))"

definition WatchCacheBuf_Pop :: "WatchCacheBuf \<Rightarrow> (WatchCacheBuf \<times> WatchCacheEvent option, error) res" where
  "WatchCacheBuf_Pop self =
     (if WatchCacheBuf_IsEmpty self then Ok (self, None)
      else
        let idx = wb_head self mod length (wb_buffer self) in
        and_then (u64_add (wb_head self) 1) (\<lambda>h.
        Ok (self\<lparr>wb_head := h, wb_buffer := (wb_buffer self)[idx := None]\<rparr>, wb_buffer self ! idx)))"

text \<open>The buffer of the store, which drops its oldest event when it is full.\<close>

record RingBuf =
  rb_buf :: "WatchCacheEvent option list"
  rb_head :: nat
  rb_tail :: nat

definition RingBuf_New :: "nat \<Rightarrow> RingBuf" where
  "RingBuf_New cap = \<lparr>rb_buf = replicate cap None, rb_head = 0, rb_tail = 0\<rparr>"

definition RingBuf_Reset :: "RingBuf \<Rightarrow> RingBuf" where
  "RingBuf_Reset self = \<lparr>rb_buf = replicate (length (rb_buf self)) None, rb_head = 0, rb_tail = 0\<rparr>"

fun ring_loop :: "(Value \<Rightarrow> string) \<Rightarrow> WatchCacheEvent option list \<Rightarrow> int \<Rightarrow> SelectionPredicate \<Rightarrow> nat list \<Rightarrow> (WatchCacheEvent list, error) res" where
  "ring_loop dbg buf startRev pred [] = Ok []"
| "ring_loop dbg buf startRev pred (i # is) =
     (if length buf = 0 then Panic
      else (case buf ! (i mod length buf) of
        None \<Rightarrow> Err (CommonError ''watch cache isn't correctly initialized'')
      | Some e \<Rightarrow>
          and_then (if wc_channelRev e < startRev then Ok False else SelectionPredicate_Match dbg pred (wc_obj e)) (\<lambda>sel.
          and_then (ring_loop dbg buf startRev pred is) (\<lambda>es.
          Ok (if sel then e # es else es)))))"

definition RingBuf_GetAllEvents :: "(Value \<Rightarrow> string) \<Rightarrow> RingBuf \<Rightarrow> int \<Rightarrow> SelectionPredicate \<Rightarrow> (WatchCacheEvent list, error) res" where
  "RingBuf_GetAllEvents dbg self startRev pred = ring_loop dbg (rb_buf self) startRev pred [rb_head self..<rb_tail self]"

definition OldestIdx :: "RingBuf \<Rightarrow> (nat, error) res" where
  "OldestIdx self = (if length (rb_buf self) = 0 then Panic else Ok (rb_head self mod length (rb_buf self)))"

definition RingBuf_Size :: "RingBuf \<Rightarrow> (nat, error) res" where
  "RingBuf_Size self = u64_sub (rb_tail self) (rb_head self)"

definition RingBuf_Full :: "RingBuf \<Rightarrow> (bool, error) res" where
  "RingBuf_Full self = and_then (u64_sub (rb_tail self) (rb_head self)) (\<lambda>n. Ok (n = length (rb_buf self)))"

definition RingBuf_Push :: "RingBuf \<Rightarrow> WatchCacheEvent \<Rightarrow> (RingBuf, error) res" where
  "RingBuf_Push self event =
     and_then (RingBuf_Full self) (\<lambda>full.
     and_then (if full then u64_add (rb_head self) 1 else Ok (rb_head self)) (\<lambda>h.
     if length (rb_buf self) = 0 then Panic
     else
       and_then (u64_add (rb_tail self) 1) (\<lambda>t.
       Ok \<lparr>rb_buf = (rb_buf self)[rb_tail self mod length (rb_buf self) := Some event], rb_head = h, rb_tail = t\<rparr>)))"

definition RingBuf_Pop :: "RingBuf \<Rightarrow> (RingBuf \<times> WatchCacheEvent option, error) res" where
  "RingBuf_Pop self =
     (if rb_head self = rb_tail self then Ok (self, None)
      else
        and_then (rassert (rb_head self < rb_tail self)) (\<lambda>_.
        if length (rb_buf self) = 0 then Panic
        else
          let idx = rb_head self mod length (rb_buf self) in
          and_then (u64_add (rb_head self) 1) (\<lambda>h.
          Ok (self\<lparr>rb_head := h, rb_buf := (rb_buf self)[idx := None]\<rparr>, rb_buf self ! idx))))"

section \<open>The store\<close>

definition DEFAULT_CACHE_COUNT :: nat where
  "DEFAULT_CACHE_COUNT = 2000"

text \<open>
  The counter of revisions is shared by all stores of the service. \<open>fetch_add\<close> wraps, the addition after it is
  checked.
\<close>

definition ChannelRev_Next :: "int \<Rightarrow> int \<times> (int, error) res" where
  "ChannelRev_Next r = ((r + 1 + 2 ^ 63) mod 2 ^ 64 - 2 ^ 63, i64_add r 1)"

definition ChannelRev_Current :: "int \<Rightarrow> (int, error) res" where
  "ChannelRev_Current r = i64_add r 1"

record CacheStore =
  cs_objectType :: string
  cs_cache :: RingBuf
  cs_channelRev :: int
  cs_listRevision :: int
  cs_lastWatcherId :: nat
  cs_cacheStore :: "(string, Obj) btmap"
  cs_watchers :: "(nat, CacheWatcher) btmap"
  cs_chans :: "nat \<Rightarrow> Channel"

definition CacheStoreInner_New :: "string \<Rightarrow> int \<Rightarrow> (nat \<Rightarrow> Channel) \<Rightarrow> (CacheStore, error) res" where
  "CacheStoreInner_New objTy rv chans =
     and_then (ChannelRev_Current rv) (\<lambda>_.
     Ok \<lparr>cs_objectType = objTy, cs_cache = RingBuf_New DEFAULT_CACHE_COUNT, cs_channelRev = rv, cs_listRevision = 0,
         cs_lastWatcherId = 0, cs_cacheStore = [], cs_watchers = [], cs_chans = chans\<rparr>)"

definition CacheStoreInner_StoreKey :: "CacheStore \<Rightarrow> string \<Rightarrow> string" where
  "CacheStoreInner_StoreKey self key = cs_objectType self @ ''/'' @ key"

definition CacheStoreInner_ChannelRev :: "(CacheStore, int) act" where
  "CacheStoreInner_ChannelRev =
     abind (aget (\<lambda>s. ChannelRev_Next (cs_channelRev s))) (\<lambda>(r, out).
     aseq (amod (\<lambda>s. s\<lparr>cs_channelRev := r\<rparr>)) (alift out))"

text \<open>The loop over the watchers: the channels afterwards and the watchers that could not take the event.\<close>

fun send_all :: "(Value \<Rightarrow> string) \<Rightarrow> WatchCacheEvent \<Rightarrow> (nat \<times> CacheWatcher) list \<Rightarrow> (nat \<Rightarrow> Channel) \<Rightarrow> (nat \<Rightarrow> Channel) \<times> (nat list, error) res" where
  "send_all dbg ev [] chans = (chans, Ok [])"
| "send_all dbg ev ((idx, w) # ws) chans =
     (case SendWatchCacheEvent dbg w ev (chans (cw_id w)) of
        (_, Panic) \<Rightarrow> (chans, Panic)
      | (ch, Ok _) \<Rightarrow> send_all dbg ev ws (chans(cw_id w := ch))
      | (ch, Err _) \<Rightarrow>
          (case send_all dbg ev ws (chans(cw_id w := ch)) of
             (c, Ok gone) \<Rightarrow> (c, Ok (idx # gone))
           | x \<Rightarrow> x))"

definition CacheStoreInner_ProcessEvent :: "(Value \<Rightarrow> string) \<Rightarrow> Value WatchEvent \<Rightarrow> (CacheStore, unit) act" where
  "CacheStoreInner_ProcessEvent dbg event =
     abind CacheStoreInner_ChannelRev (\<lambda>chRev.
     let rv = revision (we_obj event); key = DataObject_Key (we_obj event) in
     abind (aget (\<lambda>s. bt_get key (cs_cacheStore s))) (\<lambda>prev.
     if (case prev of None \<Rightarrow> False | Some o1 \<Rightarrow> rv \<le> revision o1) then ret ()
     else
       let wcEvent = \<lparr>wc_type = EventType_DeepCopy (we_type event), wc_obj = CopyWithRev (we_obj event) chRev rv,
                      wc_prevObj = prev, wc_channelRev = chRev, wc_revision = rv\<rparr> in
       abind (aget (\<lambda>s. send_all dbg wcEvent (cs_watchers s) (cs_chans s))) (\<lambda>(chans, out).
       aseq (amod (\<lambda>s. s\<lparr>cs_chans := chans\<rparr>))
      (abind (alift out) (\<lambda>gone.
       aseq (amod (\<lambda>s. s\<lparr>cs_watchers := fold bt_remove gone (cs_watchers s)\<rparr>))
      (abind (aget (\<lambda>s. RingBuf_Push (cs_cache s) wcEvent)) (\<lambda>r.
       abind (alift r) (\<lambda>cache.
       aseq (amod (\<lambda>s. s\<lparr>cs_cache := cache\<rparr>))
         (amod (\<lambda>s. s\<lparr>cs_cacheStore :=
            if we_type event = Deleted then bt_remove key (cs_cacheStore s)
            else bt_insert key (CopyWithRev (we_obj event) chRev rv) (cs_cacheStore s)\<rparr>))))))))))"

definition CacheStoreInner_Add :: "(Value \<Rightarrow> string) \<Rightarrow> Obj \<Rightarrow> (CacheStore, unit) act" where
  "CacheStoreInner_Add dbg obj = CacheStoreInner_ProcessEvent dbg \<lparr>we_type = Added, we_obj = DataObject_DeepCopy obj\<rparr>"

definition CacheStoreInner_Remove :: "(Value \<Rightarrow> string) \<Rightarrow> Obj \<Rightarrow> (CacheStore, unit) act" where
  "CacheStoreInner_Remove dbg obj = CacheStoreInner_ProcessEvent dbg \<lparr>we_type = Deleted, we_obj = DataObject_DeepCopy obj\<rparr>"

definition CacheStoreInner_Update :: "(Value \<Rightarrow> string) \<Rightarrow> Obj \<Rightarrow> (CacheStore, unit) act" where
  "CacheStoreInner_Update dbg obj = CacheStoreInner_ProcessEvent dbg \<lparr>we_type = Modified, we_obj = DataObject_DeepCopy obj\<rparr>"

definition refresh_events :: "(string, Obj) btmap \<Rightarrow> Obj list \<Rightarrow> Value WatchEvent list" where
  "refresh_events store objs =
     concat (map (\<lambda>obj. case bt_get (DataObject_Key obj) store of
         Some old \<Rightarrow> if revision old \<noteq> revision obj then [\<lparr>we_type = Modified, we_obj = obj\<rparr>] else []
       | None \<Rightarrow> [\<lparr>we_type = Added, we_obj = obj\<rparr>]) objs) @
     map (\<lambda>(k, obj). \<lparr>we_type = Deleted, we_obj = obj\<rparr>) (filter (\<lambda>(k, obj). k \<notin> set (map DataObject_Key objs)) store)"

definition CacheStoreInner_Refresh :: "(Value \<Rightarrow> string) \<Rightarrow> Obj list \<Rightarrow> (CacheStore, unit) act" where
  "CacheStoreInner_Refresh dbg objs =
     abind (aget (\<lambda>s. refresh_events (cs_cacheStore s) objs)) (aiter (CacheStoreInner_ProcessEvent dbg))"

definition GetByKey :: "CacheStore \<Rightarrow> string \<Rightarrow> Obj option" where
  "GetByKey self key = bt_get key (cs_cacheStore self)"

fun store_loop :: "(Value \<Rightarrow> string) \<Rightarrow> SelectionPredicate \<Rightarrow> (string, Obj) btmap \<Rightarrow> (WatchCacheEvent list, error) res" where
  "store_loop dbg pred [] = Ok []"
| "store_loop dbg pred ((k, obj) # m) =
     and_then (SelectionPredicate_Match dbg pred obj) (\<lambda>ok.
     and_then (store_loop dbg pred m) (\<lambda>es.
     Ok (if ok then \<lparr>wc_type = Added, wc_obj = obj, wc_prevObj = None, wc_channelRev = channelRev obj, wc_revision = revision obj\<rparr> # es
         else es)))"

definition GetAllEventsFromStore :: "(Value \<Rightarrow> string) \<Rightarrow> CacheStore \<Rightarrow> SelectionPredicate \<Rightarrow> (WatchCacheEvent list, error) res" where
  "GetAllEventsFromStore dbg self pred = store_loop dbg pred (cs_cacheStore self)"

definition oldest_rev :: "CacheStore \<Rightarrow> (int, error) res" where
  "oldest_rev self =
     and_then (RingBuf_Size (cs_cache self)) (\<lambda>size.
     if 0 \<le> cs_listRevision self \<and> rb_tail (cs_cache self) = 0 then i64_add (cs_listRevision self) 1
     else if 0 < size then
       and_then (OldestIdx (cs_cache self)) (\<lambda>i.
       and_then (opt_or_panic (rb_buf (cs_cache self) ! i)) (\<lambda>e. Ok (wc_channelRev e)))
     else Err (CommonError (''CacheStoreInner: watch cache isn't correctly initialized self.listRevision = '' @
       show_int (cs_listRevision self) @ '' tail = '' @ show_nat (rb_tail (cs_cache self)))))"

definition CacheStoreInner_GetAllEvents :: "(Value \<Rightarrow> string) \<Rightarrow> CacheStore \<Rightarrow> int \<Rightarrow> SelectionPredicate \<Rightarrow> (WatchCacheEvent list, error) res" where
  "CacheStoreInner_GetAllEvents dbg self rv pred =
     and_then (oldest_rev self) (\<lambda>oldest.
     if rv = 0 then GetAllEventsFromStore dbg self pred
     else
       and_then (i64_sub oldest 1) (\<lambda>o1.
       if rv < o1 then Err (CommonError (''too old resource version: '' @ show_int rv @ '' ('' @ show_int o1 @ '')''))
       else RingBuf_GetAllEvents dbg (cs_cache self) rv pred))"

fun send_events :: "(Value \<Rightarrow> string) \<Rightarrow> CacheWatcher \<Rightarrow> WatchCacheEvent list \<Rightarrow> Channel \<Rightarrow> Channel \<times> (unit, error) res" where
  "send_events dbg w [] ch = (ch, Ok ())"
| "send_events dbg w (e # es) ch =
     (case SendWatchCacheEvent dbg w e ch of (ch', Ok _) \<Rightarrow> send_events dbg w es ch' | x \<Rightarrow> x)"

text \<open>The stream returned to the caller is the channel with the number of the watcher.\<close>

definition CacheStoreInner_Watch :: "(Value \<Rightarrow> string) \<Rightarrow> string \<Rightarrow> int \<Rightarrow> SelectionPredicate \<Rightarrow> (CacheStore, nat) act" where
  "CacheStoreInner_Watch dbg ns rv predicate =
     abind (aget cs_lastWatcherId) (\<lambda>i.
     abind (alift (u64_add i 1)) (\<lambda>wid.
     aseq (amod (\<lambda>s. s\<lparr>cs_lastWatcherId := wid\<rparr>))
    (abind (aget (\<lambda>s. CacheStoreInner_GetAllEvents dbg s rv predicate)) (\<lambda>r.
     abind (alift r) (\<lambda>events.
     let channelSize = max (length events + 200) DEFAULT_CACHE_COUNT;
         w = \<lparr>cw_id = wid, cw_namespace = ns, cw_predicate = predicate, cw_identifier = ''''\<rparr>;
         (ch, out) = send_events dbg w events (channel channelSize)
     in aseq (amod (\<lambda>s. s\<lparr>cs_chans := (cs_chans s)(wid := ch)\<rparr>))
       (aseq (alift out)
       (aseq (amod (\<lambda>s. s\<lparr>cs_watchers := bt_insert wid w (cs_watchers s)\<rparr>))
         (ret wid))))))))"

definition RemoveWatch :: "nat \<Rightarrow> (CacheStore, unit) act" where
  "RemoveWatch watcherId =
     abind (aget (\<lambda>s. bt_contains watcherId (cs_watchers s))) (\<lambda>known.
     if \<not> known then athrow (CommonError (''doesn't existing watcher '' @ show_nat watcherId))
     else amod (\<lambda>s. s\<lparr>cs_watchers := bt_remove watcherId (cs_watchers s)\<rparr>))"

section \<open>Reading\<close>

text \<open>The store behind the cache, and what \<open>select!\<close> saw first while waiting for a revision.\<close>

record DataObjList =
  dl_objs :: "Obj list"
  dl_revision :: int
  dl_continue :: "Continue option"
  dl_remainCount :: int

definition DataObjList_default :: DataObjList where
  "DataObjList_default = \<lparr>dl_objs = [], dl_revision = 0, dl_continue = None, dl_remainCount = 0\<rparr>"

record BackendStore =
  be_Get :: "string \<Rightarrow> int \<Rightarrow> (Obj option, error) res"
  be_List :: "string \<Rightarrow> ListOption \<Rightarrow> (DataObjList, error) res"

definition WaitUntilRev :: "bool \<Rightarrow> CacheStore \<Rightarrow> int \<Rightarrow> (unit, error) res" where
  "WaitUntilRev notified self chRev =
     (if chRev = 0 then Ok ()
      else
        and_then (ChannelRev_Current (cs_channelRev self)) (\<lambda>cur.
        if chRev \<le> cur then Ok () else if notified then Ok () else Err (Timeout 3000)))"

definition CacheStore_Get ::
  "BackendStore option \<Rightarrow> bool \<Rightarrow> CacheStore \<Rightarrow> string \<Rightarrow> string \<Rightarrow> string \<Rightarrow> int \<Rightarrow> (Obj option, error) res" where
  "CacheStore_Get backend notified self t ns nm rv =
     (let objKey = slash3 t ns nm in
      if rv = -1 then
        (case backend of
           None \<Rightarrow> Ok None
         | Some b \<Rightarrow> be_Get b (CacheStoreInner_StoreKey self objKey) rv)
      else and_then (WaitUntilRev notified self rv) (\<lambda>_. Ok (bt_get objKey (cs_cacheStore self))))"

definition CacheStore_Count :: "CacheStore \<Rightarrow> nat" where
  "CacheStore_Count self = length (cs_cacheStore self)"

definition list_prefix :: "string \<Rightarrow> string \<Rightarrow> string" where
  "list_prefix t ns = (if length t = 0 then '''' else if length ns = 0 then t else t @ ''/'' @ ns)"

fun list_loop :: "(Value \<Rightarrow> string) \<Rightarrow> string \<Rightarrow> SelectionPredicate \<Rightarrow> (string, Obj) btmap \<Rightarrow> (Obj list, error) res" where
  "list_loop dbg pre pred [] = Ok []"
| "list_loop dbg pre pred ((k, obj) # m) =
     and_then (if starts_with pre (DataObject_Key obj) then SelectionPredicate_Match dbg pred obj else Ok False) (\<lambda>sel.
     and_then (list_loop dbg pre pred m) (\<lambda>objs. Ok (if sel then obj # objs else objs)))"

definition CacheStore_List ::
  "(Value \<Rightarrow> string) \<Rightarrow> BackendStore option \<Rightarrow> bool \<Rightarrow> CacheStore \<Rightarrow> string \<Rightarrow> string \<Rightarrow> ListOption \<Rightarrow> (DataObjList, error) res" where
  "CacheStore_List dbg backend notified self t ns opts =
     (if lo_revision opts = -1 then
        (case backend of
           None \<Rightarrow> Ok DataObjList_default
         | Some b \<Rightarrow> be_List b (CacheStoreInner_StoreKey self ns) ((ListOption_DeepCopy opts)\<lparr>lo_revision := 0\<rparr>))
      else
        and_then (WaitUntilRev notified self (lo_revision opts)) (\<lambda>_.
        and_then (list_loop dbg (list_prefix t ns) (lo_predicate opts) (cs_cacheStore self)) (\<lambda>objs.
        and_then (ChannelRev_Current (cs_channelRev self)) (\<lambda>cur.
        Ok (DataObjList_default\<lparr>dl_objs := objs, dl_revision := cur\<rparr>)))))"

end
