(* ===== verification/Informer.thy ===== *)
theory Informer
  imports Watch_Cache "HOL-Library.Product_Lexorder"
begin

text \<open>
  The client side of a watch (\<open>src/ixshare/src/metastore/store.rs\<close>, \<open>informer.rs\<close>, \<open>aggregate_client.rs\<close>): the copy of
  the objects an informer keeps, how it takes a list and the messages of a stream, and the aggregation of the stores of
  all node agents in the state service. The answers of the server to \<open>List\<close> and \<open>Watch\<close> are arguments, the events given to
  the handlers are a log. Choosing a server, connecting and closing are network access and not modelled.
\<close>

section \<open>The store of a client\<close>

record ThreadSafeStore =
  ts_id :: nat
  ts_map :: "(string, Obj) btmap"

definition Store_Add :: "Obj \<Rightarrow> (ThreadSafeStore, unit) act" where
  "Store_Add obj =
     (let key = DataObject_Key obj in
      abind (aget (\<lambda>s. bt_get key (ts_map s))) (\<lambda>prev.
      aseq (amod (\<lambda>s. s\<lparr>ts_map := bt_insert key obj (ts_map s)\<rparr>))
        (case prev of
           None \<Rightarrow> ret ()
         | Some _ \<Rightarrow> athrow (CommonError (''ThreadSafeStore Add get not none prev obj with obj '' @ key)))))"

definition Store_Update :: "Obj \<Rightarrow> (ThreadSafeStore, Obj) act" where
  "Store_Update obj =
     (let key = DataObject_Key obj in
      abind (aget (\<lambda>s. bt_get key (ts_map s))) (\<lambda>prev.
      aseq (amod (\<lambda>s. s\<lparr>ts_map := bt_insert key obj (ts_map s)\<rparr>))
        (case prev of
           None \<Rightarrow> athrow (CommonError (''ThreadSafeStore Update get none prev obj with key '' @ key))
         | Some old \<Rightarrow> ret old)))"

definition Store_Delete :: "Obj \<Rightarrow> (ThreadSafeStore, Obj) act" where
  "Store_Delete obj =
     (let key = DataObject_Key obj in
      abind (aget (\<lambda>s. bt_get key (ts_map s))) (\<lambda>prev.
      aseq (amod (\<lambda>s. s\<lparr>ts_map := bt_remove key (ts_map s)\<rparr>))
        (case prev of
           None \<Rightarrow> athrow (CommonError (''ThreadSafeStore Update get none prev obj with key '' @ key))
         | Some old \<Rightarrow> ret old)))"

definition Store_List :: "ThreadSafeStore \<Rightarrow> Obj list" where
  "Store_List self = bt_values (ts_map self)"

definition Store_ListKeys :: "ThreadSafeStore \<Rightarrow> string list" where
  "Store_ListKeys self = bt_keys (ts_map self)"

definition delta :: "EventType \<Rightarrow> bool \<Rightarrow> Obj \<Rightarrow> Obj option \<Rightarrow> Value DeltaEvent" where
  "delta ty first obj old = \<lparr>de_type = ty, inInitialList = first, de_obj = obj, oldObj = old\<rparr>"

fun replace_loop :: "(string, Obj) btmap \<Rightarrow> Obj list \<Rightarrow> (string, Obj) btmap \<Rightarrow> ((string, Obj) btmap \<times> Value DeltaEvent list, error) res" where
  "replace_loop old [] m = Ok (m, [])"
| "replace_loop old (x # xs) m =
     and_then (case bt_get (DataObject_Key x) old of
         None \<Rightarrow> Ok [delta Added (old = []) x None]
       | Some y \<Rightarrow>
           and_then (rassert (revision y \<le> revision x)) (\<lambda>_.
           Ok (if revision x \<noteq> revision y then [delta Modified False x (Some y)] else []))) (\<lambda>es.
     and_then (replace_loop old xs (bt_insert (DataObject_Key x) x m)) (\<lambda>(m', es').
     Ok (m', es @ es')))"

definition Store_Replace :: "Obj list \<Rightarrow> (ThreadSafeStore, Value DeltaEvent list) act" where
  "Store_Replace items =
     abind (aget ts_map) (\<lambda>old.
     abind (alift (replace_loop old items [])) (\<lambda>(m, es).
     aseq (amod (\<lambda>s. s\<lparr>ts_map := m\<rparr>))
       (ret (es @ map (\<lambda>(k, x). delta Deleted False x None) (filter (\<lambda>(k, x). \<not> bt_contains k m) old)))))"

section \<open>Informers\<close>

record Informer =
  inf_objType :: string
  inf_tenant :: string
  inf_namespace :: string
  inf_revision :: int
  inf_store :: ThreadSafeStore
  inf_listDone :: bool
  inf_handled :: "Value DeltaEvent list"

definition Informer_New :: "nat \<Rightarrow> string \<Rightarrow> string \<Rightarrow> string \<Rightarrow> Informer" where
  "Informer_New i ty t ns = \<lparr>inf_objType = ty, inf_tenant = t, inf_namespace = ns, inf_revision = 0,
     inf_store = \<lparr>ts_id = i, ts_map = []\<rparr>, inf_listDone = False, inf_handled = []\<rparr>"

definition Distribute :: "Value DeltaEvent \<Rightarrow> (Informer, unit) act" where
  "Distribute e = amod (\<lambda>s. s\<lparr>inf_handled := inf_handled s @ [e]\<rparr>)"

text \<open>The events a new handler is given.\<close>

definition initial_events :: "Informer \<Rightarrow> Value DeltaEvent list" where
  "initial_events self = map (\<lambda>obj. delta Added True obj None) (Store_List (inf_store self))"

definition on_store :: "(ThreadSafeStore, 'a) act \<Rightarrow> (Informer, 'a) act" where
  "on_store m = (\<lambda>s. case m (inf_store s) of (r, st) \<Rightarrow> (r, s\<lparr>inf_store := st\<rparr>))"

text \<open>The events of a merge are kept by epoch and revision, in this order.\<close>

definition epoch_key :: "Obj \<Rightarrow> int \<times> int" where
  "epoch_key obj = (er_srcEpoch (DataObject_EpochRevision obj), er_revision (DataObject_EpochRevision obj))"

type_synonym EpochEvents = "(int \<times> int, Value DeltaEvent) btmap"

definition merge_new :: "bool \<Rightarrow> (string, Obj) btmap \<Rightarrow> string \<times> Obj \<Rightarrow> EpochEvents \<Rightarrow> EpochEvents" where
  "merge_new first old = (\<lambda>(k, v) m.
     case bt_get k old of
       None \<Rightarrow> bt_insert (epoch_key v) (delta Added first v None) m
     | Some x \<Rightarrow> if epoch_key x < epoch_key v then bt_insert (epoch_key v) (delta Modified first v (Some x)) m else m)"

definition merge_old :: "(string, Obj) btmap \<Rightarrow> string \<times> Obj \<Rightarrow> EpochEvents \<Rightarrow> EpochEvents" where
  "merge_old new = (\<lambda>(k, v) m.
     case bt_get k new of
       None \<Rightarrow> bt_insert (epoch_key v) (delta Deleted False v None) m
     | Some _ \<Rightarrow> m)"

definition Merge :: "bool \<Rightarrow> ThreadSafeStore \<Rightarrow> (Informer, Value DeltaEvent list) act" where
  "Merge first newstore =
     abind (aget (\<lambda>s. ts_map (inf_store s))) (\<lambda>old.
     let events = fold (merge_old (ts_map newstore)) old (fold (merge_new first old) (ts_map newstore) []) in
     aseq (amod (\<lambda>s. s\<lparr>inf_store := newstore\<rparr>)) (ret (bt_values events)))"

definition DataObject_of_type :: "string \<Rightarrow> Obj" where
  "DataObject_of_type ty = \<lparr>objType = ty, do_tenant = '''', do_namespace = '''', do_name = '''', do_labels = [], do_annotations = [],
     channelRev = 0, srcEpoch = 0, revision = 0, object = VNull\<rparr>"

text \<open>The new store gets the number \<open>i\<close>; \<open>answer\<close> is what the server returned for \<open>List\<close>.\<close>

definition InitList :: "nat \<Rightarrow> (DataObjList, error) res \<Rightarrow> bool \<Rightarrow> (Informer, unit) act" where
  "InitList i answer first =
     abind (alift answer) (\<lambda>objs.
     aseq (amod (\<lambda>s. s\<lparr>inf_revision := dl_revision objs\<rparr>))
    (let (r, store) = aiter Store_Add (dl_objs objs) \<lparr>ts_id = i, ts_map = []\<rparr> in
     aseq (alift r)
    (abind (Merge first store) (\<lambda>events.
     aseq (aiter Distribute events)
       (awhen first (abind (aget inf_objType) (\<lambda>ty. Distribute (delta InitDone True (DataObject_of_type ty) None))))))))"

text \<open>One message of a stream; an error ends \<open>WatchUpdate\<close>.\<close>

definition watch_event :: "Value WatchEvent \<Rightarrow> (Informer, unit) act" where
  "watch_event e =
     (let obj = we_obj e in
      aseq (amod (\<lambda>s. s\<lparr>inf_revision := channelRev obj\<rparr>))
     (abind (aget (\<lambda>s. bt_get (DataObject_Key obj) (ts_map (inf_store s)))) (\<lambda>old.
      if (case old of None \<Rightarrow> False | Some x \<Rightarrow> revision obj \<le> revision x) then ret ()
      else if we_type e = Added then
        aseq (on_store (Store_Add obj)) (Distribute (delta Added False obj None))
      else if we_type e = Modified then
        abind (on_store (Store_Update obj)) (\<lambda>x. Distribute (delta Modified False obj (Some x)))
      else if we_type e = Deleted then
        abind (on_store (Store_Delete obj)) (\<lambda>x. Distribute (delta Deleted False obj (Some x)))
      else apanic)))"

text \<open>
  \<open>answers\<close> are the answers to the successive \<open>Watch\<close> requests: an error ends the loop, the messages of a stream are handled
  until it ends, then the next request is made; the informer is closed after the last.
\<close>

fun WatchUpdate :: "(Value WatchEvent list, error) res list \<Rightarrow> (Informer, unit) act" where
  "WatchUpdate [] = ret ()"
| "WatchUpdate (answer # answers) = abind (alift answer) (\<lambda>es. aseq (aiter watch_event es) (WatchUpdate answers))"

section \<open>Aggregation\<close>

definition aunwrap :: "('s, 'a) act \<Rightarrow> ('s, 'a) act" where
  "aunwrap m = (\<lambda>s. case m s of (Err e, s') \<Rightarrow> (Panic, s') | x \<Rightarrow> x)"

definition AggregateClient_handle :: "(Value \<Rightarrow> string) \<Rightarrow> Value DeltaEvent \<Rightarrow> (CacheStore, unit) act" where
  "AggregateClient_handle dbg event =
     (if de_type event = Added then aunwrap (CacheStoreInner_Add dbg (de_obj event))
      else if de_type event = Modified then aunwrap (CacheStoreInner_Update dbg (de_obj event))
      else if de_type event = Deleted then aunwrap (CacheStoreInner_Remove dbg (de_obj event))
      else ret ())"

text \<open>When the client is closed it takes its objects out of the aggregated store, with the next revision.\<close>

definition AggregateClient_close :: "(Value \<Rightarrow> string) \<Rightarrow> ThreadSafeStore \<Rightarrow> (CacheStore, unit) act" where
  "AggregateClient_close dbg store =
     aiter (\<lambda>(k, obj). abind (alift (i64_add (revision obj) 1)) (\<lambda>r. CacheStoreInner_Remove dbg (obj\<lparr>revision := r\<rparr>))) (ts_map store)"

end
