(* ===== verification/Watch_Laws.thy ===== *)
theory Watch_Laws
  imports Watch_Cache
begin

text \<open>
  What a watch stream tells its reader. The buffer of events is a queue of bounded length; every operation on the
  store moves the messages of a stream and the selected part of the store together, so that replaying a stream gives
  that part. Lemmas on streams that start with the whole store and on streams that continue after a list.
\<close>

section \<open>The buffer of events\<close>

definition ring_ok :: "RingBuf \<Rightarrow> bool" where
  "ring_ok rb \<longleftrightarrow> 0 < length (rb_buf rb) \<and> rb_head rb \<le> rb_tail rb \<and> rb_tail rb - rb_head rb \<le> length (rb_buf rb) \<and>
     (\<forall>i. rb_head rb \<le> i \<and> i < rb_tail rb \<longrightarrow> rb_buf rb ! (i mod length (rb_buf rb)) \<noteq> None)"

definition ring_list :: "RingBuf \<Rightarrow> WatchCacheEvent list" where
  "ring_list rb = map (\<lambda>i. the (rb_buf rb ! (i mod length (rb_buf rb)))) [rb_head rb..<rb_tail rb]"

lemma mod_apart: "t < i + n \<Longrightarrow> i < t \<Longrightarrow> i mod n \<noteq> t mod (n :: nat)"
proof
  assume "t < i + n" "i < t" "i mod n = t mod n"
  then have "n dvd t - i" by (metis mod_eq_dvd_iff_nat less_imp_le)
  then show False using \<open>t < i + n\<close> \<open>i < t\<close> by (auto dest: dvd_imp_le)
qed

lemma ring_New: "0 < n \<Longrightarrow> ring_ok (RingBuf_New n)" "ring_list (RingBuf_New n) = []"
  by (simp_all add: ring_ok_def ring_list_def RingBuf_New_def)

lemma ring_Push:
  assumes "ring_ok rb" "RingBuf_Push rb e = Ok rb'"
  shows "ring_ok rb'"
    and "ring_list rb' = (if length (ring_list rb) = length (rb_buf rb) then tl (ring_list rb) else ring_list rb) @ [e]"
    and "length (rb_buf rb') = length (rb_buf rb)"
    and "rb_head rb' = (if length (ring_list rb) = length (rb_buf rb) then rb_head rb + 1 else rb_head rb)"
proof -
  let ?n = "length (rb_buf rb)" and ?h = "rb_head rb" and ?t = "rb_tail rb"
  have n: "0 < ?n" "?h \<le> ?t" "?t - ?h \<le> ?n" using assms(1) by (auto simp: ring_ok_def)
  have full: "length (ring_list rb) = ?t - ?h" by (simp add: ring_list_def)
  let ?h' = "if ?t - ?h = ?n then ?h + 1 else ?h"
  have rb': "rb' = \<lparr>rb_buf = (rb_buf rb)[?t mod ?n := Some e], rb_head = ?h', rb_tail = ?t + 1\<rparr>"
    using assms(2) n by (auto simp: RingBuf_Push_def RingBuf_Full_def res_simps u64_add_def u64_sub_def split: if_splits)
  have h': "?h' \<le> ?t" using n by (simp split: if_split, linarith)
  have old: "rb_buf rb' ! (i mod ?n) = rb_buf rb ! (i mod ?n)" if "?h' \<le> i" "i < ?t" for i
  proof -
    have "?t < i + ?n" using that n by (cases "?t - ?h = ?n") simp_all
    then show ?thesis using mod_apart[of ?t i ?n] that by (simp add: rb')
  qed
  have new: "rb_buf rb' ! (?t mod ?n) = Some e" using n by (simp add: rb')
  show "length (rb_buf rb') = ?n" "rb_head rb' = (if length (ring_list rb) = ?n then ?h + 1 else ?h)" by (simp_all add: rb' full)
  have "rb_buf rb' ! (i mod ?n) \<noteq> None" if "?h' \<le> i" "i < ?t + 1" for i
  proof (cases "i = ?t")
    case False
    then show ?thesis using that old[of i] assms(1) by (auto simp: ring_ok_def split: if_splits)
  qed (simp add: new)
  then show "ring_ok rb'" using n by (auto simp: ring_ok_def rb')
  have "map (\<lambda>i. the (rb_buf rb' ! (i mod ?n))) [?h'..<?t] = map (\<lambda>i. the (rb_buf rb ! (i mod ?n))) [?h'..<?t]"
    by (rule map_cong) (use old in auto)
  moreover have "[?h'..<?t + 1] = [?h'..<?t] @ [?t]" using h' by simp
  moreover have "map (\<lambda>i. the (rb_buf rb ! (i mod ?n))) [?h'..<?t] =
      (if ?t - ?h = ?n then tl (ring_list rb) else ring_list rb)"
    using n by (simp add: ring_list_def map_tl[symmetric] tl_upt)
  ultimately show "ring_list rb' = (if length (ring_list rb) = ?n then tl (ring_list rb) else ring_list rb) @ [e]"
    unfolding full using new by (simp add: ring_list_def rb')
qed

lemma ring_oldest:
  assumes "ring_ok rb" "ring_list rb \<noteq> []"
  shows "rb_buf rb ! (rb_head rb mod length (rb_buf rb)) = Some (hd (ring_list rb))"
proof -
  have "rb_head rb < rb_tail rb" using assms(2) by (auto simp: ring_list_def)
  then have "rb_buf rb ! (rb_head rb mod length (rb_buf rb)) \<noteq> None" using assms(1) by (auto simp: ring_ok_def)
  then show ?thesis using \<open>rb_head rb < rb_tail rb\<close> by (auto simp: ring_list_def hd_map)
qed

text \<open>The events a stream may continue with.\<close>

definition kept :: "(Value \<Rightarrow> string) \<Rightarrow> int \<Rightarrow> SelectionPredicate \<Rightarrow> WatchCacheEvent \<Rightarrow> bool" where
  "kept dbg r p e \<longleftrightarrow> r \<le> wc_channelRev e \<and> SelectionPredicate_Match dbg p (wc_obj e) = Ok True"

lemma ring_loop_Ok:
  assumes "ring_loop dbg buf r p is = Ok es"
  shows "es = filter (kept dbg r p) (map (\<lambda>i. the (buf ! (i mod length buf))) is)"
  using assms
proof (induction "is" arbitrary: es)
  case (Cons i "is")
  then obtain e sel es' where e: "buf ! (i mod length buf) = Some e"
    "(if wc_channelRev e < r then Ok False else SelectionPredicate_Match dbg p (wc_obj e)) = Ok sel"
    "ring_loop dbg buf r p is = Ok es'" "es = (if sel then e # es' else es')"
    by (auto simp: res_simps split: if_splits option.splits)
  then show ?case using Cons.IH[OF e(3)] by (auto simp: kept_def split: if_splits)
qed simp

lemma ring_events: "RingBuf_GetAllEvents dbg rb r p = Ok es \<Longrightarrow> es = filter (kept dbg r p) (ring_list rb)"
  by (auto simp: RingBuf_GetAllEvents_def ring_list_def dest: ring_loop_Ok)

section \<open>What a watcher selects\<close>

definition view :: "(Value \<Rightarrow> string) \<Rightarrow> CacheWatcher \<Rightarrow> (string \<Rightarrow> Obj option) \<Rightarrow> string \<Rightarrow> Obj option" where
  "view dbg w m k = (case m k of None \<Rightarrow> None | Some x \<Rightarrow> if CacheWatcher_Match dbg w k x = Ok True then Some x else None)"

text \<open>A reader applies an event to the objects it knows.\<close>

definition apply_event :: "Value WatchEvent \<Rightarrow> (string \<Rightarrow> Obj option) \<Rightarrow> string \<Rightarrow> Obj option" where
  "apply_event e v = v(DataObject_Key (we_obj e) := if we_type e = Deleted then None else Some (we_obj e))"

definition replay :: "Value WatchEvent list \<Rightarrow> (string \<Rightarrow> Obj option) \<Rightarrow> string \<Rightarrow> Obj option" where
  "replay es v = fold apply_event es v"

lemma replay_simps [simp]: "replay [] v = v" "replay (es @ fs) v = replay fs (replay es v)" "replay [e] v = apply_event e v"
  by (simp_all add: replay_def)

text \<open>A reader that keeps the objects it was told of can tell whether a message fits: new objects are added, known ones
  change to a later version.\<close>

definition message_ok :: "(string \<Rightarrow> Obj option) \<Rightarrow> Value WatchEvent \<Rightarrow> bool" where
  "message_ok v e \<longleftrightarrow> (case v (DataObject_Key (we_obj e)) of
     None \<Rightarrow> we_type e = Added
   | Some x \<Rightarrow> (we_type e = Modified \<or> we_type e = Deleted) \<and> revision x < revision (we_obj e))"

fun stream_ok :: "(string \<Rightarrow> Obj option) \<Rightarrow> Value WatchEvent list \<Rightarrow> bool" where
  "stream_ok v [] = True"
| "stream_ok v (e # es) = (message_ok v e \<and> stream_ok (apply_event e v) es)"

lemma stream_ok_append [simp]: "stream_ok v (es @ fs) \<longleftrightarrow> stream_ok v es \<and> stream_ok (replay es v) fs"
  by (induction es arbitrary: v) (auto simp: replay_def)

definition opt_list :: "'a option \<Rightarrow> 'a list" where
  "opt_list x = (case x of None \<Rightarrow> [] | Some y \<Rightarrow> [y])"

lemma opt_list_simps [simp]: "opt_list None = []" "opt_list (Some y) = [y]"
  by (simp_all add: opt_list_def)

text \<open>An event that the store accepts, for a store that holds \<open>m\<close>.\<close>

definition wc_apply :: "WatchCacheEvent \<Rightarrow> (string \<Rightarrow> Obj option) \<Rightarrow> string \<Rightarrow> Obj option" where
  "wc_apply e m = m(WatchCacheEvent_Key e := if wc_type e = Deleted then None else Some (wc_obj e))"

definition keyed :: "(string \<Rightarrow> Obj option) \<Rightarrow> bool" where
  "keyed m \<longleftrightarrow> (\<forall>k x. m k = Some x \<longrightarrow> DataObject_Key x = k)"

definition fits_store :: "WatchCacheEvent \<Rightarrow> (string \<Rightarrow> Obj option) \<Rightarrow> bool" where
  "fits_store e m \<longleftrightarrow> wc_prevObj e = m (WatchCacheEvent_Key e) \<and> DataObject_DeepCopy (wc_obj e) = wc_obj e \<and>
     wc_revision e = revision (wc_obj e) \<and> (\<forall>x. wc_prevObj e = Some x \<longrightarrow> revision x < wc_revision e)"

lemma Copy_key [simp]: "DataObject_Key (CopyWithRev x c r) = DataObject_Key x" "DataObject_Key (DataObject_DeepCopy x) = DataObject_Key x"
  "revision (CopyWithRev x c r) = r" "channelRev (CopyWithRev x c r) = c"
  by (simp_all add: CopyWithRev_def DataObject_DeepCopy_def DataObject_Key_def)

lemma Labels_Copy_twice [simp]: "Labels_Copy (Labels_Copy l) = Labels_Copy l"
  using bt_of_list_id[of "Labels_Copy l"] by (simp add: Labels_Copy_def bt_of_list_def bt_ok_fold_insert)

lemma DeepCopy_Copy [simp]: "DataObject_DeepCopy (CopyWithRev x c r) = CopyWithRev x c r"
  by (simp add: CopyWithRev_def DataObject_DeepCopy_def)

lemma keyed_apply: "keyed m \<Longrightarrow> keyed (wc_apply e m)"
  by (auto simp: keyed_def wc_apply_def WatchCacheEvent_Key_def)

lemma Convert_follows:
  assumes "ConvertToWatchEvent dbg w e = Ok x" "fits_store e m" "keyed m"
  shows "replay (opt_list x) (view dbg w m) = view dbg w (wc_apply e m)" (is ?follows)
    and "stream_ok (view dbg w m) (opt_list x)" (is ?fits)
proof -
  let ?k = "WatchCacheEvent_Key e"
  obtain cur old where cur: "(if wc_type e \<noteq> Deleted then CacheWatcher_Match dbg w ?k (wc_obj e) else Ok False) = Ok cur"
    and old: "(case wc_prevObj e of None \<Rightarrow> Ok False | Some p \<Rightarrow> CacheWatcher_Match dbg w ?k p) = Ok old"
    and out: "(if cur \<and> old then Ok (Some \<lparr>we_type = Modified, we_obj = DataObject_DeepCopy (wc_obj e)\<rparr>)
      else if cur \<and> \<not> old then Ok (Some \<lparr>we_type = Added, we_obj = DataObject_DeepCopy (wc_obj e)\<rparr>)
      else if \<not> cur \<and> old then (case wc_prevObj e of None \<Rightarrow> Panic
        | Some p \<Rightarrow> Ok (Some \<lparr>we_type = Deleted, we_obj = CopyWithRev p (wc_channelRev e) (wc_revision e)\<rparr>))
      else Ok None) = (Ok x :: (Value WatchEvent option, error) res)"
    using assms(1) unfolding ConvertToWatchEvent_def and_then_eq_Ok by blast
  have prev: "wc_prevObj e = m ?k" and copy: "DataObject_DeepCopy (wc_obj e) = wc_obj e"
    and later: "wc_revision e = revision (wc_obj e)" "\<And>y. wc_prevObj e = Some y \<Longrightarrow> revision y < wc_revision e"
    using assms(2) by (simp_all add: fits_store_def)
  have v: "view dbg w m ?k = (if old then m ?k else None)"
    using old prev by (auto simp: view_def split: option.splits)
  have some: "m ?k \<noteq> None" if old using old that prev by (auto split: option.splits)
  have key: "DataObject_Key (the (m ?k)) = ?k" if old using old that prev assms(3) by (auto simp: keyed_def split: option.splits)
  have new: "view dbg w (wc_apply e m) = (view dbg w m)(?k := if cur then Some (wc_obj e) else None)"
    using cur by (auto simp: fun_eq_iff view_def wc_apply_def split: if_splits option.splits)
  have k: "DataObject_Key (wc_obj e) = ?k" by (simp add: WatchCacheEvent_Key_def)
  consider "cur" | "\<not> cur" "old" | "\<not> cur" "\<not> old" by blast
  then have "?follows \<and> ?fits"
  proof cases
    case 1
    then obtain ty where ty: "ty = (if old then Modified else Added)" "x = Some \<lparr>we_type = ty, we_obj = wc_obj e\<rparr>"
      using out copy by (cases old) auto
    then have "message_ok (view dbg w m) \<lparr>we_type = ty, we_obj = wc_obj e\<rparr>"
      using v prev later some by (auto simp: message_ok_def k split: option.split)
    then show ?thesis using 1 ty by (auto simp: new k apply_event_def)
  next
    case 2
    then obtain y where y: "m ?k = Some y" "x = Some \<lparr>we_type = Deleted, we_obj = CopyWithRev y (wc_channelRev e) (wc_revision e)\<rparr>"
      using out prev by (auto split: option.splits)
    then show ?thesis using 2 key v prev later by (simp add: new apply_event_def message_ok_def)
  next
    case 3
    then have "x = None" using out by simp
    then show ?thesis using 3 v by (simp add: new fun_upd_idem)
  qed
  then show ?follows ?fits by blast+
qed

section \<open>Sending\<close>

lemma Send_cases:
  assumes "SendWatchCacheEvent dbg w e ch = (ch', Ok ())"
  obtains x where "ConvertToWatchEvent dbg w e = Ok x" "ch' = ch\<lparr>ch_sent := ch_sent ch @ opt_list x\<rparr>"
  using assms by (auto simp: SendWatchCacheEvent_def try_send_def split: res.splits option.splits if_splits)

lemma send_all_frame:
  "send_all dbg e ws chans = (chans', Ok gone) \<Longrightarrow> i \<notin> cw_id ` snd ` set ws \<Longrightarrow> chans' i = chans i"
  "send_all dbg e ws chans = (chans', Ok gone) \<Longrightarrow> set gone \<subseteq> fst ` set ws"
  by (induction dbg e ws chans arbitrary: chans' gone rule: send_all.induct)
    (auto split: prod.splits res.splits, (force split: prod.splits res.splits)+)

lemma send_all_sends:
  assumes "send_all dbg e ws chans = (chans', Ok gone)" "(i, w) \<in> set ws" "\<forall>(j, v) \<in> set ws. cw_id v = j" "distinct (map fst ws)" "i \<notin> set gone"
  shows "\<exists>x. ConvertToWatchEvent dbg w e = Ok x \<and> ch_sent (chans' i) = ch_sent (chans i) @ opt_list x"
  using assms
proof (induction ws arbitrary: chans gone)
  case (Cons p ws)
  obtain j v where p: "p = (j, v)" by force
  have j: "cw_id v = j" "j \<notin> fst ` set ws" using Cons.prems(3,4) by (auto simp: p)
  obtain ch r gone' where snd: "SendWatchCacheEvent dbg v e (chans j) = (ch, r)" "r \<noteq> Panic"
    and rest: "send_all dbg e ws (chans(j := ch)) = (chans', Ok gone')" "gone = (case r of Ok _ \<Rightarrow> gone' | _ \<Rightarrow> j # gone')"
    using Cons.prems(1) by (auto simp: p j split: prod.splits res.splits)
  show ?case
  proof (cases "i = j")
    case True
    then have w: "w = v" using Cons.prems(2) j(2) by (force simp: p)
    have "r = Ok ()" using rest(2) Cons.prems(5) True snd(2) by (cases r) auto
    then obtain x where "ConvertToWatchEvent dbg v e = Ok x" "ch = (chans j)\<lparr>ch_sent := ch_sent (chans j) @ opt_list x\<rparr>"
      using Send_cases snd(1) by blast
    moreover have "j \<notin> cw_id ` snd ` set ws" using Cons.prems(3) j(2) by (force simp: p)
    then have "chans' j = ch" using send_all_frame(1)[OF rest(1)] by simp
    ultimately show ?thesis by (simp add: True w)
  next
    case False
    then have "(i, w) \<in> set ws" "i \<notin> set gone'" using Cons.prems(2,5) rest(2) by (auto simp: p split: res.splits)
    then show ?thesis using Cons.IH[OF rest(1)] Cons.prems(3,4) False by (auto simp: p)
  qed
qed simp

lemma send_all_outcome: "send_all dbg e ws chans \<noteq> (c, Err x)"
proof (induction ws arbitrary: chans c)
  case (Cons p ws)
  then show ?case by (cases p) (auto split: prod.splits res.splits)
qed simp

lemma Push_outcome: "RingBuf_Push rb e \<noteq> Err x"
  by (auto simp: RingBuf_Push_def RingBuf_Full_def and_then_eq_Err u64_add_def u64_sub_def split: if_splits)

section \<open>The store\<close>

abbreviation lookup :: "CacheStore \<Rightarrow> string \<Rightarrow> Obj option" where
  "lookup s \<equiv> (\<lambda>k. bt_get k (cs_cacheStore s))"

definition cache_ok :: "CacheStore \<Rightarrow> bool" where
  "cache_ok s \<longleftrightarrow> ring_ok (cs_cache s) \<and> bt_ok (cs_cacheStore s) \<and> keyed (lookup s) \<and>
     (\<forall>k x. lookup s k = Some x \<longrightarrow> DataObject_DeepCopy x = x) \<and>
     bt_ok (cs_watchers s) \<and> (\<forall>i w. bt_get i (cs_watchers s) = Some w \<longrightarrow> cw_id w = i \<and> i \<le> cs_lastWatcherId s) \<and>
     (\<forall>e \<in> set (ring_list (cs_cache s)). wc_channelRev e \<le> cs_channelRev s) \<and>
     sorted_wrt (\<lambda>a b. wc_channelRev a < wc_channelRev b) (ring_list (cs_cache s)) \<and>
     - (2 ^ 63) \<le> cs_channelRev s \<and> cs_channelRev s < 2 ^ 63"

definition accepts :: "(Value \<Rightarrow> string) \<Rightarrow> CacheStore \<Rightarrow> WatchCacheEvent \<Rightarrow> CacheStore \<Rightarrow> bool" where
  "accepts dbg s ev s' \<longleftrightarrow> wc_channelRev ev = cs_channelRev s + 1 \<and> fits_store ev (lookup s) \<and>
     (\<exists>gone. send_all dbg ev (cs_watchers s) (cs_chans s) = (cs_chans s', Ok gone) \<and>
        cs_watchers s' = fold bt_remove gone (cs_watchers s)) \<and>
     RingBuf_Push (cs_cache s) ev = Ok (cs_cache s') \<and> bt_ok (cs_cacheStore s') \<and> lookup s' = wc_apply ev (lookup s) \<and>
     cs_lastWatcherId s' = cs_lastWatcherId s \<and> cs_channelRev s' = cs_channelRev s + 1 \<and> cs_channelRev s + 1 < 2 ^ 63"

lemma DeepCopy_event [simp]: "EventType_DeepCopy t = t"
  by (cases t) simp_all

lemma next_rev:
  assumes "CacheStoreInner_ChannelRev s = (r, s')" "r \<noteq> Panic" "cache_ok s"
  shows "r = Ok (cs_channelRev s + 1) \<and> s' = s\<lparr>cs_channelRev := cs_channelRev s + 1\<rparr> \<and> cs_channelRev s + 1 < 2 ^ 63"
proof -
  have "- (2 ^ 63) \<le> cs_channelRev s" "cs_channelRev s + 1 < 2 ^ 63"
    using assms by (auto simp: CacheStoreInner_ChannelRev_def ChannelRev_Next_def act_simps i64_add_def in_i64_def cache_ok_def split: if_splits)
  then have "(cs_channelRev s + 1 + 2 ^ 63) mod 2 ^ 64 - 2 ^ 63 = cs_channelRev s + 1" by simp
  then show ?thesis
    using assms(1,2) by (auto simp: CacheStoreInner_ChannelRev_def ChannelRev_Next_def act_simps i64_add_def split: if_splits)
qed

lemma ProcessEvent_cases:
  assumes "CacheStoreInner_ProcessEvent dbg e s = (r, s')" "r \<noteq> Panic" "cache_ok s"
  shows "r = Ok () \<and> (s' = s\<lparr>cs_channelRev := cs_channelRev s + 1\<rparr> \<and> cs_channelRev s + 1 < 2 ^ 63 \<or> (\<exists>ev. accepts dbg s ev s'))"
proof -
  let ?s1 = "s\<lparr>cs_channelRev := cs_channelRev s + 1\<rparr>" and ?k = "DataObject_Key (we_obj e)" and ?rv = "revision (we_obj e)"
  let ?ev = "\<lparr>wc_type = we_type e, wc_obj = CopyWithRev (we_obj e) (cs_channelRev s + 1) ?rv, wc_prevObj = lookup s ?k,
     wc_channelRev = cs_channelRev s + 1, wc_revision = ?rv\<rparr>"
  obtain r1 s1 where "CacheStoreInner_ChannelRev s = (r1, s1)" by force
  moreover have "r1 \<noteq> Panic" using assms(1,2) calculation by (auto simp: CacheStoreInner_ProcessEvent_def act_simps)
  ultimately have next1: "CacheStoreInner_ChannelRev s = (Ok (cs_channelRev s + 1), ?s1)" and small: "cs_channelRev s + 1 < 2 ^ 63"
    using next_rev assms(3) by blast+
  show ?thesis
  proof (cases "case lookup s ?k of None \<Rightarrow> False | Some o1 \<Rightarrow> ?rv \<le> revision o1")
    case True
    then show ?thesis using assms(1) small by (simp add: CacheStoreInner_ProcessEvent_def act_simps next1 Let_def)
  next
    case False
    obtain chans out where snd: "send_all dbg ?ev (cs_watchers s) (cs_chans s) = (chans, out)" by force
    note run = assms(1)[unfolded CacheStoreInner_ProcessEvent_def abind_run next1 Let_def, simplified False snd act_simps, simplified]
    obtain gone where gone: "out = Ok gone" using run assms(2) snd send_all_outcome by (cases out) (auto simp: act_simps False)
    obtain cache where cache: "RingBuf_Push (cs_cache s) ?ev = Ok cache"
      using run assms(2) snd gone Push_outcome by (cases "RingBuf_Push (cs_cache s) ?ev") (auto simp: act_simps False)
    have s': "r = Ok ()" "s' = s\<lparr>cs_channelRev := cs_channelRev s + 1, cs_chans := chans, cs_watchers := fold bt_remove gone (cs_watchers s),
        cs_cache := cache, cs_cacheStore := if we_type e = Deleted then bt_remove ?k (cs_cacheStore s)
          else bt_insert ?k (CopyWithRev (we_obj e) (cs_channelRev s + 1) ?rv) (cs_cacheStore s)\<rparr>"
      using run snd gone cache by (auto simp: act_simps False)
    have "lookup s' = wc_apply ?ev (lookup s)"
      by (auto simp: s' wc_apply_def WatchCacheEvent_Key_def fun_eq_iff)
    moreover have "bt_ok (cs_cacheStore s')" using assms(3) by (simp add: s' cache_ok_def)
    moreover have "fits_store ?ev (lookup s)" using False by (auto simp: fits_store_def WatchCacheEvent_Key_def split: option.splits)
    ultimately have "accepts dbg s ?ev s'"
      unfolding accepts_def using snd gone cache small by (intro conjI exI[of _ gone]) (simp_all add: s'(2))
    then show ?thesis using s'(1) by blast
  qed
qed

end
