(* ===== verification/Watch_Steps.thy ===== *)
theory Watch_Steps
  imports Watch_Laws
begin

text \<open>
  Everything that can happen to a store of the cache: the operations as a list of steps, the moves they are made of,
  and a locale for what all moves keep.
\<close>

section \<open>Operations\<close>

text \<open>
  Beside the operations of the store itself: another store draws a revision from the shared counter, and the reader of
  a stream takes a message or goes away. The caller of an operation sees its error; the store goes on.
\<close>

datatype CacheOp =
    OpEvent "Value WatchEvent"
  | OpRefresh "Obj list"
  | OpWatch string int SelectionPredicate
  | OpRemoveWatch nat
  | OpOther
  | OpRecv nat
  | OpClose nat

definition upd_chan :: "nat \<Rightarrow> (Channel \<Rightarrow> Channel) \<Rightarrow> (CacheStore, unit) act" where
  "upd_chan i f = amod (\<lambda>s. s\<lparr>cs_chans := (cs_chans s)(i := f (cs_chans s i))\<rparr>)"

fun cache_step :: "(Value \<Rightarrow> string) \<Rightarrow> CacheOp \<Rightarrow> (CacheStore, unit) act" where
  "cache_step dbg (OpEvent e) = CacheStoreInner_ProcessEvent dbg e"
| "cache_step dbg (OpRefresh objs) = CacheStoreInner_Refresh dbg objs"
| "cache_step dbg (OpWatch ns rv p) = aseq (CacheStoreInner_Watch dbg ns rv p) (ret ())"
| "cache_step dbg (OpRemoveWatch i) = RemoveWatch i"
| "cache_step dbg OpOther = aseq CacheStoreInner_ChannelRev (ret ())"
| "cache_step dbg (OpRecv i) = upd_chan i (\<lambda>ch. if ch_read ch < length (ch_sent ch) then ch\<lparr>ch_read := ch_read ch + 1\<rparr> else ch)"
| "cache_step dbg (OpClose i) = upd_chan i (\<lambda>ch. ch\<lparr>ch_closed := True\<rparr>)"

definition cache_run :: "(Value \<Rightarrow> string) \<Rightarrow> CacheOp list \<Rightarrow> (CacheStore, unit) act" where
  "cache_run dbg ops = aiter (\<lambda>op. aok (cache_step dbg op)) ops"

section \<open>Moves\<close>

inductive cache_move :: "(Value \<Rightarrow> string) \<Rightarrow> CacheStore \<Rightarrow> CacheStore \<Rightarrow> bool" for dbg where
  rev: "cs_channelRev s + 1 < 2 ^ 63 \<Longrightarrow> cache_move dbg s (s\<lparr>cs_channelRev := cs_channelRev s + 1\<rparr>)"
| event: "accepts dbg s ev s' \<Longrightarrow> cache_move dbg s s'"
| number: "cache_move dbg s (s\<lparr>cs_lastWatcherId := cs_lastWatcherId s + 1, cs_chans := (cs_chans s)(cs_lastWatcherId s + 1 := ch)\<rparr>)"
| watch: "cw_id w = cs_lastWatcherId s + 1 \<Longrightarrow>
    cache_move dbg s (s\<lparr>cs_lastWatcherId := cs_lastWatcherId s + 1, cs_chans := (cs_chans s)(cs_lastWatcherId s + 1 := ch),
      cs_watchers := bt_insert (cs_lastWatcherId s + 1) w (cs_watchers s)\<rparr>)"
| unwatch: "cache_move dbg s (s\<lparr>cs_watchers := bt_remove i (cs_watchers s)\<rparr>)"
| reader: "(\<And>j. ch_sent (c j) = ch_sent (cs_chans s j)) \<Longrightarrow> cache_move dbg s (s\<lparr>cs_chans := c\<rparr>)"

lemma get_fold_remove: "bt_get k (fold bt_remove ks m) = (if k \<in> set ks then None else bt_get k m)"
  by (induction ks arbitrary: m) auto

lemma ok_fold_remove: "bt_ok m \<Longrightarrow> bt_ok (fold bt_remove ks m)"
  by (induction ks arbitrary: m) auto

lemma accepts_ok:
  assumes "accepts dbg s ev s'" "cache_ok s"
  shows "cache_ok s'"
proof -
  have copy: "DataObject_DeepCopy (wc_obj ev) = wc_obj ev" and rev: "wc_channelRev ev = cs_channelRev s + 1"
    and look: "lookup s' = wc_apply ev (lookup s)" and ring: "RingBuf_Push (cs_cache s) ev = Ok (cs_cache s')"
    and ws: "\<exists>gone. cs_watchers s' = fold bt_remove gone (cs_watchers s)"
    and rest: "bt_ok (cs_cacheStore s')" "cs_lastWatcherId s' = cs_lastWatcherId s" "cs_channelRev s' = cs_channelRev s + 1" "cs_channelRev s + 1 < 2 ^ 63"
    using assms(1) unfolding accepts_def fits_store_def by blast+
  have ok: "ring_ok (cs_cache s)" "keyed (lookup s)" "\<And>k x. lookup s k = Some x \<Longrightarrow> DataObject_DeepCopy x = x" "bt_ok (cs_watchers s)"
    "\<And>i w. bt_get i (cs_watchers s) = Some w \<Longrightarrow> cw_id w = i \<and> i \<le> cs_lastWatcherId s"
    "\<And>e. e \<in> set (ring_list (cs_cache s)) \<Longrightarrow> wc_channelRev e \<le> cs_channelRev s"
    "sorted_wrt (\<lambda>a b. wc_channelRev a < wc_channelRev b) (ring_list (cs_cache s))" "- (2 ^ 63) \<le> cs_channelRev s"
    using assms(2) unfolding cache_ok_def by blast+
  let ?old = "if length (ring_list (cs_cache s)) = length (rb_buf (cs_cache s)) then tl (ring_list (cs_cache s)) else ring_list (cs_cache s)"
  have list: "ring_list (cs_cache s') = ?old @ [ev]" and "ring_ok (cs_cache s')" using ring_Push[OF ok(1) ring] by simp_all
  moreover have "e \<in> set ?old \<Longrightarrow> wc_channelRev e \<le> cs_channelRev s" for e
    using ok(6)[of e] by (cases "ring_list (cs_cache s)") (auto split: if_splits)
  moreover have "sorted_wrt (\<lambda>a b. wc_channelRev a < wc_channelRev b) ?old"
    using ok(7) by (cases "ring_list (cs_cache s)") auto
  ultimately have "\<forall>e \<in> set (ring_list (cs_cache s')). wc_channelRev e \<le> cs_channelRev s + 1"
    "sorted_wrt (\<lambda>a b. wc_channelRev a < wc_channelRev b) (ring_list (cs_cache s'))"
    using rev by (force simp: list sorted_wrt_append)+
  moreover have "\<forall>k x. lookup s' k = Some x \<longrightarrow> DataObject_DeepCopy x = x"
    using ok(3) copy by (auto simp: fun_cong[OF look] wc_apply_def split: if_splits)
  moreover have "keyed (lookup s')" using keyed_apply[OF ok(2)] by (simp add: look)
  moreover have "bt_ok (cs_watchers s')" "\<forall>i w. bt_get i (cs_watchers s') = Some w \<longrightarrow> cw_id w = i \<and> i \<le> cs_lastWatcherId s'"
    using ws ok(4,5) by (auto simp: ok_fold_remove get_fold_remove rest(2) split: if_splits)
  ultimately show ?thesis using \<open>ring_ok (cs_cache s')\<close> rest ok(8) unfolding cache_ok_def by simp
qed

lemma move_ok: "cache_move dbg s s' \<Longrightarrow> cache_ok s \<Longrightarrow> cache_ok s'"
proof (induction rule: cache_move.induct)
  case (event s ev s')
  then show ?case using accepts_ok by blast
next
  case (number s ch)
  then show ?case by (auto simp: cache_ok_def intro: le_SucI)
next
  case (watch w s ch)
  then show ?case by (auto simp: cache_ok_def intro: le_SucI split: if_splits)
qed (auto simp: cache_ok_def)

lemma moves_ok: "(cache_move dbg)\<^sup>*\<^sup>* s s' \<Longrightarrow> cache_ok s \<Longrightarrow> cache_ok s'"
  by (induction rule: rtranclp_induct) (use move_ok in blast)+

section \<open>Operations are made of moves\<close>

definition moves :: "(Value \<Rightarrow> string) \<Rightarrow> (CacheStore, 'a) act \<Rightarrow> bool" where
  "moves dbg m \<longleftrightarrow> (\<forall>s r s'. cache_ok s \<longrightarrow> m s = (r, s') \<longrightarrow> r \<noteq> Panic \<longrightarrow> (cache_move dbg)\<^sup>*\<^sup>* s s')"

lemma moves_aseq:
  assumes "moves dbg m" "moves dbg n"
  shows "moves dbg (aseq m n)"
  unfolding moves_def
proof (intro allI impI)
  fix s r s' assume ok: "cache_ok s" and run: "aseq m n s = (r, s')" and np: "r \<noteq> Panic"
  obtain r1 s1 where m: "m s = (r1, s1)" by force
  have "r1 \<noteq> Panic" using run np m by (auto simp: aseq_run)
  then have step: "(cache_move dbg)\<^sup>*\<^sup>* s s1" using assms(1) ok m unfolding moves_def by blast
  show "(cache_move dbg)\<^sup>*\<^sup>* s s'"
  proof (cases r1)
    case (Ok x)
    then have "n s1 = (r, s')" using m run by (simp add: aseq_run)
    then have "(cache_move dbg)\<^sup>*\<^sup>* s1 s'"
      using assms(2) moves_ok[OF step ok] np unfolding moves_def by blast
    then show ?thesis using step by simp
  qed (use m run np step in \<open>auto simp: aseq_run\<close>)
qed

lemma moves_aok: "moves dbg m \<Longrightarrow> moves dbg (aok m)"
  unfolding moves_def by (auto simp: aok_def atry_def act_simps split: prod.splits res.splits)

lemma moves_ret: "moves dbg (ret x)"
  by (simp add: moves_def)

lemma moves_aiter: "(\<And>x. moves dbg (f x)) \<Longrightarrow> moves dbg (aiter f xs)"
  by (induction xs) (auto intro: moves_aseq moves_ret)

lemma moves_ProcessEvent: "moves dbg (CacheStoreInner_ProcessEvent dbg e)"
  unfolding moves_def
proof (intro allI impI)
  fix s r s' assume "cache_ok s" "CacheStoreInner_ProcessEvent dbg e s = (r, s')" "r \<noteq> Panic"
  from ProcessEvent_cases[OF this(2,3,1)] have "cache_move dbg s s'" using cache_move.rev cache_move.event by blast
  then show "(cache_move dbg)\<^sup>*\<^sup>* s s'" by simp
qed

lemma moves_ChannelRev: "moves dbg CacheStoreInner_ChannelRev"
  unfolding moves_def using next_rev cache_move.rev by (metis r_into_rtranclp)

lemma moves_Refresh: "moves dbg (CacheStoreInner_Refresh dbg objs)"
  unfolding moves_def CacheStoreInner_Refresh_def abind_run aget_def
  using moves_aiter[of dbg "CacheStoreInner_ProcessEvent dbg", OF moves_ProcessEvent] unfolding moves_def by simp

lemma moves_RemoveWatch: "moves dbg (RemoveWatch i)"
  by (auto simp: moves_def RemoveWatch_def act_simps athrow_def intro: r_into_rtranclp cache_move.unwatch)

text \<open>A watch that succeeds: its events were sent, all of them, and the watcher is registered.\<close>

definition new_watcher :: "nat \<Rightarrow> string \<Rightarrow> SelectionPredicate \<Rightarrow> CacheWatcher" where
  "new_watcher i ns p = \<lparr>cw_id = i, cw_namespace = ns, cw_predicate = p, cw_identifier = ''''\<rparr>"

lemma Watch_cases:
  assumes "CacheStoreInner_Watch dbg ns rv p s = (r, s')" "r \<noteq> Panic"
  obtains (failed) e ch where "r = Err e"
      "s' = s\<lparr>cs_lastWatcherId := cs_lastWatcherId s + 1, cs_chans := (cs_chans s)(cs_lastWatcherId s + 1 := ch)\<rparr>"
    | (watching) es ch where "r = Ok (cs_lastWatcherId s + 1)"
      "CacheStoreInner_GetAllEvents dbg (s\<lparr>cs_lastWatcherId := cs_lastWatcherId s + 1\<rparr>) rv p = Ok es"
      "send_events dbg (new_watcher (cs_lastWatcherId s + 1) ns p) es (channel (max (length es + 200) DEFAULT_CACHE_COUNT)) = (ch, Ok ())"
      "s' = s\<lparr>cs_lastWatcherId := cs_lastWatcherId s + 1, cs_chans := (cs_chans s)(cs_lastWatcherId s + 1 := ch),
         cs_watchers := bt_insert (cs_lastWatcherId s + 1) (new_watcher (cs_lastWatcherId s + 1) ns p) (cs_watchers s)\<rparr>"
proof -
  let ?i = "cs_lastWatcherId s + 1"
  let ?w = "new_watcher ?i ns p"
  let ?all = "CacheStoreInner_GetAllEvents dbg (s\<lparr>cs_lastWatcherId := ?i\<rparr>) rv p"
  have i: "u64_add (cs_lastWatcherId s) 1 = (Ok ?i :: (nat, error) res)"
    using assms by (auto simp: CacheStoreInner_Watch_def act_simps u64_add_def split: if_splits)
  note run = assms(1)[unfolded CacheStoreInner_Watch_def new_watcher_def[symmetric]]
  show ?thesis
  proof (cases ?all)
    case (Ok es)
    obtain ch out where out: "send_events dbg ?w es (channel (max (length es + 200) DEFAULT_CACHE_COUNT)) = (ch, out)" by force
    then show ?thesis using run assms(2) Ok i failed watching by (cases out) (auto simp: act_simps Let_def)
  next
    case (Err e)
    have "(cs_chans s)(?i := cs_chans s ?i) = cs_chans s" by simp
    then have "s\<lparr>cs_lastWatcherId := ?i\<rparr> = s\<lparr>cs_lastWatcherId := ?i, cs_chans := (cs_chans s)(?i := cs_chans s ?i)\<rparr>" by simp
    moreover have "r = Err e" "s' = s\<lparr>cs_lastWatcherId := ?i\<rparr>" using run Err i by (auto simp: act_simps)
    ultimately show ?thesis using failed[of e "cs_chans s ?i"] by simp
  next
    case Panic
    then show ?thesis using run assms(2) i by (auto simp: act_simps)
  qed
qed

lemma moves_Watch: "moves dbg (CacheStoreInner_Watch dbg ns rv p)"
  unfolding moves_def
proof (intro allI impI)
  fix s r s' assume "CacheStoreInner_Watch dbg ns rv p s = (r, s')" "r \<noteq> Panic"
  then have "cache_move dbg s s'"
  proof (cases rule: Watch_cases)
    case (failed e ch)
    then show ?thesis using cache_move.number by simp
  next
    case (watching es ch)
    then show ?thesis using cache_move.watch[of "new_watcher (cs_lastWatcherId s + 1) ns p" s dbg ch] by (simp add: new_watcher_def)
  qed
  then show "(cache_move dbg)\<^sup>*\<^sup>* s s'" by simp
qed

lemma moves_upd_chan: "(\<And>ch. ch_sent (f ch) = ch_sent ch) \<Longrightarrow> moves dbg (upd_chan i f)"
  by (auto simp: moves_def upd_chan_def amod_def intro!: r_into_rtranclp cache_move.reader)

lemma moves_step: "moves dbg (cache_step dbg op)"
  by (cases op) (auto intro!: moves_aseq moves_ret moves_ProcessEvent moves_Refresh moves_Watch moves_RemoveWatch moves_ChannelRev moves_upd_chan)

lemma moves_run: "moves dbg (cache_run dbg ops)"
  unfolding cache_run_def by (intro moves_aiter moves_aok moves_step)

end
