(* ===== verification/Watch_Replay.thy ===== *)
theory Watch_Replay
  imports Watch_Steps
begin

text \<open>
  Streams follow the store, whatever happens to it, and a stream opened with the revision of an earlier list tells
  what happened since the list.
\<close>

section \<open>What every move keeps\<close>

locale cache_law =
  fixes dbg :: "Value \<Rightarrow> string" and J :: "CacheStore \<Rightarrow> bool"
  assumes move: "cache_move dbg s s' \<Longrightarrow> cache_ok s \<Longrightarrow> J s \<Longrightarrow> J s'"
begin

lemma moves: "(cache_move dbg)\<^sup>*\<^sup>* s s' \<Longrightarrow> cache_ok s \<Longrightarrow> J s \<Longrightarrow> J s'"
  by (induction rule: rtranclp_induct) (use move moves_ok in blast)+

lemma run: "cache_run dbg ops s = (r, s') \<Longrightarrow> r \<noteq> Panic \<Longrightarrow> cache_ok s \<Longrightarrow> J s \<Longrightarrow> J s'"
  using moves moves_run[of dbg ops] unfolding moves_def by blast

end

lemma run_ok: "cache_run dbg ops s = (r, s') \<Longrightarrow> r \<noteq> Panic \<Longrightarrow> cache_ok s \<Longrightarrow> cache_ok s'"
  using moves_run[of dbg ops] moves_ok unfolding moves_def by blast

lemma New_ok:
  assumes "CacheStoreInner_New ty rv chans = Ok s" "- (2 ^ 63) \<le> rv"
  shows "cache_ok s"
  using assms ring_New[of DEFAULT_CACHE_COUNT]
  by (auto simp: CacheStoreInner_New_def ChannelRev_Current_def i64_add_def in_i64_def res_simps cache_ok_def keyed_def DEFAULT_CACHE_COUNT_def split: if_splits)

section \<open>A stream follows the store\<close>

definition tracks :: "(Value \<Rightarrow> string) \<Rightarrow> nat \<Rightarrow> CacheWatcher \<Rightarrow> (string \<Rightarrow> Obj option) \<Rightarrow> CacheStore \<Rightarrow> bool" where
  "tracks dbg i w v s \<longleftrightarrow> i \<le> cs_lastWatcherId s \<and>
     (\<forall>w'. bt_get i (cs_watchers s) = Some w' \<longrightarrow> w' = w \<and>
       replay (ch_sent (cs_chans s i)) v = view dbg w (lookup s) \<and> stream_ok v (ch_sent (cs_chans s i)))"

lemma tracks_event:
  assumes "accepts dbg s ev s'" "cache_ok s" "tracks dbg i w v s"
  shows "tracks dbg i w v s'"
proof -
  obtain gone where sent: "send_all dbg ev (cs_watchers s) (cs_chans s) = (cs_chans s', Ok gone)"
    and ws: "cs_watchers s' = fold bt_remove gone (cs_watchers s)" and fit: "fits_store ev (lookup s)"
    and look: "lookup s' = wc_apply ev (lookup s)" and n: "cs_lastWatcherId s' = cs_lastWatcherId s"
    using assms(1) unfolding accepts_def by blast
  have ok: "bt_ok (cs_watchers s)" "keyed (lookup s)" "\<And>j v. bt_get j (cs_watchers s) = Some v \<Longrightarrow> cw_id v = j"
    using assms(2) unfolding cache_ok_def by blast+
  have "w' = w \<and> replay (ch_sent (cs_chans s' i)) v = view dbg w (lookup s') \<and> stream_ok v (ch_sent (cs_chans s' i))" if "bt_get i (cs_watchers s') = Some w'" for w'
  proof -
    have i: "i \<notin> set gone" "bt_get i (cs_watchers s) = Some w'" using that by (auto simp: ws get_fold_remove split: if_splits)
    then have w: "w' = w" and old: "replay (ch_sent (cs_chans s i)) v = view dbg w (lookup s)" "stream_ok v (ch_sent (cs_chans s i))"
      using assms(3) by (auto simp: tracks_def)
    have "(i, w) \<in> set (cs_watchers s)" "\<forall>(j, v) \<in> set (cs_watchers s). cw_id v = j" "distinct (map fst (cs_watchers s))"
      using i(2) w ok bt_get_mem_iff[OF ok(1)] bt_ok_distinct[OF ok(1)] by (auto simp: bt_keys_def)
    then obtain x where "ConvertToWatchEvent dbg w ev = Ok x" "ch_sent (cs_chans s' i) = ch_sent (cs_chans s i) @ opt_list x"
      using send_all_sends[OF sent _ _ _ i(1)] by blast
    then show ?thesis using w old Convert_follows[OF _ fit ok(2)] look by simp
  qed
  then show ?thesis using assms(3) by (simp add: tracks_def n)
qed

interpretation tr: cache_law dbg "tracks dbg i w v" for dbg i w v
proof
  fix s s' assume "cache_move dbg s s'" "cache_ok s" "tracks dbg i w v s"
  then show "tracks dbg i w v s'"
  proof (induction rule: cache_move.induct)
    case (event s ev s')
    then show ?case using tracks_event by blast
  qed (auto simp: tracks_def)
qed

section \<open>What happened since a state\<close>

inductive hist :: "(string \<Rightarrow> Obj option) \<Rightarrow> WatchCacheEvent list \<Rightarrow> (string \<Rightarrow> Obj option) \<Rightarrow> bool" where
  hist_Nil: "hist m [] m"
| hist_snoc: "hist m L m' \<Longrightarrow> fits_store e m' \<Longrightarrow> hist m (L @ [e]) (wc_apply e m')"

definition since :: "CacheStore \<Rightarrow> CacheStore \<Rightarrow> bool" where
  "since s0 s \<longleftrightarrow> (\<exists>L k. hist (lookup s0) L (lookup s) \<and> k \<le> length (ring_list (cs_cache s0) @ L) \<and>
     ring_list (cs_cache s) = drop k (ring_list (cs_cache s0) @ L) \<and> rb_head (cs_cache s) = rb_head (cs_cache s0) + k \<and>
     (\<forall>e \<in> set L. cs_channelRev s0 < wc_channelRev e \<and> wc_channelRev e \<le> cs_channelRev s) \<and>
     sorted_wrt (\<lambda>a b. wc_channelRev a < wc_channelRev b) L) \<and> cs_channelRev s0 \<le> cs_channelRev s"

lemma since_event:
  assumes "accepts dbg s ev s'" "cache_ok s" "since s0 s"
  shows "since s0 s'"
proof -
  let ?Q = "ring_list (cs_cache s0)" and ?R = "ring_list (cs_cache s)"
  obtain L k where L: "hist (lookup s0) L (lookup s)" "k \<le> length (?Q @ L)" "?R = drop k (?Q @ L)" "rb_head (cs_cache s) = rb_head (cs_cache s0) + k"
    "\<forall>e \<in> set L. cs_channelRev s0 < wc_channelRev e \<and> wc_channelRev e \<le> cs_channelRev s"
    "sorted_wrt (\<lambda>a b. wc_channelRev a < wc_channelRev b) L" "cs_channelRev s0 \<le> cs_channelRev s" using assms(3) unfolding since_def by blast
  have ev: "fits_store ev (lookup s)" "lookup s' = wc_apply ev (lookup s)" "wc_channelRev ev = cs_channelRev s + 1"
    "cs_channelRev s' = cs_channelRev s + 1" "RingBuf_Push (cs_cache s) ev = Ok (cs_cache s')"
    using assms(1) unfolding accepts_def by blast+
  let ?n = "length (rb_buf (cs_cache s))"
  have ring: "ring_ok (cs_cache s)" using assms(2) by (simp add: cache_ok_def)
  then have "0 < ?n" by (simp add: ring_ok_def)
  define k' where "k' = (if length ?R = ?n then Suc k else k)"
  have "length ?R = length (?Q @ L) - k" using L(3) by simp
  then have k': "k' \<le> length (?Q @ L)" using L(2) \<open>0 < ?n\<close> unfolding k'_def by presburger
  have head: "rb_head (cs_cache s') = rb_head (cs_cache s0) + k'" using ring_Push(4)[OF ring ev(5)] L(4) by (simp add: k'_def)
  have "ring_list (cs_cache s') = (if length ?R = ?n then tl ?R else ?R) @ [ev]" using ring_Push[OF ring ev(5)] by simp
  also have "\<dots> = drop k' (?Q @ L) @ [ev]" by (simp only: L(3) k'_def tl_drop drop_Suc split: if_split) simp
  also have "\<dots> = drop k' (?Q @ (L @ [ev]))" using k' by simp
  finally have "ring_list (cs_cache s') = drop k' (?Q @ (L @ [ev]))" .
  moreover have "hist (lookup s0) (L @ [ev]) (lookup s')" using hist_snoc[OF L(1) ev(1)] ev(2) by simp
  moreover have "k' \<le> length (?Q @ (L @ [ev]))" using k' by simp
  moreover have "\<forall>e \<in> set (L @ [ev]). cs_channelRev s0 < wc_channelRev e \<and> wc_channelRev e \<le> cs_channelRev s'"
    "sorted_wrt (\<lambda>a b. wc_channelRev a < wc_channelRev b) (L @ [ev])"
    using L(5-7) ev(3,4) by (force simp: sorted_wrt_append)+
  ultimately show ?thesis using L(7) ev(4) head unfolding since_def by (intro conjI exI[of _ "L @ [ev]"] exI[of _ k']) simp_all
qed

lemma since_same:
  "since s0 s \<Longrightarrow> cs_cacheStore s' = cs_cacheStore s \<Longrightarrow> cs_cache s' = cs_cache s \<Longrightarrow> cs_channelRev s \<le> cs_channelRev s' \<Longrightarrow> since s0 s'"
  unfolding since_def by fastforce

interpretation sn: cache_law dbg "since s0" for dbg s0
proof
  fix s s' assume "cache_move dbg s s'" "cache_ok s" "since s0 s"
  then show "since s0 s'"
  proof (induction rule: cache_move.induct)
    case (event s ev s')
    then show ?case using since_event by blast
  qed (erule since_same; simp)+
qed

lemma since_refl: "since s s"
  unfolding since_def using hist_Nil by (intro conjI exI[of _ "[]"] exI[of _ 0]) auto

section \<open>The start of a stream\<close>

definition conv :: "(Value \<Rightarrow> string) \<Rightarrow> CacheWatcher \<Rightarrow> WatchCacheEvent \<Rightarrow> Value WatchEvent list" where
  "conv dbg w e = (case ConvertToWatchEvent dbg w e of Ok x \<Rightarrow> opt_list x | _ \<Rightarrow> [])"

lemma send_events_sent:
  assumes "send_events dbg w es ch = (ch', Ok ())"
  shows "ch_sent ch' = ch_sent ch @ concat (map (conv dbg w) es)" "\<forall>e \<in> set es. \<exists>x. ConvertToWatchEvent dbg w e = Ok x"
proof -
  have "ch_sent ch' = ch_sent ch @ concat (map (conv dbg w) es) \<and> (\<forall>e \<in> set es. \<exists>x. ConvertToWatchEvent dbg w e = Ok x)"
    using assms
  proof (induction es arbitrary: ch)
    case (Cons e es)
    then obtain ch1 where one: "SendWatchCacheEvent dbg w e ch = (ch1, Ok ())" and rest: "send_events dbg w es ch1 = (ch', Ok ())"
      by (auto split: prod.splits res.splits)
    from one obtain x where "ConvertToWatchEvent dbg w e = Ok x" "ch1 = ch\<lparr>ch_sent := ch_sent ch @ opt_list x\<rparr>" by (rule Send_cases)
    then show ?case using Cons.IH[OF rest] by (simp add: conv_def)
  qed simp
  then show "ch_sent ch' = ch_sent ch @ concat (map (conv dbg w) es)" "\<forall>e \<in> set es. \<exists>x. ConvertToWatchEvent dbg w e = Ok x" by blast+
qed

text \<open>With the whole store.\<close>

lemma store_replay:
  assumes "store_loop dbg (cw_predicate w) m = Ok es" "bt_ok m" "\<And>k x. bt_get k m = Some x \<Longrightarrow> DataObject_Key x = k \<and> DataObject_DeepCopy x = x"
    "\<And>k. bt_get k m \<noteq> None \<Longrightarrow> v k = None"
  shows "replay (concat (map (conv dbg w) es)) v k = (case view dbg w (\<lambda>k. bt_get k m) k of None \<Rightarrow> v k | Some x \<Rightarrow> Some x) \<and>
    stream_ok v (concat (map (conv dbg w) es))"
  using assms
proof (induction m arbitrary: es v)
  case (Cons e m)
  obtain a y where e: "e = (a, y)" by force
  let ?ev = "\<lparr>wc_type = Added, wc_obj = y, wc_prevObj = None, wc_channelRev = channelRev y, wc_revision = revision y\<rparr>"
  obtain b es' where b: "SelectionPredicate_Match dbg (cw_predicate w) y = Ok b" "store_loop dbg (cw_predicate w) m = Ok es'"
    "es = (if b then ?ev # es' else es')"
    using Cons.prems(1) by (auto simp: e and_then_eq_Ok)
  have y: "DataObject_Key y = a" "DataObject_DeepCopy y = y" using Cons.prems(3)[of a y] by (simp_all add: e bt_get_Cons)
  have ok: "bt_ok m" and a: "bt_get a m = None" using Cons.prems(2) by (auto simp: e bt_ok_Cons bt_get_None_iff)
  have tail: "DataObject_Key x = k' \<and> DataObject_DeepCopy x = x" if "bt_get k' m = Some x" for k' x
  proof -
    have "bt_get k' (e # m) = Some x" using that a by (auto simp: e bt_get_Cons)
    then show ?thesis by (rule Cons.prems(3))
  qed
  let ?s = "starts_with (cw_namespace w) a \<and> b"
  have head: "concat (map (conv dbg w) es) = (if ?s then [\<lparr>we_type = Added, we_obj = y\<rparr>] else []) @ concat (map (conv dbg w) es')"
    using b y by (auto simp: conv_def ConvertToWatchEvent_def CacheWatcher_Match_def WatchCacheEvent_Key_def)
  have here: "view dbg w (\<lambda>k. bt_get k (e # m)) k = (if k = a then if ?s then Some y else None else view dbg w (\<lambda>k. bt_get k m) k)"
    using b(1) by (auto simp: view_def e bt_get_Cons CacheWatcher_Match_def)
  moreover have "view dbg w (\<lambda>k. bt_get k m) a = None" by (simp add: view_def a)
  moreover have "v a = None" "\<And>k. bt_get k m \<noteq> None \<Longrightarrow> v k = None" using Cons.prems(4) by (auto simp: e bt_get_Cons)
  moreover have "\<And>k. bt_get k m \<noteq> None \<Longrightarrow> k \<noteq> a" using a by auto
  moreover define v' where "v' = (if ?s then v(a := Some y) else v)"
  ultimately have "\<And>k. bt_get k m \<noteq> None \<Longrightarrow> v' k = None" by auto
  from Cons.IH[OF b(2) ok tail this]
  have ih: "replay (concat (map (conv dbg w) es')) v' k = (case view dbg w (\<lambda>k. bt_get k m) k of None \<Rightarrow> v' k | Some x \<Rightarrow> Some x)"
    "stream_ok v' (concat (map (conv dbg w) es'))" by auto
  have "message_ok v \<lparr>we_type = Added, we_obj = y\<rparr>" "v' = replay (if ?s then [\<lparr>we_type = Added, we_obj = y\<rparr>] else []) v"
    using \<open>v a = None\<close> y(1) by (auto simp: message_ok_def apply_event_def v'_def)
  then have "replay (concat (map (conv dbg w) es)) v k = replay (concat (map (conv dbg w) es')) v' k"
    "stream_ok v (concat (map (conv dbg w) es))"
    using ih(2) by (auto simp: head)
  then show ?case using ih(1) here \<open>view dbg w (\<lambda>k. bt_get k m) a = None\<close> by (auto simp: v'_def split: option.split)
qed (simp add: view_def)

text \<open>With the events since an earlier state.\<close>

lemma hist_keyed: "hist m L m' \<Longrightarrow> keyed m \<Longrightarrow> keyed m'"
  by (induction rule: hist.induct) (auto intro: keyed_apply)

lemma hist_replay:
  assumes "hist m L m'" "keyed m" "\<forall>e \<in> set L. \<exists>x. ConvertToWatchEvent dbg w e = Ok x"
  shows "replay (concat (map (conv dbg w) L)) (view dbg w m) = view dbg w m' \<and>
    stream_ok (view dbg w m) (concat (map (conv dbg w) L))"
  using assms
proof (induction rule: hist.induct)
  case (hist_snoc m L m' e)
  obtain x where x: "ConvertToWatchEvent dbg w e = Ok x" using hist_snoc.prems(2) by auto
  then show ?case using hist_snoc.IH hist_snoc.prems Convert_follows[OF x hist_snoc.hyps(2) hist_keyed[OF hist_snoc.hyps(1)]]
    by (simp add: conv_def)
qed simp

text \<open>The events since the state of a list are all there if nothing was dropped, or nothing from the list's revision on.\<close>

definition complete_from :: "CacheStore \<Rightarrow> int \<Rightarrow> bool" where
  "complete_from s r \<longleftrightarrow> rb_head (cs_cache s) = 0 \<or> (\<exists>first. oldest_rev s = Ok first \<and> first \<le> r)"

lemma oldest_rev_ring:
  assumes "cache_ok s" "oldest_rev s = Ok r" "rb_tail (cs_cache s) \<noteq> 0"
  shows "ring_list (cs_cache s) \<noteq> [] \<and> wc_channelRev (hd (ring_list (cs_cache s))) = r"
proof -
  have ring: "ring_ok (cs_cache s)" using assms(1) by (simp add: cache_ok_def)
  have "rb_head (cs_cache s) < rb_tail (cs_cache s)"
    using assms(2,3) by (auto simp: oldest_rev_def RingBuf_Size_def u64_sub_def and_then_eq_Ok split: if_splits)
  then have ne: "ring_list (cs_cache s) \<noteq> []" by (simp add: ring_list_def)
  then show ?thesis using assms(2,3) ring_oldest[OF ring ne] \<open>rb_head (cs_cache s) < rb_tail (cs_cache s)\<close> ring
    by (auto simp: oldest_rev_def RingBuf_Size_def OldestIdx_def u64_sub_def and_then_eq_Ok opt_or_panic_def split: if_splits)
qed

lemma since_events:
  assumes "since s0 s" "cache_ok s0" "cache_ok s" "complete_from s (cs_channelRev s0 + 1)" "SelectionPredicate_Empty p"
  obtains L where "hist (lookup s0) L (lookup s)" "filter (kept dbg (cs_channelRev s0 + 1) p) (ring_list (cs_cache s)) = L"
proof -
  let ?Q = "ring_list (cs_cache s0)"
  obtain L k where L: "hist (lookup s0) L (lookup s)" "k \<le> length (?Q @ L)" "ring_list (cs_cache s) = drop k (?Q @ L)"
    "rb_head (cs_cache s) = rb_head (cs_cache s0) + k" "\<forall>e \<in> set L. cs_channelRev s0 < wc_channelRev e"
    "sorted_wrt (\<lambda>a b. wc_channelRev a < wc_channelRev b) L"
    using assms(1) unfolding since_def by blast
  have k: "k \<le> length ?Q"
  proof (rule ccontr)
    assume "\<not> k \<le> length ?Q"
    then have j: "0 < k - length ?Q" "k - length ?Q \<le> length L" using L(2) by auto
    then have ring: "ring_list (cs_cache s) = drop (k - length ?Q) L" using L(3) by simp
    have "rb_head (cs_cache s) \<noteq> 0" using L(4) j(1) by simp
    then have tail: "rb_tail (cs_cache s) \<noteq> 0" using assms(3) by (auto simp: cache_ok_def ring_ok_def)
    obtain first where first: "oldest_rev s = Ok first" "first \<le> cs_channelRev s0 + 1"
      using assms(4) \<open>rb_head (cs_cache s) \<noteq> 0\<close> by (auto simp: complete_from_def)
    have ne: "ring_list (cs_cache s) \<noteq> []" and hd: "wc_channelRev (hd (ring_list (cs_cache s))) = first"
      using oldest_rev_ring[OF assms(3) first(1) tail] by auto
    then have lt: "k - length ?Q < length L" using ring by auto
    then have "hd (ring_list (cs_cache s)) = L ! (k - length ?Q)" using ring by (simp add: hd_drop_conv_nth)
    moreover have "wc_channelRev (L ! 0) < wc_channelRev (L ! (k - length ?Q))"
      using sorted_wrt_nth_less[OF L(6) j(1) lt] by simp
    moreover have "cs_channelRev s0 < wc_channelRev (L ! 0)" using L(5) j lt by (metis gr_zeroI not_less0 nth_mem)
    ultimately show False using hd first(2) by simp
  qed
  have "kept dbg (cs_channelRev s0 + 1) p e \<longleftrightarrow> cs_channelRev s0 < wc_channelRev e" for e
    using assms(5) by (auto simp: kept_def SelectionPredicate_Match_def)
  then have "filter (kept dbg (cs_channelRev s0 + 1) p) (drop k ?Q @ L) = L"
    using assms(2) L(5) by (force simp: cache_ok_def filter_empty_conv dest: in_set_dropD)
  then show ?thesis using that[OF L(1)] L(3) k by simp
qed

section \<open>Properties\<close>

lemma Watch_registers:
  assumes "CacheStoreInner_Watch dbg ns rv p s = (Ok i, s')"
  obtains es where "CacheStoreInner_GetAllEvents dbg (s\<lparr>cs_lastWatcherId := i\<rparr>) rv p = Ok es"
    "\<forall>e \<in> set es. \<exists>x. ConvertToWatchEvent dbg (new_watcher i ns p) e = Ok x"
    "ch_sent (cs_chans s' i) = concat (map (conv dbg (new_watcher i ns p)) es)" "lookup s' = lookup s" "cs_lastWatcherId s' = i"
    "bt_get i (cs_watchers s') = Some (new_watcher i ns p)"
proof (rule Watch_cases[OF assms])
  fix es ch
  assume "(Ok i :: (nat, error) res) = Ok (cs_lastWatcherId s + 1)"
    and all: "CacheStoreInner_GetAllEvents dbg (s\<lparr>cs_lastWatcherId := cs_lastWatcherId s + 1\<rparr>) rv p = Ok es"
    and out: "send_events dbg (new_watcher (cs_lastWatcherId s + 1) ns p) es (channel (max (length es + 200) DEFAULT_CACHE_COUNT)) = (ch, Ok ())"
    and s': "s' = s\<lparr>cs_lastWatcherId := cs_lastWatcherId s + 1, cs_chans := (cs_chans s)(cs_lastWatcherId s + 1 := ch),
         cs_watchers := bt_insert (cs_lastWatcherId s + 1) (new_watcher (cs_lastWatcherId s + 1) ns p) (cs_watchers s)\<rparr>"
  then have i: "cs_lastWatcherId s + 1 = i" by simp
  have sent: "ch_sent ch = concat (map (conv dbg (new_watcher i ns p)) es)" "\<forall>e \<in> set es. \<exists>x. ConvertToWatchEvent dbg (new_watcher i ns p) e = Ok x"
    using send_events_sent[OF out[unfolded i]] by (auto simp: channel_def)
  show thesis
    by (rule that[OF all[unfolded i] sent(2)]) (simp_all only: s' i, simp_all add: sent(1))
qed auto

definition selected :: "(Value \<Rightarrow> string) \<Rightarrow> string \<Rightarrow> SelectionPredicate \<Rightarrow> CacheStore \<Rightarrow> string \<Rightarrow> Obj option" where
  "selected dbg ns p s k = (case bt_get k (cs_cacheStore s) of
     None \<Rightarrow> None
   | Some x \<Rightarrow> if starts_with ns k \<and> SelectionPredicate_Match dbg p x = Ok True then Some x else None)"

lemma selected_view: "view dbg (new_watcher i ns p) (lookup s) = selected dbg ns p s"
  by (auto simp: fun_eq_iff view_def selected_def new_watcher_def CacheWatcher_Match_def split: option.split)

lemma followed:
  assumes "cache_ok s" "CacheStoreInner_Watch dbg ns rv p s = (Ok i, s1)"
    and start: "replay (ch_sent (cs_chans s1 i)) v = selected dbg ns p s \<and> stream_ok v (ch_sent (cs_chans s1 i))"
    and "cache_run dbg ops s1 = (r, s2)" "r \<noteq> Panic" "bt_get i (cs_watchers s2) = Some w"
  shows "replay (ch_sent (cs_chans s2 i)) v = selected dbg ns p s2 \<and> stream_ok v (ch_sent (cs_chans s2 i))"
proof -
  obtain es where reg: "lookup s1 = lookup s" "cs_lastWatcherId s1 = i" "bt_get i (cs_watchers s1) = Some (new_watcher i ns p)"
    using Watch_registers[OF assms(2)] by blast
  have ok: "cache_ok s1" using moves_Watch[of dbg ns rv p] assms(1,2) moves_ok unfolding moves_def by blast
  have "tracks dbg i (new_watcher i ns p) v s1"
    using start reg by (simp add: tracks_def flip: selected_view[of dbg i ns p s])
  then have "tracks dbg i (new_watcher i ns p) v s2" using tr.run[OF assms(4,5) ok] by blast
  then show ?thesis using assms(6) by (auto simp: tracks_def selected_view)
qed

text \<open>
  C5. A watch tells its reader exactly what the store holds. Take a new store after any sequence of operations, open a
  watch from the start on a prefix of the keys with a predicate, and let any further operations follow: events,
  also old and repeated ones, other watches, readers that are slow or go away, other stores that draw from the same
  counter. As long as the watch is registered, replaying all messages of its stream, read or not, on an empty
  map gives the objects of the store under the prefix that satisfy the predicate, each in its latest version.
\<close>

theorem watch_follows_store:
  assumes "CacheStoreInner_New ty rv chans = Ok s0" "- (2 ^ 63) \<le> rv"
    and "cache_run dbg ops0 s0 = (r0, s)" "r0 \<noteq> Panic"
    and "CacheStoreInner_Watch dbg ns 0 p s = (Ok i, s1)"
    and "cache_run dbg ops s1 = (r, s2)" "r \<noteq> Panic" "bt_get i (cs_watchers s2) = Some w"
  shows "replay (ch_sent (cs_chans s2 i)) (\<lambda>k. None) = selected dbg ns p s2"
proof -
  have ok: "cache_ok s" using run_ok[OF assms(3,4)] New_ok[OF assms(1,2)] by blast
  obtain es where es: "CacheStoreInner_GetAllEvents dbg (s\<lparr>cs_lastWatcherId := i\<rparr>) 0 p = Ok es"
    "ch_sent (cs_chans s1 i) = concat (map (conv dbg (new_watcher i ns p)) es)"
    using Watch_registers[OF assms(5)] by blast
  have loop: "store_loop dbg (cw_predicate (new_watcher i ns p)) (cs_cacheStore s) = Ok es"
    using es(1) by (simp add: CacheStoreInner_GetAllEvents_def GetAllEventsFromStore_def and_then_eq_Ok new_watcher_def)
  have "bt_ok (cs_cacheStore s)" "\<And>k x. bt_get k (cs_cacheStore s) = Some x \<Longrightarrow> DataObject_Key x = k \<and> DataObject_DeepCopy x = x"
    using ok unfolding cache_ok_def keyed_def by blast+
  from store_replay[OF loop this refl] have "replay (ch_sent (cs_chans s1 i)) (\<lambda>k. None) k = selected dbg ns p s k \<and>
      stream_ok (\<lambda>k. None) (ch_sent (cs_chans s1 i))" for k
    unfolding es(2) by (auto simp: selected_view split: option.splits)
  then have "replay (ch_sent (cs_chans s1 i)) (\<lambda>k. None) = selected dbg ns p s \<and> stream_ok (\<lambda>k. None) (ch_sent (cs_chans s1 i))" by blast
  from followed[OF ok assms(5) this assms(6-8)] show ?thesis by blast
qed

definition listed :: "Obj list \<Rightarrow> string \<Rightarrow> Obj option" where
  "listed objs k = map_of (map (\<lambda>x. (DataObject_Key x, x)) objs) k"

lemma list_loop_selected:
  assumes "list_loop dbg pre p m = Ok objs" "bt_ok m" "\<And>k x. bt_get k m = Some x \<Longrightarrow> DataObject_Key x = k"
  shows "listed objs k = (case bt_get k m of None \<Rightarrow> None
    | Some x \<Rightarrow> if starts_with pre k \<and> SelectionPredicate_Match dbg p x = Ok True then Some x else None)"
  using assms
proof (induction m arbitrary: objs)
  case (Cons e m)
  obtain a y where e: "e = (a, y)" by force
  have y: "DataObject_Key y = a" using Cons.prems(3)[of a y] by (simp add: e bt_get_Cons)
  have ok: "bt_ok m" and a: "bt_get a m = None" using Cons.prems(2) by (auto simp: e bt_ok_Cons bt_get_None_iff)
  have tail: "DataObject_Key x = k'" if "bt_get k' m = Some x" for k' x
  proof -
    have "bt_get k' (e # m) = Some x" using that a by (auto simp: e bt_get_Cons)
    then show ?thesis by (rule Cons.prems(3))
  qed
  obtain b objs' where b: "(if starts_with pre a then SelectionPredicate_Match dbg p y else Ok False) = Ok b"
    "list_loop dbg pre p m = Ok objs'" "objs = (if b then y # objs' else objs')"
    using Cons.prems(1) by (auto simp: e y and_then_eq_Ok)
  then show ?case using Cons.IH[OF b(2) ok tail] a y by (auto simp: listed_def e bt_get_Cons split: if_splits option.splits)
qed (simp add: listed_def)

lemma List_selected:
  assumes "CacheStore_List dbg backend notified s t n opts = Ok l" "lo_revision opts \<noteq> - 1" "cache_ok s"
  shows "listed (dl_objs l) = selected dbg (list_prefix t n) (lo_predicate opts) s" "dl_revision l = cs_channelRev s + 1"
proof -
  obtain objs where l: "list_loop dbg (list_prefix t n) (lo_predicate opts) (cs_cacheStore s) = Ok objs" "dl_objs l = objs"
    "dl_revision l = cs_channelRev s + 1"
    using assms(1,2) by (auto simp: CacheStore_List_def ChannelRev_Current_def i64_add_def and_then_eq_Ok split: if_splits)
  have "bt_ok (cs_cacheStore s)" "\<And>k x. bt_get k (cs_cacheStore s) = Some x \<Longrightarrow> DataObject_Key x = k"
    using assms(3) unfolding cache_ok_def keyed_def by blast+
  then show "listed (dl_objs l) = selected dbg (list_prefix t n) (lo_predicate opts) s"
    using list_loop_selected[OF l(1)] by (simp add: fun_eq_iff l(2) selected_def)
qed (use assms(1,2) in \<open>auto simp: CacheStore_List_def ChannelRev_Current_def i64_add_def and_then_eq_Ok split: if_splits\<close>)

lemma listed_stream:
  assumes "CacheStoreInner_New ty rv chans = Ok s" "0 \<le> rv"
    and "cache_run dbg ops0 s = (r0, s0)" "r0 \<noteq> Panic"
    and "CacheStore_List dbg backend notified s0 t n opts = Ok l" "lo_revision opts \<noteq> - 1" "SelectionPredicate_Empty (lo_predicate opts)"
    and "cache_run dbg ops1 s0 = (r1, s1)" "r1 \<noteq> Panic" "complete_from s1 (dl_revision l)"
    and "CacheStoreInner_Watch dbg (list_prefix t n) (dl_revision l) (lo_predicate opts) s1 = (Ok i, s2)"
    and "cache_run dbg ops2 s2 = (r2, s3)" "r2 \<noteq> Panic" "bt_get i (cs_watchers s3) = Some w"
  shows "replay (ch_sent (cs_chans s3 i)) (listed (dl_objs l)) = selected dbg (list_prefix t n) (lo_predicate opts) s3 \<and>
    stream_ok (listed (dl_objs l)) (ch_sent (cs_chans s3 i))"
proof -
  let ?p = "lo_predicate opts" and ?ns = "list_prefix t n"
  have ok: "cache_ok s" using New_ok[OF assms(1)] assms(2) by simp
  have ok0: "cache_ok s0" using run_ok[OF assms(3,4) ok] .
  have ok1: "cache_ok s1" using run_ok[OF assms(8,9) ok0] .
  have rev: "dl_revision l = cs_channelRev s0 + 1" and list: "listed (dl_objs l) = selected dbg ?ns ?p s0"
    using List_selected[OF assms(5,6) ok0] by simp_all
  have "rv = cs_channelRev s" using assms(1) by (auto simp: CacheStoreInner_New_def and_then_eq_Ok)
  moreover have "cs_channelRev s \<le> cs_channelRev s0" using sn.run[OF assms(3,4) ok since_refl] by (simp add: since_def)
  ultimately have pos: "dl_revision l \<noteq> 0" using rev assms(2) by simp
  obtain es where es: "CacheStoreInner_GetAllEvents dbg (s1\<lparr>cs_lastWatcherId := i\<rparr>) (dl_revision l) ?p = Ok es"
    "\<forall>e \<in> set es. \<exists>x. ConvertToWatchEvent dbg (new_watcher i ?ns ?p) e = Ok x"
    "ch_sent (cs_chans s2 i) = concat (map (conv dbg (new_watcher i ?ns ?p)) es)" "lookup s2 = lookup s1" "cs_lastWatcherId s2 = i"
    "bt_get i (cs_watchers s2) = Some (new_watcher i ?ns ?p)"
    by (rule Watch_registers[OF assms(11)])
  have "RingBuf_GetAllEvents dbg (cs_cache s1) (dl_revision l) ?p = Ok es"
    using es(1) pos by (auto simp: CacheStoreInner_GetAllEvents_def and_then_eq_Ok split: if_splits)
  from ring_events[OF this] have "es = filter (kept dbg (cs_channelRev s0 + 1) ?p) (ring_list (cs_cache s1))" by (simp add: rev)
  moreover obtain L where "hist (lookup s0) L (lookup s1)" "filter (kept dbg (cs_channelRev s0 + 1) ?p) (ring_list (cs_cache s1)) = L"
    using since_events[OF sn.run[OF assms(8,9) ok0 since_refl] ok0 ok1 assms(10)[unfolded rev] assms(7)] by blast
  ultimately have hist: "hist (lookup s0) es (lookup s1)" by simp
  have "keyed (lookup s0)" using ok0 by (simp add: cache_ok_def)
  from hist_replay[OF hist this es(2)] have "replay (ch_sent (cs_chans s2 i)) (listed (dl_objs l)) = selected dbg ?ns ?p s1 \<and>
      stream_ok (listed (dl_objs l)) (ch_sent (cs_chans s2 i))"
    by (simp add: es(3) list selected_view)
  from followed[OF ok1 assms(11) this assms(12-14)] show ?thesis .
qed


section \<open>Concrete runs\<close>

definition ex_item :: "string \<Rightarrow> int \<Rightarrow> Labels \<Rightarrow> Obj" where
  "ex_item nm rv ls = \<lparr>objType = ''pod'', do_tenant = ''t'', do_namespace = ''n'', do_name = nm, do_labels = ls, do_annotations = [],
     channelRev = 0, srcEpoch = 0, revision = rv, object = VNull\<rparr>"

abbreviation ex_event :: "EventType \<Rightarrow> string \<Rightarrow> int \<Rightarrow> Labels \<Rightarrow> CacheOp" where
  "ex_event ty nm rv ls \<equiv> OpEvent \<lparr>we_type = ty, we_obj = ex_item nm rv ls\<rparr>"

lemma ex_item_simps [simp]: "DataObject_Key (ex_item nm rv ls) = ''t/n/'' @ nm" "revision (ex_item nm rv ls) = rv" "channelRev (ex_item nm rv ls) = 0"
  "do_labels (ex_item nm rv ls) = ls" "do_annotations (ex_item nm rv ls) = []" "object (ex_item nm rv ls) = VNull"
  by (simp_all add: ex_item_def DataObject_Key_def slash3_def)

lemma Key_copy [simp]: "DataObject_Key (x\<lparr>do_labels := a, do_annotations := b, channelRev := c, revision := r\<rparr>) = DataObject_Key x"
  by (simp add: DataObject_Key_def)

lemmas cache_eval = CacheStoreInner_New_def RingBuf_New_def DEFAULT_CACHE_COUNT_def ChannelRev_Current_def ChannelRev_Next_def i64_add_def
  i64_sub_def in_i64_def cache_run_def aok_def atry_def act_simps CacheStoreInner_ProcessEvent_def CacheStoreInner_ChannelRev_def Let_def
  CopyWithRev_def Labels_Copy_def RingBuf_Push_def RingBuf_Full_def u64_add_def u64_sub_def CacheStoreInner_Watch_def CacheStoreInner_GetAllEvents_def
  oldest_rev_def RingBuf_Size_def OldestIdx_def opt_or_panic_def GetAllEventsFromStore_def SelectionPredicate_Match_def SelectionPredicate_Empty_def
  SelectionPredicate_default_def Selector_Empty_def SendWatchCacheEvent_def ConvertToWatchEvent_def CacheWatcher_Match_def WatchCacheEvent_Key_def
  starts_with_def try_send_def channel_def DataObject_DeepCopy_def upd_chan_def CacheStore_List_def WaitUntilRev_def DataObjList_default_def
  RingBuf_GetAllEvents_def list_prefix_def bt_get_Cons upt_conv_Cons

definition ex_cache :: CacheStore where
  "ex_cache = \<lparr>cs_objectType = ''pod'', cs_cache = RingBuf_New DEFAULT_CACHE_COUNT, cs_channelRev = 0, cs_listRevision = 0,
     cs_lastWatcherId = 0, cs_cacheStore = [], cs_watchers = [], cs_chans = (\<lambda>_. channel 0)\<rparr>"

lemma ex_follow_run:
  "\<exists>s s1 s2. cache_run dbg [ex_event Added ''a'' 1 []] ex_cache = (Ok (), s) \<and>
     CacheStoreInner_Watch dbg ''t/'' 0 SelectionPredicate_default s = (Ok 1, s1) \<and>
     cache_run dbg [ex_event Added ''b'' 2 [], OpRecv 1, ex_event Deleted ''a'' 3 []] s1 = (Ok (), s2) \<and>
     bt_get 1 (cs_watchers s2) \<noteq> None \<and> length (ch_sent (cs_chans s2 1)) = 3"
  by (simp add: cache_eval ex_cache_def)

theorem watch_follows_store_witness:
  "\<exists>s s1 s2. CacheStoreInner_New ''pod'' 0 (\<lambda>_. channel 0) = Ok ex_cache \<and> cache_run (\<lambda>_. []) [ex_event Added ''a'' 1 []] ex_cache = (Ok (), s) \<and>
     CacheStoreInner_Watch (\<lambda>_. []) ''t/'' 0 SelectionPredicate_default s = (Ok 1, s1) \<and>
     cache_run (\<lambda>_. []) [ex_event Added ''b'' 2 [], OpRecv 1, ex_event Deleted ''a'' 3 []] s1 = (Ok (), s2) \<and> length (ch_sent (cs_chans s2 1)) = 3 \<and>
     replay (ch_sent (cs_chans s2 1)) (\<lambda>k. None) = selected (\<lambda>_. []) ''t/'' SelectionPredicate_default s2"
proof -
  obtain s s1 s2 w where run: "cache_run (\<lambda>_. []) [ex_event Added ''a'' 1 []] ex_cache = (Ok (), s)"
    "CacheStoreInner_Watch (\<lambda>_. []) ''t/'' 0 SelectionPredicate_default s = (Ok 1, s1)"
    "cache_run (\<lambda>_. []) [ex_event Added ''b'' 2 [], OpRecv 1, ex_event Deleted ''a'' 3 []] s1 = (Ok (), s2)"
    "bt_get 1 (cs_watchers s2) = Some w" "length (ch_sent (cs_chans s2 1)) = 3"
    using ex_follow_run[of "\<lambda>_. []"] by auto
  have new: "CacheStoreInner_New ''pod'' 0 (\<lambda>_. channel 0) = Ok ex_cache" by (simp add: cache_eval ex_cache_def)
  show ?thesis using watch_follows_store[OF new _ run(1) _ run(2,3) _ run(4)] new run by auto
qed

definition ex_opts :: ListOption where
  "ex_opts = \<lparr>lo_revision = 0, lo_revisionMatch = RevNone, lo_predicate = SelectionPredicate_default\<rparr>"

lemma ex_opts_plain: "lo_revision ex_opts \<noteq> - 1" "SelectionPredicate_Empty (lo_predicate ex_opts)"
  by (simp_all add: ex_opts_def SelectionPredicate_default_def SelectionPredicate_Empty_def Selector_Empty_def)

lemma ex_resume_run:
  "\<exists>s0 l s1 s2 s3. cache_run dbg [ex_event Added ''a'' 1 []] ex_cache = (Ok (), s0) \<and>
     CacheStore_List dbg None False s0 ''t'' ''n'' ex_opts = Ok l \<and> dl_revision l = 2 \<and> length (dl_objs l) = 1 \<and>
     cache_run dbg [ex_event Added ''b'' 2 [], OpOther] s0 = (Ok (), s1) \<and> rb_head (cs_cache s1) = 0 \<and>
     CacheStoreInner_Watch dbg ''t/n'' 2 SelectionPredicate_default s1 = (Ok 1, s2) \<and>
     cache_run dbg [ex_event Deleted ''a'' 3 []] s2 = (Ok (), s3) \<and> bt_get 1 (cs_watchers s3) \<noteq> None \<and> length (ch_sent (cs_chans s3 1)) = 2"
  by (simp add: cache_eval ex_cache_def ex_opts_def)


end
