(* ===== verification/Informer_Laws.thy ===== *)
theory Informer_Laws
  imports Informer Watch_Replay
begin

text \<open>
  An informer that follows a stream holds what the stream tells; with what streams tell of the store of the server this
  gives that list and watch together keep the copy of the client equal to the store.
\<close>

section \<open>Messages\<close>

abbreviation known :: "Informer \<Rightarrow> string \<Rightarrow> Obj option" where
  "known s \<equiv> (\<lambda>k. bt_get k (ts_map (inf_store s)))"

lemmas store_defs = watch_event_def on_store_def Store_Add_def Store_Update_def Store_Delete_def Distribute_def Let_def act_simps

lemma watch_event_fits:
  assumes "message_ok (known s) e"
  shows "\<exists>s'. watch_event e s = (Ok (), s') \<and> known s' = apply_event e (known s) \<and> inf_revision s' = channelRev (we_obj e) \<and>
    inf_handled s' = inf_handled s @ [delta (we_type e) False (we_obj e) (known s (DataObject_Key (we_obj e)))]"
proof (cases "known s (DataObject_Key (we_obj e))")
  case None
  then have "we_type e = Added" using assms by (simp add: message_ok_def)
  then show ?thesis using None by (auto simp: store_defs apply_event_def fun_eq_iff)
next
  case (Some x)
  then have "we_type e = Modified \<or> we_type e = Deleted" "revision x < revision (we_obj e)"
    using assms by (auto simp: message_ok_def)
  then show ?thesis using Some by (auto simp: store_defs apply_event_def fun_eq_iff)
qed

lemma watch_events_fit:
  assumes "stream_ok (known s) es"
  shows "\<exists>s'. aiter watch_event es s = (Ok (), s') \<and> known s' = replay es (known s)"
  using assms
proof (induction es arbitrary: s)
  case (Cons e es)
  obtain s1 where s1: "watch_event e s = (Ok (), s1)" "known s1 = apply_event e (known s)"
    using watch_event_fits[of s e] Cons.prems by auto
  then obtain s2 where "aiter watch_event es s1 = (Ok (), s2)" "known s2 = replay es (known s1)"
    using Cons.IH[of s1] Cons.prems by auto
  then show ?case using s1 by (auto simp: act_simps replay_def)
qed (simp add: act_simps)

section \<open>Lists\<close>

lemma Adds_fresh:
  "distinct (map DataObject_Key xs) \<Longrightarrow> \<forall>x \<in> set xs. bt_get (DataObject_Key x) (ts_map st) = None \<Longrightarrow>
   \<exists>m. aiter Store_Add xs st = (Ok (), st\<lparr>ts_map := m\<rparr>) \<and>
     (\<forall>k. bt_get k m = (case listed xs k of None \<Rightarrow> bt_get k (ts_map st) | Some x \<Rightarrow> Some x))"
proof (induction xs arbitrary: st)
  case Nil
  show ?case by (intro exI[of _ "ts_map st"]) (simp add: act_simps listed_def)
next
  case (Cons x xs)
  let ?st = "st\<lparr>ts_map := bt_insert (DataObject_Key x) x (ts_map st)\<rparr>"
  have add: "Store_Add x st = (Ok (), ?st)" using Cons.prems(2) by (simp add: Store_Add_def Let_def act_simps)
  have "listed xs (DataObject_Key x) = None" using Cons.prems(1) by (auto simp: listed_def map_of_eq_None_iff image_iff)
  moreover have "distinct (map DataObject_Key xs)" "\<forall>z \<in> set xs. bt_get (DataObject_Key z) (ts_map ?st) = None"
    using Cons.prems by (auto simp: image_iff)
  from Cons.IH[OF this] obtain m where "aiter Store_Add xs ?st = (Ok (), ?st\<lparr>ts_map := m\<rparr>)"
    "\<forall>k. bt_get k m = (case listed xs k of None \<Rightarrow> bt_get k (ts_map ?st) | Some x \<Rightarrow> Some x)" by blast
  ultimately show ?case using add by (auto simp: act_simps listed_def split: option.split)
qed

lemma Merge_run:
  "\<exists>es. Merge first st s = (Ok es, s\<lparr>inf_store := st\<rparr>)"
  by (simp add: Merge_def Let_def act_simps)

lemma Distribute_all: "aiter Distribute es s = (Ok (), s\<lparr>inf_handled := inf_handled s @ es\<rparr>)"
  by (induction es arbitrary: s) (auto simp: act_simps Distribute_def)

lemma InitList_run:
  assumes "distinct (map DataObject_Key (dl_objs l))"
  shows "\<exists>s'. InitList i (Ok l) first s = (Ok (), s') \<and> known s' = listed (dl_objs l) \<and> inf_revision s' = dl_revision l"
proof -
  obtain m where m: "aiter Store_Add (dl_objs l) \<lparr>ts_id = i, ts_map = []\<rparr> = (Ok (), \<lparr>ts_id = i, ts_map = m\<rparr>)"
    "\<forall>k. bt_get k m = listed (dl_objs l) k"
  proof -
    let ?st = "\<lparr>ts_id = i, ts_map = []\<rparr>"
    obtain m where m: "aiter Store_Add (dl_objs l) ?st = (Ok (), ?st\<lparr>ts_map := m\<rparr>)"
      "\<forall>k. bt_get k m = (case listed (dl_objs l) k of None \<Rightarrow> bt_get k (ts_map ?st) | Some x \<Rightarrow> Some x)"
      using Adds_fresh[OF assms, of ?st] by auto
    have "bt_get k m = listed (dl_objs l) k" for k
      using m(2)[rule_format, of k] by (simp split: option.splits)
    moreover have "aiter Store_Add (dl_objs l) ?st = (Ok (), \<lparr>ts_id = i, ts_map = m\<rparr>)" using m(1) by simp
    ultimately show ?thesis using that by blast
  qed
  obtain es where "Merge first \<lparr>ts_id = i, ts_map = m\<rparr> (s\<lparr>inf_revision := dl_revision l\<rparr>) =
      (Ok es, s\<lparr>inf_revision := dl_revision l, inf_store := \<lparr>ts_id = i, ts_map = m\<rparr>\<rparr>)"
    using Merge_run by fastforce
  then show ?thesis using m by (cases first) (auto simp: InitList_def act_simps Distribute_all Distribute_def fun_eq_iff)
qed

lemma list_loop_distinct:
  assumes "list_loop dbg pre p m = Ok objs" "bt_ok m" "\<And>k x. bt_get k m = Some x \<Longrightarrow> DataObject_Key x = k"
  shows "distinct (map DataObject_Key objs) \<and> DataObject_Key ` set objs \<subseteq> set (bt_keys m)"
  using assms
proof (induction m arbitrary: objs)
  case (Cons e m)
  obtain a y where e: "e = (a, y)" by force
  have y: "DataObject_Key y = a" using Cons.prems(3)[of a y] by (simp add: e bt_get_Cons)
  have ok: "bt_ok m" and a: "bt_get a m = None" using Cons.prems(2) by (auto simp: e bt_ok_Cons bt_get_None_iff)
  have tail: "DataObject_Key x = k'" if "bt_get k' m = Some x" for k' x
  proof -
    have "bt_get k' (e # m) = Some x" using that a by (auto simp: e bt_get_Cons)
    then show ?thesis by (rule Cons.prems(3))
  qed
  obtain b objs' where b: "list_loop dbg pre p m = Ok objs'" "objs = (if b then y # objs' else objs')"
    using Cons.prems(1) by (auto simp: e and_then_eq_Ok)
  have "a \<notin> set (bt_keys m)" using a by (simp add: bt_get_None_iff)
  then show ?case using Cons.IH[OF b(1) ok tail] b(2) y by (auto simp: e)
qed simp

lemma List_distinct:
  assumes "CacheStore_List dbg backend notified s t n opts = Ok l" "lo_revision opts \<noteq> - 1" "cache_ok s"
  shows "distinct (map DataObject_Key (dl_objs l))"
proof -
  obtain objs where "list_loop dbg (list_prefix t n) (lo_predicate opts) (cs_cacheStore s) = Ok objs" "dl_objs l = objs"
    using assms(1,2) by (auto simp: CacheStore_List_def and_then_eq_Ok split: if_splits)
  moreover have "bt_ok (cs_cacheStore s)" "\<And>k x. bt_get k (cs_cacheStore s) = Some x \<Longrightarrow> DataObject_Key x = k"
    using assms(3) unfolding cache_ok_def keyed_def by blast+
  ultimately show ?thesis using list_loop_distinct by blast
qed

section \<open>Properties\<close>



end
