(* ===== verification/Watch_Gaps.thy ===== *)
theory Watch_Gaps
  imports Informer_Laws
begin

text \<open>
  What list and watch do not promise: the cases that the theorems on resumed watches exclude do lose events, on concrete
  runs of the model.
\<close>

section \<open>What a resumed watch does not tell\<close>

text \<open>A store without watchers that other objects keep busy: its buffer holds the last 2000 events.\<close>

definition busy :: "nat \<Rightarrow> CacheStore \<Rightarrow> bool" where
  "busy N s \<longleftrightarrow> cache_ok s \<and> cs_watchers s = [] \<and> cs_channelRev s = int N \<and> length (rb_buf (cs_cache s)) = 2000 \<and>
     rb_tail (cs_cache s) = N \<and> rb_head (cs_cache s) = N - 2000 \<and>
     map wc_channelRev (ring_list (cs_cache s)) = map int [Suc (N - 2000)..<Suc N] \<and>
     (\<forall>e \<in> set (ring_list (cs_cache s)). 2 < wc_channelRev e \<longrightarrow> WatchCacheEvent_Key e = ''t/n/b'') \<and>
     lookup s ''t/n/a'' = None \<and> (\<forall>x. lookup s ''t/n/b'' = Some x \<longrightarrow> revision x \<le> int N)"

lemma Push_total:
  assumes "ring_ok rb" "rb_tail rb + 1 < 2 ^ 64"
  shows "\<exists>rb'. RingBuf_Push rb e = Ok rb' \<and> rb_tail rb' = Suc (rb_tail rb)"
  using assms by (auto simp: ring_ok_def RingBuf_Push_def RingBuf_Full_def u64_add_def u64_sub_def res_simps)

lemma aiter_append: "aiter f (xs @ ys) s = aseq (aiter f xs) (aiter f ys) s"
  by (induction xs arbitrary: s) (auto simp: act_simps split: prod.splits res.splits)

lemma set_tl: "x \<in> set (tl xs) \<Longrightarrow> x \<in> set xs"
  by (cases xs) auto

lemma hd_map_upt: "map f xs = map int [k..<n] \<Longrightarrow> k < n \<Longrightarrow> xs \<noteq> [] \<and> f (hd xs) = int k"
  by (cases xs) (auto simp: upt_conv_Cons)

lemma busy_step:
  assumes "busy N s" "N < 2 ^ 62"
  shows "\<exists>s'. cache_step dbg (ex_event Modified ''b'' (int N + 1) []) s = (Ok (), s') \<and> busy (Suc N) s'"
proof -
  let ?op = "ex_event Modified ''b'' (int N + 1) []"
  let ?x = "CopyWithRev (ex_item ''b'' (int N + 1) []) (int N + 1) (int N + 1)"
  let ?ev = "\<lparr>wc_type = Modified, wc_obj = ?x, wc_prevObj = lookup s ''t/n/b'', wc_channelRev = int N + 1, wc_revision = int N + 1\<rparr>"
  note b = assms(1)[unfolded busy_def]
  have ring: "ring_ok (cs_cache s)" using b by (simp add: cache_ok_def)
  obtain c where c: "RingBuf_Push (cs_cache s) ?ev = Ok c" "rb_tail c = Suc N"
    using Push_total[OF ring, of ?ev] b assms(2) by auto
  have "length (ring_list (cs_cache s)) = N - (N - 2000)" using b by (simp add: ring_list_def)
  then have full: "length (ring_list (cs_cache s)) = 2000 \<longleftrightarrow> 2000 \<le> N" by auto
  have head: "rb_head c = Suc N - 2000" "length (rb_buf c) = 2000" using ring_Push(3,4)[OF ring c(1)] b full by auto
  have revs: "map wc_channelRev (ring_list c) = map int [Suc (Suc N - 2000)..<Suc (Suc N)]"
  proof (cases "2000 \<le> N")
    case True
    have "map wc_channelRev (tl (ring_list (cs_cache s))) = tl (map int [Suc (N - 2000)..<Suc N])"
      using b by (simp only: map_tl)
    also have "... = map int [Suc (Suc N - 2000)..<Suc N]"
      unfolding Suc_diff_le[OF True] by (simp add: map_tl[symmetric] tl_upt del: upt_Suc)
    finally show ?thesis using True ring_Push(2)[OF ring c(1)] b full by (simp add: upt_Suc_append)
  next
    case False
    then show ?thesis using ring_Push(2)[OF ring c(1)] b full by (simp add: upt_Suc_append)
  qed
  have keys: "2 < wc_channelRev e \<longrightarrow> WatchCacheEvent_Key e = ''t/n/b''" if "e \<in> set (ring_list c)" for e
  proof (cases "e = ?ev")
    case False
    then have "e \<in> set (ring_list (cs_cache s))"
      using that ring_Push(2)[OF ring c(1)] by (auto dest: set_tl split: if_splits)
    then show ?thesis using b by blast
  qed (simp add: WatchCacheEvent_Key_def)
  let ?s' = "s\<lparr>cs_channelRev := int N + 1, cs_cache := c, cs_cacheStore := bt_insert ''t/n/b'' ?x (cs_cacheStore s)\<rparr>"
  have run: "cache_step dbg ?op s = (Ok (), ?s')"
  proof -
    have "lookup s ''t/n/b'' = Some x \<Longrightarrow> \<not> int N + 1 \<le> revision x" for x using b by fastforce
    then show ?thesis using b assms(2) c(1)
      by (auto simp: CacheStoreInner_ProcessEvent_def CacheStoreInner_ChannelRev_def ChannelRev_Next_def i64_add_def in_i64_def act_simps Let_def split: option.split)
  qed
  moreover have "cache_ok ?s'" using run_ok[of dbg "[?op]" s "Ok ()" ?s'] run b by (simp add: cache_run_def act_simps aok_def)
  ultimately show ?thesis using b c(2) head revs keys by (auto simp: busy_def)
qed

lemma busy_run:
  "busy N s \<Longrightarrow> N + n < 2 ^ 62 \<Longrightarrow>
   \<exists>s'. cache_run dbg (map (\<lambda>i. ex_event Modified ''b'' (int (N + i) + 1) []) [0..<n]) s = (Ok (), s') \<and> busy (N + n) s'"
proof (induction n)
  case (Suc n)
  then obtain s1 where s1: "cache_run dbg (map (\<lambda>i. ex_event Modified ''b'' (int (N + i) + 1) []) [0..<n]) s = (Ok (), s1)" "busy (N + n) s1"
    by auto
  then obtain s2 where "cache_step dbg (ex_event Modified ''b'' (int (N + n) + 1) []) s1 = (Ok (), s2)" "busy (Suc (N + n)) s2"
    using busy_step[of "N + n" s1] Suc.prems by auto
  then show ?case using s1(1) by (auto simp: cache_run_def aiter_append act_simps aok_def)
qed (simp add: cache_run_def act_simps)

lemma ex_busy_run:
  "\<exists>s0 l s1. cache_run dbg [ex_event Added ''a'' 1 []] ex_cache = (Ok (), s0) \<and>
     CacheStore_List dbg None False s0 ''t'' ''n'' ex_opts = Ok l \<and> dl_revision l = 2 \<and> listed (dl_objs l) ''t/n/a'' \<noteq> None \<and>
     cache_run dbg [ex_event Deleted ''a'' 2 []] s0 = (Ok (), s1) \<and> cs_cacheStore s1 = [] \<and> cs_watchers s1 = [] \<and> cs_channelRev s1 = 2 \<and>
     length (rb_buf (cs_cache s1)) = 2000 \<and> rb_tail (cs_cache s1) = 2 \<and> rb_head (cs_cache s1) = 0 \<and>
     map wc_channelRev (ring_list (cs_cache s1)) = [1, 2]"
  by (simp add: cache_eval ex_cache_def ex_opts_def listed_def ring_list_def bt_remove_def)

lemma ex_cache_New: "CacheStoreInner_New ''pod'' 0 (\<lambda>_. channel 0) = Ok ex_cache"
  by (simp add: cache_eval ex_cache_def)

lemma ex_busy:
  obtains s0 l s1 where "cache_run dbg [ex_event Added ''a'' 1 []] ex_cache = (Ok (), s0)"
    "CacheStore_List dbg None False s0 ''t'' ''n'' ex_opts = Ok l" "dl_revision l = 2" "listed (dl_objs l) ''t/n/a'' \<noteq> None"
    "cache_run dbg [ex_event Deleted ''a'' 2 []] s0 = (Ok (), s1)" "busy 2 s1"
proof -
  obtain s0 l s1 where run: "cache_run dbg [ex_event Added ''a'' 1 []] ex_cache = (Ok (), s0)"
    "CacheStore_List dbg None False s0 ''t'' ''n'' ex_opts = Ok l" "dl_revision l = 2" "listed (dl_objs l) ''t/n/a'' \<noteq> None"
    "cache_run dbg [ex_event Deleted ''a'' 2 []] s0 = (Ok (), s1)"
    and s1: "cs_cacheStore s1 = []" "cs_watchers s1 = []" "cs_channelRev s1 = 2"
    "length (rb_buf (cs_cache s1)) = 2000" "rb_tail (cs_cache s1) = 2" "rb_head (cs_cache s1) = 0"
    "map wc_channelRev (ring_list (cs_cache s1)) = [1, 2]"
    by (rule exE[OF ex_busy_run[of dbg]], elim exE conjE) metis
  have "cache_ok s1" using New_ok[OF ex_cache_New] run_ok[OF run(1)] run_ok[OF run(5)] by simp
  moreover have "wc_channelRev e \<in> {1, 2}" if "e \<in> set (ring_list (cs_cache s1))" for e
    using that arg_cong[OF s1(7), of set] by auto
  ultimately have "busy 2 s1" using s1 by (fastforce simp: busy_def upt_rec)
  with run show ?thesis by (rule that)
qed

lemma ring_loop_total:
  assumes "ring_ok rb" "SelectionPredicate_Empty p" "\<forall>i \<in> set is. rb_head rb \<le> i \<and> i < rb_tail rb"
  shows "\<exists>es. ring_loop dbg (rb_buf rb) r p is = Ok es"
  using assms(3)
proof (induction "is")
  case (Cons i "is")
  then have "rb_buf rb ! (i mod length (rb_buf rb)) \<noteq> None" "length (rb_buf rb) \<noteq> 0" using assms(1) by (auto simp: ring_ok_def)
  then show ?case using Cons assms(2) by (auto simp: SelectionPredicate_Match_def res_simps)
qed simp

lemma busy_events:
  assumes "busy 2002 s"
  shows "\<exists>es. CacheStoreInner_GetAllEvents dbg s 2 SelectionPredicate_default = Ok es \<and> (\<forall>e \<in> set es. WatchCacheEvent_Key e = ''t/n/b'')"
proof -
  let ?p = SelectionPredicate_default
  have ok: "cache_ok s" and buf: "length (rb_buf (cs_cache s)) = 2000" "rb_tail (cs_cache s) = 2002" "rb_head (cs_cache s) = 2002 - 2000"
    and revs: "map wc_channelRev (ring_list (cs_cache s)) = map int [Suc (2002 - 2000)..<Suc 2002]"
    and keys: "\<forall>e \<in> set (ring_list (cs_cache s)). 2 < wc_channelRev e \<longrightarrow> WatchCacheEvent_Key e = ''t/n/b''"
    using assms unfolding busy_def by blast+
  have ring: "ring_ok (cs_cache s)" and sorted: "sorted_wrt (\<lambda>a b. wc_channelRev a < wc_channelRev b) (ring_list (cs_cache s))"
    using ok by (simp_all add: cache_ok_def)
  have p: "SelectionPredicate_Empty ?p" by (simp add: SelectionPredicate_default_def SelectionPredicate_Empty_def Selector_Empty_def)
  have ne: "ring_list (cs_cache s) \<noteq> []" and hd: "wc_channelRev (hd (ring_list (cs_cache s))) = 3"
    using hd_map_upt[OF revs] by simp_all
  have oldest: "oldest_rev s = Ok 3"
    using buf hd ring_oldest[OF ring ne] by (simp add: oldest_rev_def RingBuf_Size_def OldestIdx_def u64_sub_def res_simps opt_or_panic_def)
  obtain es where es: "RingBuf_GetAllEvents dbg (cs_cache s) 2 ?p = Ok es"
    using ring_loop_total[OF ring p, of "[rb_head (cs_cache s)..<rb_tail (cs_cache s)]"] by (auto simp: RingBuf_GetAllEvents_def)
  have "3 \<le> wc_channelRev e" if "e \<in> set (ring_list (cs_cache s))" for e
    using sorted that hd ne by (cases "ring_list (cs_cache s)") auto
  then have "\<forall>e \<in> set es. WatchCacheEvent_Key e = ''t/n/b''" using keys ring_events[OF es] by force
  then show ?thesis using es oldest by (simp add: CacheStoreInner_GetAllEvents_def res_simps i64_sub_def in_i64_def)
qed

definition ex_label :: SelectionPredicate where
  "ex_label = SelectionPredicate_default\<lparr>sp_label := [\<lparr>rq_key = ''x'', rq_op = Equals, strVals = [''1'']\<rparr>]\<rparr>"

lemma ex_label_Match [simp]:
  "SelectionPredicate_Match dbg ex_label x = Ok (bt_get ''x'' (do_labels x) = Some ''1'')"
proof -
  have "Matchs \<lparr>rq_key = ''x'', rq_op = Equals, strVals = [''1'']\<rparr> (do_labels x) = Ok (bt_get ''x'' (do_labels x) = Some ''1'')"
    by (cases "bt_get ''x'' (do_labels x)") (auto simp: Matchs_def Labels_Get_def HasValue_def)
  then show ?thesis
    by (auto simp: SelectionPredicate_Match_def ex_label_def SelectionPredicate_default_def SelectionPredicate_Empty_def Selector_Empty_def
      res_simps GetAttributes_def meta_attrs_def)
qed

lemma ex_deselected_run:
  "\<exists>s0 l s1 s2. cache_run dbg [ex_event Added ''a'' 1 [(''x'', ''1'')]] ex_cache = (Ok (), s0) \<and>
     CacheStore_List dbg None False s0 ''t'' ''n'' (ex_opts\<lparr>lo_predicate := ex_label\<rparr>) = Ok l \<and>
     dl_revision l = 2 \<and> listed (dl_objs l) ''t/n/a'' \<noteq> None \<and>
     cache_run dbg [ex_event Modified ''a'' 2 [(''x'', ''2'')]] s0 = (Ok (), s1) \<and>
     CacheStoreInner_Watch dbg ''t/n'' 2 ex_label s1 = (Ok 1, s2) \<and> ch_sent (cs_chans s2 1) = [] \<and>
     selected dbg ''t/n'' ex_label s2 ''t/n/a'' = None"
  by (simp add: cache_eval ex_cache_def ex_opts_def listed_def selected_def del: SelectionPredicate_Match_def)

text \<open>A connection that ends after a deletion, while the store goes on.\<close>

lemma ex_broken_run:
  "\<exists>s0 l s1 s2 s3 m. cache_run dbg [ex_event Added ''a'' 1 []] ex_cache = (Ok (), s0) \<and>
     CacheStore_List dbg None False s0 ''t'' ''n'' ex_opts = Ok l \<and> dl_objs l = [CopyWithRev (ex_item ''a'' 1 []) 1 1] \<and> dl_revision l = 2 \<and>
     CacheStoreInner_Watch dbg ''t/n'' 2 SelectionPredicate_default s0 = (Ok 1, s1) \<and>
     cache_run dbg [ex_event Deleted ''a'' 2 [], OpClose 1, ex_event Added ''b'' 3 []] s1 = (Ok (), s2) \<and>
     ch_sent (cs_chans s2 1) = [\<lparr>we_type = Deleted, we_obj = CopyWithRev (CopyWithRev (ex_item ''a'' 1 []) 1 1) 2 2\<rparr>] \<and>
     CacheStoreInner_Watch dbg ''t/n'' 2 SelectionPredicate_default s2 = (Ok 2, s3) \<and>
     ch_sent (cs_chans s3 2) = [\<lparr>we_type = Deleted, we_obj = CopyWithRev (CopyWithRev (ex_item ''a'' 1 []) 1 1) 2 2\<rparr>, m]"
  by (simp add: cache_eval ex_cache_def ex_opts_def bt_remove_def)

lemma repeated_delete:
  assumes "we_type d = Deleted" "channelRev (we_obj d) = inf_revision s" "known s (DataObject_Key (we_obj d)) = None"
  shows "\<exists>e. WatchUpdate [Ok (d # es)] s = (Err e, s)"
proof -
  have "bt_remove (DataObject_Key (we_obj d)) (ts_map (inf_store s)) = ts_map (inf_store s)"
    using assms(3) by (intro bt_remove_absent) (simp add: bt_get_None_iff)
  then show ?thesis using assms by (simp add: store_defs)
qed

section \<open>Properties\<close>

text \<open>
  C11. What a resumed watch can lose, although it is accepted. First, with a selector: an object listed with the label
  that is asked for, and changed to another label before the watch is opened from the revision of the list, is not reported
  as gone; the reader keeps it, the store does not select it. Second, without a selector: a store refuses a revision
  only when it is more than one below its oldest event, while a list returns the revision of the next event. After the
  deletion of a listed object and 2000 events of another one the deletion has left the buffer, and the events for a watch from
  the revision of the list are all of the other object.
\<close>

theorem resumed_watch_gaps:
  "(\<exists>s0 l s1 s2. cache_run dbg [ex_event Added ''a'' 1 [(''x'', ''1'')]] ex_cache = (Ok (), s0) \<and>
      CacheStore_List dbg None False s0 ''t'' ''n'' (ex_opts\<lparr>lo_predicate := ex_label\<rparr>) = Ok l \<and>
      cache_run dbg [ex_event Modified ''a'' 2 [(''x'', ''2'')]] s0 = (Ok (), s1) \<and>
      CacheStoreInner_Watch dbg ''t/n'' (dl_revision l) ex_label s1 = (Ok 1, s2) \<and>
      replay (ch_sent (cs_chans s2 1)) (listed (dl_objs l)) ''t/n/a'' \<noteq> None \<and> selected dbg ''t/n'' ex_label s2 ''t/n/a'' = None) \<and>
   (\<exists>s0 l s1 s2 es. cache_run dbg [ex_event Added ''a'' 1 []] ex_cache = (Ok (), s0) \<and>
      CacheStore_List dbg None False s0 ''t'' ''n'' ex_opts = Ok l \<and> listed (dl_objs l) ''t/n/a'' \<noteq> None \<and>
      cache_run dbg [ex_event Deleted ''a'' 2 []] s0 = (Ok (), s1) \<and>
      cache_run dbg (map (\<lambda>i. ex_event Modified ''b'' (int (2 + i) + 1) []) [0..<2000]) s1 = (Ok (), s2) \<and>
      CacheStoreInner_GetAllEvents dbg s2 (dl_revision l) (lo_predicate ex_opts) = Ok es \<and>
      list_all (\<lambda>e. WatchCacheEvent_Key e = ''t/n/b'') es \<and> bt_get ''t/n/a'' (cs_cacheStore s2) = None)" (is "?deselected \<and> ?dropped")
proof
  show ?deselected using ex_deselected_run[of dbg] by fastforce
  obtain s0 l s1 where run: "cache_run dbg [ex_event Added ''a'' 1 []] ex_cache = (Ok (), s0)"
    "CacheStore_List dbg None False s0 ''t'' ''n'' ex_opts = Ok l" "dl_revision l = 2" "listed (dl_objs l) ''t/n/a'' \<noteq> None"
    "cache_run dbg [ex_event Deleted ''a'' 2 []] s0 = (Ok (), s1)" "busy 2 s1"
    by (rule ex_busy)
  have small: "2 + 2000 < (2 :: nat) ^ 62" by simp
  obtain s2 where s2: "cache_run dbg (map (\<lambda>i. ex_event Modified ''b'' (int (2 + i) + 1) []) [0..<2000]) s1 = (Ok (), s2)" "busy (2 + 2000) s2"
    using busy_run[OF run(6) small, of dbg] by blast
  have "2 + 2000 = (2002 :: nat)" by simp
  from busy_events[OF s2(2)[unfolded this], of dbg] obtain es where
    es: "CacheStoreInner_GetAllEvents dbg s2 2 SelectionPredicate_default = Ok es" "list_all (\<lambda>e. WatchCacheEvent_Key e = ''t/n/b'') es"
    unfolding list_all_iff by blast
  have "bt_get ''t/n/a'' (cs_cacheStore s2) = None" using s2(2) unfolding busy_def by blast
  moreover have "lo_predicate ex_opts = SelectionPredicate_default" by (simp add: ex_opts_def)
  ultimately show ?dropped using run s2(1) es by metis
qed


end
