(* ===== verification/Float64.thy ===== *)
theory Float64
  imports Complex_Main Func_Obj "HOL-Library.Log_Nat"
begin

text \<open>
  The numbers of type \<open>f64\<close> that policies hold, read from their 64 bits, with the operations the gateway applies to
  them: sum and product rounded to the nearest number, ties to even, comparison, and the conversions from and to
  unsigned integers. The sign of a zero is not kept; none of these operations depends on it.
\<close>

datatype f64_val = F64NaN | F64Inf bool | F64Fin rat

definition pow2 :: "int \<Rightarrow> rat" where
  "pow2 e = (if 0 \<le> e then 2 ^ nat e else 1 / 2 ^ nat (- e))"

definition signed :: "bool \<Rightarrow> rat \<Rightarrow> rat" where
  "signed neg x = (if neg then - x else x)"

definition f64_decode :: "f64 \<Rightarrow> f64_val" where
  "f64_decode w =
     (let neg = bit w 63; e = uint (take_bit 11 (drop_bit 52 w)); m = uint (take_bit 52 w) in
      if e = 2047 then (if m = 0 then F64Inf neg else F64NaN)
      else if e = 0 then F64Fin (signed neg (of_int m * pow2 (- 1074)))
      else F64Fin (signed neg (of_int (2 ^ 52 + m) * pow2 (e - 1075))))"

text \<open>The exponent of the leading bit of a positive number.\<close>

definition lead_exp :: "rat \<Rightarrow> int" where
  "lead_exp a = (let (p, q) = quotient_of a; k = bitlen p - bitlen q in if pow2 k \<le> a then k else k - 1)"

definition round_even :: "rat \<Rightarrow> int" where
  "round_even q =
     (let n = \<lfloor>q\<rfloor>; d = q - of_int n in
      if d < 1 / 2 then n else if 1 / 2 < d then n + 1 else if even n then n else n + 1)"

definition f64_round :: "rat \<Rightarrow> f64_val" where
  "f64_round x =
     (if x = 0 then F64Fin 0
      else
        let e = max (- 1074) (lead_exp \<bar>x\<bar> - 52); y = of_int (round_even (\<bar>x\<bar> / pow2 e)) * pow2 e in
        if pow2 1024 \<le> y then F64Inf (x < 0) else F64Fin (signed (x < 0) y))"

fun f64_add :: "f64_val \<Rightarrow> f64_val \<Rightarrow> f64_val" where
  "f64_add (F64Fin x) (F64Fin y) = f64_round (x + y)"
| "f64_add (F64Inf a) (F64Inf b) = (if a = b then F64Inf a else F64NaN)"
| "f64_add (F64Inf a) (F64Fin y) = F64Inf a"
| "f64_add (F64Fin x) (F64Inf b) = F64Inf b"
| "f64_add _ _ = F64NaN"

fun f64_mul :: "f64_val \<Rightarrow> f64_val \<Rightarrow> f64_val" where
  "f64_mul (F64Fin x) (F64Fin y) = f64_round (x * y)"
| "f64_mul (F64Inf a) (F64Inf b) = F64Inf (a \<noteq> b)"
| "f64_mul (F64Inf a) (F64Fin y) = (if y = 0 then F64NaN else F64Inf (a \<noteq> (y < 0)))"
| "f64_mul (F64Fin x) (F64Inf b) = (if x = 0 then F64NaN else F64Inf ((x < 0) \<noteq> b))"
| "f64_mul _ _ = F64NaN"

fun f64_gt :: "f64_val \<Rightarrow> f64_val \<Rightarrow> bool" where
  "f64_gt (F64Fin x) (F64Fin y) \<longleftrightarrow> y < x"
| "f64_gt (F64Inf a) (F64Inf b) \<longleftrightarrow> \<not> a \<and> b"
| "f64_gt (F64Inf a) (F64Fin y) \<longleftrightarrow> \<not> a"
| "f64_gt (F64Fin x) (F64Inf b) \<longleftrightarrow> b"
| "f64_gt _ _ \<longleftrightarrow> False"

definition f64_of_nat :: "nat \<Rightarrow> f64_val" where
  "f64_of_nat n = f64_round (of_nat n)"

text \<open>\<open>as u64\<close> drops the fraction, saturates, and maps NaN to zero.\<close>

fun f64_as_u64 :: "f64_val \<Rightarrow> nat" where
  "f64_as_u64 F64NaN = 0"
| "f64_as_u64 (F64Inf neg) = (if neg then 0 else nat (2 ^ 64 - 1))"
| "f64_as_u64 (F64Fin x) = (if x < 0 then 0 else nat (min \<lfloor>x\<rfloor> (2 ^ 64 - 1)))"

section \<open>Lemmas\<close>

lemma pow2_pos [simp]: "0 < pow2 e"
  by (simp add: pow2_def)

lemma round_even_ge: "1 \<le> q \<Longrightarrow> 1 \<le> round_even q"
proof -
  assume "1 \<le> q"
  then have "1 \<le> \<lfloor>q\<rfloor>" by linarith
  then show ?thesis by (simp add: round_even_def Let_def)
qed

lemma f64_of_nat_0 [simp]: "f64_of_nat 0 = F64Fin 0"
  by (simp add: f64_of_nat_def f64_round_def)

lemma pow2_add_one: "pow2 (e + 1) = 2 * pow2 e"
proof (cases "0 \<le> e")
  case True
  then show ?thesis by (simp add: pow2_def nat_add_distrib)
next
  case False
  then have "nat (- e) = Suc (nat (- (e + 1)))" by simp
  then show ?thesis using False by (cases "e = - 1") (simp_all add: pow2_def)
qed

lemma pow2_diff: "pow2 (int m - int n) = 2 ^ m / 2 ^ n"
proof (cases "n \<le> m")
  case True
  then show ?thesis by (simp add: pow2_def power_diff nat_diff_distrib flip: of_nat_diff)
next
  case False
  then have "pow2 (int m - int n) = 1 / 2 ^ (n - m)" by (simp add: pow2_def nat_diff_distrib flip: of_nat_diff)
  then show ?thesis using False by (simp add: power_diff)
qed

lemma bitlen_bounds': "0 < p \<Longrightarrow> 2 ^ nat (bitlen p - 1) \<le> p \<and> p < 2 ^ nat (bitlen p)"
  using bitlen_bounds[of p] by simp

lemma pow2_lead_exp:
  assumes "0 < a"
  shows "pow2 (lead_exp a) \<le> a"
proof -
  obtain p q where pq: "quotient_of a = (p, q)" by force
  then have q: "0 < q" and a: "a = of_int p / of_int q" by (simp_all add: quotient_of_denom_pos quotient_of_div)
  then have p: "0 < p" using assms by (simp add: zero_less_divide_iff)
  define bp bq where "bp = nat (bitlen p - 1)" and "bq = nat (bitlen q)"
  have len: "1 \<le> bitlen p" "0 \<le> bitlen q" using bitlen_nonneg[of q] bitlen_nonneg[of p] bitlen_eq_zero_iff[of p] p by linarith+
  have "(2 :: int) ^ bp \<le> p" "q < 2 ^ bq" using bitlen_bounds'[OF p] bitlen_bounds'[OF q] by (simp_all add: bp_def bq_def)
  then have "(2 :: rat) ^ bp \<le> of_int p" "of_int q \<le> (2 :: rat) ^ bq"
    by (metis of_int_le_iff of_int_numeral of_int_power, metis less_imp_le of_int_le_iff of_int_numeral of_int_power)
  then have "(2 :: rat) ^ bp / 2 ^ bq \<le> of_int p / of_int q" using q p by (intro frac_le) auto
  moreover have "int bp - int bq = bitlen p - bitlen q - 1" using len by (simp add: bp_def bq_def)
  ultimately have "pow2 (bitlen p - bitlen q - 1) \<le> a" using pow2_diff[of bp bq] a by simp
  then show ?thesis by (simp add: lead_exp_def pq Let_def)
qed

lemma pow2_mono: "d \<le> e \<Longrightarrow> pow2 d \<le> pow2 e"
proof -
  have "pow2 d \<le> pow2 (d + int n)" for n
  proof (induction n)
    case (Suc n)
    have "pow2 (d + int (Suc n)) = 2 * pow2 (d + int n)" using pow2_add_one[of "d + int n"] by (simp add: ac_simps)
    then show ?case using Suc pow2_pos[of "d + int n"] by linarith
  qed simp
  from this[of "nat (e - d)"] show "d \<le> e \<Longrightarrow> ?thesis" by simp
qed

text \<open>A positive integer does not round to zero.\<close>

lemma f64_of_nat_pos:
  assumes "0 < n"
  shows "f64_gt (f64_of_nat n) (F64Fin 0)"
proof -
  let ?x = "of_nat n :: rat"
  let ?e = "max (- 1074) (lead_exp ?x - 52)"
  have x: "1 \<le> ?x" using assms by simp
  have "pow2 (lead_exp ?x - 52) \<le> ?x" using pow2_mono[of "lead_exp ?x - 52" "lead_exp ?x"] pow2_lead_exp[of ?x] assms by simp
  moreover have "pow2 (- 1074) \<le> 1" by (simp add: pow2_def)
  ultimately have "pow2 ?e \<le> ?x" using x by (auto simp: max_def)
  then have "1 \<le> ?x / pow2 ?e" by (simp add: le_divide_eq)
  then have "(1 :: rat) \<le> of_int (round_even (?x / pow2 ?e))" using round_even_ge by (metis of_int_1 of_int_le_iff)
  then have "0 < of_int (round_even (?x / pow2 ?e)) * pow2 ?e" by (simp add: zero_less_mult_iff)
  then show ?thesis using assms by (auto simp: f64_of_nat_def f64_round_def Let_def signed_def)
qed

end
