(* ===== verification/Gw_Agent.thy ===== *)
theory Gw_Agent
  imports Float64 Sched_Billing
begin

text \<open>
  The gateway's side of a lease: what the manager of the function agents, an agent and its workers keep
  (\<open>src/ixshare/src/gateway/func_agent_mgr.rs\<close>, \<open>func_worker.rs\<close>, \<open>scheduler_client.rs\<close>, the policies of
  \<open>gw_obj_repo.rs\<close>), and the operations of agents. Agents, workers and connections are \<open>Arc\<close>s shared between tasks:
  here they are numbers of cells. Counters of type \<open>AtomicUsize\<close> are 64 bit words, whose \<open>fetch_add\<close> and \<open>fetch_sub\<close> wrap.
  The set of leased workers is a list without repetition; \<open>gw_debug\<close> is what \<open>{:?}\<close> prints for an error.
  A request's channel is a number; what was sent on it is in the log \<open>gw_answers\<close>, also that it was dropped unanswered. Times are
  milliseconds for requests and nanoseconds for bills; log output and performance counters are left out. An agent whose task has returned
  keeps its queue: that the requests in it are dropped with the last reference to the agent is not modelled.
\<close>

section \<open>Requests and answers\<close>

record IxTimestamp =
  its_count :: nat
  its_ms :: nat

definition Elapsed :: "nat \<Rightarrow> IxTimestamp \<Rightarrow> (nat, error) res" where
  "Elapsed tm self = u64_sub tm (its_ms self)"

record FuncClientReq =
  cr_tenant :: string
  cr_namespace :: string
  cr_funcName :: string
  cr_caller_tenant :: "string option"
  cr_keepalive :: bool
  cr_timeout :: nat
  cr_enqueueTime :: IxTimestamp
  cr_tx :: nat

datatype Answer = AnsClient nat bool | AnsErr error | AnsDropped

section \<open>Leases of endpoints\<close>

type_synonym EndpointLeaseLimiter = "(string, nat) btmap"

definition Limiter_Count :: "EndpointLeaseLimiter \<Rightarrow> string \<Rightarrow> nat" where
  "Limiter_Count self key = (case bt_get key self of None \<Rightarrow> 0 | Some n \<Rightarrow> n)"

definition Limiter_TryAcquire :: "EndpointLeaseLimiter \<Rightarrow> string \<Rightarrow> nat \<Rightarrow> (EndpointLeaseLimiter \<times> bool, error) res" where
  "Limiter_TryAcquire self key max_replica =
     (let current = Limiter_Count self key in
      if max_replica \<le> current then Ok (self, False)
      else and_then (u64_add current 1) (\<lambda>n. Ok (bt_insert key n self, True)))"

definition Limiter_Release :: "EndpointLeaseLimiter \<Rightarrow> string \<Rightarrow> EndpointLeaseLimiter" where
  "Limiter_Release self key =
     (case bt_get key self of
        None \<Rightarrow> self
      | Some current \<Rightarrow> if current \<le> 1 then bt_remove key self else bt_insert key (current - 1) self)"

section \<open>Routes\<close>

record FuncIdentity =
  fid_tenant :: string
  fid_namespace :: string
  fid_funcname :: string
  fid_version :: int

definition FuncIdentity_Key :: "FuncIdentity \<Rightarrow> string" where
  "FuncIdentity_Key self = slash4 (fid_tenant self) (fid_namespace self) (fid_funcname self) (show_int (fid_version self))"

definition FuncIdentity_Prefix :: "FuncIdentity \<Rightarrow> string" where
  "FuncIdentity_Prefix self = slash3 (fid_tenant self) (fid_namespace self) (fid_funcname self)"

record FuncRouteTarget =
  rt_logical :: FuncIdentity
  rt_physical :: FuncIdentity
  rt_func :: Function
  rt_policy :: FuncPolicySpec
  rt_caller_tenant :: "string option"

definition AgentKey :: "FuncRouteTarget \<Rightarrow> string" where
  "AgentKey self = FuncIdentity_Key (rt_logical self)"

definition IsEndpointRoute :: "FuncRouteTarget \<Rightarrow> bool" where
  "IsEndpointRoute self \<longleftrightarrow> fid_tenant (rt_logical self) \<noteq> fid_tenant (rt_physical self) \<or>
     fid_namespace (rt_logical self) \<noteq> fid_namespace (rt_physical self) \<or>
     fid_funcname (rt_logical self) \<noteq> fid_funcname (rt_physical self)"

section \<open>Policies\<close>

record GwObjRepo =
  gr_funcMgr :: "FuncObject DataObjectMgr"
  gr_funcpolicyMgr :: "FuncPolicySpec DataObjectMgr"
  gr_podMgr :: "FuncPodObject DataObjectMgr"

definition GwObjRepo_FuncPolicy :: "GwObjRepo \<Rightarrow> Function \<Rightarrow> FuncPolicySpec" where
  "GwObjRepo_FuncPolicy self f =
     (case DataObjectMgr_Get (gr_funcpolicyMgr self) (do_tenant f) (do_namespace f) (do_name f) of
        Ok p \<Rightarrow> object p
      | _ \<Rightarrow>
          (case fn_policy (fn_spec (object f)) of
             Obj p \<Rightarrow> p
           | Link l \<Rightarrow>
               if ol_objType l \<noteq> ''funcpolicy'' then FuncPolicySpec_default
               else (case DataObjectMgr_Get (gr_funcpolicyMgr self) (do_tenant f) (ol_namespace l) (ol_name l) of
                       Ok p \<Rightarrow> object p
                     | _ \<Rightarrow> FuncPolicySpec_default)))"

definition EndpointRoutePolicy :: "EndpointGatewayPolicySpec \<Rightarrow> GwObjRepo \<Rightarrow> string \<Rightarrow> string \<Rightarrow> FuncPolicySpec" where
  "EndpointRoutePolicy endpointsDefaultPolicy self t slug =
     (case DataObjectMgr_Get (gr_funcpolicyMgr self) t VIRTUAL_ENDPOINTS_NAMESPACE slug of
        Ok p \<Rightarrow> object p
      | _ \<Rightarrow>
          let policy = AsFuncPolicySpec endpointsDefaultPolicy in
          (case DataObjectMgr_Get (gr_funcMgr self) ''inferx'' ''endpoint'' slug of
             Ok f \<Rightarrow>
               let backing = GwObjRepo_FuncPolicy self f in
               policy\<lparr>fp_parallel := fp_parallel backing, queueLen := queueLen backing, queueTimeout := queueTimeout backing,
                      scaleoutPolicy := scaleoutPolicy backing, scaleinTimeout := scaleinTimeout backing\<rparr>
           | _ \<Rightarrow> policy))"

text \<open>\<open>(policy.scaleinTimeout * 1000.0) as u64\<close>\<close>

definition scalein_ms :: "FuncPolicySpec \<Rightarrow> nat" where
  "scalein_ms p = f64_as_u64 (f64_mul (f64_decode (scaleinTimeout p)) (F64Fin 1000))"

section \<open>Agents and workers\<close>

datatype FuncWorkerState = FwInit | FwIdle | FwProcessing | FwFinish

record GpuTrackingInfo =
  ti_nodename :: string
  ti_gpu_type :: string
  ti_gpu_count :: int
  ti_vram_mb :: int
  ti_total_vram_mb :: int
  ti_lease_start :: "nat option"
  ti_is_coldstart :: bool
  ti_session_id :: "string option"
  ti_last_tick_time :: "nat option"

definition GpuTrackingInfo_default :: GpuTrackingInfo where
  "GpuTrackingInfo_default = \<lparr>ti_nodename = '''', ti_gpu_type = '''', ti_gpu_count = 0, ti_vram_mb = 0, ti_total_vram_mb = 0,
     ti_lease_start = None, ti_is_coldstart = False, ti_session_id = None, ti_last_tick_time = None\<rparr>"

record GpuCountLabels =
  gl_tenant :: string
  gl_namespace :: string
  gl_funcname :: string
  gl_kind :: string
  gl_node_name :: string
  gl_pod_id :: string

text \<open>
  Where the task of a worker is (\<open>FuncWorker::Process\<close>): waiting for the lease, at the top of its loop, in the \<open>select!\<close>
  of an idle worker (that of the worker to scale in or another one), connecting for the requests of a batch, in one of the two \<open>select!\<close>s
  of a busy worker (the first also waits for requests), returned.
\<close>

datatype WorkerPc = WLease | WTop | WIdle bool | WBatch "FuncClientReq list" | WSelect bool | WDone

record FuncWorker =
  fw_agent :: nat
  fw_workerId :: int
  fw_tenant :: string
  fw_namespace :: string
  fw_funcname :: string
  fw_physical_tenant :: string
  fw_physical_namespace :: string
  fw_physical_funcname :: string
  fw_fprevision :: int
  fw_endpoint_lease_key :: "string option"
  fw_lease_released :: bool
  fw_id :: int
  fw_keepalive :: bool
  fw_parallelLevel :: nat
  fw_keepaliveTime :: nat
  fw_ongoingReqCnt :: "64 word"
  fw_state :: FuncWorkerState
  fw_failCount :: "64 word"
  fw_tracking :: GpuTrackingInfo
  fw_caller_tenant :: "string option"
  fw_publishedLabels :: "GpuCountLabels option"
  fw_senders :: "nat list"
  fw_finishQueue :: "nat list"
  fw_closeNotify :: bool
  fw_pc :: WorkerPc

datatype WorkerUpdate = Ready nat | WorkerFail nat error | WorkerLeaseFail nat error | IdleTimeout nat

text \<open>Whether the task of an agent is at the top of its loop, in its \<open>select!\<close>, or has returned.\<close>

datatype AgentPc = AgTop | AgSelect | AgStopped

record FuncAgent =
  fa_tenant :: string
  fa_namespace :: string
  fa_funcName :: string
  fa_physicalTenant :: string
  fa_physicalNamespace :: string
  fa_physicalFuncName :: string
  fa_func :: Function
  fa_funcVersion :: int
  fa_endpointLeaseKey :: "string option"
  fa_isEndpointRoute :: bool
  fa_scaleoutPolicy :: ScaleOutPolicy
  fa_scaleinTimeout :: nat
  fa_parallelLeve :: nat
  fa_reqQueue :: "FuncClientReq list"
  fa_queueLen :: nat
  fa_reqQueueTx :: "FuncClientReq list"
  fa_workerStateUpdateTx :: "WorkerUpdate list"
  fa_totalSlot :: "64 word"
  fa_startingSlot :: "64 word"
  fa_activeReqCnt :: "64 word"
  fa_workers :: "(int, nat) btmap"
  fa_nextWorkerId :: int
  fa_scaleInWorkerId :: int
  fa_throttle :: nat
  fa_closeNotify :: bool
  fa_pc :: AgentPc

record Connection =
  cn_podname :: string
  cn_fail :: bool
  cn_close :: bool
  cn_reuse :: "64 word"

record LeasedWorker =
  lw_tenant :: string
  lw_namespace :: string
  lw_funcname :: string
  lw_fprevision :: int
  lw_id :: string

text \<open>One task of \<open>spawn_return_worker_retry\<close>; \<open>rk_backoff\<close> is the next pause in milliseconds.\<close>

record ReturnTask =
  rk_worker :: nat
  rk_failworker :: bool
  rk_retry_count :: nat
  rk_backoff :: nat

datatype GwEffect =
    GwTick UsageTick
  | GpuCountSet GpuCountLabels int
  | GpuCountRemove GpuCountLabels
  | CallLease LeaseWorkerReq
  | CallReturn LeasedWorker bool
  | CallConnect int "LeasedWorker list"
  | CallRefresh int

record GwState =
  gw_agents :: "(string, nat) btmap"
  gw_agentCells :: "nat \<Rightarrow> FuncAgent"
  gw_agentCnt :: nat
  gw_workerCells :: "nat \<Rightarrow> FuncWorker"
  gw_workerCnt :: nat
  gw_conns :: "nat \<Rightarrow> Connection"
  gw_connCnt :: nat
  gw_clients :: "(nat \<times> nat) list"
  gw_leases :: EndpointLeaseLimiter
  gw_leasedWorkers :: "LeasedWorker list"
  gw_schedulerUrl :: "string option"
  gw_returns :: "ReturnTask list"
  gw_repo :: GwObjRepo
  gw_txCnt :: nat
  gw_answers :: "(nat \<times> Answer) list"
  gw_trace :: "GwEffect list"
  gw_uuidCnt :: nat

record GwEnv =
  endpointsDefaultPolicy :: EndpointGatewayPolicySpec
  gw_ticks_sent :: bool
  GatewayId :: int
  gw_uuid :: "nat \<Rightarrow> string"
  gw_debug :: "error \<Rightarrow> string"

abbreviation upd_agent :: "nat \<Rightarrow> (FuncAgent \<Rightarrow> FuncAgent) \<Rightarrow> (GwState, unit) act" where
  "upd_agent a f \<equiv> amod (\<lambda>s. s\<lparr>gw_agentCells := (gw_agentCells s)(a := f (gw_agentCells s a))\<rparr>)"

abbreviation upd_worker :: "nat \<Rightarrow> (FuncWorker \<Rightarrow> FuncWorker) \<Rightarrow> (GwState, unit) act" where
  "upd_worker w f \<equiv> amod (\<lambda>s. s\<lparr>gw_workerCells := (gw_workerCells s)(w := f (gw_workerCells s w))\<rparr>)"

abbreviation get_agent :: "nat \<Rightarrow> (GwState, FuncAgent) act" where
  "get_agent a \<equiv> aget (\<lambda>s. gw_agentCells s a)"

abbreviation get_worker :: "nat \<Rightarrow> (GwState, FuncWorker) act" where
  "get_worker w \<equiv> aget (\<lambda>s. gw_workerCells s w)"

definition answer :: "nat \<Rightarrow> Answer \<Rightarrow> (GwState, unit) act" where
  "answer tx x = amod (\<lambda>s. s\<lparr>gw_answers := gw_answers s @ [(tx, x)]\<rparr>)"

definition gw_emit :: "GwEffect \<Rightarrow> (GwState, unit) act" where
  "gw_emit e = amod (\<lambda>s. s\<lparr>gw_trace := gw_trace s @ [e]\<rparr>)"

section \<open>The queue of requests\<close>

text \<open>
  The deque of waiting requests, listed from its back, where requests are taken, to its front, where they are put: in the order
  of arrival.
\<close>

definition Queue_Send :: "nat \<Rightarrow> FuncClientReq \<Rightarrow> (GwState, bool) act" where
  "Queue_Send a req =
     abind (get_agent a) (\<lambda>ag.
     if fa_queueLen ag \<le> length (fa_reqQueue ag) then aseq (answer (cr_tx req) (AnsErr QueueFull)) (ret False)
     else aseq (upd_agent a (\<lambda>ag. ag\<lparr>fa_reqQueue := fa_reqQueue ag @ [req]\<rparr>)) (ret True))"

fun clean_loop :: "nat \<Rightarrow> FuncClientReq list \<Rightarrow> (FuncClientReq list \<times> FuncClientReq list, error) res" where
  "clean_loop tm [] = Ok ([], [])"
| "clean_loop tm (r # q) =
     and_then (Elapsed tm (cr_enqueueTime r)) (\<lambda>e.
     if cr_timeout r < e then and_then (clean_loop tm q) (\<lambda>(gone, rest). Ok (r # gone, rest))
     else Ok ([], r # q))"

definition CleanTimeout :: "nat \<Rightarrow> nat \<Rightarrow> (GwState, nat) act" where
  "CleanTimeout tm a =
     abind (get_agent a) (\<lambda>ag.
     abind (alift (clean_loop tm (fa_reqQueue ag))) (\<lambda>(gone, rest).
     aseq (upd_agent a (\<lambda>ag. ag\<lparr>fa_reqQueue := rest\<rparr>))
    (aseq (aiter (\<lambda>r. answer (cr_tx r) (AnsErr (Timeout (cr_timeout r)))) gone)
       (ret (length gone)))))"

definition TryRecvBatch :: "nat \<Rightarrow> nat \<Rightarrow> (GwState, FuncClientReq list) act" where
  "TryRecvBatch a cnt =
     abind (get_agent a) (\<lambda>ag.
     aseq (upd_agent a (\<lambda>ag. ag\<lparr>fa_reqQueue := drop cnt (fa_reqQueue ag)\<rparr>))
       (ret (take cnt (fa_reqQueue ag))))"

definition TryRecv :: "nat \<Rightarrow> (GwState, FuncClientReq option) act" where
  "TryRecv a =
     abind (get_agent a) (\<lambda>ag.
     case fa_reqQueue ag of
       [] \<Rightarrow> ret None
     | r # q \<Rightarrow> aseq (upd_agent a (\<lambda>ag. ag\<lparr>fa_reqQueue := q\<rparr>)) (ret (Some r)))"

section \<open>Throttling\<close>

definition THROTTLE_CAPACITY :: nat where
  "THROTTLE_CAPACITY = 2"

definition Throttle_New :: "nat \<Rightarrow> nat" where
  "Throttle_New initial = min initial THROTTLE_CAPACITY"

definition Throttle_Refill :: "nat \<Rightarrow> (GwState, unit) act" where
  "Throttle_Refill a = upd_agent a (\<lambda>ag. if fa_throttle ag < THROTTLE_CAPACITY then ag\<lparr>fa_throttle := fa_throttle ag + 1\<rparr> else ag)"

definition Throttle_TryAcquire :: "nat \<Rightarrow> (GwState, bool) act" where
  "Throttle_TryAcquire a =
     abind (get_agent a) (\<lambda>ag.
     if 0 < fa_throttle ag then aseq (upd_agent a (\<lambda>ag. ag\<lparr>fa_throttle := fa_throttle ag - 1\<rparr>)) (ret True) else ret False)"

section \<open>Operations of an agent\<close>

definition FuncAgent_New :: "FuncRouteTarget \<Rightarrow> FuncAgent" where
  "FuncAgent_New route =
     \<lparr>fa_tenant = fid_tenant (rt_logical route), fa_namespace = fid_namespace (rt_logical route),
      fa_funcName = fid_funcname (rt_logical route), fa_physicalTenant = fid_tenant (rt_physical route),
      fa_physicalNamespace = fid_namespace (rt_physical route), fa_physicalFuncName = fid_funcname (rt_physical route),
      fa_func = rt_func route, fa_funcVersion = fid_version (rt_logical route),
      fa_endpointLeaseKey = (if IsEndpointRoute route then Some (FuncIdentity_Prefix (rt_logical route)) else None),
      fa_isEndpointRoute = IsEndpointRoute route, fa_scaleoutPolicy = scaleoutPolicy (rt_policy route),
      fa_scaleinTimeout = scalein_ms (rt_policy route), fa_parallelLeve = fp_parallel (rt_policy route), fa_reqQueue = [],
      fa_queueLen = queueLen (rt_policy route), fa_reqQueueTx = [], fa_workerStateUpdateTx = [], fa_totalSlot = 0,
      fa_startingSlot = 0, fa_activeReqCnt = 0, fa_workers = [], fa_nextWorkerId = 0, fa_scaleInWorkerId = -1,
      fa_throttle = Throttle_New 2, fa_closeNotify = False, fa_pc = AgTop\<rparr>"

definition ScaleInWorkerId :: "FuncAgent \<Rightarrow> int" where
  "ScaleInWorkerId self =
     (if length (fa_workers self) \<le> 1 then -1
      else (case bt_keys (fa_workers self) of [] \<Rightarrow> -1 | k # _ \<Rightarrow> k))"

definition AddWorker :: "nat \<Rightarrow> nat \<Rightarrow> (GwState, unit) act" where
  "AddWorker a w =
     abind (get_worker w) (\<lambda>wk.
     aseq (upd_agent a (\<lambda>ag. ag\<lparr>fa_workers := bt_insert (fw_workerId wk) w (fa_workers ag)\<rparr>))
       (upd_agent a (\<lambda>ag. ag\<lparr>fa_scaleInWorkerId := ScaleInWorkerId ag\<rparr>)))"

definition RemoveWorker :: "nat \<Rightarrow> nat \<Rightarrow> (GwState, unit) act" where
  "RemoveWorker a w =
     abind (get_worker w) (\<lambda>wk.
     aseq (upd_agent a (\<lambda>ag. ag\<lparr>fa_workers := bt_remove (fw_workerId wk) (fa_workers ag)\<rparr>))
       (upd_agent a (\<lambda>ag. ag\<lparr>fa_scaleInWorkerId := ScaleInWorkerId ag\<rparr>)))"

definition isize_wrap :: "int \<Rightarrow> int" where
  "isize_wrap n = (n + 2 ^ 63) mod 2 ^ 64 - 2 ^ 63"

definition NextWorkerId :: "nat \<Rightarrow> (GwState, int) act" where
  "NextWorkerId a =
     abind (aget (\<lambda>s. fa_nextWorkerId (gw_agentCells s a))) (\<lambda>n.
     aseq (upd_agent a (\<lambda>ag. ag\<lparr>fa_nextWorkerId := isize_wrap (n + 1)\<rparr>))
       (alift (i64_add n 1)))"

definition TryAcquireEndpointLease :: "GwEnv \<Rightarrow> nat \<Rightarrow> (GwState, bool) act" where
  "TryAcquireEndpointLease env a =
     abind (get_agent a) (\<lambda>ag.
     case fa_endpointLeaseKey ag of
       None \<Rightarrow> ret True
     | Some key \<Rightarrow>
         abind (aget (\<lambda>s. DataObjectMgr_Get (gr_funcpolicyMgr (gw_repo s)) (fa_tenant ag) (fa_namespace ag) (fa_funcName ag))) (\<lambda>p.
         let max_replica = (case p of Ok x \<Rightarrow> maxReplica (object x) | _ \<Rightarrow> g_maxReplica (endpointsDefaultPolicy env)) in
         abind (aget (\<lambda>s. Limiter_TryAcquire (gw_leases s) key max_replica)) (\<lambda>r.
         abind (alift r) (\<lambda>(leases, ok).
         aseq (amod (\<lambda>s. s\<lparr>gw_leases := leases\<rparr>)) (ret ok)))))"

definition TotalSlot :: "FuncAgent \<Rightarrow> (nat, error) res" where
  "TotalSlot self = u64_mul (length (fa_workers self)) (fa_parallelLeve self)"

definition UpdatePolicy :: "GwEnv \<Rightarrow> nat \<Rightarrow> (GwState, unit) act" where
  "UpdatePolicy env a =
     abind (get_agent a) (\<lambda>ag.
     abind (aget gw_repo) (\<lambda>repo.
     let policy =
       (if fa_isEndpointRoute ag then
          (case DataObjectMgr_Get (gr_funcpolicyMgr repo) (fa_tenant ag) (fa_namespace ag) (fa_funcName ag) of
             Ok p \<Rightarrow> object p
           | _ \<Rightarrow> EndpointRoutePolicy (endpointsDefaultPolicy env) repo (fa_tenant ag) (fa_funcName ag))
        else GwObjRepo_FuncPolicy repo (fa_func ag))
     in upd_agent a (\<lambda>ag. ag\<lparr>fa_scaleoutPolicy := scaleoutPolicy policy, fa_scaleinTimeout := scalein_ms policy,
                             fa_parallelLeve := fp_parallel policy, fa_queueLen := queueLen policy\<rparr>)))"

text \<open>The channels of an agent hold 1000 requests and 100 updates; after its task has returned they are closed.\<close>

definition EnqReq :: "nat \<Rightarrow> FuncClientReq \<Rightarrow> (GwState, unit) act" where
  "EnqReq a req =
     abind (get_agent a) (\<lambda>ag.
     if fa_pc ag = AgStopped \<or> 1000 \<le> length (fa_reqQueueTx ag) then athrow (CommonError ''FuncAgent Queue is full'')
     else upd_agent a (\<lambda>ag. ag\<lparr>fa_reqQueueTx := fa_reqQueueTx ag @ [req]\<rparr>))"

definition SendWorkerStatusUpdate :: "nat \<Rightarrow> WorkerUpdate \<Rightarrow> (GwState, unit) act" where
  "SendWorkerStatusUpdate a u =
     upd_agent a (\<lambda>ag.
       if fa_pc ag = AgStopped \<or> 100 \<le> length (fa_workerStateUpdateTx ag) then ag
       else ag\<lparr>fa_workerStateUpdateTx := fa_workerStateUpdateTx ag @ [u]\<rparr>)"

definition NeedNewWorker :: "FuncAgent \<Rightarrow> (bool, error) res" where
  "NeedNewWorker self =
     and_then (TotalSlot self) (\<lambda>totalSlotCnt.
     case fa_scaleoutPolicy self of
       WaitQueueRatio waitRatio \<Rightarrow>
         Ok (f64_gt (f64_of_nat (unat (fa_activeReqCnt self)))
               (f64_mul (f64_add (F64Fin 1) (f64_decode waitRatio)) (f64_of_nat totalSlotCnt))))"

definition NeedLastWorker :: "FuncAgent \<Rightarrow> (bool, error) res" where
  "NeedLastWorker self =
     and_then (TotalSlot self) (\<lambda>n.
     and_then (u64_sub n (fa_parallelLeve self)) (\<lambda>totalSlotCnt.
     Ok (totalSlotCnt < unat (fa_activeReqCnt self))))"

text \<open>The channels of a new worker hold twice its parallel level; \<open>mpsc::channel\<close> panics for zero.\<close>

definition FuncWorker_New :: "nat \<Rightarrow> FuncAgent \<Rightarrow> int \<Rightarrow> (FuncWorker, error) res" where
  "FuncWorker_New a ag workerId =
     and_then (u64_mul (fa_parallelLeve ag) 2) (\<lambda>cap.
     if cap = 0 then Panic
     else Ok
       \<lparr>fw_agent = a, fw_workerId = workerId, fw_tenant = fa_tenant ag, fw_namespace = fa_namespace ag, fw_funcname = fa_funcName ag,
        fw_physical_tenant = fa_physicalTenant ag, fw_physical_namespace = fa_physicalNamespace ag,
        fw_physical_funcname = fa_physicalFuncName ag, fw_fprevision = fa_funcVersion ag,
        fw_endpoint_lease_key = fa_endpointLeaseKey ag, fw_lease_released = False, fw_id = -1, fw_keepalive = False,
        fw_parallelLevel = fa_parallelLeve ag, fw_keepaliveTime = max 10 (fa_scaleinTimeout ag), fw_ongoingReqCnt = 0,
        fw_state = FwInit, fw_failCount = 0, fw_tracking = GpuTrackingInfo_default, fw_caller_tenant = None,
        fw_publishedLabels = None, fw_senders = [], fw_finishQueue = [], fw_closeNotify = False, fw_pc = WLease\<rparr>)"

definition NewWorker :: "GwEnv \<Rightarrow> nat \<Rightarrow> (GwState, unit) act" where
  "NewWorker env a =
     abind (TryAcquireEndpointLease env a) (\<lambda>ok.
     if \<not> ok then ret ()
     else
       abind (NextWorkerId a) (\<lambda>workerId.
       aseq (upd_agent a (\<lambda>ag. ag\<lparr>fa_startingSlot := fa_startingSlot ag + of_nat (fa_parallelLeve ag)\<rparr>))
      (abind (get_agent a) (\<lambda>ag.
       abind (alift (FuncWorker_New a ag workerId)) (\<lambda>worker.
       abind (aget gw_workerCnt) (\<lambda>w.
       aseq (amod (\<lambda>s. s\<lparr>gw_workerCnt := w + 1\<rparr>))
      (aseq (upd_worker w (\<lambda>_. worker))
         (AddWorker a w))))))))"

definition FuncAgent_FuncPolicy :: "GwObjRepo \<Rightarrow> FuncAgent \<Rightarrow> string \<Rightarrow> (FuncPolicySpec, error) res" where
  "FuncAgent_FuncPolicy repo self t =
     (let f = fa_func self in
      case DataObjectMgr_Get (gr_funcpolicyMgr repo) (do_tenant f) (do_namespace f) (do_name f) of
        Ok p \<Rightarrow> Ok (object p)
      | _ \<Rightarrow>
          (case fn_policy (fn_spec (object f)) of
             Obj p \<Rightarrow> Ok p
           | Link l \<Rightarrow>
               if ol_objType l \<noteq> ''funcpolicy'' then
                 Err (CommonError (''GetFuncPolicy for func '' @ slash3 (fa_tenant self) (fa_namespace self) (fa_funcName self) @
                   '' fail invalic link type '' @ ol_objType l))
               else (case DataObjectMgr_Get (gr_funcpolicyMgr repo) t (ol_namespace l) (ol_name l) of
                       Ok p \<Rightarrow> Ok (object p)
                     | _ \<Rightarrow> Ok FuncPolicySpec_default)))"

section \<open>Calls to the scheduler\<close>

text \<open>What became of a call: no connection, or it was sent and answered, or failed.\<close>

datatype 'a Rpc = NoConnect error | Called "('a, error) res"

definition with_scheduler :: "'a Rpc \<Rightarrow> GwEffect \<Rightarrow> (GwState, 'a) act" where
  "with_scheduler rpc call =
     abind (aget gw_schedulerUrl) (\<lambda>url.
     case url of
       None \<Rightarrow> athrow (CommonError ''SchedulerClient::GetClient no valid scheduler'')
     | Some _ \<Rightarrow> (case rpc of NoConnect e \<Rightarrow> athrow e | Called r \<Rightarrow> aseq (gw_emit call) (alift r)))"

definition SchedulerClient_LeaseWorker ::
  "GwEnv \<Rightarrow> LeaseWorkerResp Rpc \<Rightarrow> string \<Rightarrow> string \<Rightarrow> string \<Rightarrow> int \<Rightarrow> string \<Rightarrow> (GwState, LeaseWorkerResp) act" where
  "SchedulerClient_LeaseWorker env rpc t ns fn fprevision consumer =
     abind (with_scheduler rpc (CallLease \<lparr>lr_tenant = t, lr_namespace = ns, lr_funcname = fn, lr_fprevision = fprevision,
              lr_gateway_id = GatewayId env, lr_consumer_tenant = consumer\<rparr>)) (\<lambda>resp.
     if length (ls_error resp) = 0 then
       aseq (amod (\<lambda>s. s\<lparr>gw_leasedWorkers := List.insert \<lparr>lw_tenant = t, lw_namespace = ns, lw_funcname = fn,
               lw_fprevision = fprevision, lw_id = ls_id resp\<rparr> (gw_leasedWorkers s)\<rparr>))
         (ret resp)
     else athrow (CommonError (ls_error resp)))"

definition SchedulerClient_ReturnWorker :: "string Rpc \<Rightarrow> LeasedWorker \<Rightarrow> bool \<Rightarrow> (GwState, unit) act" where
  "SchedulerClient_ReturnWorker rpc lw failworker =
     abind (with_scheduler rpc (CallReturn lw failworker)) (\<lambda>e.
     if length e \<noteq> 0 then athrow (CommonError (''Return Worker fail with error '' @ e))
     else amod (\<lambda>s. s\<lparr>gw_leasedWorkers := removeAll lw (gw_leasedWorkers s)\<rparr>))"

definition RefreshGateway :: "GwEnv \<Rightarrow> string Rpc \<Rightarrow> (GwState, unit) act" where
  "RefreshGateway env rpc =
     abind (with_scheduler rpc (CallRefresh (GatewayId env))) (\<lambda>e.
     if length e = 0 then ret () else athrow (CommonError (''ReturnGateway fail with error '' @ e)))"

definition is_permanent_error :: "GwEnv \<Rightarrow> error \<Rightarrow> bool" where
  "is_permanent_error env e \<longleftrightarrow> sublist ''No route to host'' (gw_debug env e) \<or> sublist ''Network is unreachable'' (gw_debug env e) \<or>
     sublist ''Name or service not known'' (gw_debug env e)"

definition try_connect_once :: "GwEnv \<Rightarrow> string \<Rightarrow> string Rpc \<Rightarrow> (GwState, unit) act" where
  "try_connect_once env schedulerUrl rpc =
     abind (aget gw_leasedWorkers) (\<lambda>ws.
     case rpc of
       NoConnect e \<Rightarrow> athrow e
     | Called r \<Rightarrow>
         aseq (gw_emit (CallConnect (GatewayId env) ws))
        (abind (alift r) (\<lambda>e.
         if length e \<noteq> 0 then
           athrow (CommonError (''Gateway id: '' @ show_int (GatewayId env) @ '' failed to connect to scheduler: '' @ e))
         else amod (\<lambda>s. s\<lparr>gw_schedulerUrl := Some schedulerUrl\<rparr>))))"

text \<open>The attempts made so far, by the outcomes of their calls: whether one of them connected.\<close>

fun Connect :: "GwEnv \<Rightarrow> string \<Rightarrow> string Rpc list \<Rightarrow> (GwState, bool) act" where
  "Connect env schedulerUrl [] = ret False"
| "Connect env schedulerUrl (rpc # rpcs) =
     abind (atry (try_connect_once env schedulerUrl rpc)) (\<lambda>r.
     case r of
       Ok _ \<Rightarrow> ret True
     | Err e \<Rightarrow> if is_permanent_error env e then athrow e else Connect env schedulerUrl rpcs
     | Panic \<Rightarrow> apanic)"

definition Disconnect :: "(GwState, unit) act" where
  "Disconnect = amod (\<lambda>s. s\<lparr>gw_schedulerUrl := None\<rparr>)"

section \<open>Returning a worker\<close>

definition leased_as :: "FuncWorker \<Rightarrow> LeasedWorker" where
  "leased_as w = \<lparr>lw_tenant = fw_physical_tenant w, lw_namespace = fw_physical_namespace w, lw_funcname = fw_physical_funcname w,
     lw_fprevision = fw_fprevision w, lw_id = show_int (fw_id w)\<rparr>"

definition ReturnWorker :: "string Rpc \<Rightarrow> nat \<Rightarrow> bool \<Rightarrow> (GwState, unit) act" where
  "ReturnWorker rpc w failworker =
     abind (get_worker w) (\<lambda>wk. SchedulerClient_ReturnWorker rpc (leased_as wk) failworker)"

definition spawn_return_worker_retry :: "nat \<Rightarrow> bool \<Rightarrow> (GwState, unit) act" where
  "spawn_return_worker_retry w failworker =
     amod (\<lambda>s. s\<lparr>gw_returns := gw_returns s @ [\<lparr>rk_worker = w, rk_failworker = failworker, rk_retry_count = 0, rk_backoff = 500\<rparr>]\<rparr>)"

definition MAX_RETRIES :: nat where
  "MAX_RETRIES = 10"

text \<open>The end of such a task: the worker leaves the set of leased workers, returned or not.\<close>

definition return_done :: "nat \<Rightarrow> ReturnTask \<Rightarrow> (GwState, unit) act" where
  "return_done i k =
     abind (get_worker (rk_worker k)) (\<lambda>wk.
     amod (\<lambda>s. s\<lparr>gw_leasedWorkers := removeAll (leased_as wk) (gw_leasedWorkers s),
                 gw_returns := take i (gw_returns s) @ drop (Suc i) (gw_returns s)\<rparr>))"

text \<open>One attempt.\<close>

definition return_attempt :: "GwEnv \<Rightarrow> string Rpc \<Rightarrow> nat \<Rightarrow> (GwState, unit) act" where
  "return_attempt env rpc i =
     abind (aget gw_returns) (\<lambda>ks.
     if length ks \<le> i then ret ()
     else
       let k = ks ! i in
       abind (atry (ReturnWorker rpc (rk_worker k) (rk_failworker k))) (\<lambda>r.
       case r of
         Ok _ \<Rightarrow> return_done i k
       | Panic \<Rightarrow> apanic
       | Err e \<Rightarrow>
           if sublist ''NotExist'' (gw_debug env e) then return_done i k
           else if MAX_RETRIES \<le> rk_retry_count k + 1 then return_done i k
           else amod (\<lambda>s. s\<lparr>gw_returns := (gw_returns s)[i := k\<lparr>rk_retry_count := rk_retry_count k + 1,
                                                               rk_backoff := min (rk_backoff k * 2) 5000\<rparr>]\<rparr>)))"

section \<open>The loop of an agent\<close>

definition agent_top :: "GwEnv \<Rightarrow> nat \<Rightarrow> nat \<Rightarrow> (GwState, unit) act" where
  "agent_top env tm a =
     abind (CleanTimeout tm a) (\<lambda>timeoutReqCnt.
     aseq (upd_agent a (\<lambda>ag. ag\<lparr>fa_activeReqCnt := fa_activeReqCnt ag - of_nat timeoutReqCnt\<rparr>))
    (abind (get_agent a) (\<lambda>ag.
     abind (alift (NeedNewWorker ag)) (\<lambda>need.
     aseq (awhen need (abind (Throttle_TryAcquire a) (\<lambda>ok. awhen ok (aok (NewWorker env a)))))
       (upd_agent a (\<lambda>ag. ag\<lparr>fa_pc := AgSelect\<rparr>))))))"

definition agent_take :: "nat \<Rightarrow> FuncClientReq \<Rightarrow> (GwState, unit) act" where
  "agent_take a req =
     abind (Queue_Send a req) (\<lambda>ok.
     awhen ok (upd_agent a (\<lambda>ag. ag\<lparr>fa_activeReqCnt := fa_activeReqCnt ag + 1\<rparr>)))"

definition agent_recv :: "nat \<Rightarrow> (GwState, unit) act" where
  "agent_recv a =
     abind (get_agent a) (\<lambda>ag.
     aseq (upd_agent a (\<lambda>ag. ag\<lparr>fa_reqQueueTx := []\<rparr>))
       (aiter (agent_take a) (fa_reqQueueTx ag)))"

fun agent_update :: "nat \<Rightarrow> WorkerUpdate \<Rightarrow> (GwState, unit) act" where
  "agent_update a (Ready w) = ret ()"
| "agent_update a (WorkerFail w e) = aseq (RemoveWorker a w) (spawn_return_worker_retry w True)"
| "agent_update a (IdleTimeout w) = aseq (RemoveWorker a w) (spawn_return_worker_retry w False)"
| "agent_update a (WorkerLeaseFail w e) = RemoveWorker a w"

text \<open>The events of the agent's \<open>select!\<close>.\<close>

datatype AgentEvent = AevClose | AevRequests | AevPolicy | AevTimer | AevUpdate

definition agent_event :: "GwEnv \<Rightarrow> nat \<Rightarrow> AgentEvent \<Rightarrow> (GwState, unit) act" where
  "agent_event env a ev =
     abind (get_agent a) (\<lambda>ag.
     let again = upd_agent a (\<lambda>ag. ag\<lparr>fa_pc := AgTop\<rparr>) in
     case ev of
       AevClose \<Rightarrow>
         awhen (fa_closeNotify ag)
           (aseq (upd_agent a (\<lambda>ag. ag\<lparr>fa_closeNotify := False, fa_pc := AgStopped, fa_reqQueueTx := [], fa_workerStateUpdateTx := []\<rparr>))
             (aiter (\<lambda>r. answer (cr_tx r) AnsDropped) (fa_reqQueueTx ag)))
     | AevRequests \<Rightarrow> awhen (fa_reqQueueTx ag \<noteq> []) (aseq (agent_recv a) again)
     | AevPolicy \<Rightarrow> aseq (UpdatePolicy env a) again
     | AevTimer \<Rightarrow> again
     | AevUpdate \<Rightarrow>
         (case fa_workerStateUpdateTx ag of
            [] \<Rightarrow> ret ()
          | u # us \<Rightarrow> aseq (upd_agent a (\<lambda>ag. ag\<lparr>fa_workerStateUpdateTx := us\<rparr>)) (aseq (agent_update a u) again)))"

section \<open>The manager\<close>

definition RetireAgent :: "string \<Rightarrow> (GwState, unit) act" where
  "RetireAgent funcId =
     abind (aget (\<lambda>s. bt_get funcId (gw_agents s))) (\<lambda>agent.
     aseq (amod (\<lambda>s. s\<lparr>gw_agents := bt_remove funcId (gw_agents s)\<rparr>))
       (asome agent (\<lambda>a.
        abind (get_agent a) (\<lambda>ag.
        aseq (aiter (\<lambda>w. upd_worker w (\<lambda>wk. wk\<lparr>fw_closeNotify := True\<rparr>)) (bt_values (fa_workers ag)))
          (upd_agent a (\<lambda>ag. ag\<lparr>fa_closeNotify := True\<rparr>))))))"

text \<open>\<open>GetClient\<close> up to waiting for the answer: the channel on which it comes.\<close>

definition stale_agents :: "FuncRouteTarget \<Rightarrow> (string, nat) btmap \<Rightarrow> string list" where
  "stale_agents route agents = filter (\<lambda>key. starts_with (FuncIdentity_Prefix (rt_logical route)) key \<and> key \<noteq> AgentKey route) (bt_keys agents)"

definition get_or_new_agent :: "FuncRouteTarget \<Rightarrow> (GwState, nat) act" where
  "get_or_new_agent route =
     abind (aget (\<lambda>s. bt_get (AgentKey route) (gw_agents s))) (\<lambda>agent.
     case agent of
       Some a \<Rightarrow> ret a
     | None \<Rightarrow>
         abind (aget gw_agentCnt) (\<lambda>a.
         aseq (amod (\<lambda>s. s\<lparr>gw_agentCnt := a + 1, gw_agents := bt_insert (AgentKey route) a (gw_agents s)\<rparr>))
        (aseq (upd_agent a (\<lambda>_. FuncAgent_New route))
           (ret a))))"

definition GetClient :: "FuncRouteTarget \<Rightarrow> nat \<Rightarrow> IxTimestamp \<Rightarrow> (GwState, nat) act" where
  "GetClient route timeout timestamp =
     abind (aget (\<lambda>s. stale_agents route (gw_agents s))) (\<lambda>stale.
     abind (get_or_new_agent route) (\<lambda>a.
     aseq (aiter RetireAgent stale)
    (abind (aget gw_txCnt) (\<lambda>tx.
     aseq (amod (\<lambda>s. s\<lparr>gw_txCnt := tx + 1\<rparr>))
    (aseq (EnqReq a \<lparr>cr_tenant = fid_tenant (rt_logical route), cr_namespace = fid_namespace (rt_logical route),
             cr_funcName = fid_funcname (rt_logical route), cr_caller_tenant = rt_caller_tenant route, cr_keepalive = True,
             cr_timeout = timeout, cr_enqueueTime = timestamp, cr_tx = tx\<rparr>)
       (ret tx))))))"

text \<open>What \<open>GetClient\<close> returns for an answer; \<open>recv_error\<close> is what \<open>{:?}\<close> prints for the error of a dropped channel.\<close>

fun client_of :: "string \<Rightarrow> FuncRouteTarget \<Rightarrow> Answer \<Rightarrow> (nat \<times> bool, error) res" where
  "client_of recv_error route (AnsClient c keepalive) = Ok (c, keepalive)"
| "client_of recv_error route (AnsErr e) = Err e"
| "client_of recv_error route AnsDropped = Err (CommonError (''funcworker fail ... '' @ AgentKey route @ '' '' @ recv_error))"

record PodLeaseInfo =
  pli_leased :: bool
  pli_endpoint_consumer_tenant :: "string option"

definition pod_lease :: "FuncWorker \<Rightarrow> (string, PodLeaseInfo) btmap \<Rightarrow> (string, PodLeaseInfo) btmap" where
  "pod_lease w m =
     (if fw_id w < 0 then m
      else bt_insert (slash5 (fw_physical_tenant w) (fw_physical_namespace w) (fw_physical_funcname w) (show_int (fw_fprevision w)) (show_int (fw_id w)))
        \<lparr>pli_leased = True, pli_endpoint_consumer_tenant =
           (if fw_physical_tenant w = ''inferx'' \<and> fw_physical_namespace w = ''endpoint'' then Some (fw_tenant w) else None)\<rparr> m)"

definition PodLeaseState :: "GwState \<Rightarrow> (string, PodLeaseInfo) btmap" where
  "PodLeaseState s =
     fold (\<lambda>a m. fold (\<lambda>w. pod_lease (gw_workerCells s w)) (bt_values (fa_workers (gw_agentCells s a))) m) (bt_values (gw_agents s)) []"

end
