(* ===== verification/Gw_Worker.thy ===== *)
theory Gw_Worker
  imports Gw_Agent
begin

text \<open>
  The task of a worker in the gateway (\<open>src/ixshare/src/gateway/func_worker.rs\<close>), its connections and bills, and the gateway as a
  whole: any sequence of steps, each the work of one task up to its next wait for an event or an answer (waits for a lock, which end by themselves, do not
  interrupt a step). What the outside answers (the scheduler, the pod's sockets, the clocks) is
  part of a step. Of the address of a pod only the number is kept, which names its connections. A panic ends the run.
\<close>

section \<open>Bills\<close>

definition request_tick :: "GwEnv \<Rightarrow> FuncWorker \<Rightarrow> string \<Rightarrow> int \<Rightarrow> string \<Rightarrow> UsageTick" where
  "request_tick env w session ms ty =
     \<lparr>ut_session_id = session, ut_tenant = fw_tenant w, ut_caller_tenant = fw_caller_tenant w, ut_namespace = fw_namespace w,
      ut_funcname = fw_funcname w, ut_fprevision = fw_fprevision w, ut_nodename = Some (ti_nodename (fw_tracking w)),
      ut_pod_id = Some (fw_id w), ut_gateway_id = Some (GatewayId env), ut_gpu_type = ti_gpu_type (fw_tracking w),
      ut_gpu_count = ti_gpu_count (fw_tracking w), ut_vram_mb = ti_vram_mb (fw_tracking w),
      ut_total_vram_mb = ti_total_vram_mb (fw_tracking w), interval_ms = ms, tick_type = ty, usage_type = ''request'',
      is_coldstart = ti_is_coldstart (fw_tracking w)\<rparr>"

definition gw_Audit :: "GwEnv \<Rightarrow> UsageTick \<Rightarrow> (GwState, unit) act" where
  "gw_Audit env t = awhen (gw_ticks_sent env) (gw_emit (GwTick t))"

definition upd_tracking :: "nat \<Rightarrow> (GpuTrackingInfo \<Rightarrow> GpuTrackingInfo) \<Rightarrow> (GwState, unit) act" where
  "upd_tracking w f = upd_worker w (\<lambda>wk. wk\<lparr>fw_tracking := f (fw_tracking wk)\<rparr>)"

definition insert_start_billing_tick :: "GwEnv \<Rightarrow> nat \<Rightarrow> (GwState, unit) act" where
  "insert_start_billing_tick env w =
     abind (get_worker w) (\<lambda>wk.
     case ti_session_id (fw_tracking wk) of
       None \<Rightarrow> ret ()
     | Some session \<Rightarrow> if ti_gpu_count (fw_tracking wk) = 0 then ret () else gw_Audit env (request_tick env wk session 0 ''start''))"

definition insert_billing_tick :: "GwEnv \<Rightarrow> nat \<Rightarrow> nat \<Rightarrow> (GwState, unit) act" where
  "insert_billing_tick env tm w =
     abind (get_worker w) (\<lambda>wk.
     case (ti_session_id (fw_tracking wk), ti_last_tick_time (fw_tracking wk)) of
       (Some session, Some last_tick) \<Rightarrow>
         if ti_gpu_count (fw_tracking wk) = 0 then ret ()
         else
           aseq (upd_tracking w (\<lambda>ti. ti\<lparr>ti_last_tick_time := Some tm, ti_is_coldstart := False\<rparr>))
             (gw_Audit env (request_tick env wk session (millis_since last_tick tm) ''periodic''))
     | _ \<Rightarrow> ret ())"

definition insert_final_billing_tick :: "GwEnv \<Rightarrow> nat \<Rightarrow> nat \<Rightarrow> (GwState, unit) act" where
  "insert_final_billing_tick env tm w =
     abind (get_worker w) (\<lambda>wk.
     case (ti_session_id (fw_tracking wk), ti_last_tick_time (fw_tracking wk)) of
       (Some session, Some last_tick) \<Rightarrow>
         if ti_gpu_count (fw_tracking wk) = 0 then ret ()
         else if millis_since last_tick tm < 100 then ret ()
         else
           aseq (upd_tracking w (\<lambda>ti. ti\<lparr>ti_session_id := None, ti_last_tick_time := None\<rparr>))
             (gw_Audit env (request_tick env wk session (millis_since last_tick tm) ''final''))
     | _ \<Rightarrow> ret ())"

definition gpu_count_labels :: "FuncWorker \<Rightarrow> (GpuCountLabels \<times> int) option" where
  "gpu_count_labels w =
     (let ti = fw_tracking w in
      if ti_gpu_count ti \<le> 0 \<or> ti_nodename ti = '''' then None
      else if fw_id w < 0 then None
      else Some (\<lparr>gl_tenant = fw_tenant w, gl_namespace = fw_namespace w, gl_funcname = fw_funcname w,
                  gl_kind = (if fw_namespace w = ''endpoints'' then ''endpoint'' else ''function''),
                  gl_node_name = ti_nodename ti, gl_pod_id = show_int (fw_id w)\<rparr>, ti_gpu_count ti))"

definition publish_gpu_count_metric :: "nat \<Rightarrow> (GwState, unit) act" where
  "publish_gpu_count_metric w =
     abind (get_worker w) (\<lambda>wk.
     case gpu_count_labels wk of
       None \<Rightarrow> ret ()
     | Some (labels, n) \<Rightarrow>
         aseq (gw_emit (GpuCountSet labels n)) (upd_worker w (\<lambda>wk. wk\<lparr>fw_publishedLabels := Some labels\<rparr>)))"

definition remove_gpu_count_metric :: "nat \<Rightarrow> (GwState, unit) act" where
  "remove_gpu_count_metric w =
     abind (get_worker w) (\<lambda>wk.
     aseq (upd_worker w (\<lambda>wk. wk\<lparr>fw_publishedLabels := None\<rparr>))
       (asome (fw_publishedLabels wk) (\<lambda>labels. gw_emit (GpuCountRemove labels))))"

text \<open>What the worker learns of its pod when it is leased.\<close>

definition populate_tracking :: "GwEnv \<Rightarrow> nat \<Rightarrow> nat \<Rightarrow> bool \<Rightarrow> (GwState, unit) act" where
  "populate_tracking env tm w keepalive =
     abind (aget gw_uuidCnt) (\<lambda>n.
     aseq (amod (\<lambda>s. s\<lparr>gw_uuidCnt := n + 1\<rparr>))
    (aseq (upd_tracking w (\<lambda>ti. ti\<lparr>ti_lease_start := Some tm, ti_is_coldstart := \<not> keepalive, ti_session_id := Some (gw_uuid env n),
             ti_last_tick_time := Some tm\<rparr>))
    (abind (get_worker w) (\<lambda>wk.
     let pod_name = slash5 (fw_physical_tenant wk) (fw_physical_namespace wk) (fw_physical_funcname wk) (show_int (fw_fprevision wk)) (show_int (fw_id wk)) in
     abind (aget (\<lambda>s. DataObjectMgr_Get (gr_podMgr (gw_repo s)) (fw_physical_tenant wk) (fw_physical_namespace wk) pod_name)) (\<lambda>pod.
     case pod of
       Ok p \<Rightarrow>
         let sp = podSpec p in
         aseq (upd_tracking w (\<lambda>ti. ti\<lparr>ti_nodename := ps_nodename sp, ti_gpu_type := nr_gpuType (allocResources sp),
                 ti_gpu_count := u64_as_i32 (gpuCount (rs_gpu (reqResources sp))), ti_vram_mb := u64_as_i64 (vRam (rs_gpu (reqResources sp)))\<rparr>))
        (abind (alift (Sched_Billing.TotalVRam (nr_gpus (allocResources sp)))) (\<lambda>v.
         upd_tracking w (\<lambda>ti. ti\<lparr>ti_total_vram_mb := u64_as_i64 (v div 1024 div 1024)\<rparr>)))
     | _ \<Rightarrow> ret ())))))"

section \<open>Connections\<close>

definition RETRYABLE_HTTP_STATUS :: "nat list" where
  "RETRYABLE_HTTP_STATUS = [408, 429, 500, 502, 503, 504]"

abbreviation upd_conn :: "nat \<Rightarrow> (Connection \<Rightarrow> Connection) \<Rightarrow> (GwState, unit) act" where
  "upd_conn c f \<equiv> amod (\<lambda>s. s\<lparr>gw_conns := (gw_conns s)(c := f (gw_conns s c))\<rparr>)"

text \<open>A request sent on a connection, with its outcome: the status of the response.\<close>

definition HttpSender_Send :: "nat \<Rightarrow> (nat, error) res \<Rightarrow> (GwState, unit) act" where
  "HttpSender_Send c outcome =
     (case outcome of
        Err e \<Rightarrow> upd_conn c (\<lambda>cn. cn\<lparr>cn_fail := True\<rparr>)
      | Ok status \<Rightarrow> if status \<in> set RETRYABLE_HTTP_STATUS then upd_conn c (\<lambda>cn. cn\<lparr>cn_fail := True\<rparr>) else ret ()
      | Panic \<Rightarrow> ret ())"

text \<open>The task that drives a connection ends.\<close>

definition connection_ends :: "nat \<Rightarrow> bool \<Rightarrow> (GwState, unit) act" where
  "connection_ends c failed = upd_conn c (\<lambda>cn. if failed then cn\<lparr>cn_fail := True\<rparr> else cn\<lparr>cn_close := True\<rparr>)"

text \<open>The pool of a worker, its last element first.\<close>

definition ReturnSender :: "nat \<Rightarrow> nat \<Rightarrow> (GwState, unit) act" where
  "ReturnSender w c =
     abind (aget (\<lambda>s. gw_conns s c)) (\<lambda>cn.
     if cn_fail cn \<or> cn_close cn then ret ()
     else upd_worker w (\<lambda>wk. wk\<lparr>fw_senders := c # fw_senders wk\<rparr>))"

fun pick_sender :: "(nat \<Rightarrow> Connection) \<Rightarrow> nat list \<Rightarrow> nat option \<times> nat list" where
  "pick_sender conns [] = (None, [])"
| "pick_sender conns (c # cs) = (if cn_close (conns c) \<or> cn_fail (conns c) then pick_sender conns cs else (Some c, cs))"

definition PodName :: "FuncWorker \<Rightarrow> string" where
  "PodName w = slash5 (fw_physical_tenant w) (fw_physical_namespace w) (fw_physical_funcname w) (show_int (fw_fprevision w)) (show_int (fw_id w))"

text \<open>At most ten attempts to open a socket.\<close>

definition ConnectPod :: "(unit, error) res list \<Rightarrow> (unit, error) res" where
  "ConnectPod tries =
     (if list_ex is_ok (take 10 tries) then Ok () else Err (CommonError ''ConnectionPool FuncWorker::ConnectPod timeout''))"

text \<open>A connection given to a caller, to be given back to the worker when the caller is done.\<close>

definition QHttpCallClient_New :: "nat \<Rightarrow> nat \<Rightarrow> (GwState, nat) act" where
  "QHttpCallClient_New w c =
     aseq (upd_conn c (\<lambda>cn. cn\<lparr>cn_reuse := cn_reuse cn + 1\<rparr>))
    (aseq (amod (\<lambda>s. s\<lparr>gw_clients := gw_clients s @ [(c, w)]\<rparr>))
       (ret c))"

definition NewHttpCallClient :: "(unit, error) res list \<Rightarrow> (unit, error) res \<Rightarrow> nat \<Rightarrow> (GwState, nat) act" where
  "NewHttpCallClient tries handshake w =
     aseq (alift (ConnectPod tries))
    (aseq (alift handshake)
    (abind (aget gw_connCnt) (\<lambda>c.
     abind (get_worker w) (\<lambda>wk.
     aseq (amod (\<lambda>s. s\<lparr>gw_connCnt := c + 1\<rparr>))
    (aseq (upd_conn c (\<lambda>_. \<lparr>cn_podname = PodName wk, cn_fail = False, cn_close = False, cn_reuse = 1\<rparr>))
       (QHttpCallClient_New w c))))))"

definition GetConnect :: "(unit, error) res list \<Rightarrow> (unit, error) res \<Rightarrow> nat \<Rightarrow> (GwState, nat) act" where
  "GetConnect tries handshake w =
     abind (get_worker w) (\<lambda>wk.
     abind (aget (\<lambda>s. pick_sender (gw_conns s) (fw_senders wk))) (\<lambda>(c, senders).
     aseq (upd_worker w (\<lambda>wk. wk\<lparr>fw_senders := senders\<rparr>))
       (case c of
          Some c \<Rightarrow> QHttpCallClient_New w c
        | None \<Rightarrow>
            abind (atry (NewHttpCallClient tries handshake w)) (\<lambda>r.
            case r of
              Err (CommonError str) \<Rightarrow> athrow (CommonError (''Socket fail: '' @ PodName wk @ '' '' @ str))
            | x \<Rightarrow> alift x))))"

text \<open>A caller drops its client. The queue of a worker holds twice its parallel level and is closed when its task has returned.\<close>

definition QHttpCallClient_drop :: "nat \<Rightarrow> (GwState, unit) act" where
  "QHttpCallClient_drop c =
     abind (aget (\<lambda>s. map_of (gw_clients s) c)) (\<lambda>owner.
     asome owner (\<lambda>w.
     aseq (amod (\<lambda>s. s\<lparr>gw_clients := filter (\<lambda>x. fst x \<noteq> c) (gw_clients s)\<rparr>))
       (upd_worker w (\<lambda>wk.
          if fw_pc wk = WDone \<or> fw_parallelLevel wk * 2 \<le> length (fw_finishQueue wk) then wk
          else wk\<lparr>fw_finishQueue := fw_finishQueue wk @ [c]\<rparr>))))"

section \<open>The task\<close>

definition SetState :: "nat \<Rightarrow> FuncWorkerState \<Rightarrow> (GwState, unit) act" where
  "SetState w st = upd_worker w (\<lambda>wk. wk\<lparr>fw_state := st\<rparr>)"

definition goto :: "nat \<Rightarrow> WorkerPc \<Rightarrow> (GwState, unit) act" where
  "goto w pc = upd_worker w (\<lambda>wk. wk\<lparr>fw_pc := pc\<rparr>)"

definition ReleaseEndpointLease :: "nat \<Rightarrow> (GwState, unit) act" where
  "ReleaseEndpointLease w =
     abind (get_worker w) (\<lambda>wk.
     aseq (upd_worker w (\<lambda>wk. wk\<lparr>fw_lease_released := True\<rparr>))
       (if fw_lease_released wk then ret ()
        else asome (fw_endpoint_lease_key wk) (\<lambda>key. amod (\<lambda>s. s\<lparr>gw_leases := Limiter_Release (gw_leases s) key\<rparr>))))"

definition FinishWorker :: "GwEnv \<Rightarrow> nat \<Rightarrow> nat \<Rightarrow> (GwState, unit) act" where
  "FinishWorker env tm w =
     aseq (ReleaseEndpointLease w)
    (abind (get_worker w) (\<lambda>wk.
     aseq (upd_agent (fw_agent wk) (\<lambda>ag. ag\<lparr>fa_totalSlot := fa_totalSlot ag - of_nat (fw_parallelLevel wk)\<rparr>))
    (aseq (aassert (fw_state wk = FwIdle \<or> fw_state wk = FwProcessing))
    (aseq (insert_final_billing_tick env tm w)
    (aseq (remove_gpu_count_metric w)
    (aseq (upd_agent (fw_agent wk) (\<lambda>ag. ag\<lparr>fa_activeReqCnt := fa_activeReqCnt ag - fw_ongoingReqCnt wk\<rparr>))
       (SetState w FwFinish)))))))"

text \<open>The task returns; what is left in its queue is dropped.\<close>

definition worker_ends :: "nat \<Rightarrow> (GwState, unit) act" where
  "worker_ends w = upd_worker w (\<lambda>wk. wk\<lparr>fw_pc := WDone, fw_finishQueue := []\<rparr>)"

definition HandleReturn :: "GwEnv \<Rightarrow> nat \<Rightarrow> nat \<Rightarrow> nat \<Rightarrow> (GwState, bool) act" where
  "HandleReturn env tm w c =
     abind (get_worker w) (\<lambda>wk.
     aseq (upd_agent (fw_agent wk) (\<lambda>ag. ag\<lparr>fa_activeReqCnt := fa_activeReqCnt ag - 1\<rparr>))
    (aseq (upd_worker w (\<lambda>wk. wk\<lparr>fw_ongoingReqCnt := fw_ongoingReqCnt wk - 1\<rparr>))
    (abind (aget (\<lambda>s. cn_fail (gw_conns s c))) (\<lambda>failed.
     aseq (upd_worker w (\<lambda>wk. wk\<lparr>fw_failCount := if failed then fw_failCount wk + 1 else 0\<rparr>))
    (if failed \<and> fw_failCount wk = 3 then
       aseq (FinishWorker env tm w)
      (aseq (RemoveWorker (fw_agent wk) w)
      (aseq (SendWorkerStatusUpdate (fw_agent wk) (WorkerFail w (CommonError ''Http fail'')))
         (ret True)))
     else
       aseq (awhen (fw_ongoingReqCnt wk = 1) (SetState w FwIdle))
      (aseq (ReturnSender w c)
         (ret False)))))))"

fun return_loop :: "GwEnv \<Rightarrow> nat \<Rightarrow> nat \<Rightarrow> nat list \<Rightarrow> (GwState, unit) act" where
  "return_loop env tm w [] = goto w WTop"
| "return_loop env tm w (c # cs) = abind (HandleReturn env tm w c) (\<lambda>failed. if failed then worker_ends w else return_loop env tm w cs)"

definition LeaseWorker :: "GwEnv \<Rightarrow> LeaseWorkerResp Rpc \<Rightarrow> nat \<Rightarrow> (GwState, LeaseWorkerResp) act" where
  "LeaseWorker env rpc w =
     abind (get_worker w) (\<lambda>wk.
     let consumer = (if fw_physical_namespace wk = ''endpoint'' then fw_tenant wk else '''') in
     SchedulerClient_LeaseWorker env rpc (fw_physical_tenant wk) (fw_physical_namespace wk) (fw_physical_funcname wk) (fw_fprevision wk) consumer)"

definition lease_failed :: "GwEnv \<Rightarrow> nat \<Rightarrow> error \<Rightarrow> (GwState, unit) act" where
  "lease_failed env w e =
     aseq (ReleaseEndpointLease w)
    (abind (get_worker w) (\<lambda>wk.
     aseq (upd_agent (fw_agent wk) (\<lambda>ag. ag\<lparr>fa_startingSlot := fa_startingSlot ag - of_nat (fw_parallelLevel wk)\<rparr>))
    (aseq (RemoveWorker (fw_agent wk) w)
    (aseq (SendWorkerStatusUpdate (fw_agent wk) (WorkerLeaseFail w
        (case e of SchedulerErr s \<Rightarrow> SchedulerErr s | e \<Rightarrow> CommonError (gw_debug env e))))
       (worker_ends w)))))"

definition leased :: "GwEnv \<Rightarrow> nat \<Rightarrow> nat \<Rightarrow> LeaseWorkerResp \<Rightarrow> (GwState, unit) act" where
  "leased env tm w resp =
     abind (alift (opt_or_panic (parse_i64 (ls_id resp)))) (\<lambda>i.
     abind (get_worker w) (\<lambda>wk.
     aseq (upd_agent (fw_agent wk) (\<lambda>ag. ag\<lparr>fa_startingSlot := fa_startingSlot ag - of_nat (fw_parallelLevel wk),
                                            fa_totalSlot := fa_totalSlot ag + of_nat (fw_parallelLevel wk)\<rparr>))
    (aseq (upd_worker w (\<lambda>wk. wk\<lparr>fw_id := i, fw_keepalive := ls_keepalive resp\<rparr>))
    (aseq (populate_tracking env tm w (ls_keepalive resp))
    (aseq (insert_start_billing_tick env w)
    (aseq (publish_gpu_count_metric w)
    (aseq (SendWorkerStatusUpdate (fw_agent wk) (Ready w))
    (aseq (SetState w FwProcessing)
       (goto w WTop)))))))))"

definition worker_lease :: "GwEnv \<Rightarrow> nat \<Rightarrow> LeaseWorkerResp Rpc \<Rightarrow> nat \<Rightarrow> (GwState, unit) act" where
  "worker_lease env tm rpc w =
     aseq (SetState w FwInit)
    (abind (atry (LeaseWorker env rpc w)) (\<lambda>r.
     case r of
       Err e \<Rightarrow> lease_failed env w e
     | Ok resp \<Rightarrow> leased env tm w resp
     | Panic \<Rightarrow> apanic))"

definition worker_top :: "nat \<Rightarrow> (GwState, unit) act" where
  "worker_top w =
     abind (get_worker w) (\<lambda>wk.
     abind (get_agent (fw_agent wk)) (\<lambda>ag.
     case fw_state wk of
       FwInit \<Rightarrow> apanic
     | FwFinish \<Rightarrow> apanic
     | FwIdle \<Rightarrow> goto w (WIdle (fw_workerId wk = fa_scaleInWorkerId ag))
     | FwProcessing \<Rightarrow>
         abind (alift (u64_sub (fa_parallelLeve ag) (unat (fw_ongoingReqCnt wk)))) (\<lambda>cnt.
         if 0 < cnt then
           abind (TryRecvBatch (fw_agent wk) cnt) (\<lambda>reqs.
           aseq (upd_worker w (\<lambda>wk. wk\<lparr>fw_ongoingReqCnt := fw_ongoingReqCnt wk + of_nat (length reqs)\<rparr>))
             (goto w (WBatch reqs)))
         else goto w (WBatch []))))"

text \<open>One request of the batch, with the outcome of connecting; after the last the worker decides what to wait for.\<close>

definition batch_request :: "GwEnv \<Rightarrow> nat \<Rightarrow> (unit, error) res list \<Rightarrow> (unit, error) res \<Rightarrow> nat \<Rightarrow> FuncClientReq \<Rightarrow> FuncClientReq list \<Rightarrow> (GwState, unit) act" where
  "batch_request env tm tries handshake w r rs =
     abind (get_worker w) (\<lambda>wk.
     aseq (upd_worker w (\<lambda>wk. wk\<lparr>fw_caller_tenant := cr_caller_tenant r\<rparr>))
    (abind (atry (GetConnect tries handshake w)) (\<lambda>x.
     case x of
       Err e \<Rightarrow>
         aseq (answer (cr_tx r) (AnsErr (CommonError (''Funcworker connect fail with error '' @ gw_debug env e))))
        (aseq (FinishWorker env tm w)
        (aseq (RemoveWorker (fw_agent wk) w)
        (aseq (SendWorkerStatusUpdate (fw_agent wk) (WorkerFail w e))
        (aseq (worker_ends w)
           (aiter (\<lambda>r. answer (cr_tx r) AnsDropped) rs)))))
     | Ok c \<Rightarrow> aseq (answer (cr_tx r) (AnsClient c (cr_keepalive r))) (goto w (WBatch rs))
     | Panic \<Rightarrow> apanic)))"

definition batch_done :: "nat \<Rightarrow> (GwState, unit) act" where
  "batch_done w =
     abind (get_worker w) (\<lambda>wk.
     abind (get_agent (fw_agent wk)) (\<lambda>ag.
     if fw_ongoingReqCnt wk = 0 then aseq (SetState w FwIdle) (goto w WTop)
     else goto w (WSelect (unat (fw_ongoingReqCnt wk) < fa_parallelLeve ag))))"

text \<open>The events of the \<open>select!\<close>s.\<close>

datatype WorkerEvent = WevClose | WevPoll | WevRequest | WevTimeout | WevReturned | WevBill

definition worker_close :: "GwEnv \<Rightarrow> nat \<Rightarrow> nat \<Rightarrow> bool \<Rightarrow> (GwState, unit) act" where
  "worker_close env tm w failworker =
     abind (get_worker w) (\<lambda>wk.
     aseq (upd_worker w (\<lambda>wk. wk\<lparr>fw_closeNotify := False\<rparr>))
    (aseq (FinishWorker env tm w)
    (aseq (RemoveWorker (fw_agent wk) w)
    (aseq (spawn_return_worker_retry w failworker)
       (worker_ends w)))))"

definition idle_event :: "GwEnv \<Rightarrow> nat \<Rightarrow> nat \<Rightarrow> bool \<Rightarrow> WorkerEvent \<Rightarrow> (GwState, unit) act" where
  "idle_event env tm w isScaleInWorker ev =
     abind (get_worker w) (\<lambda>wk.
     abind (get_agent (fw_agent wk)) (\<lambda>ag.
     let serve = aseq (SetState w FwProcessing) (goto w WTop) in
     case ev of
       WevClose \<Rightarrow> awhen (fw_closeNotify wk) (worker_close env tm w False)
     | WevPoll \<Rightarrow> awhen isScaleInWorker (abind (alift (NeedLastWorker ag)) (\<lambda>need. awhen need serve))
     | WevRequest \<Rightarrow> awhen (\<not> isScaleInWorker \<and> fa_reqQueue ag \<noteq> []) serve
     | WevTimeout \<Rightarrow>
         aseq (FinishWorker env tm w)
        (aseq (SendWorkerStatusUpdate (fw_agent wk) (IdleTimeout w))
           (worker_ends w))
     | WevBill \<Rightarrow> insert_billing_tick env tm w
     | WevReturned \<Rightarrow> ret ()))"

definition busy_event :: "GwEnv \<Rightarrow> nat \<Rightarrow> nat \<Rightarrow> bool \<Rightarrow> WorkerEvent \<Rightarrow> (GwState, unit) act" where
  "busy_event env tm w waits ev =
     abind (get_worker w) (\<lambda>wk.
     abind (get_agent (fw_agent wk)) (\<lambda>ag.
     case ev of
       WevClose \<Rightarrow> awhen (fw_closeNotify wk) (worker_close env tm w True)
     | WevRequest \<Rightarrow> awhen (waits \<and> fa_reqQueue ag \<noteq> []) (goto w WTop)
     | WevReturned \<Rightarrow>
         awhen (fw_finishQueue wk \<noteq> [])
           (aseq (upd_worker w (\<lambda>wk. wk\<lparr>fw_finishQueue := []\<rparr>)) (return_loop env tm w (fw_finishQueue wk)))
     | WevBill \<Rightarrow> aseq (insert_billing_tick env tm w) (goto w WTop)
     | _ \<Rightarrow> ret ()))"

section \<open>The gateway\<close>

datatype GwStep =
    GsRequest FuncRouteTarget nat IxTimestamp
  | GsRetire string
  | GsAgentTop nat nat
  | GsAgentEvent nat AgentEvent
  | GsRefill nat
  | GsLease nat nat "LeaseWorkerResp Rpc"
  | GsTop nat
  | GsBatch nat nat "(unit, error) res list" "(unit, error) res"
  | GsEvent nat nat WorkerEvent
  | GsSend nat "(nat, error) res"
  | GsConnEnds nat bool
  | GsDrop nat
  | GsReturn nat "string Rpc"
  | GsConnect string "string Rpc list"
  | GsDisconnect
  | GsRepo GwObjRepo

text \<open>A step that its task cannot take where it is does nothing.\<close>

definition worker_step :: "GwEnv \<Rightarrow> nat \<Rightarrow> (WorkerPc \<Rightarrow> (GwState, unit) act) \<Rightarrow> (GwState, unit) act" where
  "worker_step env w f = (\<lambda>s. if w < gw_workerCnt s then f (fw_pc (gw_workerCells s w)) s else (Ok (), s))"

definition agent_step :: "nat \<Rightarrow> (AgentPc \<Rightarrow> (GwState, unit) act) \<Rightarrow> (GwState, unit) act" where
  "agent_step a f = (\<lambda>s. if a < gw_agentCnt s then f (fa_pc (gw_agentCells s a)) s else (Ok (), s))"

fun gw_step :: "GwEnv \<Rightarrow> GwStep \<Rightarrow> (GwState, unit) act" where
  "gw_step env (GsRequest route timeout ts) = aok (GetClient route timeout ts)"
| "gw_step env (GsRetire key) = RetireAgent key"
| "gw_step env (GsAgentTop tm a) = agent_step a (\<lambda>pc. awhen (pc = AgTop) (agent_top env tm a))"
| "gw_step env (GsAgentEvent a ev) = agent_step a (\<lambda>pc. awhen (pc = AgSelect) (agent_event env a ev))"
| "gw_step env (GsRefill a) = agent_step a (\<lambda>_. Throttle_Refill a)"
| "gw_step env (GsLease tm w rpc) = worker_step env w (\<lambda>pc. awhen (pc = WLease) (worker_lease env tm rpc w))"
| "gw_step env (GsTop w) = worker_step env w (\<lambda>pc. awhen (pc = WTop) (worker_top w))"
| "gw_step env (GsBatch tm w tries handshake) =
     worker_step env w (\<lambda>pc. case pc of
         WBatch [] \<Rightarrow> batch_done w
       | WBatch (r # rs) \<Rightarrow> batch_request env tm tries handshake w r rs
       | _ \<Rightarrow> ret ())"
| "gw_step env (GsEvent tm w ev) =
     worker_step env w (\<lambda>pc. case pc of
         WIdle b \<Rightarrow> idle_event env tm w b ev
       | WSelect waits \<Rightarrow> busy_event env tm w waits ev
       | _ \<Rightarrow> ret ())"
| "gw_step env (GsSend c outcome) = HttpSender_Send c outcome"
| "gw_step env (GsConnEnds c failed) = connection_ends c failed"
| "gw_step env (GsDrop c) = QHttpCallClient_drop c"
| "gw_step env (GsReturn i rpc) = return_attempt env rpc i"
| "gw_step env (GsConnect url rpcs) = aok (Connect env url rpcs)"
| "gw_step env GsDisconnect = Disconnect"
| "gw_step env (GsRepo repo) = amod (\<lambda>s. s\<lparr>gw_repo := repo\<rparr>)"

definition gw_run :: "GwEnv \<Rightarrow> GwStep list \<Rightarrow> (GwState, unit) act" where
  "gw_run env steps = aiter (gw_step env) steps"

definition FuncAgentMgr_New :: "GwObjRepo \<Rightarrow> (nat \<Rightarrow> FuncAgent) \<Rightarrow> (nat \<Rightarrow> FuncWorker) \<Rightarrow> (nat \<Rightarrow> Connection) \<Rightarrow> GwState" where
  "FuncAgentMgr_New repo agents workers conns =
     \<lparr>gw_agents = [], gw_agentCells = agents, gw_agentCnt = 0, gw_workerCells = workers, gw_workerCnt = 0, gw_conns = conns,
      gw_connCnt = 0, gw_clients = [], gw_leases = [], gw_leasedWorkers = [], gw_schedulerUrl = None, gw_returns = [],
      gw_repo = repo, gw_txCnt = 0, gw_answers = [], gw_trace = [], gw_uuidCnt = 0\<rparr>"

end
