(* ===== verification/Gw_Core.thy ===== *)
theory Gw_Core
  imports Gw_Worker
begin

text \<open>
  What counts of the gateway: where each request is, how many a worker serves, the slots and leases held. The core of a state has just this, and
  \<open>gw_move\<close> says in which ways it may change. Every step of the gateway is a sequence of moves (a simulation), so what the moves keep holds
  in every run.
\<close>

section \<open>The core of a state\<close>

record AgentCore =
  ac_active :: "64 word"
  ac_queue :: "nat list"
  ac_chan :: "nat list"
  ac_total :: "64 word"
  ac_starting :: "64 word"

datatype Phase = CLease | CBusy "nat list" | CDone

record WorkerCore =
  wc_agent :: nat
  wc_level :: nat
  wc_ongoing :: "64 word"
  wc_phase :: Phase
  wc_key :: "string option"
  wc_released :: bool

record GwCore =
  gc_agents :: "nat \<Rightarrow> AgentCore"
  gc_agentCnt :: nat
  gc_workers :: "nat \<Rightarrow> WorkerCore"
  gc_workerCnt :: nat
  gc_leases :: EndpointLeaseLimiter
  gc_answered :: "nat list"
  gc_txCnt :: nat
  gc_dir :: "nat list"
  gc_repo :: GwObjRepo

definition acore :: "FuncAgent \<Rightarrow> AgentCore" where
  "acore ag = \<lparr>ac_active = fa_activeReqCnt ag, ac_queue = map cr_tx (fa_reqQueue ag), ac_chan = map cr_tx (fa_reqQueueTx ag),
     ac_total = fa_totalSlot ag, ac_starting = fa_startingSlot ag\<rparr>"

fun phase_of :: "WorkerPc \<Rightarrow> Phase" where
  "phase_of WLease = CLease"
| "phase_of (WBatch rs) = CBusy (map cr_tx rs)"
| "phase_of WDone = CDone"
| "phase_of _ = CBusy []"

definition wcore :: "FuncWorker \<Rightarrow> WorkerCore" where
  "wcore wk = \<lparr>wc_agent = fw_agent wk, wc_level = fw_parallelLevel wk, wc_ongoing = fw_ongoingReqCnt wk, wc_phase = phase_of (fw_pc wk),
     wc_key = fw_endpoint_lease_key wk, wc_released = fw_lease_released wk\<rparr>"

definition core :: "GwState \<Rightarrow> GwCore" where
  "core s = \<lparr>gc_agents = acore \<circ> gw_agentCells s, gc_agentCnt = gw_agentCnt s, gc_workers = wcore \<circ> gw_workerCells s,
     gc_workerCnt = gw_workerCnt s, gc_leases = gw_leases s, gc_answered = map fst (gw_answers s), gc_txCnt = gw_txCnt s,
     gc_dir = bt_values (gw_agents s), gc_repo = gw_repo s\<rparr>"

section \<open>Moves\<close>

definition on_agent :: "nat \<Rightarrow> (AgentCore \<Rightarrow> AgentCore) \<Rightarrow> GwCore \<Rightarrow> GwCore" where
  "on_agent a f c = c\<lparr>gc_agents := (gc_agents c)(a := f (gc_agents c a))\<rparr>"

definition on_worker :: "nat \<Rightarrow> (WorkerCore \<Rightarrow> WorkerCore) \<Rightarrow> GwCore \<Rightarrow> GwCore" where
  "on_worker w f c = c\<lparr>gc_workers := (gc_workers c)(w := f (gc_workers c w))\<rparr>"

definition on_answers :: "nat list \<Rightarrow> GwCore \<Rightarrow> GwCore" where
  "on_answers txs c = c\<lparr>gc_answered := gc_answered c @ txs\<rparr>"

definition release :: "nat \<Rightarrow> GwCore \<Rightarrow> GwCore" where
  "release w c =
     (if wc_released (gc_workers c w) then c
      else on_worker w (\<lambda>k. k\<lparr>wc_released := True\<rparr>)
        (c\<lparr>gc_leases := (case wc_key (gc_workers c w) of None \<Rightarrow> gc_leases c | Some key \<Rightarrow> Limiter_Release (gc_leases c) key)\<rparr>))"

definition finish :: "nat \<Rightarrow> GwCore \<Rightarrow> GwCore" where
  "finish w c =
     (let k = gc_workers c w in
      on_agent (wc_agent k) (\<lambda>x. x\<lparr>ac_total := ac_total x - of_nat (wc_level k), ac_active := ac_active x - wc_ongoing k\<rparr>) (release w c))"

abbreviation worker_in :: "GwCore \<Rightarrow> nat \<Rightarrow> Phase \<Rightarrow> bool" where
  "worker_in c w p \<equiv> w < gc_workerCnt c \<and> wc_phase (gc_workers c w) = p"

text \<open>The numbers of replicas that the policies of a repository allow.\<close>

definition replica_limits :: "GwEnv \<Rightarrow> GwObjRepo \<Rightarrow> nat list" where
  "replica_limits env repo = g_maxReplica (endpointsDefaultPolicy env) # map (\<lambda>p. maxReplica (object p)) (bt_values (gr_funcpolicyMgr repo))"

inductive gw_move :: "GwEnv \<Rightarrow> GwCore \<Rightarrow> GwCore \<Rightarrow> bool" for env where
  retired: "set d \<subseteq> set (gc_dir c) \<Longrightarrow> gw_move env c (c\<lparr>gc_dir := d\<rparr>)"
| new_agent: "set d \<subseteq> insert (gc_agentCnt c) (set (gc_dir c)) \<Longrightarrow> ac_active x = 0 \<Longrightarrow> ac_queue x = [] \<Longrightarrow> ac_chan x = [] \<Longrightarrow> ac_total x = 0 \<Longrightarrow> ac_starting x = 0 \<Longrightarrow>
    gw_move env c (on_agent (gc_agentCnt c) (\<lambda>_. x) (c\<lparr>gc_agentCnt := gc_agentCnt c + 1, gc_dir := d\<rparr>))"
| refused: "gw_move env c (c\<lparr>gc_txCnt := gc_txCnt c + 1\<rparr>)"
| enqueued: "a < gc_agentCnt c \<Longrightarrow>
    gw_move env c (on_agent a (\<lambda>x. x\<lparr>ac_chan := ac_chan x @ [gc_txCnt c]\<rparr>) (c\<lparr>gc_txCnt := gc_txCnt c + 1\<rparr>))"
| taken: "a < gc_agentCnt c \<Longrightarrow> ac_chan (gc_agents c a) = tx # txs \<Longrightarrow>
    gw_move env c (on_agent a (\<lambda>x. x\<lparr>ac_chan := txs, ac_queue := ac_queue x @ [tx], ac_active := ac_active x + 1\<rparr>) c)"
| full: "a < gc_agentCnt c \<Longrightarrow> ac_chan (gc_agents c a) = tx # txs \<Longrightarrow>
    gw_move env c (on_answers [tx] (on_agent a (\<lambda>x. x\<lparr>ac_chan := txs\<rparr>) c))"
| closed: "a < gc_agentCnt c \<Longrightarrow> gw_move env c (on_answers (ac_chan (gc_agents c a)) (on_agent a (\<lambda>x. x\<lparr>ac_chan := []\<rparr>) c))"
| timeout: "a < gc_agentCnt c \<Longrightarrow> ac_queue (gc_agents c a) = gone @ txs \<Longrightarrow>
    gw_move env c (on_answers gone (on_agent a (\<lambda>x. x\<lparr>ac_queue := txs, ac_active := ac_active x - of_nat (length gone)\<rparr>) c))"
| new_worker: "wc_agent k < gc_agentCnt c \<Longrightarrow> wc_phase k = CLease \<Longrightarrow> wc_ongoing k = 0 \<Longrightarrow> \<not> wc_released k \<Longrightarrow>
    (case wc_key k of None \<Rightarrow> leases = gc_leases c | Some key \<Rightarrow> \<exists>m \<in> set (replica_limits env (gc_repo c)). Limiter_TryAcquire (gc_leases c) key m = Ok (leases, True)) \<Longrightarrow>
    gw_move env c (on_agent (wc_agent k) (\<lambda>x. x\<lparr>ac_starting := ac_starting x + of_nat (wc_level k)\<rparr>)
      (on_worker (gc_workerCnt c) (\<lambda>_. k) (c\<lparr>gc_workerCnt := gc_workerCnt c + 1, gc_leases := leases\<rparr>)))"
| lease_fail: "worker_in c w CLease \<Longrightarrow> k = gc_workers c w \<Longrightarrow>
    gw_move env c (on_worker w (\<lambda>k. k\<lparr>wc_phase := CDone\<rparr>)
      (on_agent (wc_agent k) (\<lambda>x. x\<lparr>ac_starting := ac_starting x - of_nat (wc_level k)\<rparr>) (release w c)))"
| lease_ok: "worker_in c w CLease \<Longrightarrow> k = gc_workers c w \<Longrightarrow>
    gw_move env c (on_worker w (\<lambda>k. k\<lparr>wc_phase := CBusy []\<rparr>)
      (on_agent (wc_agent k) (\<lambda>x. x\<lparr>ac_starting := ac_starting x - of_nat (wc_level k), ac_total := ac_total x + of_nat (wc_level k)\<rparr>) c))"
| batch: "worker_in c w (CBusy []) \<Longrightarrow> a = wc_agent (gc_workers c w) \<Longrightarrow> ac_queue (gc_agents c a) = got @ txs \<Longrightarrow>
    gw_move env c (on_worker w (\<lambda>k. k\<lparr>wc_phase := CBusy got, wc_ongoing := wc_ongoing k + of_nat (length got)\<rparr>)
      (on_agent a (\<lambda>x. x\<lparr>ac_queue := txs\<rparr>) c))"
| served: "worker_in c w (CBusy (tx # txs)) \<Longrightarrow>
    gw_move env c (on_answers [tx] (on_worker w (\<lambda>k. k\<lparr>wc_phase := CBusy txs\<rparr>) c))"
| returned: "worker_in c w (CBusy []) \<Longrightarrow> a = wc_agent (gc_workers c w) \<Longrightarrow>
    gw_move env c (on_worker w (\<lambda>k. k\<lparr>wc_ongoing := wc_ongoing k - 1\<rparr>) (on_agent a (\<lambda>x. x\<lparr>ac_active := ac_active x - 1\<rparr>) c))"
| finished: "worker_in c w (CBusy txs) \<Longrightarrow> gw_move env c (on_answers txs (on_worker w (\<lambda>k. k\<lparr>wc_phase := CDone\<rparr>) (finish w c)))"

section \<open>Steps without moves\<close>

abbreviation same :: "GwCore \<Rightarrow> GwState \<Rightarrow> bool" where
  "same c \<equiv> (\<lambda>s. core s = c)"

lemma core_agent [simp]: "core (s\<lparr>gw_agentCells := (gw_agentCells s)(a := x)\<rparr>) = on_agent a (\<lambda>_. acore x) (core s)"
  by (simp add: core_def on_agent_def fun_upd_comp)

lemma core_worker [simp]: "core (s\<lparr>gw_workerCells := (gw_workerCells s)(w := x)\<rparr>) = on_worker w (\<lambda>_. wcore x) (core s)"
  by (simp add: core_def on_worker_def fun_upd_comp)

lemma core_fields [simp]: "gc_agents (core s) a = acore (gw_agentCells s a)" "gc_workers (core s) w = wcore (gw_workerCells s w)"
  "gc_agentCnt (core s) = gw_agentCnt s" "gc_workerCnt (core s) = gw_workerCnt s" "gc_leases (core s) = gw_leases s"
  "gc_answered (core s) = map fst (gw_answers s)" "gc_txCnt (core s) = gw_txCnt s"
  "gc_dir (core s) = bt_values (gw_agents s)" "gc_repo (core s) = gw_repo s"
  by (simp_all add: core_def)

lemma core_frame [simp]: "core (gw_conns_update f2 s) = core s" "core (gw_connCnt_update f3 s) = core s"
  "core (gw_clients_update f4 s) = core s" "core (gw_leasedWorkers_update f5 s) = core s" "core (gw_schedulerUrl_update f6 s) = core s"
  "core (gw_returns_update f7 s) = core s" "core (gw_trace_update f9 s) = core s"
  "core (gw_uuidCnt_update f10 s) = core s"
  by (simp_all add: core_def)

lemma acore_frame [simp]: "acore (fa_tenant_update f1 x) = acore x" "acore (fa_namespace_update f2 x) = acore x"
  "acore (fa_funcName_update f3 x) = acore x" "acore (fa_physicalTenant_update f4 x) = acore x"
  "acore (fa_physicalNamespace_update f5 x) = acore x" "acore (fa_physicalFuncName_update f6 x) = acore x"
  "acore (fa_func_update f7 x) = acore x" "acore (fa_funcVersion_update f8 x) = acore x"
  "acore (fa_endpointLeaseKey_update f9 x) = acore x" "acore (fa_isEndpointRoute_update f10 x) = acore x"
  "acore (fa_scaleoutPolicy_update f11 x) = acore x" "acore (fa_scaleinTimeout_update f12 x) = acore x"
  "acore (fa_parallelLeve_update f13 x) = acore x" "acore (fa_queueLen_update f14 x) = acore x"
  "acore (fa_workerStateUpdateTx_update f15 x) = acore x" "acore (fa_workers_update f16 x) = acore x"
  "acore (fa_nextWorkerId_update f17 x) = acore x" "acore (fa_scaleInWorkerId_update f18 x) = acore x"
  "acore (fa_throttle_update f19 x) = acore x" "acore (fa_closeNotify_update f20 x) = acore x"
  "acore (fa_pc_update f21 x) = acore x"
  by (simp_all add: acore_def)

lemma wcore_frame [simp]: "wcore (fw_workerId_update f22 x) = wcore x" "wcore (fw_tenant_update f23 x) = wcore x"
  "wcore (fw_namespace_update f24 x) = wcore x" "wcore (fw_funcname_update f25 x) = wcore x"
  "wcore (fw_physical_tenant_update f26 x) = wcore x" "wcore (fw_physical_namespace_update f27 x) = wcore x"
  "wcore (fw_physical_funcname_update f28 x) = wcore x" "wcore (fw_fprevision_update f29 x) = wcore x"
  "wcore (fw_id_update f30 x) = wcore x" "wcore (fw_keepalive_update f31 x) = wcore x"
  "wcore (fw_keepaliveTime_update f32 x) = wcore x" "wcore (fw_state_update f33 x) = wcore x"
  "wcore (fw_failCount_update f34 x) = wcore x" "wcore (fw_tracking_update f35 x) = wcore x"
  "wcore (fw_caller_tenant_update f36 x) = wcore x" "wcore (fw_publishedLabels_update f37 x) = wcore x"
  "wcore (fw_senders_update f38 x) = wcore x" "wcore (fw_finishQueue_update f39 x) = wcore x"
  "wcore (fw_closeNotify_update f40 x) = wcore x"
  by (simp_all add: wcore_def)

lemma on_agent_same [simp]: "gc_agents c a = x \<Longrightarrow> on_agent a (\<lambda>_. x) c = c"
  by (auto simp: on_agent_def)

lemma on_worker_same [simp]: "gc_workers c w = x \<Longrightarrow> on_worker w (\<lambda>_. x) c = c"
  by (auto simp: on_worker_def)

lemma same_amod [keeps_intros]: "(\<And>s. core (f s) = core s) \<Longrightarrow> keeps (same c) (amod f)"
  by (rule keeps_amod) simp

lemma same_emit [keeps_intros]: "keeps (same c) (gw_emit e)"
  unfolding gw_emit_def by (rule same_amod) simp

lemma same_agents [keeps_intros]: "keeps (same c) (AddWorker a w)"
  "keeps (same c) (RemoveWorker a w)"
  "keeps (same c) (SendWorkerStatusUpdate a u)"
  "keeps (same c) (Throttle_Refill a)"
  "keeps (same c) (Throttle_TryAcquire a)"
  "keeps (same c) (NextWorkerId a)"
  "keeps (same c) (UpdatePolicy env a)"
  unfolding AddWorker_def RemoveWorker_def SendWorkerStatusUpdate_def Throttle_Refill_def Throttle_TryAcquire_def NextWorkerId_def UpdatePolicy_def Let_def
  by (auto intro!: keeps_intros)

lemma same_workers [keeps_intros]: "keeps (same c) (spawn_return_worker_retry w b)"
  "keeps (same c) (SetState w st)"
  "keeps (same c) (upd_tracking w g)"
  "keeps (same c) (gw_Audit env t)"
  unfolding spawn_return_worker_retry_def SetState_def upd_tracking_def gw_Audit_def Let_def
  by (auto intro!: keeps_intros)

lemma same_ticks [keeps_intros]: "keeps (same c) (insert_start_billing_tick env w)"
  "keeps (same c) (insert_billing_tick env tm w)"
  "keeps (same c) (insert_final_billing_tick env tm w)"
  unfolding insert_start_billing_tick_def insert_billing_tick_def insert_final_billing_tick_def Let_def
  by (auto intro!: keeps_intros split: option.split)

lemma same_metrics [keeps_intros]: "keeps (same c) (publish_gpu_count_metric w)"
  "keeps (same c) (remove_gpu_count_metric w)"
  "keeps (same c) (populate_tracking env tm w b)"
  unfolding publish_gpu_count_metric_def remove_gpu_count_metric_def populate_tracking_def Let_def
  by (auto intro!: keeps_intros split: option.split res.split)

lemma same_conns [keeps_intros]: "keeps (same c) (HttpSender_Send i r)"
  "keeps (same c) (connection_ends i b)"
  "keeps (same c) (ReturnSender w i)"
  "keeps (same c) (QHttpCallClient_New w i)"
  "keeps (same c) (QHttpCallClient_drop i)"
  unfolding HttpSender_Send_def connection_ends_def ReturnSender_def QHttpCallClient_New_def QHttpCallClient_drop_def Let_def
  by (auto intro!: keeps_intros split: res.split)

lemma same_NewHttpCallClient [keeps_intros]: "keeps (same c) (NewHttpCallClient tries h w)"
  unfolding NewHttpCallClient_def Let_def
  by (auto intro!: keeps_intros)

lemma same_GetConnect [keeps_intros]: "keeps (same c) (GetConnect tries h w)"
  unfolding GetConnect_def Let_def
  by (auto intro!: keeps_intros split: option.split res.split error.split)

lemma same_scheduler [keeps_intros]: "keeps (same c) (with_scheduler rpc e)"
  unfolding with_scheduler_def Let_def
  by (auto intro!: keeps_intros split: option.split Rpc.split)

lemma same_calls [keeps_intros]: "keeps (same c) (SchedulerClient_LeaseWorker env lrpc t ns fn r x)"
  "keeps (same c) (SchedulerClient_ReturnWorker srpc lw b)"
  "keeps (same c) (Disconnect)"
  "keeps (same c) (return_done i k)"
  unfolding SchedulerClient_LeaseWorker_def SchedulerClient_ReturnWorker_def Disconnect_def return_done_def Let_def
  by (auto intro!: keeps_intros)

lemma same_tries [keeps_intros]: "keeps (same c) (LeaseWorker env lrpc w)"
  "keeps (same c) (ReturnWorker srpc w b)"
  unfolding LeaseWorker_def ReturnWorker_def Let_def
  by (auto intro!: keeps_intros)

lemma same_attempt [keeps_intros]: "keeps (same c) (return_attempt env srpc i)"
  "keeps (same c) (try_connect_once env url srpc)"
  unfolding return_attempt_def try_connect_once_def Let_def
  by (auto intro!: keeps_intros split: res.split Rpc.split)

lemma same_Connect [keeps_intros]: "keeps (same c) (Connect env url rpcs)"
proof (induction rpcs)
  case (Cons rpc rpcs)
  then show ?case unfolding Connect.simps by (intro keeps_intros)
qed (simp only: Connect.simps keeps_ret)

section \<open>Actions that do not fail\<close>

lemma noerr_ops [noerr_intros]: "noerr (gw_emit e)" "noerr (AddWorker a w)" "noerr (RemoveWorker a w)" "noerr (SendWorkerStatusUpdate a u)"
  "noerr (Throttle_TryAcquire a)" "noerr (NextWorkerId a)" "noerr (spawn_return_worker_retry w b)" "noerr (SetState w st)" "noerr (upd_tracking w f)"
  "noerr (ReturnSender w i)" "noerr (gw_Audit env t)"
  unfolding gw_emit_def AddWorker_def RemoveWorker_def SendWorkerStatusUpdate_def Throttle_TryAcquire_def NextWorkerId_def
    spawn_return_worker_retry_def SetState_def upd_tracking_def ReturnSender_def gw_Audit_def
  by (auto intro!: noerr_intros simp: i64_add_def gw_emit_def split: if_splits)

lemma noerr_TotalVRam: "Sched_Billing.TotalVRam gs \<noteq> Err e"
  by (simp add: Sched_Billing.TotalVRam_def u64_mul_def)

lemma noerr_bills [noerr_intros]: "noerr (insert_start_billing_tick env w)" "noerr (insert_billing_tick env tm w)" "noerr (insert_final_billing_tick env tm w)"
  "noerr (publish_gpu_count_metric w)" "noerr (remove_gpu_count_metric w)" "noerr (populate_tracking env tm w b)"
  unfolding insert_start_billing_tick_def insert_billing_tick_def insert_final_billing_tick_def publish_gpu_count_metric_def remove_gpu_count_metric_def
    populate_tracking_def Let_def
  by (auto intro!: noerr_intros noerr_TotalVRam split: option.split prod.split res.split)

section \<open>Changes of the core\<close>

text \<open>Composition of changes of the core.\<close>

lemma core_answer [simp]: "core (s\<lparr>gw_answers := gw_answers s @ [(tx, x)]\<rparr>) = on_answers [tx] (core s)"
  by (simp add: core_def on_answers_def)

lemma on_answers_comp [simp]: "on_answers [] c = c" "on_answers txs (on_answers txs' c) = on_answers (txs' @ txs) c"
  by (simp_all add: on_answers_def)

lemma on_agent_comp [simp]: "on_agent a f (on_agent a g c) = on_agent a (\<lambda>x. f (g x)) c"
  by (simp add: on_agent_def)

lemma on_worker_comp [simp]: "on_worker w f (on_worker w g c) = on_worker w (\<lambda>x. f (g x)) c"
  by (simp add: on_worker_def)

lemma on_comm: "on_worker w f (on_agent a g c) = on_agent a g (on_worker w f c)" "on_answers t (on_agent a g c) = on_agent a g (on_answers t c)"
  "on_answers t (on_worker w f c) = on_worker w f (on_answers t c)"
  by (simp_all add: on_worker_def on_agent_def on_answers_def)

lemma on_fields [simp]: "gc_agents (on_agent a f c) = (gc_agents c)(a := f (gc_agents c a))" "gc_workers (on_agent a f c) = gc_workers c"
  "gc_agents (on_worker w g c) = gc_agents c" "gc_workers (on_worker w g c) = (gc_workers c)(w := g (gc_workers c w))"
  "gc_agents (on_answers t c) = gc_agents c" "gc_workers (on_answers t c) = gc_workers c"
  "gc_workerCnt (on_agent a f c) = gc_workerCnt c" "gc_workerCnt (on_worker w g c) = gc_workerCnt c" "gc_workerCnt (on_answers t c) = gc_workerCnt c"
  "gc_agentCnt (on_agent a f c) = gc_agentCnt c" "gc_agentCnt (on_worker w g c) = gc_agentCnt c" "gc_agentCnt (on_answers t c) = gc_agentCnt c"
  "gc_leases (on_agent a f c) = gc_leases c" "gc_leases (on_worker w g c) = gc_leases c" "gc_leases (on_answers t c) = gc_leases c"
  "gc_answered (on_agent a f c) = gc_answered c" "gc_answered (on_worker w g c) = gc_answered c" "gc_answered (on_answers t c) = gc_answered c @ t"
  "gc_txCnt (on_agent a f c) = gc_txCnt c" "gc_txCnt (on_worker w g c) = gc_txCnt c" "gc_txCnt (on_answers t c) = gc_txCnt c"
  "gc_dir (on_agent a f c) = gc_dir c" "gc_dir (on_worker w g c) = gc_dir c" "gc_dir (on_answers t c) = gc_dir c"
  "gc_repo (on_agent a f c) = gc_repo c" "gc_repo (on_worker w g c) = gc_repo c" "gc_repo (on_answers t c) = gc_repo c"
  by (simp_all add: on_agent_def on_worker_def on_answers_def)

lemma answers_run: "aiter (\<lambda>r. answer (cr_tx r) (f r)) rs s = (Ok (), s\<lparr>gw_answers := gw_answers s @ map (\<lambda>r. (cr_tx r, f r)) rs\<rparr>)"
  by (induction rs arbitrary: s) (simp_all add: act_simps answer_def)

lemma core_answers [simp]: "core (s\<lparr>gw_answers := gw_answers s @ xs\<rparr>) = on_answers (map fst xs) (core s)"
  by (simp add: core_def on_answers_def)

section \<open>Running an action on the core\<close>

lemma quiet: "(\<And>c. keeps (same c) m) \<Longrightarrow> noerr m \<Longrightarrow> hoare (same c) m (\<lambda>_. same c) E"
  using frame_hoare[of core m c] by (auto simp: noerr_def intro: hoare_weaken)

lemma quiet_seq: "(\<And>c. keeps (same c) m) \<Longrightarrow> noerr m \<Longrightarrow> hoare (same c) n Q E \<Longrightarrow> hoare (same c) (aseq m n) Q E"
  by (rule hoare_aseq[OF quiet])

lemma on_agent_const: "f (gc_agents c a) = x \<Longrightarrow> on_agent a (\<lambda>_. x) c = on_agent a f c"
  by (simp add: on_agent_def)

lemma on_agent_cong: "f (gc_agents c a) = g (gc_agents c a) \<Longrightarrow> on_agent a f c = on_agent a g c"
  by (simp add: on_agent_def)

lemma on_worker_const: "f (gc_workers c w) = x \<Longrightarrow> on_worker w (\<lambda>_. x) c = on_worker w f c"
  by (simp add: on_worker_def)

lemma on_upd_agent: "(\<And>x. acore (g x) = f (acore x)) \<Longrightarrow> hoare (same c) (upd_agent a g) (\<lambda>_. same (on_agent a f c)) E"
  by (auto simp: hoare_def intro!: on_agent_const)

lemma on_upd_worker: "(\<And>x. wcore (g x) = f (wcore x)) \<Longrightarrow> hoare (same c) (upd_worker w g) (\<lambda>_. same (on_worker w f c)) E"
  by (auto simp: hoare_def intro!: on_worker_const)

lemma on_aget: "(\<And>s. core s = c \<Longrightarrow> hoare (same c) (g (f s)) Q E) \<Longrightarrow> hoare (same c) (abind (aget f) g) Q E"
  by (rule hoare_aget_bind) (auto simp: hoare_def)

lemma on_get_worker: "(\<And>wk. wcore wk = gc_workers c w \<Longrightarrow> hoare (same c) (g wk) Q E) \<Longrightarrow> hoare (same c) (abind (get_worker w) g) Q E"
  by (rule on_aget) auto

lemma on_get_agent: "(\<And>ag. acore ag = gc_agents c a \<Longrightarrow> hoare (same c) (g ag) Q E) \<Longrightarrow> hoare (same c) (abind (get_agent a) g) Q E"
  by (rule on_aget) auto

lemma on_answer: "hoare (same c) (answer tx x) (\<lambda>_. same (on_answers [tx] c)) E"
  by (auto simp: hoare_def answer_def)

lemma on_answers: "hoare (same c) (aiter (\<lambda>r. answer (cr_tx r) (f r)) rs) (\<lambda>_. same (on_answers (map cr_tx rs) c)) E"
  by (auto simp: hoare_def answers_run comp_def)

lemma wcore_fields: "wcore wk = k \<Longrightarrow> fw_agent wk = wc_agent k \<and> fw_parallelLevel wk = wc_level k \<and> fw_ongoingReqCnt wk = wc_ongoing k \<and>
    fw_endpoint_lease_key wk = wc_key k \<and> fw_lease_released wk = wc_released k \<and> phase_of (fw_pc wk) = wc_phase k"
  by (auto simp: wcore_def)

lemma acore_fields: "acore ag = x \<Longrightarrow> fa_activeReqCnt ag = ac_active x \<and> map cr_tx (fa_reqQueue ag) = ac_queue x \<and> map cr_tx (fa_reqQueueTx ag) = ac_chan x"
  by (auto simp: acore_def)

lemma on_run: "(\<And>s. fst (m s) = Ok x \<and> core (snd (m s)) = f (core s)) \<Longrightarrow> hoare (same c) m (\<lambda>_. same (f c)) E"
  by (simp add: hoare_def case_prod_beta)

lemma on_run_at: "(\<And>s. core s = c \<Longrightarrow> fst (m s) = Ok x \<and> core (snd (m s)) = c') \<Longrightarrow> hoare (same c) m (\<lambda>_. same c') E"
  by (simp add: hoare_def case_prod_beta)

lemma on_ReleaseEndpointLease: "hoare (same c) (ReleaseEndpointLease w) (\<lambda>_. same (release w c)) E"
  by (rule on_run) (auto simp: ReleaseEndpointLease_def act_simps release_def core_def on_worker_def wcore_def fun_upd_comp split: option.split)

lemma release_worker: "wc_agent (gc_workers (release w c) w') = wc_agent (gc_workers c w')" "wc_level (gc_workers (release w c) w') = wc_level (gc_workers c w')"
  "wc_ongoing (gc_workers (release w c) w') = wc_ongoing (gc_workers c w')" "wc_phase (gc_workers (release w c) w') = wc_phase (gc_workers c w')"
  "wc_key (gc_workers (release w c) w') = wc_key (gc_workers c w')"
  by (auto simp: release_def)

lemma finish_answers: "finish w (on_answers t c) = on_answers t (finish w c)"
  by (cases c) (simp add: finish_def release_def Let_def on_answers_def on_worker_def on_agent_def split: option.split)

lemma on_FinishWorker: "hoare (same c) (FinishWorker env tm w) (\<lambda>_. same (finish w c)) E"
  unfolding FinishWorker_def
proof (rule hoare_aseq[OF on_ReleaseEndpointLease], rule on_get_worker, goal_cases)
  case (1 wk)
  note f = wcore_fields[OF 1]
  let ?c = "on_agent (fw_agent wk) (\<lambda>x. x\<lparr>ac_total := ac_total x - of_nat (fw_parallelLevel wk)\<rparr>) (release w c)"
  have c: "finish w c = on_agent (fw_agent wk) (\<lambda>x. x\<lparr>ac_active := ac_active x - fw_ongoingReqCnt wk\<rparr>) ?c"
    using f by (simp add: finish_def release_worker Let_def)
  have quiet_part: "hoare (same ?c) (aassert b) (\<lambda>_. same ?c) E" "hoare (same ?c) (insert_final_billing_tick env tm w) (\<lambda>_. same ?c) E"
    "hoare (same ?c) (remove_gpu_count_metric w) (\<lambda>_. same ?c) E" for b
    by (intro quiet keeps_intros noerr_intros)+
  show ?case unfolding c
    by (rule hoare_aseq[OF on_upd_agent hoare_aseq[OF quiet_part(1) hoare_aseq[OF quiet_part(2) hoare_aseq[OF quiet_part(3)
          hoare_aseq[OF on_upd_agent quiet]]]]]) (simp_all add: acore_def keeps_intros noerr_intros)
qed

section \<open>Steps of workers\<close>

abbreviation reach :: "GwEnv \<Rightarrow> GwCore \<Rightarrow> GwState \<Rightarrow> bool" where
  "reach env c \<equiv> (\<lambda>s. (gw_move env)\<^sup>*\<^sup>* c (core s))"

lemma hoare_same_reach: "hoare (same c) m (\<lambda>_. same c) (\<lambda>_. False) \<Longrightarrow> hoare (same c) m (\<lambda>_. reach env c) (reach env c)"
  by (erule hoare_weaken) auto

lemma hoare_move_reach: "hoare (same c) m (\<lambda>_. same c') (\<lambda>_. False) \<Longrightarrow> gw_move env c c' \<Longrightarrow> hoare (same c) m (\<lambda>_. reach env c) (reach env c)"
  by (erule hoare_weaken) auto

lemma on_worker_ends: "hoare (same c) (worker_ends w) (\<lambda>_. same (on_worker w (\<lambda>k. k\<lparr>wc_phase := CDone\<rparr>) c)) E"
  unfolding worker_ends_def by (rule on_upd_worker) (simp add: wcore_def)

lemma on_goto: "hoare (same c) (goto w pc) (\<lambda>_. same (on_worker w (\<lambda>k. k\<lparr>wc_phase := phase_of pc\<rparr>) c)) E"
  unfolding goto_def by (rule on_upd_worker) (simp add: wcore_def)

lemma on_goto_same: "wc_phase (gc_workers c w) = phase_of pc \<Longrightarrow> hoare (same c) (goto w pc) (\<lambda>_. same c) E"
  using on_goto[of c w pc E] by (simp add: on_worker_def fun_upd_idem)

lemma on_quiet_ops: "hoare (same c) (RemoveWorker a w) (\<lambda>_. same c) E" "hoare (same c) (SendWorkerStatusUpdate a u) (\<lambda>_. same c) E"
  "hoare (same c) (spawn_return_worker_retry w b) (\<lambda>_. same c) E" "hoare (same c) (SetState w st) (\<lambda>_. same c) E"
  "hoare (same c) (ReturnSender w i) (\<lambda>_. same c) E" "hoare (same c) (insert_billing_tick env tm w) (\<lambda>_. same c) E"
  "hoare (same c) (insert_start_billing_tick env w) (\<lambda>_. same c) E" "hoare (same c) (publish_gpu_count_metric w) (\<lambda>_. same c) E"
  "hoare (same c) (populate_tracking env tm w keepalive) (\<lambda>_. same c) E"
  by (intro quiet keeps_intros noerr_intros)+

lemma on_upd_worker_same: "(\<And>x. wcore (g x) = wcore x) \<Longrightarrow> hoare (same c) (upd_worker w g) (\<lambda>_. same c) E"
  by (rule quiet) (auto intro!: keeps_intros noerr_intros)

lemma on_worker_close: "hoare (same c) (worker_close env tm w b) (\<lambda>_. same (on_worker w (\<lambda>k. k\<lparr>wc_phase := CDone\<rparr>) (finish w c))) E"
  unfolding worker_close_def
  by (rule on_get_worker)
    (rule hoare_aseq[OF on_upd_worker_same hoare_aseq[OF on_FinishWorker hoare_aseq[OF on_quiet_ops(1) hoare_aseq[OF on_quiet_ops(3) on_worker_ends]]]], simp)

abbreviation give_back :: "nat \<Rightarrow> GwCore \<Rightarrow> GwCore" where
  "give_back w c \<equiv> on_worker w (\<lambda>k. k\<lparr>wc_ongoing := wc_ongoing k - 1\<rparr>) (on_agent (wc_agent (gc_workers c w)) (\<lambda>x. x\<lparr>ac_active := ac_active x - 1\<rparr>) c)"

lemma on_HandleReturn: "hoare (same c) (HandleReturn env tm w i) (\<lambda>b. same (if b then finish w (give_back w c) else give_back w c)) E"
  unfolding HandleReturn_def
proof (rule on_get_worker, goal_cases)
  case (1 wk)
  let ?a = "on_agent (fw_agent wk) (\<lambda>x. x\<lparr>ac_active := ac_active x - 1\<rparr>) c"
  have c: "give_back w c = on_worker w (\<lambda>k. k\<lparr>wc_ongoing := wc_ongoing k - 1\<rparr>) ?a"
    using wcore_fields[OF 1] by simp
  have rest: "hoare (same (give_back w c)) (if failed \<and> fw_failCount wk = 3 then
       aseq (FinishWorker env tm w) (aseq (RemoveWorker (fw_agent wk) w)
         (aseq (SendWorkerStatusUpdate (fw_agent wk) (WorkerFail w (CommonError ''Http fail''))) (ret True)))
     else aseq (awhen (fw_ongoingReqCnt wk = 1) (SetState w FwIdle)) (aseq (ReturnSender w i) (ret False)))
     (\<lambda>b. same (if b then finish w (give_back w c) else give_back w c)) E" for failed
    by (rule hoare_if, rule hoare_aseq[OF on_FinishWorker hoare_aseq[OF on_quiet_ops(1) hoare_aseq[OF on_quiet_ops(2)]]], simp add: hoare_def,
      rule hoare_aseq[OF hoare_awhen[OF on_quiet_ops(4)] hoare_aseq[OF on_quiet_ops(5)]]) (simp_all add: hoare_def)
  show ?case
    by (rule hoare_aseq[OF on_upd_agent[where f = "\<lambda>x. x\<lparr>ac_active := ac_active x - 1\<rparr>"]], simp add: acore_def,
      rule hoare_aseq[where Q = "same (give_back w c)"], unfold c, rule on_upd_worker, simp add: wcore_def,
      rule on_aget, rule hoare_aseq[OF on_upd_worker_same], simp, rule rest[unfolded c])
qed

lemma hoare_reach_trans:
  assumes "hoare (same c') m (\<lambda>_. reach env c') (reach env c')" "(gw_move env)\<^sup>*\<^sup>* c c'"
  shows "hoare (same c') m (\<lambda>_. reach env c) (reach env c)"
  using assms(1) by (rule hoare_weaken) (use assms(2) in \<open>auto intro: rtranclp_trans\<close>)

lemma reach_return_loop: "worker_in c w (CBusy []) \<Longrightarrow> hoare (same c) (return_loop env tm w cs) (\<lambda>_. reach env c) (reach env c)"
proof (induction cs arbitrary: c)
  case Nil
  then show ?case unfolding return_loop.simps by (intro hoare_same_reach on_goto_same) simp
next
  case (Cons i cs)
  let ?b = "give_back w c"
  have b: "gw_move env c ?b" "worker_in ?b w (CBusy [])" using Cons.prems by (auto intro: gw_move.returned)
  have f: "gw_move env ?b (on_worker w (\<lambda>k. k\<lparr>wc_phase := CDone\<rparr>) (finish w ?b))" using gw_move.finished[OF b(2)] by simp
  have "hoare (same (if failed then finish w ?b else ?b)) (if failed then worker_ends w else return_loop env tm w cs) (\<lambda>_. reach env c) (reach env c)" for failed
  proof (cases failed)
    case True
    have "(gw_move env)\<^sup>*\<^sup>* c (on_worker w (\<lambda>k. k\<lparr>wc_phase := CDone\<rparr>) (finish w ?b))"
      using b(1) f by (meson r_into_rtranclp rtranclp.rtrancl_into_rtrancl)
    then show ?thesis using True on_worker_ends[of "finish w ?b" w "reach env c"] by (auto elim!: hoare_weaken)
  next
    case False
    then show ?thesis using hoare_reach_trans[OF Cons.IH[OF b(2)] r_into_rtranclp[of "gw_move env", OF b(1)]] by simp
  qed
  then show ?case unfolding return_loop.simps by (rule hoare_abind[OF on_HandleReturn])
qed

lemma reach_lease_failed: "worker_in c w CLease \<Longrightarrow> hoare (same c) (lease_failed env w e) (\<lambda>_. reach env c) (reach env c)"
proof (rule hoare_move_reach[OF _ gw_move.lease_fail[OF _ refl]])
  let ?k = "gc_workers c w"
  let ?a = "on_agent (wc_agent ?k) (\<lambda>x. x\<lparr>ac_starting := ac_starting x - of_nat (wc_level ?k)\<rparr>) (release w c)"
  show "hoare (same c) (lease_failed env w e) (\<lambda>_. same (on_worker w (\<lambda>k. k\<lparr>wc_phase := CDone\<rparr>) ?a)) (\<lambda>_. False)"
    unfolding lease_failed_def
  proof (rule hoare_aseq[OF on_ReleaseEndpointLease], rule on_get_worker, goal_cases)
    case (1 wk)
    then have f: "fw_agent wk = wc_agent ?k" "fw_parallelLevel wk = wc_level ?k" using wcore_fields[OF 1] by (auto simp: release_worker)
    show ?case unfolding f
      by (rule hoare_aseq[OF on_upd_agent hoare_aseq[OF on_quiet_ops(1) hoare_aseq[OF on_quiet_ops(2) on_worker_ends]]]) (simp add: acore_def)
  qed
qed

lemma opt_or_panic_Err: "opt_or_panic x \<noteq> Err e"
  by (cases x) simp_all

lemma reach_leased: "worker_in c w CLease \<Longrightarrow> hoare (same c) (leased env tm w resp) (\<lambda>_. reach env c) (reach env c)"
proof (rule hoare_move_reach[OF _ gw_move.lease_ok[OF _ refl]])
  let ?k = "gc_workers c w"
  let ?f = "\<lambda>x. x\<lparr>ac_starting := ac_starting x - of_nat (wc_level ?k), ac_total := ac_total x + of_nat (wc_level ?k)\<rparr>"
  show "hoare (same c) (leased env tm w resp) (\<lambda>_. same (on_worker w (\<lambda>k. k\<lparr>wc_phase := CBusy []\<rparr>) (on_agent (wc_agent ?k) ?f c))) (\<lambda>_. False)"
    unfolding leased_def
  proof (rule hoare_abind[where Q = "\<lambda>_. same c"], goal_cases)
    case 1
    show ?case by (rule hoare_alift) (simp_all add: opt_or_panic_Err)
  next
    case (2 i)
    show ?case
    proof (rule on_get_worker, goal_cases)
      case (1 wk)
      then have f: "fw_agent wk = wc_agent ?k" "fw_parallelLevel wk = wc_level ?k" using wcore_fields[OF 1] by auto
      show ?case unfolding f
        by (rule hoare_aseq[OF on_upd_agent[where f = ?f] hoare_aseq[OF on_upd_worker_same hoare_aseq[OF on_quiet_ops(9) hoare_aseq[OF on_quiet_ops(7)
             hoare_aseq[OF on_quiet_ops(8) hoare_aseq[OF on_quiet_ops(2) hoare_aseq[OF on_quiet_ops(4)]]]]]]])
          (simp add: acore_def, simp, rule on_goto[of _ w WTop, simplified])
    qed
  qed
qed

lemma reach_worker_lease:
  assumes "worker_in c w CLease"
  shows "hoare (same c) (worker_lease env tm rpc w) (\<lambda>_. reach env c) (reach env c)"
  unfolding worker_lease_def
proof (rule hoare_aseq[OF on_quiet_ops(4)], rule hoare_abind[where Q = "\<lambda>_. same c"], goal_cases)
  case 1
  show ?case by (rule quiet) (intro keeps_intros noerr_intros)+
next
  case (2 r)
  show ?case using reach_leased[OF assms] reach_lease_failed[OF assms] by (auto simp: hoare_apanic split: res.split)
qed

lemma reach_worker_top:
  assumes "worker_in c w (CBusy [])"
  shows "hoare (same c) (worker_top w) (\<lambda>_. reach env c) (reach env c)"
  unfolding worker_top_def
proof (rule on_get_worker, rule on_get_agent, goal_cases)
  case (1 wk ag)
  note f = wcore_fields[OF 1(1)]
  let ?a = "wc_agent (gc_workers c w)"
  let ?move = "\<lambda>q got txs. on_worker w (\<lambda>k. k\<lparr>wc_phase := CBusy got, wc_ongoing := wc_ongoing k + of_nat (length got)\<rparr>) (on_agent ?a (\<lambda>x. x\<lparr>ac_queue := txs\<rparr>) q)"
  have "hoare (same c) (abind (TryRecvBatch (fw_agent wk) cnt) (\<lambda>reqs.
      aseq (upd_worker w (\<lambda>wk. wk\<lparr>fw_ongoingReqCnt := fw_ongoingReqCnt wk + of_nat (length reqs)\<rparr>)) (goto w (WBatch reqs)))) (\<lambda>_. reach env c) (reach env c)" for cnt
  proof -
    let ?q = "ac_queue (gc_agents c ?a)"
    have m: "gw_move env c (?move c (take cnt ?q) (drop cnt ?q))" using gw_move.batch[OF assms refl, where got = "take cnt ?q"] by simp
    show ?thesis
      by (rule hoare_move_reach[OF _ m], rule on_run_at)
        (use f in \<open>auto simp: TryRecvBatch_def act_simps goto_def core_def on_worker_def on_agent_def wcore_def acore_def fun_upd_comp take_map drop_map\<close>)
  qed
  moreover have "hoare (same c) (alift (u64_sub x y)) (\<lambda>_. same c) E" for x y and E :: "GwState \<Rightarrow> bool"
    by (rule hoare_alift) (auto simp: u64_sub_def split: if_splits)
  moreover have "hoare (same c) (goto w pc) (\<lambda>_. reach env c) (reach env c)" if "phase_of pc = CBusy []" for pc
    using assms that by (intro hoare_same_reach on_goto_same) simp
  ultimately show ?case
    by (auto intro!: hoare_apanic hoare_abind[where Q = "\<lambda>_. same c"] split: FuncWorkerState.split)
qed

lemma reach_batch_request:
  assumes "worker_in c w (CBusy (cr_tx r # map cr_tx rs))"
  shows "hoare (same c) (batch_request env tm tries handshake w r rs) (\<lambda>_. reach env c) (reach env c)"
  unfolding batch_request_def
proof (rule on_get_worker, rule hoare_aseq[OF on_upd_worker_same], simp, rule hoare_abind[where Q = "\<lambda>_. same c"], goal_cases)
  case (1 wk)
  show ?case by (rule quiet) (intro keeps_intros noerr_intros)+
next
  case (2 wk x)
  let ?c = "on_answers [cr_tx r] c"
  have "hoare (same c) (aseq (answer (cr_tx r) y) (goto w (WBatch rs))) (\<lambda>_. reach env c) (reach env c)" for y
    by (rule hoare_move_reach[OF hoare_aseq[OF on_answer on_goto]])
      (use gw_move.served[OF assms] in \<open>simp add: on_comm\<close>)
  moreover have "hoare (same c) (aseq (answer (cr_tx r) y) (aseq (FinishWorker env tm w) (aseq (RemoveWorker a w)
      (aseq (SendWorkerStatusUpdate a u) (aseq (worker_ends w) (aiter (\<lambda>r. answer (cr_tx r) AnsDropped) rs)))))) (\<lambda>_. reach env c) (reach env c)" for y a u
  proof (rule hoare_move_reach[OF hoare_aseq[OF on_answer hoare_aseq[OF on_FinishWorker hoare_aseq[OF on_quiet_ops(1) hoare_aseq[OF on_quiet_ops(2)
          hoare_aseq[OF on_worker_ends on_answers]]]]]])
    show "gw_move env c (on_answers (map cr_tx rs) (on_worker w (\<lambda>k. k\<lparr>wc_phase := CDone\<rparr>) (finish w (on_answers [cr_tx r] c))))"
      using gw_move.finished[OF assms] by (simp add: finish_answers on_comm)
  qed
  ultimately show ?case by (cases x) (simp_all add: hoare_apanic del: apanic_run)
qed

lemma reach_batch_done:
  assumes "worker_in c w (CBusy [])"
  shows "hoare (same c) (batch_done w) (\<lambda>_. reach env c) (reach env c)"
  unfolding batch_done_def
  by (rule on_get_worker, rule on_get_agent, rule hoare_same_reach, rule hoare_if)
    (use assms in \<open>auto intro!: on_goto_same hoare_aseq[OF on_quiet_ops(4)]\<close>)

lemma reach_stop:
  assumes "worker_in c w (CBusy [])"
  shows "hoare (same c) (worker_close env tm w b) (\<lambda>_. reach env c) (reach env c)"
    "hoare (same c) (aseq (FinishWorker env tm w) (aseq (SendWorkerStatusUpdate a u) (worker_ends w))) (\<lambda>_. reach env c) (reach env c)"
  using gw_move.finished[OF assms]
  by (auto intro!: hoare_move_reach[OF on_worker_close] hoare_move_reach[OF hoare_aseq[OF on_FinishWorker hoare_aseq[OF on_quiet_ops(2) on_worker_ends]]])

lemma reach_serve:
  assumes "worker_in c w (CBusy [])"
  shows "hoare (same c) (goto w WTop) (\<lambda>_. reach env c) (reach env c)"
    "hoare (same c) (aseq (SetState w st) (goto w WTop)) (\<lambda>_. reach env c) (reach env c)"
    "hoare (same c) (insert_billing_tick env tm w) (\<lambda>_. reach env c) (reach env c)"
    "hoare (same c) (ret ()) (\<lambda>_. reach env c) (reach env c)"
  using assms by (auto intro!: hoare_same_reach on_goto_same on_quiet_ops hoare_aseq[OF on_quiet_ops(4)]) (simp add: hoare_def)

lemma reach_idle_event:
  assumes "worker_in c w (CBusy [])"
  shows "hoare (same c) (idle_event env tm w b ev) (\<lambda>_. reach env c) (reach env c)"
proof -
  have "hoare (same c) (abind (alift (NeedLastWorker ag)) (\<lambda>need. awhen need (aseq (SetState w FwProcessing) (goto w WTop)))) (\<lambda>_. reach env c) (reach env c)" for ag
    by (rule hoare_abind[where Q = "\<lambda>_. same c"], rule hoare_alift)
      (auto simp: NeedLastWorker_def TotalSlot_def u64_sub_def u64_mul_def awhen_def reach_serve[OF assms] split: if_splits)
  then show ?thesis
    unfolding idle_event_def Let_def
    by (intro on_get_worker on_get_agent) (auto simp: awhen_def reach_serve[OF assms] reach_stop[OF assms] split: WorkerEvent.split)
qed

lemma reach_busy_event:
  assumes "worker_in c w (CBusy [])"
  shows "hoare (same c) (busy_event env tm w waits ev) (\<lambda>_. reach env c) (reach env c)"
proof -
  have "hoare (same c) (aseq (upd_worker w (\<lambda>wk. wk\<lparr>fw_finishQueue := []\<rparr>)) (return_loop env tm w cs)) (\<lambda>_. reach env c) (reach env c)" for cs
    by (rule hoare_aseq[OF on_upd_worker_same reach_return_loop[OF assms]]) simp
  moreover have "hoare (same c) (aseq (insert_billing_tick env tm w) (goto w WTop)) (\<lambda>_. reach env c) (reach env c)"
    by (rule hoare_aseq[OF on_quiet_ops(6) reach_serve(1)[OF assms]])
  ultimately show ?thesis
    unfolding busy_event_def
    by (intro on_get_worker on_get_agent) (auto simp: awhen_def reach_serve[OF assms] reach_stop[OF assms] split: WorkerEvent.split)
qed

section \<open>Steps of agents\<close>

lemma clean_loop_Ok: "clean_loop tm q = Ok (gone, rest) \<Longrightarrow> q = gone @ rest"
proof (induction q arbitrary: gone)
  case (Cons r q)
  then show ?case by (auto simp: and_then_eq_Ok split: if_splits)
qed simp

lemma clean_loop_Err: "clean_loop tm q \<noteq> Err e"
  by (induction q) (auto simp: Elapsed_def u64_sub_def and_then_eq_Err split: if_splits)

lemma reach_CleanTimeout:
  assumes "a < gc_agentCnt c"
  shows "hoare (same c) (abind (CleanTimeout tm a) (\<lambda>n. upd_agent a (\<lambda>ag. ag\<lparr>fa_activeReqCnt := fa_activeReqCnt ag - of_nat n\<rparr>)))
    (\<lambda>_. reach env c) (\<lambda>_. False)"
proof -
  have "gw_move env (core s) (core s')"
    if s: "core s = c" "abind (CleanTimeout tm a) (\<lambda>n. upd_agent a (\<lambda>ag. ag\<lparr>fa_activeReqCnt := fa_activeReqCnt ag - of_nat n\<rparr>)) s = (Ok x, s')" for s x s'
  proof -
    let ?ag = "gw_agentCells s a"
    obtain gone rest where g: "clean_loop tm (fa_reqQueue ?ag) = Ok (gone, rest)"
      using s(2) by (auto simp: CleanTimeout_def act_simps split: res.splits)
    have c': "core s' = on_answers (map cr_tx gone) (on_agent a (\<lambda>x. x\<lparr>ac_queue := map cr_tx rest, ac_active := ac_active x - of_nat (length (map cr_tx gone))\<rparr>) (core s))"
      using s(2) g by (auto simp: CleanTimeout_def act_simps answers_run core_def on_answers_def on_agent_def acore_def fun_upd_comp comp_def)
    have "ac_queue (gc_agents (core s) a) = map cr_tx gone @ map cr_tx rest"
      using clean_loop_Ok[OF g] by (simp add: acore_def)
    then show ?thesis unfolding c' using assms s(1) by (intro gw_move.timeout) simp_all
  qed
  moreover have "noerr (abind (CleanTimeout tm a) (\<lambda>n. upd_agent a (\<lambda>ag. ag\<lparr>fa_activeReqCnt := fa_activeReqCnt ag - of_nat n\<rparr>)))"
    unfolding CleanTimeout_def answer_def
    by (intro noerr_intros clean_loop_Err)
  ultimately show ?thesis by (intro hoareI) (auto simp: noerr_def)
qed

lemma TryAcquireEndpointLease_run:
  assumes "TryAcquireEndpointLease env a s = (r, s')" "r \<noteq> Panic"
  shows "\<exists>ok leases. r = Ok ok \<and> s' = s\<lparr>gw_leases := leases\<rparr> \<and> (\<not> ok \<longrightarrow> leases = gw_leases s) \<and>
    (ok \<longrightarrow> (case fa_endpointLeaseKey (gw_agentCells s a) of None \<Rightarrow> leases = gw_leases s
      | Some key \<Rightarrow> \<exists>m \<in> set (replica_limits env (gw_repo s)). Limiter_TryAcquire (gw_leases s) key m = Ok (leases, True)))"
proof (cases "fa_endpointLeaseKey (gw_agentCells s a)")
  case None
  then show ?thesis using assms by (auto simp: TryAcquireEndpointLease_def act_simps)
next
  case (Some key)
  let ?ag = "gw_agentCells s a"
  let ?p = "DataObjectMgr_Get (gr_funcpolicyMgr (gw_repo s)) (fa_tenant ?ag) (fa_namespace ?ag) (fa_funcName ?ag)"
  let ?m = "case ?p of Ok x \<Rightarrow> maxReplica (object x) | _ \<Rightarrow> g_maxReplica (endpointsDefaultPolicy env)"
  have m: "?m \<in> set (replica_limits env (gw_repo s))"
    by (auto simp: replica_limits_def DataObjectMgr_Get_def Let_def split: option.split dest: bt_get_Some_value)
  define M where "M = Limiter_TryAcquire (gw_leases s) key ?m"
  have run: "TryAcquireEndpointLease env a s = (case M of Ok (l, ok) \<Rightarrow> (Ok ok, s\<lparr>gw_leases := l\<rparr>) | Err e \<Rightarrow> (Err e, s) | Panic \<Rightarrow> (Panic, s))"
    using Some by (simp add: TryAcquireEndpointLease_def abind_run aseq_run Let_def M_def split: res.split prod.split)
  have no: "M \<noteq> Err e" "M = Ok (l, False) \<Longrightarrow> l = gw_leases s" for e l
    by (auto simp: M_def Limiter_TryAcquire_def u64_add_def Let_def split: if_splits)
  obtain leases ok where l: "M = Ok (leases, ok)"
    using assms no(1) by (cases M) (auto simp: run)
  show ?thesis
  proof (intro exI[of _ ok] exI[of _ leases] conjI impI)
    assume ok
    then show "case fa_endpointLeaseKey ?ag of None \<Rightarrow> leases = gw_leases s
      | Some key \<Rightarrow> \<exists>m \<in> set (replica_limits env (gw_repo s)). Limiter_TryAcquire (gw_leases s) key m = Ok (leases, True)"
      using Some l m unfolding M_def by auto
  qed (use assms l no(2) in \<open>auto simp: run\<close>)
qed

lemma reach_NewWorker:
  assumes "a < gc_agentCnt c"
  shows "hoare (same c) (NewWorker env a) (\<lambda>_. reach env c) (\<lambda>_. False)"
proof -
  have "r = Ok () \<and> (gw_move env)\<^sup>*\<^sup>* (core s) (core s')" if s: "core s = c" "NewWorker env a s = (r, s')" "r \<noteq> Panic" for s r s'
  proof -
    obtain q s1 where q: "TryAcquireEndpointLease env a s = (q, s1)" by force
    moreover have "q \<noteq> Panic" using s q by (auto simp: NewWorker_def act_simps)
    ultimately obtain ok leases where ok: "q = Ok ok" "s1 = s\<lparr>gw_leases := leases\<rparr>" "\<not> ok \<longrightarrow> leases = gw_leases s"
      "ok \<longrightarrow> (case fa_endpointLeaseKey (gw_agentCells s a) of None \<Rightarrow> leases = gw_leases s
      | Some key \<Rightarrow> \<exists>m \<in> set (replica_limits env (gw_repo s)). Limiter_TryAcquire (gw_leases s) key m = Ok (leases, True))"
      using TryAcquireEndpointLease_run by blast
    show ?thesis
    proof (cases ok)
      case False
      then show ?thesis using s q ok by (auto simp: NewWorker_def act_simps)
    next
      case True
      let ?ag = "gw_agentCells s a"
      let ?k = "\<lparr>wc_agent = a, wc_level = fa_parallelLeve ?ag, wc_ongoing = 0, wc_phase = CLease, wc_key = fa_endpointLeaseKey ?ag, wc_released = False\<rparr>"
      let ?c = "on_agent a (\<lambda>x. x\<lparr>ac_starting := ac_starting x + of_nat (fa_parallelLeve ?ag)\<rparr>)
        (on_worker (gw_workerCnt s) (\<lambda>_. ?k) ((core s)\<lparr>gc_workerCnt := gw_workerCnt s + 1, gc_leases := leases\<rparr>))"
      have a: "a < gw_agentCnt s" using assms s(1) by auto
      have "r = Ok ()" "core s' = ?c"
        using s q ok True
        by (auto simp: NewWorker_def act_simps NextWorkerId_def AddWorker_def FuncWorker_New_def i64_add_def u64_mul_def core_def on_agent_def on_worker_def
            acore_def wcore_def fun_upd_comp split: if_splits)
      moreover have "gw_move env (core s) ?c"
        using gw_move.new_worker[of ?k "core s" leases env] ok(4) True a by (simp cong: option.case_cong)
      ultimately show ?thesis by simp
    qed
  qed
  then have run: "r = Ok ()" "reach env c s'" if "core s = c" "NewWorker env a s = (r, s')" "r \<noteq> Panic" for s r s' using that by blast+
  show ?thesis
  proof (rule hoareI)
    fix s x s' assume "core s = c" "NewWorker env a s = (Ok x, s')"
    from run(2)[OF this] show "reach env c s'" by simp
  next
    fix s e s' assume "core s = c" "NewWorker env a s = (Err e, s')"
    from run(1)[OF this] show False by simp
  qed
qed

lemma moved_cnt:
  assumes "(gw_move env)\<^sup>*\<^sup>* c c'"
  shows "gc_agentCnt c \<le> gc_agentCnt c' \<and> gc_workerCnt c \<le> gc_workerCnt c'"
  using assms
proof (induction rule: rtranclp_induct)
  case (step y z)
  from step(2) have "gc_agentCnt y \<le> gc_agentCnt z \<and> gc_workerCnt y \<le> gc_workerCnt z"
    by cases (auto simp: finish_def release_def Let_def)
  with step(3) show ?case by linarith
qed simp

lemma reach_any:
  assumes "\<And>c'. (gw_move env)\<^sup>*\<^sup>* c c' \<Longrightarrow> hoare (same c') m (\<lambda>_. reach env c') (reach env c')"
  shows "hoare (reach env c) m (\<lambda>_. reach env c) (reach env c)"
proof (rule hoareI)
  fix s x s' assume s: "reach env c s" "m s = (Ok x, s')"
  then show "reach env c s'" using hoareD[OF assms[OF s(1)] refl s(2)] by (rule_tac rtranclp_trans)
next
  fix s e s' assume s: "reach env c s" "m s = (Err e, s')"
  then show "reach env c s'" using hoareD_Err[OF assms[OF s(1)] refl s(2)] by (rule_tac rtranclp_trans)
qed

lemma hoare_reach_frame: "(\<And>c. keeps (same c) m) \<Longrightarrow> hoare (reach env c) m (\<lambda>_. reach env c) (reach env c)"
  using keeps_frame[of core m "\<lambda>x. (gw_move env)\<^sup>*\<^sup>* c x"] by (simp add: keeps_def)

lemma NeedNewWorker_Err: "NeedNewWorker ag \<noteq> Err e"
  by (auto simp: NeedNewWorker_def TotalSlot_def u64_mul_def split: ScaleOutPolicy.split)

lemma reach_agent_top:
  assumes "a < gc_agentCnt c"
  shows "hoare (same c) (agent_top env tm a) (\<lambda>_. reach env c) (reach env c)"
proof -
  have new: "hoare (reach env c) (NewWorker env a) (\<lambda>_. reach env c) (reach env c)"
  proof (rule reach_any)
    fix c' assume "(gw_move env)\<^sup>*\<^sup>* c c'"
    then have "a < gc_agentCnt c'" using assms moved_cnt by fastforce
    from reach_NewWorker[OF this] show "hoare (same c') (NewWorker env a) (\<lambda>_. reach env c') (reach env c')" by (rule hoare_weaken) auto
  qed
  have throttle: "keeps (reach env c) (Throttle_TryAcquire a)" using hoare_reach_frame[OF same_agents(5)] unfolding keeps_def .
  have pc: "keeps (reach env c) (upd_agent a (\<lambda>ag. ag\<lparr>fa_pc := AgSelect\<rparr>))" by (rule keeps_amod) simp
  have keep: "keeps (reach env c) (abind (get_agent a) (\<lambda>ag. abind (alift (NeedNewWorker ag)) (\<lambda>need.
      aseq (awhen need (abind (Throttle_TryAcquire a) (\<lambda>ok. awhen ok (aok (NewWorker env a))))) (upd_agent a (\<lambda>ag. ag\<lparr>fa_pc := AgSelect\<rparr>)))))"
    by (intro keeps_abind keeps_aget keeps_alift keeps_aseq keeps_awhen keeps_aok throttle pc) (simp add: keeps_def new)
  have "agent_top env tm a = aseq (abind (CleanTimeout tm a) (\<lambda>n. upd_agent a (\<lambda>ag. ag\<lparr>fa_activeReqCnt := fa_activeReqCnt ag - of_nat n\<rparr>)))
     (abind (get_agent a) (\<lambda>ag. abind (alift (NeedNewWorker ag)) (\<lambda>need.
      aseq (awhen need (abind (Throttle_TryAcquire a) (\<lambda>ok. awhen ok (aok (NewWorker env a))))) (upd_agent a (\<lambda>ag. ag\<lparr>fa_pc := AgSelect\<rparr>)))))"
    by (rule ext) (simp add: agent_top_def act_simps split: res.split prod.split)
  then show ?thesis
    using hoare_aseq[OF hoare_weaken[OF reach_CleanTimeout[OF assms], where P = "same c" and Q = "\<lambda>_. reach env c" and E = "reach env c"] keep[unfolded keeps_def]]
    by auto
qed

text \<open>An agent empties its channel at once and then looks at the requests one by one; the moves take them one by one.\<close>

abbreviation no_chan :: "nat \<Rightarrow> GwCore \<Rightarrow> GwCore" where
  "no_chan a \<equiv> on_agent a (\<lambda>x. x\<lparr>ac_chan := []\<rparr>)"

definition taking :: "GwEnv \<Rightarrow> nat \<Rightarrow> GwCore \<Rightarrow> nat list \<Rightarrow> GwState \<Rightarrow> bool" where
  "taking env a c txs s \<longleftrightarrow> (\<exists>c'. (gw_move env)\<^sup>*\<^sup>* c c' \<and> a < gc_agentCnt c' \<and> ac_chan (gc_agents c' a) = txs \<and> core s = no_chan a c')"

lemma taking_take: "hoare (taking env a c (cr_tx r # txs)) (agent_take a r) (\<lambda>_. taking env a c txs) (\<lambda>_. False)"
proof -
  have "\<exists>x. agent_take a r s = (Ok x, s') \<and> taking env a c txs s'"
    if t: "taking env a c (cr_tx r # txs) s" and s': "s' = snd (agent_take a r s)" for s s'
  proof -
    from t obtain c' where c': "(gw_move env)\<^sup>*\<^sup>* c c'" "a < gc_agentCnt c'" "ac_chan (gc_agents c' a) = cr_tx r # txs" "core s = no_chan a c'"
      by (auto simp: taking_def)
    show ?thesis
    proof (cases "fa_queueLen (gw_agentCells s a) \<le> length (fa_reqQueue (gw_agentCells s a))")
      case True
      let ?d = "on_answers [cr_tx r] (on_agent a (\<lambda>x. x\<lparr>ac_chan := txs\<rparr>) c')"
      have "gw_move env c' ?d" using c' by (intro gw_move.full) auto
      moreover have "core s' = no_chan a ?d" "agent_take a r s = (Ok (), s')"
        using True s' c'(4) by (auto simp: agent_take_def Queue_Send_def act_simps answer_def on_comm)
      ultimately show ?thesis using c' unfolding taking_def by (intro exI[of _ "()"] conjI exI[of _ ?d]) (auto intro: rtranclp.rtrancl_into_rtrancl)
    next
      case False
      let ?d = "on_agent a (\<lambda>x. x\<lparr>ac_chan := txs, ac_queue := ac_queue x @ [cr_tx r], ac_active := ac_active x + 1\<rparr>) c'"
      have "gw_move env c' ?d" using c' by (intro gw_move.taken) auto
      moreover have "core s' = on_agent a (\<lambda>x. x\<lparr>ac_queue := ac_queue x @ [cr_tx r], ac_active := ac_active x + 1\<rparr>) (core s)" "agent_take a r s = (Ok (), s')"
        using False s' by (auto simp: agent_take_def Queue_Send_def act_simps core_def on_agent_def acore_def fun_upd_comp)
      ultimately show ?thesis using c' unfolding taking_def by (intro exI[of _ "()"] conjI exI[of _ ?d]) (auto intro: rtranclp.rtrancl_into_rtrancl intro!: on_agent_cong)
    qed
  qed
  then show ?thesis by (intro hoareI) (metis fst_conv res.distinct(1) res.inject(1) snd_conv)+
qed

lemma taking_iter: "hoare (taking env a c (map cr_tx rs)) (aiter (agent_take a) rs) (\<lambda>_. taking env a c []) (\<lambda>_. False)"
proof (induction rs)
  case (Cons r rs)
  show ?case using hoare_aseq[OF taking_take Cons] by simp
qed (unfold aiter.simps list.map, rule hoare_ret)

lemma reach_agent_recv:
  assumes "a < gc_agentCnt c"
  shows "hoare (same c) (agent_recv a) (\<lambda>_. reach env c) (reach env c)"
  unfolding agent_recv_def
proof (rule on_get_agent, goal_cases)
  case (1 ag)
  have q: "map cr_tx (fa_reqQueueTx ag) = ac_chan (gc_agents c a)" using acore_fields[OF 1] by simp
  have "hoare (same c) (upd_agent a (\<lambda>ag. ag\<lparr>fa_reqQueueTx := []\<rparr>)) (\<lambda>_. same (no_chan a c)) (reach env c)"
    by (rule on_upd_agent) (simp add: acore_def)
  then have "hoare (same c) (upd_agent a (\<lambda>ag. ag\<lparr>fa_reqQueueTx := []\<rparr>)) (\<lambda>_. taking env a c (map cr_tx (fa_reqQueueTx ag))) (reach env c)"
    by (rule hoare_weaken) (use assms q in \<open>auto simp: taking_def\<close>)
  moreover have "hoare (taking env a c (map cr_tx (fa_reqQueueTx ag))) (aiter (agent_take a) (fa_reqQueueTx ag)) (\<lambda>_. reach env c) (reach env c)"
    by (rule hoare_weaken[OF taking_iter]) (auto simp: taking_def on_agent_def fun_upd_idem)
  ultimately show ?case by (rule hoare_aseq)
qed

lemma reach_agent_event:
  assumes "a < gc_agentCnt c"
  shows "hoare (same c) (agent_event env a ev) (\<lambda>_. reach env c) (reach env c)"
proof -
  have q: "hoare (same c') m (\<lambda>_. reach env c') (reach env c')" if "\<And>c. keeps (same c) m" for c' and m :: "(GwState, unit) act"
    using hoare_reach_frame[of m env c'] that by (auto elim: hoare_weaken)
  have again: "keeps (same c) (upd_agent a (\<lambda>ag. ag\<lparr>fa_pc := AgTop\<rparr>))" for c by (rule same_amod) simp
  have pop: "keeps (same c) (upd_agent a (\<lambda>ag. ag\<lparr>fa_workerStateUpdateTx := us\<rparr>))" for c us by (rule same_amod) simp
  have upd: "keeps (same c) (agent_update a u)" for c u by (cases u) (auto intro!: keeps_intros)
  have recv: "hoare (same c) (aseq (agent_recv a) (upd_agent a (\<lambda>ag. ag\<lparr>fa_pc := AgTop\<rparr>))) (\<lambda>_. reach env c) (reach env c)"
    by (rule hoare_aseq[OF reach_agent_recv[OF assms] hoare_reach_frame[OF again]])
  have close: "hoare (same c) (aseq (upd_agent a (\<lambda>ag. ag\<lparr>fa_closeNotify := False, fa_pc := AgStopped, fa_reqQueueTx := [], fa_workerStateUpdateTx := []\<rparr>))
      (aiter (\<lambda>r. answer (cr_tx r) AnsDropped) rs)) (\<lambda>_. reach env c) (reach env c)" if rs: "map cr_tx rs = ac_chan (gc_agents c a)" for rs
  proof (rule hoare_move_reach[OF hoare_aseq[OF on_upd_agent on_answers]])
    show "gw_move env c (on_answers (map cr_tx rs) (on_agent a (\<lambda>x. x\<lparr>ac_chan := []\<rparr>) c))" using gw_move.closed[OF assms] by (simp add: rs)
  qed (simp add: acore_def)
  show ?thesis unfolding agent_event_def Let_def
  proof (rule on_get_agent, goal_cases)
    case (1 ag)
    then have "map cr_tx (fa_reqQueueTx ag) = ac_chan (gc_agents c a)" using acore_fields by auto
    then show ?case using recv close[of "fa_reqQueueTx ag"]
      by (cases ev) (auto simp: awhen_def split: list.split intro!: q keeps_intros again pop upd)
  qed
qed

section \<open>Steps of the manager\<close>

lemma reach_RetireAgent: "hoare (same c) (RetireAgent key) (\<lambda>_. reach env c) (reach env c)"
proof -
  let ?tell = "\<lambda>agent. asome agent (\<lambda>a. abind (get_agent a) (\<lambda>ag.
    aseq (aiter (\<lambda>w. upd_worker w (\<lambda>wk. wk\<lparr>fw_closeNotify := True\<rparr>)) (bt_values (fa_workers ag))) (upd_agent a (\<lambda>ag. ag\<lparr>fa_closeNotify := True\<rparr>))))"
  have tell: "keeps (same c) (?tell agent)" for c agent
    by (auto intro!: keeps_intros)
  have "gw_move env (core s) (core (s\<lparr>gw_agents := bt_remove key (gw_agents s)\<rparr>))" for s
    using gw_move.retired[OF bt_values_remove[of key "gw_agents s", folded core_fields(8)]] by (simp add: core_def)
  then have "hoare (same c) (amod (\<lambda>s. s\<lparr>gw_agents := bt_remove key (gw_agents s)\<rparr>)) (\<lambda>_. reach env c) (reach env c)"
    by (auto simp: hoare_def)
  then show ?thesis unfolding RetireAgent_def
    by (intro on_aget) (rule hoare_aseq[OF _ hoare_reach_frame[OF tell]])
qed

lemma reach_RetireAgents: "hoare (same c) (aiter RetireAgent keys) (\<lambda>_. reach env c) (reach env c)"
proof -
  have "keeps (reach env c) (RetireAgent key)" for key
    using reach_any[OF reach_RetireAgent] unfolding keeps_def .
  then have "hoare (reach env c) (aiter RetireAgent keys) (\<lambda>_. reach env c) (reach env c)"
    using keeps_aiter[of keys "reach env c" RetireAgent] unfolding keeps_def by blast
  then show ?thesis by (rule hoare_weaken) auto
qed

definition dir_ok :: "GwCore \<Rightarrow> bool" where
  "dir_ok c \<longleftrightarrow> (\<forall>a \<in> set (gc_dir c). a < gc_agentCnt c)"

lemma reach_get_or_new_agent:
  assumes "dir_ok c"
  shows "hoare (same c) (get_or_new_agent route) (\<lambda>a s. reach env c s \<and> a < gw_agentCnt s) (\<lambda>_. False)"
proof (rule hoareI)
  fix s a s' assume s: "core s = c" "get_or_new_agent route s = (Ok a, s')"
  show "reach env c s' \<and> a < gw_agentCnt s'"
  proof (cases "bt_get (AgentKey route) (gw_agents s)")
    case None
    let ?d = "bt_values (bt_insert (AgentKey route) (gw_agentCnt s) (gw_agents s))"
    have "core s' = on_agent (gw_agentCnt s) (\<lambda>_. acore (FuncAgent_New route)) ((core s)\<lparr>gc_agentCnt := gw_agentCnt s + 1, gc_dir := ?d\<rparr>)"
      "a = gw_agentCnt s" "gw_agentCnt s' = gw_agentCnt s + 1"
      using s None by (auto simp: get_or_new_agent_def act_simps core_def on_agent_def fun_upd_comp)
    moreover have "gw_move env (core s) (on_agent (gw_agentCnt s) (\<lambda>_. acore (FuncAgent_New route)) ((core s)\<lparr>gc_agentCnt := gw_agentCnt s + 1, gc_dir := ?d\<rparr>))"
      using gw_move.new_agent[of ?d "core s" "acore (FuncAgent_New route)" env] bt_values_insert[of "AgentKey route" "gw_agentCnt s" "gw_agents s"]
      by (simp add: acore_def FuncAgent_New_def)
    ultimately show ?thesis using s(1) by auto
  next
    case (Some b)
    then have "b \<in> set (gc_dir (core s))" by (auto dest: bt_get_Some_value)
    then show ?thesis using s Some assms by (auto simp: get_or_new_agent_def act_simps dir_ok_def)
  qed
qed (auto simp: get_or_new_agent_def act_simps split: option.splits)

lemma reach_EnqReq:
  assumes "a < gc_agentCnt c" and req: "\<And>tx. cr_tx (req tx) = tx"
  shows "hoare (same c) (abind (aget gw_txCnt) (\<lambda>tx. aseq (amod (\<lambda>s. s\<lparr>gw_txCnt := tx + 1\<rparr>)) (aseq (EnqReq a (req tx)) (ret tx)))) (\<lambda>_. reach env c) (reach env c)"
proof -
  have "gw_move env (core s) (core s')"
    if s: "core s = c" "abind (aget gw_txCnt) (\<lambda>tx. aseq (amod (\<lambda>s. s\<lparr>gw_txCnt := tx + 1\<rparr>)) (aseq (EnqReq a (req tx)) (ret tx))) s = (r, s')" for s r s'
  proof (cases "fa_pc (gw_agentCells s a) = AgStopped \<or> 1000 \<le> length (fa_reqQueueTx (gw_agentCells s a))")
    case True
    then have "core s' = (core s)\<lparr>gc_txCnt := gc_txCnt (core s) + 1\<rparr>"
      using s by (auto simp: EnqReq_def act_simps core_def)
    then show ?thesis using gw_move.refused[of env "core s"] by simp
  next
    case False
    then have "core s' = on_agent a (\<lambda>x. x\<lparr>ac_chan := ac_chan x @ [gc_txCnt (core s)]\<rparr>) ((core s)\<lparr>gc_txCnt := gc_txCnt (core s) + 1\<rparr>)"
      using s(2) by (auto simp: EnqReq_def act_simps core_def on_agent_def acore_def fun_upd_comp req)
    then show ?thesis using gw_move.enqueued[of a "core s" env] assms(1) s(1) by simp
  qed
  then show ?thesis by (intro hoareI) blast+
qed

lemma reach_at:
  assumes "\<And>c'. a < gc_agentCnt c' \<Longrightarrow> hoare (same c') m (\<lambda>_. reach env c') (reach env c')"
  shows "hoare (\<lambda>s. reach env c s \<and> a < gw_agentCnt s) m (\<lambda>_ s. reach env c s \<and> a < gw_agentCnt s) (reach env c)"
proof (rule hoareI)
  fix s x s' assume s: "reach env c s \<and> a < gw_agentCnt s" "m s = (Ok x, s')"
  then have "reach env (core s) s'" using hoareD[OF assms refl s(2)] by simp
  then show "reach env c s' \<and> a < gw_agentCnt s'" using s(1) moved_cnt by (fastforce intro: rtranclp_trans)
next
  fix s e s' assume s: "reach env c s \<and> a < gw_agentCnt s" "m s = (Err e, s')"
  then have "reach env (core s) s'" using hoareD_Err[OF assms refl s(2)] by simp
  then show "reach env c s'" using s(1) by (auto intro: rtranclp_trans)
qed

lemma reach_GetClient:
  assumes "dir_ok c"
  shows "hoare (same c) (GetClient route timeout ts) (\<lambda>_. reach env c) (reach env c)"
proof -
  have n: "hoare (same c) (get_or_new_agent route) (\<lambda>a s. reach env c s \<and> a < gw_agentCnt s) (reach env c)"
    by (rule hoare_weaken[OF reach_get_or_new_agent[OF assms, of route env]]) auto
  have "hoare (\<lambda>s. reach env c s \<and> a < gw_agentCnt s) (aseq (aiter RetireAgent stale)
    (abind (aget gw_txCnt) (\<lambda>tx. aseq (amod (\<lambda>s. s\<lparr>gw_txCnt := tx + 1\<rparr>)) (aseq (EnqReq a (req tx)) (ret tx))))) (\<lambda>_. reach env c) (reach env c)"
    if "\<And>tx. cr_tx (req tx) = tx" for req a stale
    by (rule hoare_aseq[OF reach_at[OF reach_RetireAgents]], rule hoare_weaken[OF reach_at[OF reach_EnqReq]]) (auto simp: that)
  then show ?thesis unfolding GetClient_def
    by (intro on_aget hoare_abind[OF n]) simp
qed

section \<open>The simulation\<close>

lemma dir_ok_move: "gw_move env c c' \<Longrightarrow> dir_ok c \<Longrightarrow> dir_ok c'"
  by (induction rule: gw_move.induct) (fastforce simp: dir_ok_def finish_def release_def Let_def)+

lemma dir_ok_moves: "(gw_move env)\<^sup>*\<^sup>* c c' \<Longrightarrow> dir_ok c \<Longrightarrow> dir_ok c'"
  by (induction rule: rtranclp_induct) (auto intro: dir_ok_move)

lemma reach_quiet: "(\<And>c. keeps (same c) m) \<Longrightarrow> hoare (same c) m (\<lambda>_. reach env c) (reach env c)"
  using hoare_reach_frame[of m env c] by (auto elim: hoare_weaken)

lemma reach_aok: "hoare (same c) m (\<lambda>_. reach env c) (reach env c) \<Longrightarrow> hoare (same c) (aok m) (\<lambda>_. reach env c) (reach env c)"
  by (rule hoareI) (auto simp: aok_run split: prod.splits res.splits dest: hoareD hoareD_Err)

lemma reach_worker_step:
  assumes "\<And>s. core s = c \<Longrightarrow> w < gw_workerCnt s \<Longrightarrow> hoare (same c) (f (fw_pc (gw_workerCells s w))) (\<lambda>_. reach env c) (reach env c)"
  shows "hoare (same c) (worker_step env' w f) (\<lambda>_. reach env c) (reach env c)"
  using assms by (fastforce simp: hoare_def worker_step_def)

lemma reach_agent_step:
  assumes "\<And>pc. a < gc_agentCnt c \<Longrightarrow> hoare (same c) (f pc) (\<lambda>_. reach env c) (reach env c)"
  shows "hoare (same c) (agent_step a f) (\<lambda>_. reach env c) (reach env c)"
proof (rule hoareI)
  fix s x s' assume s: "core s = c" "agent_step a f s = (Ok x, s')"
  show "reach env c s'"
  proof (cases "a < gw_agentCnt s")
    case True
    then show ?thesis using s hoareD[OF assms] by (auto simp: agent_step_def)
  qed (use s in \<open>auto simp: agent_step_def\<close>)
next
  fix s e s' assume s: "core s = c" "agent_step a f s = (Err e, s')"
  then show "reach env c s'" using hoareD_Err[OF assms] by (auto simp: agent_step_def split: if_splits)
qed

lemma reach_awhen: "(b \<Longrightarrow> hoare (same c) m (\<lambda>_. reach env c) (reach env c)) \<Longrightarrow> hoare (same c) (awhen b m) (\<lambda>_. reach env c) (reach env c)"
  by (cases b) (auto simp: awhen_def intro: reach_quiet keeps_ret)

lemma core_phase: "core s = c \<Longrightarrow> w < gw_workerCnt s \<Longrightarrow> worker_in c w (phase_of (fw_pc (gw_workerCells s w)))"
  by (auto simp: wcore_def)

lemma reach_gw_step:
  assumes "dir_ok c" "\<And>repo. st \<noteq> GsRepo repo"
  shows "hoare (same c) (gw_step env st) (\<lambda>_. reach env c) (reach env c)"
proof (cases st)
  case (GsLease tm w rpc)
  show ?thesis unfolding GsLease gw_step.simps
    by (intro reach_worker_step reach_awhen reach_worker_lease) (auto dest: core_phase[OF refl])
next
  case (GsTop w)
  show ?thesis unfolding GsTop gw_step.simps
    by (intro reach_worker_step reach_awhen reach_worker_top) (auto dest: core_phase[OF refl])
next
  case (GsBatch tm w tries handshake)
  show ?thesis unfolding GsBatch gw_step.simps
  proof (rule reach_worker_step, goal_cases)
    case (1 s)
    show ?case using core_phase[OF 1]
      by (auto split: WorkerPc.split list.split intro!: reach_batch_request reach_batch_done reach_quiet[OF keeps_ret])
  qed
next
  case (GsEvent tm w ev)
  show ?thesis unfolding GsEvent gw_step.simps
  proof (rule reach_worker_step, goal_cases)
    case (1 s)
    show ?case using core_phase[OF 1]
      by (auto split: WorkerPc.split intro!: reach_idle_event reach_busy_event reach_quiet[OF keeps_ret])
  qed
next
  case (GsRepo repo)
  then show ?thesis using assms(2) by blast
qed (auto simp only: gw_step.simps intro!: reach_aok reach_GetClient assms(1) reach_RetireAgent reach_agent_step reach_awhen reach_agent_top reach_agent_event
      reach_quiet[OF same_agents(4)] reach_quiet[OF same_conns(1)] reach_quiet[OF same_conns(2)] reach_quiet[OF same_conns(5)] reach_quiet[OF same_attempt(1)]
      reach_quiet[OF same_Connect] reach_quiet[OF same_calls(3)])

text \<open>What every move keeps, and every new repository among the steps, holds at the end of a run.\<close>

lemma gw_run_induct [consumes 3, case_names move repo]:
  assumes run: "gw_run env steps s = (r, s')" "r \<noteq> Panic" and init: "dir_ok (core s) \<and> I (core s)"
    and move: "\<And>c c'. gw_move env c c' \<Longrightarrow> dir_ok c \<Longrightarrow> I c \<Longrightarrow> I c'"
    and repo: "\<And>c repo. GsRepo repo \<in> set steps \<Longrightarrow> I c \<Longrightarrow> I (c\<lparr>gc_repo := repo\<rparr>)"
  shows "dir_ok (core s') \<and> I (core s')"
proof -
  let ?I = "\<lambda>t. dir_ok (core t) \<and> I (core t)"
  have moves: "dir_ok c' \<and> I c'" if "(gw_move env)\<^sup>*\<^sup>* c c'" "dir_ok c" "I c" for c c'
    using that by (induction rule: rtranclp_induct) (auto intro: move dir_ok_move)
  have "keeps ?I (gw_step env st)" if st: "st \<in> set steps" for st
  proof (cases "\<exists>repo. st = GsRepo repo")
    case True
    then obtain repo where r: "st = GsRepo repo" by blast
    have "core (t\<lparr>gw_repo := repo\<rparr>) = (core t)\<lparr>gc_repo := repo\<rparr>" for t by (simp add: core_def)
    then show ?thesis unfolding r gw_step.simps using assms(5) st r by (intro keeps_amod) (auto simp: dir_ok_def)
  next
    case False
    show ?thesis unfolding keeps_iff
    proof (intro allI impI)
      fix t q t' assume t: "?I t" "gw_step env st t = (q, t')" "q \<noteq> Panic"
      then have "hoare (same (core t)) (gw_step env st) (\<lambda>_. reach env (core t)) (reach env (core t))" using False by (intro reach_gw_step) auto
      then have "(gw_move env)\<^sup>*\<^sup>* (core t) (core t')" using t by (cases q) (auto dest: hoareD hoareD_Err)
      then show "?I t'" using moves t by blast
    qed
  qed
  then have "keeps ?I (gw_run env steps)" unfolding gw_run_def by (intro keeps_aiter)
  from keepsD[OF this run] show ?thesis using init by simp
qed

end
