(* ===== verification/Gw_Laws.thy ===== *)
theory Gw_Laws
  imports Gw_Core "HOL-Library.Multiset"
begin

text \<open>
  What holds in every run of the gateway: the counters of an agent agree with its queue and workers, leases of endpoints with the live workers that
  hold them, and every request is in one place. Each is an invariant of the moves of \<open>Gw_Core\<close>, and so of every run.
\<close>

section \<open>Sums over workers\<close>

definition tally :: "(WorkerCore \<Rightarrow> 'a::comm_monoid_add) \<Rightarrow> GwCore \<Rightarrow> 'a" where
  "tally f c = (\<Sum>w<gc_workerCnt c. f (gc_workers c w))"

lemma tally_frame [simp]: "tally f (on_agent a g c) = tally f c" "tally f (on_answers t c) = tally f c" "tally f (gc_txCnt_update g1 c) = tally f c"
  "tally f (gc_dir_update g2 c) = tally f c" "tally f (gc_repo_update g3 c) = tally f c" "tally f (gc_agentCnt_update g4 c) = tally f c"
  "tally f (gc_leases_update g5 c) = tally f c"
  by (simp_all add: tally_def)

lemma tally_worker: "w < gc_workerCnt c \<Longrightarrow> tally f (on_worker w g c) + f (gc_workers c w) = tally f c + f (g (gc_workers c w))"
proof -
  assume w: "w < gc_workerCnt c"
  have "tally f (on_worker w g c) = f (g (gc_workers c w)) + (\<Sum>i \<in> {..<gc_workerCnt c} - {w}. f (gc_workers c i))"
    using w by (auto simp: tally_def sum.remove[of _ w] intro!: sum.cong)
  moreover have "tally f c = f (gc_workers c w) + (\<Sum>i \<in> {..<gc_workerCnt c} - {w}. f (gc_workers c i))"
    using w by (simp add: tally_def sum.remove[of _ w])
  ultimately show ?thesis by (simp add: ac_simps)
qed

lemma tally_worker_same: "f (g (gc_workers c w)) = f (gc_workers c w) \<Longrightarrow> tally f (on_worker w g c) = tally f c"
  by (auto simp: tally_def intro!: sum.cong)

lemma tally_release: "(\<And>k. f (k\<lparr>wc_released := True\<rparr>) = f k) \<Longrightarrow> tally f (release w c) = tally f c"
  by (simp add: release_def tally_worker_same)

lemma tally_new: "tally f (on_worker (gc_workerCnt c) (\<lambda>_. k) (c\<lparr>gc_workerCnt := gc_workerCnt c + 1, gc_leases := l\<rparr>)) = tally f c + f k"
  by (simp add: tally_def lessThan_Suc add.commute)

lemma release_frame [simp]: "gc_agents (release w c) = gc_agents c" "gc_agentCnt (release w c) = gc_agentCnt c" "gc_workerCnt (release w c) = gc_workerCnt c"
  "gc_txCnt (release w c) = gc_txCnt c" "gc_answered (release w c) = gc_answered c"
  by (simp_all add: release_def)

section \<open>The counters\<close>

definition serving :: "nat \<Rightarrow> WorkerCore \<Rightarrow> 64 word" where
  "serving a k = (if wc_agent k = a \<and> wc_phase k \<noteq> CDone then wc_ongoing k else 0)"

definition leasing_slots :: "nat \<Rightarrow> WorkerCore \<Rightarrow> 64 word" where
  "leasing_slots a k = (if wc_agent k = a \<and> wc_phase k = CLease then of_nat (wc_level k) else 0)"

definition leased_slots :: "nat \<Rightarrow> WorkerCore \<Rightarrow> 64 word" where
  "leased_slots a k = (if wc_agent k = a \<and> wc_phase k \<noteq> CLease \<and> wc_phase k \<noteq> CDone then of_nat (wc_level k) else 0)"

definition counters :: "nat \<Rightarrow> GwCore \<Rightarrow> bool" where
  "counters a c \<longleftrightarrow> ac_active (gc_agents c a) = of_nat (length (ac_queue (gc_agents c a))) + tally (serving a) c \<and>
     ac_starting (gc_agents c a) = tally (leasing_slots a) c \<and> ac_total (gc_agents c a) = tally (leased_slots a) c"

definition holds :: "string \<Rightarrow> WorkerCore \<Rightarrow> nat" where
  "holds key k = (if wc_key k = Some key \<and> wc_phase k \<noteq> CDone then 1 else 0)"

definition worker_ok :: "GwCore \<Rightarrow> WorkerCore \<Rightarrow> bool" where
  "worker_ok c k \<longleftrightarrow> wc_agent k < gc_agentCnt c \<and> (wc_released k \<longleftrightarrow> wc_phase k = CDone) \<and> (wc_phase k = CLease \<longrightarrow> wc_ongoing k = 0)"

definition gw_ok :: "GwCore \<Rightarrow> bool" where
  "gw_ok c \<longleftrightarrow> (\<forall>w < gc_workerCnt c. worker_ok c (gc_workers c w)) \<and> (\<forall>a < gc_agentCnt c. counters a c) \<and>
     (\<forall>key. Limiter_Count (gc_leases c) key = tally (holds key) c)"

lemma Limiter_Count_acquire: "Limiter_TryAcquire l key m = Ok (l', True) \<Longrightarrow>
    Limiter_Count l' key' = Limiter_Count l key' + (if key' = key then 1 else 0) \<and> Limiter_Count l' key \<le> m"
  by (auto simp: Limiter_TryAcquire_def Let_def u64_add_def Limiter_Count_def split: if_splits option.splits)

lemma Limiter_Count_release: "Limiter_Count (Limiter_Release l key) key' = Limiter_Count l key' - (if key' = key then 1 else 0)"
  by (auto simp: Limiter_Release_def Limiter_Count_def split: option.splits)

lemma tally_worker_word:
  fixes f :: "WorkerCore \<Rightarrow> 64 word"
  shows "w < gc_workerCnt c \<Longrightarrow> tally f (on_worker w g c) = tally f c - f (gc_workers c w) + f (g (gc_workers c w))"
  using tally_worker[of w c f g] by (simp add: algebra_simps)

lemma tally_close:
  assumes "w < gc_workerCnt c" "\<And>k b. f (k\<lparr>wc_released := b\<rparr>) = f k" "\<And>k. f (k\<lparr>wc_phase := CDone\<rparr>) = 0"
  shows "tally f (on_worker w (\<lambda>k. k\<lparr>wc_phase := CDone\<rparr>) (release w c)) + f (gc_workers c w) = tally f c"
proof -
  have "f (gc_workers (release w c) w) = f (gc_workers c w)" "w < gc_workerCnt (release w c)"
    using assms by (auto simp: release_def)
  then show ?thesis using tally_worker[of w "release w c" f "\<lambda>k. k\<lparr>wc_phase := CDone\<rparr>"] tally_release[of f w c] assms(2,3) by simp
qed

lemma tally_close_word:
  fixes f :: "WorkerCore \<Rightarrow> 64 word"
  assumes "w < gc_workerCnt c" "\<And>k b. f (k\<lparr>wc_released := b\<rparr>) = f k" "\<And>k. f (k\<lparr>wc_phase := CDone\<rparr>) = 0"
  shows "tally f (on_worker w (\<lambda>k. k\<lparr>wc_phase := CDone\<rparr>) (release w c)) = tally f c - f (gc_workers c w)"
  using tally_close[OF assms] by (simp add: algebra_simps)

lemma worker_ok_move:
  assumes "gw_move env c c'" "\<forall>w < gc_workerCnt c. worker_ok c (gc_workers c w)" "w < gc_workerCnt c'"
  shows "worker_ok c' (gc_workers c' w)"
  using assms
  by (induction rule: gw_move.induct) (force simp: worker_ok_def finish_def release_def Let_def less_Suc_eq split: if_splits)+

lemmas tallies = serving_def leasing_slots_def leased_slots_def holds_def

lemma counters_move:
  assumes "gw_move env c c'" "\<forall>w < gc_workerCnt c. worker_ok c (gc_workers c w)" "\<forall>a < gc_agentCnt c. counters a c" "b < gc_agentCnt c'"
  shows "counters b c'"
  using assms
proof (induction rule: gw_move.induct)
  case (new_agent d c x)
  have "tally (serving n) c = 0" "tally (leasing_slots n) c = 0" "tally (leased_slots n) c = 0" if "n = gc_agentCnt c" for n
    using new_agent.prems(1) that by (auto simp: tally_def tallies worker_ok_def intro!: sum.neutral)
  then show ?case using new_agent by (cases "b = gc_agentCnt c") (auto simp: counters_def less_Suc_eq)
next
  case (lease_fail c w k)
  then have "worker_ok c k" by auto
  then show ?case using lease_fail by (auto simp: counters_def on_comm(1) tally_close_word tallies worker_ok_def)
next
  case (finished c w txs)
  then show ?case by (auto simp: counters_def on_comm(1) tally_close_word tallies worker_ok_def finish_def Let_def)
next
  case (new_worker k c leases)
  then show ?case by (auto simp: counters_def tally_new[simplified] tallies)
qed (auto simp: counters_def tally_worker_word tally_worker_same tallies)

lemma leases_close:
  assumes "w < gc_workerCnt c" "worker_ok c (gc_workers c w)" "wc_phase (gc_workers c w) \<noteq> CDone" "\<forall>key. Limiter_Count (gc_leases c) key = tally (holds key) c"
  shows "Limiter_Count (gc_leases (release w c)) key = tally (holds key) (on_worker w (\<lambda>k. k\<lparr>wc_phase := CDone\<rparr>) (release w c))"
proof -
  have "tally (holds key) (on_worker w (\<lambda>k. k\<lparr>wc_phase := CDone\<rparr>) (release w c)) + holds key (gc_workers c w) = tally (holds key) c"
    using assms(1) by (rule tally_close) (simp_all add: holds_def)
  moreover have "gc_leases (release w c) = (case wc_key (gc_workers c w) of None \<Rightarrow> gc_leases c | Some key \<Rightarrow> Limiter_Release (gc_leases c) key)"
    using assms(2,3) by (simp add: release_def worker_ok_def)
  ultimately show ?thesis using assms(3,4) by (auto simp: holds_def Limiter_Count_release split: option.split if_splits)
qed

lemma leases_move:
  assumes "gw_move env c c'" "\<forall>w < gc_workerCnt c. worker_ok c (gc_workers c w)" "\<forall>key. Limiter_Count (gc_leases c) key = tally (holds key) c"
  shows "Limiter_Count (gc_leases c') key = tally (holds key) c'"
  using assms
proof (induction rule: gw_move.induct)
  case (lease_fail c w k)
  then show ?case using leases_close[of w c key] by (simp add: on_comm(1))
next
  case (finished c w txs)
  then show ?case using leases_close[of w c key] by (simp add: on_comm(1) finish_def Let_def)
next
  case (new_worker k c leases)
  then show ?case using Limiter_Count_acquire[of "gc_leases c" _ _ leases key]
    by (auto simp: tally_new[simplified] holds_def split: option.splits)
qed (auto simp: tally_worker_same holds_def)

lemma gw_ok_move:
  assumes "gw_move env c c'" "gw_ok c"
  shows "gw_ok c'"
  using assms worker_ok_move[OF assms(1)] counters_move[OF assms(1)] leases_move[OF assms(1)] unfolding gw_ok_def by blast

lemma gw_ok_repo: "gw_ok c \<Longrightarrow> gw_ok (c\<lparr>gc_repo := repo\<rparr>)"
  by (simp add: gw_ok_def worker_ok_def counters_def)

lemma gw_ok_run:
  assumes "gw_run env steps s = (r, s')" "r \<noteq> Panic" "dir_ok (core s) \<and> gw_ok (core s)"
  shows "dir_ok (core s') \<and> gw_ok (core s')"
  using assms by (rule gw_run_induct) (auto intro: gw_ok_move gw_ok_repo)

lemma gw_ok_New: "dir_ok (core (FuncAgentMgr_New repo agents workers conns)) \<and> gw_ok (core (FuncAgentMgr_New repo agents workers conns))"
  by (simp add: dir_ok_def gw_ok_def FuncAgentMgr_New_def core_def tally_def Limiter_Count_def bt_values_def)

section \<open>Every request in one place\<close>

fun batch_of :: "Phase \<Rightarrow> nat list" where
  "batch_of (CBusy txs) = txs"
| "batch_of _ = []"

abbreviation batched :: "WorkerCore \<Rightarrow> nat multiset" where
  "batched \<equiv> (\<lambda>k. mset (batch_of (wc_phase k)))"

abbreviation waiting :: "AgentCore \<Rightarrow> nat multiset" where
  "waiting x \<equiv> mset (ac_queue x) + mset (ac_chan x)"

definition held :: "GwCore \<Rightarrow> nat multiset" where
  "held c = (\<Sum>a<gc_agentCnt c. waiting (gc_agents c a))"

definition places :: "GwCore \<Rightarrow> nat multiset" where
  "places c = held c + tally batched c + mset (gc_answered c)"

lemma held_frame [simp]: "held (on_worker w g c) = held c" "held (on_answers t c) = held c" "held (gc_txCnt_update g1 c) = held c"
  "held (gc_dir_update g2 c) = held c" "held (gc_repo_update g3 c) = held c" "held (gc_workerCnt_update g4 c) = held c" "held (gc_leases_update g5 c) = held c"
  "held (release w c) = held c"
  by (simp_all add: held_def)

lemma held_agent:
  assumes "a < gc_agentCnt c" "waiting (gc_agents c a) + m = waiting (g (gc_agents c a)) + n"
  shows "held c + m = held (on_agent a g c) + n"
proof -
  let ?rest = "\<Sum>i \<in> {..<gc_agentCnt c} - {a}. waiting (gc_agents c i)"
  have "held (on_agent a g c) = waiting (g (gc_agents c a)) + ?rest" "held c = waiting (gc_agents c a) + ?rest"
    using assms(1) by (auto simp: held_def sum.remove[of _ a] intro!: sum.cong)
  then show ?thesis using assms(2) by (simp add: ac_simps)
qed

lemma held_agent_same: "waiting (g (gc_agents c a)) = waiting (gc_agents c a) \<Longrightarrow> held (on_agent a g c) = held c"
  by (auto simp: held_def intro!: sum.cong)

lemma held_new: "held (on_agent (gc_agentCnt c) (\<lambda>_. x) (c\<lparr>gc_agentCnt := gc_agentCnt c + 1, gc_dir := d\<rparr>)) = held c + waiting x"
  by (simp add: held_def lessThan_Suc add.commute)

lemma tally_batch:
  assumes "w < gc_workerCnt c" "batched (gc_workers c w) + m = batched (g (gc_workers c w)) + n"
  shows "tally batched c + m = tally batched (on_worker w g c) + n"
proof -
  have "tally batched c + m + batched (g (gc_workers c w)) = (tally batched c + batched (g (gc_workers c w))) + m" by (simp add: ac_simps)
  also have "\<dots> = tally batched (on_worker w g c) + (batched (gc_workers c w) + m)"
    using tally_worker[OF assms(1), of batched g] by (simp add: ac_simps)
  also have "\<dots> = tally batched (on_worker w g c) + n + batched (g (gc_workers c w))"
    using assms(2) by (simp add: ac_simps)
  finally show ?thesis by simp
qed

lemma places_move:
  assumes "gw_move env c c'" "\<forall>w < gc_workerCnt c. worker_ok c (gc_workers c w)"
  shows "places c' = places c \<and> gc_txCnt c \<le> gc_txCnt c' \<or> places c' = add_mset (gc_txCnt c) (places c) \<and> gc_txCnt c' = gc_txCnt c + 1"
  using assms
proof (induction rule: gw_move.induct)
  case (new_agent d c x)
  then show ?case by (simp add: places_def held_new[simplified])
next
  case (enqueued a c)
  let ?g = "\<lambda>x. x\<lparr>ac_chan := ac_chan x @ [gc_txCnt c]\<rparr>"
  have "held (c\<lparr>gc_txCnt := gc_txCnt c + 1\<rparr>) + {#gc_txCnt c#} = held (on_agent a ?g (c\<lparr>gc_txCnt := gc_txCnt c + 1\<rparr>)) + {#}"
    by (rule held_agent) (use enqueued in auto)
  then show ?case by (simp add: places_def)
next
  case (taken a c tx txs)
  then show ?case by (simp add: places_def held_agent_same)
next
  case (full a c tx txs)
  have "held c + {#} = held (on_agent a (\<lambda>x. x\<lparr>ac_chan := txs\<rparr>) c) + {#tx#}"
    by (rule held_agent) (use full in auto)
  then show ?case by (simp add: places_def)
next
  case (closed a c)
  have "held c + {#} = held (on_agent a (\<lambda>x. x\<lparr>ac_chan := []\<rparr>) c) + mset (ac_chan (gc_agents c a))"
    by (rule held_agent) (use closed in auto)
  then show ?case by (simp add: places_def ac_simps)
next
  case (timeout a c gone txs)
  have "held c + {#} = held (on_agent a (\<lambda>x. x\<lparr>ac_queue := txs, ac_active := ac_active x - of_nat (length gone)\<rparr>) c) + mset gone"
    by (rule held_agent) (use timeout in auto)
  then show ?case by (simp add: places_def ac_simps)
next
  case (new_worker k c leases)
  then show ?case by (simp add: places_def held_agent_same tally_new[simplified])
next
  case (lease_fail c w k)
  have "tally batched (on_worker w (\<lambda>k. k\<lparr>wc_phase := CDone\<rparr>) (release w c)) + batched (gc_workers c w) = tally batched c"
    by (rule tally_close) (use lease_fail in auto)
  then show ?case using lease_fail by (simp add: places_def on_comm(1) held_agent_same)
next
  case (lease_ok c w k)
  then show ?case by (simp add: places_def held_agent_same tally_worker_same)
next
  case (batch c w a got txs)
  let ?g = "\<lambda>x. x\<lparr>ac_queue := txs\<rparr>" and ?f = "\<lambda>k. k\<lparr>wc_phase := CBusy got, wc_ongoing := wc_ongoing k + of_nat (length got)\<rparr>"
  have "held c + {#} = held (on_agent a ?g c) + mset got" by (rule held_agent) (use batch in \<open>auto simp: worker_ok_def\<close>)
  moreover have "tally batched (on_agent a ?g c) + mset got = tally batched (on_worker w ?f (on_agent a ?g c)) + {#}"
    by (rule tally_batch) (use batch in auto)
  ultimately show ?case by (simp add: places_def ac_simps)
next
  case (served c w tx txs)
  have "tally batched c + {#} = tally batched (on_worker w (\<lambda>k. k\<lparr>wc_phase := CBusy txs\<rparr>) c) + {#tx#}"
    by (rule tally_batch) (use served in auto)
  then show ?case by (simp add: places_def)
next
  case (returned c w a)
  then show ?case by (simp add: places_def held_agent_same tally_worker_same)
next
  case (finished c w txs)
  have "tally batched (on_worker w (\<lambda>k. k\<lparr>wc_phase := CDone\<rparr>) (release w c)) + batched (gc_workers c w) = tally batched c"
    by (rule tally_close) (use finished in auto)
  then show ?case using finished
    by (simp add: places_def on_comm(1) held_agent_same finish_def Let_def ac_simps)
qed (simp_all add: places_def)

definition placed_from :: "nat multiset \<Rightarrow> GwCore \<Rightarrow> bool" where
  "placed_from m c \<longleftrightarrow> gw_ok c \<and> m \<subseteq># places c \<and> places c \<subseteq># mset [0..<gc_txCnt c]"

lemma placed_from_move:
  assumes "gw_move env c c'" "placed_from m c"
  shows "placed_from m c'"
proof -
  from assms(2) have c: "gw_ok c" "m \<subseteq># places c" "places c \<subseteq># mset [0..<gc_txCnt c]" by (auto simp: placed_from_def)
  then consider "places c' = places c" "gc_txCnt c \<le> gc_txCnt c'" | "places c' = add_mset (gc_txCnt c) (places c)" "gc_txCnt c' = gc_txCnt c + 1"
    using places_move[OF assms(1)] unfolding gw_ok_def by blast
  then show ?thesis
  proof cases
    case 1
    have "mset [0..<gc_txCnt c] \<subseteq># mset [0..<gc_txCnt c']" using upt_add_eq_append[of 0 "gc_txCnt c" "gc_txCnt c' - gc_txCnt c"] 1(2) by simp
    with 1 c show ?thesis using gw_ok_move[OF assms(1)] by (auto simp: placed_from_def intro: subset_mset.order_trans)
  next
    case 2
    with c show ?thesis using gw_ok_move[OF assms(1)] by (auto simp: placed_from_def intro: subset_mset.order_trans)
  qed
qed

lemma placed_from_repo: "placed_from m c \<Longrightarrow> placed_from m (c\<lparr>gc_repo := repo\<rparr>)"
  by (simp add: placed_from_def gw_ok_repo places_def)

lemma placed_from_run:
  assumes "gw_run env steps s = (r, s')" "r \<noteq> Panic" "dir_ok (core s) \<and> placed_from m (core s)"
  shows "dir_ok (core s') \<and> placed_from m (core s')"
  using assms by (rule gw_run_induct) (auto intro: placed_from_move placed_from_repo)

section \<open>In the state of the gateway\<close>

definition busy_requests :: "nat \<Rightarrow> GwState \<Rightarrow> 64 word" where
  "busy_requests a s = (\<Sum>w<gw_workerCnt s. let wk = gw_workerCells s w in if fw_agent wk = a \<and> fw_pc wk \<noteq> WDone then fw_ongoingReqCnt wk else 0)"

definition worker_slots :: "(WorkerPc \<Rightarrow> bool) \<Rightarrow> nat \<Rightarrow> GwState \<Rightarrow> 64 word" where
  "worker_slots P a s = (\<Sum>w<gw_workerCnt s. let wk = gw_workerCells s w in if fw_agent wk = a \<and> P (fw_pc wk) then of_nat (fw_parallelLevel wk) else 0)"

definition live_workers :: "string \<Rightarrow> GwState \<Rightarrow> nat" where
  "live_workers key s = (\<Sum>w<gw_workerCnt s. let wk = gw_workerCells s w in if fw_endpoint_lease_key wk = Some key \<and> fw_pc wk \<noteq> WDone then 1 else 0)"

fun pc_batch :: "WorkerPc \<Rightarrow> FuncClientReq list" where
  "pc_batch (WBatch rs) = rs"
| "pc_batch _ = []"

definition request_places :: "GwState \<Rightarrow> nat multiset" where
  "request_places s =
     (\<Sum>a<gw_agentCnt s. let ag = gw_agentCells s a in mset (map cr_tx (fa_reqQueue ag)) + mset (map cr_tx (fa_reqQueueTx ag))) +
     (\<Sum>w<gw_workerCnt s. mset (map cr_tx (pc_batch (fw_pc (gw_workerCells s w))))) +
     mset (map fst (gw_answers s))"

lemma phase_of_iff [simp]: "phase_of pc = CDone \<longleftrightarrow> pc = WDone" "phase_of pc = CLease \<longleftrightarrow> pc = WLease" "batch_of (phase_of pc) = map cr_tx (pc_batch pc)"
  by (cases pc; simp)+

lemma tally_core: "tally (serving a) (core s) = busy_requests a s" "tally (leasing_slots a) (core s) = worker_slots (\<lambda>pc. pc = WLease) a s"
  "tally (leased_slots a) (core s) = worker_slots (\<lambda>pc. pc \<noteq> WLease \<and> pc \<noteq> WDone) a s" "tally (holds key) (core s) = live_workers key s"
  unfolding tally_def tallies busy_requests_def worker_slots_def live_workers_def Let_def by (auto simp: wcore_def intro!: sum.cong)

lemma places_core: "places (core s) = request_places s"
  by (simp add: places_def held_def tally_def request_places_def Let_def acore_def wcore_def)

lemma places_New: "placed_from {#} (core (FuncAgentMgr_New repo agents workers conns))"
  using gw_ok_New by (simp add: placed_from_def places_core request_places_def FuncAgentMgr_New_def)

section \<open>Accepted requests\<close>

lemma mem_sum_mset: "a < n \<Longrightarrow> x \<in># f a \<Longrightarrow> x \<in># (\<Sum>i<n. f i :: nat multiset)" for n :: nat
  by (simp add: sum.remove[of "{..<n}" a])

lemma GetClient_placed:
  assumes "dir_ok (core s)" "GetClient route timeout ts s = (Ok tx, s')"
  shows "tx \<in># request_places s'"
proof -
  from assms(2) obtain a s1 u s2 where run: "get_or_new_agent route s = (Ok a, s1)" "aiter RetireAgent (stale_agents route (gw_agents s)) s1 = (Ok u, s2)"
      "abind (aget gw_txCnt) (\<lambda>tx. aseq (amod (\<lambda>s. s\<lparr>gw_txCnt := tx + 1\<rparr>))
        (aseq (EnqReq a \<lparr>cr_tenant = fid_tenant (rt_logical route), cr_namespace = fid_namespace (rt_logical route),
             cr_funcName = fid_funcname (rt_logical route), cr_caller_tenant = rt_caller_tenant route, cr_keepalive = True,
             cr_timeout = timeout, cr_enqueueTime = ts, cr_tx = tx\<rparr>) (ret tx))) s2 = (Ok tx, s')"
    unfolding GetClient_def by (auto simp: abind_Ok aseq_Ok)
  have "reach env (core s) s1 \<and> a < gw_agentCnt s1" for env using hoareD[OF reach_get_or_new_agent[OF assms(1)] refl run(1)] .
  then have a: "a < gw_agentCnt s2" using hoareD[OF reach_at[OF reach_RetireAgents] _ run(2), of undefined "core s" a] by blast
  have "gw_agentCnt s' = gw_agentCnt s2" "tx \<in> cr_tx ` set (fa_reqQueueTx (gw_agentCells s' a))"
    using run(3) by (auto simp: EnqReq_def act_simps split: if_splits)
  then have "tx \<in># (\<Sum>a<gw_agentCnt s'. let ag = gw_agentCells s' a in mset (map cr_tx (fa_reqQueue ag)) + mset (map cr_tx (fa_reqQueueTx ag)))"
    using a by (intro mem_sum_mset[of a]) (simp_all add: Let_def)
  then show ?thesis by (simp add: request_places_def)
qed

section \<open>Replicas of an endpoint\<close>

definition within_limit :: "GwEnv \<Rightarrow> nat \<Rightarrow> GwObjRepo \<Rightarrow> bool" where
  "within_limit env m repo \<longleftrightarrow> list_all (\<lambda>n. n \<le> m) (replica_limits env repo)"

fun step_within :: "GwEnv \<Rightarrow> nat \<Rightarrow> GwStep \<Rightarrow> bool" where
  "step_within env m (GsRepo repo) \<longleftrightarrow> within_limit env m repo"
| "step_within env m _ \<longleftrightarrow> True"

definition limited :: "GwEnv \<Rightarrow> nat \<Rightarrow> GwCore \<Rightarrow> bool" where
  "limited env m c \<longleftrightarrow> gw_ok c \<and> within_limit env m (gc_repo c) \<and> (\<forall>key. Limiter_Count (gc_leases c) key \<le> m)"

lemma Limiter_Release_le: "Limiter_Count (Limiter_Release l key) key' \<le> Limiter_Count l key'"
  by (simp add: Limiter_Count_release)

lemma limited_move:
  assumes "gw_move env c c'" "limited env m c"
  shows "limited env m c'"
proof -
  have "within_limit env m (gc_repo c') \<and> (\<forall>key. Limiter_Count (gc_leases c') key \<le> m)"
    using assms
  proof (induction rule: gw_move.induct)
    case (new_worker k c leases)
    have "Limiter_Count leases key \<le> m" for key
    proof (cases "wc_key k")
      case (Some y)
      then obtain n where "n \<in> set (replica_limits env (gc_repo c))" "Limiter_TryAcquire (gc_leases c) y n = Ok (leases, True)" using new_worker by auto
      then show ?thesis using new_worker.prems Limiter_Count_acquire[of "gc_leases c" y n leases key]
        by (auto simp: limited_def within_limit_def list_all_iff split: if_splits)
    qed (use new_worker in \<open>auto simp: limited_def\<close>)
    then show ?case using new_worker by (simp add: limited_def)
  qed (auto simp: limited_def release_def finish_def Let_def split: option.split intro: order_trans[OF Limiter_Release_le])
  then show ?thesis using gw_ok_move[OF assms(1)] assms(2) by (simp add: limited_def)
qed

lemma limited_run:
  assumes "gw_run env steps s = (r, s')" "r \<noteq> Panic" "dir_ok (core s) \<and> limited env m (core s)" "list_all (step_within env m) steps"
  shows "dir_ok (core s') \<and> limited env m (core s')"
  using assms(1-3)
proof (rule gw_run_induct)
  fix c repo assume "GsRepo repo \<in> set steps" "limited env m c"
  then show "limited env m (c\<lparr>gc_repo := repo\<rparr>)" using assms(4) by (auto simp: limited_def gw_ok_repo list_all_iff)
qed (rule limited_move)

end
