(* ===== verification/Gw_Props.thy ===== *)
theory Gw_Props
  imports Gw_Laws
begin

text \<open>The properties of the gateway's agents and workers, with the sample run on which they are tried.\<close>

section \<open>A sample run\<close>

definition ex_gw_env :: GwEnv where
  "ex_gw_env = \<lparr>endpointsDefaultPolicy = \<lparr>g_maxReplica = 3, g_parallel = 2, g_queueLen = 10, g_queueTimeout = 0, g_scaleoutPolicy = WaitQueueRatio 0,
       g_scaleinTimeout = 0\<rparr>, gw_ticks_sent = True, GatewayId = 7, gw_uuid = show_nat, gw_debug = (\<lambda>_. ''e'')\<rparr>"

definition ex_route :: "nat \<Rightarrow> FuncRouteTarget" where
  "ex_route level = \<lparr>rt_logical = \<lparr>fid_tenant = ''t'', fid_namespace = ''endpoints'', fid_funcname = ''m'', fid_version = 1\<rparr>,
     rt_physical = \<lparr>fid_tenant = ''inferx'', fid_namespace = ''endpoint'', fid_funcname = ''m'', fid_version = 1\<rparr>, rt_func = ex_function,
     rt_policy = FuncPolicySpec_default\<lparr>fp_parallel := level, queueLen := 10, scaleoutPolicy := WaitQueueRatio 0, scaleinTimeout := 0\<rparr>,
     rt_caller_tenant = Some ''t''\<rparr>"

definition ex_gw :: GwState where
  "ex_gw = FuncAgentMgr_New \<lparr>gr_funcMgr = [], gr_funcpolicyMgr = [], gr_podMgr = []\<rparr> (\<lambda>_. FuncAgent_New (ex_route 2))
     (\<lambda>_. undefined) (\<lambda>_. \<lparr>cn_podname = '''', cn_fail = False, cn_close = False, cn_reuse = 0\<rparr>)"

definition ex_start :: "GwStep list" where
  "ex_start = [GsAgentTop 0 0, GsAgentEvent 0 AevRequests, GsAgentTop 0 0]"

abbreviation ex_request :: GwStep where
  "ex_request \<equiv> GsRequest (ex_route 2) 1000 \<lparr>its_count = 0, its_ms = 0\<rparr>"

lemma lead_exp_one: "lead_exp 1 = 0"
proof -
  have "quotient_of 1 = (1, 1)" "bitlen 1 = 1" by (simp_all add: rat_one_code compute_bitlen)
  then show ?thesis by (simp add: lead_exp_def pow2_def)
qed

lemma f64_round_one: "f64_round 1 = F64Fin 1"
proof -
  have "round_even 4503599627370496 = 4503599627370496" by (simp add: round_even_def Let_def)
  then show ?thesis by (simp add: f64_round_def lead_exp_one pow2_def signed_def Let_def)
qed

lemma f64_round_zero: "f64_round 0 = F64Fin 0"
  by (simp add: f64_round_def)

lemma f64_decode_zero: "f64_decode 0 = F64Fin 0"
  by (simp add: f64_decode_def signed_def)

lemmas gw_agent_defs = GetClient_def stale_agents_def get_or_new_agent_def FuncAgent_New_def AgentKey_def FuncIdentity_Key_def FuncIdentity_Prefix_def IsEndpointRoute_def
  EnqReq_def agent_step_def agent_top_def CleanTimeout_def Elapsed_def NeedNewWorker_def TotalSlot_def agent_event_def agent_recv_def agent_take_def Queue_Send_def
  Throttle_TryAcquire_def Throttle_New_def THROTTLE_CAPACITY_def NewWorker_def TryAcquireEndpointLease_def Limiter_TryAcquire_def Limiter_Count_def NextWorkerId_def
  FuncWorker_New_def AddWorker_def ScaleInWorkerId_def isize_wrap_def answer_def gw_emit_def scalein_ms_def DataObjectMgr_Get_def try_connect_once_def

lemmas ex_gw_defs = ex_gw_env_def ex_route_def ex_gw_def ex_start_def FuncAgentMgr_New_def

lemmas ex_gw_simps = gw_run_def ex_gw_defs act_simps gw_agent_defs f64_decode_zero f64_round_one f64_round_zero f64_of_nat_def Let_def arith_defs in_i64_def

lemma ex_request_ok: "fst (GetClient (ex_route 2) 1000 \<lparr>its_count = 0, its_ms = 0\<rparr> ex_gw) = Ok 0"
  by (simp add: ex_gw_simps)

lemma ex_run_ok: "fst (gw_run ex_gw_env (ex_request # ex_start) ex_gw) = Ok ()"
  by (simp add: ex_gw_simps)

section \<open>Counters and leases\<close>

lemma gw_ok_reached:
  assumes "gw_run env steps (FuncAgentMgr_New repo agents workers conns) = (Ok (), s)"
  shows "gw_ok (core s)"
  using gw_ok_run[OF assms _ gw_ok_New] by simp

text \<open>
  C6. Whatever happens to a gateway (requests, leases, failures, timeouts, retired agents, policies that change), as long as no task panics
  the counters of every agent are right, up to the width of the counters: its active requests are those that wait and those its workers serve,
  its starting and total slots are those of its workers that wait for a lease and that have one, and an endpoint holds as many leases as it has live workers.
\<close>

theorem gateway_counters:
  assumes "gw_run env steps (FuncAgentMgr_New repo agents workers conns) = (Ok (), s)" "a < gw_agentCnt s"
  shows "fa_activeReqCnt (gw_agentCells s a) = of_nat (length (fa_reqQueue (gw_agentCells s a))) + busy_requests a s \<and>
    fa_startingSlot (gw_agentCells s a) = worker_slots (\<lambda>pc. pc = WLease) a s \<and>
    fa_totalSlot (gw_agentCells s a) = worker_slots (\<lambda>pc. pc \<noteq> WLease \<and> pc \<noteq> WDone) a s \<and>
    Limiter_Count (gw_leases s) key = live_workers key s"
proof -
  have ok: "gw_ok (core s)" using gw_ok_reached[OF assms(1)] .
  then have "counters a (core s)" "Limiter_Count (gw_leases s) key = tally (holds key) (core s)" using assms(2) by (simp_all add: gw_ok_def)
  then show ?thesis unfolding counters_def tally_core by (simp add: acore_def)
qed

theorem gateway_counters_witness:
  "\<exists>s. gw_run ex_gw_env (ex_request # ex_start) ex_gw = (Ok (), s) \<and> 0 < gw_agentCnt s \<and>
     fa_activeReqCnt (gw_agentCells s 0) = of_nat (length (fa_reqQueue (gw_agentCells s 0))) + busy_requests 0 s \<and>
     Limiter_Count (gw_leases s) ''t/endpoints/m'' = live_workers ''t/endpoints/m'' s"
proof -
  let ?s = "snd (gw_run ex_gw_env (ex_request # ex_start) ex_gw)"
  have run: "gw_run ex_gw_env (ex_request # ex_start) ex_gw = (Ok (), ?s)" using ex_run_ok by (metis prod.collapse)
  have cnt: "0 < gw_agentCnt ?s" by (simp add: ex_gw_simps)
  show ?thesis
    using gateway_counters[OF run[unfolded ex_gw_def] cnt[unfolded ex_gw_def], where key = "''t/endpoints/m''"] run cnt unfolding ex_gw_def by blast
qed

text \<open>
  C8. A request that \<open>GetClient\<close> has accepted is from then on in exactly one place: in the channel or the queue of an agent, in the batch of a
  worker, or answered, once; it is never lost and never answered twice.
\<close>

theorem request_in_one_place:
  assumes "gw_run env steps (FuncAgentMgr_New repo agents workers conns) = (Ok (), s)" "GetClient route timeout ts s = (Ok tx, s1)"
    "gw_run env later s1 = (Ok (), s2)"
  shows "count (request_places s2) tx = 1"
proof -
  have s: "dir_ok (core s)" "placed_from {#} (core s)"
    using placed_from_run[OF assms(1) _ conjI[OF _ places_New]] gw_ok_New by blast+
  have "gw_run env [GsRequest route timeout ts] s = (Ok (), s1)" using assms(2) by (simp add: gw_run_def act_simps)
  then have s1: "dir_ok (core s1)" "placed_from {#} (core s1)" using placed_from_run[OF _ _ conjI[OF s]] by blast+
  have "{#tx#} \<subseteq># places (core s1)" using GetClient_placed[OF s(1) assms(2)] by (simp add: places_core)
  then have "placed_from {#tx#} (core s1)" using s1(2) by (simp add: placed_from_def)
  then have "placed_from {#tx#} (core s2)" using placed_from_run[OF assms(3)] s1(1) by blast
  then have p: "{#tx#} \<subseteq># request_places s2" "request_places s2 \<subseteq># mset [0..<gw_txCnt s2]" by (simp_all add: placed_from_def places_core)
  have "count (mset [0..<gw_txCnt s2]) tx \<le> 1" by (cases "tx < gw_txCnt s2") simp_all
  moreover have "1 \<le> count (request_places s2) tx" using mset_subset_eq_count[OF p(1), of tx] by (simp only: count_single if_True refl)
  ultimately show ?thesis using mset_subset_eq_count[OF p(2), of tx] by linarith
qed

theorem request_in_one_place_witness:
  "\<exists>s1 s2. gw_run ex_gw_env [] ex_gw = (Ok (), ex_gw) \<and> GetClient (ex_route 2) 1000 \<lparr>its_count = 0, its_ms = 0\<rparr> ex_gw = (Ok 0, s1) \<and>
     gw_run ex_gw_env ex_start s1 = (Ok (), s2) \<and> count (request_places s2) 0 = 1"
proof -
  let ?g = "GetClient (ex_route 2) 1000 \<lparr>its_count = 0, its_ms = 0\<rparr> ex_gw"
  have init: "gw_run ex_gw_env [] ex_gw = (Ok (), ex_gw)" by (simp add: gw_run_def)
  obtain s1 where g: "?g = (Ok 0, s1)" using ex_request_ok by (metis prod.collapse)
  have "gw_run ex_gw_env (ex_request # ex_start) ex_gw = gw_run ex_gw_env ex_start s1"
    by (simp add: gw_run_def aseq_run aok_run g)
  then obtain s2 where more: "gw_run ex_gw_env ex_start s1 = (Ok (), s2)" using ex_run_ok by (metis prod.collapse)
  show ?thesis using request_in_one_place[OF init[unfolded ex_gw_def] g[unfolded ex_gw_def] more] init g more unfolding ex_gw_def by blast
qed

text \<open>
  C12. When no policy allows an endpoint more than \<open>m\<close> replicas, neither the gateway's default nor any policy of the repository at any time of
  the run, an endpoint never has more than \<open>m\<close> live workers, whatever versions of it are served.
\<close>

theorem endpoint_replicas:
  assumes "gw_run env steps (FuncAgentMgr_New repo agents workers conns) = (Ok (), s)" "within_limit env m repo" "list_all (step_within env m) steps"
  shows "live_workers key s \<le> m"
proof -
  have "limited env m (core (FuncAgentMgr_New repo agents workers conns))"
    using gw_ok_New assms(2) by (simp add: limited_def) (simp add: FuncAgentMgr_New_def Limiter_Count_def)
  then have "limited env m (core s)" using limited_run[OF assms(1) _ _ assms(3)] gw_ok_New by blast
  then have "Limiter_Count (gw_leases s) key = live_workers key s" "Limiter_Count (gw_leases s) key \<le> m"
    by (auto simp: limited_def gw_ok_def tally_core)
  then show ?thesis by simp
qed

theorem endpoint_replicas_witness:
  "\<exists>s. gw_run ex_gw_env (ex_request # ex_start) ex_gw = (Ok (), s) \<and> live_workers ''t/endpoints/m'' s \<le> 3"
proof -
  let ?s = "snd (gw_run ex_gw_env (ex_request # ex_start) ex_gw)"
  have run: "gw_run ex_gw_env (ex_request # ex_start) ex_gw = (Ok (), ?s)" using ex_run_ok by (metis prod.collapse)
  have "within_limit ex_gw_env 3 \<lparr>gr_funcMgr = [], gr_funcpolicyMgr = [], gr_podMgr = []\<rparr>"
    by (simp add: within_limit_def replica_limits_def ex_gw_env_def bt_values_def)
  from endpoint_replicas[OF run[unfolded ex_gw_def] this] run show ?thesis unfolding ex_gw_def by (auto simp: ex_start_def)
qed

section \<open>Starting a worker\<close>

definition has_room :: "GwEnv \<Rightarrow> GwState \<Rightarrow> FuncAgent \<Rightarrow> bool" where
  "has_room env s ag =
     (case fa_endpointLeaseKey ag of
        None \<Rightarrow> True
      | Some key \<Rightarrow>
          Limiter_Count (gw_leases s) key <
            min (2 ^ 64 - 1) (case DataObjectMgr_Get (gr_funcpolicyMgr (gw_repo s)) (fa_tenant ag) (fa_namespace ag) (fa_funcName ag) of
              Ok p \<Rightarrow> maxReplica (object p) | _ \<Rightarrow> g_maxReplica (endpointsDefaultPolicy env)))"

lemma TryAcquire_room:
  assumes "has_room env s (gw_agentCells s a)"
  shows "\<exists>l. TryAcquireEndpointLease env a s = (Ok True, s\<lparr>gw_leases := l\<rparr>)"
proof (cases "fa_endpointLeaseKey (gw_agentCells s a)")
  case None
  then have "TryAcquireEndpointLease env a s = (Ok True, s\<lparr>gw_leases := gw_leases s\<rparr>)" by (simp add: TryAcquireEndpointLease_def act_simps)
  then show ?thesis by blast
next
  case (Some key)
  then have "TryAcquireEndpointLease env a s = (Ok True, s\<lparr>gw_leases := bt_insert key (Limiter_Count (gw_leases s) key + 1) (gw_leases s)\<rparr>)"
    using assms by (simp add: TryAcquireEndpointLease_def act_simps has_room_def Limiter_TryAcquire_def Let_def u64_add_def)
  then show ?thesis by blast
qed

lemma NewWorker_room:
  assumes "has_room env s (gw_agentCells s a)" "0 < fa_parallelLeve (gw_agentCells s a)" "fa_parallelLeve (gw_agentCells s a) * 2 < 2 ^ 64"
    "in_i64 (fa_nextWorkerId (gw_agentCells s a) + 1)"
  shows "\<exists>s'. NewWorker env a s = (Ok (), s') \<and> gw_workerCnt s' = gw_workerCnt s + 1 \<and> fw_agent (gw_workerCells s' (gw_workerCnt s)) = a \<and>
    fw_pc (gw_workerCells s' (gw_workerCnt s)) = WLease \<and>
    bt_get (fa_nextWorkerId (gw_agentCells s a) + 1) (fa_workers (gw_agentCells s' a)) = Some (gw_workerCnt s)"
proof -
  obtain l where "TryAcquireEndpointLease env a s = (Ok True, s\<lparr>gw_leases := l\<rparr>)" using TryAcquire_room[OF assms(1)] by blast
  then show ?thesis using assms(2-)
    by (simp add: NewWorker_def act_simps NextWorkerId_def i64_add_def FuncWorker_New_def u64_mul_def AddWorker_def)
qed

text \<open>
  C13. A request that waits where no worker is gets one: at the top of the agent's loop, when after removing the requests that timed out some are active and no
  worker is left, a finite wait ratio, a token of the throttle and, for an endpoint, room for a replica are enough for the agent to create a worker, which then leases a pod.
\<close>

theorem waiting_request_gets_worker:
  assumes "clean_loop tm (fa_reqQueue (gw_agentCells s a)) = Ok (gone, rest)" "fa_activeReqCnt (gw_agentCells s a) \<noteq> of_nat (length gone)"
    "fa_workers (gw_agentCells s a) = []" "fa_scaleoutPolicy (gw_agentCells s a) = WaitQueueRatio r" "f64_add (F64Fin 1) (f64_decode r) = F64Fin x"
    "0 < fa_throttle (gw_agentCells s a)" "has_room env s (gw_agentCells s a)"
    "0 < fa_parallelLeve (gw_agentCells s a)" "fa_parallelLeve (gw_agentCells s a) * 2 < 2 ^ 64" "in_i64 (fa_nextWorkerId (gw_agentCells s a) + 1)"
  shows "\<exists>s'. agent_top env tm a s = (Ok (), s') \<and> gw_workerCnt s' = gw_workerCnt s + 1 \<and> fw_agent (gw_workerCells s' (gw_workerCnt s)) = a \<and>
    fw_pc (gw_workerCells s' (gw_workerCnt s)) = WLease \<and>
    bt_get (fa_nextWorkerId (gw_agentCells s a) + 1) (fa_workers (gw_agentCells s' a)) = Some (gw_workerCnt s)"
proof -
  let ?ag = "(gw_agentCells s a)\<lparr>fa_reqQueue := rest, fa_activeReqCnt := fa_activeReqCnt (gw_agentCells s a) - of_nat (length gone)\<rparr>"
  let ?s1 = "s\<lparr>gw_answers := gw_answers s @ map (\<lambda>r. (cr_tx r, AnsErr (Timeout (cr_timeout r)))) gone, gw_agentCells := (gw_agentCells s)(a := ?ag\<lparr>fa_throttle := fa_throttle ?ag - 1\<rparr>)\<rparr>"
  have "0 < unat (fa_activeReqCnt ?ag)" using assms(2) by (simp add: unat_gt_0)
  then have "NeedNewWorker ?ag = Ok True"
    using f64_of_nat_pos assms(3-5) by (simp add: NeedNewWorker_def TotalSlot_def u64_mul_def f64_round_zero)
  then have "agent_top env tm a s = aseq (aok (NewWorker env a)) (upd_agent a (\<lambda>ag. ag\<lparr>fa_pc := AgSelect\<rparr>)) ?s1"
    using assms(1,6) by (simp add: agent_top_def CleanTimeout_def act_simps answers_run Throttle_TryAcquire_def)
  moreover have "has_room env ?s1 (gw_agentCells ?s1 a)" using assms(7) by (cases "fa_endpointLeaseKey (gw_agentCells s a)") (simp_all add: has_room_def)
  moreover from this obtain s' where "NewWorker env a ?s1 = (Ok (), s')" "gw_workerCnt s' = gw_workerCnt s + 1" "fw_agent (gw_workerCells s' (gw_workerCnt s)) = a"
    "fw_pc (gw_workerCells s' (gw_workerCnt s)) = WLease"
    "bt_get (fa_nextWorkerId (gw_agentCells s a) + 1) (fa_workers (gw_agentCells s' a)) = Some (gw_workerCnt s)"
    using NewWorker_room[of env ?s1 a] assms(8-) by auto
  ultimately show ?thesis by (simp add: aseq_run aok_run)
qed

definition ex_waiting :: GwState where
  "ex_waiting = ex_gw\<lparr>gw_agentCells := (\<lambda>_. (FuncAgent_New (ex_route 2))\<lparr>fa_activeReqCnt := 1,
     fa_reqQueue := [\<lparr>cr_tenant = ''t'', cr_namespace = ''endpoints'', cr_funcName = ''m'', cr_caller_tenant = None, cr_keepalive = True, cr_timeout = 1000,
       cr_enqueueTime = \<lparr>its_count = 0, its_ms = 0\<rparr>, cr_tx = 0\<rparr>]\<rparr>), gw_agentCnt := 1\<rparr>"

theorem waiting_request_gets_worker_witness:
  "\<exists>s'. agent_top ex_gw_env 500 0 ex_waiting = (Ok (), s') \<and> gw_workerCnt s' = 1 \<and> fw_pc (gw_workerCells s' 0) = WLease"
proof -
  let ?q = "fa_reqQueue (gw_agentCells ex_waiting 0)"
  have "clean_loop 500 ?q = Ok ([], ?q)" by (simp add: ex_waiting_def Elapsed_def u64_sub_def)
  moreover have "fa_activeReqCnt (gw_agentCells ex_waiting 0) \<noteq> of_nat (length ([] :: FuncClientReq list))" "fa_workers (gw_agentCells ex_waiting 0) = []"
    "fa_scaleoutPolicy (gw_agentCells ex_waiting 0) = WaitQueueRatio 0" "f64_add (F64Fin 1) (f64_decode 0) = F64Fin 1"
    "0 < fa_throttle (gw_agentCells ex_waiting 0)" "has_room ex_gw_env ex_waiting (gw_agentCells ex_waiting 0)"
    "0 < fa_parallelLeve (gw_agentCells ex_waiting 0)" "fa_parallelLeve (gw_agentCells ex_waiting 0) * 2 < 2 ^ 64"
    "in_i64 (fa_nextWorkerId (gw_agentCells ex_waiting 0) + 1)" "gw_workerCnt ex_waiting = 0"
    by (simp_all add: ex_waiting_def ex_gw_simps has_room_def)
  ultimately show ?thesis using waiting_request_gets_worker[of 500 ex_waiting 0 "[]" ?q 0 1 ex_gw_env] by auto
qed

section \<open>Returning a worker\<close>

text \<open>
  What a task that returns a worker still has to do: at most as many attempts as it has left, whatever the scheduler answers.
\<close>

lemma return_attempt_run:
  assumes "gw_returns s = [k]" "rpc \<noteq> Called Panic"
  shows "\<exists>s'. return_attempt env rpc 0 s = (Ok (), s') \<and> gw_workerCells s' = gw_workerCells s \<and>
    (gw_returns s' = [] \<and> leased_as (gw_workerCells s (rk_worker k)) \<notin> set (gw_leasedWorkers s') \<or>
     rk_retry_count k + 1 < MAX_RETRIES \<and> (\<exists>b. gw_returns s' = [k\<lparr>rk_retry_count := rk_retry_count k + 1, rk_backoff := b\<rparr>]))"
proof -
  obtain q s1 where q: "ReturnWorker rpc (rk_worker k) (rk_failworker k) s = (q, s1)" by force
  then have s1: "gw_workerCells s1 = gw_workerCells s" "gw_returns s1 = [k]" "q \<noteq> Panic"
    using assms by (auto simp: ReturnWorker_def SchedulerClient_ReturnWorker_def with_scheduler_def gw_emit_def act_simps
        split: option.splits Rpc.splits res.splits if_splits)
  then show ?thesis using q assms(1)
    by (cases q) (auto simp: return_attempt_def return_done_def act_simps Let_def)
qed

lemma return_attempt_done: "gw_returns s = [] \<Longrightarrow> return_attempt env rpc 0 s = (Ok (), s)"
  by (simp add: return_attempt_def act_simps)

lemma return_attempts_run:
  assumes "gw_returns s = [k]" "list_all (\<lambda>rpc. rpc \<noteq> Called Panic) rpcs" "MAX_RETRIES \<le> rk_retry_count k + length rpcs" "rk_retry_count k < MAX_RETRIES"
  shows "\<exists>s'. aiter (\<lambda>rpc. return_attempt env rpc 0) rpcs s = (Ok (), s') \<and> gw_returns s' = [] \<and>
    leased_as (gw_workerCells s (rk_worker k)) \<notin> set (gw_leasedWorkers s')"
  using assms
proof (induction rpcs arbitrary: s k)
  case (Cons rpc rpcs)
  have idle: "aiter (\<lambda>rpc. return_attempt env rpc 0) rpcs t = (Ok (), t)" if "gw_returns t = []" for t
    using that by (induction rpcs) (simp_all add: aseq_run return_attempt_done)
  obtain s' where s': "return_attempt env rpc 0 s = (Ok (), s')" "gw_workerCells s' = gw_workerCells s"
    "gw_returns s' = [] \<and> leased_as (gw_workerCells s (rk_worker k)) \<notin> set (gw_leasedWorkers s') \<or>
     rk_retry_count k + 1 < MAX_RETRIES \<and> (\<exists>b. gw_returns s' = [k\<lparr>rk_retry_count := rk_retry_count k + 1, rk_backoff := b\<rparr>])"
    using return_attempt_run[OF Cons.prems(1), of rpc env] Cons.prems(2) by auto
  from s'(3) show ?case
  proof (elim disjE conjE exE)
    assume "gw_returns s' = []" "leased_as (gw_workerCells s (rk_worker k)) \<notin> set (gw_leasedWorkers s')"
    then show ?thesis using idle[of s'] by (simp add: aseq_run s'(1))
  next
    fix b assume "rk_retry_count k + 1 < MAX_RETRIES" "gw_returns s' = [k\<lparr>rk_retry_count := rk_retry_count k + 1, rk_backoff := b\<rparr>]"
    then show ?thesis using Cons.IH[of s' "k\<lparr>rk_retry_count := rk_retry_count k + 1, rk_backoff := b\<rparr>"] Cons.prems s'(1,2) by (simp add: aseq_run)
  qed
qed simp

text \<open>
  C26. A worker that is given back to the scheduler is given back in at most ten attempts, whatever the scheduler answers: then the task has ended and the gateway
  no longer lists the worker as leased. Whether the scheduler took it back is not part of it: after ten failures the gateway forgets the lease.
\<close>

theorem return_ends_in_ten_attempts:
  assumes "gw_returns s = []" "length rpcs = 10" "list_all (\<lambda>rpc. rpc \<noteq> Called Panic) rpcs"
  shows "\<exists>s'. aseq (spawn_return_worker_retry w failworker) (aiter (\<lambda>rpc. return_attempt env rpc 0) rpcs) s = (Ok (), s') \<and> gw_returns s' = [] \<and>
    leased_as (gw_workerCells s w) \<notin> set (gw_leasedWorkers s')"
  using return_attempts_run[of "s\<lparr>gw_returns := [\<lparr>rk_worker = w, rk_failworker = failworker, rk_retry_count = 0, rk_backoff = 500\<rparr>]\<rparr>" _ rpcs env] assms
  by (simp add: spawn_return_worker_retry_def aseq_run MAX_RETRIES_def)

definition ex_lost :: GwState where
  "ex_lost = ex_gw\<lparr>gw_workerCells := (\<lambda>_. case FuncWorker_New 0 (FuncAgent_New (ex_route 2)) 1 of Ok wk \<Rightarrow> wk | _ \<Rightarrow> undefined), gw_schedulerUrl := Some ''s'',
     gw_leasedWorkers := [\<lparr>lw_tenant = ''inferx'', lw_namespace = ''endpoint'', lw_funcname = ''m'', lw_fprevision = 1, lw_id = show_int (-1)\<rparr>]\<rparr>"

theorem return_ends_in_ten_attempts_witness:
  "\<exists>s'. aseq (spawn_return_worker_retry 0 False) (aiter (\<lambda>rpc. return_attempt ex_gw_env rpc 0) (replicate 10 (NoConnect (CommonError ''x'')))) ex_lost = (Ok (), s') \<and>
     gw_returns s' = [] \<and> leased_as (gw_workerCells ex_lost 0) \<notin> set (gw_leasedWorkers s')"
proof -
  have "gw_returns ex_lost = []" by (simp add: ex_lost_def ex_gw_def FuncAgentMgr_New_def)
  from return_ends_in_ten_attempts[OF this, of "replicate 10 (NoConnect (CommonError ''x''))"] show ?thesis by (simp add: list_all_iff)
qed

section \<open>Retired agents\<close>

lemma close_workers_run: "\<exists>W. aiter (\<lambda>w. upd_worker w (\<lambda>wk. wk\<lparr>fw_closeNotify := True\<rparr>)) ws s = (Ok (), s\<lparr>gw_workerCells := W\<rparr>)"
proof (induction ws arbitrary: s)
  case Nil
  have "s = s\<lparr>gw_workerCells := gw_workerCells s\<rparr>" by simp
  then show ?case by (metis aiter.simps(1) ret_run)
next
  case (Cons w ws)
  show ?case using Cons.IH[of "s\<lparr>gw_workerCells := (gw_workerCells s)(w := (gw_workerCells s w)\<lparr>fw_closeNotify := True\<rparr>)\<rparr>"] by (simp add: aseq_run fun_upd_def)
qed

lemma RetireAgent_run:
  "\<exists>s'. RetireAgent key s = (Ok (), s') \<and> gw_agents s' = bt_remove key (gw_agents s) \<and>
     (\<forall>a. fa_closeNotify (gw_agentCells s' a) \<longleftrightarrow> bt_get key (gw_agents s) = Some a \<or> fa_closeNotify (gw_agentCells s a))"
proof (cases "bt_get key (gw_agents s)")
  case None
  then show ?thesis by (simp add: RetireAgent_def act_simps)
next
  case (Some b)
  obtain W where "aiter (\<lambda>w. upd_worker w (\<lambda>wk. wk\<lparr>fw_closeNotify := True\<rparr>)) (bt_values (fa_workers (gw_agentCells s b))) (s\<lparr>gw_agents := bt_remove key (gw_agents s)\<rparr>) =
      (Ok (), s\<lparr>gw_agents := bt_remove key (gw_agents s), gw_workerCells := W\<rparr>)"
    using close_workers_run by blast
  then show ?thesis using Some by (auto simp: RetireAgent_def act_simps)
qed

lemma RetireAgents_run:
  "\<exists>s'. aiter RetireAgent keys s = (Ok (), s') \<and> (\<forall>k. bt_get k (gw_agents s') = (if k \<in> set keys then None else bt_get k (gw_agents s))) \<and>
     (\<forall>a. fa_closeNotify (gw_agentCells s' a) \<longleftrightarrow> (\<exists>key \<in> set keys. bt_get key (gw_agents s) = Some a) \<or> fa_closeNotify (gw_agentCells s a))"
proof (induction keys arbitrary: s)
  case (Cons key keys)
  obtain s1 where s1: "RetireAgent key s = (Ok (), s1)" "gw_agents s1 = bt_remove key (gw_agents s)"
    "\<forall>a. fa_closeNotify (gw_agentCells s1 a) \<longleftrightarrow> bt_get key (gw_agents s) = Some a \<or> fa_closeNotify (gw_agentCells s a)"
    using RetireAgent_run by blast
  obtain s2 where s2: "aiter RetireAgent keys s1 = (Ok (), s2)" "\<forall>k. bt_get k (gw_agents s2) = (if k \<in> set keys then None else bt_get k (gw_agents s1))"
    "\<forall>a. fa_closeNotify (gw_agentCells s2 a) \<longleftrightarrow> (\<exists>key \<in> set keys. bt_get key (gw_agents s1) = Some a) \<or> fa_closeNotify (gw_agentCells s1 a)"
    using Cons.IH by blast
  have "fa_closeNotify (gw_agentCells s2 a) \<longleftrightarrow> (\<exists>k \<in> set (key # keys). bt_get k (gw_agents s) = Some a) \<or> fa_closeNotify (gw_agentCells s a)" for a
    using s1(2,3) s2(3) by (auto split: if_splits)
  then show ?case using s1(1,2) s2(1,2) by (auto simp: aseq_run)
qed simp

lemma get_or_new_agent_run:
  "\<exists>s' a. get_or_new_agent route s = (Ok a, s') \<and>
     (\<forall>k. bt_get k (gw_agents s') = (if k = AgentKey route then Some (case bt_get k (gw_agents s) of Some a \<Rightarrow> a | None \<Rightarrow> gw_agentCnt s) else bt_get k (gw_agents s)))"
  by (cases "bt_get (AgentKey route) (gw_agents s)") (simp_all add: get_or_new_agent_def act_simps)

text \<open>
  C23. After \<open>GetClient\<close>, whether the request was accepted or not, the manager has an agent for the route's key, and of the other agents exactly
  those are gone whose key begins with the route's tenant, namespace and function name, which are told to stop. These are the agents of other
  versions of the function, and also those of every function whose name continues the name of this one.
\<close>

theorem GetClient_retires:
  assumes "GetClient route timeout ts s = (r, s')"
  shows "bt_get k (gw_agents s') =
      (if k = AgentKey route then Some (case bt_get k (gw_agents s) of Some a \<Rightarrow> a | None \<Rightarrow> gw_agentCnt s)
       else if starts_with (FuncIdentity_Prefix (rt_logical route)) k then None else bt_get k (gw_agents s)) \<and>
    (bt_get k (gw_agents s) = Some a \<and> starts_with (FuncIdentity_Prefix (rt_logical route)) k \<and> k \<noteq> AgentKey route \<longrightarrow> fa_closeNotify (gw_agentCells s' a))"
proof -
  obtain s1 b where s1: "get_or_new_agent route s = (Ok b, s1)"
    "\<forall>k. bt_get k (gw_agents s1) = (if k = AgentKey route then Some (case bt_get k (gw_agents s) of Some a \<Rightarrow> a | None \<Rightarrow> gw_agentCnt s) else bt_get k (gw_agents s))"
    using get_or_new_agent_run by blast
  let ?stale = "stale_agents route (gw_agents s)"
  obtain s2 where s2: "aiter RetireAgent ?stale s1 = (Ok (), s2)" "\<forall>k. bt_get k (gw_agents s2) = (if k \<in> set ?stale then None else bt_get k (gw_agents s1))"
    "\<forall>a. fa_closeNotify (gw_agentCells s2 a) \<longleftrightarrow> (\<exists>key \<in> set ?stale. bt_get key (gw_agents s1) = Some a) \<or> fa_closeNotify (gw_agentCells s1 a)"
    using RetireAgents_run by blast
  have "gw_agents s' = gw_agents s2 \<and> (\<forall>a. fa_closeNotify (gw_agentCells s' a) = fa_closeNotify (gw_agentCells s2 a))"
    using assms s1(1) s2(1) by (auto simp: GetClient_def act_simps EnqReq_def split: if_splits)
  moreover have stale: "k \<in> set ?stale \<longleftrightarrow> bt_get k (gw_agents s) \<noteq> None \<and> starts_with (FuncIdentity_Prefix (rt_logical route)) k \<and> k \<noteq> AgentKey route"
    by (auto simp: stale_agents_def bt_get_None_iff)
  moreover have "fa_closeNotify (gw_agentCells s2 a)" if "bt_get k (gw_agents s) = Some a" "k \<in> set ?stale"
  proof -
    have "bt_get k (gw_agents s1) = Some a" using s1(2) that stale by simp
    then show ?thesis using s2(3) that(2) by blast
  qed
  ultimately show ?thesis using s1(2) s2(2) by auto
qed

theorem GetClient_retires_witness:
  "\<exists>r s'. GetClient (ex_route 2) 1000 \<lparr>its_count = 0, its_ms = 0\<rparr> (ex_waiting\<lparr>gw_agents := [(''t/endpoints/mini/1'', 0)]\<rparr>) = (r, s') \<and>
     bt_get ''t/endpoints/mini/1'' (gw_agents s') = None \<and> fa_closeNotify (gw_agentCells s' 0)"
proof -
  let ?s = "ex_waiting\<lparr>gw_agents := [(''t/endpoints/mini/1'', 0)]\<rparr>"
  obtain r s' where g: "GetClient (ex_route 2) 1000 \<lparr>its_count = 0, its_ms = 0\<rparr> ?s = (r, s')" by force
  have "starts_with (FuncIdentity_Prefix (rt_logical (ex_route 2))) ''t/endpoints/mini/1''" "''t/endpoints/mini/1'' \<noteq> AgentKey (ex_route 2)"
    by code_simp+
  then show ?thesis using GetClient_retires[OF g, of "''t/endpoints/mini/1''" 0] g by (auto simp: bt_get_Cons)
qed

end
