(* ===== verification/Auth.thy ===== *)
theory Auth
  imports Handler_Monad Admission "HOL-Library.Product_Lexorder"
begin

text \<open>
  Who may do what at the gateway (\<open>src/ixshare/src/gateway/auth_layer.rs\<close>, the role handlers of \<open>http_gw.rs\<close>): access tokens
  with roles, scopes and restrictions, the cache of tokens by user and by API key, the creation and deletion of API keys, granting and
  revoking roles, and the middleware that gives a request its token. The tables of the PostgreSQL database (\<open>SqlSecret\<close>) are a
  parameter: the record \<open>SqlOps\<close> has the statements the cache runs, over a state of any type. The identity provider's verdict, the
  clock, random keys and \<open>chrono\<close>'s calendar are arguments. An operation of the cache is one step; times are nanoseconds.
\<close>

section \<open>Tokens\<close>

record AccessToken =
  tk_subject :: string
  tk_username :: string
  tk_display_name :: "string option"
  tk_email :: string
  tk_email_verified :: bool
  tk_roles :: "string btset"
  tk_apiKeys :: "string list"
  tk_scope :: string
  tk_sourceIsApikey :: bool
  tk_restrictTenant :: "string option"
  tk_restrictNamespace :: "string option"
  tk_defaultTenant :: "string option"
  tk_updatetime :: nat

definition INERX_ADMIN :: string where
  "INERX_ADMIN = ''inferx_admin''"

definition TENANT_ADMIN :: string where
  "TENANT_ADMIN = ''/tenant/admin/''"

definition TENANT_USER :: string where
  "TENANT_USER = ''/tenant/user/''"

definition NAMSPACE_ADMIN :: string where
  "NAMSPACE_ADMIN = ''/namespace/admin/''"

definition NAMSPACE_USER :: string where
  "NAMSPACE_USER = ''/namespace/user/''"

definition AccessToken_New :: "nat \<Rightarrow> string \<Rightarrow> string list \<Rightarrow> string list \<Rightarrow> AccessToken" where
  "AccessToken_New tm username groups apikeys =
     \<lparr>tk_subject = '''', tk_username = username, tk_display_name = None, tk_email = '''', tk_email_verified = False,
      tk_roles = bs_of_list groups, tk_apiKeys = apikeys, tk_scope = ''full'', tk_sourceIsApikey = False, tk_restrictTenant = None,
      tk_restrictNamespace = None, tk_defaultTenant = None, tk_updatetime = tm\<rparr>"

definition InferxAdminToken :: "nat \<Rightarrow> AccessToken" where
  "InferxAdminToken tm =
     \<lparr>tk_subject = '''', tk_username = INERX_ADMIN, tk_display_name = None, tk_email = '''', tk_email_verified = False,
      tk_roles = [], tk_apiKeys = [], tk_scope = ''full'', tk_sourceIsApikey = False, tk_restrictTenant = None,
      tk_restrictNamespace = None, tk_defaultTenant = None, tk_updatetime = tm\<rparr>"

definition ScopeLevel :: "string \<Rightarrow> int" where
  "ScopeLevel scope = (if scope = ''full'' then 3 else if scope = ''read'' then 2 else if scope = ''inference'' then 1 else 3)"

definition CheckScope :: "AccessToken \<Rightarrow> string \<Rightarrow> bool" where
  "CheckScope self required \<longleftrightarrow> ScopeLevel required \<le> ScopeLevel (tk_scope self)"

definition HasRole :: "AccessToken \<Rightarrow> string \<Rightarrow> bool" where
  "HasRole self role \<longleftrightarrow> bt_contains role (tk_roles self)"

definition HasInferxAdminIdentity :: "AccessToken \<Rightarrow> bool" where
  "HasInferxAdminIdentity self \<longleftrightarrow> tk_username self = INERX_ADMIN \<or> HasRole self (TENANT_ADMIN @ SYSTEM_TENANT)"

definition IsSystemScopedInferxAdminApikey :: "AccessToken \<Rightarrow> bool" where
  "IsSystemScopedInferxAdminApikey self \<longleftrightarrow> tk_sourceIsApikey self \<and> CheckScope self ''full'' \<and> tk_restrictTenant self = Some SYSTEM_TENANT \<and>
     tk_restrictNamespace self = None \<and> HasInferxAdminIdentity self"

definition AllowTenant :: "AccessToken \<Rightarrow> string \<Rightarrow> bool" where
  "AllowTenant self t \<longleftrightarrow> IsSystemScopedInferxAdminApikey self \<or> (case tk_restrictTenant self of Some t' \<Rightarrow> t' = t | None \<Rightarrow> True)"

definition AllowNamespace :: "AccessToken \<Rightarrow> string \<Rightarrow> string \<Rightarrow> bool" where
  "AllowNamespace self t ns \<longleftrightarrow> AllowTenant self t \<and> (case tk_restrictNamespace self of Some ns' \<Rightarrow> ns' = ns | None \<Rightarrow> True)"

definition TenantUserRole :: "string \<Rightarrow> string" where
  "TenantUserRole t = TENANT_USER @ t"

definition TenantAdminRole :: "string \<Rightarrow> string" where
  "TenantAdminRole t = TENANT_ADMIN @ t"

definition NamespaceUserRole :: "string \<Rightarrow> string \<Rightarrow> string" where
  "NamespaceUserRole t ns = NAMSPACE_USER @ t @ ''/'' @ ns"

definition NamespaceAdminRole :: "string \<Rightarrow> string \<Rightarrow> string" where
  "NamespaceAdminRole t ns = NAMSPACE_ADMIN @ t @ ''/'' @ ns"

definition HasTenantAdminRole :: "AccessToken \<Rightarrow> string \<Rightarrow> bool" where
  "HasTenantAdminRole self t \<longleftrightarrow> HasRole self (TENANT_ADMIN @ t)"

definition HasTenantUserRole :: "AccessToken \<Rightarrow> string \<Rightarrow> bool" where
  "HasTenantUserRole self t \<longleftrightarrow> HasRole self (TENANT_USER @ t)"

definition HasNamespaceAdminRole :: "AccessToken \<Rightarrow> string \<Rightarrow> string \<Rightarrow> bool" where
  "HasNamespaceAdminRole self t ns \<longleftrightarrow> HasRole self (NAMSPACE_ADMIN @ t @ ''/'' @ ns)"

definition HasNamespaceUserRole :: "AccessToken \<Rightarrow> string \<Rightarrow> string \<Rightarrow> bool" where
  "HasNamespaceUserRole self t ns \<longleftrightarrow> HasRole self (NAMSPACE_USER @ t @ ''/'' @ ns)"

definition IsInferxAdmin :: "AccessToken \<Rightarrow> bool" where
  "IsInferxAdmin self =
     (if tk_sourceIsApikey self \<and> \<not> CheckScope self ''full'' then False
      else if tk_sourceIsApikey self \<and> (tk_restrictTenant self \<noteq> None \<or> tk_restrictNamespace self \<noteq> None) \<and> \<not> IsSystemScopedInferxAdminApikey self then False
      else HasInferxAdminIdentity self)"

definition HasTenantUserPermission :: "AccessToken \<Rightarrow> string \<Rightarrow> bool" where
  "HasTenantUserPermission self t \<longleftrightarrow> IsInferxAdmin self \<or> t = ''public'' \<or> HasTenantUserRole self t \<or> HasTenantAdminRole self t"

definition HasNamespaceAdminPermission :: "AccessToken \<Rightarrow> string \<Rightarrow> string \<Rightarrow> bool" where
  "HasNamespaceAdminPermission self t ns \<longleftrightarrow> IsInferxAdmin self \<or> HasTenantAdminRole self t \<or> HasNamespaceAdminRole self t ns"

definition HasNamespaceUserPermission :: "AccessToken \<Rightarrow> string \<Rightarrow> string \<Rightarrow> bool" where
  "HasNamespaceUserPermission self t ns \<longleftrightarrow> IsInferxAdmin self \<or> t = ''public'' \<or> HasTenantUserPermission self t \<or>
     HasNamespaceUserRole self t ns \<or> HasNamespaceAdminPermission self t ns"

definition UserKey :: "AccessToken \<Rightarrow> string" where
  "UserKey self = tk_username self"

text \<open>Cached for 60 seconds; a time of creation in the future counts as expired.\<close>

definition Token_Timeout :: "nat \<Rightarrow> AccessToken \<Rightarrow> bool" where
  "Token_Timeout tm self = (if tm < tk_updatetime self then True else \<not> tm - tk_updatetime self \<le> 60000000000)"

definition IsTenantUser :: "AccessToken \<Rightarrow> string \<Rightarrow> bool" where
  "IsTenantUser self t \<longleftrightarrow> CheckScope self ''read'' \<and> AllowTenant self t \<and> HasTenantUserPermission self t"

definition IsNamespaceUser :: "AccessToken \<Rightarrow> string \<Rightarrow> string \<Rightarrow> bool" where
  "IsNamespaceUser self t ns \<longleftrightarrow> CheckScope self ''read'' \<and> AllowNamespace self t ns \<and> HasNamespaceUserPermission self t ns"

definition IsNamespaceInferenceUser :: "AccessToken \<Rightarrow> string \<Rightarrow> string \<Rightarrow> bool" where
  "IsNamespaceInferenceUser self t ns \<longleftrightarrow>
     CheckScope self ''inference'' \<and> (t = ''public'' \<or> AllowNamespace self t ns \<and> HasNamespaceUserPermission self t ns)"

definition IsTenantAdmin :: "AccessToken \<Rightarrow> string \<Rightarrow> bool" where
  "IsTenantAdmin self t \<longleftrightarrow> CheckScope self ''full'' \<and> AllowTenant self t \<and> (IsInferxAdmin self \<or> HasTenantAdminRole self t)"

definition IsNamespaceAdmin :: "AccessToken \<Rightarrow> string \<Rightarrow> string \<Rightarrow> bool" where
  "IsNamespaceAdmin self t ns \<longleftrightarrow> CheckScope self ''full'' \<and> AllowNamespace self t ns \<and> HasNamespaceAdminPermission self t ns"

section \<open>Lists of tenants and namespaces\<close>

text \<open>What follows a prefix, for the roles from it on, up to the first without it.\<close>

definition roles_with :: "string \<Rightarrow> AccessToken \<Rightarrow> string list" where
  "roles_with pre self = map (drop (length pre)) (takeWhile (starts_with pre) (bt_keys (bt_range_from pre (tk_roles self))))"

definition AdminTenants :: "AccessToken \<Rightarrow> string list" where
  "AdminTenants self = filter (AllowTenant self) (roles_with TENANT_ADMIN self)"

fun ns_items :: "AccessToken \<Rightarrow> string list \<Rightarrow> ((string \<times> string) list, error) res" where
  "ns_items self [] = Ok []"
| "ns_items self (r # rs) =
     (case split_on CHR ''/'' r of
        [t, ns] \<Rightarrow> and_then (ns_items self rs) (\<lambda>items. Ok (if AllowNamespace self t ns then (t, ns) # items else items))
      | _ \<Rightarrow> Panic)"

definition AdminNamespaces :: "AccessToken \<Rightarrow> ((string \<times> string) list, error) res" where
  "AdminNamespaces self = ns_items self (roles_with NAMSPACE_ADMIN self)"

definition UserTenants :: "AccessToken \<Rightarrow> string list" where
  "UserTenants self =
     bt_keys (fold bs_insert (AdminTenants self) (bs_of_list (filter (AllowTenant self) (roles_with TENANT_USER self)))) @
     (if AllowTenant self ''public'' then [''public''] else [])"

definition UserNamespaces :: "AccessToken \<Rightarrow> ((string \<times> string) list, error) res" where
  "UserNamespaces self =
     and_then (ns_items self (roles_with NAMSPACE_USER self)) (\<lambda>items.
     and_then (AdminNamespaces self) (\<lambda>more.
     Ok (bt_keys (fold bs_insert more (bs_of_list items)))))"

section \<open>Role bindings\<close>

datatype ObjectType = OtTenant | OtNamespace

datatype UserRole = RoleAdmin | RoleUser

record RoleBinding =
  rb_objType :: ObjectType
  rb_role :: UserRole
  rb_tenant :: string
  rb_namespace :: string

definition trim_slashes :: "string \<Rightarrow> string" where
  "trim_slashes s = rev (dropWhile (\<lambda>c. c = CHR ''/'') (rev (dropWhile (\<lambda>c. c = CHR ''/'') s)))"

definition ParseRoleBinding :: "string \<Rightarrow> (RoleBinding, error) res" where
  "ParseRoleBinding s =
     (let parts = split_on CHR ''/'' (trim_slashes s) in
      if length parts \<noteq> 3 \<and> length parts \<noteq> 4 then Err (CommonError (''invalid ParseRoleBinding 1 path: '' @ s))
      else
        and_then (if parts ! 1 = ''admin'' then Ok RoleAdmin else if parts ! 1 = ''user'' then Ok RoleUser
                  else Err (CommonError (''unknown role: '' @ parts ! 1 @ '' in ''))) (\<lambda>role.
        and_then (if parts ! 0 = ''tenant'' then Ok OtTenant else if parts ! 0 = ''namespace'' then Ok OtNamespace
                  else Err (CommonError (''unknown scope: '' @ parts ! 0 @ '' in ''))) (\<lambda>ty.
        case ty of
          OtTenant \<Rightarrow>
            if length parts \<noteq> 3 then Err (CommonError ''invalid ParseRoleBinding 2 path: '')
            else Ok \<lparr>rb_objType = ty, rb_role = role, rb_tenant = parts ! 2, rb_namespace = ''''\<rparr>
        | OtNamespace \<Rightarrow>
            if length parts \<noteq> 4 then Err (CommonError ''invalid ParseRoleBinding 3 path: '')
            else Ok \<lparr>rb_objType = ty, rb_role = role, rb_tenant = parts ! 2, rb_namespace = parts ! 3\<rparr>)))"

fun parse_all :: "string list \<Rightarrow> (RoleBinding list, error) res" where
  "parse_all [] = Ok []"
| "parse_all (r # rs) = and_then (ParseRoleBinding r) (\<lambda>b. and_then (parse_all rs) (\<lambda>bs. Ok (b # bs)))"

definition RoleBindings :: "AccessToken \<Rightarrow> (RoleBinding list, error) res" where
  "RoleBindings self = parse_all (bt_keys (tk_roles self))"

section \<open>The database\<close>

record Apikey =
  ak_apikey :: string
  ak_username :: string
  ak_keyname :: string
  ak_access_level :: string
  ak_restrict_tenant :: "string option"
  ak_restrict_namespace :: "string option"
  ak_expires_at :: "nat option"
  ak_revoked_at :: "nat option"

record UserProfile =
  up_sub :: string
  up_default_tenant :: "string option"

record 'db SqlOps =
  sq_CreateApikey :: "'db \<Rightarrow> Apikey \<Rightarrow> ('db, error) res"
  sq_GetApikey :: "'db \<Rightarrow> string \<Rightarrow> (Apikey, error) res"
  sq_GetApikeys :: "'db \<Rightarrow> string \<Rightarrow> (Apikey list, error) res"
  sq_DeleteApikey :: "'db \<Rightarrow> string \<Rightarrow> string \<Rightarrow> ('db \<times> string list, error) res"
  sq_AddRole :: "'db \<Rightarrow> string \<Rightarrow> string \<Rightarrow> ('db, error) res"
  sq_GetRoles :: "'db \<Rightarrow> string \<Rightarrow> (string list, error) res"
  sq_DeleteRole :: "'db \<Rightarrow> string \<Rightarrow> string \<Rightarrow> ('db, error) res"
  sq_GetTenantAdmins :: "'db \<Rightarrow> string \<Rightarrow> (string list, error) res"
  sq_GetTenantUsers :: "'db \<Rightarrow> string \<Rightarrow> (string list, error) res"
  sq_GetNamespaceAdmins :: "'db \<Rightarrow> string \<Rightarrow> string \<Rightarrow> (string list, error) res"
  sq_GetNamespaceUsers :: "'db \<Rightarrow> string \<Rightarrow> string \<Rightarrow> (string list, error) res"
  sq_GetUserProfile :: "'db \<Rightarrow> string \<Rightarrow> (UserProfile option, error) res"

record 'db AuthEnv =
  ae_sql :: "'db SqlOps"
  ae_now :: nat
  ae_add_days :: "nat \<Rightarrow> nat \<Rightarrow> (nat, error) res"
  ae_raw_apikey :: string
  ae_inferxAdminApikey :: string
  ae_tenantMgr :: "TenantObject DataObjectMgr"
  ae_namespaceMgr :: "NamespaceObject DataObjectMgr"
  ae_repo_ready :: bool

record 'db TokenCache =
  tc_apikeyStore :: "(string, AccessToken) btmap"
  tc_usernameStore :: "(string, AccessToken) btmap"
  tc_anonymous :: AccessToken
  tc_db :: 'db

definition sql_read :: "('db \<Rightarrow> ('a, error) res) \<Rightarrow> ('db TokenCache, 'a) act" where
  "sql_read q = abind (aget (\<lambda>s. q (tc_db s))) alift"

definition sql_write :: "('db \<Rightarrow> ('db, error) res) \<Rightarrow> ('db TokenCache, unit) act" where
  "sql_write q = abind (sql_read q) (\<lambda>db. amod (\<lambda>s. s\<lparr>tc_db := db\<rparr>))"

section \<open>The cache of tokens\<close>

definition anonymous_token :: "nat \<Rightarrow> AccessToken" where
  "anonymous_token tm =
     \<lparr>tk_subject = '''', tk_username = ''anonymous'', tk_display_name = None, tk_email = '''', tk_email_verified = False,
      tk_roles = [], tk_apiKeys = [], tk_scope = ''read'', tk_sourceIsApikey = False, tk_restrictTenant = None,
      tk_restrictNamespace = None, tk_defaultTenant = None, tk_updatetime = tm\<rparr>"

definition TokenCache_New :: "nat \<Rightarrow> 'db \<Rightarrow> 'db TokenCache" where
  "TokenCache_New tm db = \<lparr>tc_apikeyStore = [], tc_usernameStore = [], tc_anonymous = anonymous_token tm, tc_db = db\<rparr>"

definition remove_all :: "string list \<Rightarrow> (string, 'v) btmap \<Rightarrow> (string, 'v) btmap" where
  "remove_all ks m = fold bt_remove ks m"

definition EvactionToken :: "AccessToken \<Rightarrow> ('db TokenCache, unit) act" where
  "EvactionToken token =
     amod (\<lambda>s. s\<lparr>tc_apikeyStore := remove_all (tk_apiKeys token) (tc_apikeyStore s),
                 tc_usernameStore := bt_remove (UserKey token) (tc_usernameStore s)\<rparr>)"

definition Replace :: "AccessToken option \<Rightarrow> AccessToken \<Rightarrow> ('db TokenCache, unit) act" where
  "Replace oldToken newtoken =
     aseq (asome oldToken EvactionToken)
       (amod (\<lambda>s. s\<lparr>tc_usernameStore := bt_insert (UserKey newtoken) newtoken (tc_usernameStore s)\<rparr>))"

definition NormalizeScope :: "string \<Rightarrow> string" where
  "NormalizeScope scope = scope"

definition ValidateScope :: "string \<Rightarrow> (unit, error) res" where
  "ValidateScope scope =
     (if scope \<in> set [''full'', ''inference'', ''read''] then Ok () else Err (CommonError (''invalid apikey access_level '' @ scope)))"

definition NormalizeRequiredTenant :: "string option \<Rightarrow> (string, error) res" where
  "NormalizeRequiredTenant restrict_tenant =
     (case restrict_tenant of
        None \<Rightarrow> Err (CommonError ''restrict_tenant is required'')
      | Some t \<Rightarrow> if trim t = '''' then Err (CommonError ''restrict_tenant cannot be empty'') else Ok (trim t))"

definition NormalizeOptionalNamespace :: "string option \<Rightarrow> (string option, error) res" where
  "NormalizeOptionalNamespace restrict_namespace =
     (case restrict_namespace of
        Some ns \<Rightarrow> if trim ns = '''' then Err (CommonError ''restrict_namespace cannot be empty'') else Ok (Some (trim ns))
      | None \<Rightarrow> Ok None)"

definition RoleAllowedByRestriction :: "string \<Rightarrow> string \<Rightarrow> string option \<Rightarrow> bool" where
  "RoleAllowedByRestriction role restrict_tenant restrict_namespace =
     (case split_on CHR ''/'' (trim_slashes role) of
        [k, _, t] \<Rightarrow> k = ''tenant'' \<and> t = restrict_tenant \<and> restrict_namespace = None
      | [k, _, t, ns] \<Rightarrow> k = ''namespace'' \<and> t = restrict_tenant \<and> (case restrict_namespace of Some rn \<Rightarrow> ns = rn | None \<Rightarrow> True)
      | _ \<Rightarrow> False)"

definition ApplyApikeyRestrictions :: "nat \<Rightarrow> AccessToken \<Rightarrow> Apikey \<Rightarrow> (AccessToken, error) res" where
  "ApplyApikeyRestrictions tm base apikey =
     (let normalized_scope = NormalizeScope (ak_access_level apikey) in
      and_then (ValidateScope normalized_scope) (\<lambda>_.
      and_then (NormalizeRequiredTenant (ak_restrict_tenant apikey)) (\<lambda>restrict_tenant.
      and_then (NormalizeOptionalNamespace (ak_restrict_namespace apikey)) (\<lambda>restrict_namespace.
      Ok \<lparr>tk_subject = tk_subject base, tk_username = tk_username base, tk_display_name = tk_display_name base, tk_email = tk_email base,
          tk_email_verified = tk_email_verified base,
          tk_roles = bs_of_list (filter (\<lambda>r. RoleAllowedByRestriction r restrict_tenant restrict_namespace) (bt_keys (tk_roles base))),
          tk_apiKeys = tk_apiKeys base, tk_scope = normalized_scope, tk_sourceIsApikey = True, tk_restrictTenant = Some restrict_tenant,
          tk_restrictNamespace = restrict_namespace, tk_defaultTenant = None, tk_updatetime = tm\<rparr>))))"

definition GetTokenByUsername :: "'db AuthEnv \<Rightarrow> string \<Rightarrow> ('db TokenCache, AccessToken) act" where
  "GetTokenByUsername env username =
     abind (aget (\<lambda>s. bt_get username (tc_usernameStore s))) (\<lambda>cached.
     let refresh =
       abind (sql_read (\<lambda>db. sq_GetApikeys (ae_sql env) db username)) (\<lambda>apikeys.
       abind (sql_read (\<lambda>db. sq_GetRoles (ae_sql env) db username)) (\<lambda>groups.
       let newToken = AccessToken_New (ae_now env) username groups (map ak_apikey apikeys) in
       aseq (Replace cached newToken) (ret newToken)))
     in case cached of
          Some g \<Rightarrow> if Token_Timeout (ae_now env) g then refresh else ret g
        | None \<Rightarrow> refresh)"

definition GetTokenByApikey :: "'db AuthEnv \<Rightarrow> string \<Rightarrow> ('db TokenCache, AccessToken) act" where
  "GetTokenByApikey env apikey =
     (if 0 < length (ae_inferxAdminApikey env) \<and> apikey = ae_inferxAdminApikey env then ret (InferxAdminToken (ae_now env))
      else
        abind (aget (\<lambda>s. bt_get apikey (tc_apikeyStore s))) (\<lambda>cached.
        let rebuild =
          abind (sql_read (\<lambda>db. sq_GetApikey (ae_sql env) db apikey)) (\<lambda>key.
          if ak_revoked_at key \<noteq> None then athrow NoPermission
          else if (case ak_expires_at key of Some e \<Rightarrow> e < ae_now env | None \<Rightarrow> False) then athrow NoPermission
          else
            abind (GetTokenByUsername env (ak_username key)) (\<lambda>base.
            abind (alift (ApplyApikeyRestrictions (ae_now env) base key)) (\<lambda>restricted.
            aseq (amod (\<lambda>s. s\<lparr>tc_apikeyStore := bt_insert apikey restricted (tc_apikeyStore s)\<rparr>)) (ret restricted))))
        in case cached of
             Some g \<Rightarrow>
               if Token_Timeout (ae_now env) g then aseq (amod (\<lambda>s. s\<lparr>tc_apikeyStore := bt_remove apikey (tc_apikeyStore s)\<rparr>)) rebuild
               else ret g
           | None \<Rightarrow> rebuild))"

section \<open>API keys\<close>

record ApikeyCreateRequest =
  cq_username :: string
  cq_keyname :: string
  cq_access_level :: "string option"
  cq_restrict_tenant :: "string option"
  cq_restrict_namespace :: "string option"
  cq_expires_in_days :: "nat option"

record ApikeyCreateResponse =
  cp_apikey :: string
  cp_keyname :: string
  cp_access_level :: string
  cp_restrict_tenant :: "string option"
  cp_restrict_namespace :: "string option"
  cp_expires_at :: "nat option"

record ApikeyDeleteRequest =
  dq_username :: string
  dq_keyname :: string

definition key_owner :: "AccessToken \<Rightarrow> string \<Rightarrow> (string, error) res" where
  "key_owner token username =
     (if length username = 0 then Ok (tk_username token)
      else if username = tk_username token then Ok (tk_username token)
      else if \<not> IsInferxAdmin token then Err NoPermission
      else Ok username)"

text \<open>Access level and restrictions of the new key: those of an administrator's own key are fixed.\<close>

definition admin_key :: "ApikeyCreateRequest \<Rightarrow> (string \<times> string \<times> string option, error) res" where
  "admin_key req =
     (if (case cq_restrict_tenant req of Some t \<Rightarrow> trim t \<noteq> SYSTEM_TENANT | None \<Rightarrow> False)
      then Err (CommonError (''inferx admin self apikey restrict_tenant must be '' @ [CHR 0x27] @ SYSTEM_TENANT @ [CHR 0x27]))
      else if (case cq_restrict_namespace req of Some ns \<Rightarrow> trim ns \<noteq> '''' | None \<Rightarrow> False)
      then Err (CommonError ''inferx admin self apikey does not allow restrict_namespace'')
      else if (case cq_access_level req of Some l \<Rightarrow> trim l \<noteq> ''full'' | None \<Rightarrow> False)
      then Err (CommonError ''inferx admin self apikey access_level must be full'')
      else Ok (''full'', SYSTEM_TENANT, None))"

definition user_key :: "AccessToken \<Rightarrow> ApikeyCreateRequest \<Rightarrow> (string \<times> string \<times> string option, error) res" where
  "user_key token req =
     (let access_level = NormalizeScope (case cq_access_level req of Some l \<Rightarrow> l | None \<Rightarrow> ''inference'') in
      and_then (ValidateScope access_level) (\<lambda>_.
      and_then (NormalizeRequiredTenant (cq_restrict_tenant req)) (\<lambda>restrict_tenant.
      and_then (NormalizeOptionalNamespace (cq_restrict_namespace req)) (\<lambda>restrict_namespace.
      if \<not> IsInferxAdmin token \<and>
         (case restrict_namespace of
            Some ns \<Rightarrow> \<not> IsTenantUser token restrict_tenant \<and> \<not> IsNamespaceUser token restrict_tenant ns
          | None \<Rightarrow> \<not> IsTenantUser token restrict_tenant)
      then Err NoPermission
      else Ok (access_level, restrict_tenant, restrict_namespace)))))"

definition CreateApikey :: "'db AuthEnv \<Rightarrow> AccessToken \<Rightarrow> ApikeyCreateRequest \<Rightarrow> ('db TokenCache, ApikeyCreateResponse) act" where
  "CreateApikey env token req =
     abind (alift (key_owner token (cq_username req))) (\<lambda>username.
     if trim (cq_keyname req) = '''' then athrow (CommonError ''apikey keyname cannot be empty'')
     else
       abind (alift (if IsInferxAdmin token \<and> username = tk_username token then admin_key req else user_key token req))
         (\<lambda>(access_level, restrict_tenant, restrict_namespace).
       abind (alift (case cq_expires_in_days req of None \<Rightarrow> Ok None | Some d \<Rightarrow> and_then (ae_add_days env (ae_now env) d) (\<lambda>e. Ok (Some e)))) (\<lambda>expires_at.
       aseq (sql_write (\<lambda>db. sq_CreateApikey (ae_sql env) db
               \<lparr>ak_apikey = ae_raw_apikey env, ak_username = username, ak_keyname = cq_keyname req, ak_access_level = access_level,
                ak_restrict_tenant = Some restrict_tenant, ak_restrict_namespace = restrict_namespace, ak_expires_at = expires_at,
                ak_revoked_at = None\<rparr>))
      (aseq (amod (\<lambda>s. s\<lparr>tc_usernameStore := bt_remove username (tc_usernameStore s)\<rparr>))
         (ret \<lparr>cp_apikey = ae_raw_apikey env, cp_keyname = cq_keyname req, cp_access_level = access_level,
               cp_restrict_tenant = Some restrict_tenant, cp_restrict_namespace = restrict_namespace, cp_expires_at = expires_at\<rparr>)))))"

definition DeleteApiKey :: "'db AuthEnv \<Rightarrow> AccessToken \<Rightarrow> ApikeyDeleteRequest \<Rightarrow> ('db TokenCache, bool) act" where
  "DeleteApiKey env token req =
     abind (alift (key_owner token (dq_username req))) (\<lambda>username.
     abind (sql_read (\<lambda>db. sq_DeleteApikey (ae_sql env) db (dq_keyname req) username)) (\<lambda>(db, deleted_keys).
     aseq (amod (\<lambda>s. s\<lparr>tc_db := db\<rparr>))
       (if deleted_keys = [] then ret False
        else
          aseq (amod (\<lambda>s. s\<lparr>tc_apikeyStore := remove_all deleted_keys (tc_apikeyStore s),
                            tc_usernameStore := bt_remove username (tc_usernameStore s)\<rparr>))
            (ret True))))"

section \<open>Granting and revoking roles\<close>

definition grant_role :: "'db AuthEnv \<Rightarrow> AccessToken \<Rightarrow> string \<Rightarrow> string \<Rightarrow> ('db TokenCache, unit) act" where
  "grant_role env token role username =
     aseq (sql_write (\<lambda>db. sq_AddRole (ae_sql env) db username role)) (EvactionToken token)"

definition revoke_role :: "'db AuthEnv \<Rightarrow> AccessToken \<Rightarrow> string \<Rightarrow> string \<Rightarrow> ('db TokenCache, unit) act" where
  "revoke_role env token role username =
     aseq (sql_write (\<lambda>db. sq_DeleteRole (ae_sql env) db username role)) (EvactionToken token)"

definition GrantTenantAdminPermission :: "'db AuthEnv \<Rightarrow> AccessToken \<Rightarrow> string \<Rightarrow> string \<Rightarrow> ('db TokenCache, unit) act" where
  "GrantTenantAdminPermission env token t username = grant_role env token (TenantAdminRole t) username"

definition RevokeTenantAdminPermission :: "'db AuthEnv \<Rightarrow> AccessToken \<Rightarrow> string \<Rightarrow> string \<Rightarrow> ('db TokenCache, unit) act" where
  "RevokeTenantAdminPermission env token t username = revoke_role env token (TenantAdminRole t) username"

definition GrantTenantUserPermission :: "'db AuthEnv \<Rightarrow> AccessToken \<Rightarrow> string \<Rightarrow> string \<Rightarrow> ('db TokenCache, unit) act" where
  "GrantTenantUserPermission env token t username = grant_role env token (TenantUserRole t) username"

definition RevokeTenantUserPermission :: "'db AuthEnv \<Rightarrow> AccessToken \<Rightarrow> string \<Rightarrow> string \<Rightarrow> ('db TokenCache, unit) act" where
  "RevokeTenantUserPermission env token t username = revoke_role env token (TenantUserRole t) username"

definition GrantNamespaceAdminPermission :: "'db AuthEnv \<Rightarrow> AccessToken \<Rightarrow> string \<Rightarrow> string \<Rightarrow> string \<Rightarrow> ('db TokenCache, unit) act" where
  "GrantNamespaceAdminPermission env token t ns username = grant_role env token (NamespaceAdminRole t ns) username"

definition RevokeNamespaceAdminPermission :: "'db AuthEnv \<Rightarrow> AccessToken \<Rightarrow> string \<Rightarrow> string \<Rightarrow> string \<Rightarrow> ('db TokenCache, unit) act" where
  "RevokeNamespaceAdminPermission env token t ns username = revoke_role env token (NamespaceAdminRole t ns) username"

definition GrantNamespaceUserPermission :: "'db AuthEnv \<Rightarrow> AccessToken \<Rightarrow> string \<Rightarrow> string \<Rightarrow> string \<Rightarrow> ('db TokenCache, unit) act" where
  "GrantNamespaceUserPermission env token t ns username = grant_role env token (NamespaceUserRole t ns) username"

definition RevokeNamespaceUserPermission :: "'db AuthEnv \<Rightarrow> AccessToken \<Rightarrow> string \<Rightarrow> string \<Rightarrow> string \<Rightarrow> ('db TokenCache, unit) act" where
  "RevokeNamespaceUserPermission env token t ns username = revoke_role env token (NamespaceUserRole t ns) username"

definition tenant_known :: "'db AuthEnv \<Rightarrow> string \<Rightarrow> (unit, error) res" where
  "tenant_known env t =
     (if \<not> is_ok (DataObjectMgr_Get (ae_tenantMgr env) ''system'' ''system'' t) \<and> t \<noteq> SYSTEM_TENANT
      then Err (NotExist (''fail to get tenant '' @ t @ '' with error '')) else Ok ())"

definition namespace_known :: "'db AuthEnv \<Rightarrow> string \<Rightarrow> string \<Rightarrow> (unit, error) res" where
  "namespace_known env t ns =
     (if \<not> is_ok (DataObjectMgr_Get (ae_namespaceMgr env) t ''system'' ns)
      then Err (NotExist (''fail to get namespace '' @ t @ ''/'' @ ns @ '' with error '')) else Ok ())"

definition user_token :: "'db AuthEnv \<Rightarrow> string \<Rightarrow> string \<Rightarrow> ('db TokenCache, AccessToken) act" where
  "user_token env t username =
     abind (atry (GetTokenByUsername env username)) (\<lambda>r.
     case r of
       Ok token \<Rightarrow> ret token
     | Err e \<Rightarrow> athrow (NotExist (''fail to get access token for user '' @ t @ '' with error ''))
     | Panic \<Rightarrow> apanic)"

definition GrantTenantRole :: "'db AuthEnv \<Rightarrow> AccessToken \<Rightarrow> string \<Rightarrow> UserRole \<Rightarrow> string \<Rightarrow> ('db TokenCache, unit) act" where
  "GrantTenantRole env token t role username =
     aseq (alift (tenant_known env t))
       (if \<not> IsInferxAdmin token \<and> \<not> IsTenantAdmin token t then athrow NoPermission
        else
          abind (user_token env t username) (\<lambda>usertoken.
          case role of
            RoleAdmin \<Rightarrow>
              if IsTenantAdmin usertoken t then athrow (Exist (''user '' @ username @ '' already tenant '' @ t @ '' admin''))
              else GrantTenantAdminPermission env usertoken t username
          | RoleUser \<Rightarrow>
              if IsTenantUser usertoken t then athrow (Exist (''user '' @ username @ '' already tenant '' @ t @ '' user''))
              else GrantTenantUserPermission env usertoken t username))"

definition RevokeTenantRole :: "'db AuthEnv \<Rightarrow> AccessToken \<Rightarrow> string \<Rightarrow> UserRole \<Rightarrow> string \<Rightarrow> ('db TokenCache, unit) act" where
  "RevokeTenantRole env token t role username =
     aseq (alift (tenant_known env t))
       (if \<not> IsInferxAdmin token \<and> \<not> IsTenantAdmin token t then athrow NoPermission
        else
          abind (user_token env t username) (\<lambda>usertoken.
          case role of
            RoleAdmin \<Rightarrow>
              if \<not> IsTenantAdmin usertoken t then athrow (NotExist (''user '' @ username @ '' is not tenant '' @ t @ '' admin''))
              else RevokeTenantAdminPermission env usertoken t username
          | RoleUser \<Rightarrow>
              if \<not> IsTenantUser usertoken t then athrow (NotExist (''user '' @ username @ '' already tenant '' @ t @ '' user''))
              else RevokeTenantUserPermission env usertoken t username))"

definition GrantNamespaceRole :: "'db AuthEnv \<Rightarrow> AccessToken \<Rightarrow> string \<Rightarrow> string \<Rightarrow> UserRole \<Rightarrow> string \<Rightarrow> ('db TokenCache, unit) act" where
  "GrantNamespaceRole env token t ns role username =
     aseq (alift (namespace_known env t ns))
       (if \<not> IsInferxAdmin token \<and> \<not> IsTenantAdmin token t \<and> \<not> IsNamespaceAdmin token t ns then athrow NoPermission
        else
          abind (user_token env t username) (\<lambda>usertoken.
          case role of
            RoleAdmin \<Rightarrow>
              if IsNamespaceAdmin usertoken t ns then athrow (Exist (''user '' @ username @ '' already namespace '' @ t @ ''/'' @ ns @ '' admin''))
              else GrantNamespaceAdminPermission env usertoken t ns username
          | RoleUser \<Rightarrow>
              if IsNamespaceUser usertoken t ns then athrow (Exist (''user '' @ username @ '' already namespace '' @ t @ ''/'' @ ns @ '' admin''))
              else GrantNamespaceUserPermission env usertoken t ns username))"

definition RevokeNamespaceRole :: "'db AuthEnv \<Rightarrow> AccessToken \<Rightarrow> string \<Rightarrow> string \<Rightarrow> UserRole \<Rightarrow> string \<Rightarrow> ('db TokenCache, unit) act" where
  "RevokeNamespaceRole env token t ns role username =
     aseq (alift (namespace_known env t ns))
       (if \<not> IsInferxAdmin token \<and> \<not> IsTenantAdmin token t \<and> \<not> IsNamespaceAdmin token t ns then athrow NoPermission
        else
          abind (user_token env t username) (\<lambda>usertoken.
          case role of
            RoleAdmin \<Rightarrow>
              if \<not> IsNamespaceAdmin usertoken t ns then athrow (NotExist (''user '' @ username @ '' is not namespace '' @ t @ ''/'' @ ns @ '' admin''))
              else RevokeNamespaceAdminPermission env usertoken t ns username
          | RoleUser \<Rightarrow>
              if \<not> IsNamespaceUser usertoken t ns then athrow (Exist (''user '' @ username @ '' is not namespace '' @ t @ ''/'' @ ns @ '' admin''))
              else RevokeNamespaceUserPermission env usertoken t ns username))"

datatype PermissionType = Grant | Revoke

definition Rbac :: "'db AuthEnv \<Rightarrow> AccessToken \<Rightarrow> PermissionType \<Rightarrow> ObjectType \<Rightarrow> string \<Rightarrow> string \<Rightarrow> string \<Rightarrow> UserRole \<Rightarrow> string \<Rightarrow> ('db TokenCache, unit) act" where
  "Rbac env token permissionType ty t ns name role username =
     (case ty of
        OtTenant \<Rightarrow>
          if t \<noteq> ''system'' \<or> ns \<noteq> ''system'' then athrow (CommonError ''invalid tenant or namespace name'')
          else (case permissionType of
                  Grant \<Rightarrow> GrantTenantRole env token name role username
                | Revoke \<Rightarrow> RevokeTenantRole env token name role username)
      | OtNamespace \<Rightarrow>
          if ns \<noteq> ''system'' then athrow (CommonError ''invalid tenant or namespace name'')
          else (case permissionType of
                  Grant \<Rightarrow> GrantNamespaceRole env token t name role username
                | Revoke \<Rightarrow> RevokeNamespaceRole env token t name role username))"

definition RbacTenantUsers :: "'db AuthEnv \<Rightarrow> AccessToken \<Rightarrow> string \<Rightarrow> string \<Rightarrow> ('db TokenCache, string list) act" where
  "RbacTenantUsers env token role t =
     (if \<not> IsInferxAdmin token \<and> \<not> IsTenantAdmin token t then athrow NoPermission
      else if role = ''admin'' then sql_read (\<lambda>db. sq_GetTenantAdmins (ae_sql env) db t)
      else if role = ''user'' then sql_read (\<lambda>db. sq_GetTenantUsers (ae_sql env) db t)
      else athrow (CommonError (''the role name '' @ role @ '' is not valid'')))"

definition RbacNamespaceUsers :: "'db AuthEnv \<Rightarrow> AccessToken \<Rightarrow> string \<Rightarrow> string \<Rightarrow> string \<Rightarrow> ('db TokenCache, string list) act" where
  "RbacNamespaceUsers env token role t ns =
     (if \<not> IsInferxAdmin token \<and> \<not> IsTenantAdmin token t \<and> \<not> IsNamespaceAdmin token t ns then athrow NoPermission
      else if role = ''admin'' then sql_read (\<lambda>db. sq_GetNamespaceAdmins (ae_sql env) db t ns)
      else if role = ''user'' then sql_read (\<lambda>db. sq_GetNamespaceUsers (ae_sql env) db t ns)
      else athrow (CommonError (''the role name '' @ role @ '' is not valid'')))"

section \<open>The token of a request\<close>

definition is_public_funccall_path :: "string \<Rightarrow> bool" where
  "is_public_funccall_path path =
     (let parts = split_on CHR ''/'' path in
      if length parts < 4 then False
      else parts ! 1 \<in> set [''funccall'', ''directfunccall'', ''sampleccall'', ''modelcall''] \<and> parts ! 2 = ''public'')"

datatype DefaultTenantValidationError = DtUnauthorized string | DtUnavailable string

definition resolve_valid_default_tenant ::
  "AccessToken \<Rightarrow> UserProfile option \<Rightarrow> bool \<Rightarrow> (string \<Rightarrow> (bool, string) res) \<Rightarrow> (string option, DefaultTenantValidationError) res" where
  "resolve_valid_default_tenant token profile allow_missing_profile tenant_exists =
     (let missing = Err (DtUnauthorized ''missing default tenant for authenticated user'') in
      case profile of
        None \<Rightarrow> if allow_missing_profile then Ok None else missing
      | Some profile \<Rightarrow>
          (case map_option trim (up_default_tenant profile) of
             None \<Rightarrow> missing
           | Some t \<Rightarrow>
               if t = '''' then missing
               else (case tenant_exists t of
                       Err m \<Rightarrow> Err (DtUnavailable m)
                     | Panic \<Rightarrow> Panic
                     | Ok exists \<Rightarrow>
                         if \<not> exists then Err (DtUnauthorized (''default tenant '' @ [CHR 0x27] @ t @ [CHR 0x27] @ '' does not exist''))
                         else if \<not> IsTenantUser token t
                         then Err (DtUnauthorized (''default tenant '' @ [CHR 0x27] @ t @ [CHR 0x27] @ '' is not authorized for authenticated user''))
                         else Ok (Some t))))"

text \<open>What the provider's layer put into the request: the claims of a valid token, or that there is none.\<close>

record KeycloakToken =
  kc_issuer :: string
  kc_subject :: string
  kc_preferred_username :: string
  kc_full_name :: "string option"
  kc_given_name :: "string option"
  kc_email :: string
  kc_email_verified :: bool

datatype KeycloakAuthStatus = KcSuccess KeycloakToken | KcFailure

definition Realm :: "KeycloakToken \<Rightarrow> string" where
  "Realm token = (let splits = split_on CHR ''/'' (kc_issuer token) in splits ! (length splits - 1))"

definition not_blank :: "string option \<Rightarrow> string option" where
  "not_blank x = (case x of Some s \<Rightarrow> if trim s \<noteq> '''' then Some s else None | None \<Rightarrow> None)"

definition DisplayName :: "KeycloakToken \<Rightarrow> string option" where
  "DisplayName token = (case not_blank (kc_full_name token) of Some s \<Rightarrow> Some s | None \<Rightarrow> not_blank (kc_given_name token))"

datatype AuthOutcome = Pass AccessToken | Unauthorized | Unavailable

definition login_token :: "'db AuthEnv \<Rightarrow> string \<Rightarrow> KeycloakToken \<Rightarrow> ('db TokenCache, AuthOutcome) act" where
  "login_token env path t =
     abind (atry (GetTokenByUsername env (kc_preferred_username t))) (\<lambda>r.
     case r of
       Panic \<Rightarrow> apanic
     | Err e \<Rightarrow> ret Unauthorized
     | Ok token \<Rightarrow>
         abind (atry (sql_read (\<lambda>db. sq_GetUserProfile (ae_sql env) db (kc_subject t)))) (\<lambda>p.
         case p of
           Panic \<Rightarrow> apanic
         | Err e \<Rightarrow> ret Unavailable
         | Ok profile \<Rightarrow>
             (let tenant_exists = (\<lambda>n. if ae_repo_ready env then Ok (is_ok (DataObjectMgr_Get (ae_tenantMgr env) SYSTEM_TENANT SYSTEM_NAMESPACE n))
                                       else Err ''tenant object repository is unavailable'')
              in case resolve_valid_default_tenant token profile (path = ''/onboard'') tenant_exists of
                   Err (DtUnauthorized m) \<Rightarrow> ret Unauthorized
                 | Err (DtUnavailable m) \<Rightarrow> ret Unavailable
                 | Panic \<Rightarrow> apanic
                 | Ok default_tenant \<Rightarrow>
                     if tk_subject token = kc_subject t \<and> tk_email token = kc_email t \<and> tk_email_verified token = kc_email_verified t \<and>
                        tk_display_name token = DisplayName t \<and> tk_defaultTenant token = default_tenant
                     then ret (Pass token)
                     else ret (Pass (token\<lparr>tk_subject := kc_subject t, tk_email := kc_email t, tk_email_verified := kc_email_verified t,
                            tk_display_name := DisplayName t, tk_defaultTenant := default_tenant\<rparr>)))))"

text \<open>
  The header \<open>Authorization\<close>: none, one that is not text (\<open>Some None\<close>), or its text.
\<close>

definition header_token :: "'db AuthEnv \<Rightarrow> string \<Rightarrow> string option option \<Rightarrow> ('db TokenCache, AuthOutcome) act" where
  "header_token env path header =
     abind (aget tc_anonymous) (\<lambda>anonymous.
     let refused = ret (if is_public_funccall_path path then Pass anonymous else Unauthorized) in
     case header of
       None \<Rightarrow> ret (Pass anonymous)
     | Some None \<Rightarrow> refused
     | Some (Some v) \<Rightarrow>
         if \<not> starts_with ''Bearer '' v then refused
         else
           abind (atry (GetTokenByApikey env (drop 7 v))) (\<lambda>r.
           case r of
             Ok t \<Rightarrow> ret (Pass t)
           | Err e \<Rightarrow> refused
           | Panic \<Rightarrow> apanic))"

definition auth_transform_keycloaktoken ::
  "'db AuthEnv \<Rightarrow> string \<Rightarrow> string option option \<Rightarrow> KeycloakAuthStatus option \<Rightarrow> ('db TokenCache, AuthOutcome) act" where
  "auth_transform_keycloaktoken env path header status =
     (case status of
        None \<Rightarrow> ret Unauthorized
      | Some (KcSuccess t) \<Rightarrow> login_token env path t
      | Some KcFailure \<Rightarrow> header_token env path header)"

end
