(* ===== verification/Auth_Store.thy ===== *)
theory Auth_Store
  imports Auth
begin

text \<open>
  The tables of keys, roles and profiles with the statements the cache of tokens runs on them
  (\<open>src/ixshare/src/gateway/secret.rs\<close>, schema in \<open>src/dashboard/sql/secret.sql\<close>). A table is the list of its rows in the order of insertion;
  a statement that breaks a constraint fails and changes nothing. What the driver reports then is an argument. Statements built
  by \<open>format!\<close> are modelled for names without a quote. The locale \<open>credential_store\<close> says what the cache relies on.
\<close>

section \<open>Tables and statements\<close>

record SecretDb =
  sd_Apikey :: "Apikey list"
  sd_UserRole :: "(string \<times> string) list"
  sd_UserProfile :: "UserProfile list"

definition btrim :: "string \<Rightarrow> string" where
  "btrim s = rev (dropWhile (\<lambda>c. c = CHR '' '') (rev (dropWhile (\<lambda>c. c = CHR '' '') s)))"

definition Sec_CreateApikey :: "error \<Rightarrow> SecretDb \<Rightarrow> Apikey \<Rightarrow> (SecretDb, error) res" where
  "Sec_CreateApikey sqlx db key =
     (if ak_apikey key \<in> set (map ak_apikey (sd_Apikey db)) then Err sqlx
      else if (ak_username key, ak_keyname key) \<in> set (map (\<lambda>k. (ak_username k, ak_keyname k)) (sd_Apikey db)) then Err sqlx
      else if ak_access_level key \<notin> set [''full'', ''inference'', ''read''] then Err sqlx
      else if (case ak_restrict_tenant key of None \<Rightarrow> True | Some t \<Rightarrow> btrim t = '''') then Err sqlx
      else Ok (db\<lparr>sd_Apikey := sd_Apikey db @ [key]\<rparr>))"

definition Sec_GetApikey :: "error \<Rightarrow> SecretDb \<Rightarrow> string \<Rightarrow> (Apikey, error) res" where
  "Sec_GetApikey sqlx db apikey = (case find (\<lambda>k. ak_apikey k = apikey) (sd_Apikey db) of Some k \<Rightarrow> Ok k | None \<Rightarrow> Err sqlx)"

definition Sec_GetApikeys :: "SecretDb \<Rightarrow> string \<Rightarrow> (Apikey list, error) res" where
  "Sec_GetApikeys db username = Ok (filter (\<lambda>k. ak_username k = username) (sd_Apikey db))"

definition Sec_DeleteApikey :: "SecretDb \<Rightarrow> string \<Rightarrow> string \<Rightarrow> (SecretDb \<times> string list, error) res" where
  "Sec_DeleteApikey db keyname username =
     (let hit = (\<lambda>k. ak_keyname k = keyname \<and> ak_username k = username) in
      Ok (db\<lparr>sd_Apikey := filter (\<lambda>k. \<not> hit k) (sd_Apikey db)\<rparr>, map ak_apikey (filter hit (sd_Apikey db))))"

definition Sec_AddRole :: "error \<Rightarrow> SecretDb \<Rightarrow> string \<Rightarrow> string \<Rightarrow> (SecretDb, error) res" where
  "Sec_AddRole sqlx db username role =
     (if (username, role) \<in> set (sd_UserRole db) then Err sqlx else Ok (db\<lparr>sd_UserRole := sd_UserRole db @ [(username, role)]\<rparr>))"

definition Sec_GetRoles :: "SecretDb \<Rightarrow> string \<Rightarrow> (string list, error) res" where
  "Sec_GetRoles db username = Ok (map snd (filter (\<lambda>(u, r). u = username) (sd_UserRole db)))"

definition Sec_DeleteRole :: "SecretDb \<Rightarrow> string \<Rightarrow> string \<Rightarrow> (SecretDb, error) res" where
  "Sec_DeleteRole db username role = Ok (db\<lparr>sd_UserRole := filter (\<lambda>(u, r). \<not> (u = username \<and> r = role)) (sd_UserRole db)\<rparr>)"

definition Sec_GetTenantAdmins :: "SecretDb \<Rightarrow> string \<Rightarrow> (string list, error) res" where
  "Sec_GetTenantAdmins db t = Ok (map fst (filter (\<lambda>(u, r). r = ''/tenant/admin/'' @ t) (sd_UserRole db)))"

definition Sec_GetTenantUsers :: "SecretDb \<Rightarrow> string \<Rightarrow> (string list, error) res" where
  "Sec_GetTenantUsers db t = Ok (map fst (filter (\<lambda>(u, r). r = ''/tenant/user/'' @ t) (sd_UserRole db)))"

definition Sec_GetNamespaceAdmins :: "SecretDb \<Rightarrow> string \<Rightarrow> string \<Rightarrow> (string list, error) res" where
  "Sec_GetNamespaceAdmins db t ns = Ok (map fst (filter (\<lambda>(u, r). r = ''/namespace/admin/'' @ t @ ''/'' @ ns) (sd_UserRole db)))"

definition Sec_GetNamespaceUsers :: "SecretDb \<Rightarrow> string \<Rightarrow> string \<Rightarrow> (string list, error) res" where
  "Sec_GetNamespaceUsers db t ns = Ok (map fst (filter (\<lambda>(u, r). r = ''/namespace/user/'' @ t @ ''/'' @ ns) (sd_UserRole db)))"

definition Sec_GetUserProfile :: "SecretDb \<Rightarrow> string \<Rightarrow> (UserProfile option, error) res" where
  "Sec_GetUserProfile db subj = Ok (find (\<lambda>p. up_sub p = subj) (sd_UserProfile db))"

definition SqlSecret :: "error \<Rightarrow> SecretDb SqlOps" where
  "SqlSecret sqlx =
     \<lparr>sq_CreateApikey = Sec_CreateApikey sqlx, sq_GetApikey = Sec_GetApikey sqlx, sq_GetApikeys = Sec_GetApikeys,
      sq_DeleteApikey = Sec_DeleteApikey, sq_AddRole = Sec_AddRole sqlx, sq_GetRoles = Sec_GetRoles, sq_DeleteRole = Sec_DeleteRole,
      sq_GetTenantAdmins = Sec_GetTenantAdmins, sq_GetTenantUsers = Sec_GetTenantUsers, sq_GetNamespaceAdmins = Sec_GetNamespaceAdmins,
      sq_GetNamespaceUsers = Sec_GetNamespaceUsers, sq_GetUserProfile = Sec_GetUserProfile\<rparr>"

section \<open>What the cache relies on\<close>

text \<open>
  A key is listed among the keys of its owner. A statement changes what it names and nothing else: new keys touch the key list of
  their owner only, deleted keys are reported, roles change for one user.
\<close>

locale credential_store =
  fixes ops :: "'db SqlOps"
  assumes key_listed: "sq_GetApikey ops db x = Ok k \<Longrightarrow> sq_GetApikeys ops db (ak_username k) = Ok ks \<Longrightarrow> x \<in> set (map ak_apikey ks)"
    and create_roles: "sq_CreateApikey ops db k = Ok db' \<Longrightarrow> sq_GetRoles ops db' = sq_GetRoles ops db"
    and create_keys: "sq_CreateApikey ops db k = Ok db' \<Longrightarrow> u \<noteq> ak_username k \<Longrightarrow> sq_GetApikeys ops db' u = sq_GetApikeys ops db u"
    and create_key: "sq_CreateApikey ops db k = Ok db' \<Longrightarrow> sq_GetApikey ops db x = Ok k' \<Longrightarrow> sq_GetApikey ops db' x = Ok k'"
    and delete_roles: "sq_DeleteApikey ops db nm u = Ok (db', gone) \<Longrightarrow> sq_GetRoles ops db' = sq_GetRoles ops db"
    and delete_keys: "sq_DeleteApikey ops db nm u = Ok (db', gone) \<Longrightarrow> u' \<noteq> u \<or> gone = [] \<Longrightarrow> sq_GetApikeys ops db' u' = sq_GetApikeys ops db u'"
    and delete_key: "sq_DeleteApikey ops db nm u = Ok (db', gone) \<Longrightarrow> x \<notin> set gone \<Longrightarrow> sq_GetApikey ops db' x = sq_GetApikey ops db x"
    and add_role: "sq_AddRole ops db u r = Ok db' \<Longrightarrow> u' \<noteq> u \<Longrightarrow> sq_GetRoles ops db' u' = sq_GetRoles ops db u'"
    and add_role_keys: "sq_AddRole ops db u r = Ok db' \<Longrightarrow> sq_GetApikeys ops db' = sq_GetApikeys ops db \<and> sq_GetApikey ops db' = sq_GetApikey ops db"
    and del_role: "sq_DeleteRole ops db u r = Ok db' \<Longrightarrow> u' \<noteq> u \<Longrightarrow> sq_GetRoles ops db' u' = sq_GetRoles ops db u'"
    and del_role_keys: "sq_DeleteRole ops db u r = Ok db' \<Longrightarrow> sq_GetApikeys ops db' = sq_GetApikeys ops db \<and> sq_GetApikey ops db' = sq_GetApikey ops db"
    and del_role_gone: "sq_DeleteRole ops db u r = Ok db' \<Longrightarrow> sq_GetRoles ops db' u = Ok rs \<Longrightarrow> r \<notin> set rs"

lemma SqlSecret_sel [simp]:
  "sq_CreateApikey (SqlSecret sqlx) = Sec_CreateApikey sqlx" "sq_GetApikey (SqlSecret sqlx) = Sec_GetApikey sqlx"
  "sq_GetApikeys (SqlSecret sqlx) = Sec_GetApikeys" "sq_DeleteApikey (SqlSecret sqlx) = Sec_DeleteApikey"
  "sq_AddRole (SqlSecret sqlx) = Sec_AddRole sqlx" "sq_GetRoles (SqlSecret sqlx) = Sec_GetRoles" "sq_DeleteRole (SqlSecret sqlx) = Sec_DeleteRole"
  "sq_GetUserProfile (SqlSecret sqlx) = Sec_GetUserProfile"
  by (simp_all add: SqlSecret_def)

lemma Sec_GetApikey_Ok: "Sec_GetApikey sqlx db x = Ok k \<longleftrightarrow> find (\<lambda>k. ak_apikey k = x) (sd_Apikey db) = Some k"
  by (simp add: Sec_GetApikey_def split: option.split)

lemma find_append_Some: "find P xs = Some x \<Longrightarrow> find P (xs @ ys) = Some x"
  by (induction xs) (auto split: if_splits)

lemma find_filter_keep: "(\<And>x. x \<in> set xs \<Longrightarrow> P x \<Longrightarrow> Q x) \<Longrightarrow> find P (filter Q xs) = find P xs"
  by (induction xs) auto

lemma filter_keep: "(\<And>x. x \<in> set xs \<Longrightarrow> P x \<Longrightarrow> Q x) \<Longrightarrow> filter P (filter Q xs) = filter P xs"
  by (induction xs) auto

lemma Sec_key_listed: "Sec_GetApikey sqlx db x = Ok k \<Longrightarrow> Sec_GetApikeys db (ak_username k) = Ok ks \<Longrightarrow> x \<in> set (map ak_apikey ks)"
  by (auto simp: Sec_GetApikey_Ok Sec_GetApikeys_def find_Some_iff)

lemma Sec_create:
  assumes "Sec_CreateApikey sqlx db k = Ok db'"
  shows "db' = db\<lparr>sd_Apikey := sd_Apikey db @ [k]\<rparr>"
  using assms by (simp add: Sec_CreateApikey_def split: if_splits option.splits)

lemma Sec_delete_key:
  assumes "Sec_DeleteApikey db nm u = Ok (db', gone)" "x \<notin> set gone"
  shows "Sec_GetApikey sqlx db' x = Sec_GetApikey sqlx db x"
proof -
  have "find (\<lambda>k. ak_apikey k = x) (sd_Apikey db') = find (\<lambda>k. ak_apikey k = x) (sd_Apikey db)"
    using assms unfolding Sec_DeleteApikey_def by (auto simp: Let_def intro!: find_filter_keep)
  then show ?thesis by (simp add: Sec_GetApikey_def)
qed

lemma Sec_delete_keys:
  assumes "Sec_DeleteApikey db nm u = Ok (db', gone)" "u' \<noteq> u \<or> gone = []"
  shows "Sec_GetApikeys db' u' = Sec_GetApikeys db u'"
  using assms by (auto simp: Sec_DeleteApikey_def Sec_GetApikeys_def Let_def simp del: filter_filter simp: filter_empty_conv intro!: filter_keep)

interpretation sec: credential_store "SqlSecret sqlx" for sqlx
proof (unfold_locales, goal_cases)
  case (1 db x k ks) then show ?case by (simp only: SqlSecret_sel) (rule Sec_key_listed)
next
  case (2 db k db') then show ?case by (simp add: Sec_GetRoles_def fun_eq_iff) (auto dest: Sec_create)
next
  case (3 db k db' u) then show ?case by (auto simp: Sec_GetApikeys_def dest!: Sec_create)
next
  case (4 db k db' x k') then show ?case by (auto simp: Sec_GetApikey_Ok find_append_Some dest!: Sec_create)
next
  case (5 db nm u db' gone) then show ?case by (auto simp: Sec_DeleteApikey_def Sec_GetRoles_def Let_def fun_eq_iff)
next
  case (6 db nm u db' gone u') then show ?case by (simp add: Sec_delete_keys)
next
  case (7 db nm u db' gone x) then show ?case by (simp add: Sec_delete_key)
next
  case (8 db u r db' u') then show ?case by (auto simp: Sec_AddRole_def Sec_GetRoles_def split: if_splits)
next
  case (9 db u r db') then show ?case by (auto simp: Sec_AddRole_def Sec_GetApikeys_def Sec_GetApikey_def fun_eq_iff split: if_splits)
next
  case (10 db u r db' u') then show ?case by (auto simp: Sec_DeleteRole_def Sec_GetRoles_def simp del: filter_filter intro!: arg_cong[where f = "map snd"] filter_keep)
next
  case (11 db u r db') then show ?case by (auto simp: Sec_DeleteRole_def Sec_GetApikeys_def Sec_GetApikey_def fun_eq_iff)
next
  case (12 db u r db' rs) then show ?case by (auto simp: Sec_DeleteRole_def Sec_GetRoles_def)
qed

end
