(* ===== verification/Auth_Laws.thy ===== *)
theory Auth_Laws
  imports Auth
begin

text \<open>
  What tokens allow. A token of a user is \<open>plain\<close>: full scope, no restriction. \<open>ApplyApikeyRestrictions\<close> makes the token of an API key from
  it; the lemmas say which of its fields and roles remain, that it allows no more than the token it came from (\<open>within\<close>), and nothing
  outside its tenant and namespace (\<open>confined\<close>).
\<close>

section \<open>Roles and restrictions\<close>

definition plain :: "AccessToken \<Rightarrow> bool" where
  "plain tok \<longleftrightarrow> tk_scope tok = ''full'' \<and> \<not> tk_sourceIsApikey tok \<and> tk_restrictTenant tok = None \<and> tk_restrictNamespace tok = None"

lemmas permission_defs = IsInferxAdmin_def IsTenantUser_def IsNamespaceUser_def IsNamespaceInferenceUser_def IsTenantAdmin_def IsNamespaceAdmin_def
  HasTenantUserPermission_def HasNamespaceAdminPermission_def HasNamespaceUserPermission_def HasTenantAdminRole_def HasTenantUserRole_def
  HasNamespaceAdminRole_def HasNamespaceUserRole_def HasInferxAdminIdentity_def

lemma plain_allows [simp]: "plain tok \<Longrightarrow> AllowTenant tok t" "plain tok \<Longrightarrow> AllowNamespace tok t ns" "plain tok \<Longrightarrow> CheckScope tok sc"
  "plain tok \<Longrightarrow> IsInferxAdmin tok = HasInferxAdminIdentity tok"
  by (auto simp: plain_def AllowTenant_def AllowNamespace_def CheckScope_def ScopeLevel_def IsInferxAdmin_def)

lemma plain_New: "plain (AccessToken_New tm u groups keys)" "tk_username (AccessToken_New tm u groups keys) = u"
  "HasRole (AccessToken_New tm u groups keys) r \<longleftrightarrow> r \<in> set groups" "bt_ok (tk_roles (AccessToken_New tm u groups keys))"
proof -
  have "bt_ok (fold bs_insert groups s)" if "bt_ok s" for s :: "string btset"
    using that by (induction groups arbitrary: s) (auto simp: bs_insert_def)
  then show "bt_ok (tk_roles (AccessToken_New tm u groups keys))" by (simp add: AccessToken_New_def bs_of_list_def)
qed (simp_all add: plain_def AccessToken_New_def HasRole_def)

lemma restricted_fields:
  assumes "ApplyApikeyRestrictions tm base key = Ok k"
  shows "tk_username k = tk_username base" "tk_scope k = ak_access_level key" "tk_sourceIsApikey k"
    "\<exists>t rn. NormalizeRequiredTenant (ak_restrict_tenant key) = Ok t \<and> NormalizeOptionalNamespace (ak_restrict_namespace key) = Ok rn \<and>
       tk_restrictTenant k = Some t \<and> tk_restrictNamespace k = rn \<and> (\<forall>r. HasRole k r \<longleftrightarrow> HasRole base r \<and> RoleAllowedByRestriction r t rn)"
  using assms by (auto simp: ApplyApikeyRestrictions_def Let_def and_then_eq_Ok NormalizeScope_def HasRole_def bt_contains_iff)

lemma restricted_identity:
  assumes "ApplyApikeyRestrictions tm base key = Ok k" "HasInferxAdminIdentity k"
  shows "HasInferxAdminIdentity base"
  using assms restricted_fields[OF assms(1)] by (auto simp: HasInferxAdminIdentity_def)

definition within :: "AccessToken \<Rightarrow> AccessToken \<Rightarrow> string \<Rightarrow> string \<Rightarrow> bool" where
  "within k base t ns \<longleftrightarrow> (IsInferxAdmin k \<longrightarrow> IsInferxAdmin base) \<and> (IsTenantAdmin k t \<longrightarrow> IsTenantAdmin base t) \<and> (IsTenantUser k t \<longrightarrow> IsTenantUser base t) \<and>
     (IsNamespaceAdmin k t ns \<longrightarrow> IsNamespaceAdmin base t ns) \<and> (IsNamespaceUser k t ns \<longrightarrow> IsNamespaceUser base t ns) \<and>
     (IsNamespaceInferenceUser k t ns \<longrightarrow> IsNamespaceInferenceUser base t ns)"

lemma restricted_within:
  assumes "ApplyApikeyRestrictions tm base key = Ok k" "plain base"
  shows "within k base t ns"
proof -
  have roles: "HasRole base r" if "HasRole k r" for r using restricted_fields(4)[OF assms(1)] that by blast
  have admin: "IsInferxAdmin k \<Longrightarrow> HasInferxAdminIdentity base" using restricted_identity[OF assms(1)] by (auto simp: IsInferxAdmin_def split: if_splits)
  have perms: "HasTenantAdminRole k t \<Longrightarrow> HasTenantAdminRole base t" "HasTenantUserRole k t \<Longrightarrow> HasTenantUserRole base t"
    "HasNamespaceAdminRole k t ns \<Longrightarrow> HasNamespaceAdminRole base t ns" "HasNamespaceUserRole k t ns \<Longrightarrow> HasNamespaceUserRole base t ns"
    using roles by (simp_all add: HasTenantAdminRole_def HasTenantUserRole_def HasNamespaceAdminRole_def HasNamespaceUserRole_def)
  have "HasTenantUserPermission k t \<Longrightarrow> HasTenantUserPermission base t" "HasNamespaceAdminPermission k t ns \<Longrightarrow> HasNamespaceAdminPermission base t ns"
    using admin perms assms(2) by (auto simp: HasTenantUserPermission_def HasNamespaceAdminPermission_def)
  moreover from this have "HasNamespaceUserPermission k t ns \<Longrightarrow> HasNamespaceUserPermission base t ns"
    using admin perms assms(2) by (auto simp: HasNamespaceUserPermission_def)
  ultimately show ?thesis
    using admin perms assms(2) by (auto simp: within_def IsTenantAdmin_def IsTenantUser_def IsNamespaceAdmin_def IsNamespaceUser_def IsNamespaceInferenceUser_def)
qed

text \<open>Outside its restriction a key allows nothing, except to call public functions, unless it is an administrator's.\<close>

definition confined :: "AccessToken \<Rightarrow> string \<Rightarrow> string \<Rightarrow> bool" where
  "confined k t ns \<longleftrightarrow>
     (IsTenantUser k t \<or> IsTenantAdmin k t \<longrightarrow> IsInferxAdmin k \<or> tk_restrictTenant k = Some t) \<and>
     (IsNamespaceUser k t ns \<or> IsNamespaceAdmin k t ns \<or> IsNamespaceInferenceUser k t ns \<longrightarrow>
        IsInferxAdmin k \<or> t = ''public'' \<or> tk_restrictTenant k = Some t \<and> (tk_restrictNamespace k = None \<or> tk_restrictNamespace k = Some ns))"

lemma restricted_confined:
  assumes "ApplyApikeyRestrictions tm base key = Ok k"
  shows "confined k t ns"
proof -
  obtain rt where "tk_restrictTenant k = Some rt" "tk_sourceIsApikey k" using restricted_fields[OF assms] by blast
  moreover have "IsSystemScopedInferxAdminApikey k \<Longrightarrow> IsInferxAdmin k" by (auto simp: IsSystemScopedInferxAdminApikey_def IsInferxAdmin_def)
  ultimately show ?thesis
    by (auto simp: confined_def IsTenantUser_def IsTenantAdmin_def IsNamespaceUser_def IsNamespaceAdmin_def IsNamespaceInferenceUser_def AllowTenant_def AllowNamespace_def
        split: option.splits)
qed

end
