(* ===== verification/Auth_Cache.thy ===== *)
theory Auth_Cache
  imports Auth_Store Auth_Laws
begin

text \<open>
  The cache of tokens never shows anything else than the database: while keys and roles change through this gateway only, a cached
  token of a user has exactly the roles and keys the tables have for the user, and a cached token of an API key is the restriction
  of the owner's present roles to the key in the table. The operations of the gateway are the constructors of \<open>AuthOp\<close>, each
  with its own clock, random key and view of tenants; \<open>coherent\<close> is kept by all of them.
\<close>

section \<open>Coherence\<close>

definition holds_roles :: "'db SqlOps \<Rightarrow> 'db \<Rightarrow> string \<Rightarrow> AccessToken \<Rightarrow> bool" where
  "holds_roles ops db u tok \<longleftrightarrow> plain tok \<and> tk_username tok = u \<and> (\<exists>rs. sq_GetRoles ops db u = Ok rs \<and> (\<forall>r. HasRole tok r \<longleftrightarrow> r \<in> set rs))"

definition user_ok :: "'db SqlOps \<Rightarrow> 'db \<Rightarrow> string \<Rightarrow> AccessToken \<Rightarrow> bool" where
  "user_ok ops db u tok \<longleftrightarrow> holds_roles ops db u tok \<and> (\<exists>ks. sq_GetApikeys ops db u = Ok ks \<and> tk_apiKeys tok = map ak_apikey ks)"

definition key_ok :: "'db SqlOps \<Rightarrow> 'db \<Rightarrow> string \<Rightarrow> AccessToken \<Rightarrow> bool" where
  "key_ok ops db x tok \<longleftrightarrow>
     (\<exists>key base tm. sq_GetApikey ops db x = Ok key \<and> holds_roles ops db (ak_username key) base \<and> ApplyApikeyRestrictions tm base key = Ok tok)"

definition coherent :: "'db SqlOps \<Rightarrow> nat \<Rightarrow> 'db TokenCache \<Rightarrow> bool" where
  "coherent ops tm0 s \<longleftrightarrow>
     (\<forall>u tok. bt_get u (tc_usernameStore s) = Some tok \<longrightarrow> user_ok ops (tc_db s) u tok) \<and>
     (\<forall>x tok. bt_get x (tc_apikeyStore s) = Some tok \<longrightarrow> key_ok ops (tc_db s) x tok) \<and> tc_anonymous s = anonymous_token tm0"

section \<open>Operations\<close>

datatype 'db AuthOp =
    OpUser "'db AuthEnv" string
  | OpKey "'db AuthEnv" string
  | OpCreate "'db AuthEnv" AccessToken ApikeyCreateRequest
  | OpDelete "'db AuthEnv" AccessToken ApikeyDeleteRequest
  | OpRbac "'db AuthEnv" AccessToken PermissionType ObjectType string string string UserRole string
  | OpRequest "'db AuthEnv" string "string option option" "KeycloakAuthStatus option"

fun op_env :: "'db AuthOp \<Rightarrow> 'db AuthEnv" where
  "op_env (OpUser env u) = env"
| "op_env (OpKey env x) = env"
| "op_env (OpCreate env token req) = env"
| "op_env (OpDelete env token req) = env"
| "op_env (OpRbac env token p ty t ns nm role u) = env"
| "op_env (OpRequest env path header status) = env"

fun auth_step :: "'db AuthOp \<Rightarrow> ('db TokenCache, unit) act" where
  "auth_step (OpUser env u) = aok (GetTokenByUsername env u)"
| "auth_step (OpKey env x) = aok (GetTokenByApikey env x)"
| "auth_step (OpCreate env token req) = aok (CreateApikey env token req)"
| "auth_step (OpDelete env token req) = aok (DeleteApiKey env token req)"
| "auth_step (OpRbac env token p ty t ns nm role u) = aok (Rbac env token p ty t ns nm role u)"
| "auth_step (OpRequest env path header status) = aok (auth_transform_keycloaktoken env path header status)"

definition auth_run :: "'db AuthOp list \<Rightarrow> ('db TokenCache, unit) act" where
  "auth_run = aiter auth_step"

text \<open>A run from empty caches in which every operation uses the same database.\<close>

definition auth_reach :: "'db SqlOps \<Rightarrow> nat \<Rightarrow> 'db \<Rightarrow> 'db AuthOp list \<Rightarrow> 'db TokenCache \<Rightarrow> bool" where
  "auth_reach ops tm db os s \<longleftrightarrow> list_all (\<lambda>op. ae_sql (op_env op) = ops) os \<and> auth_run os (TokenCache_New tm db) = (Ok (), s)"

section \<open>Single steps\<close>

lemma sql_read_run [simp, act_simps]: "sql_read q s = (q (tc_db s), s)"
  by (simp add: sql_read_def abind_run)

lemma sql_write_run [act_simps]:
  "sql_write q s = (case q (tc_db s) of Ok db \<Rightarrow> (Ok (), s\<lparr>tc_db := db\<rparr>) | Err e \<Rightarrow> (Err e, s) | Panic \<Rightarrow> (Panic, s))"
  by (simp add: sql_write_def abind_run split: res.split)

lemma remove_all_get: "bt_get x (remove_all ks m) = (if x \<in> set ks then None else bt_get x m)"
  by (induction ks arbitrary: m) (auto simp: remove_all_def)

lemma EvactionToken_run [simp, act_simps]:
  "EvactionToken tok s = (Ok (), s\<lparr>tc_apikeyStore := remove_all (tk_apiKeys tok) (tc_apikeyStore s), tc_usernameStore := bt_remove (tk_username tok) (tc_usernameStore s)\<rparr>)"
  by (simp add: EvactionToken_def UserKey_def)

text \<open>Forgetting entries, or changing them to what the database shows, keeps the cache coherent.\<close>

lemma coherent_drop:
  assumes "coherent ops tm0 s" "tc_db s' = tc_db s" "tc_anonymous s' = tc_anonymous s"
    "\<And>u tok. bt_get u (tc_usernameStore s') = Some tok \<Longrightarrow> bt_get u (tc_usernameStore s) = Some tok \<or> user_ok ops (tc_db s) u tok"
    "\<And>x tok. bt_get x (tc_apikeyStore s') = Some tok \<Longrightarrow> bt_get x (tc_apikeyStore s) = Some tok \<or> key_ok ops (tc_db s) x tok"
  shows "coherent ops tm0 s'"
  using assms unfolding coherent_def by metis

lemma coherent_change:
  assumes "coherent ops tm0 s" "tc_anonymous s' = tc_anonymous s"
    "\<And>u tok. bt_get u (tc_usernameStore s') = Some tok \<Longrightarrow> bt_get u (tc_usernameStore s) = Some tok \<and> (user_ok ops (tc_db s) u tok \<longrightarrow> user_ok ops (tc_db s') u tok)"
    "\<And>x tok. bt_get x (tc_apikeyStore s') = Some tok \<Longrightarrow> bt_get x (tc_apikeyStore s) = Some tok \<and> (key_ok ops (tc_db s) x tok \<longrightarrow> key_ok ops (tc_db s') x tok)"
  shows "coherent ops tm0 s'"
  using assms unfolding coherent_def by metis

lemma user_ok_New:
  assumes "sq_GetApikeys ops db u = Ok ks" "sq_GetRoles ops db u = Ok rs"
  shows "user_ok ops db u (AccessToken_New tm u rs (map ak_apikey ks))"
  using assms plain_New[of tm u rs "map ak_apikey ks"] by (simp add: user_ok_def holds_roles_def) (simp add: AccessToken_New_def)

lemma Replace_run:
  "Replace old new s = (Ok (), s\<lparr>tc_apikeyStore := (case old of None \<Rightarrow> tc_apikeyStore s | Some o' \<Rightarrow> remove_all (tk_apiKeys o') (tc_apikeyStore s)),
     tc_usernameStore := bt_insert (tk_username new) new (case old of None \<Rightarrow> tc_usernameStore s | Some o' \<Rightarrow> bt_remove (tk_username o') (tc_usernameStore s))\<rparr>)"
  by (simp add: Replace_def UserKey_def asome_run aseq_run split: option.split)

lemma coherent_Replace:
  assumes "coherent ops tm0 s" "user_ok ops (tc_db s) u new"
  shows "coherent ops tm0 (snd (Replace old new s))"
proof (rule coherent_drop[OF assms(1)])
  have "tk_username new = u" using assms(2) by (simp add: user_ok_def holds_roles_def)
  then show "bt_get v (tc_usernameStore s) = Some tok \<or> user_ok ops (tc_db s) v tok"
    if "bt_get v (tc_usernameStore (snd (Replace old new s))) = Some tok" for v tok
    using that assms(2) by (auto simp: Replace_run split: if_splits option.splits)
qed (auto simp: Replace_run remove_all_get split: if_splits option.splits)

section \<open>Reading tokens\<close>

lemma GetTokenByUsername_cases:
  obtains (hit) g where "bt_get u (tc_usernameStore s) = Some g" "GetTokenByUsername env u s = (Ok g, s)"
  | (load) ks rs new where "sq_GetApikeys (ae_sql env) (tc_db s) u = Ok ks" "sq_GetRoles (ae_sql env) (tc_db s) u = Ok rs"
      "new = AccessToken_New (ae_now env) u rs (map ak_apikey ks)"
      "GetTokenByUsername env u s = (Ok new, snd (Replace (bt_get u (tc_usernameStore s)) new s))"
  | (fail) e where "GetTokenByUsername env u s = (Err e, s)"
  | (panic) "GetTokenByUsername env u s = (Panic, s)"
proof -
  define load where "load old =
      (case sq_GetApikeys (ae_sql env) (tc_db s) u of
         Ok ks \<Rightarrow> (case sq_GetRoles (ae_sql env) (tc_db s) u of
                    Ok rs \<Rightarrow> (Ok (AccessToken_New (ae_now env) u rs (map ak_apikey ks)),
                              snd (Replace old (AccessToken_New (ae_now env) u rs (map ak_apikey ks)) s))
                  | Err e \<Rightarrow> (Err e, s) | Panic \<Rightarrow> (Panic, s))
       | Err e \<Rightarrow> (Err e, s) | Panic \<Rightarrow> (Panic, s))" for old
  have runs: "GetTokenByUsername env u s =
      (case bt_get u (tc_usernameStore s) of
         Some g \<Rightarrow> if Token_Timeout (ae_now env) g then load (Some g) else (Ok g, s) | None \<Rightarrow> load None)"
    unfolding load_def GetTokenByUsername_def Let_def by (simp add: abind_run aseq_run Replace_run split: option.split res.split)
  show ?thesis
  proof (cases "\<exists>g. bt_get u (tc_usernameStore s) = Some g \<and> \<not> Token_Timeout (ae_now env) g")
    case True
    then show ?thesis using that(1) by (auto simp: runs)
  next
    case False
    then have "GetTokenByUsername env u s = load (bt_get u (tc_usernameStore s))" by (auto simp: runs split: option.splits)
    then show ?thesis
      using that(2)[OF _ _ refl] that(3,4)
      by (cases "sq_GetApikeys (ae_sql env) (tc_db s) u"; cases "sq_GetRoles (ae_sql env) (tc_db s) u") (simp_all add: load_def)
  qed
qed

text \<open>Coherent with a fixed database.\<close>

definition coherent_at :: "'db SqlOps \<Rightarrow> nat \<Rightarrow> 'db \<Rightarrow> 'db TokenCache \<Rightarrow> bool" where
  "coherent_at ops tm0 db s \<longleftrightarrow> coherent ops tm0 s \<and> tc_db s = db"

lemma GetTokenByUsername_ok:
  assumes "ae_sql env = ops"
  shows "hoare (coherent_at ops tm0 db) (GetTokenByUsername env u) (\<lambda>tok s. coherent_at ops tm0 db s \<and> user_ok ops db u tok) (coherent_at ops tm0 db)"
proof (rule hoareI)
  fix s tok s' assume s: "coherent_at ops tm0 db s" "GetTokenByUsername env u s = (Ok tok, s')"
  show "coherent_at ops tm0 db s' \<and> user_ok ops db u tok"
  proof (cases rule: GetTokenByUsername_cases[of u s env])
    case (hit g)
    then show ?thesis using s by (auto simp: coherent_at_def coherent_def)
  next
    case (load ks rs new)
    then have "user_ok ops (tc_db s) u new" using assms by (simp add: user_ok_New)
    then show ?thesis using s load coherent_Replace[of ops tm0 s u new] by (auto simp: coherent_at_def Replace_run)
  qed (use s in auto)
next
  fix s e s' assume s: "coherent_at ops tm0 db s" "GetTokenByUsername env u s = (Err e, s')"
  then show "coherent_at ops tm0 db s'" by (cases rule: GetTokenByUsername_cases[of u s env]) auto
qed

lemma hoare_athrow: "(\<And>s. P s \<Longrightarrow> E s) \<Longrightarrow> hoare P (athrow e) Q E"
  by (simp add: hoare_def)

lemma hoare_sql_read: "hoare (coherent_at ops tm0 db) (sql_read q) (\<lambda>r s. coherent_at ops tm0 db s \<and> q db = Ok r) (coherent_at ops tm0 db)"
  by (rule hoareI) (auto simp: coherent_at_def)

lemma coherent_put_key:
  assumes "coherent_at ops tm0 db s" "key_ok ops db x tok"
  shows "coherent_at ops tm0 db (s\<lparr>tc_apikeyStore := bt_insert x tok (tc_apikeyStore s)\<rparr>)"
  using assms unfolding coherent_at_def by (auto intro!: coherent_drop[of ops tm0 s] split: if_splits)

lemma coherent_forget_key:
  assumes "coherent_at ops tm0 db s"
  shows "coherent_at ops tm0 db (s\<lparr>tc_apikeyStore := bt_remove x (tc_apikeyStore s)\<rparr>)"
  using assms unfolding coherent_at_def by (auto intro!: coherent_drop[of ops tm0 s] split: if_splits)

definition rebuild_token :: "'db AuthEnv \<Rightarrow> string \<Rightarrow> ('db TokenCache, AccessToken) act" where
  "rebuild_token env apikey =
     abind (sql_read (\<lambda>db. sq_GetApikey (ae_sql env) db apikey)) (\<lambda>key.
     if ak_revoked_at key \<noteq> None then athrow NoPermission
     else if (case ak_expires_at key of Some e \<Rightarrow> e < ae_now env | None \<Rightarrow> False) then athrow NoPermission
     else
       abind (GetTokenByUsername env (ak_username key)) (\<lambda>base.
       abind (alift (ApplyApikeyRestrictions (ae_now env) base key)) (\<lambda>restricted.
       aseq (amod (\<lambda>s. s\<lparr>tc_apikeyStore := bt_insert apikey restricted (tc_apikeyStore s)\<rparr>)) (ret restricted))))"

lemma rebuild_token_ok:
  assumes "ae_sql env = ops"
  shows "hoare (coherent_at ops tm0 db) (rebuild_token env x) (\<lambda>tok s. coherent_at ops tm0 db s \<and> key_ok ops db x tok) (coherent_at ops tm0 db)"
  unfolding rebuild_token_def assms
proof (rule hoare_abind[OF hoare_sql_read], intro hoare_if)
  fix key :: Apikey
  assume "\<not> ak_revoked_at key \<noteq> None" "\<not> (case ak_expires_at key of None \<Rightarrow> False | Some e \<Rightarrow> e < ae_now env)"
  define known where "known s \<longleftrightarrow> coherent_at ops tm0 db s \<and> sq_GetApikey ops db x = Ok key" for s
  have get: "hoare known (GetTokenByUsername env (ak_username key)) (\<lambda>base s. known s \<and> user_ok ops db (ak_username key) base) (coherent_at ops tm0 db)"
    using GetTokenByUsername_ok[OF assms, of tm0 db "ak_username key"] unfolding hoare_def known_def by (force split: prod.splits res.splits)
  have put: "hoare (\<lambda>s. (known s \<and> user_ok ops db (ak_username key) base) \<and> ApplyApikeyRestrictions (ae_now env) base key = Ok restricted)
      (aseq (amod (\<lambda>s. s\<lparr>tc_apikeyStore := bt_insert x restricted (tc_apikeyStore s)\<rparr>)) (ret restricted))
      (\<lambda>tok s. coherent_at ops tm0 db s \<and> key_ok ops db x tok) (coherent_at ops tm0 db)" for base restricted
  proof (rule hoareI)
    fix s tok s'
    assume s: "(known s \<and> user_ok ops db (ak_username key) base) \<and> ApplyApikeyRestrictions (ae_now env) base key = Ok restricted"
      "aseq (amod (\<lambda>s. s\<lparr>tc_apikeyStore := bt_insert x restricted (tc_apikeyStore s)\<rparr>)) (ret restricted) s = (Ok tok, s')"
    then have "key_ok ops db x restricted" by (auto simp: known_def key_ok_def user_ok_def)
    then show "coherent_at ops tm0 db s' \<and> key_ok ops db x tok" using s coherent_put_key by (auto simp: known_def aseq_run)
  qed (simp add: aseq_run)
  have apply_key: "hoare (\<lambda>s. known s \<and> user_ok ops db (ak_username key) base) (alift (ApplyApikeyRestrictions (ae_now env) base key))
      (\<lambda>restricted s. (known s \<and> user_ok ops db (ak_username key) base) \<and> ApplyApikeyRestrictions (ae_now env) base key = Ok restricted)
      (coherent_at ops tm0 db)" for base
    by (rule hoareI) (auto simp: known_def)
  show "hoare (\<lambda>s. coherent_at ops tm0 db s \<and> sq_GetApikey ops db x = Ok key)
      (abind (GetTokenByUsername env (ak_username key)) (\<lambda>base.
       abind (alift (ApplyApikeyRestrictions (ae_now env) base key)) (\<lambda>restricted.
       aseq (amod (\<lambda>s. s\<lparr>tc_apikeyStore := bt_insert x restricted (tc_apikeyStore s)\<rparr>)) (ret restricted))))
      (\<lambda>tok s. coherent_at ops tm0 db s \<and> key_ok ops db x tok) (coherent_at ops tm0 db)"
    unfolding known_def[symmetric] by (rule hoare_abind[OF get], rule hoare_abind[OF apply_key put])
qed (auto intro: hoare_athrow)

definition is_master :: "'db AuthEnv \<Rightarrow> string \<Rightarrow> bool" where
  "is_master env x \<longleftrightarrow> 0 < length (ae_inferxAdminApikey env) \<and> x = ae_inferxAdminApikey env"

lemma GetTokenByApikey_run:
  "GetTokenByApikey env x s =
     (if is_master env x then (Ok (InferxAdminToken (ae_now env)), s)
      else (case bt_get x (tc_apikeyStore s) of
              Some g \<Rightarrow> if Token_Timeout (ae_now env) g then rebuild_token env x (s\<lparr>tc_apikeyStore := bt_remove x (tc_apikeyStore s)\<rparr>) else (Ok g, s)
            | None \<Rightarrow> rebuild_token env x s))"
  unfolding GetTokenByApikey_def is_master_def rebuild_token_def[symmetric] Let_def by (simp add: abind_run aseq_run split: option.split)

lemma GetTokenByApikey_ok:
  assumes "ae_sql env = ops"
  shows "hoare (coherent_at ops tm0 db) (GetTokenByApikey env x)
    (\<lambda>tok s. coherent_at ops tm0 db s \<and> (if is_master env x then tok = InferxAdminToken (ae_now env) else key_ok ops db x tok)) (coherent_at ops tm0 db)"
proof -
  note build = rebuild_token_ok[OF assms, of tm0 db x]
  have paths: "(\<exists>g. GetTokenByApikey env x s = (Ok g, s) \<and> (if is_master env x then g = InferxAdminToken (ae_now env) else key_ok ops db x g)) \<or>
      \<not> is_master env x \<and> (\<exists>s1. coherent_at ops tm0 db s1 \<and> GetTokenByApikey env x s = rebuild_token env x s1)"
    if s: "coherent_at ops tm0 db s" for s
  proof (cases "bt_get x (tc_apikeyStore s)")
    case None
    then show ?thesis using s by (auto simp: GetTokenByApikey_run)
  next
    case (Some g)
    then have "key_ok ops db x g" using s by (auto simp: coherent_at_def coherent_def)
    then show ?thesis using Some coherent_forget_key[OF s, of x] by (auto simp: GetTokenByApikey_run)
  qed
  show ?thesis
  proof (rule hoareI)
    fix s tok s' assume s: "coherent_at ops tm0 db s" "GetTokenByApikey env x s = (Ok tok, s')"
    then show "coherent_at ops tm0 db s' \<and> (if is_master env x then tok = InferxAdminToken (ae_now env) else key_ok ops db x tok)"
      using paths[OF s(1)] hoareD[OF build] by (auto dest: sym[of "(Ok tok, s')"])
  next
    fix s e s' assume s: "coherent_at ops tm0 db s" "GetTokenByApikey env x s = (Err e, s')"
    then show "coherent_at ops tm0 db s'" using paths[OF s(1)] hoareD_Err[OF build] by (auto dest: sym[of "(Err e, s')"])
  qed
qed

section \<open>Changing keys and roles\<close>

lemma keeps_at:
  assumes "\<And>db. hoare (coherent_at ops tm0 db) m (Q db) (coherent_at ops tm0 db)" "\<And>db x s. Q db x s \<Longrightarrow> coherent ops tm0 s"
  shows "keeps (coherent ops tm0) m"
  unfolding keeps_def
proof (rule hoareI)
  fix s x s' assume "coherent ops tm0 s" "m s = (Ok x, s')"
  then have "Q (tc_db s) x s'" by (intro hoareD[OF assms(1)[of "tc_db s"]]) (simp_all add: coherent_at_def)
  then show "coherent ops tm0 s'" by (rule assms(2))
next
  fix s e s' assume s: "coherent ops tm0 s" "m s = (Err e, s')"
  then have "coherent_at ops tm0 (tc_db s) s" by (simp add: coherent_at_def)
  then have "coherent_at ops tm0 (tc_db s) s'" using s(2) by (rule hoareD_Err[OF assms(1)])
  then show "coherent ops tm0 s'" by (simp add: coherent_at_def)
qed

lemma GetTokenByUsername_keeps: "ae_sql env = ops \<Longrightarrow> keeps (coherent ops tm0) (GetTokenByUsername env u)"
  by (rule keeps_at[OF GetTokenByUsername_ok]) (auto simp: coherent_at_def)

lemma GetTokenByApikey_keeps: "ae_sql env = ops \<Longrightarrow> keeps (coherent ops tm0) (GetTokenByApikey env x)"
  by (rule keeps_at[OF GetTokenByApikey_ok]) (auto simp: coherent_at_def)

lemma keeps_sql_read [keeps_intros]: "keeps I (sql_read q)"
  by (simp add: keeps_iff)

context credential_store
begin

lemma create_coherent:
  assumes "coherent ops tm0 s" "sq_CreateApikey ops (tc_db s) k = Ok db'"
  shows "coherent ops tm0 (s\<lparr>tc_db := db', tc_usernameStore := bt_remove (ak_username k) (tc_usernameStore s)\<rparr>)"
proof (rule coherent_change[OF assms(1)], goal_cases)
  case (2 u tok)
  then show ?case using create_roles[OF assms(2)] create_keys[OF assms(2), of u] by (auto simp: user_ok_def holds_roles_def split: if_splits)
next
  case (3 x tok)
  then show ?case using create_roles[OF assms(2)] create_key[OF assms(2)] by (auto simp: key_ok_def holds_roles_def)
qed simp

lemma delete_coherent:
  assumes "coherent ops tm0 s" "sq_DeleteApikey ops (tc_db s) nm u = Ok (db', gone)"
  shows "coherent ops tm0 (s\<lparr>tc_db := db', tc_apikeyStore := remove_all gone (tc_apikeyStore s), tc_usernameStore := bt_remove u (tc_usernameStore s)\<rparr>)"
    "gone = [] \<Longrightarrow> coherent ops tm0 (s\<lparr>tc_db := db'\<rparr>)"
proof -
  note r = delete_roles[OF assms(2)] and k = delete_keys[OF assms(2)] and x = delete_key[OF assms(2)]
  show "coherent ops tm0 (s\<lparr>tc_db := db', tc_apikeyStore := remove_all gone (tc_apikeyStore s), tc_usernameStore := bt_remove u (tc_usernameStore s)\<rparr>)"
    by (rule coherent_change[OF assms(1)]) (auto simp: user_ok_def key_ok_def holds_roles_def remove_all_get r k x split: if_splits)
  show "coherent ops tm0 (s\<lparr>tc_db := db'\<rparr>)" if "gone = []"
    by (rule coherent_change[OF assms(1)]) (auto simp: user_ok_def key_ok_def holds_roles_def r k x that)
qed

lemma role_coherent:
  assumes "coherent ops tm0 s" "user_ok ops (tc_db s) u tok"
    and keys: "sq_GetApikeys ops db' = sq_GetApikeys ops (tc_db s)" "sq_GetApikey ops db' = sq_GetApikey ops (tc_db s)"
    and roles: "\<And>u'. u' \<noteq> u \<Longrightarrow> sq_GetRoles ops db' u' = sq_GetRoles ops (tc_db s) u'"
  shows "coherent ops tm0 (snd (EvactionToken tok (s\<lparr>tc_db := db'\<rparr>)))"
proof (rule coherent_change[OF assms(1)], goal_cases)
  case (2 v t)
  then have "v \<noteq> u" using assms(2) by (auto simp: user_ok_def holds_roles_def split: if_splits)
  then show ?case using 2 by (auto simp: user_ok_def holds_roles_def keys roles split: if_splits)
next
  case (3 x t)
  then have x: "x \<notin> set (tk_apiKeys tok)" "bt_get x (tc_apikeyStore s) = Some t" by (auto simp: remove_all_get split: if_splits)
  have "ak_username key \<noteq> u" if "sq_GetApikey ops (tc_db s) x = Ok key" for key
    using that x(1) assms(2) key_listed[OF that] by (auto simp: user_ok_def)
  then have "holds_roles ops db' (ak_username key) b \<longleftrightarrow> holds_roles ops (tc_db s) (ak_username key) b"
    if "sq_GetApikey ops (tc_db s) x = Ok key" for key b
    using that by (simp add: holds_roles_def roles)
  then show ?case using x(2) by (auto simp: key_ok_def keys)
qed simp

lemma store_key_keeps:
  assumes "ak_username k = u"
  shows "keeps (coherent ops tm0) (aseq (sql_write (\<lambda>db. sq_CreateApikey ops db k))
           (aseq (amod (\<lambda>s. s\<lparr>tc_usernameStore := bt_remove u (tc_usernameStore s)\<rparr>)) (ret r)))"
  using create_coherent by (auto simp: keeps_iff aseq_run sql_write_run assms[symmetric] split: res.splits)

lemma CreateApikey_keeps:
  assumes "ae_sql env = ops"
  shows "keeps (coherent ops tm0) (CreateApikey env token req)"
  unfolding CreateApikey_def assms
  by (intro keeps_abind keeps_alift keeps_if keeps_athrow keeps_prod store_key_keeps) simp

lemma DeleteApiKey_keeps:
  assumes "ae_sql env = ops"
  shows "keeps (coherent ops tm0) (DeleteApiKey env token req)"
  unfolding keeps_iff assms DeleteApiKey_def
  by (auto simp: abind_run aseq_run delete_coherent split: res.splits if_splits)

end

section \<open>Handlers\<close>

definition role_gone :: "'db SqlOps \<Rightarrow> 'db TokenCache \<Rightarrow> string \<Rightarrow> string \<Rightarrow> bool" where
  "role_gone ops s u r \<longleftrightarrow> (\<forall>rs. sq_GetRoles ops (tc_db s) u = Ok rs \<longrightarrow> r \<notin> set rs)"

definition role_name :: "ObjectType \<Rightarrow> string \<Rightarrow> string \<Rightarrow> UserRole \<Rightarrow> string" where
  "role_name ty t nm role =
     (case ty of
        OtTenant \<Rightarrow> (case role of RoleAdmin \<Rightarrow> TenantAdminRole nm | RoleUser \<Rightarrow> TenantUserRole nm)
      | OtNamespace \<Rightarrow> (case role of RoleAdmin \<Rightarrow> NamespaceAdminRole t nm | RoleUser \<Rightarrow> NamespaceUserRole t nm))"

lemma user_token_ok:
  assumes "ae_sql env = ops"
  shows "hoare (coherent_at ops tm0 db) (user_token env t u) (\<lambda>tok s. coherent_at ops tm0 db s \<and> user_ok ops db u tok) (coherent_at ops tm0 db)"
proof (rule hoareI)
  fix s tok s' assume s: "coherent_at ops tm0 db s" "user_token env t u s = (Ok tok, s')"
  then have "GetTokenByUsername env u s = (Ok tok, s')"
    by (auto simp: user_token_def abind_run atry_run split: prod.splits res.splits)
  then show "coherent_at ops tm0 db s' \<and> user_ok ops db u tok" using hoareD[OF GetTokenByUsername_ok[OF assms]] s by blast
next
  fix s e s' assume s: "coherent_at ops tm0 db s" "user_token env t u s = (Err e, s')"
  then obtain e' where "GetTokenByUsername env u s = (Err e', s')"
    by (auto simp: user_token_def abind_run atry_run split: prod.splits res.splits)
  then show "coherent_at ops tm0 db s'" using hoareD_Err[OF GetTokenByUsername_ok[OF assms]] s by blast
qed

lemma hoare_with_user:
  assumes env: "ae_sql env = ops"
    and f: "\<And>db ut. hoare (\<lambda>s. coherent_at ops tm0 db s \<and> user_ok ops db u ut) (f ut) Q (coherent ops tm0)"
  shows "hoare (coherent ops tm0) (abind (user_token env t u) f) Q (coherent ops tm0)"
proof -
  have "hoare (coherent_at ops tm0 db) (abind (user_token env t u) f) Q (coherent ops tm0)" for db
    by (rule hoare_abind[OF hoare_weaken[OF user_token_ok[OF env]] f]) (auto simp: coherent_at_def)
  then have "hoare (\<lambda>s. coherent ops tm0 s \<and> tc_db s = db) (abind (user_token env t u) f) Q (coherent ops tm0)" for db
    unfolding coherent_at_def .
  then show ?thesis unfolding hoare_def by auto
qed

lemma hoare_refuse: "hoare (\<lambda>s. coherent_at ops tm0 db s \<and> X) (athrow e) Q (coherent ops tm0)"
  by (rule hoare_athrow) (simp add: coherent_at_def)

lemma hoare_guard:
  assumes "hoare P m Q P"
  shows "hoare P (aseq (alift r) (if b then athrow e else m)) Q P"
proof -
  have "hoare P (alift r) (\<lambda>_. P) P" by (rule hoareI) auto
  moreover have "hoare P (if b then athrow e else m) Q P" using assms by (auto intro: hoare_athrow)
  ultimately show ?thesis by (rule hoare_aseq)
qed

context credential_store
begin

lemma change_role_ok:
  assumes "\<And>db db'. q db = Ok db' \<Longrightarrow> sq_GetApikeys ops db' = sq_GetApikeys ops db \<and> sq_GetApikey ops db' = sq_GetApikey ops db"
    "\<And>db db' u'. q db = Ok db' \<Longrightarrow> u' \<noteq> u \<Longrightarrow> sq_GetRoles ops db' u' = sq_GetRoles ops db u'"
    "\<And>db db'. q db = Ok db' \<Longrightarrow> R db'"
  shows "hoare (\<lambda>s. coherent_at ops tm0 db s \<and> user_ok ops db u ut) (aseq (sql_write q) (EvactionToken ut)) (\<lambda>_ s. coherent ops tm0 s \<and> R (tc_db s)) (coherent ops tm0)"
proof (rule hoareI)
  fix s x s' assume s: "coherent_at ops tm0 db s \<and> user_ok ops db u ut" "aseq (sql_write q) (EvactionToken ut) s = (Ok x, s')"
  then obtain db' where q: "q db = Ok db'" "s' = snd (EvactionToken ut (s\<lparr>tc_db := db'\<rparr>))"
    by (auto simp: aseq_run sql_write_run coherent_at_def split: res.splits)
  have "coherent ops tm0 s'" unfolding q(2)
    by (rule role_coherent[of tm0 s u ut db']) (use s assms(1,2)[OF q(1)] in \<open>auto simp: coherent_at_def\<close>)
  then show "coherent ops tm0 s' \<and> R (tc_db s')" using assms(3)[OF q(1)] q(2) by simp
next
  fix s e s' assume "coherent_at ops tm0 db s \<and> user_ok ops db u ut" "aseq (sql_write q) (EvactionToken ut) s = (Err e, s')"
  then show "coherent ops tm0 s'" by (auto simp: aseq_run sql_write_run coherent_at_def split: res.splits)
qed

lemma grant_role_ok:
  assumes "ae_sql env = ops"
  shows "hoare (\<lambda>s. coherent_at ops tm0 db s \<and> user_ok ops db u ut) (grant_role env ut r u) (\<lambda>_. coherent ops tm0) (coherent ops tm0)"
  unfolding grant_role_def assms
  by (rule hoare_weaken[OF change_role_ok[where R = "\<lambda>_. True"]]) (auto dest: add_role add_role_keys)

lemma revoke_role_ok:
  assumes "ae_sql env = ops"
  shows "hoare (\<lambda>s. coherent_at ops tm0 db s \<and> user_ok ops db u ut) (revoke_role env ut r u) (\<lambda>_ s. coherent ops tm0 s \<and> role_gone ops s u r) (coherent ops tm0)"
  unfolding revoke_role_def assms role_gone_def
  by (rule change_role_ok[where R = "\<lambda>db. \<forall>rs. sq_GetRoles ops db u = Ok rs \<longrightarrow> r \<notin> set rs"]) (auto dest: del_role del_role_keys del_role_gone)

lemma grant_handlers:
  assumes "ae_sql env = ops"
  shows "hoare (coherent ops tm0) (GrantTenantRole env token t role u) (\<lambda>_. coherent ops tm0) (coherent ops tm0)"
    "hoare (coherent ops tm0) (GrantNamespaceRole env token t ns role u) (\<lambda>_. coherent ops tm0) (coherent ops tm0)"
  unfolding GrantTenantRole_def GrantNamespaceRole_def GrantTenantAdminPermission_def GrantTenantUserPermission_def
    GrantNamespaceAdminPermission_def GrantNamespaceUserPermission_def
  by (rule hoare_guard[OF hoare_with_user[OF assms]];
      cases role; auto intro!: hoare_refuse grant_role_ok[OF assms])+

lemma revoke_handlers:
  assumes "ae_sql env = ops"
  shows "hoare (coherent ops tm0) (RevokeTenantRole env token nm role u) (\<lambda>_ s. coherent ops tm0 s \<and> role_gone ops s u (role_name OtTenant t nm role)) (coherent ops tm0)"
    "hoare (coherent ops tm0) (RevokeNamespaceRole env token t nm role u) (\<lambda>_ s. coherent ops tm0 s \<and> role_gone ops s u (role_name OtNamespace t nm role)) (coherent ops tm0)"
  unfolding RevokeTenantRole_def RevokeNamespaceRole_def RevokeTenantAdminPermission_def RevokeTenantUserPermission_def
    RevokeNamespaceAdminPermission_def RevokeNamespaceUserPermission_def role_name_def
  by (rule hoare_guard[OF hoare_with_user[OF assms]];
      cases role; auto intro!: hoare_refuse revoke_role_ok[OF assms])+

end

section \<open>Runs\<close>

lemma login_token_keeps: "ae_sql env = ops \<Longrightarrow> keeps (coherent ops tm0) (login_token env path t)"
  unfolding login_token_def Let_def
  by (intro keeps_abind keeps_atry GetTokenByUsername_keeps keeps_res keeps_apanic keeps_ret keeps_sql_read) (auto simp: keeps_ret keeps_apanic split: DefaultTenantValidationError.splits res.splits)

lemma header_token_keeps: "ae_sql env = ops \<Longrightarrow> keeps (coherent ops tm0) (header_token env path header)"
  unfolding header_token_def Let_def
  by (intro keeps_abind keeps_aget keeps_option keeps_if keeps_atry GetTokenByApikey_keeps keeps_res keeps_apanic keeps_ret)

lemma request_keeps: "ae_sql env = ops \<Longrightarrow> keeps (coherent ops tm0) (auth_transform_keycloaktoken env path header status)"
  by (auto simp: auth_transform_keycloaktoken_def keeps_ret login_token_keeps header_token_keeps split: option.splits KeycloakAuthStatus.splits)

context credential_store
begin

lemma Rbac_keeps:
  assumes "ae_sql env = ops"
  shows "keeps (coherent ops tm0) (Rbac env token p ty t ns nm role u)"
proof -
  have "keeps (coherent ops tm0) (RevokeTenantRole env token nm role u)"
    unfolding keeps_def by (rule hoare_weaken[OF revoke_handlers(1)[OF assms]]) blast+
  moreover have "keeps (coherent ops tm0) (RevokeNamespaceRole env token t nm role u)"
    unfolding keeps_def by (rule hoare_weaken[OF revoke_handlers(2)[OF assms]]) blast+
  ultimately show ?thesis
    using grant_handlers[OF assms] unfolding Rbac_def keeps_def[symmetric] by (cases ty; cases p) (auto intro: keeps_athrow)
qed

lemma auth_step_keeps: "ae_sql (op_env op) = ops \<Longrightarrow> keeps (coherent ops tm0) (auth_step op)"
  by (cases op) (simp_all add: keeps_aok GetTokenByUsername_keeps GetTokenByApikey_keeps CreateApikey_keeps DeleteApiKey_keeps Rbac_keeps request_keeps)

theorem reach_coherent:
  assumes "auth_reach ops tm db os s"
  shows "coherent ops tm s"
proof -
  have "keeps (coherent ops tm) (auth_run os)"
    using assms unfolding auth_run_def auth_reach_def list_all_iff by (intro keeps_aiter auth_step_keeps) blast
  moreover have "coherent ops tm (TokenCache_New tm db)" by (simp add: coherent_def TokenCache_New_def)
  ultimately show ?thesis using assms keepsD unfolding auth_reach_def by fastforce
qed

lemma reach_user:
  assumes "auth_reach ops tm db os s" "ae_sql env = ops" "GetTokenByUsername env u s = (Ok tok, s')"
  shows "user_ok ops (tc_db s) u tok"
  using hoareD[OF GetTokenByUsername_ok[OF assms(2), of tm "tc_db s"] _ assms(3)] reach_coherent[OF assms(1)] by (simp add: coherent_at_def)

lemma reach_key:
  assumes "auth_reach ops tm db os s" "ae_sql env = ops" "GetTokenByApikey env x s = (Ok tok, s')" "\<not> is_master env x"
  shows "key_ok ops (tc_db s) x tok"
  using hoareD[OF GetTokenByApikey_ok[OF assms(2), of tm "tc_db s"] _ assms(3)] reach_coherent[OF assms(1)] assms(4) by (simp add: coherent_at_def)

lemma reach_revoke:
  assumes "auth_reach ops tm db os s" "ae_sql env = ops" "Rbac env token Revoke ty t ns nm role u s = (Ok (), s')"
  shows "role_gone ops s' u (role_name ty t nm role)"
proof (cases ty)
  case OtTenant
  then have "RevokeTenantRole env token nm role u s = (Ok (), s')" using assms(3) by (simp add: Rbac_def split: if_splits)
  then show ?thesis using hoareD[OF revoke_handlers(1)[OF assms(2)] reach_coherent[OF assms(1)]] OtTenant by simp
next
  case OtNamespace
  then have "RevokeNamespaceRole env token t nm role u s = (Ok (), s')" using assms(3) by (simp add: Rbac_def split: if_splits)
  then show ?thesis using hoareD[OF revoke_handlers(2)[OF assms(2)] reach_coherent[OF assms(1)]] OtNamespace by simp
qed

end

lemma aiter_snoc: "aiter f (xs @ [x]) s = aseq (aiter f xs) (f x) s"
  by (induction xs arbitrary: s) (auto simp: aseq_run split: prod.splits res.splits)

lemma auth_reach_snoc:
  "auth_reach ops tm db os s \<Longrightarrow> ae_sql (op_env op) = ops \<Longrightarrow> auth_step op s = (Ok (), s') \<Longrightarrow> auth_reach ops tm db (os @ [op]) s'"
  by (simp add: auth_reach_def auth_run_def aiter_snoc aseq_run)

end
