(* ===== verification/Auth_Props.thy ===== *)
theory Auth_Props
  imports Auth_Cache
begin

text \<open>
  What access control guarantees in every run of the gateway's operations on the tables, and where it falls short. The sample
  database has an administrator of the tenant acme with a key that may only read and one that may only call functions.
\<close>

section \<open>The tables\<close>

lemma table_roles: "sq_GetRoles (SqlSecret sqlx) db u = Ok rs \<Longrightarrow> r \<in> set rs \<longleftrightarrow> (u, r) \<in> set (sd_UserRole db)"
  by (auto simp: Sec_GetRoles_def image_iff)

lemma holds_table_roles: "holds_roles (SqlSecret sqlx) db u tok \<Longrightarrow> HasRole tok r \<longleftrightarrow> (u, r) \<in> set (sd_UserRole db)"
  by (auto simp: holds_roles_def Sec_GetRoles_def image_iff)

lemma table_key: "sq_GetApikey (SqlSecret sqlx) db x = Ok key \<Longrightarrow> key \<in> set (sd_Apikey db) \<and> ak_apikey key = x"
  by (auto simp: Sec_GetApikey_Ok find_Some_iff)

lemma user_answered: "ae_sql env = SqlSecret sqlx \<Longrightarrow> \<exists>tok s'. GetTokenByUsername env u s = (Ok tok, s')"
  by (cases "Token_Timeout (ae_now env) (the (bt_get u (tc_usernameStore s)))"; cases "bt_get u (tc_usernameStore s)")
    (auto simp: GetTokenByUsername_def Let_def abind_run aseq_run Replace_run Sec_GetApikeys_def Sec_GetRoles_def)

text \<open>A key that is neither revoked nor expired and whose fields are well formed.\<close>

definition usable :: "nat \<Rightarrow> Apikey \<Rightarrow> bool" where
  "usable tm key \<longleftrightarrow> ak_revoked_at key = None \<and> (case ak_expires_at key of Some e \<Rightarrow> tm \<le> e | None \<Rightarrow> True) \<and>
     ak_access_level key \<in> set [''full'', ''inference'', ''read''] \<and> (case ak_restrict_tenant key of Some t \<Rightarrow> trim t \<noteq> '''' | None \<Rightarrow> False) \<and>
     (case ak_restrict_namespace key of Some ns \<Rightarrow> trim ns \<noteq> '''' | None \<Rightarrow> True)"

lemma usable_restricts: "usable tm key \<Longrightarrow> \<exists>k. ApplyApikeyRestrictions tm' base key = Ok k"
  by (auto simp: usable_def ApplyApikeyRestrictions_def Let_def ValidateScope_def NormalizeScope_def NormalizeRequiredTenant_def NormalizeOptionalNamespace_def
      split: option.splits)

lemma key_answered:
  assumes "ae_sql env = SqlSecret sqlx" "find (\<lambda>k. ak_apikey k = x) (sd_Apikey (tc_db s)) = Some key" "usable (ae_now env) key"
  shows "\<exists>k s'. GetTokenByApikey env x s = (Ok k, s')"
proof -
  have "\<exists>k s'. rebuild_token env x s1 = (Ok k, s')" if "tc_db s1 = tc_db s" for s1
  proof -
    obtain base s2 where base: "GetTokenByUsername env (ak_username key) s1 = (Ok base, s2)" using user_answered[OF assms(1)] by blast
    obtain k where k: "ApplyApikeyRestrictions (ae_now env) base key = Ok k" using usable_restricts[OF assms(3)] by blast
    have "ak_revoked_at key = None" "\<not> (case ak_expires_at key of Some e \<Rightarrow> e < ae_now env | None \<Rightarrow> False)"
      using assms(3) by (auto simp: usable_def split: option.splits)
    then show ?thesis using assms(1,2) that by (simp add: rebuild_token_def abind_run aseq_run Sec_GetApikey_def base k)
  qed
  then show ?thesis by (auto simp: GetTokenByApikey_run split: option.splits)
qed

section \<open>Samples\<close>

definition sql_error :: error where
  "sql_error = CommonError ''sql''"

definition sample_db :: SecretDb where
  "sample_db =
     \<lparr>sd_Apikey =
        [\<lparr>ak_apikey = ''ix_read'', ak_username = ''bob'', ak_keyname = ''r'', ak_access_level = ''read'', ak_restrict_tenant = Some ''acme'',
          ak_restrict_namespace = None, ak_expires_at = None, ak_revoked_at = None\<rparr>,
         \<lparr>ak_apikey = ''ix_call'', ak_username = ''bob'', ak_keyname = ''c'', ak_access_level = ''inference'', ak_restrict_tenant = Some ''acme'',
          ak_restrict_namespace = None, ak_expires_at = None, ak_revoked_at = None\<rparr>],
      sd_UserRole = [(''bob'', ''/tenant/admin/acme''), (''amy'', ''/tenant/user/acme''), (''root'', ''/tenant/admin/system'')], sd_UserProfile = []\<rparr>"

definition sample_env :: "SecretDb AuthEnv" where
  "sample_env =
     \<lparr>ae_sql = SqlSecret sql_error, ae_now = 5, ae_add_days = (\<lambda>n d. Ok (n + 86400000000000 * d)), ae_raw_apikey = ''ix_new'',
      ae_inferxAdminApikey = '''', ae_tenantMgr = [], ae_namespaceMgr = [], ae_repo_ready = True\<rparr>"

definition sample_start :: "SecretDb TokenCache" where
  "sample_start = TokenCache_New 0 sample_db"

lemmas sample_defs = sample_start_def sample_env_def sample_db_def sql_error_def

lemma sample_reach: "auth_reach (SqlSecret sql_error) 0 sample_db [] sample_start"
  by (simp add: auth_reach_def auth_run_def sample_start_def)

section \<open>Tokens and tables\<close>

lemma key_from_table:
  assumes "key_ok (SqlSecret sqlx) db x k"
  shows "\<exists>key t rn. key \<in> set (sd_Apikey db) \<and> ak_apikey key = x \<and> tk_username k = ak_username key \<and> tk_scope k = ak_access_level key \<and>
    NormalizeRequiredTenant (ak_restrict_tenant key) = Ok t \<and> NormalizeOptionalNamespace (ak_restrict_namespace key) = Ok rn \<and>
    tk_restrictTenant k = Some t \<and> tk_restrictNamespace k = rn \<and>
    (\<forall>r. HasRole k r \<longleftrightarrow> (ak_username key, r) \<in> set (sd_UserRole db) \<and> RoleAllowedByRestriction r t rn)"
proof -
  obtain key base tm where key: "sq_GetApikey (SqlSecret sqlx) db x = Ok key" and base: "holds_roles (SqlSecret sqlx) db (ak_username key) base"
    and k: "ApplyApikeyRestrictions tm base key = Ok k" using assms by (auto simp: key_ok_def)
  have "tk_username base = ak_username key" using base by (simp add: holds_roles_def)
  then show ?thesis using restricted_fields[OF k] table_key[OF key] holds_table_roles[OF base] by metis
qed



section \<open>Keys stay below their owners\<close>

lemma within_cong:
  assumes "within k a t ns" "plain a" "plain b" "tk_username a = tk_username b" "\<And>r. HasRole a r \<longleftrightarrow> HasRole b r"
  shows "within k b t ns"
proof -
  have "HasInferxAdminIdentity a = HasInferxAdminIdentity b" using assms by (simp add: HasInferxAdminIdentity_def)
  then show ?thesis
    using assms by (simp add: within_def IsTenantAdmin_def IsTenantUser_def IsNamespaceAdmin_def IsNamespaceUser_def IsNamespaceInferenceUser_def
        HasTenantUserPermission_def HasNamespaceAdminPermission_def HasNamespaceUserPermission_def HasTenantAdminRole_def HasTenantUserRole_def
        HasNamespaceAdminRole_def HasNamespaceUserRole_def)
qed


definition key_run :: "string \<Rightarrow> AccessToken \<times> SecretDb TokenCache" where
  "key_run x = (case GetTokenByApikey sample_env x sample_start of (Ok k, s) \<Rightarrow> (k, s) | (_, s) \<Rightarrow> (anonymous_token 0, s))"

definition user_run :: "string \<Rightarrow> AccessToken \<times> SecretDb TokenCache" where
  "user_run u = (case GetTokenByUsername sample_env u sample_start of (Ok k, s) \<Rightarrow> (k, s) | (_, s) \<Rightarrow> (anonymous_token 0, s))"

lemmas eval_defs = sample_defs TokenCache_New_def SqlSecret_def GetTokenByApikey_run is_master_def rebuild_token_def GetTokenByUsername_def Replace_run act_simps
  Let_def Sec_GetApikey_def Sec_GetApikeys_def Sec_GetRoles_def ApplyApikeyRestrictions_def NormalizeScope_def ValidateScope_def
  NormalizeRequiredTenant_def NormalizeOptionalNamespace_def AccessToken_New_def

lemmas eval_permissions = permission_defs CheckScope_def ScopeLevel_def AllowTenant_def AllowNamespace_def IsSystemScopedInferxAdminApikey_def
  HasRole_def INERX_ADMIN_def SYSTEM_TENANT_def TENANT_ADMIN_def TENANT_USER_def InferxAdminToken_def

lemma sample_values [simp]:
  "trim ''acme'' = ''acme''" "RoleAllowedByRestriction ''/tenant/admin/acme'' ''acme'' None" "bt_keys (bs_of_list [r]) = [r]"
proof -
  show "bt_keys (bs_of_list [r]) = [r]" by (simp add: bs_of_list_def bs_insert_def)
qed code_simp+

lemma sample_answers:
  "GetTokenByApikey sample_env ''ix_read'' sample_start = (Ok (fst (key_run ''ix_read'')), snd (key_run ''ix_read''))"
  "GetTokenByUsername sample_env ''bob'' sample_start = (Ok (fst (user_run ''bob'')), snd (user_run ''bob''))"
  "tk_username (fst (key_run ''ix_read'')) = ''bob''" "IsTenantUser (fst (key_run ''ix_read'')) ''acme''"
  by (simp_all add: key_run_def user_run_def eval_defs eval_permissions)


section \<open>Revocation\<close>


definition revoke_run :: "SecretDb TokenCache" where
  "revoke_run = snd (Rbac sample_env (InferxAdminToken 0) Revoke OtTenant ''system'' ''system'' ''system'' RoleAdmin ''root'' sample_start)"


section \<open>Creating and deleting keys\<close>

definition full_key :: ApikeyCreateRequest where
  "full_key = \<lparr>cq_username = '''', cq_keyname = ''x'', cq_access_level = Some ''full'', cq_restrict_tenant = Some ''acme'',
     cq_restrict_namespace = None, cq_expires_in_days = None\<rparr>"

definition created_run :: "(ApikeyCreateResponse, error) res \<times> SecretDb TokenCache" where
  "created_run = CreateApikey sample_env (fst (key_run ''ix_read'')) full_key (snd (key_run ''ix_read''))"

lemma no_admin_identity: "\<not> HasInferxAdminIdentity tok \<Longrightarrow> \<not> IsInferxAdmin tok \<and> \<not> IsSystemScopedInferxAdminApikey tok"
  by (auto simp: IsInferxAdmin_def IsSystemScopedInferxAdminApikey_def)

lemma scope_identity [simp]: "HasInferxAdminIdentity (tok\<lparr>tk_scope := sc\<rparr>) \<longleftrightarrow> HasInferxAdminIdentity tok"
  by (simp add: HasInferxAdminIdentity_def HasRole_def)

lemma read_like_full:
  assumes "\<not> HasInferxAdminIdentity tok"
  shows "IsTenantUser (tok\<lparr>tk_scope := ''read''\<rparr>) t = IsTenantUser (tok\<lparr>tk_scope := ''full''\<rparr>) t"
    "IsNamespaceUser (tok\<lparr>tk_scope := ''read''\<rparr>) t ns = IsNamespaceUser (tok\<lparr>tk_scope := ''full''\<rparr>) t ns"
  using no_admin_identity[of "tok\<lparr>tk_scope := sc\<rparr>" for sc] assms
  by (simp_all add: IsTenantUser_def IsNamespaceUser_def CheckScope_def ScopeLevel_def AllowTenant_def AllowNamespace_def HasTenantUserPermission_def
      HasNamespaceUserPermission_def HasNamespaceAdminPermission_def HasTenantUserRole_def HasTenantAdminRole_def HasNamespaceUserRole_def HasNamespaceAdminRole_def HasRole_def)

lemmas created_defs = created_run_def full_key_def key_run_def CreateApikey_def key_owner_def user_key_def Sec_CreateApikey_def btrim_def eval_defs eval_permissions

lemma trim_x [simp]: "trim ''x'' = ''x''"
  by code_simp

lemma escalation_run:
  "fst created_run = Ok \<lparr>cp_apikey = ''ix_new'', cp_keyname = ''x'', cp_access_level = ''full'', cp_restrict_tenant = Some ''acme'',
     cp_restrict_namespace = None, cp_expires_at = None\<rparr>"
  "\<not> IsTenantAdmin (fst (key_run ''ix_read'')) ''acme''"
  by (simp_all add: created_defs)

lemma created_key_is_admin: "\<exists>k s. GetTokenByApikey sample_env ''ix_new'' (snd created_run) = (Ok k, s) \<and> IsTenantAdmin k ''acme''"
proof -
  define new where "new = \<lparr>ak_apikey = ''ix_new'', ak_username = ''bob'', ak_keyname = ''x'', ak_access_level = ''full'', ak_restrict_tenant = Some ''acme'',
    ak_restrict_namespace = None, ak_expires_at = None, ak_revoked_at = None\<rparr>"
  have db: "tc_db (snd created_run) = sample_db\<lparr>sd_Apikey := sd_Apikey sample_db @ [new]\<rparr>" by (simp add: created_defs new_def)
  have cr: "CreateApikey sample_env (fst (key_run ''ix_read'')) full_key (snd (key_run ''ix_read'')) = (fst created_run, snd created_run)"
    by (simp add: created_run_def)
  have env: "ae_sql sample_env = SqlSecret sql_error" "\<not> is_master sample_env ''ix_new''" by (simp_all add: sample_env_def is_master_def)
  have "auth_reach (SqlSecret sql_error) 0 sample_db ([] @ [OpKey sample_env ''ix_read'']) (snd (key_run ''ix_read''))"
    by (rule auth_reach_snoc[OF sample_reach]) (simp_all add: env aok_run sample_answers(1))
  then have reach: "auth_reach (SqlSecret sql_error) 0 sample_db (([] @ [OpKey sample_env ''ix_read'']) @ [OpCreate sample_env (fst (key_run ''ix_read'')) full_key]) (snd created_run)"
    by (rule auth_reach_snoc) (simp_all add: env aok_run cr escalation_run(1))
  have row: "find (\<lambda>k. ak_apikey k = ''ix_new'') (sd_Apikey (tc_db (snd created_run))) = Some new" unfolding db by (simp add: sample_db_def new_def)
  have "usable (ae_now sample_env) new" by (simp add: usable_def new_def)
  then obtain k s where k: "GetTokenByApikey sample_env ''ix_new'' (snd created_run) = (Ok k, s)" using key_answered[OF env(1) row] by blast
  then obtain key where key: "key \<in> set (sd_Apikey (tc_db (snd created_run)))" "ak_apikey key = ''ix_new''" "tk_scope k = ak_access_level key"
    and fields: "NormalizeRequiredTenant (ak_restrict_tenant key) = Ok (the (tk_restrictTenant k))" "tk_restrictTenant k \<noteq> None"
      "NormalizeOptionalNamespace (ak_restrict_namespace key) = Ok (tk_restrictNamespace k)"
    and roles: "\<forall>r. HasRole k r \<longleftrightarrow> (ak_username key, r) \<in> set (sd_UserRole (tc_db (snd created_run))) \<and>
      RoleAllowedByRestriction r (the (tk_restrictTenant k)) (tk_restrictNamespace k)"
    using key_from_table[OF sec.reach_key[OF reach env(1) k env(2)]] by force
  have "key = new" using key(1,2) unfolding db by (auto simp: sample_db_def)
  then have "tk_scope k = ''full''" "tk_restrictTenant k = Some ''acme''" "tk_restrictNamespace k = None"
    using key(3) fields by (auto simp: new_def NormalizeRequiredTenant_def NormalizeOptionalNamespace_def)
  moreover have "HasRole k ''/tenant/admin/acme''" using roles \<open>key = new\<close> calculation unfolding db by (simp add: sample_db_def new_def)
  ultimately have "IsTenantAdmin k ''acme''"
    by (simp add: IsTenantAdmin_def CheckScope_def AllowTenant_def HasTenantAdminRole_def TENANT_ADMIN_def)
  then show "\<exists>k s. GetTokenByApikey sample_env ''ix_new'' (snd created_run) = (Ok k, s) \<and> IsTenantAdmin k ''acme''" using k by blast
qed

text \<open>
  C31. The access level of a key does not bind what its holder may do with keys. For a caller who is no platform administrator, creating a key
  has the same outcome whether the caller's own token may only read or do everything, and deleting a key does not look at the
  level at all. So the holder of a tenant administrator's key that may only read gets a key with full access, and with it acts as
  administrator of the tenant.
\<close>

theorem key_level_not_binding:
  assumes "\<not> HasInferxAdminIdentity tok"
  shows "CreateApikey env (tok\<lparr>tk_scope := ''read''\<rparr>) req s = CreateApikey env (tok\<lparr>tk_scope := ''full''\<rparr>) req s \<and>
    DeleteApiKey env (tok\<lparr>tk_scope := sc\<rparr>) del s = DeleteApiKey env tok del s \<and>
    (\<exists>rk s1 resp s2 k s3. GetTokenByApikey sample_env ''ix_read'' sample_start = (Ok rk, s1) \<and> \<not> IsTenantAdmin rk ''acme'' \<and>
       CreateApikey sample_env rk full_key s1 = (Ok resp, s2) \<and> GetTokenByApikey sample_env (cp_apikey resp) s2 = (Ok k, s3) \<and> IsTenantAdmin k ''acme'')"
proof (intro conjI)
  have no: "\<not> IsInferxAdmin (tok\<lparr>tk_scope := sc'\<rparr>)" for sc' using no_admin_identity[of "tok\<lparr>tk_scope := sc'\<rparr>"] assms by simp
  then have owner: "key_owner (tok\<lparr>tk_scope := sc'\<rparr>) u = key_owner tok u" for sc' u
    using no_admin_identity[OF assms] by (simp add: key_owner_def)
  have "user_key (tok\<lparr>tk_scope := ''read''\<rparr>) req = user_key (tok\<lparr>tk_scope := ''full''\<rparr>) req"
    by (simp add: user_key_def no read_like_full[OF assms] cong: option.case_cong)
  then show "CreateApikey env (tok\<lparr>tk_scope := ''read''\<rparr>) req s = CreateApikey env (tok\<lparr>tk_scope := ''full''\<rparr>) req s"
    by (simp add: CreateApikey_def owner no cong: if_cong)
  show "DeleteApiKey env (tok\<lparr>tk_scope := sc\<rparr>) del s = DeleteApiKey env tok del s" by (simp add: DeleteApiKey_def owner)
next
  obtain k s3 where k: "GetTokenByApikey sample_env ''ix_new'' (snd created_run) = (Ok k, s3)" "IsTenantAdmin k ''acme''" using created_key_is_admin by blast
  define resp where "resp = \<lparr>cp_apikey = ''ix_new'', cp_keyname = ''x'', cp_access_level = ''full'', cp_restrict_tenant = Some ''acme'',
     cp_restrict_namespace = None, cp_expires_at = None\<rparr>"
  have "CreateApikey sample_env (fst (key_run ''ix_read'')) full_key (snd (key_run ''ix_read'')) = (Ok resp, snd created_run)" "cp_apikey resp = ''ix_new''"
    using escalation_run(1) by (simp_all add: created_run_def prod_eq_iff resp_def)
  then show "\<exists>rk s1 resp s2 k s3. GetTokenByApikey sample_env ''ix_read'' sample_start = (Ok rk, s1) \<and> \<not> IsTenantAdmin rk ''acme'' \<and>
       CreateApikey sample_env rk full_key s1 = (Ok resp, s2) \<and> GetTokenByApikey sample_env (cp_apikey resp) s2 = (Ok k, s3) \<and> IsTenantAdmin k ''acme''"
    using sample_answers(1) escalation_run(2) k by metis
qed

theorem key_level_not_binding_witness:
  "\<not> HasInferxAdminIdentity (anonymous_token 0) \<and>
   CreateApikey sample_env ((anonymous_token 0)\<lparr>tk_scope := ''read''\<rparr>) full_key sample_start =
   CreateApikey sample_env ((anonymous_token 0)\<lparr>tk_scope := ''full''\<rparr>) full_key sample_start"
proof -
  have "\<not> HasInferxAdminIdentity (anonymous_token 0)"
    by (simp add: HasInferxAdminIdentity_def HasRole_def anonymous_token_def INERX_ADMIN_def)
  then show ?thesis using key_level_not_binding[of "anonymous_token 0" sample_env full_key sample_start] by blast
qed

section \<open>Lists of tenants\<close>

lemma roles_with_exact:
  assumes "bt_ok (tk_roles tok)"
  shows "set (roles_with pre tok) = {t. HasRole tok (pre @ t)}"
proof -
  have "takeWhile (starts_with pre) (bt_keys (bt_range_from pre (tk_roles tok))) = map fst (range_scan pre (tk_roles tok))"
    by (simp add: bt_keys_def range_scan_def takeWhile_map comp_def)
  also have "\<dots> = map fst (filter (\<lambda>e. starts_with pre (fst e)) (tk_roles tok))" by (simp add: range_scan_filter[OF assms])
  finally have "roles_with pre tok = map (drop (length pre)) (map fst (filter (\<lambda>e. starts_with pre (fst e)) (tk_roles tok)))"
    by (simp add: roles_with_def)
  then show ?thesis by (force simp: HasRole_def bt_contains_iff bt_keys_def starts_with_prefix)
qed



section \<open>The token of a request\<close>

text \<open>What the anonymous token allows: to look at and call what is public.\<close>

definition public_only :: "AccessToken \<Rightarrow> string \<Rightarrow> string \<Rightarrow> bool" where
  "public_only tok t ns \<longleftrightarrow> \<not> IsInferxAdmin tok \<and> \<not> IsTenantAdmin tok t \<and> \<not> IsNamespaceAdmin tok t ns \<and>
     (IsTenantUser tok t \<longleftrightarrow> t = ''public'') \<and> (IsNamespaceUser tok t ns \<longleftrightarrow> t = ''public'') \<and> (IsNamespaceInferenceUser tok t ns \<longleftrightarrow> t = ''public'')"

lemma anonymous_public_only: "public_only (anonymous_token tm) t ns"
  by (auto simp: public_only_def permission_defs CheckScope_def ScopeLevel_def HasRole_def anonymous_token_def INERX_ADMIN_def AllowTenant_def AllowNamespace_def)

lemma header_token_cases:
  assumes "header_token env path header s = (Ok (Pass tok), s')"
  shows "(\<exists>x. header = Some (Some (''Bearer '' @ x)) \<and> GetTokenByApikey env x s = (Ok tok, s')) \<or> tok = tc_anonymous s"
proof (cases "\<exists>v. header = Some (Some v) \<and> starts_with ''Bearer '' v")
  case True
  then obtain x where x: "header = Some (Some (''Bearer '' @ x))" by (auto simp: starts_with_prefix)
  then show ?thesis
    using assms by (auto simp: header_token_def Let_def abind_run atry_run starts_with_prefix split: prod.splits res.splits if_splits)
next
  case False
  then show ?thesis using assms by (auto simp: header_token_def Let_def abind_run split: option.splits if_splits)
qed

lemma login_token_cases:
  assumes "login_token env path t s = (Ok (Pass tok), s')"
  shows "\<exists>base s1. GetTokenByUsername env (kc_preferred_username t) s = (Ok base, s1) \<and> tk_username tok = tk_username base \<and> tk_roles tok = tk_roles base \<and>
    tk_scope tok = tk_scope base"
  using assms unfolding login_token_def
  by (auto simp: abind_run atry_run Let_def split: prod.splits res.splits if_splits DefaultTenantValidationError.splits)

text \<open>
  C17. A request never gets more than its credentials give. In every run, when the middleware lets a request pass, then either the identity
  provider vouched for a user and the token holds exactly that user's roles in the table; or the request carries a
  bearer key and the token is what the cache gives for this key; or the token is the anonymous one, with which only what is public can be
  seen and called. Without a verdict of the identity provider nothing passes.
\<close>

theorem request_token_sound:
  assumes "auth_reach (SqlSecret sqlx) tm db os s" "ae_sql env = SqlSecret sqlx"
    and "auth_transform_keycloaktoken env path header status s = (Ok (Pass tok), s')"
  shows "(\<exists>t. status = Some (KcSuccess t) \<and> tk_username tok = kc_preferred_username t \<and>
       (\<forall>r. HasRole tok r \<longleftrightarrow> (kc_preferred_username t, r) \<in> set (sd_UserRole (tc_db s)))) \<or>
     status = Some KcFailure \<and>
       ((\<exists>x. header = Some (Some (''Bearer '' @ x)) \<and> GetTokenByApikey env x s = (Ok tok, s')) \<or> tok = anonymous_token tm \<and> public_only tok t' ns)"
proof -
  consider t where "status = Some (KcSuccess t)" "login_token env path t s = (Ok (Pass tok), s')"
    | "status = Some KcFailure" "header_token env path header s = (Ok (Pass tok), s')"
    using assms(3) by (auto simp: auth_transform_keycloaktoken_def split: option.splits KeycloakAuthStatus.splits)
  then show ?thesis
  proof cases
    case (1 t)
    from login_token_cases[OF 1(2)] obtain base s1 where base: "GetTokenByUsername env (kc_preferred_username t) s = (Ok base, s1)"
      "tk_username tok = tk_username base" "tk_roles tok = tk_roles base" by blast
    have "holds_roles (SqlSecret sqlx) (tc_db s) (kc_preferred_username t) base" using sec.reach_user[OF assms(1,2) base(1)] by (simp add: user_ok_def)
    then show ?thesis using 1(1) base(2,3) holds_table_roles[of sqlx "tc_db s" "kc_preferred_username t" base] by (auto simp: holds_roles_def HasRole_def)
  next
    case 2
    have "tc_anonymous s = anonymous_token tm" using sec.reach_coherent[OF assms(1)] by (simp add: coherent_def)
    then show ?thesis using header_token_cases[OF 2(2)] anonymous_public_only 2(1) by metis
  qed
qed

theorem request_token_sound_witness:
  "auth_transform_keycloaktoken sample_env ''/funccall/public/x'' None (Some KcFailure) sample_start = (Ok (Pass (anonymous_token 0)), sample_start) \<and>
   public_only (anonymous_token 0) ''acme'' ''ns''"
proof -
  have env: "ae_sql sample_env = SqlSecret sql_error" by (simp add: sample_env_def)
  have run: "auth_transform_keycloaktoken sample_env ''/funccall/public/x'' None (Some KcFailure) sample_start = (Ok (Pass (anonymous_token 0)), sample_start)"
    by (simp add: auth_transform_keycloaktoken_def header_token_def abind_run sample_start_def TokenCache_New_def)
  show ?thesis using request_token_sound[OF sample_reach env run, of "''acme''" "''ns''"] run by auto
qed

end
