(* ===== verification/Spec2Isabelle.thy ===== *)
theory Spec2Isabelle
  imports Node_Laws Selector_Roundtrip Bi_Index Peer_Mgr Admission_Laws Sched_Phase Sched_Release Sched_Tasks
    Billing_Laws Place_Laws Watch_Gaps Gw_Props Auth_Props
begin

text \<open>
  A verification library for InferX, a platform that runs inference functions on GPU nodes.

  \<^bold>\<open>The program.\<close> Gateways receive requests for functions and lease a worker for each from the scheduler. The
  scheduler keeps a copy of all nodes, pods, functions, policies, tenants and snapshots, fed by informers that watch
  the state service; it decides where a pod is started, restored to standby, resumed, snapshotted or stopped, sends
  the requests to the node agents and bills the time. The state service stores the objects (in etcd) behind
  admission checks. All of them share a library of object types, labels and selectors, name validation and GPU
  accounting. A node's share of a GPU is counted in slots of memory, contexts and communication channels.

  \<^bold>\<open>Layers and theories\<close> (sources are paths under \<^verbatim>\<open>src/\<close>).

  \<^item> Prelude. \<open>Inferx_Prelude\<close>: the result type \<open>res\<close> with \<open>Ok\<close>, \<open>Err\<close> and \<open>Panic\<close>, string functions of the standard
    library, the collections of rewrite rules. \<open>BTree_Map\<close>: \<open>BTreeMap\<close> and \<open>BTreeSet\<close> as sorted association lists,
    with insertion, removal, range scans. \<open>Common\<close> (\<^verbatim>\<open>ixshare/src/common.rs\<close>): the error type, machine integers,
    addresses. \<open>Handler_Monad\<close>: actions on a state that may return, fail or panic.
  \<^item> Shared library. \<open>Resource\<close>, \<open>Resource_Laws\<close> (\<^verbatim>\<open>inferxlib/src/resource.rs\<close>); \<open>Pattern\<close>, \<open>Validation\<close>,
    \<open>Validation_Laws\<close> (\<^verbatim>\<open>validation.rs\<close>); \<open>Selector\<close>, \<open>Selector_Laws\<close>, \<open>Selector_Parser\<close>, \<open>Selector_Parser_Laws\<close>,
    \<open>Selector_Roundtrip\<close> (\<^verbatim>\<open>selector.rs\<close>); \<open>Data_Obj\<close> (\<^verbatim>\<open>data_obj.rs\<close>); \<open>Func_Obj\<close>, \<open>Func_Pod\<close>, \<open>Func_Snapshot\<close>
    (\<^verbatim>\<open>obj_mgr/\<close>, \<^verbatim>\<open>node.rs\<close>).
  \<^item> State service. \<open>Admission\<close>, \<open>Admission_Laws\<close> (\<^verbatim>\<open>ixshare/src/state_svc/admission.rs\<close> and the handlers of
    \<^verbatim>\<open>state_svc.rs\<close>); \<open>Peer_Mgr\<close> (\<^verbatim>\<open>ixshare/src/peer_mgr.rs\<close>).
  \<^item> Metadata (\<^verbatim>\<open>ixshare/src/metastore/\<close>). \<open>Selection_Pred\<close>: label and field selection of objects. \<open>Watch_Cache\<close>: the
    cache of one type of objects, its event buffer, watchers and their streams, list and watch. \<open>Informer\<close>: the copy a
    client keeps, fed by a list and a stream. \<open>Watch_Laws\<close> abstracts the ring buffer to a list and relates one event to what
    a watcher sees; \<open>Watch_Steps\<close> breaks every operation into moves; \<open>Watch_Replay\<close> has the locale \<open>cache_law\<close>, which lifts what the
    moves keep to runs, interpreted for streams (\<open>tr\<close>) and for the buffer since a list (\<open>sn\<close>); \<open>Informer_Laws\<close> puts client and
    server together; \<open>Watch_Gaps\<close> has the runs outside the theorems' hypotheses.
  \<^item> Scheduler (\<^verbatim>\<open>ixshare/src/scheduler/\<close>). \<open>Bi_Index\<close>, the index of snapshot schedules by function and by node;
    \<open>Node_Status\<close>, \<open>Node_Laws\<close>, the accounts of one node; \<open>Func_Status\<close>, the pods of a function and its queue of lease
    requests; \<open>Sched_State\<close>, the record \<open>SchedulerHandler\<close> and its lookups, task queue and delayed tasks;
    \<open>Sched_Billing\<close>, sessions, ticks and the snapshot table; \<open>Sched_Rpc\<close>, calls to node agents and what follows from
    their outcome; \<open>Sched_Place\<close>, placement, eviction, resuming, snapshots, standby pods; \<open>Sched_Gateway\<close>, connect,
    lease, return, refresh and the loss of gateways; \<open>Sched_Events\<close>, informer events and one round of the loop
    (\<open>ProcessOnce\<close>), whose iteration is \<open>sched_run\<close>.
  \<^item> Laws of the scheduler. \<open>Sched_Frame\<close>: the locale \<open>sched_view\<close>, what every operation leaves alone of an
    observation of the state. \<open>Sched_Rounds\<close>: the locale \<open>sched_inv\<close>, which lifts an invariant that the few
    operations which touch the observed part keep to every run of the loop. It is interpreted for the agreement of
    the maps (\<open>Sched_Index\<close>), the start-up phases (\<open>Sched_Phase\<close>) and the sortedness of the maps (\<open>Sched_Sorted\<close>). \<open>Sched_Lease\<close>, \<open>Sched_Release\<close>,
    \<open>Sched_Tasks\<close>, \<open>Place_Laws\<close>, \<open>Billing_Laws\<close>: single operations. \<open>Sched_Sample\<close>: sample inputs.

  \<^item> Gateway (\<^verbatim>\<open>ixshare/src/gateway/\<close>). \<open>Float64\<close>: the numbers policies hold. \<open>Gw_Agent\<close>: routes, policies, queues and the
    counters and loop of an agent, the manager of agents (\<^verbatim>\<open>func_agent_mgr.rs\<close>), the scheduler client; \<open>Gw_Worker\<close>: workers
    (\<^verbatim>\<open>func_worker.rs\<close>) and the gateway as a sequence of steps of its tasks (\<open>gw_run\<close>). \<open>Gw_Core\<close>: what counts of a state, the ways it
    may change (\<open>gw_move\<close>), and that every step is a sequence of such moves. \<open>Gw_Laws\<close>: what the moves keep; \<open>Gw_Props\<close>: the properties.
  \<^item> Access control. \<open>Auth\<close>: tokens, roles, scopes, the cache of tokens, API keys, the middleware (\<^verbatim>\<open>auth_layer.rs\<close>) and the role
    handlers of \<^verbatim>\<open>http_gw.rs\<close>, over any database. \<open>Auth_Store\<close>: the tables of keys and roles (\<^verbatim>\<open>secret.rs\<close>) and the locale
    \<open>credential_store\<close>, what the cache relies on. \<open>Auth_Laws\<close>: restriction of tokens. \<open>Auth_Cache\<close>: the cache agrees with the
    tables in every run. \<open>Auth_Props\<close>: the properties.

  \<^bold>\<open>What is shown.\<close>

  \<^item> C1--C4: GPU allocation picks the first GPUs that fit, never overcommits, is undone by freeing, and any history
    of allocations and releases conserves every quantity of a node.
  \<^item> C5, C9, C24: a watch tells exactly what the store holds, nothing is lost between a list and a watch, and an
    informer's copy is equal to the store. C11, C25: what a resumed watch and a resumed informer lose.
  \<^item> C6, C8, C12, C13, C23, C26: the gateway. Its counters and leases are right in every run, an accepted request is always in one place,
    endpoints stay within their replicas, waiting requests get a worker, which agents a request retires, returns end.
  \<^item> C7, C16--C18, C30, C31: access control. The cache of tokens shows what the tables hold, a request never gets more than its
    credentials give, a key never allows more than its owner may do, a revoked role is gone at once, lists of tenants are exact; and
    what the access level of a key does not prevent.
  \<^item> C10, C14, C15: the matchers of labels agree; the selector parser is total, and parsing undoes printing.
  \<^item> C19: the two-way index refines a map on pairs. Qualified names, scans and contract of the object store and its keys are shown by
    lemmas of \<open>Validation_Laws\<close> and \<open>Data_Obj\<close>.
  \<^item> C20--C22: the accounts of a node balance after any sequence of operations, with the one case where they do not.
  \<^item> C27--C29: objects stay in existing namespaces and tenants, limits, the gaps of the checks.
  \<^item> C32: a ready worker serves the queue of lease requests in order.
  \<^item> C33--C35: in every reachable state of the scheduler its four maps of pods agree, no scheduling happens before
    the six lists are complete, and all maps are sorted.
  \<^item> C36--C40: the GPU cap of a tenant, delayed tasks run, lost gateways release their workers, standby time is
    billed, eviction is safe.

  \<^bold>\<open>Conventions.\<close> Arithmetic is that of a debug build: an overflow of \<open>+\<close>, \<open>-\<close> or \<open>*\<close> is \<open>Panic\<close>, \<open>as\<close> casts wrap.
  \<open>unwrap\<close>, \<open>assert!\<close>, \<open>unreachable!\<close> and an index out of range are \<open>Panic\<close> too; a panic ends the run. Strings are
  lists of bytes. \<open>RwLock\<close> and \<open>Arc\<close> disappear except where two holders share a cell: the state of a worker pod is a
  cell of an explicit heap. Messages that only carry \<open>Debug\<close> output of a value keep their constant part. What the
  program asks of the outside is an argument: the record \<open>Env\<close> holds the clock, the operations of the \<open>lru\<close> crate (with
  the laws \<open>lru_laws\<close>), shuffles, ids, whether a caller still waits, configuration, answers of the store; the
  regular-expression engine and the iteration order of hash sets are arguments of the functions that use them. Effects (requests
  to node agents, answers, ticks, audit records) are appended to a trace. One round of the scheduler's loop handles one
  input; the order in which \<open>select!\<close> picks them is the order of the list given to \<open>sched_run\<close>, so statements about
  all lists cover all interleavings; the steps given to \<open>gw_run\<close> do the same for the tasks of the gateway. Loops are structural recursion or recursion with a termination proof; there is no
  fuel. Equal deadlines in the heap of delayed tasks come out in the order of insertion.

  \<^bold>\<open>Not modelled.\<close> Of the gateway HTTP, sessions, skill chains, the identity provider, onboarding, tokenizers, external endpoints and its
  databases, etcd and PostgreSQL clients, generated protocol code, the command line client,
  node configuration, logging. They are mostly input and output around libraries that are not part of the sources.
  Of modelled files, JSON conversions, debug dumps and network access are left out; the manifest lists the parts.
\<close>

end
